(* ===== verification/Prelude.thy ===== *)
theory Prelude
  imports Complex_Main "HOL-Library.AList"
begin

text \<open>
  The vocabulary every component of the console shares: JavaScript strings as lists of UTF-16
  code units, JavaScript numbers with NaN and the infinities, the string functions of the
  standard library the sources call, insertion-ordered maps, and the stable sort of
  \<open>Array.prototype.sort\<close> with the contract a comparator has to satisfy.
\<close>

named_theorems js_simps \<open>unfolding rules of the modelled standard library\<close>
named_theorems view_simps \<open>unfolding rules of rendered components\<close>
named_theorems hook_simps \<open>unfolding rules of the query and mutation hooks\<close>

subsection \<open>Strings\<close>

text \<open>A JavaScript string is its list of UTF-16 code units. ASCII literals are written
  with \<open>lit\<close>; the other literals of the sources are constants of the theory Texts.\<close>

type_synonym jsstr = "nat list"

definition lit :: "string \<Rightarrow> jsstr" where
  "lit s = map of_char s"

lemma lit_eq_iff [simp]: "lit a = lit b \<longleftrightarrow> a = b"
  by (auto simp: lit_def inj_def intro: map_injective)

lemma lit_Nil [simp]: "lit [] = []"
  by (simp add: lit_def)

lemma lit_eq_Nil_iff [simp]: "lit a = [] \<longleftrightarrow> a = []" "[] = lit a \<longleftrightarrow> a = []"
  by (auto simp: lit_def)

lemma lit_append: "lit (a @ b) = lit a @ lit b"
  by (simp add: lit_def)

lemma lit_Cons: "lit (c # s) = of_char c # lit s"
  by (simp add: lit_def)

lemma lit_lt_256: "u \<in> set (lit s) \<Longrightarrow> u < 256"
proof -
  assume "u \<in> set (lit s)"
  then obtain c where "u = of_char c" by (auto simp: lit_def)
  then show ?thesis by (cases c) (simp add: of_bool_def)
qed

text \<open>\<open>a || b\<close> on strings, \<open>a ?? b\<close> on optional values.\<close>

definition str_or :: "jsstr \<Rightarrow> jsstr \<Rightarrow> jsstr" where
  "str_or a b = (if a \<noteq> [] then a else b)"

definition opt_str :: "jsstr option \<Rightarrow> jsstr" where
  "opt_str a = (case a of None \<Rightarrow> [] | Some s \<Rightarrow> s)"

text \<open>A value that may be undefined or null is truthy when it is a nonempty string.\<close>

definition truthy :: "jsstr option \<Rightarrow> bool" where
  "truthy a \<longleftrightarrow> opt_str a \<noteq> []"

definition nullish :: "'a option \<Rightarrow> 'a \<Rightarrow> 'a" where
  "nullish a b = (case a of None \<Rightarrow> b | Some x \<Rightarrow> x)"

lemma str_or_simps [simp]: "str_or [] b = b" "str_or (x # a) b = x # a"
  by (simp_all add: str_or_def)

lemma str_or_nonempty: "a \<noteq> [] \<Longrightarrow> str_or a b = a"
  by (simp add: str_or_def)

lemma nullish_simps [simp]: "nullish None b = b" "nullish (Some x) b = x"
  by (simp_all add: nullish_def)

lemma opt_str_simps [simp]: "opt_str None = []" "opt_str (Some s) = s"
  by (simp_all add: opt_str_def)

lemma truthy_simps [simp]: "\<not> truthy None" "truthy (Some s) \<longleftrightarrow> s \<noteq> []"
  by (simp_all add: truthy_def)

text \<open>\<open>String.prototype.trim\<close>: the white space and line terminators of ECMAScript.\<close>

definition is_ws :: "nat \<Rightarrow> bool" where
  "is_ws u \<longleftrightarrow> u \<in> {9, 10, 11, 12, 13, 32, 160, 5760, 8232, 8233, 8239, 8287, 12288, 65279}
     \<or> (8192 \<le> u \<and> u \<le> 8202)"

definition js_trim :: "jsstr \<Rightarrow> jsstr" where
  "js_trim s = rev (dropWhile is_ws (rev (dropWhile is_ws s)))"

lemma js_trim_ends:
  assumes "js_trim s \<noteq> []"
  shows "\<not> is_ws (hd (js_trim s))" "\<not> is_ws (last (js_trim s))"
proof -
  let ?t = "dropWhile is_ws s"
  have ne: "dropWhile is_ws (rev ?t) \<noteq> []"
    using assms by (simp add: js_trim_def)
  then show "\<not> is_ws (last (js_trim s))"
    unfolding js_trim_def last_rev by (rule hd_dropWhile)
  have t: "?t \<noteq> []" using ne by (metis dropWhile.simps(1) rev.simps(1))
  have split: "rev ?t = takeWhile is_ws (rev ?t) @ dropWhile is_ws (rev ?t)" by simp
  have "last (rev ?t) = last (dropWhile is_ws (rev ?t))"
    using ne by (metis last_appendR split)
  then have "hd ?t = hd (js_trim s)"
    using t ne by (simp add: js_trim_def hd_rev last_rev)
  moreover have "\<not> is_ws (hd ?t)" using t by (rule hd_dropWhile)
  ultimately show "\<not> is_ws (hd (js_trim s))" by simp
qed

lemma dropWhile_hd_no: "(s \<noteq> [] \<Longrightarrow> \<not> P (hd s)) \<Longrightarrow> dropWhile P s = s"
  by (cases s) auto

lemma js_trim_idem [simp]: "js_trim (js_trim s) = js_trim s"
proof (cases "js_trim s = []")
  case True
  then show ?thesis by (simp only: True) (simp add: js_trim_def)
next
  case False
  have "dropWhile is_ws (js_trim s) = js_trim s"
    using False js_trim_ends(1) by (auto intro: dropWhile_hd_no)
  moreover have "dropWhile is_ws (rev (js_trim s)) = rev (js_trim s)"
    using False js_trim_ends(2) by (auto intro: dropWhile_hd_no simp: hd_rev)
  ultimately show ?thesis by (metis js_trim_def rev_rev_ident)
qed

text \<open>\<open>startsWith\<close>, \<open>includes\<close> on arrays, \<open>join\<close>, and \<open>split\<close> on one code unit.\<close>

definition starts_with :: "jsstr \<Rightarrow> jsstr \<Rightarrow> bool" where
  "starts_with s p \<longleftrightarrow> take (length p) s = p"

lemma starts_with_iff: "starts_with s p \<longleftrightarrow> (\<exists>r. s = p @ r)"
proof
  assume "starts_with s p"
  then have "s = p @ drop (length p) s"
    by (metis append_take_drop_id starts_with_def)
  then show "\<exists>r. s = p @ r" by blast
qed (auto simp: starts_with_def)

fun js_join :: "jsstr \<Rightarrow> jsstr list \<Rightarrow> jsstr" where
  "js_join sep [] = []"
| "js_join sep [x] = x"
| "js_join sep (x # y # xs) = x @ sep @ js_join sep (y # xs)"

fun split_on :: "nat \<Rightarrow> jsstr \<Rightarrow> jsstr list" where
  "split_on c [] = [[]]"
| "split_on c (x # xs) =
     (if x = c then [] # split_on c xs
      else case split_on c xs of [] \<Rightarrow> [[x]] | w # ws \<Rightarrow> (x # w) # ws)"

lemma split_on_nonempty [simp]: "split_on c s \<noteq> []"
  by (induction s) (auto split: list.splits)

lemma split_on_none: "c \<notin> set s \<Longrightarrow> split_on c s = [s]"
  by (induction s) auto

lemma split_on_append:
  "c \<notin> set a \<Longrightarrow> split_on c (a @ c # b) = a # split_on c b"
  by (induction a) auto

lemma split_on_join:
  assumes "xs \<noteq> []" "\<forall>x \<in> set xs. c \<notin> set x"
  shows "split_on c (js_join [c] xs) = xs"
  using assms
proof (induction xs)
  case (Cons x xs)
  show ?case
  proof (cases xs)
    case (Cons y ys)
    with Cons.prems Cons.IH show ?thesis by (simp add: split_on_append)
  qed (use Cons.prems in \<open>simp add: split_on_none\<close>)
qed simp

text \<open>\<open>split(/\s+/)\<close>: the maximal runs of white space separate the pieces.\<close>

fun split_ws :: "jsstr \<Rightarrow> jsstr list" where
  "split_ws [] = [[]]"
| "split_ws (x # xs) =
     (if is_ws x then (case xs of [] \<Rightarrow> [[], []]
        | y # _ \<Rightarrow> if is_ws y then split_ws xs else [] # split_ws xs)
      else case split_ws xs of [] \<Rightarrow> [[x]] | w # ws \<Rightarrow> (x # w) # ws)"

text \<open>\<open>toLowerCase\<close> and \<open>replaceAll\<close> on the ASCII identifiers they are applied to:
  other code units are left unchanged.\<close>

definition ascii_lower :: "jsstr \<Rightarrow> jsstr" where
  "ascii_lower s = map (\<lambda>u. if 65 \<le> u \<and> u \<le> 90 then u + 32 else u) s"

definition replace_unit :: "nat \<Rightarrow> nat \<Rightarrow> jsstr \<Rightarrow> jsstr" where
  "replace_unit a b s = map (\<lambda>u. if u = a then b else u) s"

subsection \<open>Numbers\<close>

text \<open>A JavaScript number is NaN, an infinity or a finite double. A finite double is its
  exact rational value; the rounding of arithmetic to 53 bits is not modelled.\<close>

datatype jsnum = NaN | Infinity bool | Fin rat

fun is_finite :: "jsnum \<Rightarrow> bool" where
  "is_finite (Fin _) = True"
| "is_finite _ = False"

text \<open>Comparison with a finite bound: every comparison with NaN is false.\<close>

fun num_ge :: "jsnum \<Rightarrow> rat \<Rightarrow> bool" where
  "num_ge (Fin x) b = (b \<le> x)"
| "num_ge (Infinity pos) b = pos"
| "num_ge NaN b = False"

fun num_le :: "jsnum \<Rightarrow> rat \<Rightarrow> bool" where
  "num_le (Fin x) b = (x \<le> b)"
| "num_le (Infinity pos) b = (\<not> pos)"
| "num_le NaN b = False"

fun num_gt :: "jsnum \<Rightarrow> rat \<Rightarrow> bool" where
  "num_gt (Fin x) b = (b < x)"
| "num_gt (Infinity pos) b = pos"
| "num_gt NaN b = False"

text \<open>\<open>Number.isSafeInteger\<close>, the test behind \<open>z.int()\<close>.\<close>

fun is_safe_int :: "jsnum \<Rightarrow> bool" where
  "is_safe_int (Fin x) = (x = of_int \<lfloor>x\<rfloor> \<and> \<bar>x\<bar> \<le> 9007199254740991)"
| "is_safe_int _ = False"

text \<open>\<open>Math.round\<close> rounds halves up, \<open>Math.ceil\<close> is the ceiling.\<close>

definition math_round :: "rat \<Rightarrow> int" where
  "math_round x = \<lfloor>x + 1 / 2\<rfloor>"

lemma math_round_mono: "x \<le> y \<Longrightarrow> math_round x \<le> math_round y"
  unfolding math_round_def by (rule floor_mono) simp

lemma math_round_of_int [simp]: "math_round (of_int n) = n"
  unfolding math_round_def by linarith

lemma math_round_close: "\<bar>of_int (math_round x) - x\<bar> \<le> 1 / 2"
  unfolding math_round_def by linarith

text \<open>Decimal digits: \<open>String(n)\<close> of an integer, and \<open>toFixed\<close> for a fixed number
  of fraction digits (below \<open>10 ^ 21\<close>, the range of every value the sources format).\<close>

fun dec_digits :: "nat \<Rightarrow> jsstr" where
  "dec_digits n = (if n < 10 then [48 + n] else dec_digits (n div 10) @ [48 + n mod 10])"

declare dec_digits.simps [simp del]

definition show_int :: "int \<Rightarrow> jsstr" where
  "show_int i = (if i < 0 then lit ''-'' @ dec_digits (nat (- i)) else dec_digits (nat i))"

definition pad_zeros :: "nat \<Rightarrow> jsstr \<Rightarrow> jsstr" where
  "pad_zeros k s = replicate (k - length s) 48 @ s"

definition to_fixed :: "nat \<Rightarrow> rat \<Rightarrow> jsstr" where
  "to_fixed d x =
     (let m = nat (math_round (\<bar>x\<bar> * 10 ^ d)); ds = pad_zeros (Suc d) (dec_digits m);
          body = (if d = 0 then dec_digits m
                  else take (length ds - d) ds @ lit ''.'' @ drop (length ds - d) ds)
      in if x < 0 then lit ''-'' @ body else body)"

text \<open>\<open>String(x)\<close> for a finite number: an integer, or a decimal fraction of at most
  24 digits.\<close>

definition num_text :: "rat \<Rightarrow> jsstr" where
  "num_text x =
     (case find (\<lambda>k. of_int (math_round (x * 10 ^ k)) = x * 10 ^ k) [0..<24] of
        None \<Rightarrow> to_fixed 24 x
      | Some k \<Rightarrow> if k = 0 then show_int (math_round x) else to_fixed k x)"

lemma dec_digits_nonempty [simp]: "dec_digits n \<noteq> []"
  by (subst dec_digits.simps) simp

lemma dec_digits_range: "u \<in> set (dec_digits n) \<Longrightarrow> 48 \<le> u \<and> u \<le> 57"
proof (induction n rule: dec_digits.induct)
  case (1 n)
  show ?case
  proof (cases "n < 10")
    case True
    with 1(2) show ?thesis by (subst (asm) dec_digits.simps) auto
  next
    case False
    have "n mod 10 \<le> 9" by presburger
    with False 1 show ?thesis by (subst (asm) dec_digits.simps) (auto split: if_splits)
  qed
qed

text \<open>Reading the digits back gives the number, so \<open>String(n)\<close> is injective.\<close>

definition digits_value :: "jsstr \<Rightarrow> nat" where
  "digits_value s = foldl (\<lambda>a u. 10 * a + (u - 48)) 0 s"

lemma digits_value_dec_digits: "digits_value (dec_digits n) = n"
proof (induction n rule: dec_digits.induct)
  case (1 n)
  show ?case
  proof (cases "n < 10")
    case True
    then show ?thesis by (subst dec_digits.simps) (simp add: digits_value_def)
  next
    case False
    with 1 have "digits_value (dec_digits (n div 10)) = n div 10" by simp
    with False show ?thesis by (subst dec_digits.simps) (simp add: digits_value_def)
  qed
qed

lemma lit_minus: "lit ''-'' = [45]"
  by (simp add: lit_def)

lemma minus_not_digit: "45 # a \<noteq> dec_digits n"
proof
  assume "45 # a = dec_digits n"
  then have "45 \<in> set (dec_digits n)" by (metis list.set_intros(1))
  then show False using dec_digits_range by fastforce
qed

lemma dec_digits_inject [simp]: "dec_digits m = dec_digits n \<longleftrightarrow> m = n"
  by (metis digits_value_dec_digits)

lemma show_int_inject [simp]: "show_int i = show_int j \<longleftrightarrow> i = j"
  using minus_not_digit [of "dec_digits (nat (- i))"] minus_not_digit [of "dec_digits (nat (- j))"]
  by (auto simp: show_int_def lit_minus dest: sym)

lemma show_int_range: "u \<in> set (show_int i) \<Longrightarrow> u = 45 \<or> 48 \<le> u \<and> u \<le> 57"
  by (auto simp: show_int_def lit_minus dest: dec_digits_range split: if_splits)

lemma num_text_of_int [simp]: "num_text (of_int n) = show_int n"
  by (simp add: num_text_def upt_conv_Cons)

lemma show_int_nonempty [simp]: "show_int i \<noteq> []"
  by (simp add: show_int_def)

subsection \<open>JSON\<close>

text \<open>The values \<open>JSON.parse\<close> returns and \<open>JSON.stringify\<close> sends, and
  the coercion of such a value to a string.\<close>

datatype json = JNull | JBool bool | JNum rat | JStr jsstr | JArr "json list"
  | JObj "(jsstr \<times> json) list"

definition show_bool :: "bool \<Rightarrow> jsstr" where
  "show_bool b = (if b then lit ''true'' else lit ''false'')"

lemma show_bool_inject [simp]: "show_bool a = show_bool b \<longleftrightarrow> a = b"
  by (simp add: show_bool_def)

fun json_text :: "json \<Rightarrow> jsstr" where
  "json_text JNull = lit ''null''"
| "json_text (JBool b) = show_bool b"
| "json_text (JNum x) = num_text x"
| "json_text (JStr s) = s"
| "json_text (JArr xs) =
     js_join (lit '','') (map (\<lambda>x. case x of JNull \<Rightarrow> [] | _ \<Rightarrow> json_text x) xs)"
| "json_text (JObj _) = lit ''[object Object]''"

text \<open>\<open>v?.key\<close> on a value that may be undefined.\<close>

definition json_member :: "string \<Rightarrow> json option \<Rightarrow> json option" where
  "json_member k v = (case v of Some (JObj kvs) \<Rightarrow> map_of kvs (lit k) | _ \<Rightarrow> None)"

text \<open>\<open>v ?? d\<close>: null and undefined are replaced.\<close>

definition json_nullish :: "json option \<Rightarrow> 'a \<Rightarrow> (json \<Rightarrow> 'a) \<Rightarrow> 'a" where
  "json_nullish v d f = (case v of None \<Rightarrow> d | Some JNull \<Rightarrow> d | Some j \<Rightarrow> f j)"

subsection \<open>Insertion-ordered maps\<close>

text \<open>A JavaScript \<open>Map\<close> iterates in insertion order and keeps the place of a key that
  is set again: an association list under \<^const>\<open>AList.update\<close>.\<close>

type_synonym ('k, 'v) jsmap = "('k \<times> 'v) list"

definition map_set :: "'k \<Rightarrow> 'v \<Rightarrow> ('k, 'v) jsmap \<Rightarrow> ('k, 'v) jsmap" where
  "map_set k v m = AList.update k v m"

definition map_get :: "('k, 'v) jsmap \<Rightarrow> 'k \<Rightarrow> 'v option" where
  "map_get m k = map_of m k"

lemma map_get_empty [simp]: "map_get [] k = None"
  by (simp add: map_get_def)

lemma map_get_set [simp]: "map_get (map_set k v m) k' = (if k' = k then Some v else map_get m k')"
  by (simp add: map_get_def map_set_def update_conv')

lemma map_set_distinct [intro]: "distinct (map fst m) \<Longrightarrow> distinct (map fst (map_set k v m))"
  by (simp add: map_set_def distinct_update)

lemma map_set_keys [simp]: "fst ` set (map_set k v m) = insert k (fst ` set m)"
  by (simp add: map_set_def dom_update [unfolded set_map])

lemma map_get_in: "distinct (map fst m) \<Longrightarrow> (k, v) \<in> set m \<longleftrightarrow> map_get m k = Some v"
  by (auto simp: map_get_def)

subsection \<open>Stable sorting with a comparator\<close>

text \<open>\<open>Array.prototype.sort(cmp)\<close> is a stable sort. For a consistent comparator the
  result is determined, and stable insertion computes it.\<close>

fun js_insert :: "('a \<Rightarrow> 'a \<Rightarrow> rat) \<Rightarrow> 'a \<Rightarrow> 'a list \<Rightarrow> 'a list" where
  "js_insert cmp x [] = [x]"
| "js_insert cmp x (y # ys) = (if cmp x y \<le> 0 then x # y # ys else y # js_insert cmp x ys)"

fun js_sort :: "('a \<Rightarrow> 'a \<Rightarrow> rat) \<Rightarrow> 'a list \<Rightarrow> 'a list" where
  "js_sort cmp [] = []"
| "js_sort cmp (x # xs) = js_insert cmp x (js_sort cmp xs)"

lemma set_js_insert [simp]: "set (js_insert cmp x ys) = insert x (set ys)"
  by (induction ys) auto

lemma set_js_sort [simp]: "set (js_sort cmp xs) = set xs"
  by (induction xs) auto

lemma length_js_insert [simp]: "length (js_insert cmp x ys) = Suc (length ys)"
  by (induction ys) auto

lemma length_js_sort [simp]: "length (js_sort cmp xs) = length xs"
  by (induction xs) auto

lemma js_sort_Nil_iff [simp]: "js_sort cmp xs = [] \<longleftrightarrow> xs = []"
  by (metis length_0_conv length_js_sort)

lemma count_js_insert: "count_list (js_insert cmp x ys) z = count_list (x # ys) z"
  by (induction ys) auto

lemma count_js_sort: "count_list (js_sort cmp xs) z = count_list xs z"
  by (induction xs) (auto simp: count_js_insert)

lemma distinct_js_insert [simp]: "distinct (js_insert cmp x ys) \<longleftrightarrow> x \<notin> set ys \<and> distinct ys"
  by (induction ys) auto

lemma distinct_js_sort [simp]: "distinct (js_sort cmp xs) \<longleftrightarrow> distinct xs"
  by (induction xs) auto

lemma sum_list_js_insert: "sum_list (map f (js_insert cmp x ys)) = f x + sum_list (map f ys)"
  for f :: "'a \<Rightarrow> 'b::comm_monoid_add"
  by (induction ys) (auto simp: ac_simps)

lemma sum_list_js_sort [simp]: "sum_list (map f (js_sort cmp xs)) = sum_list (map f xs)"
  for f :: "'a \<Rightarrow> 'b::comm_monoid_add"
  by (induction xs) (auto simp: sum_list_js_insert)

text \<open>The contract between \<open>sort\<close> and the comparator passed to it.\<close>

locale js_comparator =
  fixes cmp :: "'a \<Rightarrow> 'a \<Rightarrow> rat"
  assumes total: "cmp x y \<le> 0 \<or> cmp y x \<le> 0"
    and trans: "cmp x y \<le> 0 \<Longrightarrow> cmp y z \<le> 0 \<Longrightarrow> cmp x z \<le> 0"
begin

lemma sorted_insert:
  "sorted_wrt (\<lambda>x y. cmp x y \<le> 0) ys \<Longrightarrow> sorted_wrt (\<lambda>x y. cmp x y \<le> 0) (js_insert cmp x ys)"
  by (induction ys) (use total trans in \<open>fastforce+\<close>)

lemma sorted_sort: "sorted_wrt (\<lambda>x y. cmp x y \<le> 0) (js_sort cmp xs)"
  by (induction xs) (auto intro: sorted_insert)

lemma stable_insert:
  assumes "\<And>y. P y \<Longrightarrow> P x \<Longrightarrow> cmp x y \<le> 0"
  shows "filter P (js_insert cmp x ys) = filter P (x # ys)"
  using assms by (induction ys) auto

text \<open>Stability: elements the comparator does not separate keep their order.\<close>

lemma stable_sort:
  assumes "\<And>x y. P x \<Longrightarrow> P y \<Longrightarrow> cmp x y \<le> 0"
  shows "filter P (js_sort cmp xs) = filter P xs"
  by (induction xs) (use assms in \<open>auto simp: stable_insert\<close>)

lemma head_least:
  assumes "js_sort cmp xs = y # ys" "x \<in> set xs"
  shows "cmp y x \<le> 0"
proof -
  have "x \<in> set (y # ys)" using assms set_js_sort by metis
  moreover have "cmp y y \<le> 0" using total by blast
  moreover have "\<forall>z \<in> set ys. cmp y z \<le> 0"
    using sorted_sort [of xs] assms(1) by simp
  ultimately show ?thesis by auto
qed

end

text \<open>The numeric comparators of the sources subtract a key of the two elements.\<close>

lemma js_comparator_comap: "js_comparator cmp \<Longrightarrow> js_comparator (\<lambda>a b. cmp (f a) (f b))"
  unfolding js_comparator_def by blast

definition by_key :: "('a \<Rightarrow> rat) \<Rightarrow> 'a \<Rightarrow> 'a \<Rightarrow> rat" where
  "by_key f x y = f x - f y"

interpretation by_key: js_comparator "by_key f" for f :: "'a \<Rightarrow> rat"
  by unfold_locales (auto simp: by_key_def)

lemma sorted_by_key: "sorted (map f (js_sort (by_key f) xs))"
  using by_key.sorted_sort [of f xs] by (simp add: by_key_def sorted_map)

end
