(* ===== verification/Web_Encoding.thy ===== *)
theory Web_Encoding
  imports Prelude
begin

text \<open>
  The text encodings of the platform behind every URL the console builds: UTF-16 to code
  points, UTF-8, \<open>encodeURIComponent\<close> and \<open>decodeURIComponent\<close> of ECMAScript, and the
  \<open>application/x-www-form-urlencoded\<close> serializer and parser of \<open>URLSearchParams\<close>,
  with the round trips between them.
\<close>

subsection \<open>UTF-16 and code points\<close>

datatype cpoint = CP nat | Lone nat

definition is_high :: "nat \<Rightarrow> bool" where "is_high u \<longleftrightarrow> 0xD800 \<le> u \<and> u \<le> 0xDBFF"
definition is_low :: "nat \<Rightarrow> bool" where "is_low u \<longleftrightarrow> 0xDC00 \<le> u \<and> u \<le> 0xDFFF"

definition unit_cp :: "nat \<Rightarrow> cpoint" where
  "unit_cp u = (if is_high u \<or> is_low u then Lone u else CP u)"

fun code_points :: "jsstr \<Rightarrow> cpoint list" where
  "code_points [] = []"
| "code_points [u] = [unit_cp u]"
| "code_points (u # v # s) =
     (if is_high u \<and> is_low v
      then CP (0x10000 + (u - 0xD800) * 0x400 + (v - 0xDC00)) # code_points s
      else unit_cp u # code_points (v # s))"

definition utf16 :: "nat \<Rightarrow> jsstr" where
  "utf16 n = (if n < 0x10000 then [n]
     else [0xD800 + (n - 0x10000) div 0x400, 0xDC00 + (n - 0x10000) mod 0x400])"

text \<open>A string is well formed when its surrogates are paired.\<close>

fun cp_value :: "cpoint \<Rightarrow> nat option" where
  "cp_value (CP n) = Some n"
| "cp_value (Lone _) = None"

definition scalar :: "nat \<Rightarrow> bool" where
  "scalar n \<longleftrightarrow> n < 0x110000 \<and> \<not> (0xD800 \<le> n \<and> n \<le> 0xDFFF)"

definition well_formed :: "jsstr \<Rightarrow> bool" where
  "well_formed s \<longleftrightarrow> list_all (\<lambda>u. u < 0x10000) s
     \<and> list_all (\<lambda>c. cp_value c \<noteq> None) (code_points s)"

text \<open>The conversion to a scalar value string replaces lone surrogates by U+FFFD.\<close>

fun usv :: "cpoint \<Rightarrow> nat" where
  "usv (CP n) = n"
| "usv (Lone _) = 0xFFFD"

definition scalars :: "jsstr \<Rightarrow> nat list" where
  "scalars s = map usv (code_points s)"

lemma utf16_pair:
  assumes "is_high u" "is_low v"
  shows "utf16 (0x10000 + (u - 0xD800) * 0x400 + (v - 0xDC00)) = [u, v]"
proof -
  obtain a b where ab: "u = 0xD800 + a" "v = 0xDC00 + b" "a < 0x400" "b < 0x400"
    using assms by (auto simp: is_high_def is_low_def dest!: le_Suc_ex)
  then show ?thesis by (simp add: utf16_def)
qed

lemma utf16_unit: "u < 0x10000 \<Longrightarrow> utf16 u = [u]"
  by (simp add: utf16_def)

lemma scalars_utf16:
  "well_formed s \<Longrightarrow> concat (map utf16 (scalars s)) = s"
proof (induction s rule: code_points.induct)
  case (3 u v s)
  show ?case
  proof (cases "is_high u \<and> is_low v")
    case True
    with 3 show ?thesis by (simp add: scalars_def well_formed_def utf16_pair)
  next
    case False
    with 3 show ?thesis
      by (auto simp: scalars_def well_formed_def utf16_unit unit_cp_def split: if_splits)
  qed
qed (auto simp: scalars_def well_formed_def utf16_unit unit_cp_def split: if_splits)

lemma scalars_scalar:
  "list_all (\<lambda>u. u < 0x10000) s \<Longrightarrow> n \<in> set (scalars s) \<Longrightarrow> scalar n"
proof (induction s rule: code_points.induct)
  case (3 u v s)
  then show ?case
    by (auto simp: scalars_def scalar_def is_high_def is_low_def unit_cp_def split: if_splits)
qed (auto simp: scalars_def scalar_def unit_cp_def is_high_def is_low_def split: if_splits)

lemma code_points_ascii:
  "\<forall>u \<in> set s. u < 0xD800 \<Longrightarrow> code_points s = map CP s"
  by (induction s rule: code_points.induct) (auto simp: unit_cp_def is_high_def is_low_def)

lemma well_formed_ascii: "\<forall>u \<in> set s. u < 0xD800 \<Longrightarrow> well_formed s"
  by (auto simp: well_formed_def code_points_ascii list_all_iff)

lemma scalars_ascii: "\<forall>u \<in> set s. u < 0xD800 \<Longrightarrow> scalars s = s"
  by (simp add: scalars_def code_points_ascii comp_def)

subsection \<open>UTF-8\<close>

definition utf8 :: "nat \<Rightarrow> nat list" where
  "utf8 n =
     (if n < 0x80 then [n]
      else if n < 0x800 then [0xC0 + n div 64, 0x80 + n mod 64]
      else if n < 0x10000 then [0xE0 + n div 4096, 0x80 + n div 64 mod 64, 0x80 + n mod 64]
      else [0xF0 + n div 262144, 0x80 + n div 4096 mod 64, 0x80 + n div 64 mod 64,
            0x80 + n mod 64])"

text \<open>The decoder of the Encoding standard: a state machine over the bytes with the number
  of bytes still needed, the code point so far and the bounds of the next byte. A byte out of
  bounds yields U+FFFD and is read again from the start state.\<close>

record u8state =
  u8_needed :: nat
  u8_cp :: nat
  u8_lower :: nat
  u8_upper :: nat

definition u8_start :: "nat \<Rightarrow> nat list \<times> u8state" where
  "u8_start b =
     (let idle = \<lparr>u8_needed = 0, u8_cp = 0, u8_lower = 0x80, u8_upper = 0xBF\<rparr> in
      if b < 0x80 then ([b], idle)
      else if 0xC2 \<le> b \<and> b \<le> 0xDF then ([], idle\<lparr>u8_needed := 1, u8_cp := b - 0xC0\<rparr>)
      else if 0xE0 \<le> b \<and> b \<le> 0xEF then
        ([], idle\<lparr>u8_needed := 2, u8_cp := b - 0xE0,
                  u8_lower := (if b = 0xE0 then 0xA0 else 0x80),
                  u8_upper := (if b = 0xED then 0x9F else 0xBF)\<rparr>)
      else if 0xF0 \<le> b \<and> b \<le> 0xF4 then
        ([], idle\<lparr>u8_needed := 3, u8_cp := b - 0xF0,
                  u8_lower := (if b = 0xF0 then 0x90 else 0x80),
                  u8_upper := (if b = 0xF4 then 0x8F else 0xBF)\<rparr>)
      else ([0xFFFD], idle))"

definition u8_idle :: u8state where
  "u8_idle = \<lparr>u8_needed = 0, u8_cp = 0, u8_lower = 0x80, u8_upper = 0xBF\<rparr>"

definition u8_step :: "u8state \<Rightarrow> nat \<Rightarrow> nat list \<times> u8state" where
  "u8_step st b =
     (if u8_needed st = 0 then u8_start b
      else if b < u8_lower st \<or> u8_upper st < b then
        (case u8_start b of (out, st') \<Rightarrow> (0xFFFD # out, st'))
      else if u8_needed st = 1 then ([u8_cp st * 64 + (b - 0x80)], u8_idle)
      else ([], st\<lparr>u8_needed := u8_needed st - 1, u8_cp := u8_cp st * 64 + (b - 0x80),
                   u8_lower := 0x80, u8_upper := 0xBF\<rparr>))"

fun u8_run :: "u8state \<Rightarrow> nat list \<Rightarrow> nat list" where
  "u8_run st [] = (if u8_needed st = 0 then [] else [0xFFFD])"
| "u8_run st (b # bs) = (case u8_step st b of (out, st') \<Rightarrow> out @ u8_run st' bs)"

definition utf8_decode :: "nat list \<Rightarrow> nat list" where
  "utf8_decode bs = u8_run u8_idle bs"

lemma utf8_byte: "scalar n \<Longrightarrow> b \<in> set (utf8 n) \<Longrightarrow> b < 256"
  by (auto simp: utf8_def scalar_def split: if_splits)

lemma base64_digits:
  obtains a b c where "n = 4096 * a + 64 * b + c" "b < 64" "c < 64"
    "n div 4096 = a" "n div 64 mod 64 = b" "n mod 64 = (c::nat)"
proof
  have "n div 64 = n div 4096 * 64 + n div 64 mod 64"
    using div_mult_mod_eq [of "n div 64" 64] by (simp flip: div_mult2_eq)
  then show "n = 4096 * (n div 4096) + 64 * (n div 64 mod 64) + n mod 64"
    using div_mult_mod_eq [of n 64] by linarith
qed simp_all

lemma u8_run_utf8:
  assumes "scalar n"
  shows "u8_run u8_idle (utf8 n @ bs) = n # u8_run u8_idle bs"
proof -
  consider "n < 0x80" | "0x80 \<le> n" "n < 0x800" | "0x800 \<le> n" "n < 0x10000" | "0x10000 \<le> n"
    by linarith
  then show ?thesis
  proof cases
    case 1
    then show ?thesis
      by (simp add: utf8_def u8_step_def u8_start_def u8_idle_def Let_def)
  next
    case 2
    obtain q r where n: "n = 64 * q + r" "r < 64" by (metis mod_less_divisor mult_div_mod_eq zero_less_numeral)
    with 2 have "2 \<le> q" "q < 32" by linarith+
    with 2 n show ?thesis
      by (simp add: utf8_def u8_step_def u8_start_def u8_idle_def Let_def)
  next
    case 3
    obtain a b c where n: "n = 4096 * a + 64 * b + c" "b < 64" "c < 64"
      and d: "n div 4096 = a" "n div 64 mod 64 = b" "n mod 64 = c"
      by (rule base64_digits)
    have "a < 16" using 3 n by linarith
    moreover have "a = 0 \<Longrightarrow> 32 \<le> b" using 3 n by linarith
    moreover have "a = 13 \<Longrightarrow> b \<le> 31" using assms n by (auto simp: scalar_def)
    ultimately show ?thesis
      using 3 n(2,3) unfolding utf8_def d
      by (auto simp: u8_step_def u8_start_def u8_idle_def Let_def n(1))
  next
    case 4
    obtain a b c where n1: "n = 4096 * a + 64 * b + c" "b < 64" "c < 64"
      and d1: "n div 4096 = a" "n div 64 mod 64 = b" "n mod 64 = c"
      by (rule base64_digits)
    have d: "n div 262144 = a div 64" "n div 4096 mod 64 = a mod 64"
      by (simp_all flip: d1(1) div_mult2_eq)
    obtain a1 a2 where a: "a div 64 = a1" "a mod 64 = a2" "a = a1 * 64 + a2" "a2 < 64"
      using div_mult_mod_eq [of a 64] mod_less_divisor [of 64 a] by (metis zero_less_numeral)
    have lt: "n < 0x110000" using assms by (simp add: scalar_def)
    have "a1 < 5" using lt n1 a(3,4) by linarith
    moreover have "a1 = 0 \<Longrightarrow> 16 \<le> a2" using 4 n1 a(3,4) by linarith
    moreover have "a1 = 4 \<Longrightarrow> a2 \<le> 15" using lt n1 a(3,4) by linarith
    ultimately show ?thesis
      using 4 n1(2,3) a(4) unfolding utf8_def d d1(2,3) a(1,2)
      by (auto simp: u8_step_def u8_start_def u8_idle_def Let_def n1(1) a(3))
  qed
qed

lemma u8_idle_needed [simp]: "u8_needed u8_idle = 0"
  by (simp add: u8_idle_def)

lemma utf8_round_trip:
  "\<forall>n \<in> set ns. scalar n \<Longrightarrow> utf8_decode (concat (map utf8 ns)) = ns"
  unfolding utf8_decode_def
  by (induction ns) (auto simp: u8_run_utf8)

subsection \<open>Percent encoding\<close>

definition hex_digit :: "nat \<Rightarrow> nat" where
  "hex_digit d = (if d < 10 then 48 + d else 55 + d)"

definition hex_value :: "nat \<Rightarrow> nat option" where
  "hex_value u =
     (if 48 \<le> u \<and> u \<le> 57 then Some (u - 48)
      else if 65 \<le> u \<and> u \<le> 70 then Some (u - 55)
      else if 97 \<le> u \<and> u \<le> 102 then Some (u - 87) else None)"

definition pct :: "nat \<Rightarrow> jsstr" where
  "pct b = [37, hex_digit (b div 16), hex_digit (b mod 16)]"

lemma hex_value_digit [simp]: "d < 16 \<Longrightarrow> hex_value (hex_digit d) = Some d"
  by (auto simp: hex_value_def hex_digit_def)

lemma hex_digit_alnum: "d < 16 \<Longrightarrow> (48 \<le> hex_digit d \<and> hex_digit d \<le> 57) \<or> (65 \<le> hex_digit d \<and> hex_digit d \<le> 70)"
  by (auto simp: hex_digit_def)

definition is_alnum :: "nat \<Rightarrow> bool" where
  "is_alnum u \<longleftrightarrow> (48 \<le> u \<and> u \<le> 57) \<or> (65 \<le> u \<and> u \<le> 90) \<or> (97 \<le> u \<and> u \<le> 122)"

subsection \<open>encodeURIComponent and decodeURIComponent\<close>

datatype js_error = URIError | RangeError | TypeError | SyntaxError
  | ApiError jsstr int "json option" | OtherError jsstr

definition uri_unreserved :: "nat \<Rightarrow> bool" where
  "uri_unreserved u \<longleftrightarrow> is_alnum u \<or> u \<in> {33, 39, 40, 41, 42, 45, 46, 95, 126}"

definition uri_cp :: "nat \<Rightarrow> jsstr" where
  "uri_cp n = (if uri_unreserved n then [n] else concat (map pct (utf8 n)))"

definition encodeURIComponent :: "jsstr \<Rightarrow> js_error + jsstr" where
  "encodeURIComponent s =
     (if list_all (\<lambda>c. cp_value c \<noteq> None) (code_points s)
      then Inr (concat (map uri_cp (scalars s))) else Inl URIError)"

text \<open>One percent escape, the continuation bytes of a multi-byte sequence, and the decoder.\<close>

fun take_pct :: "jsstr \<Rightarrow> (nat \<times> jsstr) option" where
  "take_pct (p # a # b # s) =
     (if p = 37 then (case (hex_value a, hex_value b) of
          (Some x, Some y) \<Rightarrow> Some (16 * x + y, s) | _ \<Rightarrow> None) else None)"
| "take_pct _ = None"

fun take_pcts :: "nat \<Rightarrow> jsstr \<Rightarrow> (nat list \<times> jsstr) option" where
  "take_pcts 0 s = Some ([], s)"
| "take_pcts (Suc k) s = (case take_pct s of None \<Rightarrow> None
     | Some (b, s') \<Rightarrow> map_option (\<lambda>(bs, r). (b # bs, r)) (take_pcts k s'))"

lemma take_pct_length: "take_pct s = Some (b, r) \<Longrightarrow> length r < length s"
  by (induction s rule: take_pct.induct) (auto split: if_splits option.splits)

lemma take_pcts_length: "take_pcts k s = Some (bs, r) \<Longrightarrow> length r \<le> length s"
proof (induction k arbitrary: s bs r)
  case (Suc k)
  then show ?case by (fastforce split: option.splits dest: take_pct_length)
qed simp

definition utf8_len :: "nat \<Rightarrow> nat" where
  "utf8_len b = (if b < 0x80 then 1 else if 0xC0 \<le> b \<and> b < 0xE0 then 2
     else if 0xE0 \<le> b \<and> b < 0xF0 then 3 else if 0xF0 \<le> b \<and> b < 0xF8 then 4 else 0)"

text \<open>The bytes of one escape sequence are accepted when they are the UTF-8 encoding of one
  code point.\<close>

definition decode_one :: "nat list \<Rightarrow> nat option" where
  "decode_one bs = (case utf8_decode bs of [n] \<Rightarrow> if utf8 n = bs then Some n else None | _ \<Rightarrow> None)"

function decodeURIComponent :: "jsstr \<Rightarrow> js_error + jsstr" where
  "decodeURIComponent s =
     (case s of [] \<Rightarrow> Inr []
      | c # s' \<Rightarrow>
        if c \<noteq> 37 then (case decodeURIComponent s' of Inl e \<Rightarrow> Inl e | Inr r \<Rightarrow> Inr (c # r))
        else (case take_pct s of None \<Rightarrow> Inl URIError
          | Some (b, s1) \<Rightarrow>
            if utf8_len b = 0 then Inl URIError
            else (case take_pcts (utf8_len b - 1) s1 of None \<Rightarrow> Inl URIError
              | Some (bs, s2) \<Rightarrow> (case decode_one (b # bs) of None \<Rightarrow> Inl URIError
                | Some n \<Rightarrow> (case decodeURIComponent s2 of Inl e \<Rightarrow> Inl e
                    | Inr r \<Rightarrow> Inr (utf16 n @ r))))))"
  by pat_completeness auto
termination
  by (relation "measure length") (auto dest!: take_pct_length take_pcts_length)

declare decodeURIComponent.simps [simp del]

lemma take_pct_pct: "b < 256 \<Longrightarrow> take_pct (pct b @ s) = Some (b, s)"
proof -
  assume "b < 256"
  then have "b div 16 < 16" "b mod 16 < 16" by simp_all
  then show ?thesis by (simp add: pct_def)
qed

lemma take_pcts_pct:
  "\<forall>b \<in> set bs. b < 256 \<Longrightarrow> take_pcts (length bs) (concat (map pct bs) @ s) = Some (bs, s)"
  by (induction bs) (auto simp: take_pct_pct)

lemma utf8_split:
  assumes "scalar n"
  obtains b bs where "utf8 n = b # bs" "utf8_len b = Suc (length bs)"
proof -
  have "n div 4096 < 16" if "n < 0x10000" using that by simp
  moreover have "n div 262144 < 5"
    using assms by (intro less_mult_imp_div_less) (simp add: scalar_def)
  moreover have "n div 64 < 32" if "n < 0x800" using that by simp
  ultimately have "utf8_len (hd (utf8 n)) = length (utf8 n) \<and> utf8 n \<noteq> []"
    by (auto simp: utf8_def utf8_len_def)
  then show ?thesis using that by (cases "utf8 n") auto
qed

lemma decode_one_utf8: "scalar n \<Longrightarrow> decode_one (utf8 n) = Some n"
  using utf8_round_trip [of "[n]"] by (simp add: decode_one_def)

lemma decode_uri_cp:
  assumes "scalar n"
  shows "decodeURIComponent (uri_cp n @ s) =
    (case decodeURIComponent s of Inl e \<Rightarrow> Inl e | Inr r \<Rightarrow> Inr (utf16 n @ r))"
proof (cases "uri_unreserved n")
  case True
  then have "n \<noteq> 37" "n < 0x10000" by (auto simp: uri_unreserved_def is_alnum_def)
  with True show ?thesis
    by (subst decodeURIComponent.simps) (simp add: uri_cp_def utf16_unit split: sum.split)
next
  case False
  obtain b bs where u: "utf8 n = b # bs" "utf8_len b = Suc (length bs)"
    using assms by (rule utf8_split)
  have small: "b < 256" "\<forall>c \<in> set bs. c < 256"
    using utf8_byte [OF assms] u(1) by auto
  have "uri_cp n @ s = pct b @ (concat (map pct bs) @ s)"
    using False u(1) by (simp add: uri_cp_def)
  moreover have "decode_one (b # bs) = Some n"
    using decode_one_utf8 [OF assms] u(1) by simp
  ultimately show ?thesis
    using small u(2) take_pct_pct [of b "concat (map pct bs) @ s"] take_pcts_pct [of bs s]
    by (subst decodeURIComponent.simps) (simp add: pct_def)
qed

lemma decode_uri_cps:
  "\<forall>n \<in> set ns. scalar n \<Longrightarrow>
   decodeURIComponent (concat (map uri_cp ns)) = Inr (concat (map utf16 ns))"
  by (induction ns) (auto simp: decode_uri_cp decodeURIComponent.simps [of "[]"])

lemma uri_component_round_trip:
  assumes "well_formed s" "encodeURIComponent s = Inr e"
  shows "decodeURIComponent e = Inr s"
proof -
  have "\<forall>n \<in> set (scalars s). scalar n"
    using assms(1) scalars_scalar by (auto simp: well_formed_def)
  with assms show ?thesis
    by (auto simp: encodeURIComponent_def decode_uri_cps scalars_utf16 split: if_splits)
qed

lemma encode_well_formed: "well_formed s \<Longrightarrow> \<exists>e. encodeURIComponent s = Inr e"
  by (simp add: encodeURIComponent_def well_formed_def)

lemma pct_units: "b < 256 \<Longrightarrow> u \<in> set (pct b) \<Longrightarrow> u = 37 \<or> is_alnum u"
proof -
  assume "b < 256" "u \<in> set (pct b)"
  moreover from \<open>b < 256\<close> have "b div 16 < 16" "b mod 16 < 16" by simp_all
  ultimately show ?thesis
    using hex_digit_alnum [of "b div 16"] hex_digit_alnum [of "b mod 16"]
    by (auto simp: pct_def is_alnum_def)
qed

lemma uri_cp_units:
  "scalar n \<Longrightarrow> u \<in> set (uri_cp n) \<Longrightarrow> u = 37 \<or> uri_unreserved u"
  by (auto simp: uri_cp_def uri_unreserved_def split: if_splits
      dest!: pct_units [OF utf8_byte])

lemma encode_units:
  assumes "list_all (\<lambda>u. u < 0x10000) s" "encodeURIComponent s = Inr e" "u \<in> set e"
  shows "u = 37 \<or> uri_unreserved u"
  using assms scalars_scalar uri_cp_units
  by (fastforce simp: encodeURIComponent_def split: if_splits)

lemma encode_no_delims:
  assumes "list_all (\<lambda>u. u < 0x10000) s" "encodeURIComponent s = Inr e"
  shows "47 \<notin> set e" "63 \<notin> set e" "35 \<notin> set e" "38 \<notin> set e"
  using encode_units [OF assms, of 47] encode_units [OF assms, of 63]
    encode_units [OF assms, of 35] encode_units [OF assms, of 38]
  by (auto simp: uri_unreserved_def is_alnum_def)

subsection \<open>URLSearchParams\<close>

text \<open>The serializer: a space is a plus sign, a small set of bytes stands for itself, and
  every other byte is escaped. Lone surrogates were replaced when the strings were stored.\<close>

definition form_safe :: "nat \<Rightarrow> bool" where
  "form_safe b \<longleftrightarrow> is_alnum b \<or> b \<in> {42, 45, 46, 95}"

definition form_byte :: "nat \<Rightarrow> jsstr" where
  "form_byte b = (if b = 32 then [43] else if form_safe b then [b] else pct b)"

definition form_encode :: "jsstr \<Rightarrow> jsstr" where
  "form_encode s = concat (map form_byte (concat (map utf8 (scalars s))))"

definition form_pair :: "jsstr \<times> jsstr \<Rightarrow> jsstr" where
  "form_pair kv = form_encode (fst kv) @ [61] @ form_encode (snd kv)"

definition form_serialize :: "(jsstr \<times> jsstr) list \<Rightarrow> jsstr" where
  "form_serialize kvs = js_join [38] (map form_pair kvs)"

text \<open>The parser works on the UTF-8 bytes of its input.\<close>

fun pct_bytes :: "nat list \<Rightarrow> nat list" where
  "pct_bytes (p # a # b # s) =
     (if p = 37 then (case (hex_value a, hex_value b) of
          (Some x, Some y) \<Rightarrow> (16 * x + y) # pct_bytes s
        | _ \<Rightarrow> p # pct_bytes (a # b # s))
      else p # pct_bytes (a # b # s))"
| "pct_bytes s = s"

definition form_decode :: "nat list \<Rightarrow> jsstr" where
  "form_decode bs =
     concat (map utf16 (utf8_decode (pct_bytes (map (\<lambda>b. if b = 43 then 32 else b) bs))))"

definition form_parse :: "jsstr \<Rightarrow> (jsstr \<times> jsstr) list" where
  "form_parse s =
     (let bytes = concat (map utf8 (scalars s));
          pieces = filter (\<lambda>p. p \<noteq> []) (split_on 38 bytes)
      in map (\<lambda>p. (form_decode (takeWhile (\<lambda>b. b \<noteq> 61) p),
                   form_decode (drop 1 (dropWhile (\<lambda>b. b \<noteq> 61) p)))) pieces)"

text \<open>\<open>params.get(name)\<close>: the value of the first entry of that name.\<close>

definition params_get :: "(jsstr \<times> jsstr) list \<Rightarrow> jsstr \<Rightarrow> jsstr option" where
  "params_get ps k = map_of ps k"

lemma form_byte_units:
  "b < 256 \<Longrightarrow> u \<in> set (form_byte b) \<Longrightarrow> u = 37 \<or> u = 43 \<or> form_safe u"
  by (auto simp: form_byte_def form_safe_def split: if_splits dest: pct_units)

lemma form_encode_bytes:
  assumes "list_all (\<lambda>u. u < 0x10000) s" "b \<in> set (concat (map utf8 (scalars s)))"
  shows "b < 256"
  using assms scalars_scalar utf8_byte by fastforce

lemma form_encode_units:
  assumes "list_all (\<lambda>u. u < 0x10000) s" "u \<in> set (form_encode s)"
  shows "u = 37 \<or> u = 43 \<or> form_safe u"
proof -
  from assms(2) obtain b where "b \<in> set (concat (map utf8 (scalars s)))" "u \<in> set (form_byte b)"
    by (auto simp: form_encode_def)
  then show ?thesis using form_byte_units form_encode_bytes [OF assms(1)] by blast
qed

lemma form_safe_not_delim: "form_safe u \<Longrightarrow> u \<notin> {37, 38, 43, 61} \<and> u < 128 \<and> u \<noteq> 32"
  by (auto simp: form_safe_def is_alnum_def)

lemma form_encode_delims:
  assumes "list_all (\<lambda>u. u < 0x10000) s"
  shows "38 \<notin> set (form_encode s)" "61 \<notin> set (form_encode s)" "\<forall>u \<in> set (form_encode s). u < 128"
proof -
  have "u \<noteq> 38 \<and> u \<noteq> 61 \<and> u < 128" if "u \<in> set (form_encode s)" for u
    using form_encode_units [OF assms that] form_safe_not_delim [of u] by auto
  then show "38 \<notin> set (form_encode s)" "61 \<notin> set (form_encode s)"
    "\<forall>u \<in> set (form_encode s). u < 128" by blast+
qed

lemma pct_bytes_plain: "p \<noteq> 37 \<Longrightarrow> pct_bytes (p # s) = p # pct_bytes s"
  by (cases "(p # s)" rule: pct_bytes.cases) auto

lemma pct_bytes_pct: "b < 256 \<Longrightarrow> pct_bytes (pct b @ s) = b # pct_bytes s"
proof -
  assume "b < 256"
  then have "b div 16 < 16" "b mod 16 < 16" by simp_all
  then show ?thesis by (simp add: pct_def)
qed

lemma pct_no_plus: "b < 256 \<Longrightarrow> map (\<lambda>b. if b = 43 then 32 else b) (pct b) = pct b"
  using pct_units [of b 43] by (auto simp: is_alnum_def intro!: map_idI)

lemma pct_bytes_form:
  assumes "\<forall>b \<in> set bs. b < 256"
  shows "pct_bytes (map (\<lambda>b. if b = 43 then 32 else b) (concat (map form_byte bs))) = bs"
  using assms
proof (induction bs)
  case (Cons b bs)
  then have "b < 256" by simp
  with Cons show ?case
    using form_safe_not_delim [of b]
    by (auto simp: form_byte_def pct_bytes_plain pct_no_plus pct_bytes_pct)
qed simp

lemma form_decode_encode:
  assumes "well_formed s"
  shows "form_decode (form_encode s) = s"
proof -
  have u: "list_all (\<lambda>u. u < 0x10000) s" using assms by (simp add: well_formed_def)
  have "\<forall>n \<in> set (scalars s). scalar n" using scalars_scalar [OF u] by blast
  moreover have "\<forall>b \<in> set (concat (map utf8 (scalars s))). b < 256"
    using form_encode_bytes [OF u] by blast
  ultimately show ?thesis
    by (simp add: form_decode_def form_encode_def pct_bytes_form utf8_round_trip
        scalars_utf16 [OF assms])
qed

lemma takeWhile_neq_append: "c \<notin> set a \<Longrightarrow> takeWhile (\<lambda>b. b \<noteq> c) (a @ c # r) = a"
  by (induction a) auto

lemma dropWhile_neq_append: "c \<notin> set a \<Longrightarrow> dropWhile (\<lambda>b. b \<noteq> c) (a @ c # r) = c # r"
  by (induction a) auto

definition well_formed_pairs :: "(jsstr \<times> jsstr) list \<Rightarrow> bool" where
  "well_formed_pairs kvs \<longleftrightarrow> list_all (\<lambda>kv. well_formed (fst kv) \<and> well_formed (snd kv)) kvs"

lemma set_js_join: "set (js_join sep xs) \<subseteq> set sep \<union> (\<Union>x \<in> set xs. set x)"
  by (induction sep xs rule: js_join.induct) auto

lemma utf8_ascii: "\<forall>u \<in> set s. u < 128 \<Longrightarrow> concat (map utf8 s) = s"
  by (induction s) (auto simp: utf8_def)

lemma form_pair_units:
  assumes "well_formed (fst kv)" "well_formed (snd kv)"
  shows "38 \<notin> set (form_pair kv)" "\<forall>u \<in> set (form_pair kv). u < 128"
  using assms form_encode_delims by (auto simp: form_pair_def well_formed_def)

lemma form_serialize_ascii:
  assumes "well_formed_pairs kvs"
  shows "\<forall>u \<in> set (form_serialize kvs). u < 128"
  using assms form_pair_units(2) set_js_join [of "[38]" "map form_pair kvs"]
  by (fastforce simp: form_serialize_def well_formed_pairs_def list_all_iff)

lemma form_parse_pair:
  assumes "well_formed (fst kv)" "well_formed (snd kv)"
  shows "(form_decode (takeWhile (\<lambda>b. b \<noteq> 61) (form_pair kv)),
          form_decode (drop 1 (dropWhile (\<lambda>b. b \<noteq> 61) (form_pair kv)))) = kv"
proof -
  have "61 \<notin> set (form_encode (fst kv))"
    using assms(1) form_encode_delims(2) by (simp add: well_formed_def)
  then show ?thesis
    using assms by (simp add: form_pair_def takeWhile_neq_append dropWhile_neq_append
        form_decode_encode)
qed

lemma form_round_trip:
  assumes "well_formed_pairs kvs"
  shows "form_parse (form_serialize kvs) = kvs"
proof (cases "kvs = []")
  case True
  then show ?thesis by (simp add: form_parse_def form_serialize_def scalars_def)
next
  case False
  let ?s = "form_serialize kvs"
  have asc: "\<forall>u \<in> set ?s. u < 128" by (rule form_serialize_ascii [OF assms])
  then have "scalars ?s = ?s" by (intro scalars_ascii) auto
  with asc have bytes: "concat (map utf8 (scalars ?s)) = ?s" by (simp add: utf8_ascii)
  have "split_on 38 ?s = map form_pair kvs"
    unfolding form_serialize_def
    using False assms form_pair_units(1)
    by (intro split_on_join) (auto simp: well_formed_pairs_def list_all_iff)
  moreover have "filter (\<lambda>p. p \<noteq> []) (map form_pair kvs) = map form_pair kvs"
    by (induction kvs) (auto simp: form_pair_def)
  ultimately have "form_parse ?s =
      map (\<lambda>p. (form_decode (takeWhile (\<lambda>b. b \<noteq> 61) p),
           form_decode (drop 1 (dropWhile (\<lambda>b. b \<noteq> 61) p)))) (map form_pair kvs)"
    unfolding form_parse_def Let_def bytes by simp
  also have "\<dots> = map (\<lambda>kv. kv) kvs"
    unfolding map_map comp_def
    using assms form_parse_pair
    by (intro map_cong) (auto simp: well_formed_pairs_def list_all_iff)
  finally show ?thesis by simp
qed

end
