(* ===== verification/Server_Clock.thy ===== *)
theory Server_Clock
  imports Web_Encoding
begin

text \<open>
  The server clock (\<open>lib/server-clock.ts\<close>): parsing a server timestamp, measuring the
  offset between the browser's clock and the server's, smoothing it, and the subscription state
  with its interval timer. \<open>Date.parse\<close> on a text that is no number is a parameter, as the
  formats it accepts beyond ISO 8601 are the browser's.
\<close>

subsection \<open>The Number function on strings\<close>

definition is_digit :: "nat \<Rightarrow> bool" where
  "is_digit u \<longleftrightarrow> 48 \<le> u \<and> u \<le> 57"

text \<open>Values beyond the largest double overflow to infinity.\<close>

definition to_double :: "rat \<Rightarrow> jsnum" where
  "to_double x = (if \<bar>x\<bar> \<ge> 2 ^ 1024 - 2 ^ 970 then Infinity (0 < x) else Fin x)"

definition scale10 :: "bool \<Rightarrow> nat \<Rightarrow> rat \<Rightarrow> rat" where
  "scale10 neg e x = (if neg then x / 10 ^ e else x * 10 ^ e)"

definition exponent_part :: "jsstr \<Rightarrow> (bool \<times> nat) option" where
  "exponent_part s =
     (case s of [] \<Rightarrow> Some (False, 0)
      | e # r \<Rightarrow>
        if e \<noteq> 69 \<and> e \<noteq> 101 then None
        else let neg = (r \<noteq> [] \<and> hd r = 45);
                 ds = (if r \<noteq> [] \<and> (hd r = 43 \<or> hd r = 45) then tl r else r)
             in if ds \<noteq> [] \<and> list_all is_digit ds then Some (neg, digits_value ds) else None)"

definition decimal_literal :: "jsstr \<Rightarrow> rat option" where
  "decimal_literal s =
     (let ip = takeWhile is_digit s; r = dropWhile is_digit s;
          fr = (case r of [] \<Rightarrow> [] | c # r' \<Rightarrow> if c = 46 then takeWhile is_digit r' else []);
          rest = (case r of [] \<Rightarrow> [] | c # r' \<Rightarrow> if c = 46 then dropWhile is_digit r' else r)
      in if ip = [] \<and> fr = [] then None
         else (case exponent_part rest of None \<Rightarrow> None
           | Some (neg, e) \<Rightarrow> Some (scale10 neg e
               (of_nat (digits_value ip) + of_nat (digits_value fr) / 10 ^ length fr))))"

definition radix_literal :: "nat \<Rightarrow> jsstr \<Rightarrow> jsnum" where
  "radix_literal b s =
     (if s \<noteq> [] \<and> list_all (\<lambda>u. case hex_value u of None \<Rightarrow> False | Some d \<Rightarrow> d < b) s
      then to_double (of_nat (foldl (\<lambda>a u. b * a + (case hex_value u of None \<Rightarrow> 0 | Some d \<Rightarrow> d)) 0 s))
      else NaN)"

definition unsigned_number :: "jsstr \<Rightarrow> jsnum" where
  "unsigned_number s = (if s = lit ''Infinity'' then Infinity True
     else case decimal_literal s of None \<Rightarrow> NaN | Some x \<Rightarrow> to_double x)"

fun negate_num :: "jsnum \<Rightarrow> jsnum" where
  "negate_num (Fin x) = Fin (- x)"
| "negate_num (Infinity b) = Infinity (\<not> b)"
| "negate_num NaN = NaN"

definition js_number :: "jsstr \<Rightarrow> jsnum" where
  "js_number str =
     (let s = js_trim str in
      case s of [] \<Rightarrow> Fin 0
      | c # r \<Rightarrow>
        if c = 45 then negate_num (unsigned_number r)
        else if c = 43 then unsigned_number r
        else if c = 48 \<and> r \<noteq> [] \<and> hd r \<in> {120, 88} then radix_literal 16 (tl r)
        else if c = 48 \<and> r \<noteq> [] \<and> hd r \<in> {111, 79} then radix_literal 8 (tl r)
        else if c = 48 \<and> r \<noteq> [] \<and> hd r \<in> {98, 66} then radix_literal 2 (tl r)
        else unsigned_number s)"

lemma takeWhile_all: "list_all P s \<Longrightarrow> takeWhile P s = s"
  by (induction s) auto

lemma dropWhile_all: "list_all P s \<Longrightarrow> dropWhile P s = []"
  by (induction s) auto

lemma digit_not_ws: "is_digit u \<Longrightarrow> \<not> is_ws u"
  by (simp add: is_digit_def is_ws_def)

lemma dropWhile_ws_digits: "list_all is_digit s \<Longrightarrow> dropWhile is_ws s = s"
  by (cases s) (simp_all add: digit_not_ws)

lemma js_trim_digits: "list_all is_digit s \<Longrightarrow> js_trim s = s"
  by (simp add: js_trim_def dropWhile_ws_digits list_all_iff)

text \<open>Decimal digits without a fraction are read as the integer they show.\<close>

lemma js_number_digits:
  assumes "s \<noteq> []" "list_all is_digit s" "digits_value s < 10 ^ 21"
  shows "js_number s = Fin (of_nat (digits_value s))"
proof -
  have "rat_of_nat (digits_value s) < 10 ^ 21"
    using assms(3) by (metis of_nat_less_iff of_nat_numeral of_nat_power)
  also have "(10::rat) ^ 21 < 2 ^ 1024 - 2 ^ 970" by simp
  finally have small: "to_double (of_nat (digits_value s)) = Fin (of_nat (digits_value s))"
    by (simp add: to_double_def)
  have dec: "decimal_literal s = Some (of_nat (digits_value s))"
    using assms by (simp add: decimal_literal_def takeWhile_all dropWhile_all exponent_part_def
        scale10_def digits_value_def)
  have ne: "s \<noteq> lit ''Infinity''"
    using assms(2) by (auto simp: lit_def is_digit_def)
  obtain c r where s: "s = c # r" "is_digit c" "list_all is_digit r"
    using assms by (cases s) auto
  then have "c \<noteq> 45 \<and> c \<noteq> 43" "\<not> (r \<noteq> [] \<and> hd r \<in> {120, 88, 111, 79, 98, 66})"
    by (cases r; auto simp: is_digit_def)+
  then show ?thesis
    using s dec ne small js_trim_digits [OF assms(2)]
    by (auto simp: js_number_def unsigned_number_def)
qed

subsection \<open>Measuring the offset\<close>

definition parseServerTime :: "(jsstr \<Rightarrow> rat option) \<Rightarrow> jsstr option \<Rightarrow> rat option" where
  "parseServerTime date_parse value =
     (case value of None \<Rightarrow> None
      | Some v \<Rightarrow>
        if v = [] then None
        else (case js_number v of
            Fin numeric \<Rightarrow> if 0 < numeric then Some numeric else date_parse v
          | _ \<Rightarrow> date_parse v))"

definition calculateServerOffset ::
  "(jsstr \<Rightarrow> rat option) \<Rightarrow> jsstr option \<Rightarrow> jsnum \<Rightarrow> jsnum \<Rightarrow> rat option" where
  "calculateServerOffset date_parse serverTime requestStartedAt responseReceivedAt =
     (case (parseServerTime date_parse serverTime, requestStartedAt, responseReceivedAt) of
        (Some serverTimeMS, Fin started, Fin received) \<Rightarrow>
          (let midpoint = started + max (received - started) 0 / 2 in Some (serverTimeMS - midpoint))
      | _ \<Rightarrow> None)"

subsection \<open>The clock state\<close>

text \<open>The module's variables. The listeners are a \<open>Set\<close> in insertion order; the timer is
  only ever tested for being there.\<close>

record clock =
  clockOffsetMS :: rat
  calibrated :: bool
  currentNow :: rat
  timer :: bool
  listeners :: "nat list"

definition clock_init :: "rat \<Rightarrow> clock" where
  "clock_init now = \<lparr>clockOffsetMS = 0, calibrated = False, currentNow = now, timer = False,
     listeners = []\<rparr>"

text \<open>The operations return the new state and the listeners they call, in order.\<close>

definition synchronizeServerClock ::
  "(jsstr \<Rightarrow> rat option) \<Rightarrow> jsstr option \<Rightarrow> jsnum \<Rightarrow> jsnum \<Rightarrow> rat \<Rightarrow> clock \<Rightarrow> clock \<times> nat list" where
  "synchronizeServerClock date_parse serverTime requestStartedAt responseReceivedAt now c =
     (case calculateServerOffset date_parse serverTime requestStartedAt responseReceivedAt of
        None \<Rightarrow> (c, [])
      | Some measuredOffset \<Rightarrow>
          (let off = (if calibrated c then clockOffsetMS c * (8 / 10) + measuredOffset * (2 / 10)
                      else measuredOffset)
           in (c\<lparr>clockOffsetMS := off, calibrated := True, currentNow := now + off\<rparr>, listeners c)))"

definition subscribeServerClock :: "nat \<Rightarrow> clock \<Rightarrow> clock" where
  "subscribeServerClock l c =
     (let c' = c\<lparr>listeners := (if l \<in> set (listeners c) then listeners c else listeners c @ [l])\<rparr>
      in if \<not> timer c' then c'\<lparr>timer := True\<rparr> else c')"

text \<open>The function \<open>subscribeServerClock\<close> returns.\<close>

definition unsubscribe :: "nat \<Rightarrow> clock \<Rightarrow> clock" where
  "unsubscribe l c =
     (let c' = c\<lparr>listeners := filter (\<lambda>x. x \<noteq> l) (listeners c)\<rparr>
      in if listeners c' = [] \<and> timer c' then c'\<lparr>timer := False\<rparr> else c')"

definition clock_tick :: "rat \<Rightarrow> clock \<Rightarrow> clock \<times> nat list" where
  "clock_tick now c = (c\<lparr>currentNow := now + clockOffsetMS c\<rparr>, listeners c)"

definition getServerNowSnapshot :: "clock \<Rightarrow> rat" where
  "getServerNowSnapshot c = currentNow c"

lemmas clock_defs = synchronizeServerClock_def subscribeServerClock_def unsubscribe_def
  clock_tick_def clock_init_def

subsection \<open>Steps and reachable states\<close>

inductive clock_step :: "(jsstr \<Rightarrow> rat option) \<Rightarrow> clock \<Rightarrow> clock \<Rightarrow> bool" for dp where
  sync: "clock_step dp c (fst (synchronizeServerClock dp st a b now c))"
| subscribe: "clock_step dp c (subscribeServerClock l c)"
| unsubscribe: "clock_step dp c (unsubscribe l c)"
| tick: "timer c \<Longrightarrow> clock_step dp c (fst (clock_tick now c))"

inductive clock_reachable :: "(jsstr \<Rightarrow> rat option) \<Rightarrow> clock \<Rightarrow> bool" for dp where
  init: "clock_reachable dp (clock_init now)"
| step: "clock_reachable dp c \<Longrightarrow> clock_step dp c c' \<Longrightarrow> clock_reachable dp c'"

definition clock_inv :: "clock \<Rightarrow> bool" where
  "clock_inv c \<longleftrightarrow> (timer c \<longleftrightarrow> listeners c \<noteq> []) \<and> distinct (listeners c)
     \<and> (\<not> calibrated c \<longrightarrow> clockOffsetMS c = 0)"

lemma clock_step_inv: "clock_step dp c c' \<Longrightarrow> clock_inv c \<Longrightarrow> clock_inv c'"
  by (induction rule: clock_step.induct)
    (auto simp: clock_inv_def clock_defs Let_def split: option.splits)

lemma clock_init_inv: "clock_inv (clock_init now)"
  by (simp add: clock_inv_def clock_init_def)

lemma clock_reachable_inv: "clock_reachable dp c \<Longrightarrow> clock_inv c"
  by (induction rule: clock_reachable.induct) (blast intro: clock_init_inv clock_step_inv)+

text \<open>C34. In every reachable state of the server clock the interval timer runs exactly while there is a listener (no timer leaks after the last unsubscribe, no listener waits without a timer), no listener is registered twice, and an uncalibrated clock has offset 0.\<close>

theorem clock_timer_iff_listeners:
  assumes "clock_reachable dp c"
  shows "(timer c \<longleftrightarrow> listeners c \<noteq> []) \<and> distinct (listeners c)
    \<and> (\<not> calibrated c \<longrightarrow> clockOffsetMS c = 0)"
  using clock_reachable_inv [OF assms] by (simp add: clock_inv_def)

theorem clock_timer_iff_listeners_witness:
  "timer (subscribeServerClock 7 (clock_init 0))
   \<and> listeners (subscribeServerClock 7 (clock_init 0)) = [7]"
proof -
  have "clock_reachable (\<lambda>_. None) (subscribeServerClock 7 (clock_init 0))"
    by (rule clock_reachable.step [OF clock_reachable.init clock_step.subscribe])
  from clock_timer_iff_listeners [OF this]
  show ?thesis by (simp add: clock_defs Let_def)
qed

subsection \<open>Accuracy of the measurement\<close>

text \<open>C35. If the server stamped its time (server clock = browser clock + theta) at some moment between the start of the request and the reception of the response, the measured offset differs from theta by at most half the round-trip time.\<close>

theorem server_offset_accuracy:
  assumes "calculateServerOffset dp serverTime (Fin started) (Fin received) = Some off"
    and "parseServerTime dp serverTime = Some (stamped + theta)"
    and "started \<le> stamped" "stamped \<le> received"
  shows "\<bar>off - theta\<bar> \<le> (received - started) / 2"
proof -
  have "off = stamped + theta - (started + (received - started) / 2)"
    using assms by (auto simp: calculateServerOffset_def Let_def max_def split: if_splits)
  then have "off - theta = stamped - (started + received) / 2"
    by (simp add: field_simps)
  moreover have "stamped - (started + received) / 2 \<le> (received - started) / 2"
    "(started + received) / 2 - stamped \<le> (received - started) / 2"
    using assms(3,4) by (simp_all add: field_simps)
  ultimately show ?thesis by (simp only: abs_le_iff) simp
qed

theorem server_offset_accuracy_witness:
  "\<bar>(9900::rat) - 9950\<bar> \<le> (1700000000200 - 1700000000000) / 2"
proof -
  have p: "parseServerTime (\<lambda>_. None) (Some (lit ''1700000010000'')) = Some (1700000000050 + 9950)"
    by (simp add: parseServerTime_def js_number_digits lit_def is_digit_def digits_value_def)
  show ?thesis
    by (rule server_offset_accuracy [of "\<lambda>_. None" "Some (lit ''1700000010000'')" _ _ _ 1700000000050])
      (simp_all add: p calculateServerOffset_def Let_def)
qed

text \<open>Later samples are smoothed: each one shrinks the distance to a steady measurement to
  four fifths.\<close>

fun sync_samples :: "rat list \<Rightarrow> clock \<Rightarrow> clock" where
  "sync_samples [] c = c"
| "sync_samples (m # ms) c = sync_samples ms
     (fst (synchronizeServerClock (\<lambda>_. Some m) (Some (lit ''t'')) (Fin 0) (Fin 0) 0 c))"

lemma number_t: "js_number (lit ''t'') = NaN"
  by (simp add: js_number_def lit_def js_trim_def is_ws_def unsigned_number_def decimal_literal_def
      is_digit_def)

lemma sync_sample:
  "synchronizeServerClock (\<lambda>_. Some m) (Some (lit ''t'')) (Fin 0) (Fin 0) now c =
    (let off = (if calibrated c then clockOffsetMS c * (8 / 10) + m * (2 / 10) else m)
     in (c\<lparr>clockOffsetMS := off, calibrated := True, currentNow := now + off\<rparr>, listeners c))"
  by (simp add: synchronizeServerClock_def calculateServerOffset_def parseServerTime_def number_t)

lemma smoothing_run:
  "calibrated c \<Longrightarrow> clockOffsetMS (sync_samples (replicate n m) c) - m
     = (8 / 10) ^ n * (clockOffsetMS c - m)"
proof (induction n arbitrary: c)
  case (Suc n)
  let ?c = "fst (synchronizeServerClock (\<lambda>_. Some m) (Some (lit ''t'')) (Fin 0) (Fin 0) 0 c)"
  have "calibrated ?c" "clockOffsetMS ?c = clockOffsetMS c * (8 / 10) + m * (2 / 10)"
    using Suc.prems by (simp_all add: sync_sample Let_def)
  then have "clockOffsetMS (sync_samples (replicate n m) ?c) - m
      = (8 / 10) ^ n * (clockOffsetMS c * (8 / 10) + m * (2 / 10) - m)"
    using Suc.IH [of ?c] by simp
  also have "\<dots> = (8 / 10) ^ Suc n * (clockOffsetMS c - m)"
    by (simp add: algebra_simps)
  finally show ?case by (simp only: replicate_Suc sync_samples.simps)
qed simp

text \<open>From an uncalibrated clock the first measurement is applied as it is; after it, n further measurements of the same value m leave the distance between the offset and m at exactly (4/5)^n of what it was, so the clock converges without a jump.\<close>

theorem server_clock_smoothing:
  assumes "\<not> calibrated c"
  shows "clockOffsetMS (sync_samples (m0 # replicate n m) c) - m = (8 / 10) ^ n * (m0 - m)"
proof -
  let ?c = "fst (synchronizeServerClock (\<lambda>_. Some m0) (Some (lit ''t'')) (Fin 0) (Fin 0) 0 c)"
  have "calibrated ?c" "clockOffsetMS ?c = m0"
    using assms by (simp_all add: sync_sample Let_def)
  then show ?thesis using smoothing_run [of ?c n m] by simp
qed

theorem server_clock_smoothing_witness:
  "clockOffsetMS (sync_samples [100, 0, 0] (clock_init 5)) = 64"
  using server_clock_smoothing [of "clock_init 5" 100 2 0]
  by (simp add: clock_init_def numeral_2_eq_2)

end
