(* ===== verification/Texts.thy ===== *)
theory Texts
  imports Prelude
begin

text \<open>
  The text literals of the user interface that several components show, each a JavaScript
  string given by its UTF-16 code units; a literal of one component stands in its theory.
\<close>

definition t_dash :: jsstr where
  "t_dash = [0x2014]"

definition t_ms_unit :: jsstr where
  "t_ms_unit = lit '' ms''"

definition t_close_paren :: jsstr where
  "t_close_paren = [0xFF09]"

definition t_full_stop :: jsstr where
  "t_full_stop = [0x3002]"

definition t_cancel :: jsstr where
  "t_cancel = [0x53D6, 0x6D88]"

definition t_viewer_role :: jsstr where
  "t_viewer_role = [0x67E5, 0x770B, 0x8005]"

definition t_admin_role :: jsstr where
  "t_admin_role = [0x7BA1, 0x7406, 0x5458]"

definition t_operations :: jsstr where
  "t_operations = [0x64CD, 0x4F5C]"

definition t_state :: jsstr where
  "t_state = [0x72B6, 0x6001]"

definition t_created_at :: jsstr where
  "t_created_at = [0x521B, 0x5EFA, 0x65F6, 0x95F4]"

definition t_confirm_delete :: jsstr where
  "t_confirm_delete = [0x786E, 0x8BA4, 0x5220, 0x9664]"

definition t_question :: jsstr where
  "t_question = [0xFF1F]"

definition t_operate :: jsstr where
  "t_operate = [0x64CD, 0x4F5C, 0x20]"

definition t_save_changes :: jsstr where
  "t_save_changes = [0x4FDD, 0x5B58, 0x4FEE, 0x6539]"

definition t_dot_sep :: jsstr where
  "t_dot_sep = [0x20, 0xB7, 0x20]"

definition t_loss_rate :: jsstr where
  "t_loss_rate = [0x4E22, 0x5305, 0x7387]"

definition t_enable :: jsstr where
  "t_enable = [0x542F, 0x7528]"

definition t_disable :: jsstr where
  "t_disable = [0x505C, 0x7528]"

definition t_name_label :: jsstr where
  "t_name_label = [0x540D, 0x79F0]"

definition t_edit :: jsstr where
  "t_edit = [0x7F16, 0x8F91]"

definition t_delete :: jsstr where
  "t_delete = [0x5220, 0x9664]"

definition t_concurrency :: jsstr where
  "t_concurrency = [0x5E76, 0x53D1]"

definition t_region :: jsstr where
  "t_region = [0x533A, 0x57DF]"

definition t_continent :: jsstr where
  "t_continent = [0x5927, 0x6D32]"

definition t_all_word :: jsstr where
  "t_all_word = [0x5168, 0x90E8]"

definition t_run_now :: jsstr where
  "t_run_now = [0x7ACB, 0x5373, 0x8FD0, 0x884C]"


end
