(* ===== verification/Effects.thy ===== *)
theory Effects
  imports Texts
begin

text \<open>
  What the code of the console does to its environment, as values: toasts, cache operations of
  the query client, navigation, browser events and clipboard writes. A handler of a component is
  the list of the effects it performs, in the order of the code.
\<close>

text \<open>A query key is an array of strings, numbers and plain objects; an object is the list of
  its entries.\<close>

datatype qval = QUndef | QStr jsstr | QNum int | QDec rat | QBool bool

datatype kelem = KS string | KStr jsstr | KN int | KObj "(string \<times> qval) list" | KJson json

type_synonym qkey = "kelem list"

datatype effect =
    ToastSuccess jsstr "jsstr option"
  | ToastError jsstr "jsstr option"
  | ToastWarning jsstr "jsstr option"
  | ToastInfo jsstr "jsstr option"
  | Invalidate qkey
  | DispatchEvent string
  | ClipboardWrite jsstr
  | Navigate jsstr bool

text \<open>\<open>invalidateQueries\<close> marks every query whose key starts with the given key.\<close>

definition key_prefix :: "qkey \<Rightarrow> qkey \<Rightarrow> bool" where
  "key_prefix p k \<longleftrightarrow> take (length p) k = p"

definition invalidates :: "effect list \<Rightarrow> qkey \<Rightarrow> bool" where
  "invalidates es k \<longleftrightarrow> list_ex (\<lambda>e. case e of Invalidate p \<Rightarrow> key_prefix p k | _ \<Rightarrow> False) es"

lemma key_prefix_refl [simp]: "key_prefix k k"
  by (simp add: key_prefix_def)

lemma key_prefix_append [simp]: "key_prefix k (k @ r)"
  by (simp add: key_prefix_def)

definition is_error_toast :: "effect \<Rightarrow> bool" where
  "is_error_toast e \<longleftrightarrow> (case e of ToastError _ _ \<Rightarrow> True | _ \<Rightarrow> False)"

end
