(* ===== verification/Http.thy ===== *)
theory Http
  imports Server_Clock Effects
begin

text \<open>
  The HTTP client of the console (\<open>lib/http.ts\<close>): one request with the headers it sends, the
  clock calibration every response brings, the error a failed response becomes, and the query
  strings the features build. A network exchange is a value: when the request started, when the
  response came, what the response was, or that \<open>fetch\<close> rejected.
\<close>

subsection \<open>Literals\<close>

definition t_request_failed :: jsstr where
  "t_request_failed = [0x8BF7, 0x6C42, 0x5931, 0x8D25, 0xFF08]"


subsection \<open>What is sent\<close>

datatype body = NoBody | BodyText jsstr | BodyJson json

record request_init =
  ri_method :: jsstr
  ri_body :: body
  ri_headers :: "(jsstr, jsstr) jsmap"

definition GET :: request_init where
  "GET = \<lparr>ri_method = lit ''GET'', ri_body = NoBody, ri_headers = []\<rparr>"

definition send :: "string \<Rightarrow> body \<Rightarrow> request_init" where
  "send m b = \<lparr>ri_method = lit m, ri_body = b, ri_headers = []\<rparr>"

text \<open>A call of an API function: the path it requests and the options it passes.\<close>

record api_call =
  ac_path :: jsstr
  ac_init :: request_init

definition get :: "jsstr \<Rightarrow> api_call" where
  "get p = \<lparr>ac_path = p, ac_init = GET\<rparr>"

definition call :: "string \<Rightarrow> jsstr \<Rightarrow> body \<Rightarrow> api_call" where
  "call m p b = \<lparr>ac_path = p, ac_init = send m b\<rparr>"

definition empty_body :: body where
  "empty_body = BodyText (lit ''{}'')"

lemma call_simps [simp]:
  "ac_path (get p) = p" "ri_method (ac_init (get p)) = lit ''GET''" "ri_body (ac_init (get p)) = NoBody"
  "ac_path (call m p b) = p" "ri_method (ac_init (call m p b)) = lit m" "ri_body (ac_init (call m p b)) = b"
  "ri_headers (ac_init (get p)) = []" "ri_headers (ac_init (call m p b)) = []"
  by (simp_all add: get_def call_def GET_def send_def)

record fetch_call =
  fc_path :: jsstr
  fc_method :: jsstr
  fc_credentials :: jsstr
  fc_headers :: "(jsstr, jsstr) jsmap"
  fc_body :: body

definition fetch_options :: "jsstr \<Rightarrow> request_init \<Rightarrow> fetch_call" where
  "fetch_options path init =
     \<lparr>fc_path = path, fc_method = ri_method init, fc_credentials = lit ''same-origin'',
      fc_headers = fold (\<lambda>(k, v). map_set k v) (ri_headers init)
        [(lit ''Accept'', lit ''application/json''), (lit ''Content-Type'', lit ''application/json'')],
      fc_body = ri_body init\<rparr>"

subsection \<open>What comes back\<close>

text \<open>The header names of a response are in lower case; \<open>headers.get\<close> ignores case.
  The body is the JSON value it holds, or None when \<open>json()\<close> rejects.\<close>

record response =
  rs_status :: int
  rs_headers :: "(jsstr \<times> jsstr) list"
  rs_json :: "json option"

definition header_get :: "response \<Rightarrow> string \<Rightarrow> jsstr option" where
  "header_get r name = map_of (rs_headers r) (ascii_lower (lit name))"

definition response_ok :: "response \<Rightarrow> bool" where
  "response_ok r \<longleftrightarrow> 200 \<le> rs_status r \<and> rs_status r \<le> 299"

record exchange =
  ex_started :: rat
  ex_received :: rat
  ex_now :: rat
  ex_response :: "response option"

definition or_else :: "'a option \<Rightarrow> 'a option \<Rightarrow> 'a option" where
  "or_else a b = (case a of None \<Rightarrow> b | Some x \<Rightarrow> Some x)"

definition error_field :: "string \<Rightarrow> json option \<Rightarrow> json option" where
  "error_field k body = json_member k (json_member ''error'' body)"

definition request_failed_text :: "int \<Rightarrow> jsstr" where
  "request_failed_text status = t_request_failed @ show_int status @ t_close_paren"

definition APIError :: "jsstr \<Rightarrow> int \<Rightarrow> json option \<Rightarrow> js_error" where
  "APIError message status code = ApiError message status code"

text \<open>The outcome of \<open>request\<close>: the error it rejects with, or the value it resolves to
  (None is undefined).\<close>

definition request ::
  "(jsstr \<Rightarrow> rat option) \<Rightarrow> jsstr \<Rightarrow> exchange \<Rightarrow> clock \<Rightarrow> clock \<times> effect list \<times> (js_error + json option)" where
  "request date_parse path ex c =
     (case ex_response ex of
        None \<Rightarrow> (c, [], Inl TypeError)
      | Some r \<Rightarrow>
        (let c' = fst (synchronizeServerClock date_parse
                    (or_else (header_get r ''X-CFScan-Server-Time'') (header_get r ''Date''))
                    (Fin (ex_started ex)) (Fin (ex_received ex)) (ex_now ex) c)
         in if \<not> response_ok r then
              (c', (if rs_status r = 401 \<and> path \<noteq> lit ''/api/v1/auth/login''
                    then [DispatchEvent ''cfscan:unauthorized''] else []),
               Inl (APIError
                 (json_nullish (error_field ''message'' (rs_json r)) (request_failed_text (rs_status r)) json_text)
                 (rs_status r) (error_field ''code'' (rs_json r))))
            else if rs_status r = 204 then (c', [], Inr None)
            else (case rs_json r of None \<Rightarrow> (c', [], Inl SyntaxError) | Some j \<Rightarrow> (c', [], Inr (Some j)))))"

subsection \<open>Behaviour of a request\<close>

text \<open>C6. A response outside 200..299 always rejects with an APIError that carries the response's status and code, whose message is the server's error message when the body has one and the generic text with the status otherwise; the session-expired event is dispatched exactly for a 401 of a path other than the login's.\<close>

theorem request_error_contract:
  assumes "ex_response ex = Some r" "\<not> response_ok r"
    and "request dp path ex c = (c', es, out)"
  shows "out = Inl (ApiError
        (case error_field ''message'' (rs_json r) of Some (JStr m) \<Rightarrow> m
         | None \<Rightarrow> request_failed_text (rs_status r) | Some JNull \<Rightarrow> request_failed_text (rs_status r)
         | Some j \<Rightarrow> json_text j)
        (rs_status r) (error_field ''code'' (rs_json r)))
    \<and> (DispatchEvent ''cfscan:unauthorized'' \<in> set es \<longleftrightarrow> rs_status r = 401 \<and> path \<noteq> lit ''/api/v1/auth/login'')"
proof -
  have e: "out = Inl (APIError
       (json_nullish (error_field ''message'' (rs_json r)) (request_failed_text (rs_status r)) json_text)
       (rs_status r) (error_field ''code'' (rs_json r)))"
    and es: "es = (if rs_status r = 401 \<and> path \<noteq> lit ''/api/v1/auth/login''
        then [DispatchEvent ''cfscan:unauthorized''] else [])"
    using assms by (auto simp: request_def Let_def)
  show ?thesis unfolding e es
    by (auto simp: APIError_def json_nullish_def split: option.splits json.splits)
qed

definition expired_response :: response where
  "expired_response = \<lparr>rs_status = 401, rs_headers = [],
     rs_json = Some (JObj [(lit ''error'', JObj [(lit ''code'', JStr (lit ''unauthorized'')),
                                                  (lit ''message'', JStr (lit ''log in''))])])\<rparr>"

definition expired_exchange :: exchange where
  "expired_exchange = \<lparr>ex_started = 0, ex_received = 10, ex_now = 10, ex_response = Some expired_response\<rparr>"

theorem request_error_contract_witness:
  "\<exists>c es. request (\<lambda>_. None) (lit ''/api/v1/overview'') expired_exchange (clock_init 0) =
     (c, es, Inl (ApiError (lit ''log in'') 401 (Some (JStr (lit ''unauthorized'')))))
   \<and> DispatchEvent ''cfscan:unauthorized'' \<in> set es"
proof -
  obtain c es out where r: "request (\<lambda>_. None) (lit ''/api/v1/overview'') expired_exchange (clock_init 0) = (c, es, out)"
    using prod_cases3 by blast
  have "ex_response expired_exchange = Some expired_response" "\<not> response_ok expired_response"
    by (simp_all add: expired_exchange_def expired_response_def response_ok_def)
  from request_error_contract [OF this r]
  show ?thesis using r
    by (simp add: expired_response_def error_field_def json_member_def)
qed

text \<open>A response calibrates the clock before its status is looked at.\<close>

lemma request_clock_step:
  "fst (request dp path ex c) =
     (case ex_response ex of None \<Rightarrow> c
      | Some r \<Rightarrow> fst (synchronizeServerClock dp
          (or_else (header_get r ''X-CFScan-Server-Time'') (header_get r ''Date''))
          (Fin (ex_started ex)) (Fin (ex_received ex)) (ex_now ex) c))"
  by (auto simp: request_def Let_def split: option.splits)

lemma request_clock_reachable:
  "clock_reachable dp c \<Longrightarrow> clock_reachable dp (fst (request dp path ex c))"
  by (auto simp: request_clock_step split: option.splits
      intro: clock_reachable.step [OF _ clock_step.sync])


text \<open>The server clock is calibrated by every response, a failed one included, from the header X-CFScan-Server-Time and from Date only when that header is absent; a rejected fetch leaves the clock alone, raises no session-expired event and rejects.\<close>

theorem request_clock:
  "fst (request dp path ex c) =
     (case ex_response ex of None \<Rightarrow> c
      | Some r \<Rightarrow> fst (synchronizeServerClock dp
          (case header_get r ''X-CFScan-Server-Time'' of None \<Rightarrow> header_get r ''Date'' | Some h \<Rightarrow> Some h)
          (Fin (ex_started ex)) (Fin (ex_received ex)) (ex_now ex) c))
   \<and> snd (request dp path (ex\<lparr>ex_response := None\<rparr>) c) = ([], Inl TypeError)"
  by (auto simp: request_clock_step or_else_def split: option.splits) (simp add: request_def)+

subsection \<open>Query strings\<close>

text \<open>\<open>Object.entries\<close> of a filter object, in its order; \<open>String(value)\<close> of an
  entry.\<close>

fun qval_text :: "qval \<Rightarrow> jsstr" where
  "qval_text QUndef = lit ''undefined''"
| "qval_text (QStr s) = s"
| "qval_text (QNum n) = show_int n"
| "qval_text (QDec x) = num_text x"
| "qval_text (QBool b) = show_bool b"

definition qval_kept :: "qval \<Rightarrow> bool" where
  "qval_kept v \<longleftrightarrow> v \<noteq> QUndef \<and> v \<noteq> QStr []"

definition createQueryString :: "(string \<times> qval) list \<Rightarrow> jsstr" where
  "createQueryString values =
     (let params = fold (\<lambda>(key, value) ps. if qval_kept value then map_set (lit key) (qval_text value) ps else ps)
            values [];
          text = form_serialize params
      in if text \<noteq> [] then lit ''?'' @ text else [])"

lemma fold_map_set_fresh:
  assumes "distinct (map fst vs)" "\<forall>k \<in> fst ` set vs. lit k \<notin> fst ` set acc"
  shows "fold (\<lambda>(k, v) ps. if qval_kept v then map_set (lit k) (qval_text v) ps else ps) vs acc
    = acc @ map (\<lambda>(k, v). (lit k, qval_text v)) (filter (\<lambda>(k, v). qval_kept v) vs)"
  using assms
proof (induction vs arbitrary: acc)
  case (Cons kv vs)
  obtain k v where kv: "kv = (k, v)" by force
  have "map_set (lit k) (qval_text v) acc = acc @ [(lit k, qval_text v)]"
    using Cons.prems kv by (induction acc) (auto simp: map_set_def)
  then show ?case
    using Cons.prems Cons.IH [of "acc @ [(lit k, qval_text v)]"] Cons.IH [of acc]
    by (auto simp: kv)
qed simp

definition kept_params :: "(string \<times> qval) list \<Rightarrow> (jsstr \<times> jsstr) list" where
  "kept_params vs = map (\<lambda>(k, v). (lit k, qval_text v)) (filter (\<lambda>(k, v). qval_kept v) vs)"

lemma createQueryString_alt:
  assumes "distinct (map fst vs)"
  shows "createQueryString vs =
    (if form_serialize (kept_params vs) \<noteq> [] then lit ''?'' @ form_serialize (kept_params vs) else [])"
  using fold_map_set_fresh [OF assms, of "[]"]
  by (simp add: createQueryString_def kept_params_def Let_def)

lemma form_serialize_nil [simp]: "form_serialize ps = [] \<longleftrightarrow> ps = []"
proof (cases ps)
  case (Cons p qs)
  then show ?thesis by (cases qs) (simp_all add: form_serialize_def form_pair_def)
qed (simp add: form_serialize_def)

text \<open>\<open>new URLSearchParams(location.search)\<close> drops the question mark.\<close>

definition search_params :: "jsstr \<Rightarrow> (jsstr \<times> jsstr) list" where
  "search_params s = form_parse (if s \<noteq> [] \<and> hd s = 63 then tl s else s)"

lemma search_params_query:
  assumes "distinct (map fst vs)" "well_formed_pairs (kept_params vs)"
  shows "search_params (createQueryString vs) = kept_params vs"
proof (cases "kept_params vs = []")
  case True
  then show ?thesis
    by (simp add: createQueryString_alt [OF assms(1)] search_params_def form_parse_def scalars_def)
next
  case False
  then show ?thesis using form_round_trip [OF assms(2)]
    by (simp add: createQueryString_alt [OF assms(1)] search_params_def lit_Cons)
qed

lemma show_int_ascii: "u \<in> set (show_int i) \<Longrightarrow> u < 128"
  using show_int_range by fastforce

lemma well_formed_show_int [simp]: "well_formed (show_int i)"
  using show_int_ascii by (force intro!: well_formed_ascii)

lemma to_fixed_ascii: "u \<in> set (to_fixed d x) \<Longrightarrow> u < 128"
proof -
  have p: "v < 128" if "v \<in> set (pad_zeros k (dec_digits m))" for v k m
    using that dec_digits_range [of v m] by (auto simp: pad_zeros_def)
  assume "u \<in> set (to_fixed d x)"
  then show "u < 128"
    using dec_digits_range by (fastforce simp: to_fixed_def Let_def lit_def dest: in_set_takeD in_set_dropD p split: if_splits)
qed

lemma well_formed_num_text [simp]: "well_formed (num_text x)"
proof -
  have "u < 128" if "u \<in> set (num_text x)" for u
    using that by (auto simp: num_text_def intro: to_fixed_ascii show_int_ascii split: option.splits if_splits)
  then show ?thesis by (force intro!: well_formed_ascii)
qed

lemma well_formed_Nil [simp]: "well_formed []"
  by (simp add: well_formed_def)

lemma well_formed_lit [simp]: "well_formed (lit s)"
  using lit_lt_256 by (force intro!: well_formed_ascii)

text \<open>C13. The query string built from a filter object, parsed again by URLSearchParams, gives exactly the entries whose value is neither undefined nor the empty string, in their order and with every character of the values preserved; it is the empty string exactly when no entry is left.\<close>

theorem query_string_round_trip:
  assumes "distinct (map fst vs)"
    and "\<forall>k s. (k, QStr s) \<in> set vs \<longrightarrow> well_formed s"
  shows "search_params (createQueryString vs) =
      map (\<lambda>(k, v). (lit k, qval_text v)) (filter (\<lambda>(k, v). v \<noteq> QUndef \<and> v \<noteq> QStr []) vs)
    \<and> (createQueryString vs = [] \<longleftrightarrow> (\<forall>(k, v) \<in> set vs. v = QUndef \<or> v = QStr []))"
proof -
  have "well_formed (qval_text v)" if "(k, v) \<in> set vs" for k v
    using that assms(2) by (cases v) (auto simp: show_bool_def)
  then have wf: "well_formed_pairs (kept_params vs)"
    by (auto simp: well_formed_pairs_def kept_params_def list_all_iff)
  show ?thesis
    using search_params_query [OF assms(1) wf]
    by (auto simp: createQueryString_alt [OF assms(1)] kept_params_def qval_kept_def filter_empty_conv)
qed

theorem query_string_round_trip_witness:
  "search_params (createQueryString [(''search'', QStr (lit ''a&b c'')), (''colo'', QStr []), (''page'', QNum 2)])
     = [(lit ''search'', lit ''a&b c''), (lit ''page'', lit ''2'')]"
proof -
  let ?vs = "[(''search'', QStr (lit ''a&b c'')), (''colo'', QStr []), (''page'', QNum 2)]"
  have "distinct (map fst ?vs)" "\<forall>k s. (k, QStr s) \<in> set ?vs \<longrightarrow> well_formed s"
    by auto
  from query_string_round_trip [OF this]
  show ?thesis by (simp add: show_int_def dec_digits.simps lit_def)
qed

end
