(* ===== verification/Types.thy ===== *)
theory Types
  imports Http
begin

text \<open>
  The data the server exchanges with the console (\<open>features/*/types.ts\<close>), an
  \<open>interface\<close> as a record and a union of string literals as a datatype. The fields of a
  record carry a two- or three-letter prefix of its type, since Isabelle's selectors share one
  name space; an optional field is an option. A \<open>number\<close> is an \<open>int\<close> where the
  server's field is an integer and a rational where it is a float; the inputs a form edits hold
  a \<open>jsnum\<close>, as a number field that is left empty holds NaN.
\<close>

subsection \<open>\<^verbatim>\<open>features/auth/types.ts\<close>\<close>

datatype UserRole = Admin | Viewer

fun userRole_str :: "UserRole \<Rightarrow> jsstr" where
  "userRole_str Admin = lit ''admin''"
| "userRole_str Viewer = lit ''viewer''"

lemma userRole_str_inject [simp]: "userRole_str a = userRole_str b \<longleftrightarrow> a = b"
  by (cases a; cases b) simp_all

record User =
  usr_id :: jsstr
  usr_username :: jsstr
  usr_display_name :: jsstr
  usr_role :: UserRole
  usr_enabled :: bool
  usr_last_login_at :: "jsstr option"
  usr_created_at :: jsstr
  usr_updated_at :: jsstr

record LoginInput =
  li_username :: jsstr
  li_password :: jsstr

subsection \<open>\<^verbatim>\<open>features/users/types.ts\<close>\<close>

record CreateUserInput =
  cu_username :: jsstr
  cu_display_name :: jsstr
  cu_password :: jsstr
  cu_role :: UserRole

record UpdateUserInput =
  uu_display_name :: jsstr
  uu_role :: UserRole
  uu_enabled :: bool

subsection \<open>\<^verbatim>\<open>features/agents/types.ts\<close>\<close>

datatype AgentStatus = AgentOnline | AgentOffline

fun agentStatus_str :: "AgentStatus \<Rightarrow> jsstr" where
  "agentStatus_str AgentOnline = lit ''online''"
| "agentStatus_str AgentOffline = lit ''offline''"

lemma agentStatus_str_inject [simp]: "agentStatus_str a = agentStatus_str b \<longleftrightarrow> a = b"
  by (cases a; cases b) simp_all

record Agent =
  ag_id :: jsstr
  ag_name :: jsstr
  ag_region :: jsstr
  ag_continent :: jsstr
  ag_concurrency :: int
  ag_status :: AgentStatus
  ag_os :: jsstr
  ag_architecture :: jsstr
  ag_version :: jsstr
  ag_last_seen_at :: jsstr
  ag_created_at :: jsstr

datatype AgentEnrollmentMode = DeviceMode | PreauthorizedMode

fun agentEnrollmentMode_str :: "AgentEnrollmentMode \<Rightarrow> jsstr" where
  "agentEnrollmentMode_str DeviceMode = lit ''device''"
| "agentEnrollmentMode_str PreauthorizedMode = lit ''preauthorized''"

lemma agentEnrollmentMode_str_inject [simp]: "agentEnrollmentMode_str a = agentEnrollmentMode_str b \<longleftrightarrow> a = b"
  by (cases a; cases b) simp_all

datatype AgentEnrollmentStatus = EnrollPending | EnrollApproved | EnrollClaimed | EnrollRejected | EnrollRevoked | EnrollExpired

fun agentEnrollmentStatus_str :: "AgentEnrollmentStatus \<Rightarrow> jsstr" where
  "agentEnrollmentStatus_str EnrollPending = lit ''pending''"
| "agentEnrollmentStatus_str EnrollApproved = lit ''approved''"
| "agentEnrollmentStatus_str EnrollClaimed = lit ''claimed''"
| "agentEnrollmentStatus_str EnrollRejected = lit ''rejected''"
| "agentEnrollmentStatus_str EnrollRevoked = lit ''revoked''"
| "agentEnrollmentStatus_str EnrollExpired = lit ''expired''"

lemma agentEnrollmentStatus_str_inject [simp]: "agentEnrollmentStatus_str a = agentEnrollmentStatus_str b \<longleftrightarrow> a = b"
  by (cases a; cases b) simp_all

record AgentEnrollment =
  en_id :: jsstr
  en_mode :: AgentEnrollmentMode
  en_status :: AgentEnrollmentStatus
  en_requested_name :: jsstr
  en_os :: jsstr
  en_architecture :: jsstr
  en_version :: jsstr
  en_requested_concurrency :: int
  en_name :: "jsstr option"
  en_region :: "jsstr option"
  en_continent :: "jsstr option"
  en_concurrency :: "int option"
  en_agent_id :: "jsstr option"
  en_expires_at :: jsstr
  en_approved_at :: "jsstr option"
  en_claimed_at :: "jsstr option"
  en_created_at :: jsstr
  en_updated_at :: jsstr

record AgentEnrollmentConfig =
  ec_public_url :: jsstr
  ec_agent_image :: jsstr
  ec_agent_version :: jsstr
  ec_ttl_seconds :: int
  ec_poll_interval :: int

record ApproveAgentEnrollmentInput =
  ap_name :: jsstr
  ap_region :: jsstr
  ap_continent :: jsstr
  ap_concurrency :: jsnum

record CreatePreauthorizedEnrollmentInput = ApproveAgentEnrollmentInput +
  ap_ttl_minutes :: jsnum

record CreatePreauthorizedEnrollmentResponse =
  cr_enrollment :: AgentEnrollment
  cr_pairing_token :: jsstr
  cr_expires_in :: int

datatype EnrollmentLocator = LocToken jsstr | LocId jsstr

subsection \<open>\<^verbatim>\<open>features/blacklist/types.ts\<close>\<close>

record BlacklistEntry =
  be_agent_id :: jsstr
  be_agent_name :: jsstr
  be_region :: jsstr
  be_continent :: jsstr
  be_target_ip :: jsstr
  be_reason :: jsstr
  be_failure_count :: int
  be_blocked_at :: jsstr
  be_retry_after :: jsstr
  be_updated_at :: jsstr

subsection \<open>\<^verbatim>\<open>features/dashboard/types.ts\<close>\<close>

record Overview =
  ov_agents_total :: int
  ov_agents_online :: int
  ov_prefixes_total :: int
  ov_ips_total :: int
  ov_ips_available :: int
  ov_ips_blacklisted :: int
  ov_running_jobs :: int
  ov_completed_jobs :: int
  ov_average_latency_ms :: rat
  ov_results_last_24h :: int

subsection \<open>\<^verbatim>\<open>features/league/types.ts\<close>\<close>

datatype PrefixTier = TierObservation | TierChallenger | TierChampion

fun prefixTier_str :: "PrefixTier \<Rightarrow> jsstr" where
  "prefixTier_str TierObservation = lit ''observation''"
| "prefixTier_str TierChallenger = lit ''challenger''"
| "prefixTier_str TierChampion = lit ''champion''"

lemma prefixTier_str_inject [simp]: "prefixTier_str a = prefixTier_str b \<longleftrightarrow> a = b"
  by (cases a; cases b) simp_all

record PrefixLeagueEntry =
  pl_agent_id :: jsstr
  pl_agent_name :: jsstr
  pl_region :: jsstr
  pl_continent :: jsstr
  pl_prefix_cidr :: jsstr
  pl_scheme :: jsstr
  pl_hostname :: jsstr
  pl_path :: jsstr
  pl_port :: int
  pl_attempts :: int
  pl_timeout_ms :: int
  pl_tier :: PrefixTier
  pl_active :: bool
  pl_sample_count :: int
  pl_distinct_ip_count :: int
  pl_availability_rate :: rat
  pl_latency_p95_ms :: rat
  pl_packet_loss_avg :: rat
  pl_recent_sample_count :: int
  pl_recent_availability_rate :: rat
  pl_recent_latency_p95_ms :: rat
  pl_recent_packet_loss_avg :: rat
  pl_bad_streak :: int
  pl_last_result_at :: "jsstr option"
  pl_last_scheduled_at :: "jsstr option"
  pl_last_evaluated_at :: "jsstr option"
  pl_updated_at :: jsstr

record LeagueCandidate =
  lc_agent_id :: jsstr
  lc_agent_name :: jsstr
  lc_region :: jsstr
  lc_continent :: jsstr
  lc_prefix_cidr :: jsstr
  lc_tier :: PrefixTier
  lc_scheme :: jsstr
  lc_hostname :: jsstr
  lc_path :: jsstr
  lc_port :: rat
  lc_attempts :: rat
  lc_timeout_ms :: rat
  lc_target_ip :: jsstr
  lc_colo :: jsstr
  lc_sample_count :: int
  lc_availability_rate :: rat
  lc_latency_p95_ms :: rat
  lc_packet_loss_avg :: rat
  lc_last_scanned_at :: jsstr

record 'a LeaguePage =
  lp_items :: "'a list"
  lp_total :: int
  lp_page :: int
  lp_page_size :: int
  lp_total_pages :: int

record LeagueDashboardFilters =
  lf_agent_id :: "jsstr option"
  lf_prefix_page :: int
  lf_prefix_page_size :: int
  lf_candidate_page :: int
  lf_candidate_page_size :: int

record LeagueDashboardSummary =
  ld_observation_prefixes :: int
  ld_challenger_prefixes :: int
  ld_champion_prefixes :: int
  ld_candidate_ips :: int

record LeagueDashboard =
  ld_summary :: LeagueDashboardSummary
  ld_prefixes :: "PrefixLeagueEntry LeaguePage"
  ld_candidates :: "LeagueCandidate LeaguePage"

datatype TrendTimeRange = Trend24h | Trend7d | Trend30d

fun trendTimeRange_str :: "TrendTimeRange \<Rightarrow> jsstr" where
  "trendTimeRange_str Trend24h = lit ''24h''"
| "trendTimeRange_str Trend7d = lit ''7d''"
| "trendTimeRange_str Trend30d = lit ''30d''"

lemma trendTimeRange_str_inject [simp]: "trendTimeRange_str a = trendTimeRange_str b \<longleftrightarrow> a = b"
  by (cases a; cases b) simp_all

record IPTrendPoint =
  tp_scanned_at :: jsstr
  tp_available :: bool
  tp_latency_ms :: rat
  tp_packet_loss :: rat
  tp_tcp_connect_ms :: rat
  tp_tls_handshake_ms :: rat
  tp_ttfb_ms :: rat
  tp_colo :: jsstr

record IPTrendSummary =
  it_sample_count :: int
  it_availability_rate :: rat
  it_latency_p50_ms :: rat
  it_latency_p95_ms :: rat
  it_packet_loss_avg :: rat
  it_latest_colo :: jsstr

record IPTrend =
  it_agent_id :: jsstr
  it_agent_name :: jsstr
  it_target_ip :: jsstr
  it_summary :: IPTrendSummary
  it_points :: "IPTrendPoint list"

subsection \<open>\<^verbatim>\<open>features/results/types.ts\<close>\<close>

record ScanResult =
  sr_id :: int
  sr_job_id :: jsstr
  sr_job_name :: jsstr
  sr_agent_id :: jsstr
  sr_agent_name :: jsstr
  sr_region :: jsstr
  sr_continent :: jsstr
  sr_target_ip :: jsstr
  sr_available :: bool
  sr_latency_ms :: rat
  sr_packet_loss :: rat
  sr_tcp_connect_ms :: rat
  sr_tls_handshake_ms :: rat
  sr_ttfb_ms :: rat
  sr_total_ms :: rat
  sr_http_status :: int
  sr_http_version :: jsstr
  sr_tls_version :: jsstr
  sr_colo :: jsstr
  sr_colo_city :: jsstr
  sr_colo_country :: jsstr
  sr_colo_continent :: jsstr
  sr_cf_ray :: jsstr
  sr_error_code :: "jsstr option"
  sr_scanned_at :: jsstr

datatype ResultView = ViewLatest | ViewHistory

fun resultView_str :: "ResultView \<Rightarrow> jsstr" where
  "resultView_str ViewLatest = lit ''latest''"
| "resultView_str ViewHistory = lit ''history''"

lemma resultView_str_inject [simp]: "resultView_str a = resultView_str b \<longleftrightarrow> a = b"
  by (cases a; cases b) simp_all

datatype ResultSort = SortTargetIp | SortAgentName | SortColo | SortAvailable | SortLatencyMs | SortPacketLoss | SortHttpStatus | SortScannedAt

fun resultSort_str :: "ResultSort \<Rightarrow> jsstr" where
  "resultSort_str SortTargetIp = lit ''target_ip''"
| "resultSort_str SortAgentName = lit ''agent_name''"
| "resultSort_str SortColo = lit ''colo''"
| "resultSort_str SortAvailable = lit ''available''"
| "resultSort_str SortLatencyMs = lit ''latency_ms''"
| "resultSort_str SortPacketLoss = lit ''packet_loss''"
| "resultSort_str SortHttpStatus = lit ''http_status''"
| "resultSort_str SortScannedAt = lit ''scanned_at''"

lemma resultSort_str_inject [simp]: "resultSort_str a = resultSort_str b \<longleftrightarrow> a = b"
  by (cases a; cases b) simp_all

datatype ResultOrder = Asc | Desc

fun resultOrder_str :: "ResultOrder \<Rightarrow> jsstr" where
  "resultOrder_str Asc = lit ''asc''"
| "resultOrder_str Desc = lit ''desc''"

lemma resultOrder_str_inject [simp]: "resultOrder_str a = resultOrder_str b \<longleftrightarrow> a = b"
  by (cases a; cases b) simp_all

datatype ResultTimeRange = Range1h | Range24h | Range7d | Range30d | RangeAll

fun resultTimeRange_str :: "ResultTimeRange \<Rightarrow> jsstr" where
  "resultTimeRange_str Range1h = lit ''1h''"
| "resultTimeRange_str Range24h = lit ''24h''"
| "resultTimeRange_str Range7d = lit ''7d''"
| "resultTimeRange_str Range30d = lit ''30d''"
| "resultTimeRange_str RangeAll = lit ''all''"

lemma resultTimeRange_str_inject [simp]: "resultTimeRange_str a = resultTimeRange_str b \<longleftrightarrow> a = b"
  by (cases a; cases b) simp_all

record ResultFilters =
  rf_view :: "ResultView option"
  rf_agent_id :: "jsstr option"
  rf_job_id :: "jsstr option"
  rf_region :: "jsstr option"
  rf_continent :: "jsstr option"
  rf_search :: "jsstr option"
  rf_colo :: "jsstr option"
  rf_colo_city :: "jsstr option"
  rf_colo_country :: "jsstr option"
  rf_colo_continent :: "jsstr option"
  rf_available :: "qval option"
  rf_time_range :: "ResultTimeRange option"
  rf_page :: "int option"
  rf_page_size :: "int option"
  rf_sort :: "ResultSort option"
  rf_order :: "ResultOrder option"

record ResultFacetFilters =
  ff_view :: "ResultView option"
  ff_agent_id :: "jsstr option"
  ff_job_id :: "jsstr option"
  ff_region :: "jsstr option"
  ff_continent :: "jsstr option"
  ff_search :: "jsstr option"
  ff_available :: "qval option"
  ff_time_range :: "ResultTimeRange option"

type_synonym ResultJobFilters = ResultFilters

record ResultStatusCounts =
  rc_all :: int
  rc_available :: int
  rc_failed :: int

record ResultPage =
  rp_items :: "ScanResult list"
  rp_total :: int
  rp_page :: int
  rp_page_size :: int
  rp_total_pages :: int
  rp_counts :: ResultStatusCounts

record ResultColoFacet =
  cf_code :: jsstr
  cf_city :: jsstr
  cf_country :: jsstr
  cf_continent :: jsstr
  cf_count :: int

record ResultJobFacet =
  jf_id :: jsstr
  jf_name :: jsstr
  jf_kind :: jsstr
  jf_count :: int
  jf_created_at :: jsstr

subsection \<open>\<^verbatim>\<open>features/scans/types.ts\<close>\<close>

datatype SamplingMode = ByCount | OnePerPrefix | LeagueMode

fun samplingMode_str :: "SamplingMode \<Rightarrow> jsstr" where
  "samplingMode_str ByCount = lit ''count''"
| "samplingMode_str OnePerPrefix = lit ''one_per_prefix''"
| "samplingMode_str LeagueMode = lit ''league''"

lemma samplingMode_str_inject [simp]: "samplingMode_str a = samplingMode_str b \<longleftrightarrow> a = b"
  by (cases a; cases b) simp_all

record ScanJob =
  sj_id :: jsstr
  sj_name :: jsstr
  sj_kind :: jsstr
  sj_status :: jsstr
  sj_sampling_mode :: SamplingMode
  sj_scheme :: jsstr
  sj_hostname :: jsstr
  sj_path :: jsstr
  sj_port :: int
  sj_attempts :: int
  sj_timeout_ms :: int
  sj_max_latency_ms :: rat
  sj_max_packet_loss :: rat
  sj_blacklist_minutes :: int
  sj_total_targets :: int
  sj_completed_targets :: int
  sj_success_targets :: int
  sj_failed_targets :: int
  sj_progress :: rat
  sj_created_at :: jsstr
  sj_started_at :: "jsstr option"
  sj_finished_at :: "jsstr option"

datatype Scheme = SchemeHttp | SchemeHttps

fun scheme_str :: "Scheme \<Rightarrow> jsstr" where
  "scheme_str SchemeHttp = lit ''http''"
| "scheme_str SchemeHttps = lit ''https''"

lemma scheme_str_inject [simp]: "scheme_str a = scheme_str b \<longleftrightarrow> a = b"
  by (cases a; cases b) simp_all

record CreateScanJob =
  cj_name :: jsstr
  cj_agent_ids :: "jsstr list"
  cj_sampling_mode :: SamplingMode
  cj_target_count :: jsnum
  cj_scheme :: Scheme
  cj_hostname :: jsstr
  cj_path :: jsstr
  cj_port :: jsnum
  cj_attempts :: jsnum
  cj_timeout_ms :: jsnum
  cj_max_latency_ms :: jsnum
  cj_max_packet_loss :: jsnum
  cj_blacklist_minutes :: jsnum
  cj_include_ipv6 :: bool
  cj_include_blocked :: bool

subsection \<open>\<^verbatim>\<open>features/settings/types.ts\<close>\<close>

record UpsertScanSchedule = CreateScanJob +
  us_enabled :: bool
  us_cron_expression :: jsstr
  us_timezone :: jsstr

record ScanSchedule = UpsertScanSchedule +
  ss_id :: jsstr
  ss_next_run_at :: jsstr
  ss_last_run_at :: "jsstr option"
  ss_last_job_id :: "jsstr option"
  ss_last_error :: "jsstr option"
  ss_created_at :: jsstr
  ss_updated_at :: jsstr

text \<open>The type the updates send is the settings without five fields; here the settings extend it.\<close>

record UpdateBlacklistRecheckSettings =
  br_enabled :: bool
  br_cron_expression :: jsstr
  br_timezone :: jsstr
  br_due_only :: bool
  br_fraction :: jsnum
  br_max_targets :: jsnum
  br_skip_if_running :: bool
  br_attempts :: jsnum
  br_timeout_ms :: jsnum
  br_max_latency_ms :: jsnum
  br_max_packet_loss :: jsnum
  br_retry_minutes :: jsnum

record BlacklistRecheckSettings = UpdateBlacklistRecheckSettings +
  br_next_run_at :: jsstr
  br_last_run_at :: "jsstr option"
  br_last_error :: "jsstr option"
  br_eligible_targets :: int
  br_updated_at :: jsstr

record BlacklistRecheckResult =
  rr_jobs :: int
  rr_targets :: int
  rr_job_ids :: "jsstr list"
  rr_skipped :: bool
  rr_reason :: "jsstr option"

datatype SourceKind = Official | AsnSource | ColoSource

fun sourceKind_str :: "SourceKind \<Rightarrow> jsstr" where
  "sourceKind_str Official = lit ''official''"
| "sourceKind_str AsnSource = lit ''asn''"
| "sourceKind_str ColoSource = lit ''colo''"

lemma sourceKind_str_inject [simp]: "sourceKind_str a = sourceKind_str b \<longleftrightarrow> a = b"
  by (cases a; cases b) simp_all

record SourceSyncSchedule =
  sy_source :: SourceKind
  sy_name :: jsstr
  sy_enabled :: bool
  sy_cron_expression :: jsstr
  sy_timezone :: jsstr
  sy_run_on_startup :: bool
  sy_next_run_at :: jsstr
  sy_last_run_at :: "jsstr option"
  sy_last_error :: "jsstr option"
  sy_updated_at :: jsstr

record UpdateSourceSyncSchedule =
  uy_enabled :: bool
  uy_cron_expression :: jsstr
  uy_timezone :: jsstr
  uy_run_on_startup :: bool

datatype AutomationType = ScanScheduleRun | BlacklistRecheckRun | SourceSyncRun

fun automationType_str :: "AutomationType \<Rightarrow> jsstr" where
  "automationType_str ScanScheduleRun = lit ''scan_schedule''"
| "automationType_str BlacklistRecheckRun = lit ''blacklist_recheck''"
| "automationType_str SourceSyncRun = lit ''source_sync''"

lemma automationType_str_inject [simp]: "automationType_str a = automationType_str b \<longleftrightarrow> a = b"
  by (cases a; cases b) simp_all

datatype Trigger = ByScheduler | AtStartup | Manually

fun trigger_str :: "Trigger \<Rightarrow> jsstr" where
  "trigger_str ByScheduler = lit ''scheduled''"
| "trigger_str AtStartup = lit ''startup''"
| "trigger_str Manually = lit ''manual''"

lemma trigger_str_inject [simp]: "trigger_str a = trigger_str b \<longleftrightarrow> a = b"
  by (cases a; cases b) simp_all

datatype RunStatus = RunRunning | RunCompleted | RunFailed | RunSkipped

fun runStatus_str :: "RunStatus \<Rightarrow> jsstr" where
  "runStatus_str RunRunning = lit ''running''"
| "runStatus_str RunCompleted = lit ''completed''"
| "runStatus_str RunFailed = lit ''failed''"
| "runStatus_str RunSkipped = lit ''skipped''"

lemma runStatus_str_inject [simp]: "runStatus_str a = runStatus_str b \<longleftrightarrow> a = b"
  by (cases a; cases b) simp_all

record AutomationRun =
  ar_id :: jsstr
  ar_automation_type :: AutomationType
  ar_automation_key :: jsstr
  ar_name :: jsstr
  ar_trigger :: Trigger
  ar_status :: RunStatus
  ar_config_snapshot :: json
  ar_summary :: json
  ar_error :: "jsstr option"
  ar_started_at :: jsstr
  ar_finished_at :: "jsstr option"

subsection \<open>\<^verbatim>\<open>features/sources/types.ts\<close>\<close>

record SourceStatus =
  st_source :: jsstr
  st_status :: jsstr
  st_prefix_count :: int
  st_ipv4_count :: int
  st_ipv6_count :: int
  st_last_synced_at :: "jsstr option"
  st_last_error :: "jsstr option"

record ASNSource =
  as_asn :: int
  as_name :: jsstr
  as_organization :: jsstr
  as_enabled :: bool
  as_managed :: bool
  as_status :: jsstr
  as_prefix_count :: int
  as_ipv4_count :: int
  as_ipv6_count :: int
  as_last_synced_at :: "jsstr option"
  as_last_error :: "jsstr option"
  as_created_at :: jsstr
  as_updated_at :: jsstr

record CreateASNSource =
  ca_asn :: jsnum
  ca_name :: jsstr
  ca_organization :: jsstr
  ca_enabled :: "bool option"

record UpdateASNSource =
  ua_name :: "jsstr option"
  ua_organization :: "jsstr option"
  ua_enabled :: "bool option"

record ASNSyncSummary =
  sm_items :: "ASNSource list"
  sm_synced :: int
  sm_failed :: int

end
