(* ===== verification/Geo.thy ===== *)
theory Geo
  imports Types
begin

text \<open>
  The geographic filters of the results (\<open>features/results/geo-facets.ts\<close>): the options the
  facets of the server give for a selection, and the normalisation of a selection whose facets are no
  longer there. \<open>cmp a b\<close> is \<open>a.localeCompare(b, 'en')\<close>, a parameter.
\<close>

subsection \<open>Literals\<close>

definition t_geo_dot :: jsstr where
  "t_geo_dot = [0x20, 0xB7, 0x20]"


record GeoFacetOption =
  go_value :: jsstr
  go_label :: jsstr
  go_count :: int

fun count_values :: "(ResultColoFacet \<Rightarrow> jsstr) \<Rightarrow> ResultColoFacet list \<Rightarrow> (jsstr, int) jsmap \<Rightarrow> (jsstr, int) jsmap" where
  "count_values valueOf [] counts = counts"
| "count_values valueOf (item # items) counts =
     (let value = valueOf item in
      if value = [] then count_values valueOf items counts
      else count_values valueOf items (map_set value (nullish (map_get counts value) 0 + cf_count item) counts))"

definition aggregate ::
  "(jsstr \<Rightarrow> jsstr \<Rightarrow> rat) \<Rightarrow> ResultColoFacet list \<Rightarrow> (ResultColoFacet \<Rightarrow> jsstr) \<Rightarrow> GeoFacetOption list" where
  "aggregate cmp items valueOf =
     js_sort (\<lambda>a b. cmp (go_label a) (go_label b))
       (map (\<lambda>(value, count). \<lparr>go_value = value, go_label = value, go_count = count\<rparr>) (count_values valueOf items []))"

record geo_selection =
  gs_continent :: jsstr
  gs_country :: jsstr
  gs_city :: jsstr
  gs_colo :: jsstr

record geo_options =
  opt_continents :: "GeoFacetOption list"
  opt_countries :: "GeoFacetOption list"
  opt_cities :: "GeoFacetOption list"
  opt_colos :: "GeoFacetOption list"

definition colo_option :: "ResultColoFacet \<Rightarrow> GeoFacetOption" where
  "colo_option item = \<lparr>go_value = cf_code item,
     go_label = cf_code item @ t_geo_dot @ cf_city item @ lit '', '' @ cf_country item, go_count = cf_count item\<rparr>"

definition buildGeoFacetOptions ::
  "(jsstr \<Rightarrow> jsstr \<Rightarrow> rat) \<Rightarrow> ResultColoFacet list \<Rightarrow> geo_selection \<Rightarrow> geo_options" where
  "buildGeoFacetOptions cmp facets selected =
     (let countriesSource = (if gs_continent selected \<noteq> []
            then filter (\<lambda>i. cf_continent i = gs_continent selected) facets else facets);
          citiesSource = filter (\<lambda>i. gs_country selected = [] \<or> cf_country i = gs_country selected) countriesSource;
          colosSource = filter (\<lambda>i. gs_city selected = [] \<or> cf_city i = gs_city selected) citiesSource
      in \<lparr>opt_continents = aggregate cmp facets cf_continent,
          opt_countries = aggregate cmp countriesSource cf_country,
          opt_cities = aggregate cmp citiesSource cf_city,
          opt_colos = map colo_option (js_sort (\<lambda>a b. cmp (cf_code a) (cf_code b)) colosSource)\<rparr>)"

definition normalizeGeoSelection :: "ResultColoFacet list \<Rightarrow> geo_selection \<Rightarrow> geo_selection" where
  "normalizeGeoSelection facets selected =
     (let continent = gs_continent selected; country = gs_country selected; city = gs_city selected;
          colo = gs_colo selected in
      if \<not> (continent = [] \<or> list_ex (\<lambda>i. cf_continent i = continent) facets)
      then \<lparr>gs_continent = [], gs_country = [], gs_city = [], gs_colo = []\<rparr>
      else if \<not> (country = [] \<or> list_ex (\<lambda>i. (continent = [] \<or> cf_continent i = continent) \<and> cf_country i = country) facets)
      then \<lparr>gs_continent = continent, gs_country = [], gs_city = [], gs_colo = []\<rparr>
      else if \<not> (city = [] \<or> list_ex (\<lambda>i. (continent = [] \<or> cf_continent i = continent)
                  \<and> (country = [] \<or> cf_country i = country) \<and> cf_city i = city) facets)
      then \<lparr>gs_continent = continent, gs_country = country, gs_city = [], gs_colo = []\<rparr>
      else \<lparr>gs_continent = continent, gs_country = country, gs_city = city,
             gs_colo = (if colo \<noteq> [] \<and> list_ex (\<lambda>i. cf_code i = colo \<and> (continent = [] \<or> cf_continent i = continent)
                           \<and> (country = [] \<or> cf_country i = country) \<and> (city = [] \<or> cf_city i = city)) facets
                         then colo else [])\<rparr>)"

subsection \<open>Counting\<close>

lemma count_values_keys:
  "fst ` set (count_values f items m) = fst ` set m \<union> (f ` set items - {[]})"
  by (induction f items m rule: count_values.induct) (auto simp: Let_def)

lemma count_values_distinct: "distinct (map fst m) \<Longrightarrow> distinct (map fst (count_values f items m))"
  by (induction f items m rule: count_values.induct) (auto simp: Let_def)

lemma count_values_get:
  "nullish (map_get (count_values f items m) v) 0 =
     nullish (map_get m v) 0 + (if v = [] then 0 else sum_list (map cf_count (filter (\<lambda>i. f i = v) items)))"
  by (induction f items m rule: count_values.induct) (auto simp: Let_def)

lemma set_aggregate:
  "set (aggregate cmp items f) =
     (\<lambda>(v, c). \<lparr>go_value = v, go_label = v, go_count = c\<rparr>) ` set (count_values f items [])"
  by (simp add: aggregate_def)

lemma aggregate_values: "go_value ` set (aggregate cmp items f) = f ` set items - {[]}"
  using count_values_keys [of f items "[]"]
  by (simp add: set_aggregate image_image case_prod_unfold)

lemma aggregate_distinct: "distinct (map go_value (aggregate cmp items f))"
proof -
  have "distinct (map fst (count_values f items []))" by (rule count_values_distinct) simp
  then have "distinct (map go_value (map (\<lambda>(v, c). \<lparr>go_value = v, go_label = v, go_count = c\<rparr>) (count_values f items [])))"
    by (simp add: comp_def case_prod_unfold)
  then show ?thesis unfolding aggregate_def by (simp only: distinct_map set_js_sort distinct_js_sort)
qed

lemma aggregate_count:
  assumes "o' \<in> set (aggregate cmp items f)"
  shows "go_label o' = go_value o' \<and> go_count o' = sum_list (map cf_count (filter (\<lambda>i. f i = go_value o') items))"
proof -
  obtain v c where o: "o' = \<lparr>go_value = v, go_label = v, go_count = c\<rparr>" "(v, c) \<in> set (count_values f items [])"
    using assms by (auto simp: set_aggregate)
  have "map_get (count_values f items []) v = Some c"
    using o(2) map_get_in [of "count_values f items []" v c] count_values_distinct [of "[]" f items] by simp
  moreover have "v \<noteq> []" using o(2) count_values_keys [of f items "[]"] by force
  ultimately show ?thesis using count_values_get [of f items "[]" v] o(1) by simp
qed

text \<open>The options of a geographic filter are exactly the nonempty values of its facets, each once; the count an option shows is the sum of the counts of the facets with that value; and they stand in the order of their labels, whatever total preorder the locale compares with.\<close>

theorem geo_options_correct:
  assumes "js_comparator cmp"
  shows "go_value ` set (aggregate cmp items f) = f ` set items - {[]}
    \<and> distinct (map go_value (aggregate cmp items f))
    \<and> (\<forall>o' \<in> set (aggregate cmp items f). go_count o' = sum_list (map cf_count (filter (\<lambda>i. f i = go_value o') items)))
    \<and> sorted_wrt (\<lambda>a b. cmp (go_label a) (go_label b) \<le> 0) (aggregate cmp items f)"
proof (intro conjI ballI)
  show "go_value ` set (aggregate cmp items f) = f ` set items - {[]}" by (rule aggregate_values)
  show "distinct (map go_value (aggregate cmp items f))" by (rule aggregate_distinct)
  show "go_count o' = sum_list (map cf_count (filter (\<lambda>i. f i = go_value o') items))"
    if "o' \<in> set (aggregate cmp items f)" for o'
    using aggregate_count [OF that] by simp
  show "sorted_wrt (\<lambda>a b. cmp (go_label a) (go_label b) \<le> 0) (aggregate cmp items f)"
    unfolding aggregate_def by (rule js_comparator.sorted_sort [OF js_comparator_comap [OF assms]])
qed

lemma length_comparator: "js_comparator (\<lambda>a b :: jsstr. by_key (\<lambda>s. of_nat (length s)) a b)"
  by (rule by_key.js_comparator_axioms)

definition sample_facets :: "ResultColoFacet list" where
  "sample_facets =
     [\<lparr>cf_code = lit ''NRT'', cf_city = lit ''Tokyo'', cf_country = lit ''Japan'', cf_continent = lit ''Asia'', cf_count = 7\<rparr>,
      \<lparr>cf_code = lit ''LHR'', cf_city = lit ''London'', cf_country = lit ''UK'', cf_continent = lit ''Europe'', cf_count = 2\<rparr>,
      \<lparr>cf_code = lit ''KIX'', cf_city = lit ''Osaka'', cf_country = lit ''Japan'', cf_continent = lit ''Asia'', cf_count = 4\<rparr>]"

theorem geo_options_correct_witness:
  "go_value ` set (aggregate (by_key (\<lambda>s. of_nat (length s))) sample_facets cf_country) = {lit ''Japan'', lit ''UK''}"
  using geo_options_correct [OF length_comparator, of sample_facets cf_country]
  by (auto simp: sample_facets_def)

text \<open>No result is lost: the counts of the options add up to the counts of the facets with a value.\<close>

lemma sum_map_set:
  "distinct (map fst m) \<Longrightarrow>
   sum_list (map snd (map_set k (nullish (map_get m k) 0 + c) m)) = sum_list (map snd m) + (c::int)"
  by (induction m) (auto simp: map_set_def map_get_def)

lemma aggregate_total:
  "sum_list (map go_count (aggregate cmp items f)) = sum_list (map cf_count (filter (\<lambda>i. f i \<noteq> []) items))"
proof -
  have "distinct (map fst m) \<Longrightarrow> sum_list (map snd (count_values f items m)) =
      sum_list (map snd m) + sum_list (map cf_count (filter (\<lambda>i. f i \<noteq> []) items))" for m
    by (induction f items m rule: count_values.induct) (simp_all add: Let_def sum_map_set map_set_distinct)
  from this [of "[]"] show ?thesis
    by (simp add: aggregate_def comp_def case_prod_unfold)
qed

subsection \<open>Normalisation\<close>

text \<open>A facet fits a selection when it has every value the selection names.\<close>

definition fits :: "geo_selection \<Rightarrow> ResultColoFacet \<Rightarrow> bool" where
  "fits g i \<longleftrightarrow> (gs_continent g = [] \<or> cf_continent i = gs_continent g) \<and> (gs_country g = [] \<or> cf_country i = gs_country g)
     \<and> (gs_city g = [] \<or> cf_city i = gs_city g) \<and> (gs_colo g = [] \<or> cf_code i = gs_colo g)"

text \<open>The selection cut after its first \<open>n\<close> levels.\<close>

definition cut_geo :: "nat \<Rightarrow> geo_selection \<Rightarrow> geo_selection" where
  "cut_geo n g = \<lparr>gs_continent = (if 1 \<le> n then gs_continent g else []), gs_country = (if 2 \<le> n then gs_country g else []),
     gs_city = (if 3 \<le> n then gs_city g else []), gs_colo = (if 4 \<le> n then gs_colo g else [])\<rparr>"

definition backed :: "ResultColoFacet list \<Rightarrow> geo_selection \<Rightarrow> bool" where
  "backed facets g \<longleftrightarrow> g = cut_geo 0 g \<or> (\<exists>i \<in> set facets. fits g i)"

lemma cut_geo_4 [simp]: "cut_geo 4 g = g"
  by (simp add: cut_geo_def)

text \<open>The first level whose cut is not backed ends the selection.\<close>

definition normalize_spec :: "ResultColoFacet list \<Rightarrow> geo_selection \<Rightarrow> geo_selection" where
  "normalize_spec facets g =
     (if \<not> backed facets (cut_geo 1 g) then cut_geo 0 g
      else if \<not> backed facets (cut_geo 2 g) then cut_geo 1 g
      else if \<not> backed facets (cut_geo 3 g) then cut_geo 2 g
      else if \<not> backed facets g then cut_geo 3 g else g)"

lemma backed_cuts:
  "backed facets (cut_geo 1 g) \<longleftrightarrow> gs_continent g = [] \<or> (\<exists>i \<in> set facets. cf_continent i = gs_continent g)"
  "backed facets (cut_geo (Suc n) g) \<Longrightarrow> backed facets (cut_geo n g)"
proof -
  show "backed facets (cut_geo 1 g) \<longleftrightarrow> gs_continent g = [] \<or> (\<exists>i \<in> set facets. cf_continent i = gs_continent g)"
    by (auto simp: backed_def cut_geo_def fits_def)
  show "backed facets (cut_geo (Suc n) g) \<Longrightarrow> backed facets (cut_geo n g)"
    by (auto simp: backed_def cut_geo_def fits_def split: if_splits)
qed

lemma backed_next:
  "backed facets (cut_geo 1 g) \<Longrightarrow> backed facets (cut_geo 2 g) \<longleftrightarrow> gs_country g = []
     \<or> list_ex (\<lambda>i. (gs_continent g = [] \<or> cf_continent i = gs_continent g) \<and> cf_country i = gs_country g) facets"
  "backed facets (cut_geo 2 g) \<Longrightarrow> backed facets (cut_geo 3 g) \<longleftrightarrow> gs_city g = []
     \<or> list_ex (\<lambda>i. (gs_continent g = [] \<or> cf_continent i = gs_continent g)
          \<and> (gs_country g = [] \<or> cf_country i = gs_country g) \<and> cf_city i = gs_city g) facets"
  "backed facets (cut_geo 3 g) \<Longrightarrow> backed facets g \<longleftrightarrow> gs_colo g = []
     \<or> list_ex (\<lambda>i. cf_code i = gs_colo g \<and> (gs_continent g = [] \<or> cf_continent i = gs_continent g)
          \<and> (gs_country g = [] \<or> cf_country i = gs_country g) \<and> (gs_city g = [] \<or> cf_city i = gs_city g)) facets"
proof -
  have e: "gs_country g = [] \<Longrightarrow> cut_geo 2 g = cut_geo 1 g" "gs_city g = [] \<Longrightarrow> cut_geo 3 g = cut_geo 2 g"
    "gs_colo g = [] \<Longrightarrow> g = cut_geo 3 g"
    by (simp_all add: cut_geo_def)
  show "backed facets (cut_geo 1 g) \<Longrightarrow> backed facets (cut_geo 2 g) \<longleftrightarrow> gs_country g = []
     \<or> list_ex (\<lambda>i. (gs_continent g = [] \<or> cf_continent i = gs_continent g) \<and> cf_country i = gs_country g) facets"
    using e(1) by (cases "gs_country g = []") (auto simp: backed_def cut_geo_def fits_def list_ex_iff)
  show "backed facets (cut_geo 2 g) \<Longrightarrow> backed facets (cut_geo 3 g) \<longleftrightarrow> gs_city g = []
     \<or> list_ex (\<lambda>i. (gs_continent g = [] \<or> cf_continent i = gs_continent g)
          \<and> (gs_country g = [] \<or> cf_country i = gs_country g) \<and> cf_city i = gs_city g) facets"
    using e(2) by (cases "gs_city g = []") (auto simp: backed_def cut_geo_def fits_def list_ex_iff)
  show "backed facets g \<longleftrightarrow> gs_colo g = []
     \<or> list_ex (\<lambda>i. cf_code i = gs_colo g \<and> (gs_continent g = [] \<or> cf_continent i = gs_continent g)
          \<and> (gs_country g = [] \<or> cf_country i = gs_country g) \<and> (gs_city g = [] \<or> cf_city i = gs_city g)) facets"
    if b: "backed facets (cut_geo 3 g)"
  proof (cases "gs_colo g = []")
    case True
    then show ?thesis using b e(3) by simp
  next
    case False
    then have "g \<noteq> cut_geo 0 g" by (cases g) (simp add: cut_geo_def)
    then show ?thesis using False by (auto simp: backed_def fits_def list_ex_iff)
  qed
qed

lemma normalize_eq_spec: "normalizeGeoSelection facets g = normalize_spec facets g"
proof -
  have c1: "(gs_continent g = [] \<or> list_ex (\<lambda>i. cf_continent i = gs_continent g) facets) \<longleftrightarrow> backed facets (cut_geo 1 g)"
    by (simp only: backed_cuts(1) list_ex_iff)
  show ?thesis
    unfolding normalizeGeoSelection_def normalize_spec_def Let_def c1
    using backed_next [of facets g] by (auto simp: cut_geo_def)
qed

lemma backed_0 [simp]: "backed facets (cut_geo 0 g)"
  by (simp add: backed_def cut_geo_def)

lemma normalize_backed: "backed facets (normalizeGeoSelection facets g)"
  using backed_0 [of facets g] unfolding normalize_eq_spec normalize_spec_def by (simp split: if_splits)

lemma normalize_fixed: "backed facets g \<Longrightarrow> normalizeGeoSelection facets g = g"
proof -
  assume "backed facets g"
  then have "backed facets (cut_geo 4 g)" by simp
  then have "backed facets (cut_geo 3 g)" "backed facets (cut_geo 2 g)" "backed facets (cut_geo 1 g)"
    using backed_cuts(2) [of facets 3 g] backed_cuts(2) [of facets 2 g] backed_cuts(2) [of facets 1 g]
    by (simp_all add: eval_nat_numeral)
  with \<open>backed facets g\<close> show ?thesis by (simp add: normalize_eq_spec normalize_spec_def)
qed

text \<open>C11. Normalising a geographic selection cuts it at the first level (continent, country, city, colo) that no facet supports together with the levels above it, and keeps everything before: the cascade of early returns equals that specification. The result is supported by one facet or empty, a supported selection is left alone, and normalising twice changes nothing.\<close>

theorem normalize_geo_correct:
  "normalizeGeoSelection facets g =
     (if \<not> backed facets (cut_geo 1 g) then cut_geo 0 g
      else if \<not> backed facets (cut_geo 2 g) then cut_geo 1 g
      else if \<not> backed facets (cut_geo 3 g) then cut_geo 2 g
      else if \<not> backed facets g then cut_geo 3 g else g)
   \<and> backed facets (normalizeGeoSelection facets g)
   \<and> (backed facets g \<longrightarrow> normalizeGeoSelection facets g = g)
   \<and> normalizeGeoSelection facets (normalizeGeoSelection facets g) = normalizeGeoSelection facets g"
  using normalize_backed normalize_fixed by (auto simp: normalize_eq_spec [unfolded normalize_spec_def])

definition sample_selection :: geo_selection where
  "sample_selection = \<lparr>gs_continent = lit ''Asia'', gs_country = lit ''Japan'', gs_city = lit ''London'', gs_colo = lit ''NRT''\<rparr>"

theorem normalize_geo_correct_witness:
  "normalizeGeoSelection sample_facets (cut_geo 2 sample_selection) = cut_geo 2 sample_selection"
proof -
  have "backed sample_facets (cut_geo 2 sample_selection)"
    by (simp add: backed_def cut_geo_def sample_selection_def sample_facets_def fits_def)
  with normalize_geo_correct [of sample_facets "cut_geo 2 sample_selection"] show ?thesis by blast
qed

subsection \<open>A selection is always among its options\<close>

text \<open>What the filters show: the value of every nonempty level of a backed selection is one of the
  options built for that selection, so no filter is active without being shown.\<close>

lemma backed_offered:
  assumes "backed facets g" and "opts = buildGeoFacetOptions cmp facets g"
  shows "gs_continent g \<noteq> [] \<longrightarrow> gs_continent g \<in> go_value ` set (opt_continents opts)"
    "gs_country g \<noteq> [] \<longrightarrow> gs_country g \<in> go_value ` set (opt_countries opts)"
    "gs_city g \<noteq> [] \<longrightarrow> gs_city g \<in> go_value ` set (opt_cities opts)"
    "gs_colo g \<noteq> [] \<longrightarrow> gs_colo g \<in> go_value ` set (opt_colos opts)"
proof -
  have "(gs_continent g \<noteq> [] \<or> gs_country g \<noteq> [] \<or> gs_city g \<noteq> [] \<or> gs_colo g \<noteq> []) \<Longrightarrow> \<exists>i \<in> set facets. fits g i"
    using assms(1) by (cases g) (auto simp: backed_def cut_geo_def)
  then obtain i where i: "(gs_continent g \<noteq> [] \<or> gs_country g \<noteq> [] \<or> gs_city g \<noteq> [] \<or> gs_colo g \<noteq> []) \<Longrightarrow> i \<in> set facets \<and> fits g i"
    by blast
  show "gs_continent g \<noteq> [] \<longrightarrow> gs_continent g \<in> go_value ` set (opt_continents opts)"
    using i by (auto simp: assms(2) buildGeoFacetOptions_def Let_def aggregate_values fits_def intro!: image_eqI [of _ _ i])
  show "gs_country g \<noteq> [] \<longrightarrow> gs_country g \<in> go_value ` set (opt_countries opts)"
    using i by (auto simp: assms(2) buildGeoFacetOptions_def Let_def aggregate_values fits_def intro!: image_eqI [of _ _ i])
  show "gs_city g \<noteq> [] \<longrightarrow> gs_city g \<in> go_value ` set (opt_cities opts)"
    using i by (auto simp: assms(2) buildGeoFacetOptions_def Let_def aggregate_values fits_def intro!: image_eqI [of _ _ i])
  show "gs_colo g \<noteq> [] \<longrightarrow> gs_colo g \<in> go_value ` set (opt_colos opts)"
    using i by (auto simp: assms(2) buildGeoFacetOptions_def Let_def image_image colo_option_def fits_def intro!: image_eqI [of _ _ i])
qed

text \<open>Whatever is stored as the selection, the effective one the page shows and sends is consistent with the options built from it: each of its nonempty levels is an option of its own filter, so an active filter is always visible in its combobox and the query never combines values no facet has together.\<close>

theorem geo_selection_offered:
  assumes "g = normalizeGeoSelection facets stored" and "opts = buildGeoFacetOptions cmp facets g"
  shows "(gs_continent g \<noteq> [] \<longrightarrow> gs_continent g \<in> go_value ` set (opt_continents opts))
    \<and> (gs_country g \<noteq> [] \<longrightarrow> gs_country g \<in> go_value ` set (opt_countries opts))
    \<and> (gs_city g \<noteq> [] \<longrightarrow> gs_city g \<in> go_value ` set (opt_cities opts))
    \<and> (gs_colo g \<noteq> [] \<longrightarrow> gs_colo g \<in> go_value ` set (opt_colos opts))"
  using backed_offered [OF normalize_backed [of facets stored] refl, of cmp] assms by simp

theorem geo_selection_offered_witness:
  "lit ''Japan'' \<in> go_value ` set (opt_countries
     (buildGeoFacetOptions (by_key (\<lambda>s. of_nat (length s))) sample_facets (normalizeGeoSelection sample_facets sample_selection)))"
proof -
  have "gs_country (normalizeGeoSelection sample_facets sample_selection) = lit ''Japan''"
    by (simp add: normalizeGeoSelection_def sample_selection_def sample_facets_def Let_def)
  then show ?thesis using geo_selection_offered [OF refl refl, of sample_facets sample_selection] by fastforce
qed

end
