(* ===== verification/Schemas.thy ===== *)
theory Schemas
  imports Types
begin

text \<open>
  The form schemas (\<open>features/*/schema.ts\<close> and the login form), written with zod. The checks of
  a field run in the order of the schema and the form shows the first that fails; \<open>None\<close> is
  zod's own message. A \<open>trim\<close> changes the parsed value, so a schema returns the errors by field,
  or the parsed values. \<open>z.boolean\<close>, \<open>z.array\<close> and \<open>z.enum\<close> fields accept every value
  of their type.
\<close>

subsection \<open>Literals\<close>

definition t_name_min :: jsstr where
  "t_name_min = [0x8BF7, 0x8F93, 0x5165, 0x81F3, 0x5C11, 0x20, 0x32, 0x20, 0x4E2A, 0x5B57, 0x7B26, 0x7684,
     0x4EFB, 0x52A1, 0x540D, 0x79F0]"

definition t_name_max :: jsstr where
  "t_name_max = [0x4EFB, 0x52A1, 0x540D, 0x79F0, 0x4E0D, 0x80FD, 0x8D85, 0x8FC7, 0x20, 0x38, 0x30, 0x20,
     0x4E2A, 0x5B57, 0x7B26]"

definition t_host_required :: jsstr where
  "t_host_required = [0x8BF7, 0x8F93, 0x5165, 0x6D4B, 0x8BD5, 0x57DF, 0x540D]"

definition t_host_bad :: jsstr where
  "t_host_bad = [0x57DF, 0x540D, 0x683C, 0x5F0F, 0x4E0D, 0x6B63, 0x786E]"

definition t_path_required :: jsstr where
  "t_path_required = [0x8BF7, 0x8F93, 0x5165, 0x8BF7, 0x6C42, 0x8DEF, 0x5F84]"

definition t_path_slash :: jsstr where
  "t_path_slash = [0x8BF7, 0x6C42, 0x8DEF, 0x5F84, 0x5FC5, 0x987B, 0x4EE5, 0x20, 0x2F, 0x20, 0x5F00, 0x5934]"

definition t_cron_required :: jsstr where
  "t_cron_required = [0x8BF7, 0x8F93, 0x5165, 0x20, 0x43, 0x72, 0x6F, 0x6E, 0x20, 0x8868, 0x8FBE, 0x5F0F]"

definition t_cron_bad :: jsstr where
  "t_cron_bad = [0x8BF7, 0x8F93, 0x5165, 0x6807, 0x51C6, 0x20, 0x35, 0x20, 0x6BB5, 0x20, 0x43, 0x72, 0x6F,
     0x6E, 0xFF0C, 0x6216, 0x4F7F, 0x7528, 0x20, 0x40, 0x68, 0x6F, 0x75, 0x72, 0x6C, 0x79,
     0x20, 0x2F, 0x20, 0x40, 0x64, 0x61, 0x69, 0x6C, 0x79]"

definition t_zone_required :: jsstr where
  "t_zone_required = [0x8BF7, 0x9009, 0x62E9, 0x65F6, 0x533A]"

definition t_default_schedule_name :: jsstr where
  "t_default_schedule_name = [0x43, 0x6C, 0x6F, 0x75, 0x64, 0x66, 0x6C, 0x61, 0x72, 0x65, 0x20, 0x5B9A, 0x65F6, 0x626B,
     0x63CF]"

definition t_asn_min :: jsstr where
  "t_asn_min = [0x41, 0x53, 0x4E, 0x20, 0x5FC5, 0x987B, 0x5927, 0x4E8E, 0x20, 0x30]"

definition t_asn_max :: jsstr where
  "t_asn_max = [0x41, 0x53, 0x4E, 0x20, 0x8D85, 0x51FA, 0x6709, 0x6548, 0x8303, 0x56F4]"

definition t_asn_name :: jsstr where
  "t_asn_name = [0x8BF7, 0x8F93, 0x5165, 0x20, 0x41, 0x53, 0x4E, 0x20, 0x540D, 0x79F0]"

definition t_asn_org :: jsstr where
  "t_asn_org = [0x8BF7, 0x8F93, 0x5165, 0x7EC4, 0x7EC7, 0x540D, 0x79F0]"

definition t_display_required :: jsstr where
  "t_display_required = [0x8BF7, 0x8F93, 0x5165, 0x663E, 0x793A, 0x540D, 0x79F0]"

definition t_display_max :: jsstr where
  "t_display_max = [0x663E, 0x793A, 0x540D, 0x79F0, 0x6700, 0x591A, 0x20, 0x38, 0x30, 0x20, 0x4E2A, 0x5B57,
     0x7B26]"

definition t_pw_min :: jsstr where
  "t_pw_min = [0x5BC6, 0x7801, 0x81F3, 0x5C11, 0x20, 0x38, 0x20, 0x4E2A, 0x5B57, 0x7B26]"

definition t_pw_max :: jsstr where
  "t_pw_max = [0x5BC6, 0x7801, 0x6700, 0x591A, 0x20, 0x31, 0x32, 0x38, 0x20, 0x4E2A, 0x5B57, 0x7B26]"

definition t_user_min :: jsstr where
  "t_user_min = [0x7528, 0x6237, 0x540D, 0x81F3, 0x5C11, 0x20, 0x33, 0x20, 0x4E2A, 0x5B57, 0x7B26]"

definition t_user_max :: jsstr where
  "t_user_max = [0x7528, 0x6237, 0x540D, 0x6700, 0x591A, 0x20, 0x36, 0x34, 0x20, 0x4E2A, 0x5B57, 0x7B26]"

definition t_user_chars :: jsstr where
  "t_user_chars = [0x4EC5, 0x652F, 0x6301, 0x5C0F, 0x5199, 0x5B57, 0x6BCD, 0x3001, 0x6570, 0x5B57, 0x3001,
     0x70B9, 0x3001, 0x4E0B, 0x5212, 0x7EBF, 0x548C, 0x8FDE, 0x5B57, 0x7B26]"

definition t_confirm_required :: jsstr where
  "t_confirm_required = [0x8BF7, 0x518D, 0x6B21, 0x8F93, 0x5165, 0x5BC6, 0x7801]"

definition t_confirm_differs :: jsstr where
  "t_confirm_differs = [0x4E24, 0x6B21, 0x8F93, 0x5165, 0x7684, 0x5BC6, 0x7801, 0x4E0D, 0x4E00, 0x81F4]"

definition t_login_user :: jsstr where
  "t_login_user = [0x8BF7, 0x8F93, 0x5165, 0x7528, 0x6237, 0x540D]"

definition t_login_pw :: jsstr where
  "t_login_pw = [0x8BF7, 0x8F93, 0x5165, 0x5BC6, 0x7801]"


subsection \<open>Checks\<close>

type_synonym field_errors = "(string \<times> jsstr option) list"

definition field :: "string \<Rightarrow> (bool \<times> jsstr option) list \<Rightarrow> field_errors" where
  "field path checks = (case find (\<lambda>c. \<not> fst c) checks of None \<Rightarrow> [] | Some c \<Rightarrow> [(path, snd c)])"

definition z_result :: "field_errors \<Rightarrow> 'a \<Rightarrow> field_errors + 'a" where
  "z_result errors value = (if errors = [] then Inr value else Inl errors)"

definition z_min_length :: "nat \<Rightarrow> jsstr option \<Rightarrow> jsstr \<Rightarrow> bool \<times> jsstr option" where
  "z_min_length n msg s = (n \<le> length s, msg)"

definition z_max_length :: "nat \<Rightarrow> jsstr option \<Rightarrow> jsstr \<Rightarrow> bool \<times> jsstr option" where
  "z_max_length n msg s = (length s \<le> n, msg)"

text \<open>\<open>z.number()\<close> rejects NaN and the infinities; \<open>int()\<close> asks for a safe integer.\<close>

definition z_number :: "jsnum \<Rightarrow> (bool \<times> jsstr option) list" where
  "z_number v = [(is_finite v, None)]"

definition z_int :: "jsnum \<Rightarrow> (bool \<times> jsstr option) list" where
  "z_int v = [(is_finite v, None), (is_safe_int v, None)]"

definition z_range :: "rat \<Rightarrow> rat \<Rightarrow> jsnum \<Rightarrow> (bool \<times> jsstr option) list" where
  "z_range lo hi v = [(num_ge v lo, None), (num_le v hi, None)]"

lemma field_nil [simp]: "field p cs = [] \<longleftrightarrow> list_all fst cs"
  by (induction cs) (auto simp: field_def)

lemma z_result_Inr [simp]: "z_result es v = Inr w \<longleftrightarrow> es = [] \<and> w = v"
  by (auto simp: z_result_def)

lemma z_result_Inl [simp]: "z_result es v = Inl fs \<longleftrightarrow> es \<noteq> [] \<and> fs = es"
  by (auto simp: z_result_def)

lemmas z_defs = z_min_length_def z_max_length_def z_number_def z_int_def z_range_def

text \<open>The integers that pass \<open>int()\<close> with a range, and the numbers that pass one.\<close>

lemma z_int_range [simp]:
  "list_all fst (z_int v @ z_range (of_int lo) (of_int hi) v) \<longleftrightarrow>
     (\<exists>n. v = Fin (of_int n) \<and> is_safe_int v \<and> lo \<le> n \<and> n \<le> hi)"
  by (cases v) (auto simp: z_defs elim!: Ints_cases)

subsection \<open>Scan jobs\<close>

definition bad_host_char :: "jsstr \<Rightarrow> bool" where
  "bad_host_char s \<longleftrightarrow> list_ex (\<lambda>u. u = 32 \<or> u = 47 \<or> u = 92) s"

definition scanJobErrors :: "('a CreateScanJob_scheme) \<Rightarrow> field_errors" where
  "scanJobErrors v =
     (let name = js_trim (cj_name v); host = js_trim (cj_hostname v); path = js_trim (cj_path v) in
      field ''name'' [z_min_length 2 (Some t_name_min) name,
                      z_max_length 80 (Some t_name_max) name]
    @ field ''target_count'' (z_int (cj_target_count v) @ z_range (of_int 1) (of_int 10000) (cj_target_count v))
    @ field ''hostname'' [z_min_length 1 (Some t_host_required) host,
                          (\<not> bad_host_char host, Some t_host_bad)]
    @ field ''path'' [z_min_length 1 (Some t_path_required) path,
                      (starts_with path (lit ''/''), Some t_path_slash)]
    @ field ''port'' (z_int (cj_port v) @ z_range (of_int 1) (of_int 65535) (cj_port v))
    @ field ''attempts'' (z_int (cj_attempts v) @ z_range (of_int 1) (of_int 10) (cj_attempts v))
    @ field ''timeout_ms'' (z_int (cj_timeout_ms v) @ z_range (of_int 500) (of_int 30000) (cj_timeout_ms v))
    @ field ''max_latency_ms'' (z_number (cj_max_latency_ms v)
        @ [(num_gt (cj_max_latency_ms v) 0, None), (num_le (cj_max_latency_ms v) 60000, None)])
    @ field ''max_packet_loss'' (z_number (cj_max_packet_loss v) @ z_range 0 100 (cj_max_packet_loss v))
    @ field ''blacklist_minutes'' (z_int (cj_blacklist_minutes v)
        @ z_range (of_int 1) (of_int 10080) (cj_blacklist_minutes v)))"

definition scanJobTrim :: "('a CreateScanJob_scheme) \<Rightarrow> ('a CreateScanJob_scheme)" where
  "scanJobTrim v = v\<lparr>cj_name := js_trim (cj_name v), cj_hostname := js_trim (cj_hostname v),
     cj_path := js_trim (cj_path v)\<rparr>"

definition createScanJobSchema :: "CreateScanJob \<Rightarrow> field_errors + CreateScanJob" where
  "createScanJobSchema v = z_result (scanJobErrors v) (scanJobTrim v)"

definition defaultScanJobValues :: CreateScanJob where
  "defaultScanJobValues = \<lparr>cj_name = [], cj_agent_ids = [], cj_sampling_mode = ByCount,
     cj_target_count = Fin 128, cj_scheme = SchemeHttps, cj_hostname = lit ''cloudflare.com'',
     cj_path = lit ''/cdn-cgi/trace'', cj_port = Fin 443, cj_attempts = Fin 3, cj_timeout_ms = Fin 5000,
     cj_max_latency_ms = Fin 1000, cj_max_packet_loss = Fin 50, cj_blacklist_minutes = Fin 60,
     cj_include_ipv6 = False, cj_include_blocked = False\<rparr>"

subsection \<open>Automation\<close>

definition cron_ok :: "jsstr \<Rightarrow> bool" where
  "cron_ok value \<longleftrightarrow> starts_with value (lit ''@'') \<or> length (split_ws value) = 5"

definition cronErrors :: "jsstr \<Rightarrow> jsstr \<Rightarrow> field_errors" where
  "cronErrors cron zone =
     field ''cron_expression'' [z_min_length 1 (Some t_cron_required) cron,
       (cron_ok cron, Some t_cron_bad)]
   @ field ''timezone'' [z_min_length 1 (Some t_zone_required) zone]"

definition scanScheduleSchema :: "UpsertScanSchedule \<Rightarrow> field_errors + UpsertScanSchedule" where
  "scanScheduleSchema v =
     (let cron = js_trim (us_cron_expression v); zone = js_trim (us_timezone v)
      in z_result (scanJobErrors v @ cronErrors cron zone)
           ((scanJobTrim v)\<lparr>us_cron_expression := cron, us_timezone := zone\<rparr>))"

definition defaultScanScheduleValues :: UpsertScanSchedule where
  "defaultScanScheduleValues =
     CreateScanJob.extend (defaultScanJobValues\<lparr>cj_name := t_default_schedule_name\<rparr>)
       (UpsertScanSchedule.fields True (lit ''0 */6 * * *'') (lit ''Asia/Shanghai''))"

definition blacklistRecheckSchema ::
  "UpdateBlacklistRecheckSettings \<Rightarrow> field_errors + UpdateBlacklistRecheckSettings" where
  "blacklistRecheckSchema v =
     (let cron = js_trim (br_cron_expression v); zone = js_trim (br_timezone v)
      in z_result (cronErrors cron zone
          @ field ''fraction'' (z_number (br_fraction v) @ z_range (1 / 100) 1 (br_fraction v))
          @ field ''max_targets'' (z_int (br_max_targets v) @ z_range (of_int 1) (of_int 5000) (br_max_targets v))
          @ field ''attempts'' (z_int (br_attempts v) @ z_range (of_int 1) (of_int 10) (br_attempts v))
          @ field ''timeout_ms'' (z_int (br_timeout_ms v) @ z_range (of_int 500) (of_int 30000) (br_timeout_ms v))
          @ field ''max_latency_ms'' (z_number (br_max_latency_ms v)
              @ [(num_gt (br_max_latency_ms v) 0, None), (num_le (br_max_latency_ms v) 60000, None)])
          @ field ''max_packet_loss'' (z_number (br_max_packet_loss v) @ z_range 0 100 (br_max_packet_loss v))
          @ field ''retry_minutes'' (z_int (br_retry_minutes v) @ z_range (of_int 1) (of_int 10080) (br_retry_minutes v)))
        (v\<lparr>br_cron_expression := cron, br_timezone := zone\<rparr>))"

definition sourceSyncSchema :: "UpdateSourceSyncSchedule \<Rightarrow> field_errors + UpdateSourceSyncSchedule" where
  "sourceSyncSchema v =
     (let cron = js_trim (uy_cron_expression v); zone = js_trim (uy_timezone v)
      in z_result (cronErrors cron zone) (v\<lparr>uy_cron_expression := cron, uy_timezone := zone\<rparr>))"

subsection \<open>Address sources\<close>

record CreateASNSourceValues =
  av_asn :: jsnum
  av_name :: jsstr
  av_organization :: jsstr
  av_enabled :: bool

definition createASNSourceSchema :: "CreateASNSourceValues \<Rightarrow> field_errors + CreateASNSourceValues" where
  "createASNSourceSchema v =
     (let name = js_trim (av_name v); org = js_trim (av_organization v)
      in z_result (
          field ''asn'' (z_int (av_asn v)
            @ [(num_ge (av_asn v) 1, Some t_asn_min),
               (num_le (av_asn v) 4294967295, Some t_asn_max)])
          @ field ''name'' [z_min_length 2 (Some t_asn_name) name, z_max_length 100 None name]
          @ field ''organization'' [z_min_length 2 (Some t_asn_org) org, z_max_length 160 None org])
        (v\<lparr>av_name := name, av_organization := org\<rparr>))"

definition defaultASNSourceValues :: CreateASNSourceValues where
  "defaultASNSourceValues = \<lparr>av_asn = Fin 0, av_name = [], av_organization = lit ''Cloudflare, Inc.'',
     av_enabled = True\<rparr>"

subsection \<open>Users\<close>

definition username_char :: "nat \<Rightarrow> bool" where
  "username_char u \<longleftrightarrow> (97 \<le> u \<and> u \<le> 122) \<or> (48 \<le> u \<and> u \<le> 57) \<or> u = 46 \<or> u = 95 \<or> u = 45"

definition displayNameErrors :: "jsstr \<Rightarrow> field_errors" where
  "displayNameErrors name =
     field ''display_name'' [z_min_length 1 (Some t_display_required) name,
       z_max_length 80 (Some t_display_max) name]"

definition passwordErrors :: "jsstr \<Rightarrow> field_errors" where
  "passwordErrors pw =
     field ''password'' [z_min_length 8 (Some t_pw_min) pw,
       z_max_length 128 (Some t_pw_max) pw]"

definition createUserSchema :: "CreateUserInput \<Rightarrow> field_errors + CreateUserInput" where
  "createUserSchema v =
     (let username = js_trim (cu_username v); display = js_trim (cu_display_name v)
      in z_result (
          field ''username'' [z_min_length 3 (Some t_user_min) username,
            z_max_length 64 (Some t_user_max) username,
            (username \<noteq> [] \<and> list_all username_char username,
             Some t_user_chars)]
          @ displayNameErrors display @ passwordErrors (cu_password v))
        (v\<lparr>cu_username := username, cu_display_name := display\<rparr>))"

definition updateUserSchema :: "UpdateUserInput \<Rightarrow> field_errors + UpdateUserInput" where
  "updateUserSchema v =
     (let display = js_trim (uu_display_name v)
      in z_result (displayNameErrors display) (v\<lparr>uu_display_name := display\<rparr>))"

record ResetPasswordValues =
  rp_password :: jsstr
  rp_confirm_password :: jsstr

definition resetPasswordSchema :: "ResetPasswordValues \<Rightarrow> field_errors + ResetPasswordValues" where
  "resetPasswordSchema v =
     (let errors = passwordErrors (rp_password v)
        @ field ''confirm_password'' [z_min_length 1 (Some t_confirm_required) (rp_confirm_password v)]
      in z_result (errors @ (if \<not> list_ex (\<lambda>e. fst e = ''confirm_password'') errors
             then field ''confirm_password'' [(rp_password v = rp_confirm_password v,
                    Some t_confirm_differs)]
             else [])) v)"

subsection \<open>Login\<close>

definition loginSchema :: "LoginInput \<Rightarrow> field_errors + LoginInput" where
  "loginSchema v =
     (let username = js_trim (li_username v)
      in z_result (field ''username'' [z_min_length 1 (Some t_login_user) username]
                 @ field ''password'' [z_min_length 1 (Some t_login_pw) (li_password v)])
           (v\<lparr>li_username := username\<rparr>))"

subsection \<open>What the schemas accept\<close>

lemma scanJobErrors_nil:
  "scanJobErrors v = [] \<longleftrightarrow>
     2 \<le> length (js_trim (cj_name v)) \<and> length (js_trim (cj_name v)) \<le> 80
   \<and> (\<exists>n. cj_target_count v = Fin (of_int n) \<and> is_safe_int (cj_target_count v) \<and> 1 \<le> n \<and> n \<le> 10000)
   \<and> js_trim (cj_hostname v) \<noteq> [] \<and> \<not> bad_host_char (js_trim (cj_hostname v))
   \<and> starts_with (js_trim (cj_path v)) (lit ''/'') \<and> js_trim (cj_path v) \<noteq> []
   \<and> (\<exists>n. cj_port v = Fin (of_int n) \<and> is_safe_int (cj_port v) \<and> 1 \<le> n \<and> n \<le> 65535)
   \<and> (\<exists>n. cj_attempts v = Fin (of_int n) \<and> is_safe_int (cj_attempts v) \<and> 1 \<le> n \<and> n \<le> 10)
   \<and> (\<exists>n. cj_timeout_ms v = Fin (of_int n) \<and> is_safe_int (cj_timeout_ms v) \<and> 500 \<le> n \<and> n \<le> 30000)
   \<and> (\<exists>x. cj_max_latency_ms v = Fin x \<and> 0 < x \<and> x \<le> 60000)
   \<and> (\<exists>x. cj_max_packet_loss v = Fin x \<and> 0 \<le> x \<and> x \<le> 100)
   \<and> (\<exists>n. cj_blacklist_minutes v = Fin (of_int n) \<and> is_safe_int (cj_blacklist_minutes v) \<and> 1 \<le> n \<and> n \<le> 10080)"
proof -
  have l: "list_all fst (z_number x @ [(num_gt x 0, None), (num_le x 60000, None)]) \<longleftrightarrow>
      (\<exists>r. x = Fin r \<and> 0 < r \<and> r \<le> 60000)" for x
    by (cases x) (auto simp: z_defs)
  have p: "list_all fst (z_number x @ z_range 0 100 x) \<longleftrightarrow> (\<exists>r. x = Fin r \<and> 0 \<le> r \<and> r \<le> 100)" for x
    by (cases x) (auto simp: z_defs)
  have s: "list_all fst [z_min_length a m t, c] \<longleftrightarrow> a \<le> length t \<and> fst c" for a m t c
    by (simp add: z_defs)
  show ?thesis
    unfolding scanJobErrors_def Let_def append_is_Nil_conv field_nil z_int_range l p s
    by (auto simp: z_defs Suc_le_eq)
qed

text \<open>Every schema only trims: parsing its own output changes nothing.\<close>

lemma scanJobErrors_trim [simp]: "scanJobErrors (scanJobTrim v) = scanJobErrors v"
  by (simp add: scanJobErrors_def scanJobTrim_def)

lemma scanJobTrim_idem [simp]: "scanJobTrim (scanJobTrim v) = scanJobTrim v"
  by (simp add: scanJobTrim_def)

lemma scan_schedule_trim:
  "scanJobErrors ((scanJobTrim b)\<lparr>us_cron_expression := p, us_timezone := q\<rparr>) = scanJobErrors b"
  "scanJobTrim ((scanJobTrim b)\<lparr>us_cron_expression := p, us_timezone := q\<rparr>)
     = (scanJobTrim b)\<lparr>us_cron_expression := p, us_timezone := q\<rparr>"
  by (simp_all add: scanJobErrors_def scanJobTrim_def)

lemma scan_schedule_accepted:
  "scanScheduleSchema b = Inr b' \<longleftrightarrow>
     scanJobErrors b = [] \<and> cronErrors (js_trim (us_cron_expression b)) (js_trim (us_timezone b)) = []
     \<and> b' = (scanJobTrim b)\<lparr>us_cron_expression := js_trim (us_cron_expression b),
                               us_timezone := js_trim (us_timezone b)\<rparr>"
  unfolding scanScheduleSchema_def Let_def z_result_Inr append_is_Nil_conv by (rule conj_assoc)

lemma scanScheduleSchema_stable:
  assumes "scanScheduleSchema b = Inr b'"
  shows "scanScheduleSchema b' = Inr b'"
  using assms unfolding scan_schedule_accepted by (elim conjE) (simp only: scan_schedule_trim
      UpsertScanSchedule.simps js_trim_idem simp_thms, simp)

text \<open>Parsing is stable: what any of the form schemas accepts and returns (the trimmed values) is accepted again by the same schema and returned unchanged, so resubmitting parsed values cannot fail.\<close>

theorem schemas_stable:
  "(createScanJobSchema a = Inr a' \<longrightarrow> createScanJobSchema a' = Inr a')
   \<and> (scanScheduleSchema b = Inr b' \<longrightarrow> scanScheduleSchema b' = Inr b')
   \<and> (blacklistRecheckSchema c = Inr c' \<longrightarrow> blacklistRecheckSchema c' = Inr c')
   \<and> (sourceSyncSchema d = Inr d' \<longrightarrow> sourceSyncSchema d' = Inr d')
   \<and> (createASNSourceSchema e = Inr e' \<longrightarrow> createASNSourceSchema e' = Inr e')
   \<and> (createUserSchema f = Inr f' \<longrightarrow> createUserSchema f' = Inr f')
   \<and> (updateUserSchema g = Inr g' \<longrightarrow> updateUserSchema g' = Inr g')
   \<and> (loginSchema h = Inr h' \<longrightarrow> loginSchema h' = Inr h')"
proof (intro conjI impI)
  show "createScanJobSchema a' = Inr a'" if "createScanJobSchema a = Inr a'"
    using that by (auto simp: createScanJobSchema_def)
  show "scanScheduleSchema b' = Inr b'" if "scanScheduleSchema b = Inr b'"
    by (rule scanScheduleSchema_stable [OF that])
qed (auto simp: blacklistRecheckSchema_def sourceSyncSchema_def createASNSourceSchema_def
    createUserSchema_def updateUserSchema_def loginSchema_def Let_def)

lemma safe_int_numeral: "\<bar>n\<bar> \<le> 9007199254740991 \<Longrightarrow> is_safe_int (Fin (of_int n))"
  by simp

lemma default_job_accepted:
  "createScanJobSchema (defaultScanJobValues\<lparr>cj_name := lit ''nightly''\<rparr>)
     = Inr (defaultScanJobValues\<lparr>cj_name := lit ''nightly''\<rparr>)"
  by (simp add: createScanJobSchema_def scanJobErrors_def scanJobTrim_def defaultScanJobValues_def
      js_trim_def lit_def is_ws_def z_defs bad_host_char_def starts_with_def)

theorem schemas_stable_witness:
  "createScanJobSchema (defaultScanJobValues\<lparr>cj_name := lit ''nightly''\<rparr>)
     = Inr (defaultScanJobValues\<lparr>cj_name := lit ''nightly''\<rparr>)"
  using schemas_stable [of "defaultScanJobValues\<lparr>cj_name := lit ''nightly''\<rparr>"] default_job_accepted
  by blast

text \<open>The scan-job form submits only values the scan is defined for: a trimmed name of 2 to 80 units, integers within their ranges (targets 1..10000, port 1..65535, attempts 1..10, timeout 500..30000 ms, blacklist 1..10080 min), a positive latency limit of at most 60 s, a loss limit in 0..100, a host without space or slash and a path starting with a slash; NaN, fractions and infinities never pass.\<close>

theorem scan_form_bounds:
  assumes "createScanJobSchema v = Inr w"
  shows "2 \<le> length (cj_name w) \<and> length (cj_name w) \<le> 80 \<and> js_trim (cj_name w) = cj_name w
   \<and> (\<exists>n. cj_target_count w = Fin (of_int n) \<and> n \<in> {1..10000})
   \<and> (\<exists>n. cj_port w = Fin (of_int n) \<and> n \<in> {1..65535})
   \<and> (\<exists>n. cj_attempts w = Fin (of_int n) \<and> n \<in> {1..10})
   \<and> (\<exists>n. cj_timeout_ms w = Fin (of_int n) \<and> n \<in> {500..30000})
   \<and> (\<exists>n. cj_blacklist_minutes w = Fin (of_int n) \<and> n \<in> {1..10080})
   \<and> (\<exists>x. cj_max_latency_ms w = Fin x \<and> 0 < x \<and> x \<le> 60000)
   \<and> (\<exists>x. cj_max_packet_loss w = Fin x \<and> 0 \<le> x \<and> x \<le> 100)
   \<and> cj_hostname w \<noteq> [] \<and> {32, 47, 92} \<inter> set (cj_hostname w) = {} \<and> starts_with (cj_path w) (lit ''/'')"
proof -
  have w: "w = scanJobTrim v" and e: "scanJobErrors v = []"
    using assms by (auto simp: createScanJobSchema_def)
  show ?thesis using e unfolding scanJobErrors_nil w
    by (auto simp: scanJobTrim_def bad_host_char_def list_ex_iff)
qed

theorem scan_form_bounds_witness:
  "\<exists>n. cj_port (defaultScanJobValues\<lparr>cj_name := lit ''nightly''\<rparr>) = Fin (of_int n) \<and> n \<in> {1..65535}"
  using scan_form_bounds [OF default_job_accepted] by blast

end
