(* ===== verification/Server_Contract.thy ===== *)
theory Server_Contract
  imports Schemas
begin

text \<open>
  The server's side of the contract, from the Go sources the console talks to: the route table of
  \<open>internal/api/api.go\<close> with the roles it asks for, and the validation of the inputs the console
  submits (\<open>internal/scans/service.go\<close>, \<open>internal/api\<close>, \<open>internal/auth\<close>). The refinement
  theorems say that what the console's forms accept the server accepts too.
\<close>

subsection \<open>Decoding\<close>

text \<open>A Go \<open>int\<close> field is decoded from a JSON number without a fraction, and a JavaScript string
  arrives as its code points. The white space of \<open>strings.TrimSpace\<close> is Unicode's, which
  differs from the one of \<open>String.trim\<close> in two characters.\<close>

definition is_go_space :: "nat \<Rightarrow> bool" where
  "is_go_space u \<longleftrightarrow> (u \<noteq> 65279 \<and> is_ws u) \<or> u = 133"

definition TrimSpace :: "jsstr \<Rightarrow> jsstr" where
  "TrimSpace s = rev (dropWhile is_go_space (rev (dropWhile is_go_space s)))"

fun go_int :: "jsnum \<Rightarrow> int option" where
  "go_int (Fin x) = (if x \<in> \<int> then Some \<lfloor>x\<rfloor> else None)"
| "go_int _ = None"

fun go_float :: "jsnum \<Rightarrow> rat option" where
  "go_float (Fin x) = Some x"
| "go_float _ = None"

lemma go_int_of_int [simp]: "go_int (Fin (of_int n)) = Some n"
  by simp

record go_scan_request =
  gs_name :: jsstr
  gs_sampling_mode :: jsstr
  gs_target_count :: int
  gs_scheme :: jsstr
  gs_hostname :: jsstr
  gs_path :: jsstr
  gs_port :: int
  gs_attempts :: int
  gs_timeout_ms :: int
  gs_max_latency_ms :: rat
  gs_max_packet_loss :: rat
  gs_blacklist_minutes :: int

definition decode_scan_request :: "'a CreateScanJob_scheme \<Rightarrow> go_scan_request option" where
  "decode_scan_request v =
     (case (go_int (cj_target_count v), go_int (cj_port v), go_int (cj_attempts v), go_int (cj_timeout_ms v),
            go_float (cj_max_latency_ms v), go_float (cj_max_packet_loss v), go_int (cj_blacklist_minutes v)) of
        (Some t, Some p, Some a, Some ms, Some l, Some pl, Some b) \<Rightarrow>
          Some \<lparr>gs_name = cj_name v, gs_sampling_mode = samplingMode_str (cj_sampling_mode v),
            gs_target_count = t, gs_scheme = scheme_str (cj_scheme v), gs_hostname = cj_hostname v,
            gs_path = cj_path v, gs_port = p, gs_attempts = a, gs_timeout_ms = ms, gs_max_latency_ms = l,
            gs_max_packet_loss = pl, gs_blacklist_minutes = b\<rparr>
      | _ \<Rightarrow> None)"

subsection \<open>Scan requests\<close>

text \<open>The default name carries the current time, a parameter.\<close>

definition ApplyDefaults :: "jsstr \<Rightarrow> go_scan_request \<Rightarrow> go_scan_request" where
  "ApplyDefaults stamp i =
     (let name = TrimSpace (gs_name i);
          scheme = (if gs_scheme i = [] then lit ''https'' else gs_scheme i)
      in \<lparr>gs_name = (if name = [] then lit ''Cloudflare scan '' @ stamp else name),
          gs_sampling_mode = (if gs_sampling_mode i = [] then lit ''count'' else gs_sampling_mode i),
          gs_target_count = (if gs_target_count i = 0 then 128 else gs_target_count i),
          gs_scheme = scheme,
          gs_hostname = (if gs_hostname i = [] then lit ''cloudflare.com'' else gs_hostname i),
          gs_path = (if gs_path i = [] then lit ''/cdn-cgi/trace'' else gs_path i),
          gs_port = (if gs_port i = 0 then (if scheme = lit ''http'' then 80 else 443) else gs_port i),
          gs_attempts = (if gs_attempts i = 0 then 3 else gs_attempts i),
          gs_timeout_ms = (if gs_timeout_ms i = 0 then 5000 else gs_timeout_ms i),
          gs_max_latency_ms = (if gs_max_latency_ms i = 0 then 1000 else gs_max_latency_ms i),
          gs_max_packet_loss = (if gs_max_packet_loss i = 0 then 50 else gs_max_packet_loss i),
          gs_blacklist_minutes = (if gs_blacklist_minutes i = 0 then 60 else gs_blacklist_minutes i)\<rparr>)"

definition Validate :: "go_scan_request \<Rightarrow> string option" where
  "Validate i =
     (let mode = gs_sampling_mode i in
      if mode \<noteq> lit ''count'' \<and> mode \<noteq> lit ''one_per_prefix'' \<and> mode \<noteq> lit ''league''
      then Some ''sampling_mode must be count, one_per_prefix, or league''
      else if (mode = lit ''count'' \<or> mode = lit ''league'') \<and> (gs_target_count i < 1 \<or> 10000 < gs_target_count i)
      then Some ''target_count must be between 1 and 10000''
      else if gs_scheme i \<noteq> lit ''https'' \<and> gs_scheme i \<noteq> lit ''http'' then Some ''scheme must be http or https''
      else if gs_hostname i = [] \<or> list_ex (\<lambda>u. u = 32 \<or> u = 47 \<or> u = 92) (gs_hostname i)
      then Some ''valid hostname is required''
      else if gs_path i = [] \<or> \<not> starts_with (gs_path i) (lit ''/'') then Some ''path must start with /''
      else if gs_port i < 1 \<or> 65535 < gs_port i then Some ''port must be between 1 and 65535''
      else if gs_attempts i < 1 \<or> 10 < gs_attempts i then Some ''attempts must be between 1 and 10''
      else if gs_timeout_ms i < 500 \<or> 30000 < gs_timeout_ms i then Some ''timeout_ms must be between 500 and 30000''
      else if gs_max_latency_ms i \<le> 0 \<or> 60000 < gs_max_latency_ms i
      then Some ''max_latency_ms must be between 1 and 60000''
      else if gs_max_packet_loss i < 0 \<or> 100 < gs_max_packet_loss i
      then Some ''max_packet_loss must be between 0 and 100''
      else if gs_blacklist_minutes i < 1 \<or> 10080 < gs_blacklist_minutes i
      then Some ''blacklist_minutes must be between 1 and 10080''
      else None)"

definition in_range :: "go_scan_request \<Rightarrow> bool" where
  "in_range r \<longleftrightarrow> gs_hostname r \<noteq> [] \<and> \<not> bad_host_char (gs_hostname r) \<and> gs_path r \<noteq> []
     \<and> starts_with (gs_path r) (lit ''/'') \<and> gs_target_count r \<in> {1..10000} \<and> gs_port r \<in> {1..65535}
     \<and> gs_attempts r \<in> {1..10} \<and> gs_timeout_ms r \<in> {500..30000} \<and> 0 < gs_max_latency_ms r
     \<and> gs_max_latency_ms r \<le> 60000 \<and> 0 \<le> gs_max_packet_loss r \<and> gs_max_packet_loss r \<le> 100
     \<and> gs_blacklist_minutes r \<in> {1..10080}
     \<and> gs_sampling_mode r \<in> {lit ''count'', lit ''one_per_prefix'', lit ''league''}
     \<and> gs_scheme r \<in> {lit ''http'', lit ''https''}"

lemma mode_scheme_range:
  "samplingMode_str m \<in> {lit ''count'', lit ''one_per_prefix'', lit ''league''}"
  "scheme_str s \<in> {lit ''http'', lit ''https''}"
  by (cases m; simp) (cases s; simp)

lemma scan_decoded:
  assumes "scanJobErrors v = []"
  shows "\<exists>r. decode_scan_request (scanJobTrim v) = Some r \<and> in_range r
    \<and> cj_max_packet_loss v = Fin (gs_max_packet_loss r)"
proof -
  note e = assms [unfolded scanJobErrors_nil]
  from e obtain t p a ms b l pl where
    "cj_target_count v = Fin (of_int t)" "t \<in> {1..10000}" "cj_port v = Fin (of_int p)" "p \<in> {1..65535}"
    "cj_attempts v = Fin (of_int a)" "a \<in> {1..10}" "cj_timeout_ms v = Fin (of_int ms)" "ms \<in> {500..30000}"
    "cj_blacklist_minutes v = Fin (of_int b)" "b \<in> {1..10080}"
    "cj_max_latency_ms v = Fin l" "0 < l" "l \<le> 60000" "cj_max_packet_loss v = Fin pl" "0 \<le> pl" "pl \<le> 100"
    by auto
  then show ?thesis using e mode_scheme_range
    by (auto simp: decode_scan_request_def scanJobTrim_def in_range_def)
qed

lemma in_range_defaults:
  assumes "in_range r"
  shows "ApplyDefaults stamp r = r\<lparr>
      gs_name := (if TrimSpace (gs_name r) = [] then lit ''Cloudflare scan '' @ stamp else TrimSpace (gs_name r)),
      gs_max_packet_loss := (if gs_max_packet_loss r = 0 then 50 else gs_max_packet_loss r)\<rparr>"
proof -
  have "gs_sampling_mode r \<noteq> []" "gs_scheme r \<noteq> []" "gs_hostname r \<noteq> []" "gs_path r \<noteq> []"
    "gs_target_count r \<noteq> 0" "gs_port r \<noteq> 0" "gs_attempts r \<noteq> 0" "gs_timeout_ms r \<noteq> 0"
    "gs_max_latency_ms r \<noteq> 0" "gs_blacklist_minutes r \<noteq> 0"
    using assms by (auto simp: in_range_def)
  then show ?thesis by (cases r) (simp add: ApplyDefaults_def)
qed

lemma in_range_valid: "in_range r \<Longrightarrow> Validate r = None"
  by (auto simp: in_range_def Validate_def Let_def bad_host_char_def)

text \<open>The defaults fill in nothing the form has checked, but a loss limit of 0.\<close>

lemma scan_request_valid:
  assumes "scanJobErrors v = []"
  shows "\<exists>r. decode_scan_request (scanJobTrim v) = Some r \<and> Validate (ApplyDefaults stamp r) = None
    \<and> gs_hostname (ApplyDefaults stamp r) = gs_hostname r \<and> gs_path (ApplyDefaults stamp r) = gs_path r
    \<and> gs_port (ApplyDefaults stamp r) = gs_port r \<and> gs_target_count (ApplyDefaults stamp r) = gs_target_count r
    \<and> gs_max_packet_loss (ApplyDefaults stamp r) =
        (if cj_max_packet_loss v = Fin 0 then 50 else gs_max_packet_loss r)"
proof -
  obtain r where r: "decode_scan_request (scanJobTrim v) = Some r" "in_range r"
    "cj_max_packet_loss v = Fin (gs_max_packet_loss r)"
    using scan_decoded [OF assms] by blast
  have "in_range (ApplyDefaults stamp r)"
    unfolding in_range_defaults [OF r(2)] using r(2) by (simp add: in_range_def)
  then show ?thesis using r in_range_valid by (auto simp: in_range_defaults [OF r(2)])
qed



subsection \<open>Routes\<close>

text \<open>A route is a method, a path of literal and parameter segments, and the role its middleware
  asks for. The router prefers a literal segment over a parameter; the table lists literal routes
  first.\<close>

datatype segment = Seg jsstr | Param

datatype access = Public | Session | AdminOnly

text \<open>The levels are ordered by what they ask of the caller: who may do more may do less.\<close>

instantiation access :: linorder
begin

fun access_rank :: "access \<Rightarrow> nat" where
  "access_rank Public = 0"
| "access_rank Session = 1"
| "access_rank AdminOnly = 2"

definition "a \<le> b \<longleftrightarrow> access_rank a \<le> access_rank b"

definition "a < b \<longleftrightarrow> access_rank a < access_rank b"

instance
proof
  fix a b :: access
  show "a \<le> b \<Longrightarrow> b \<le> a \<Longrightarrow> a = b" by (cases a; cases b) (simp_all add: less_eq_access_def)
qed (auto simp: less_eq_access_def less_access_def)

end

lemma access_order [simp]: "a \<le> AdminOnly" "Public \<le> a" "\<not> AdminOnly \<le> Session" "\<not> Session \<le> Public" "Session \<le> a \<longleftrightarrow> a \<noteq> Public"
  by (cases a; simp add: less_eq_access_def)+

fun match_path :: "segment list \<Rightarrow> jsstr list \<Rightarrow> bool" where
  "match_path [] [] \<longleftrightarrow> True"
| "match_path (Seg s # ps) (x # xs) \<longleftrightarrow> s = x \<and> match_path ps xs"
| "match_path (Param # ps) (x # xs) \<longleftrightarrow> x \<noteq> [] \<and> match_path ps xs"
| "match_path _ _ \<longleftrightarrow> False"

definition api :: "segment list \<Rightarrow> segment list" where
  "api ps = Seg [] # Seg (lit ''api'') # Seg (lit ''v1'') # ps"

definition segs :: "string list \<Rightarrow> segment list" where
  "segs ss = map (\<lambda>s. if s = ''*'' then Param else Seg (lit s)) ss"

definition server_routes :: "(string \<times> segment list \<times> access) list" where
  "server_routes =
    [(''POST'', segs [''auth'', ''login''], Public),
     (''GET'', segs [''auth'', ''me''], Session), (''POST'', segs [''auth'', ''logout''], Session),
     (''GET'', segs [''overview''], Session), (''GET'', segs [''agents''], Session),
     (''GET'', segs [''agent-enrollments'', ''config''], Session),
     (''GET'', segs [''agent-enrollments''], Session),
     (''GET'', segs [''agent-enrollments'', ''id'', ''*''], Session),
     (''GET'', segs [''agent-enrollments'', ''*''], Session),
     (''GET'', segs [''sources'', ''cloudflare''], Session), (''GET'', segs [''sources'', ''asns''], Session),
     (''GET'', segs [''jobs''], Session), (''GET'', segs [''jobs'', ''*''], Session),
     (''GET'', segs [''schedules''], Session), (''GET'', segs [''results''], Session),
     (''GET'', segs [''results'', ''trend''], Session), (''GET'', segs [''results'', ''facets''], Session),
     (''GET'', segs [''results'', ''jobs''], Session), (''GET'', segs [''league''], Session),
     (''GET'', segs [''colos''], Session), (''GET'', segs [''blacklist''], Session),
     (''GET'', segs [''automation'', ''blacklist-recheck''], Session),
     (''GET'', segs [''automation'', ''source-syncs''], Session), (''GET'', segs [''automation'', ''runs''], Session),
     (''POST'', segs [''agent-enrollments'', ''preauthorized''], AdminOnly),
     (''POST'', segs [''agent-enrollments'', ''id'', ''*'', ''approve''], AdminOnly),
     (''POST'', segs [''agent-enrollments'', ''id'', ''*'', ''reject''], AdminOnly),
     (''POST'', segs [''agent-enrollments'', ''*'', ''approve''], AdminOnly),
     (''POST'', segs [''agent-enrollments'', ''*'', ''reject''], AdminOnly),
     (''POST'', segs [''sources'', ''cloudflare'', ''sync''], AdminOnly),
     (''POST'', segs [''sources'', ''asns''], AdminOnly), (''POST'', segs [''sources'', ''asns'', ''sync''], AdminOnly),
     (''PATCH'', segs [''sources'', ''asns'', ''*''], AdminOnly),
     (''DELETE'', segs [''sources'', ''asns'', ''*''], AdminOnly),
     (''POST'', segs [''sources'', ''asns'', ''*'', ''sync''], AdminOnly),
     (''POST'', segs [''jobs''], AdminOnly), (''POST'', segs [''jobs'', ''*'', ''stop''], AdminOnly),
     (''POST'', segs [''schedules''], AdminOnly), (''PUT'', segs [''schedules'', ''*''], AdminOnly),
     (''DELETE'', segs [''schedules'', ''*''], AdminOnly), (''POST'', segs [''schedules'', ''*'', ''run''], AdminOnly),
     (''POST'', segs [''blacklist'', ''recheck''], AdminOnly),
     (''PUT'', segs [''automation'', ''blacklist-recheck''], AdminOnly),
     (''POST'', segs [''automation'', ''blacklist-recheck'', ''run''], AdminOnly),
     (''PUT'', segs [''automation'', ''source-syncs'', ''*''], AdminOnly),
     (''POST'', segs [''automation'', ''source-syncs'', ''*'', ''run''], AdminOnly),
     (''GET'', segs [''users'', []], AdminOnly), (''POST'', segs [''users'', []], AdminOnly),
     (''PUT'', segs [''users'', ''*''], AdminOnly),
     (''POST'', segs [''users'', ''*'', ''reset-password''], AdminOnly),
     (''DELETE'', segs [''users'', ''*''], AdminOnly)]"

text \<open>The path of a request target is what comes before its query. The URL parser of
  \<open>fetch\<close> removes the segments \<open>.\<close> and, with the one before it, \<open>..\<close>, also when the dots
  are percent-encoded.\<close>

definition single_dot :: "jsstr \<Rightarrow> bool" where
  "single_dot s \<longleftrightarrow> ascii_lower s \<in> {lit ''.'', lit ''%2e''}"

definition double_dot :: "jsstr \<Rightarrow> bool" where
  "double_dot s \<longleftrightarrow> ascii_lower s \<in> {lit ''..'', lit ''.%2e'', lit ''%2e.'', lit ''%2e%2e''}"

definition dot_segment :: "jsstr \<Rightarrow> bool" where
  "dot_segment s \<longleftrightarrow> single_dot s \<or> double_dot s"

fun remove_dots :: "jsstr list \<Rightarrow> jsstr list \<Rightarrow> jsstr list" where
  "remove_dots acc [] = rev acc"
| "remove_dots acc (s # r) =
     (let acc' = (if double_dot s then tl acc else if single_dot s then acc else s # acc)
      in remove_dots (if dot_segment s \<and> r = [] then [] # acc' else acc') r)"

definition target_path :: "jsstr \<Rightarrow> jsstr list" where
  "target_path t = (case split_on 47 (takeWhile (\<lambda>u. u \<noteq> 63) t) of
      [] \<Rightarrow> [] | first # rest \<Rightarrow> first # remove_dots [] rest)"

lemma remove_dots_none: "list_all (\<lambda>s. \<not> dot_segment s) xs \<Longrightarrow> remove_dots acc xs = rev acc @ xs"
  by (induction xs arbitrary: acc) (auto simp: dot_segment_def)

definition route_access :: "api_call \<Rightarrow> access option" where
  "route_access c =
     map_option (\<lambda>(_, _, a). a)
       (find (\<lambda>(m, ps, _). ri_method (ac_init c) = lit m \<and> match_path (api ps) (target_path (ac_path c)))
         server_routes)"

subsection \<open>Black-list recheck and users\<close>

text \<open>The cron parser is a library of the server: \<open>next\<close> gives its error.\<close>

definition normalizeBlacklistRecheck ::
  "(jsstr \<Rightarrow> jsstr \<Rightarrow> string option) \<Rightarrow> UpdateBlacklistRecheckSettings \<Rightarrow> string option" where
  "normalizeBlacklistRecheck next_run i =
     (let cron = TrimSpace (br_cron_expression i); zone = TrimSpace (br_timezone i) in
      case (go_float (br_fraction i), go_int (br_max_targets i), go_int (br_attempts i), go_int (br_timeout_ms i),
            go_float (br_max_latency_ms i), go_float (br_max_packet_loss i), go_int (br_retry_minutes i)) of
        (Some f, Some mt, Some a, Some t, Some l, Some pl, Some rm) \<Rightarrow>
          (if f \<le> 0 \<or> 1 < f then Some ''fraction''
           else if mt < 1 \<or> 5000 < mt then Some ''max_targets''
           else if a < 1 \<or> 10 < a then Some ''attempts''
           else if t < 500 \<or> 30000 < t then Some ''timeout_ms''
           else if l \<le> 0 \<or> 60000 < l then Some ''max_latency_ms''
           else if pl < 0 \<or> 100 < pl then Some ''max_packet_loss''
           else if rm < 1 \<or> 10080 < rm then Some ''retry_minutes''
           else next_run (if cron = [] then lit ''*/15 * * * *'' else cron)
                         (if zone = [] then lit ''Asia/Shanghai'' else zone))
      | _ \<Rightarrow> Some ''invalid_request'')"


definition sample_recheck :: UpdateBlacklistRecheckSettings where
  "sample_recheck = \<lparr>br_enabled = True, br_cron_expression = lit ''@hourly'', br_timezone = lit ''UTC'',
     br_due_only = True, br_fraction = Fin (1 / 4), br_max_targets = Fin 500, br_skip_if_running = True,
     br_attempts = Fin 3, br_timeout_ms = Fin 5000, br_max_latency_ms = Fin 1000, br_max_packet_loss = Fin 0,
     br_retry_minutes = Fin 60\<rparr>"


text \<open>Go measures a string by its UTF-8 bytes.\<close>

definition go_len :: "jsstr \<Rightarrow> nat" where
  "go_len s = length (concat (map utf8 (scalars s)))"

definition NormalizeUsername :: "jsstr \<Rightarrow> jsstr" where
  "NormalizeUsername s = ascii_lower (TrimSpace s)"

definition ValidateUsername :: "jsstr \<Rightarrow> bool" where
  "ValidateUsername s =
     (let value = NormalizeUsername s in
      3 \<le> go_len value \<and> go_len value \<le> 64 \<and> list_all username_char (scalars value))"

definition ValidatePassword :: "jsstr \<Rightarrow> bool" where
  "ValidatePassword s \<longleftrightarrow> 8 \<le> go_len s \<and> go_len s \<le> 128"

lemma go_len_ascii:
  assumes "\<forall>u \<in> set s. u < 128"
  shows "go_len s = length s" "scalars s = s"
proof -
  show "scalars s = s" using assms by (intro scalars_ascii) auto
  then show "go_len s = length s" using assms by (simp add: go_len_def utf8_ascii)
qed

lemma dropWhile_none: "\<forall>u \<in> set s. \<not> P u \<Longrightarrow> dropWhile P s = s"
  by (cases s) simp_all

lemma TrimSpace_no_space: "\<forall>u \<in> set s. \<not> is_go_space u \<Longrightarrow> TrimSpace s = s"
  by (simp add: TrimSpace_def dropWhile_none)

lemma username_char_plain: "username_char u \<Longrightarrow> u < 128 \<and> \<not> is_go_space u \<and> \<not> (65 \<le> u \<and> u \<le> 90)"
  by (auto simp: username_char_def is_go_space_def is_ws_def)

lemma username_normal:
  assumes "list_all username_char s"
  shows "NormalizeUsername s = s"
proof -
  have "TrimSpace s = s" using assms username_char_plain by (auto simp: list_all_iff intro!: TrimSpace_no_space)
  moreover have "ascii_lower s = s"
    using assms username_char_plain by (auto simp: ascii_lower_def list_all_iff intro!: map_idI)
  ultimately show ?thesis by (simp add: NormalizeUsername_def)
qed

text \<open>C25. A user the create-user form accepts has a user name the server accepts and stores unchanged; its password is accepted too whenever it is ASCII (the form counts UTF-16 units, the server UTF-8 bytes).\<close>

theorem user_form_server_accepts:
  assumes "createUserSchema v = Inr w"
  shows "ValidateUsername (cu_username w) \<and> NormalizeUsername (cu_username w) = cu_username w
    \<and> ((\<forall>u \<in> set (cu_password w). u < 128) \<longrightarrow> ValidatePassword (cu_password w))"
proof -
  have u: "list_all username_char (cu_username w)" "3 \<le> length (cu_username w)" "length (cu_username w) \<le> 64"
    and p: "8 \<le> length (cu_password w)" "length (cu_password w) \<le> 128"
    using assms by (auto simp: createUserSchema_def Let_def z_defs passwordErrors_def)
  have "\<forall>c \<in> set (cu_username w). c < 128"
    using u(1) username_char_plain by (auto simp: list_all_iff)
  then show ?thesis
    using u p by (auto simp: ValidateUsername_def ValidatePassword_def username_normal go_len_ascii Let_def)
qed

definition sample_user :: CreateUserInput where
  "sample_user = \<lparr>cu_username = lit ''ops.team'', cu_display_name = lit ''Ops'', cu_password = lit ''secret-123'',
     cu_role = Viewer\<rparr>"

lemma sample_user_accepted: "createUserSchema sample_user = Inr sample_user"
  by (simp add: createUserSchema_def sample_user_def js_trim_def lit_def is_ws_def z_defs username_char_def
      displayNameErrors_def passwordErrors_def Let_def)

theorem user_form_server_accepts_witness:
  "ValidateUsername (lit ''ops.team'') \<and> ValidatePassword (lit ''secret-123'')"
  using user_form_server_accepts [OF sample_user_accepted] by (auto simp: sample_user_def lit_def)

text \<open>The two length checks differ beyond ASCII: 64 Chinese characters pass the form and are 192
  bytes to the server.\<close>

lemma password_length_mismatch:
  "passwordErrors (replicate 64 0x4E2D) = [] \<and> \<not> ValidatePassword (replicate 64 0x4E2D)"
proof -
  have "code_points (replicate n 0x4E2D) = replicate n (CP 0x4E2D)" for n
    using code_points_ascii [of "replicate n 0x4E2D"] by simp
  then have "go_len (replicate n 0x4E2D) = 3 * n" for n
    by (simp add: go_len_def scalars_def utf8_def length_concat sum_list_replicate)
  then show ?thesis by (simp add: passwordErrors_def z_defs ValidatePassword_def)
qed

end
