(* ===== verification/Api.thy ===== *)
theory Api
  imports Server_Contract
begin

text \<open>
  The API functions (\<open>features/*/api.ts\<close>): each is the path, method and body it passes to
  \<open>request\<close>. Bodies are the JSON values \<open>JSON.stringify\<close> writes, where a number that is not
  finite becomes null and an undefined field is left out.
\<close>

subsection \<open>Bodies\<close>

fun j_num :: "jsnum \<Rightarrow> json" where
  "j_num (Fin x) = JNum x"
| "j_num _ = JNull"

definition j_obj :: "(string \<times> json option) list \<Rightarrow> json" where
  "j_obj kvs = JObj (concat (map (\<lambda>(k, v). case v of None \<Rightarrow> [] | Some j \<Rightarrow> [(lit k, j)]) kvs))"

definition credentials_json :: "LoginInput \<Rightarrow> json" where
  "credentials_json i = j_obj [(''username'', Some (JStr (li_username i))), (''password'', Some (JStr (li_password i)))]"

definition scan_fields :: "'a CreateScanJob_scheme \<Rightarrow> (string \<times> json option) list" where
  "scan_fields i =
     [(''name'', Some (JStr (cj_name i))), (''agent_ids'', Some (JArr (map JStr (cj_agent_ids i)))),
      (''sampling_mode'', Some (JStr (samplingMode_str (cj_sampling_mode i)))),
      (''target_count'', Some (j_num (cj_target_count i))), (''scheme'', Some (JStr (scheme_str (cj_scheme i)))),
      (''hostname'', Some (JStr (cj_hostname i))), (''path'', Some (JStr (cj_path i))),
      (''port'', Some (j_num (cj_port i))), (''attempts'', Some (j_num (cj_attempts i))),
      (''timeout_ms'', Some (j_num (cj_timeout_ms i))), (''max_latency_ms'', Some (j_num (cj_max_latency_ms i))),
      (''max_packet_loss'', Some (j_num (cj_max_packet_loss i))),
      (''blacklist_minutes'', Some (j_num (cj_blacklist_minutes i))),
      (''include_ipv6'', Some (JBool (cj_include_ipv6 i))), (''include_blocked'', Some (JBool (cj_include_blocked i)))]"

definition schedule_json :: "UpsertScanSchedule \<Rightarrow> json" where
  "schedule_json i = j_obj (scan_fields i @
     [(''enabled'', Some (JBool (us_enabled i))), (''cron_expression'', Some (JStr (us_cron_expression i))),
      (''timezone'', Some (JStr (us_timezone i)))])"

definition recheck_json :: "UpdateBlacklistRecheckSettings \<Rightarrow> json" where
  "recheck_json i = j_obj
     [(''enabled'', Some (JBool (br_enabled i))), (''cron_expression'', Some (JStr (br_cron_expression i))),
      (''timezone'', Some (JStr (br_timezone i))), (''due_only'', Some (JBool (br_due_only i))),
      (''fraction'', Some (j_num (br_fraction i))), (''max_targets'', Some (j_num (br_max_targets i))),
      (''skip_if_running'', Some (JBool (br_skip_if_running i))), (''attempts'', Some (j_num (br_attempts i))),
      (''timeout_ms'', Some (j_num (br_timeout_ms i))), (''max_latency_ms'', Some (j_num (br_max_latency_ms i))),
      (''max_packet_loss'', Some (j_num (br_max_packet_loss i))), (''retry_minutes'', Some (j_num (br_retry_minutes i)))]"

definition source_sync_json :: "UpdateSourceSyncSchedule \<Rightarrow> json" where
  "source_sync_json i = j_obj
     [(''enabled'', Some (JBool (uy_enabled i))), (''cron_expression'', Some (JStr (uy_cron_expression i))),
      (''timezone'', Some (JStr (uy_timezone i))), (''run_on_startup'', Some (JBool (uy_run_on_startup i)))]"

definition approve_fields :: "'a ApproveAgentEnrollmentInput_scheme \<Rightarrow> (string \<times> json option) list" where
  "approve_fields i =
     [(''name'', Some (JStr (ap_name i))), (''region'', Some (JStr (ap_region i))),
      (''continent'', Some (JStr (ap_continent i))), (''concurrency'', Some (j_num (ap_concurrency i)))]"

definition create_asn_json :: "CreateASNSource \<Rightarrow> json" where
  "create_asn_json i = j_obj
     [(''asn'', Some (j_num (ca_asn i))), (''name'', Some (JStr (ca_name i))),
      (''organization'', Some (JStr (ca_organization i))), (''enabled'', map_option JBool (ca_enabled i))]"

definition update_asn_json :: "UpdateASNSource \<Rightarrow> json" where
  "update_asn_json i = j_obj
     [(''name'', map_option JStr (ua_name i)), (''organization'', map_option JStr (ua_organization i)),
      (''enabled'', map_option JBool (ua_enabled i))]"

definition create_user_json :: "CreateUserInput \<Rightarrow> json" where
  "create_user_json i = j_obj
     [(''username'', Some (JStr (cu_username i))), (''display_name'', Some (JStr (cu_display_name i))),
      (''password'', Some (JStr (cu_password i))), (''role'', Some (JStr (userRole_str (cu_role i))))]"

definition update_user_json :: "UpdateUserInput \<Rightarrow> json" where
  "update_user_json i = j_obj
     [(''display_name'', Some (JStr (uu_display_name i))), (''role'', Some (JStr (userRole_str (uu_role i)))),
      (''enabled'', Some (JBool (uu_enabled i)))]"

subsection \<open>Session\<close>

definition login_call :: "LoginInput \<Rightarrow> api_call" where
  "login_call input = call ''POST'' (lit ''/api/v1/auth/login'') (BodyJson (credentials_json input))"

definition logout_call :: api_call where
  "logout_call = call ''POST'' (lit ''/api/v1/auth/logout'') NoBody"

definition getCurrentUser :: api_call where
  "getCurrentUser = get (lit ''/api/v1/auth/me'')"

subsection \<open>Agents and enrollments\<close>

definition getAgents :: api_call where
  "getAgents = get (lit ''/api/v1/agents'')"

definition getAgentEnrollments :: api_call where
  "getAgentEnrollments = get (lit ''/api/v1/agent-enrollments'')"

definition getAgentEnrollmentConfig :: api_call where
  "getAgentEnrollmentConfig = get (lit ''/api/v1/agent-enrollments/config'')"

text \<open>\<open>encodeURIComponent\<close> throws on a lone surrogate, and so do the functions that use it.\<close>

definition enrollmentPath :: "EnrollmentLocator \<Rightarrow> js_error + jsstr" where
  "enrollmentPath locator =
     (case locator of
        LocId value \<Rightarrow> map_sum id (\<lambda>e. lit ''/api/v1/agent-enrollments/id/'' @ e) (encodeURIComponent value)
      | LocToken value \<Rightarrow> map_sum id (\<lambda>e. lit ''/api/v1/agent-enrollments/'' @ e) (encodeURIComponent value))"

definition getAgentEnrollment :: "EnrollmentLocator \<Rightarrow> js_error + api_call" where
  "getAgentEnrollment locator = map_sum id get (enrollmentPath locator)"

definition approveAgentEnrollment :: "EnrollmentLocator \<Rightarrow> ApproveAgentEnrollmentInput \<Rightarrow> js_error + api_call" where
  "approveAgentEnrollment locator input =
     map_sum id (\<lambda>p. call ''POST'' (p @ lit ''/approve'') (BodyJson (j_obj (approve_fields input)))) (enrollmentPath locator)"

definition rejectAgentEnrollment :: "EnrollmentLocator \<Rightarrow> js_error + api_call" where
  "rejectAgentEnrollment locator =
     map_sum id (\<lambda>p. call ''POST'' (p @ lit ''/reject'') empty_body) (enrollmentPath locator)"

definition createPreauthorizedEnrollment :: "CreatePreauthorizedEnrollmentInput \<Rightarrow> api_call" where
  "createPreauthorizedEnrollment input =
     call ''POST'' (lit ''/api/v1/agent-enrollments/preauthorized'')
       (BodyJson (j_obj (approve_fields input @ [(''ttl_minutes'', Some (j_num (ap_ttl_minutes input)))])))"

subsection \<open>Blacklist, overview, scans\<close>

definition getEntries :: "int option \<Rightarrow> api_call" where
  "getEntries limit = get (lit ''/api/v1/blacklist?limit='' @ show_int (nullish limit 500))"

definition recheck :: api_call where
  "recheck = call ''POST'' (lit ''/api/v1/blacklist/recheck'') empty_body"

definition getOverview :: api_call where
  "getOverview = get (lit ''/api/v1/overview'')"

definition getJobs :: "int option \<Rightarrow> api_call" where
  "getJobs limit = get (lit ''/api/v1/jobs?limit='' @ show_int (nullish limit 100))"

definition createJob :: "CreateScanJob \<Rightarrow> api_call" where
  "createJob input = call ''POST'' (lit ''/api/v1/jobs'') (BodyJson (j_obj (scan_fields input)))"

definition stopJob :: "jsstr \<Rightarrow> api_call" where
  "stopJob id' = call ''POST'' (lit ''/api/v1/jobs/'' @ id' @ lit ''/stop'') empty_body"

subsection \<open>League and results\<close>

definition q_str :: "string \<Rightarrow> jsstr option \<Rightarrow> string \<times> qval" where
  "q_str k v = (k, case v of None \<Rightarrow> QUndef | Some s \<Rightarrow> QStr s)"

definition q_num :: "string \<Rightarrow> int option \<Rightarrow> string \<times> qval" where
  "q_num k v = (k, case v of None \<Rightarrow> QUndef | Some n \<Rightarrow> QNum n)"

definition leagueFilterEntries :: "LeagueDashboardFilters \<Rightarrow> (string \<times> qval) list" where
  "leagueFilterEntries f =
     [q_str ''agent_id'' (lf_agent_id f), (''prefix_page'', QNum (lf_prefix_page f)),
      (''prefix_page_size'', QNum (lf_prefix_page_size f)), (''candidate_page'', QNum (lf_candidate_page f)),
      (''candidate_page_size'', QNum (lf_candidate_page_size f))]"

definition getLeagueDashboard :: "LeagueDashboardFilters \<Rightarrow> api_call" where
  "getLeagueDashboard filters = get (lit ''/api/v1/league'' @ createQueryString (leagueFilterEntries filters))"

definition getIPTrend :: "LeagueCandidate \<Rightarrow> TrendTimeRange \<Rightarrow> api_call" where
  "getIPTrend c timeRange = get (lit ''/api/v1/results/trend'' @ createQueryString
     [(''agent_id'', QStr (lc_agent_id c)), (''target_ip'', QStr (lc_target_ip c)), (''scheme'', QStr (lc_scheme c)),
      (''hostname'', QStr (lc_hostname c)), (''path'', QStr (lc_path c)), (''port'', QDec (lc_port c)),
      (''attempts'', QDec (lc_attempts c)), (''timeout_ms'', QDec (lc_timeout_ms c)),
      (''time_range'', QStr (trendTimeRange_str timeRange))])"

text \<open>The entries of the filter objects, in the order of their types. The order of the keys does
  not matter to the server.\<close>

definition resultFilterEntries :: "ResultFilters \<Rightarrow> (string \<times> qval) list" where
  "resultFilterEntries f =
     [q_str ''view'' (map_option resultView_str (rf_view f)), q_str ''agent_id'' (rf_agent_id f),
      q_str ''job_id'' (rf_job_id f), q_str ''region'' (rf_region f), q_str ''continent'' (rf_continent f),
      q_str ''search'' (rf_search f), q_str ''colo'' (rf_colo f), q_str ''colo_city'' (rf_colo_city f),
      q_str ''colo_country'' (rf_colo_country f), q_str ''colo_continent'' (rf_colo_continent f),
      (''available'', nullish (rf_available f) QUndef),
      q_str ''time_range'' (map_option resultTimeRange_str (rf_time_range f)),
      q_num ''page'' (rf_page f), q_num ''page_size'' (rf_page_size f),
      q_str ''sort'' (map_option resultSort_str (rf_sort f)), q_str ''order'' (map_option resultOrder_str (rf_order f))]"

definition facetFilterEntries :: "ResultFacetFilters \<Rightarrow> (string \<times> qval) list" where
  "facetFilterEntries f =
     [q_str ''view'' (map_option resultView_str (ff_view f)), q_str ''agent_id'' (ff_agent_id f),
      q_str ''job_id'' (ff_job_id f), q_str ''region'' (ff_region f), q_str ''continent'' (ff_continent f),
      q_str ''search'' (ff_search f), (''available'', nullish (ff_available f) QUndef),
      q_str ''time_range'' (map_option resultTimeRange_str (ff_time_range f))]"

definition getResults :: "ResultFilters \<Rightarrow> api_call" where
  "getResults filters = get (lit ''/api/v1/results'' @ createQueryString (resultFilterEntries filters))"

definition getResultFacets :: "ResultFacetFilters \<Rightarrow> api_call" where
  "getResultFacets filters = get (lit ''/api/v1/results/facets'' @ createQueryString (facetFilterEntries filters))"

definition getResultJobs :: "ResultJobFilters \<Rightarrow> api_call" where
  "getResultJobs filters = get (lit ''/api/v1/results/jobs'' @ createQueryString (resultFilterEntries filters))"

subsection \<open>Settings\<close>

definition getSchedules :: api_call where
  "getSchedules = get (lit ''/api/v1/schedules'')"

definition createSchedule :: "UpsertScanSchedule \<Rightarrow> api_call" where
  "createSchedule input = call ''POST'' (lit ''/api/v1/schedules'') (BodyJson (schedule_json input))"

definition updateSchedule :: "jsstr \<Rightarrow> UpsertScanSchedule \<Rightarrow> api_call" where
  "updateSchedule id' input = call ''PUT'' (lit ''/api/v1/schedules/'' @ id') (BodyJson (schedule_json input))"

definition deleteSchedule :: "jsstr \<Rightarrow> api_call" where
  "deleteSchedule id' = call ''DELETE'' (lit ''/api/v1/schedules/'' @ id') NoBody"

definition runSchedule :: "jsstr \<Rightarrow> api_call" where
  "runSchedule id' = call ''POST'' (lit ''/api/v1/schedules/'' @ id' @ lit ''/run'') empty_body"

definition getBlacklistRecheck :: api_call where
  "getBlacklistRecheck = get (lit ''/api/v1/automation/blacklist-recheck'')"

definition updateBlacklistRecheck :: "UpdateBlacklistRecheckSettings \<Rightarrow> api_call" where
  "updateBlacklistRecheck input =
     call ''PUT'' (lit ''/api/v1/automation/blacklist-recheck'') (BodyJson (recheck_json input))"

definition runBlacklistRecheck :: api_call where
  "runBlacklistRecheck = call ''POST'' (lit ''/api/v1/automation/blacklist-recheck/run'') empty_body"

definition getSourceSyncs :: api_call where
  "getSourceSyncs = get (lit ''/api/v1/automation/source-syncs'')"

definition updateSourceSync :: "jsstr \<Rightarrow> UpdateSourceSyncSchedule \<Rightarrow> api_call" where
  "updateSourceSync source input =
     call ''PUT'' (lit ''/api/v1/automation/source-syncs/'' @ source) (BodyJson (source_sync_json input))"

definition runSourceSync :: "jsstr \<Rightarrow> api_call" where
  "runSourceSync source =
     call ''POST'' (lit ''/api/v1/automation/source-syncs/'' @ source @ lit ''/run'') empty_body"

definition getAutomationRuns :: "int option \<Rightarrow> api_call" where
  "getAutomationRuns limit = get (lit ''/api/v1/automation/runs?limit='' @ show_int (nullish limit 100))"

subsection \<open>Address sources\<close>

definition getOfficial :: api_call where
  "getOfficial = get (lit ''/api/v1/sources/cloudflare'')"

definition syncOfficial :: api_call where
  "syncOfficial = call ''POST'' (lit ''/api/v1/sources/cloudflare/sync'') empty_body"

definition getASNs :: api_call where
  "getASNs = get (lit ''/api/v1/sources/asns'')"

definition createASN :: "CreateASNSource \<Rightarrow> api_call" where
  "createASN input = call ''POST'' (lit ''/api/v1/sources/asns'') (BodyJson (create_asn_json input))"

definition updateASN :: "int \<Rightarrow> UpdateASNSource \<Rightarrow> api_call" where
  "updateASN asn input = call ''PATCH'' (lit ''/api/v1/sources/asns/'' @ show_int asn) (BodyJson (update_asn_json input))"

definition deleteASN :: "int \<Rightarrow> api_call" where
  "deleteASN asn = call ''DELETE'' (lit ''/api/v1/sources/asns/'' @ show_int asn) NoBody"

definition syncASN :: "int \<Rightarrow> api_call" where
  "syncASN asn = call ''POST'' (lit ''/api/v1/sources/asns/'' @ show_int asn @ lit ''/sync'') empty_body"

definition syncAllASNs :: api_call where
  "syncAllASNs = call ''POST'' (lit ''/api/v1/sources/asns/sync'') empty_body"

subsection \<open>Users\<close>

definition listUsers :: api_call where
  "listUsers = get (lit ''/api/v1/users/'')"

definition createUser :: "CreateUserInput \<Rightarrow> api_call" where
  "createUser input = call ''POST'' (lit ''/api/v1/users/'') (BodyJson (create_user_json input))"

definition updateUser :: "jsstr \<Rightarrow> UpdateUserInput \<Rightarrow> api_call" where
  "updateUser userID input = call ''PUT'' (lit ''/api/v1/users/'' @ userID) (BodyJson (update_user_json input))"

definition resetPassword :: "jsstr \<Rightarrow> jsstr \<Rightarrow> api_call" where
  "resetPassword userID password =
     call ''POST'' (lit ''/api/v1/users/'' @ userID @ lit ''/reset-password'')
       (BodyJson (j_obj [(''password'', Some (JStr password))]))"

definition deleteUser :: "jsstr \<Rightarrow> api_call" where
  "deleteUser userID = call ''DELETE'' (lit ''/api/v1/users/'' @ userID) NoBody"

lemmas api_defs = login_call_def logout_call_def getCurrentUser_def getAgents_def getAgentEnrollments_def
  getAgentEnrollmentConfig_def createPreauthorizedEnrollment_def getEntries_def recheck_def getOverview_def
  getJobs_def createJob_def stopJob_def getLeagueDashboard_def getIPTrend_def getResults_def
  getResultFacets_def getResultJobs_def getSchedules_def createSchedule_def updateSchedule_def
  deleteSchedule_def runSchedule_def getBlacklistRecheck_def updateBlacklistRecheck_def
  runBlacklistRecheck_def getSourceSyncs_def updateSourceSync_def runSourceSync_def getAutomationRuns_def
  getOfficial_def syncOfficial_def getASNs_def createASN_def updateASN_def deleteASN_def syncASN_def
  syncAllASNs_def listUsers_def createUser_def updateUser_def resetPassword_def deleteUser_def

subsection \<open>Every call has a route\<close>

text \<open>An identifier the server issues is nonempty, has none of the delimiters of a URL and is no
  dot segment; the
  number of an autonomous system is its decimal text.\<close>

definition url_safe :: "jsstr \<Rightarrow> bool" where
  "url_safe s \<longleftrightarrow> s \<noteq> [] \<and> 47 \<notin> set s \<and> 63 \<notin> set s \<and> 35 \<notin> set s \<and> \<not> dot_segment s"

lemma dot_segment_dot: "dot_segment s \<Longrightarrow> 46 \<in> set s \<or> 37 \<in> set s"
proof -
  have e: "x \<in> set s" if "x \<in> set (ascii_lower s)" "x < 97" for x
    using that by (auto simp: ascii_lower_def split: if_splits)
  assume "dot_segment s"
  then have "46 \<in> set (ascii_lower s) \<or> 37 \<in> set (ascii_lower s)"
    by (auto simp: dot_segment_def single_dot_def double_dot_def lit_def)
  then show ?thesis using e by auto
qed

lemma url_safe_show_int [simp]: "url_safe (show_int n)"
  using show_int_range [of _ n] dot_segment_dot [of "show_int n"] by (force simp: url_safe_def)

lemma takeWhile_query_append [simp]:
  "63 \<notin> set a \<Longrightarrow> takeWhile (\<lambda>u. u \<noteq> 63) (a @ b) = a @ takeWhile (\<lambda>u. u \<noteq> (63::nat)) b"
  by (rule takeWhile_append2) auto

lemma createQueryString_head: "createQueryString vs = [] \<or> hd (createQueryString vs) = 63"
  by (simp add: createQueryString_def Let_def lit_Cons)

lemma takeWhile_query [simp]: "takeWhile (\<lambda>u. u \<noteq> 63) (createQueryString vs) = []"
  using createQueryString_head [of vs] by (cases "createQueryString vs") auto

text \<open>The lookup of a call whose path is given by its segments.\<close>

definition seg_access :: "string \<Rightarrow> jsstr list \<Rightarrow> access option" where
  "seg_access m xs =
     map_option (\<lambda>(_, _, a). a) (find (\<lambda>(m', ps, _). m = m' \<and> match_path ps xs) server_routes)"

lemma match_api: "match_path (api ps) ([] # lit ''api'' # lit ''v1'' # xs) = match_path ps xs"
  by (simp add: api_def)

lemma route_access_call:
  assumes "target_path p = [] # lit ''api'' # lit ''v1'' # xs"
  shows "route_access (call m p b) = seg_access m xs" "route_access (get p) = seg_access ''GET'' xs"
  by (simp_all add: route_access_def seg_access_def assms match_api)

text \<open>A path is the prefix \<open>/api/v1/\<close> and segments without delimiters, then a query.\<close>

fun slashed :: "jsstr list \<Rightarrow> jsstr" where
  "slashed [] = []"
| "slashed (x # xs) = 47 # x @ slashed xs"

definition no_delims :: "jsstr \<Rightarrow> bool" where
  "no_delims s \<longleftrightarrow> 47 \<notin> set s \<and> 63 \<notin> set s \<and> \<not> dot_segment s"

lemma slashed_no_query: "list_all no_delims xs \<Longrightarrow> 63 \<notin> set (slashed xs)"
  by (induction xs) (auto simp: no_delims_def)

lemma split_slashed: "list_all no_delims xs \<Longrightarrow> 47 \<notin> set a \<Longrightarrow> split_on 47 (a @ slashed xs) = a # xs"
  by (induction xs arbitrary: a) (auto simp: no_delims_def split_on_none split_on_append)

lemma target_path_slashed:
  assumes "list_all no_delims xs" "q = [] \<or> hd q = 63"
  shows "target_path (slashed xs @ q) = [] # xs"
proof -
  have "takeWhile (\<lambda>u. u \<noteq> 63) q = []" using assms(2) by (cases q) auto
  then show ?thesis
    using slashed_no_query [OF assms(1)] split_slashed [OF assms(1), of "[]"] remove_dots_none [of xs "[]"] assms(1)
    by (simp add: target_path_def no_delims_def list_all_iff)
qed

definition v1 :: "jsstr list \<Rightarrow> jsstr" where
  "v1 xs = slashed (lit ''api'' # lit ''v1'' # xs)"

lemma of_char_in_lit: "of_char c \<in> set (lit s) \<longleftrightarrow> c \<in> set s"
  by (auto simp: lit_def)

definition plain_segment :: "string \<Rightarrow> bool" where
  "plain_segment s \<longleftrightarrow> CHR ''/'' \<notin> set s \<and> CHR ''?'' \<notin> set s \<and> CHR ''.'' \<notin> set s \<and> CHR ''%'' \<notin> set s"

lemma no_delims_lit: "plain_segment s \<Longrightarrow> no_delims (lit s)"
  using of_char_in_lit [of "CHR ''/''" s] of_char_in_lit [of "CHR ''?''" s] of_char_in_lit [of "CHR ''.''" s]
    of_char_in_lit [of "CHR ''%''" s] dot_segment_dot [of "lit s"]
  by (auto simp: no_delims_def plain_segment_def)

lemma target_path_v1:
  assumes "list_all no_delims xs" "q = [] \<or> hd q = 63"
  shows "target_path (v1 xs @ q) = [] # lit ''api'' # lit ''v1'' # xs"
proof -
  have "list_all no_delims (lit ''api'' # lit ''v1'' # xs)" using assms(1) by (simp add: no_delims_lit plain_segment_def)
  from target_path_slashed [OF this assms(2)] show ?thesis by (simp add: v1_def)
qed

lemma route_access_query:
  assumes "list_all no_delims xs" "q = [] \<or> hd q = 63"
  shows "route_access (get (v1 xs @ q)) = seg_access ''GET'' xs"
  using route_access_call(2) [OF target_path_v1 [OF assms]] .

lemma route_access_v1:
  assumes "list_all no_delims xs"
  shows "route_access (call m (v1 xs) b) = seg_access m xs" "route_access (get (v1 xs)) = seg_access ''GET'' xs"
  using route_access_call [OF target_path_v1 [OF assms, of "[]"]] by simp_all

lemma url_safe_no_delims: "url_safe s \<Longrightarrow> no_delims s \<and> s \<noteq> []"
  by (simp add: url_safe_def no_delims_def)

lemma seg_access_static:
  "seg_access ''GET'' [lit ''auth'', lit ''me''] = Some Session"
  "seg_access ''POST'' [lit ''auth'', lit ''logout''] = Some Session"
  "seg_access ''GET'' [lit ''agents''] = Some Session"
  "seg_access ''GET'' [lit ''agent-enrollments''] = Some Session"
  "seg_access ''GET'' [lit ''agent-enrollments'', lit ''config''] = Some Session"
  "seg_access ''GET'' [lit ''blacklist''] = Some Session"
  "seg_access ''GET'' [lit ''overview''] = Some Session"
  "seg_access ''GET'' [lit ''jobs''] = Some Session"
  "seg_access ''GET'' [lit ''league''] = Some Session"
  "seg_access ''GET'' [lit ''results'', lit ''trend''] = Some Session"
  "seg_access ''GET'' [lit ''results''] = Some Session"
  "seg_access ''GET'' [lit ''results'', lit ''facets''] = Some Session"
  "seg_access ''GET'' [lit ''results'', lit ''jobs''] = Some Session"
  "seg_access ''GET'' [lit ''schedules''] = Some Session"
  "seg_access ''GET'' [lit ''automation'', lit ''blacklist-recheck''] = Some Session"
  "seg_access ''GET'' [lit ''automation'', lit ''source-syncs''] = Some Session"
  "seg_access ''GET'' [lit ''automation'', lit ''runs''] = Some Session"
  "seg_access ''GET'' [lit ''sources'', lit ''cloudflare''] = Some Session"
  "seg_access ''GET'' [lit ''sources'', lit ''asns''] = Some Session"
  "seg_access ''POST'' [lit ''agent-enrollments'', lit ''preauthorized''] = Some AdminOnly"
  "seg_access ''POST'' [lit ''blacklist'', lit ''recheck''] = Some AdminOnly"
  "seg_access ''POST'' [lit ''jobs''] = Some AdminOnly"
  "seg_access ''POST'' [lit ''schedules''] = Some AdminOnly"
  "seg_access ''PUT'' [lit ''automation'', lit ''blacklist-recheck''] = Some AdminOnly"
  "seg_access ''POST'' [lit ''automation'', lit ''blacklist-recheck'', lit ''run''] = Some AdminOnly"
  "seg_access ''POST'' [lit ''sources'', lit ''cloudflare'', lit ''sync''] = Some AdminOnly"
  "seg_access ''POST'' [lit ''sources'', lit ''asns''] = Some AdminOnly"
  "seg_access ''POST'' [lit ''sources'', lit ''asns'', lit ''sync''] = Some AdminOnly"
  "seg_access ''GET'' [lit ''users'', []] = Some AdminOnly"
  "seg_access ''POST'' [lit ''users'', []] = Some AdminOnly"
  "seg_access ''POST'' [lit ''auth'', lit ''login''] = Some Public"
  by (simp_all add: seg_access_def server_routes_def segs_def)

lemma seg_access_dynamic:
  assumes "i \<noteq> []"
  shows
  "seg_access ''DELETE'' [lit ''schedules'', i] = Some AdminOnly"
  "seg_access ''DELETE'' [lit ''sources'', lit ''asns'', i] = Some AdminOnly"
  "seg_access ''DELETE'' [lit ''users'', i] = Some AdminOnly"
  "seg_access ''PATCH'' [lit ''sources'', lit ''asns'', i] = Some AdminOnly"
  "seg_access ''POST'' [lit ''automation'', lit ''source-syncs'', i, lit ''run''] = Some AdminOnly"
  "seg_access ''POST'' [lit ''jobs'', i, lit ''stop''] = Some AdminOnly"
  "seg_access ''POST'' [lit ''schedules'', i, lit ''run''] = Some AdminOnly"
  "seg_access ''POST'' [lit ''sources'', lit ''asns'', i, lit ''sync''] = Some AdminOnly"
  "seg_access ''POST'' [lit ''users'', i, lit ''reset-password''] = Some AdminOnly"
  "seg_access ''PUT'' [lit ''automation'', lit ''source-syncs'', i] = Some AdminOnly"
  "seg_access ''PUT'' [lit ''schedules'', i] = Some AdminOnly"
  "seg_access ''PUT'' [lit ''users'', i] = Some AdminOnly"
  using assms by (simp_all add: seg_access_def server_routes_def segs_def)

text \<open>The paths of the calls, in segments.\<close>

lemma path_dynamic:
  "lit ''/api/v1/jobs/'' @ i @ lit ''/stop'' = v1 [lit ''jobs'', i, lit ''stop'']"
  "lit ''/api/v1/schedules/'' @ i = v1 [lit ''schedules'', i]"
  "lit ''/api/v1/schedules/'' @ i @ lit ''/run'' = v1 [lit ''schedules'', i, lit ''run'']"
  "lit ''/api/v1/automation/source-syncs/'' @ i = v1 [lit ''automation'', lit ''source-syncs'', i]"
  "lit ''/api/v1/automation/source-syncs/'' @ i @ lit ''/run'' = v1 [lit ''automation'', lit ''source-syncs'', i, lit ''run'']"
  "lit ''/api/v1/users/'' @ i = v1 [lit ''users'', i]"
  "lit ''/api/v1/users/'' @ i @ lit ''/reset-password'' = v1 [lit ''users'', i, lit ''reset-password'']"
  by (simp_all add: v1_def lit_Cons)

lemma path_asn:
  "lit ''/api/v1/sources/asns/'' @ show_int a = v1 [lit ''sources'', lit ''asns'', show_int a]"
  "lit ''/api/v1/sources/asns/'' @ show_int a @ lit ''/sync'' = v1 [lit ''sources'', lit ''asns'', show_int a, lit ''sync'']"
  by (simp_all add: v1_def lit_Cons)

lemma path_static:
  "lit ''/api/v1/auth/me'' = v1 [lit ''auth'', lit ''me'']"
  "lit ''/api/v1/auth/logout'' = v1 [lit ''auth'', lit ''logout'']"
  "lit ''/api/v1/agents'' = v1 [lit ''agents'']"
  "lit ''/api/v1/agent-enrollments'' = v1 [lit ''agent-enrollments'']"
  "lit ''/api/v1/agent-enrollments/config'' = v1 [lit ''agent-enrollments'', lit ''config'']"
  "lit ''/api/v1/blacklist?limit='' = v1 [lit ''blacklist''] @ lit ''?limit=''"
  "lit ''/api/v1/overview'' = v1 [lit ''overview'']"
  "lit ''/api/v1/jobs?limit='' = v1 [lit ''jobs''] @ lit ''?limit=''"
  "lit ''/api/v1/league'' = v1 [lit ''league'']"
  "lit ''/api/v1/results/trend'' = v1 [lit ''results'', lit ''trend'']"
  "lit ''/api/v1/results'' = v1 [lit ''results'']"
  "lit ''/api/v1/results/facets'' = v1 [lit ''results'', lit ''facets'']"
  "lit ''/api/v1/results/jobs'' = v1 [lit ''results'', lit ''jobs'']"
  "lit ''/api/v1/schedules'' = v1 [lit ''schedules'']"
  "lit ''/api/v1/automation/blacklist-recheck'' = v1 [lit ''automation'', lit ''blacklist-recheck'']"
  "lit ''/api/v1/automation/source-syncs'' = v1 [lit ''automation'', lit ''source-syncs'']"
  "lit ''/api/v1/automation/runs?limit='' = v1 [lit ''automation'', lit ''runs''] @ lit ''?limit=''"
  "lit ''/api/v1/sources/cloudflare'' = v1 [lit ''sources'', lit ''cloudflare'']"
  "lit ''/api/v1/sources/asns'' = v1 [lit ''sources'', lit ''asns'']"
  "lit ''/api/v1/agent-enrollments/preauthorized'' = v1 [lit ''agent-enrollments'', lit ''preauthorized'']"
  "lit ''/api/v1/blacklist/recheck'' = v1 [lit ''blacklist'', lit ''recheck'']"
  "lit ''/api/v1/jobs'' = v1 [lit ''jobs'']"
  "lit ''/api/v1/automation/blacklist-recheck/run'' = v1 [lit ''automation'', lit ''blacklist-recheck'', lit ''run'']"
  "lit ''/api/v1/sources/cloudflare/sync'' = v1 [lit ''sources'', lit ''cloudflare'', lit ''sync'']"
  "lit ''/api/v1/sources/asns/sync'' = v1 [lit ''sources'', lit ''asns'', lit ''sync'']"
  "lit ''/api/v1/users/'' = v1 [lit ''users'', []]"
  "lit ''/api/v1/auth/login'' = v1 [lit ''auth'', lit ''login'']"
  by (simp_all add: v1_def lit_Cons)


definition sample_login :: LoginInput where
  "sample_login = \<lparr>li_username = lit ''admin'', li_password = lit ''pw''\<rparr>"


subsection \<open>Enrollment locators\<close>

text \<open>Any value a pairing link carries is one segment of the path.\<close>

fun locator_value :: "EnrollmentLocator \<Rightarrow> jsstr" where
  "locator_value (LocToken v) = v"
| "locator_value (LocId v) = v"

fun locator_segments :: "EnrollmentLocator \<Rightarrow> jsstr \<Rightarrow> jsstr list" where
  "locator_segments (LocToken _) e = [lit ''agent-enrollments'', e]"
| "locator_segments (LocId _) e = [lit ''agent-enrollments'', lit ''id'', e]"

lemma enrollmentPath_segments:
  "encodeURIComponent (locator_value l) = Inr e \<Longrightarrow> enrollmentPath l = Inr (v1 (locator_segments l e))"
  by (cases l) (simp_all add: enrollmentPath_def v1_def lit_Cons)

lemma v1_append: "v1 xs @ 47 # x = v1 (xs @ [x])"
proof -
  have "slashed ys @ 47 # x = slashed (ys @ [x])" for ys by (induction ys) simp_all
  then show ?thesis by (simp add: v1_def)
qed

lemma v1_action: "v1 xs @ lit ''/approve'' = v1 (xs @ [lit ''approve''])" "v1 xs @ lit ''/reject'' = v1 (xs @ [lit ''reject''])"
  using v1_append [of xs "lit ''approve''"] v1_append [of xs "lit ''reject''"] by (simp_all add: lit_Cons)

lemma seg_access_enrollment:
  assumes "e \<noteq> []"
  shows "seg_access ''GET'' (locator_segments l e) = Some Session"
    "seg_access ''POST'' (locator_segments l e @ [lit ''approve'']) = Some AdminOnly"
    "seg_access ''POST'' (locator_segments l e @ [lit ''reject'']) = Some AdminOnly"
  using assms by (cases l; simp add: seg_access_def server_routes_def segs_def)+

lemma encode_nonempty: "encodeURIComponent s = Inr e \<Longrightarrow> s \<noteq> [] \<Longrightarrow> well_formed s \<Longrightarrow> e \<noteq> []"
  using uri_component_round_trip [of s e] by (auto simp: decodeURIComponent.simps [of "[]"])

text \<open>A dot segment decodes to one or two dots.\<close>

lemma decode_unit: "c \<noteq> 37 \<Longrightarrow> decodeURIComponent (c # s) =
    (case decodeURIComponent s of Inl e \<Rightarrow> Inl e | Inr r \<Rightarrow> Inr (c # r))"
  by (subst decodeURIComponent.simps) simp

lemma decode_dot_escape:
  assumes "x = 69 \<or> x = 101"
  shows "decodeURIComponent (37 # 50 # x # s) =
    (case decodeURIComponent s of Inl e \<Rightarrow> Inl e | Inr r \<Rightarrow> Inr (46 # r))"
proof -
  have "take_pct (37 # 50 # x # s) = Some (46, s)" using assms by (auto simp: hex_value_def)
  moreover have "decode_one [46] = Some 46" using decode_one_utf8 [of 46] by (simp add: scalar_def utf8_def)
  moreover have "utf16 46 = [46]" by (simp add: utf16_def)
  ultimately show ?thesis
    by (subst decodeURIComponent.simps) (simp add: utf8_len_def del: take_pct.simps split: sum.split)
qed

lemma ascii_lower_Cons: "ascii_lower s = c # r \<Longrightarrow>
    \<exists>x s'. s = x # s' \<and> (x = c \<or> x + 32 = c \<and> 65 \<le> x \<and> x \<le> 90) \<and> ascii_lower s' = r"
  by (cases s) (auto simp: ascii_lower_def split: if_splits)

lemma ascii_lower_Nil: "ascii_lower s = [] \<Longrightarrow> s = []"
  by (simp add: ascii_lower_def)

lemma dot_segment_decoded: "dot_segment e \<Longrightarrow> decodeURIComponent e \<in> {Inr (lit ''.''), Inr (lit ''..'')}"
  by (auto simp: dot_segment_def single_dot_def double_dot_def lit_Cons decode_unit decode_dot_escape
      decodeURIComponent.simps [of "[]"] dest!: ascii_lower_Cons ascii_lower_Nil)

text \<open>A token or id the URL parser leaves in place.\<close>

definition usable_locator :: "EnrollmentLocator \<Rightarrow> bool" where
  "usable_locator l \<longleftrightarrow> locator_value l \<notin> {[], lit ''.'', lit ''..''} \<and> well_formed (locator_value l)"

lemma usable_segments:
  assumes "usable_locator l"
  obtains e where "encodeURIComponent (locator_value l) = Inr e" "e \<noteq> []" "no_delims e" "list_all no_delims (locator_segments l e)"
proof -
  have w: "well_formed (locator_value l)" "locator_value l \<notin> {[], lit ''.'', lit ''..''}" using assms by (auto simp: usable_locator_def)
  obtain e where e: "encodeURIComponent (locator_value l) = Inr e" using encode_well_formed [OF w(1)] by blast
  have u: "list_all (\<lambda>u. u < 0x10000) (locator_value l)" using w(1) by (simp add: well_formed_def)
  have ne: "e \<noteq> []" using encode_nonempty [OF e _ w(1)] w(2) by simp
  have "\<not> dot_segment e"
  proof
    assume "dot_segment e"
    from dot_segment_decoded [OF this] uri_component_round_trip [OF w(1) e] w(2) show False by auto
  qed
  then have "no_delims e" using encode_no_delims [OF u e] by (simp add: no_delims_def)
  then show thesis using that [OF e ne] by (cases l) (simp_all add: no_delims_lit plain_segment_def)
qed

lemma enrollment_read_session:
  assumes "usable_locator l" "getAgentEnrollment l = Inr g"
  shows "route_access g = Some Session"
proof -
  obtain e where e: "encodeURIComponent (locator_value l) = Inr e" "e \<noteq> []" "list_all no_delims (locator_segments l e)"
    by (rule usable_segments [OF assms(1)])
  then have "g = get (v1 (locator_segments l e))"
    using assms(2) by (simp add: getAgentEnrollment_def enrollmentPath_segments)
  then show ?thesis using route_access_v1 [OF e(3)] seg_access_enrollment [OF e(2)] by simp
qed



end
