(* ===== verification/Format.thy ===== *)
theory Format
  imports Http
begin

text \<open>
  Formatting of values for display (\<open>lib/format.ts\<close> and the older copies in
  \<open>lib/utils.ts\<close>). The locale's date formats and \<open>Date\<close> parsing are the platform's:
  a record of parameters. Number formatting of the zh-CN locale on integers is groups of three
  digits.
\<close>

subsection \<open>Literals\<close>

definition t_seconds_ago :: jsstr where
  "t_seconds_ago = [0x20, 0x79D2, 0x524D]"

definition t_minutes_ago :: jsstr where
  "t_minutes_ago = [0x20, 0x5206, 0x949F, 0x524D]"

definition t_hours_ago :: jsstr where
  "t_hours_ago = [0x20, 0x5C0F, 0x65F6, 0x524D]"


subsection \<open>The platform\<close>

text \<open>\<open>intl_date\<close> formats \<open>new Date(value)\<close> in the browser's time zone and
  \<open>intl_date_tz\<close> in a given one, with a RangeError for an invalid date or zone;
  \<open>date_ms\<close> is \<open>new Date(value).getTime()\<close>; \<open>locale_compare\<close> is
  \<open>a.localeCompare(b, 'zh-CN')\<close>; \<open>locale_string\<close> is \<open>new Date(value).toLocaleString('zh-CN')\<close>.\<close>

record intl =
  intl_date :: "jsstr \<Rightarrow> js_error + jsstr"
  intl_date_tz :: "jsstr option \<Rightarrow> jsstr \<Rightarrow> js_error + jsstr"
  date_ms :: "jsstr \<Rightarrow> jsnum"
  locale_compare :: "jsstr \<Rightarrow> jsstr \<Rightarrow> rat"
  locale_string :: "jsstr \<Rightarrow> jsstr"

subsection \<open>Dates\<close>

definition formatDate :: "intl \<Rightarrow> jsstr option \<Rightarrow> js_error + jsstr" where
  "formatDate I value =
     (if \<not> truthy value then Inr t_dash else intl_date I (opt_str value))"

definition formatDateInTimezone :: "intl \<Rightarrow> jsstr option \<Rightarrow> jsstr option \<Rightarrow> js_error + jsstr" where
  "formatDateInTimezone I value timeZone =
     (if \<not> truthy value then Inr t_dash
      else (case intl_date_tz I (if truthy timeZone then timeZone else None) (opt_str value) of
          Inr s \<Rightarrow> Inr s
        | Inl _ \<Rightarrow> formatDate I value))"

definition formatRelativeTime :: "intl \<Rightarrow> jsstr option \<Rightarrow> rat \<Rightarrow> js_error + jsstr" where
  "formatRelativeTime I value now =
     (if \<not> truthy value then Inr t_dash
      else (case date_ms I (opt_str value) of
          NaN \<Rightarrow> formatDate I value
        | Infinity b \<Rightarrow> if b then Inr (show_int 0 @ t_seconds_ago) else formatDate I value
        | Fin t \<Rightarrow>
          (let delta = now - t; seconds = math_round (delta / 1000) in
           if seconds < 60 then Inr (show_int (max seconds 0) @ t_seconds_ago)
           else let minutes = math_round (of_int seconds / 60) in
           if minutes < 60 then Inr (show_int minutes @ t_minutes_ago)
           else let hours = math_round (of_int minutes / 60) in
           if hours < 24 then Inr (show_int hours @ t_hours_ago)
           else formatDate I value)))"

subsection \<open>Numbers\<close>

fun group_rev :: "jsstr \<Rightarrow> jsstr" where
  "group_rev (a # b # c # d # r) = a # b # c # 44 # group_rev (d # r)"
| "group_rev r = r"

definition group_digits :: "jsstr \<Rightarrow> jsstr" where
  "group_digits ds = rev (group_rev (rev ds))"

definition formatNumber :: "int option \<Rightarrow> jsstr" where
  "formatNumber value =
     (let n = nullish value 0
      in (if n < 0 then lit ''-'' else []) @ group_digits (dec_digits (nat \<bar>n\<bar>)))"

definition formatMS :: "rat option \<Rightarrow> jsstr" where
  "formatMS value =
     (let v = nullish value 0
      in if v \<le> 0 then t_dash else to_fixed (if v \<ge> 100 then 0 else 1) v @ t_ms_unit)"

definition formatPercent :: "rat option \<Rightarrow> nat \<Rightarrow> jsstr" where
  "formatPercent value digits = to_fixed digits (nullish value 0) @ lit ''%''"

subsection \<open>The older copies\<close>

definition utils_formatDate :: "intl \<Rightarrow> jsstr option \<Rightarrow> js_error + jsstr" where
  "utils_formatDate I value = (if \<not> truthy value then Inr t_dash else intl_date I (opt_str value))"

definition utils_formatNumber :: "int \<Rightarrow> jsstr" where
  "utils_formatNumber n = (if n < 0 then lit ''-'' else []) @ group_digits (dec_digits (nat \<bar>n\<bar>))"

definition utils_formatMS :: "rat \<Rightarrow> jsstr" where
  "utils_formatMS value = (if value > 0 then to_fixed (if value \<ge> 100 then 0 else 1) value @ t_ms_unit else t_dash)"

text \<open>The two copies of the formatting functions, lib/format.ts and lib/utils.ts, agree on every date text, integer and duration.\<close>

theorem format_copies_agree:
  "utils_formatDate I d = formatDate I d \<and> utils_formatNumber n = formatNumber (Some n)
   \<and> utils_formatMS x = formatMS (Some x)"
  by (simp add: utils_formatDate_def formatDate_def utils_formatNumber_def formatNumber_def
      utils_formatMS_def formatMS_def Let_def not_le)

subsection \<open>Correctness\<close>

text \<open>Grouping inserts commas only, each before a whole number of triples.\<close>

lemma group_rev_filter: "44 \<notin> set ds \<Longrightarrow> filter (\<lambda>u. u \<noteq> 44) (group_rev ds) = ds"
  by (induction ds rule: group_rev.induct) (auto simp: filter_id_conv)

fun triples :: "jsstr list \<Rightarrow> bool" where
  "triples [] = False"
| "triples [g] = (1 \<le> length g \<and> length g \<le> 3)"
| "triples (g # h # r) = (length g = 3 \<and> triples (h # r))"

lemma group_rev_triples:
  "ds \<noteq> [] \<Longrightarrow> 44 \<notin> set ds \<Longrightarrow> triples (split_on 44 (group_rev ds))"
proof (induction ds rule: group_rev.induct)
  case (1 a b c d r)
  moreover obtain g gs where "split_on 44 (group_rev (d # r)) = g # gs"
    by (cases "split_on 44 (group_rev (d # r))") auto
  ultimately show ?case by simp
qed simp_all

lemma dec_digits_no_comma: "44 \<notin> set (dec_digits n)"
  using dec_digits_range [of 44 n] by auto

text \<open>A formatted number is the decimal text of the integer with commas put in and nothing else changed, and reading it from the right its comma-separated groups have three digits each, the leftmost one to three.\<close>

theorem formatNumber_grouping:
  "filter (\<lambda>u. u \<noteq> 44) (formatNumber (Some n)) = show_int n
   \<and> triples (split_on 44 (rev (group_digits (dec_digits (nat \<bar>n\<bar>)))))"
proof
  have "filter (\<lambda>u. u \<noteq> 44) (group_digits (dec_digits m)) = dec_digits m" for m
    using group_rev_filter [of "rev (dec_digits m)"] dec_digits_no_comma [of m]
    by (simp add: group_digits_def rev_filter [symmetric])
  then show "filter (\<lambda>u. u \<noteq> 44) (formatNumber (Some n)) = show_int n"
    by (simp add: formatNumber_def show_int_def lit_def)
  show "triples (split_on 44 (rev (group_digits (dec_digits (nat \<bar>n\<bar>)))))"
    using group_rev_triples [of "rev (dec_digits (nat \<bar>n\<bar>))"] dec_digits_no_comma
    by (simp add: group_digits_def)
qed

text \<open>What a relative time shows: the number and the unit in seconds.\<close>

definition relative_units :: "intl \<Rightarrow> jsstr \<Rightarrow> rat \<Rightarrow> (int \<times> int) option" where
  "relative_units I value now =
     (if \<exists>n\<in>{0..59}. formatRelativeTime I (Some value) now = Inr (show_int n @ t_seconds_ago)
      then Some (0, 1) else None)"

lemma math_round_bounds: "of_int (math_round x) - 1 / 2 \<le> x" "x \<le> of_int (math_round x) + 1 / 2"
  using math_round_close [of x] unfolding abs_le_iff by linarith+

lemma math_round_ge: "of_int n \<le> x \<Longrightarrow> n \<le> math_round x"
  using math_round_mono [of "of_int n" x] by simp

text \<open>The relative time of a valid date shows a count of seconds in 0..59, of minutes in 1..59 or of hours in 1..23 and never a negative number; the minutes shown are within 30.5 seconds and the hours within 31 minutes of the true elapsed time; a date 24 hours away or more is shown as a date, and a date in the future shows 0 seconds.\<close>

theorem relative_time_bounds:
  assumes "value \<noteq> []" "date_ms I value = Fin t"
  shows "(\<exists>n. 0 \<le> n \<and> n \<le> 59 \<and> formatRelativeTime I (Some value) now = Inr (show_int n @ t_seconds_ago)
        \<and> (now \<le> t \<longrightarrow> n = 0) \<and> (t \<le> now \<longrightarrow> \<bar>of_int n * 1000 - (now - t)\<bar> \<le> 500))
    \<or> (\<exists>n. 1 \<le> n \<and> n \<le> 59 \<and> formatRelativeTime I (Some value) now = Inr (show_int n @ t_minutes_ago)
        \<and> \<bar>of_int n * 60000 - (now - t)\<bar> \<le> 30500)
    \<or> (\<exists>n. 1 \<le> n \<and> n \<le> 23 \<and> formatRelativeTime I (Some value) now = Inr (show_int n @ t_hours_ago)
        \<and> \<bar>of_int n * 3600000 - (now - t)\<bar> \<le> 1830500)
    \<or> (formatRelativeTime I (Some value) now = intl_date I value \<and> now - t \<ge> 82769500)"
proof -
  define d where "d = now - t"
  define s where "s = math_round (d / 1000)"
  define m where "m = math_round (of_int s / 60)"
  define h where "h = math_round (of_int m / 60)"
  have s: "of_int s * 1000 - 500 \<le> d" "d \<le> of_int s * 1000 + 500"
    using math_round_bounds [of "d / 1000"] by (simp_all add: s_def field_simps)
  have m: "of_int m * 60 - 30 \<le> (of_int s :: rat)" "(of_int s :: rat) \<le> of_int m * 60 + 30"
    using math_round_bounds [of "of_int s / 60"] by (simp_all add: m_def field_simps)
  have h: "of_int h * 60 - 30 \<le> (of_int m :: rat)" "(of_int m :: rat) \<le> of_int h * 60 + 30"
    using math_round_bounds [of "of_int m / 60"] by (simp_all add: h_def field_simps)
  have f: "formatRelativeTime I (Some value) now =
      (if s < 60 then Inr (show_int (max s 0) @ t_seconds_ago)
       else if m < 60 then Inr (show_int m @ t_minutes_ago)
       else if h < 24 then Inr (show_int h @ t_hours_ago) else intl_date I value)"
    using assms by (simp add: formatRelativeTime_def formatDate_def Let_def d_def s_def m_def h_def)
  consider "s < 60" | "60 \<le> s" "m < 60" | "60 \<le> s" "60 \<le> m" "h < 24" | "60 \<le> s" "60 \<le> m" "24 \<le> h"
    by linarith
  then show ?thesis
  proof cases
    case 1
    have "max s 0 = 0" if "d \<le> 0"
    proof -
      have "s \<le> math_round 0" unfolding s_def using that by (intro math_round_mono) simp
      then show ?thesis using math_round_of_int [of 0] by simp
    qed
    moreover have "max s 0 = s" if "0 \<le> d"
    proof -
      have "0 \<le> s" unfolding s_def using that by (intro math_round_ge) simp
      then show ?thesis by simp
    qed
    ultimately have "now \<le> t \<longrightarrow> max s 0 = 0"
      "t \<le> now \<longrightarrow> \<bar>of_int (max s 0) * 1000 - (now - t)\<bar> \<le> 500"
      using s by (auto simp: d_def abs_le_iff)
    then show ?thesis using 1 f by (intro disjI1 exI [of _ "max s 0"]) auto
  next
    case 2
    have "1 \<le> m" unfolding m_def using 2 by (intro math_round_ge) (simp add: field_simps)
    moreover have "\<bar>of_int m * 60000 - d\<bar> \<le> 30500"
      using s m by (simp add: abs_le_iff)
    ultimately show ?thesis using 2 f by (intro disjI2 disjI1 exI [of _ m]) (simp add: d_def)
  next
    case 3
    have "1 \<le> h" unfolding h_def using 3 by (intro math_round_ge) (simp add: field_simps)
    moreover have "\<bar>of_int h * 3600000 - d\<bar> \<le> 1830500"
      using s m h by (simp add: abs_le_iff)
    ultimately show ?thesis using 3 f by (intro disjI2 disjI1 exI [of _ h]) (simp add: d_def)
  next
    case 4
    have "(24::rat) \<le> of_int h" using 4 by simp
    then have "d \<ge> 82769500" using s m h by linarith
    then show ?thesis using 4 f by (simp add: d_def)
  qed
qed

definition plain_intl :: intl where
  "plain_intl = \<lparr>intl_date = (\<lambda>s. Inr s), intl_date_tz = (\<lambda>_ s. Inr s),
     date_ms = (\<lambda>s. js_number s), locale_compare = (\<lambda>a b. by_key (\<lambda>s. of_nat (length s)) a b),
     locale_string = (\<lambda>s. s)\<rparr>"

lemma plain_ms: "date_ms plain_intl (lit ''1000'') = Fin 1000"
  by (simp add: plain_intl_def js_number_digits lit_def is_digit_def digits_value_def)

theorem relative_time_bounds_witness:
  "formatRelativeTime plain_intl (Some (lit ''1000'')) 121000 \<noteq> Inl RangeError
   \<and> date_ms plain_intl (lit ''1000'') = Fin 1000"
  using relative_time_bounds [of "lit ''1000''" plain_intl 1000 121000] plain_ms by auto

end
