(* ===== verification/Hooks.thy ===== *)
theory Hooks
  imports Api Format
begin

text \<open>
  The query and mutation hooks (\<open>features/*/hooks.ts\<close>). A query is its key, its request and its
  refetch interval; a mutation is its request and the effects of its success and error callbacks, in
  the order of the code. The query library runs them: \<open>onSuccess\<close> with the result and the
  variables, \<open>onError\<close> with the message of the error.
\<close>

subsection \<open>Literals\<close>

definition t_targets_queued :: jsstr where
  "t_targets_queued = [0x20, 0x4E2A, 0x20, 0x41, 0x67, 0x65, 0x6E, 0x74, 0x20, 0x76EE, 0x6807, 0x4EFB, 0x52A1,
     0x5DF2, 0x8FDB, 0x5165, 0x961F, 0x5217, 0x3002]"

definition t_scan_created :: jsstr where
  "t_scan_created = [0x626B, 0x63CF, 0x4EFB, 0x52A1, 0x5DF2, 0x521B, 0x5EFA]"

definition t_scan_create_failed :: jsstr where
  "t_scan_create_failed = [0x521B, 0x5EFA, 0x626B, 0x63CF, 0x4EFB, 0x52A1, 0x5931, 0x8D25]"

definition t_scan_stopped :: jsstr where
  "t_scan_stopped = [0x5269, 0x4F59, 0x4EFB, 0x52A1, 0x5DF2, 0x505C, 0x6B62]"

definition t_scan_updated :: jsstr where
  "t_scan_updated = [0x4EFB, 0x52A1, 0x72B6, 0x6001, 0x5DF2, 0x66F4, 0x65B0]"

definition t_scan_stop_failed :: jsstr where
  "t_scan_stop_failed = [0x505C, 0x6B62, 0x4EFB, 0x52A1, 0x5931, 0x8D25]"

definition t_pairing_approved :: jsstr where
  "t_pairing_approved = [0x914D, 0x5BF9, 0x5DF2, 0x6279, 0x51C6]"

definition t_waiting_for :: jsstr where
  "t_waiting_for = [0x6B63, 0x5728, 0x7B49, 0x5F85, 0x20]"

definition t_finish_connecting :: jsstr where
  "t_finish_connecting = [0x20, 0x5B8C, 0x6210, 0x8FDE, 0x63A5, 0x3002]"

definition t_approve_failed :: jsstr where
  "t_approve_failed = [0x6279, 0x51C6, 0x5931, 0x8D25]"

definition t_pairing_rejected :: jsstr where
  "t_pairing_rejected = [0x914D, 0x5BF9, 0x8BF7, 0x6C42, 0x5DF2, 0x62D2, 0x7EDD]"

definition t_reject_failed :: jsstr where
  "t_reject_failed = [0x62D2, 0x7EDD, 0x5931, 0x8D25]"

definition t_command_created :: jsstr where
  "t_command_created = [0x4E00, 0x6B21, 0x6027, 0x90E8, 0x7F72, 0x547D, 0x4EE4, 0x5DF2, 0x751F, 0x6210]"

definition t_command_failed :: jsstr where
  "t_command_failed = [0x751F, 0x6210, 0x90E8, 0x7F72, 0x547D, 0x4EE4, 0x5931, 0x8D25]"

definition t_recheck_skipped :: jsstr where
  "t_recheck_skipped = [0x672C, 0x8F6E, 0x9ED1, 0x540D, 0x5355, 0x590D, 0x68C0, 0x5DF2, 0x8DF3, 0x8FC7]"

definition t_recheck_planned :: jsstr where
  "t_recheck_planned = [0x9ED1, 0x540D, 0x5355, 0x590D, 0x68C0, 0x5DF2, 0x5B89, 0x6392]"

definition t_created_n :: jsstr where
  "t_created_n = [0x5DF2, 0x521B, 0x5EFA, 0x20]"

definition t_rescan_targets :: jsstr where
  "t_rescan_targets = [0x20, 0x4E2A, 0x91CD, 0x65B0, 0x626B, 0x63CF, 0x76EE, 0x6807, 0x3002]"

definition t_recheck_failed :: jsstr where
  "t_recheck_failed = [0x5B89, 0x6392, 0x590D, 0x68C0, 0x5931, 0x8D25]"

definition t_schedule_created :: jsstr where
  "t_schedule_created = [0x5B9A, 0x65F6, 0x8BA1, 0x5212, 0x5DF2, 0x521B, 0x5EFA]"

definition t_next_run :: jsstr where
  "t_next_run = [0x4E0B, 0x6B21, 0x6267, 0x884C, 0xFF1A]"

definition t_schedule_create_failed :: jsstr where
  "t_schedule_create_failed = [0x521B, 0x5EFA, 0x5B9A, 0x65F6, 0x8BA1, 0x5212, 0x5931, 0x8D25]"

definition t_schedule_updated :: jsstr where
  "t_schedule_updated = [0x5B9A, 0x65F6, 0x8BA1, 0x5212, 0x5DF2, 0x66F4, 0x65B0]"

definition t_schedule_update_failed :: jsstr where
  "t_schedule_update_failed = [0x66F4, 0x65B0, 0x5B9A, 0x65F6, 0x8BA1, 0x5212, 0x5931, 0x8D25]"

definition t_schedule_deleted :: jsstr where
  "t_schedule_deleted = [0x5B9A, 0x65F6, 0x8BA1, 0x5212, 0x5DF2, 0x5220, 0x9664]"

definition t_schedule_delete_failed :: jsstr where
  "t_schedule_delete_failed = [0x5220, 0x9664, 0x5B9A, 0x65F6, 0x8BA1, 0x5212, 0x5931, 0x8D25]"

definition t_schedule_run :: jsstr where
  "t_schedule_run = [0x8BA1, 0x5212, 0x5DF2, 0x7ACB, 0x5373, 0x6267, 0x884C]"

definition t_schedule_run_failed :: jsstr where
  "t_schedule_run_failed = [0x6267, 0x884C, 0x5B9A, 0x65F6, 0x8BA1, 0x5212, 0x5931, 0x8D25]"

definition t_recheck_saved :: jsstr where
  "t_recheck_saved = [0x9ED1, 0x540D, 0x5355, 0x590D, 0x67E5, 0x8BBE, 0x7F6E, 0x5DF2, 0x4FDD, 0x5B58]"

definition t_recheck_save_failed :: jsstr where
  "t_recheck_save_failed = [0x4FDD, 0x5B58, 0x9ED1, 0x540D, 0x5355, 0x590D, 0x67E5, 0x8BBE, 0x7F6E, 0x5931, 0x8D25]"

definition t_auto_recheck_skipped :: jsstr where
  "t_auto_recheck_skipped = [0x672C, 0x8F6E, 0x9ED1, 0x540D, 0x5355, 0x590D, 0x67E5, 0x5DF2, 0x8DF3, 0x8FC7]"

definition t_auto_recheck_created :: jsstr where
  "t_auto_recheck_created = [0x9ED1, 0x540D, 0x5355, 0x590D, 0x67E5, 0x5DF2, 0x521B, 0x5EFA]"

definition t_n_targets :: jsstr where
  "t_n_targets = [0x20, 0x4E2A, 0x76EE, 0x6807, 0xFF0C]"

definition t_n_groups :: jsstr where
  "t_n_groups = [0x20, 0x4E2A, 0x20, 0x41, 0x67, 0x65, 0x6E, 0x74, 0x20, 0x4EFB, 0x52A1, 0x7EC4, 0x3002]"

definition t_auto_recheck_failed :: jsstr where
  "t_auto_recheck_failed = [0x6267, 0x884C, 0x9ED1, 0x540D, 0x5355, 0x590D, 0x67E5, 0x5931, 0x8D25]"

definition t_sync_saved :: jsstr where
  "t_sync_saved = [0x6570, 0x636E, 0x6E90, 0x540C, 0x6B65, 0x8BBE, 0x7F6E, 0x5DF2, 0x4FDD, 0x5B58]"

definition t_sync_save_failed :: jsstr where
  "t_sync_save_failed = [0x4FDD, 0x5B58, 0x6570, 0x636E, 0x6E90, 0x540C, 0x6B65, 0x8BBE, 0x7F6E, 0x5931, 0x8D25]"

definition t_official_synced :: jsstr where
  "t_official_synced = [0x5B98, 0x65B9, 0x5730, 0x5740, 0x6BB5, 0x540C, 0x6B65, 0x5B8C, 0x6210]"

definition t_asn_synced :: jsstr where
  "t_asn_synced = [0x41, 0x53, 0x4E, 0x20, 0x524D, 0x7F00, 0x540C, 0x6B65, 0x5B8C, 0x6210]"

definition t_colo_synced :: jsstr where
  "t_colo_synced = [0x63, 0x6F, 0x6C, 0x6F, 0x20, 0x4F4D, 0x7F6E, 0x540C, 0x6B65, 0x5B8C, 0x6210]"

definition t_sync_failed :: jsstr where
  "t_sync_failed = [0x6570, 0x636E, 0x6E90, 0x540C, 0x6B65, 0x5931, 0x8D25]"

definition t_ranges_synced :: jsstr where
  "t_ranges_synced = [0x5B98, 0x65B9, 0x5730, 0x5740, 0x6BB5, 0x5DF2, 0x540C, 0x6B65]"

definition t_now_total :: jsstr where
  "t_now_total = [0x5F53, 0x524D, 0x5171, 0x20]"

definition t_n_prefixes :: jsstr where
  "t_n_prefixes = [0x20, 0x4E2A, 0x524D, 0x7F00, 0x3002]"

definition t_ranges_failed :: jsstr where
  "t_ranges_failed = [0x5B98, 0x65B9, 0x5730, 0x5740, 0x6BB5, 0x540C, 0x6B65, 0x5931, 0x8D25]"

definition t_asns_partly :: jsstr where
  "t_asns_partly = [0x41, 0x53, 0x4E, 0x20, 0x540C, 0x6B65, 0x5B8C, 0x6210, 0xFF0C, 0x4F46, 0x5B58, 0x5728,
     0x5931, 0x8D25, 0x9879]"

definition t_succeeded_n :: jsstr where
  "t_succeeded_n = [0x6210, 0x529F, 0x20]"

definition t_failed_n :: jsstr where
  "t_failed_n = [0xFF0C, 0x5931, 0x8D25, 0x20]"

definition t_asns_done :: jsstr where
  "t_asns_done = [0x41, 0x53, 0x4E, 0x20, 0x6570, 0x636E, 0x6E90, 0x5DF2, 0x5168, 0x90E8, 0x540C, 0x6B65]"

definition t_synced_n :: jsstr where
  "t_synced_n = [0x5DF2, 0x540C, 0x6B65, 0x20]"

definition t_n_asns :: jsstr where
  "t_n_asns = [0x20, 0x4E2A, 0x20, 0x41, 0x53, 0x4E, 0x3002]"

definition t_asn_sync_failed :: jsstr where
  "t_asn_sync_failed = [0x41, 0x53, 0x4E, 0x20, 0x540C, 0x6B65, 0x5931, 0x8D25]"

definition t_was_synced :: jsstr where
  "t_was_synced = [0x20, 0x5DF2, 0x540C, 0x6B65]"

definition t_fetched_n :: jsstr where
  "t_fetched_n = [0x83B7, 0x53D6, 0x20]"

definition t_was_added :: jsstr where
  "t_was_added = [0x20, 0x5DF2, 0x6DFB, 0x52A0]"

definition t_asn_add_failed :: jsstr where
  "t_asn_add_failed = [0x6DFB, 0x52A0, 0x20, 0x41, 0x53, 0x4E, 0x20, 0x5931, 0x8D25]"

definition t_already :: jsstr where
  "t_already = [0x20, 0x5DF2]"

definition t_enabled_word :: jsstr where
  "t_enabled_word = [0x542F, 0x7528]"

definition t_disabled_word :: jsstr where
  "t_disabled_word = [0x505C, 0x7528]"

definition t_asn_update_failed :: jsstr where
  "t_asn_update_failed = [0x66F4, 0x65B0, 0x20, 0x41, 0x53, 0x4E, 0x20, 0x5931, 0x8D25]"

definition t_asn_deleted :: jsstr where
  "t_asn_deleted = [0x41, 0x53, 0x4E, 0x20, 0x6570, 0x636E, 0x6E90, 0x5DF2, 0x5220, 0x9664]"

definition t_asn_delete_failed :: jsstr where
  "t_asn_delete_failed = [0x5220, 0x9664, 0x20, 0x41, 0x53, 0x4E, 0x20, 0x5931, 0x8D25]"

definition t_user_created :: jsstr where
  "t_user_created = [0x8D26, 0x53F7, 0x5DF2, 0x521B, 0x5EFA]"

definition t_user_updated :: jsstr where
  "t_user_updated = [0x8D26, 0x53F7, 0x6743, 0x9650, 0x5DF2, 0x66F4, 0x65B0]"

definition t_password_reset :: jsstr where
  "t_password_reset = [0x5BC6, 0x7801, 0x5DF2, 0x91CD, 0x7F6E, 0xFF0C, 0x539F, 0x6709, 0x4F1A, 0x8BDD, 0x5DF2,
     0x5931, 0x6548]"

definition t_user_deleted :: jsstr where
  "t_user_deleted = [0x8D26, 0x53F7, 0x5DF2, 0x5220, 0x9664]"


record query_options =
  qo_key :: qkey
  qo_call :: "js_error + api_call"
  qo_interval :: "int option"
  qo_keep_previous :: bool
  qo_stale :: "int option"

definition query :: "qkey \<Rightarrow> api_call \<Rightarrow> int option \<Rightarrow> query_options" where
  "query k c i = \<lparr>qo_key = k, qo_call = Inr c, qo_interval = i, qo_keep_previous = False, qo_stale = None\<rparr>"

record ('i, 'r) mutation =
  mu_call :: "'i \<Rightarrow> js_error + api_call"
  mu_success :: "'r \<Rightarrow> 'i \<Rightarrow> effect list"
  mu_error :: "jsstr \<Rightarrow> effect list"

definition mutation :: "('i \<Rightarrow> api_call) \<Rightarrow> ('r \<Rightarrow> 'i \<Rightarrow> effect list) \<Rightarrow> (jsstr \<Rightarrow> effect list) \<Rightarrow> ('i, 'r) mutation" where
  "mutation c s e = \<lparr>mu_call = (\<lambda>i. Inr (c i)), mu_success = s, mu_error = e\<rparr>"

lemma mutation_simps [simp]:
  "mu_call (mutation c s e) i = Inr (c i)" "mu_success (mutation c s e) = s" "mu_error (mutation c s e) = e"
  by (simp_all add: mutation_def)

lemma query_simps [simp]: "qo_key (query k c i) = k" "qo_call (query k c i) = Inr c"
  by (simp_all add: query_def)

definition toast_error :: "jsstr \<Rightarrow> jsstr \<Rightarrow> effect list" where
  "toast_error title message = [ToastError title (Some message)]"

subsection \<open>Dashboard\<close>

definition overviewQueryKey :: qkey where
  "overviewQueryKey = [KS ''overview'']"

definition useOverview :: query_options where
  "useOverview = query overviewQueryKey getOverview (Some 5000)"

subsection \<open>Scans\<close>

definition jobsQueryKey :: qkey where
  "jobsQueryKey = [KS ''scan-jobs'']"

definition useScanJobs :: "int option \<Rightarrow> int option \<Rightarrow> query_options" where
  "useScanJobs limit refetchInterval =
     query (jobsQueryKey @ [KN (nullish limit 100)]) (getJobs (Some (nullish limit 100)))
       (Some (nullish refetchInterval 3000))"

definition targets_queued :: "int \<Rightarrow> jsstr" where
  "targets_queued n = show_int n @ t_targets_queued"

definition useCreateScanJob :: "(CreateScanJob, ScanJob) mutation" where
  "useCreateScanJob = mutation createJob
     (\<lambda>job _. [Invalidate jobsQueryKey, Invalidate overviewQueryKey,
        ToastSuccess t_scan_created (Some (targets_queued (sj_total_targets job)))])
     (toast_error t_scan_create_failed)"

definition useStopScanJob :: "(jsstr, ScanJob) mutation" where
  "useStopScanJob = mutation stopJob
     (\<lambda>job _. [Invalidate jobsQueryKey, Invalidate overviewQueryKey,
        ToastSuccess (if sj_status job = lit ''stopped'' then t_scan_stopped else t_scan_updated) None])
     (toast_error t_scan_stop_failed)"

subsection \<open>Agents\<close>

definition agentsQueryKey :: qkey where
  "agentsQueryKey = [KS ''agents'']"

definition agentEnrollmentsQueryKey :: qkey where
  "agentEnrollmentsQueryKey = [KS ''agent-enrollments'']"

definition agentEnrollmentConfigQueryKey :: qkey where
  "agentEnrollmentConfigQueryKey = [KS ''agent-enrollments'', KS ''config'']"

definition useAgents :: "int option \<Rightarrow> query_options" where
  "useAgents refetchInterval = query agentsQueryKey getAgents refetchInterval"

definition useAgentEnrollments :: "int option \<Rightarrow> query_options" where
  "useAgentEnrollments refetchInterval = query agentEnrollmentsQueryKey getAgentEnrollments refetchInterval"

definition useAgentEnrollmentConfig :: query_options where
  "useAgentEnrollmentConfig =
     (query agentEnrollmentConfigQueryKey getAgentEnrollmentConfig None)\<lparr>qo_stale := Some 60000\<rparr>"

text \<open>The interval is computed from the data the query holds.\<close>

definition enrollment_interval :: "AgentEnrollment option \<Rightarrow> int option" where
  "enrollment_interval data =
     (case data of None \<Rightarrow> None
      | Some e \<Rightarrow> if en_status e = EnrollPending \<or> en_status e = EnrollApproved then Some 2000 else None)"

fun locator_key :: "EnrollmentLocator \<Rightarrow> qkey" where
  "locator_key (LocToken v) = [KStr (lit ''token''), KStr v]"
| "locator_key (LocId v) = [KStr (lit ''id''), KStr v]"

definition useAgentEnrollment :: "EnrollmentLocator \<Rightarrow> AgentEnrollment option \<Rightarrow> query_options" where
  "useAgentEnrollment locator data =
     \<lparr>qo_key = agentEnrollmentsQueryKey @ locator_key locator, qo_call = getAgentEnrollment locator,
      qo_interval = enrollment_interval data, qo_keep_previous = False, qo_stale = None\<rparr>"

definition useApproveAgentEnrollment ::
  "EnrollmentLocator \<Rightarrow> (ApproveAgentEnrollmentInput, AgentEnrollment) mutation" where
  "useApproveAgentEnrollment locator =
     \<lparr>mu_call = approveAgentEnrollment locator,
      mu_success = (\<lambda>item _.
        [ToastSuccess t_pairing_approved (Some (t_waiting_for
           @ (case en_name item of None \<Rightarrow> lit ''undefined'' | Some n \<Rightarrow> n) @ t_finish_connecting)),
         Invalidate agentEnrollmentsQueryKey, Invalidate agentsQueryKey]),
      mu_error = toast_error t_approve_failed\<rparr>"

definition useRejectAgentEnrollment :: "EnrollmentLocator \<Rightarrow> (unit, AgentEnrollment) mutation" where
  "useRejectAgentEnrollment locator =
     \<lparr>mu_call = (\<lambda>_. rejectAgentEnrollment locator),
      mu_success = (\<lambda>_ _. [ToastSuccess t_pairing_rejected None, Invalidate agentEnrollmentsQueryKey]),
      mu_error = toast_error t_reject_failed\<rparr>"

definition useCreatePreauthorizedEnrollment ::
  "(CreatePreauthorizedEnrollmentInput, CreatePreauthorizedEnrollmentResponse) mutation" where
  "useCreatePreauthorizedEnrollment = mutation createPreauthorizedEnrollment
     (\<lambda>_ _. [ToastSuccess t_command_created None, Invalidate agentEnrollmentsQueryKey])
     (toast_error t_command_failed)"

subsection \<open>Black list\<close>

definition blacklistQueryKey :: qkey where
  "blacklistQueryKey = [KS ''blacklist'']"

definition useBlacklist :: query_options where
  "useBlacklist = query blacklistQueryKey (getEntries (Some 500)) (Some 10000)"

definition useRecheckBlacklist :: "(unit, BlacklistRecheckResult) mutation" where
  "useRecheckBlacklist = mutation (\<lambda>_. recheck)
     (\<lambda>result _. [Invalidate blacklistQueryKey, Invalidate jobsQueryKey, Invalidate overviewQueryKey,
        (if rr_skipped result then ToastInfo t_recheck_skipped (rr_reason result)
         else ToastSuccess t_recheck_planned
           (Some (t_created_n @ show_int (rr_targets result) @ t_rescan_targets)))])
     (toast_error t_recheck_failed)"

subsection \<open>League and results\<close>

definition useLeagueDashboard :: "LeagueDashboardFilters \<Rightarrow> query_options" where
  "useLeagueDashboard filters =
     (query [KS ''prefix-league'', KObj (leagueFilterEntries filters)] (getLeagueDashboard filters) (Some 30000))
       \<lparr>qo_keep_previous := True\<rparr>"

definition candidate_json :: "LeagueCandidate \<Rightarrow> json" where
  "candidate_json c = j_obj
     [(''agent_id'', Some (JStr (lc_agent_id c))), (''agent_name'', Some (JStr (lc_agent_name c))),
      (''region'', Some (JStr (lc_region c))), (''continent'', Some (JStr (lc_continent c))),
      (''prefix_cidr'', Some (JStr (lc_prefix_cidr c))), (''tier'', Some (JStr (prefixTier_str (lc_tier c)))),
      (''scheme'', Some (JStr (lc_scheme c))), (''hostname'', Some (JStr (lc_hostname c))),
      (''path'', Some (JStr (lc_path c))), (''port'', Some (JNum (lc_port c))),
      (''attempts'', Some (JNum (lc_attempts c))), (''timeout_ms'', Some (JNum (lc_timeout_ms c))),
      (''target_ip'', Some (JStr (lc_target_ip c))), (''colo'', Some (JStr (lc_colo c))),
      (''sample_count'', Some (JNum (of_int (lc_sample_count c)))),
      (''availability_rate'', Some (JNum (lc_availability_rate c))),
      (''latency_p95_ms'', Some (JNum (lc_latency_p95_ms c))),
      (''packet_loss_avg'', Some (JNum (lc_packet_loss_avg c))),
      (''last_scanned_at'', Some (JStr (lc_last_scanned_at c)))]"

definition useIPTrend :: "LeagueCandidate \<Rightarrow> TrendTimeRange \<Rightarrow> query_options" where
  "useIPTrend candidate timeRange =
     query [KS ''ip-trend'', KJson (candidate_json candidate), KStr (trendTimeRange_str timeRange)]
       (getIPTrend candidate timeRange) (Some 30000)"

definition resultsQueryKey :: qkey where
  "resultsQueryKey = [KS ''scan-results'']"

definition useScanResults :: "ResultFilters \<Rightarrow> int option \<Rightarrow> query_options" where
  "useScanResults filters refetchInterval =
     (query (resultsQueryKey @ [KObj (resultFilterEntries filters)]) (getResults filters)
       (Some (nullish refetchInterval 10000)))\<lparr>qo_keep_previous := True\<rparr>"

definition useResultFacets :: "ResultFacetFilters \<Rightarrow> int option \<Rightarrow> query_options" where
  "useResultFacets filters refetchInterval =
     (query [KS ''scan-result-facets'', KObj (facetFilterEntries filters)] (getResultFacets filters)
       (Some (nullish refetchInterval 30000)))\<lparr>qo_keep_previous := True\<rparr>"

definition useResultJobs :: "ResultJobFilters \<Rightarrow> int option \<Rightarrow> query_options" where
  "useResultJobs filters refetchInterval =
     (query [KS ''scan-result-jobs'', KObj (resultFilterEntries filters)] (getResultJobs filters)
       (Some (nullish refetchInterval 30000)))\<lparr>qo_keep_previous := True\<rparr>"

subsection \<open>Schedules\<close>

definition schedulesQueryKey :: qkey where
  "schedulesQueryKey = [KS ''scan-schedules'']"

definition useScanSchedules :: query_options where
  "useScanSchedules = query schedulesQueryKey getSchedules (Some 15000)"

definition useCreateSchedule :: "intl \<Rightarrow> (UpsertScanSchedule, ScanSchedule) mutation" where
  "useCreateSchedule I = mutation createSchedule
     (\<lambda>item _. [Invalidate schedulesQueryKey,
        ToastSuccess t_schedule_created (Some (t_next_run @ locale_string I (ss_next_run_at item)))])
     (toast_error t_schedule_create_failed)"

definition useUpdateSchedule :: "(jsstr \<times> UpsertScanSchedule, ScanSchedule) mutation" where
  "useUpdateSchedule = mutation (\<lambda>(i, input). updateSchedule i input)
     (\<lambda>_ _. [Invalidate schedulesQueryKey, ToastSuccess t_schedule_updated None])
     (toast_error t_schedule_update_failed)"

definition useDeleteSchedule :: "(jsstr, unit) mutation" where
  "useDeleteSchedule = mutation deleteSchedule
     (\<lambda>_ _. [Invalidate schedulesQueryKey, ToastSuccess t_schedule_deleted None])
     (toast_error t_schedule_delete_failed)"

definition useRunSchedule :: "(jsstr, ScanJob) mutation" where
  "useRunSchedule = mutation runSchedule
     (\<lambda>job _. [Invalidate schedulesQueryKey, Invalidate jobsQueryKey,
        ToastSuccess t_schedule_run (Some (targets_queued (sj_total_targets job)))])
     (toast_error t_schedule_run_failed)"

subsection \<open>Automation\<close>

definition blacklistAutomationQueryKey :: qkey where
  "blacklistAutomationQueryKey = [KS ''automation'', KS ''blacklist-recheck'']"

definition sourceSyncAutomationQueryKey :: qkey where
  "sourceSyncAutomationQueryKey = [KS ''automation'', KS ''source-syncs'']"

definition automationRunsQueryKey :: qkey where
  "automationRunsQueryKey = [KS ''automation'', KS ''runs'']"

definition useBlacklistRecheckSettings :: query_options where
  "useBlacklistRecheckSettings = query blacklistAutomationQueryKey getBlacklistRecheck (Some 15000)"

definition useUpdateBlacklistRecheckSettings :: "(UpdateBlacklistRecheckSettings, BlacklistRecheckSettings) mutation" where
  "useUpdateBlacklistRecheckSettings = mutation updateBlacklistRecheck
     (\<lambda>_ _. [Invalidate blacklistAutomationQueryKey, ToastSuccess t_recheck_saved None])
     (toast_error t_recheck_save_failed)"

definition useRunBlacklistRecheckAutomation :: "(unit, BlacklistRecheckResult) mutation" where
  "useRunBlacklistRecheckAutomation = mutation (\<lambda>_. runBlacklistRecheck)
     (\<lambda>result _. [Invalidate blacklistAutomationQueryKey, Invalidate automationRunsQueryKey, Invalidate jobsQueryKey,
        (if rr_skipped result then ToastInfo t_auto_recheck_skipped (rr_reason result)
         else ToastSuccess t_auto_recheck_created
           (Some (show_int (rr_targets result) @ t_n_targets @ show_int (rr_jobs result) @ t_n_groups)))])
     (toast_error t_auto_recheck_failed)"

definition useSourceSyncSchedules :: query_options where
  "useSourceSyncSchedules = query sourceSyncAutomationQueryKey getSourceSyncs (Some 15000)"

definition useUpdateSourceSyncSchedule :: "(jsstr \<times> UpdateSourceSyncSchedule, SourceSyncSchedule) mutation" where
  "useUpdateSourceSyncSchedule = mutation (\<lambda>(source, input). updateSourceSync source input)
     (\<lambda>_ _. [Invalidate sourceSyncAutomationQueryKey, ToastSuccess t_sync_saved None])
     (toast_error t_sync_save_failed)"

definition useRunSourceSyncSchedule :: "(jsstr, json) mutation" where
  "useRunSourceSyncSchedule = mutation runSourceSync
     (\<lambda>_ source. [Invalidate sourceSyncAutomationQueryKey, Invalidate automationRunsQueryKey,
        Invalidate [KS ''sources''], Invalidate [KS ''colo-locations''],
        ToastSuccess (if source = lit ''official'' then t_official_synced
                      else if source = lit ''asn'' then t_asn_synced
                      else t_colo_synced) None])
     (toast_error t_sync_failed)"

definition useAutomationRuns :: query_options where
  "useAutomationRuns = query automationRunsQueryKey (getAutomationRuns (Some 200)) (Some 15000)"

subsection \<open>Address sources\<close>

definition officialSourceQueryKey :: qkey where
  "officialSourceQueryKey = [KS ''sources'', KS ''official'']"

definition asnSourcesQueryKey :: qkey where
  "asnSourcesQueryKey = [KS ''sources'', KS ''asns'']"

definition useInvalidateSources :: "effect list" where
  "useInvalidateSources = [Invalidate officialSourceQueryKey, Invalidate asnSourcesQueryKey, Invalidate overviewQueryKey]"

definition useOfficialSource :: query_options where
  "useOfficialSource = query officialSourceQueryKey getOfficial (Some 30000)"

definition useASNSources :: query_options where
  "useASNSources = query asnSourcesQueryKey getASNs (Some 30000)"

definition useSyncOfficial :: "(unit, SourceStatus) mutation" where
  "useSyncOfficial = mutation (\<lambda>_. syncOfficial)
     (\<lambda>source _. useInvalidateSources @
        [ToastSuccess t_ranges_synced (Some (t_now_total @ show_int (st_prefix_count source) @ t_n_prefixes))])
     (toast_error t_ranges_failed)"

definition useSyncAllASNs :: "(unit, ASNSyncSummary) mutation" where
  "useSyncAllASNs = mutation (\<lambda>_. syncAllASNs)
     (\<lambda>summary _. useInvalidateSources @
        [if sm_failed summary > 0 then ToastWarning t_asns_partly
           (Some (t_succeeded_n @ show_int (sm_synced summary) @ t_failed_n @ show_int (sm_failed summary) @ t_full_stop))
         else ToastSuccess t_asns_done
           (Some (t_synced_n @ show_int (sm_synced summary) @ t_n_asns))])
     (toast_error t_asn_sync_failed)"

definition as_name :: "int \<Rightarrow> jsstr" where
  "as_name n = lit ''AS'' @ show_int n"

definition useSyncASN :: "(int, ASNSource) mutation" where
  "useSyncASN = mutation syncASN
     (\<lambda>item _. useInvalidateSources @ [ToastSuccess (as_name (as_asn item) @ t_was_synced)
        (Some (t_fetched_n @ show_int (as_prefix_count item) @ t_n_prefixes))])
     (toast_error t_asn_sync_failed)"

definition useCreateASN :: "(CreateASNSource, ASNSource) mutation" where
  "useCreateASN = mutation createASN
     (\<lambda>item _. useInvalidateSources @ [ToastSuccess (as_name (as_asn item) @ t_was_added) None])
     (toast_error t_asn_add_failed)"

definition useUpdateASN :: "(int \<times> UpdateASNSource, ASNSource) mutation" where
  "useUpdateASN = mutation (\<lambda>(asn, input). updateASN asn input)
     (\<lambda>item _. useInvalidateSources @
        [ToastSuccess (as_name (as_asn item) @ t_already @ (if as_enabled item then t_enabled_word else t_disabled_word)) None])
     (toast_error t_asn_update_failed)"

definition useDeleteASN :: "(int, unit) mutation" where
  "useDeleteASN = mutation deleteASN
     (\<lambda>_ _. useInvalidateSources @ [ToastSuccess t_asn_deleted None])
     (toast_error t_asn_delete_failed)"

subsection \<open>Users\<close>

definition usersQueryKey :: qkey where
  "usersQueryKey = [KS ''users'']"

definition useUsers :: query_options where
  "useUsers = query usersQueryKey listUsers None"

definition toast_message :: "jsstr \<Rightarrow> effect list" where
  "toast_message message = [ToastError message None]"

definition useCreateUser :: "(CreateUserInput, User) mutation" where
  "useCreateUser = mutation createUser
     (\<lambda>_ _. [ToastSuccess t_user_created None, Invalidate usersQueryKey]) toast_message"

definition useUpdateUser :: "(jsstr \<times> UpdateUserInput, User) mutation" where
  "useUpdateUser = mutation (\<lambda>(i, input). updateUser i input)
     (\<lambda>_ _. [ToastSuccess t_user_updated None, Invalidate usersQueryKey,
        Invalidate [KS ''auth'', KS ''me'']]) toast_message"

definition useResetUserPassword :: "(jsstr \<times> jsstr, unit) mutation" where
  "useResetUserPassword = mutation (\<lambda>(i, password). resetPassword i password)
     (\<lambda>_ _. [ToastSuccess t_password_reset None, Invalidate usersQueryKey]) toast_message"

definition useDeleteUser :: "(jsstr, unit) mutation" where
  "useDeleteUser = mutation deleteUser
     (\<lambda>_ _. [ToastSuccess t_user_deleted None, Invalidate usersQueryKey]) toast_message"

lemmas mutation_hook_defs = useCreateScanJob_def useStopScanJob_def useApproveAgentEnrollment_def
  useRejectAgentEnrollment_def useCreatePreauthorizedEnrollment_def useRecheckBlacklist_def
  useCreateSchedule_def useUpdateSchedule_def useDeleteSchedule_def useRunSchedule_def
  useUpdateBlacklistRecheckSettings_def useRunBlacklistRecheckAutomation_def
  useUpdateSourceSyncSchedule_def useRunSourceSyncSchedule_def useSyncOfficial_def useSyncAllASNs_def
  useSyncASN_def useCreateASN_def useUpdateASN_def useDeleteASN_def useCreateUser_def useUpdateUser_def
  useResetUserPassword_def useDeleteUser_def

lemmas query_key_defs = overviewQueryKey_def jobsQueryKey_def agentsQueryKey_def agentEnrollmentsQueryKey_def
  agentEnrollmentConfigQueryKey_def blacklistQueryKey_def resultsQueryKey_def schedulesQueryKey_def
  blacklistAutomationQueryKey_def sourceSyncAutomationQueryKey_def automationRunsQueryKey_def
  officialSourceQueryKey_def asnSourcesQueryKey_def usersQueryKey_def

lemmas query_hook_defs = useOverview_def useScanJobs_def useAgents_def useAgentEnrollments_def
  useAgentEnrollmentConfig_def useAgentEnrollment_def useBlacklist_def useLeagueDashboard_def useIPTrend_def
  useScanResults_def useResultFacets_def useResultJobs_def useScanSchedules_def
  useBlacklistRecheckSettings_def useSourceSyncSchedules_def useAutomationRuns_def useOfficialSource_def
  useASNSources_def useUsers_def

subsection \<open>Every mutation refreshes what it changed\<close>

definition refreshes :: "effect list \<Rightarrow> query_options \<Rightarrow> bool" where
  "refreshes es q \<longleftrightarrow> invalidates es (qo_key q)"

lemma invalidates_Cons [simp]:
  "invalidates (Invalidate p # es) k \<longleftrightarrow> key_prefix p k \<or> invalidates es k"
  "invalidates (ToastSuccess a b # es) k \<longleftrightarrow> invalidates es k"
  "invalidates (ToastInfo a b # es) k \<longleftrightarrow> invalidates es k"
  "invalidates (ToastWarning a b # es) k \<longleftrightarrow> invalidates es k"
  "invalidates (ToastError a b # es) k \<longleftrightarrow> invalidates es k"
  "\<not> invalidates [] k"
  by (simp_all add: invalidates_def)

text \<open>After a successful mutation every query that shows what it changed is marked stale: creating, stopping or scheduling a scan refreshes the job lists of every limit, an approval refreshes the agents and all pairing queries including the one of its locator, the source operations refresh both source lists and the overview, a user update refreshes the session user, and a sync run refreshes every query under the key of the sources.\<close>

theorem mutations_refresh:
  "refreshes (mu_success useCreateScanJob job w1) (useScanJobs limit i)
   \<and> refreshes (mu_success useCreateScanJob job w1) useOverview
   \<and> refreshes (mu_success useStopScanJob job w2) (useScanJobs limit i)
   \<and> refreshes (mu_success useStopScanJob job w2) useOverview
   \<and> refreshes (mu_success useRunSchedule job w2) (useScanJobs limit i)
   \<and> refreshes (mu_success useRunSchedule job w2) useScanSchedules
   \<and> refreshes (mu_success (useApproveAgentEnrollment l) e w3) (useAgentEnrollment l' d)
   \<and> refreshes (mu_success (useApproveAgentEnrollment l) e w3) (useAgentEnrollments i)
   \<and> refreshes (mu_success (useApproveAgentEnrollment l) e w3) (useAgents i)
   \<and> refreshes (mu_success (useRejectAgentEnrollment l) e ()) (useAgentEnrollment l' d)
   \<and> refreshes (mu_success (useRejectAgentEnrollment l) e ()) (useAgentEnrollments i)
   \<and> refreshes (mu_success useCreatePreauthorizedEnrollment r w4) (useAgentEnrollments i)
   \<and> refreshes (mu_success useRecheckBlacklist rr ()) useBlacklist
   \<and> refreshes (mu_success useRecheckBlacklist rr ()) (useScanJobs limit i)
   \<and> list_all (\<lambda>es. refreshes es useScanSchedules)
       [mu_success (useCreateSchedule I) s w5, mu_success useUpdateSchedule s w6, mu_success useDeleteSchedule () w2]
   \<and> refreshes (mu_success useUpdateBlacklistRecheckSettings bs w7) useBlacklistRecheckSettings
   \<and> refreshes (mu_success useRunBlacklistRecheckAutomation rr ()) useBlacklistRecheckSettings
   \<and> refreshes (mu_success useRunBlacklistRecheckAutomation rr ()) useAutomationRuns
   \<and> refreshes (mu_success useUpdateSourceSyncSchedule ys w8) useSourceSyncSchedules
   \<and> list_all (refreshes (mu_success useRunSourceSyncSchedule j w2))
       [useSourceSyncSchedules, useAutomationRuns, useOfficialSource, useASNSources]
   \<and> list_all (\<lambda>es. list_all (refreshes es) [useOfficialSource, useASNSources, useOverview])
       [mu_success useSyncOfficial st (), mu_success useSyncAllASNs sm (), mu_success useSyncASN a n,
        mu_success useCreateASN a w9, mu_success useUpdateASN a w10, mu_success useDeleteASN () n]
   \<and> list_all (\<lambda>es. refreshes es useUsers)
       [mu_success useCreateUser u w11, mu_success useUpdateUser u w12, mu_success useResetUserPassword () w13,
        mu_success useDeleteUser () w2]
   \<and> invalidates (mu_success useUpdateUser u w12) [KS ''auth'', KS ''me'']"
  by (simp add: refreshes_def mutation_hook_defs query_hook_defs query_key_defs useInvalidateSources_def key_prefix_def)

text \<open>A failed mutation only tells the user: one error toast with the message of the error, and
  nothing is marked stale.\<close>

definition only_reports :: "('i, 'r) mutation \<Rightarrow> jsstr \<Rightarrow> bool" where
  "only_reports m msg \<longleftrightarrow> (case mu_error m msg of [ToastError t d] \<Rightarrow> d = Some msg \<or> d = None \<and> t = msg | _ \<Rightarrow> False)"

text \<open>A mutation that fails shows exactly one error toast, which carries the error's message, and has no other effect: no query is marked stale.\<close>

theorem mutation_errors_reported:
  "only_reports useCreateScanJob m \<and> only_reports useStopScanJob m \<and> only_reports (useApproveAgentEnrollment l) m
   \<and> only_reports (useRejectAgentEnrollment l) m \<and> only_reports useCreatePreauthorizedEnrollment m
   \<and> only_reports useRecheckBlacklist m \<and> only_reports (useCreateSchedule I) m \<and> only_reports useUpdateSchedule m
   \<and> only_reports useDeleteSchedule m \<and> only_reports useRunSchedule m
   \<and> only_reports useUpdateBlacklistRecheckSettings m \<and> only_reports useRunBlacklistRecheckAutomation m
   \<and> only_reports useUpdateSourceSyncSchedule m \<and> only_reports useRunSourceSyncSchedule m
   \<and> only_reports useSyncOfficial m \<and> only_reports useSyncAllASNs m \<and> only_reports useSyncASN m
   \<and> only_reports useCreateASN m \<and> only_reports useUpdateASN m \<and> only_reports useDeleteASN m
   \<and> only_reports useCreateUser m \<and> only_reports useUpdateUser m \<and> only_reports useResetUserPassword m
   \<and> only_reports useDeleteUser m"
  by (simp add: only_reports_def mutation_hook_defs toast_error_def toast_message_def)

text \<open>A pairing page polls exactly while the pairing can still move.\<close>

lemma enrollment_polling:
  "qo_interval (useAgentEnrollment l d) \<noteq> None \<longleftrightarrow> (\<exists>e. d = Some e \<and> en_status e \<in> {EnrollPending, EnrollApproved})"
  by (auto simp: useAgentEnrollment_def enrollment_interval_def split: option.splits)

text \<open>Running a schedule starts a job without refreshing the overview, and no query of the console has
  the key \<open>colo-locations\<close> a sync run marks stale.\<close>

lemma run_schedule_leaves_overview: "\<not> refreshes (mu_success useRunSchedule job v) useOverview"
  by (simp add: refreshes_def mutation_hook_defs query_hook_defs query_key_defs key_prefix_def)

end
