(* ===== verification/Query_Cache.thy ===== *)
theory Query_Cache
  imports Hooks
begin

text \<open>
  The part of the query client the console relies on, as an interface: reading, writing and removing
  the data of a query. The client is a library; its contract is the assumptions of the locale, and the
  ordered map at the end is the model of it the other theories compute with.
\<close>

locale query_cache =
  fixes getQueryData :: "'c \<Rightarrow> qkey \<Rightarrow> 'v option"
    and setQueryData :: "qkey \<Rightarrow> 'v \<Rightarrow> 'c \<Rightarrow> 'c"
    and removeQueries :: "(qkey \<Rightarrow> bool) \<Rightarrow> 'c \<Rightarrow> 'c"
  assumes get_set: "getQueryData (setQueryData k v c) k' = (if k' = k then Some v else getQueryData c k')"
    and get_remove: "getQueryData (removeQueries p c) k = (if p k then None else getQueryData c k)"
begin

text \<open>Writing one query and removing the others leaves nothing but what the predicate spares.\<close>

lemma set_remove:
  "\<not> p k \<Longrightarrow> getQueryData (removeQueries p (setQueryData k v c)) k' =
     (if k' = k then Some v else if p k' then None else getQueryData c k')"
  by (simp add: get_set get_remove)

lemma remove_remove: "getQueryData (removeQueries p (removeQueries p c)) = getQueryData (removeQueries p c)"
  by (rule ext) (simp add: get_remove)

lemma set_set: "getQueryData (setQueryData k v (setQueryData k w c)) = getQueryData (setQueryData k v c)"
  by (rule ext) (simp add: get_set)

end

text \<open>A session keeps one query under a reserved first element of the key and ends by writing
  the signed-out value to it and removing every other query.\<close>

locale session_cache = query_cache getQueryData setQueryData removeQueries
  for getQueryData :: "'c \<Rightarrow> qkey \<Rightarrow> 'v option" and setQueryData removeQueries +
  fixes session_key :: qkey and reserved :: kelem and signed_out :: 'v
  assumes session_reserved: "session_key \<noteq> [] \<and> hd session_key = reserved"
begin

definition other :: "qkey \<Rightarrow> bool" where
  "other k \<longleftrightarrow> \<not> (k \<noteq> [] \<and> hd k = reserved)"

definition end_session :: "'c \<Rightarrow> 'c" where
  "end_session c = removeQueries other (setQueryData session_key signed_out c)"

lemma end_session_data:
  "getQueryData (end_session c) k =
     (if k = session_key then Some signed_out else if other k then None else getQueryData c k)"
  unfolding end_session_def using session_reserved by (subst set_remove) (auto simp: other_def)

lemma end_session_idem: "getQueryData (end_session (end_session c)) = getQueryData (end_session c)"
  by (rule ext) (simp add: end_session_data)

end

subsection \<open>The model of the client\<close>

text \<open>The data a query may hold, as far as the session is concerned: no user, a user, or the data of
  a page.\<close>

datatype cached = CNull | CUser User | CData json

type_synonym qcache = "(qkey \<times> cached) list"

definition getQueryData :: "qcache \<Rightarrow> qkey \<Rightarrow> cached option" where
  "getQueryData c k = map_get c k"

definition setQueryData :: "qkey \<Rightarrow> cached \<Rightarrow> qcache \<Rightarrow> qcache" where
  "setQueryData k v c = map_set k v c"

definition removeQueries :: "(qkey \<Rightarrow> bool) \<Rightarrow> qcache \<Rightarrow> qcache" where
  "removeQueries p c = filter (\<lambda>kv. \<not> p (fst kv)) c"

lemma map_of_filter_key: "map_of (filter (\<lambda>kv. \<not> p (fst kv)) c) k = (if p k then None else map_of c k)"
  by (induction c) auto

interpretation client: query_cache getQueryData setQueryData removeQueries
  by unfold_locales (simp_all add: getQueryData_def setQueryData_def removeQueries_def map_get_def
      map_of_filter_key map_get_set [unfolded map_get_def])

end
