(* ===== verification/View.thy ===== *)
theory View
  imports Format Types
begin

text \<open>
  Rendered components as values. A node is a text, an element with its attributes, handlers and
  children, or a fragment; an element is named by the component or tag that renders it. Presentation
  (class names, icons, layout wrappers without content) is left out. A handler carries the action the
  component takes, a value of the component's action type; a handler of a control that passes a value
  is a function to actions. Rendering code that throws gives \<open>Throw\<close>.
\<close>

datatype 'e attr =
    Attr string jsstr
  | Flag string bool
  | On string 'e
  | OnStr string "jsstr \<Rightarrow> 'e"
  | OnBool string "bool \<Rightarrow> 'e"
  | OnNum string "jsnum \<Rightarrow> 'e"

datatype 'e node =
    Txt jsstr
  | Throw js_error
  | El string "'e attr list" "'e node list"
  | Frag "'e node list"

abbreviation Null :: "'e node" where "Null \<equiv> Frag []"

definition el :: "string \<Rightarrow> 'e node list \<Rightarrow> 'e node" where
  "el name kids = El name [] kids"

definition show_if :: "bool \<Rightarrow> 'e node \<Rightarrow> 'e node" where
  "show_if b n = (if b then n else Null)"

text \<open>A text that may throw while it is computed.\<close>

fun text_or_throw :: "js_error + jsstr \<Rightarrow> 'e node" where
  "text_or_throw (Inr s) = Txt s"
| "text_or_throw (Inl e) = Throw e"

definition button :: "bool \<Rightarrow> 'e \<Rightarrow> 'e node list \<Rightarrow> 'e node" where
  "button disabled act kids = El ''Button'' [Flag ''disabled'' disabled, On ''click'' act] kids"

subsection \<open>What a view says and does\<close>

fun node_text :: "'e node \<Rightarrow> jsstr" where
  "node_text (Txt s) = s"
| "node_text (Throw _) = []"
| "node_text (El _ _ ks) = concat (map node_text ks)"
| "node_text (Frag ks) = concat (map node_text ks)"

text \<open>Rendering fails when any part of the view throws.\<close>

fun throws :: "'e node \<Rightarrow> bool" where
  "throws (Txt _) = False"
| "throws (Throw _) = True"
| "throws (El _ _ ks) = list_ex throws ks"
| "throws (Frag ks) = list_ex throws ks"

definition is_disabled :: "'e attr list \<Rightarrow> bool" where
  "is_disabled as = list_ex (\<lambda>a. case a of Flag n b \<Rightarrow> n = ''disabled'' \<and> b | _ \<Rightarrow> False) as"

text \<open>\<open>acts P v\<close>: every action the user can take in the view satisfies \<open>P\<close>. The handlers of a
  disabled control cannot fire.\<close>

fun attr_acts :: "('e \<Rightarrow> bool) \<Rightarrow> 'e attr \<Rightarrow> bool" where
  "attr_acts P (On _ e) = P e"
| "attr_acts P (OnStr _ f) = (\<forall>s. P (f s))"
| "attr_acts P (OnBool _ f) = (\<forall>b. P (f b))"
| "attr_acts P (OnNum _ f) = (\<forall>n. P (f n))"
| "attr_acts P (Attr _ _) = True"
| "attr_acts P (Flag _ _) = True"

fun acts :: "('e \<Rightarrow> bool) \<Rightarrow> 'e node \<Rightarrow> bool" where
  "acts P (Txt _) = True"
| "acts P (Throw _) = True"
| "acts P (El _ as ks) = ((is_disabled as \<or> list_all (attr_acts P) as) \<and> list_all (acts P) ks)"
| "acts P (Frag ks) = list_all (acts P) ks"

text \<open>\<open>offers e v\<close>: some enabled plain handler of the view takes the action.\<close>

fun offers :: "'e \<Rightarrow> 'e node \<Rightarrow> bool" where
  "offers e (Txt _) = False"
| "offers e (Throw _) = False"
| "offers e (El _ as ks) = ((\<not> is_disabled as \<and> list_ex (\<lambda>a. case a of On _ x \<Rightarrow> x = e | _ \<Rightarrow> False) as)
     \<or> list_ex (offers e) ks)"
| "offers e (Frag ks) = list_ex (offers e) ks"

lemma acts_show_if [simp]: "acts P (show_if b n) \<longleftrightarrow> (b \<longrightarrow> acts P n)"
  by (simp add: show_if_def)

lemma acts_el [simp]: "acts P (el name ks) \<longleftrightarrow> list_all (acts P) ks"
  by (simp add: el_def is_disabled_def)

lemma acts_button [simp]: "acts P (button d e ks) \<longleftrightarrow> (d \<or> P e) \<and> list_all (acts P) ks"
  by (simp add: button_def is_disabled_def)

lemma acts_text_or_throw [simp]: "acts P (text_or_throw t)"
  by (cases t) simp_all

lemma is_disabled_simps [simp]:
  "\<not> is_disabled []" "is_disabled (On s e # as) = is_disabled as" "is_disabled (OnStr s f # as) = is_disabled as"
  "is_disabled (OnBool s g # as) = is_disabled as" "is_disabled (OnNum s h # as) = is_disabled as"
  "is_disabled (Attr s t # as) = is_disabled as"
  "is_disabled (Flag n b # as) = (n = ''disabled'' \<and> b \<or> is_disabled as)"
  by (simp_all add: is_disabled_def)

lemma offers_simps [simp]:
  "offers e (show_if b n) \<longleftrightarrow> b \<and> offers e n" "offers e (el name ks) \<longleftrightarrow> list_ex (offers e) ks"
  "offers e (button d x ks) \<longleftrightarrow> (\<not> d \<and> x = e) \<or> list_ex (offers e) ks" "\<not> offers e (text_or_throw t)"
  by (simp_all add: show_if_def el_def button_def) (cases t; simp)

text \<open>An action that satisfies no \<open>P\<close> is not offered by a view whose actions all satisfy \<open>P\<close>.\<close>

lemma on_in_attrs: "list_ex (\<lambda>a. case a of On _ x \<Rightarrow> x = e | _ \<Rightarrow> False) as \<Longrightarrow> \<exists>s. On s e \<in> set as"
  by (induction as) (auto split: attr.splits)

lemma acts_offers: "acts P v \<Longrightarrow> offers e v \<Longrightarrow> P e"
proof (induction v)
  case (El name as ks)
  from El.prems(2) consider "\<not> is_disabled as" "\<exists>s. On s e \<in> set as" | k where "k \<in> set ks" "offers e k"
    using on_in_attrs [of e as] by (auto simp: list_ex_iff)
  then show ?case
  proof cases
    case 1
    then show ?thesis using El.prems(1) by (auto simp: list_all_iff)
  next
    case 2
    then show ?thesis using El.prems(1) El.IH by (auto simp: list_all_iff)
  qed
qed (auto simp: list_all_iff list_ex_iff)

lemma is_disabled_map [simp]: "is_disabled (map (map_attr f) as) = is_disabled as"
  by (induction as) (auto simp: is_disabled_def split: attr.splits)

lemma attr_acts_map [simp]: "attr_acts P (map_attr f a) = attr_acts (P \<circ> f) a"
  by (cases a) simp_all

lemma acts_mono: "acts P v \<Longrightarrow> (\<And>a. P a \<Longrightarrow> Q a) \<Longrightarrow> acts Q v"
proof -
  assume imp: "\<And>a. P a \<Longrightarrow> Q a"
  have "attr_acts P a \<Longrightarrow> attr_acts Q a" for a using imp by (cases a) auto
  then show "acts P v \<Longrightarrow> acts Q v" by (induction v) (auto simp: list_all_iff)
qed

text \<open>A child component's view, its actions embedded into the parent's.\<close>

lemma acts_map_node [simp]: "acts P (map_node f v) = acts (P \<circ> f) v"
  by (induction v) (auto simp: list_all_iff o_def)

lemma acts_True: "acts (\<lambda>_. True) v"
proof -
  have "attr_acts (\<lambda>_. True) a" for a :: "'a attr" by (cases a) simp_all
  then show ?thesis by (induction v) (auto simp: list_all_iff)
qed

lemma offers_map_node: "offers e v \<Longrightarrow> offers (f e) (map_node f v)"
proof (induction v)
  case (El name as ks)
  have "list_ex (\<lambda>a. case a of On _ x \<Rightarrow> x = f e | _ \<Rightarrow> False) (map (map_attr f) as)"
    if "list_ex (\<lambda>a. case a of On _ x \<Rightarrow> x = e | _ \<Rightarrow> False) as"
    using that by (induction as) (auto split: attr.splits)
  with El show ?case by (auto simp: list_ex_iff)
qed (auto simp: list_ex_iff)

end
