(* ===== verification/Shared.thy ===== *)
theory Shared
  imports View Server_Clock Schemas
begin

text \<open>
  The components every page uses (\<open>components/shared\<close>): states of a page, badges, the permission
  gate, the searchable combobox, and the data table with its pagination. The table library's row
  models are parameters: a table is rendered from the rows of its current page.
\<close>

subsection \<open>Literals\<close>

definition t_unknown_error :: jsstr where
  "t_unknown_error = [0x53D1, 0x751F, 0x672A, 0x77E5, 0x9519, 0x8BEF]"

definition t_load_failed :: jsstr where
  "t_load_failed = [0x6570, 0x636E, 0x52A0, 0x8F7D, 0x5931, 0x8D25]"

definition t_retry :: jsstr where
  "t_retry = [0x91CD, 0x8BD5]"

definition t_loading :: jsstr where
  "t_loading = [0x6B63, 0x5728, 0x52A0, 0x8F7D]"

definition t_st_completed :: jsstr where
  "t_st_completed = [0x5DF2, 0x5B8C, 0x6210]"

definition t_st_running :: jsstr where
  "t_st_running = [0x8FD0, 0x884C, 0x4E2D]"

definition t_st_pending :: jsstr where
  "t_st_pending = [0x7B49, 0x5F85, 0x4E2D]"

definition t_st_online :: jsstr where
  "t_st_online = [0x5728, 0x7EBF]"

definition t_st_offline :: jsstr where
  "t_st_offline = [0x79BB, 0x7EBF]"

definition t_st_ok :: jsstr where
  "t_st_ok = [0x6B63, 0x5E38]"

definition t_st_error :: jsstr where
  "t_st_error = [0x5F02, 0x5E38]"

definition t_st_never :: jsstr where
  "t_st_never = [0x672A, 0x540C, 0x6B65]"

definition t_st_failed :: jsstr where
  "t_st_failed = [0x5931, 0x8D25]"

definition t_st_skipped :: jsstr where
  "t_st_skipped = [0x5DF2, 0x8DF3, 0x8FC7]"

definition t_st_stopped :: jsstr where
  "t_st_stopped = [0x5DF2, 0x505C, 0x6B62]"

definition t_st_scheduled :: jsstr where
  "t_st_scheduled = [0x5B9A, 0x65F6, 0x626B, 0x63CF]"

definition t_st_recheck :: jsstr where
  "t_st_recheck = [0x590D, 0x68C0]"

definition t_st_normal :: jsstr where
  "t_st_normal = [0x5E38, 0x89C4, 0x626B, 0x63CF]"

definition t_st_enabled :: jsstr where
  "t_st_enabled = [0x5DF2, 0x542F, 0x7528]"

definition t_st_disabled :: jsstr where
  "t_st_disabled = [0x5DF2, 0x505C, 0x7528]"

definition t_search :: jsstr where
  "t_search = [0x641C, 0x7D22, 0x2026]"

definition t_no_option :: jsstr where
  "t_no_option = [0x6CA1, 0x6709, 0x5339, 0x914D, 0x9009, 0x9879]"

definition t_total_of :: jsstr where
  "t_total_of = [0x5171, 0x20]"

definition t_rows_of :: jsstr where
  "t_rows_of = [0x20, 0x6761]"

definition t_showing :: jsstr where
  "t_showing = [0xFF0C, 0x5F53, 0x524D, 0x20]"

definition t_en_dash :: jsstr where
  "t_en_dash = [0x2013]"

definition t_prev_page :: jsstr where
  "t_prev_page = [0x4E0A, 0x4E00, 0x9875]"

definition t_next_page :: jsstr where
  "t_next_page = [0x4E0B, 0x4E00, 0x9875]"

definition t_asc :: jsstr where
  "t_asc = [0x5347, 0x5E8F]"

definition t_desc :: jsstr where
  "t_desc = [0x964D, 0x5E8F]"

definition t_hide_column :: jsstr where
  "t_hide_column = [0x9690, 0x85CF, 0x5217]"

definition t_reset_filters :: jsstr where
  "t_reset_filters = [0x91CD, 0x7F6E, 0x7B5B, 0x9009]"

definition t_reset :: jsstr where
  "t_reset = [0x91CD, 0x7F6E]"

definition t_show_columns :: jsstr where
  "t_show_columns = [0x663E, 0x793A, 0x5217]"

definition t_toggle_columns :: jsstr where
  "t_toggle_columns = [0x5207, 0x6362, 0x5217, 0x663E, 0x793A]"


subsection \<open>States of a page\<close>

definition EmptyState :: "jsstr \<Rightarrow> jsstr \<Rightarrow> 'e node option \<Rightarrow> 'e node" where
  "EmptyState title description action = el ''EmptyState''
     [el ''h3'' [Txt title], el ''p'' [Txt description], (case action of None \<Rightarrow> Null | Some a \<Rightarrow> a)]"

text \<open>The message of a value that was thrown: an \<open>Error\<close> has one.\<close>

fun error_message :: "js_error \<Rightarrow> jsstr" where
  "error_message (ApiError m _ _) = m"
| "error_message (OtherError m) = m"
| "error_message URIError = lit ''URI malformed''"
| "error_message RangeError = lit ''Invalid time value''"
| "error_message TypeError = lit ''Failed to fetch''"
| "error_message SyntaxError = lit ''Unexpected end of JSON input''"

text \<open>None stands for a thrown value that is no \<open>Error\<close>.\<close>

definition ErrorState :: "jsstr option \<Rightarrow> js_error option \<Rightarrow> 'e option \<Rightarrow> 'e node" where
  "ErrorState title error onRetry =
     (let message = (case error of Some e \<Rightarrow> error_message e | None \<Rightarrow> t_unknown_error) in
      el ''Alert'' [el ''AlertTitle'' [Txt (nullish title t_load_failed)],
        el ''AlertDescription'' [el ''span'' [Txt message],
          (case onRetry of None \<Rightarrow> Null | Some r \<Rightarrow> button False r [Txt t_retry])]])"

definition LiveRelativeTime :: "intl \<Rightarrow> clock \<Rightarrow> jsstr option \<Rightarrow> 'e node" where
  "LiveRelativeTime I c value = text_or_throw (formatRelativeTime I value (getServerNowSnapshot c))"

definition MetricCard :: "jsstr \<Rightarrow> 'e node \<Rightarrow> jsstr \<Rightarrow> 'e node \<Rightarrow> 'e node" where
  "MetricCard title value description trend = el ''Card''
     [el ''CardHeader'' [el ''CardTitle'' [Txt title]],
      el ''CardContent'' [el ''metric-value'' [value],
        el ''CardDescription'' [trend, el ''span'' [Txt description]]]]"

definition PageHeader :: "jsstr option \<Rightarrow> jsstr \<Rightarrow> jsstr \<Rightarrow> 'e node option \<Rightarrow> 'e node" where
  "PageHeader eyebrow title description actions = el ''header''
     [(if truthy eyebrow then el ''p'' [Txt (opt_str eyebrow)] else Null),
      el ''h1'' [Txt title], el ''p'' [Txt description],
      (case actions of None \<Rightarrow> Null | Some a \<Rightarrow> el ''div'' [a])]"

definition PageSkeleton :: "nat option \<Rightarrow> 'e node" where
  "PageSkeleton rows = El ''div'' [Attr ''aria-label'' t_loading]
     [el ''div'' [el ''Skeleton'' [], el ''Skeleton'' []],
      el ''grid'' (replicate 4 (el ''Skeleton'' [])),
      el ''div'' [el ''Skeleton'' [], el ''div'' (replicate (nullish rows 6) (el ''Skeleton'' []))]]"

definition PermissionGate :: "bool \<Rightarrow> 'e node \<Rightarrow> 'e node \<Rightarrow> 'e node" where
  "PermissionGate allowed children fallback = (if allowed then children else fallback)"

definition SearchInput :: "jsstr \<Rightarrow> jsstr \<Rightarrow> (jsstr \<Rightarrow> 'e) \<Rightarrow> 'e node" where
  "SearchInput value placeholder onChange = el ''InputGroup''
     [El ''InputGroupInput'' [Attr ''value'' value, Attr ''placeholder'' placeholder, OnStr ''change'' onChange] []]"

subsection \<open>Status badges\<close>

definition status_labels :: "(jsstr \<times> jsstr) list" where
  "status_labels =
     [(lit ''completed'', t_st_completed), (lit ''running'', t_st_running), (lit ''pending'', t_st_pending),
      (lit ''online'', t_st_online), (lit ''offline'', t_st_offline), (lit ''ok'', t_st_ok),
      (lit ''error'', t_st_error), (lit ''never'', t_st_never), (lit ''failed'', t_st_failed),
      (lit ''skipped'', t_st_skipped), (lit ''stopped'', t_st_stopped), (lit ''scheduled'', t_st_scheduled),
      (lit ''blacklist_recheck'', t_st_recheck), (lit ''normal'', t_st_normal),
      (lit ''enabled'', t_st_enabled), (lit ''disabled'', t_st_disabled)]"

datatype dot = Emerald | Amber | Destructive | Muted

definition status_dot :: "jsstr \<Rightarrow> dot" where
  "status_dot key =
     (if key \<in> {lit ''online'', lit ''ok'', lit ''completed'', lit ''enabled''} then Emerald
      else if key \<in> {lit ''running'', lit ''pending'', lit ''skipped''} then Amber
      else if key \<in> {lit ''error'', lit ''offline'', lit ''failed'', lit ''stopped'', lit ''disabled''} then Destructive
      else Muted)"

text \<open>The labels are a plain object, so the two lower-case names it inherits do not give a string:
  a function renders as nothing, an object makes React throw.\<close>

definition status_text :: "jsstr \<Rightarrow> 'e node" where
  "status_text status =
     (let key = ascii_lower status in
      if key = lit ''constructor'' then Null
      else if key = lit ''__proto__'' then Throw (OtherError (lit ''Objects are not valid as a React child''))
      else Txt (nullish (map_of status_labels key) status))"

fun dot_name :: "dot \<Rightarrow> jsstr" where
  "dot_name Emerald = lit ''bg-emerald-500''"
| "dot_name Amber = lit ''bg-amber-500''"
| "dot_name Destructive = lit ''bg-destructive''"
| "dot_name Muted = lit ''bg-muted-foreground''"

definition StatusBadge :: "jsstr \<Rightarrow> 'e node" where
  "StatusBadge status = el ''Badge''
     [El ''span'' [Attr ''class'' (dot_name (status_dot (ascii_lower status)))] [], status_text status]"

text \<open>Every status with a label that is a state (and not a kind of job) has its colour.\<close>

lemma status_dot_known:
  "status_dot (lit ''online'') = Emerald" "status_dot (lit ''pending'') = Amber" "status_dot (lit ''failed'') = Destructive"
  "status_dot (lit ''never'') = Muted"
  by (simp_all add: status_dot_def)

definition enabled_status :: "bool \<Rightarrow> jsstr" where
  "enabled_status b = (if b then lit ''enabled'' else lit ''disabled'')"

lemma acts_StatusBadge [simp]: "acts P (StatusBadge t)"
  by (simp add: StatusBadge_def status_text_def Let_def)

lemma acts_LiveRelativeTime [simp]: "acts P (LiveRelativeTime I c v)"
  by (simp add: LiveRelativeTime_def)

subsection \<open>Queries and forms\<close>

text \<open>What a page sees of a query: an error, data, or neither yet. A query with an error may still
  have older data; the pages test the error first.\<close>

datatype 'a query_state = QPending | QError js_error | QData 'a

definition field_message :: "field_errors \<Rightarrow> string \<Rightarrow> 'e node" where
  "field_message errors name =
     (case map_of errors name of None \<Rightarrow> Null
      | Some m \<Rightarrow> el ''FormMessage'' [Txt (nullish m (lit ''Invalid input''))])"

lemma acts_field_message [simp]: "acts P (field_message es n)"
  by (simp add: field_message_def split: option.splits)

definition text_field :: "string \<Rightarrow> jsstr \<Rightarrow> jsstr \<Rightarrow> (jsstr \<Rightarrow> 'e) \<Rightarrow> field_errors \<Rightarrow> 'e node" where
  "text_field name label value onChange errors = el ''FormItem''
     [el ''FormLabel'' [Txt label],
      El ''Input'' [Attr ''name'' (lit name), Attr ''value'' value, OnStr ''change'' onChange] [],
      field_message errors name]"

lemma acts_text_field [simp]: "acts P (text_field n l v f es) \<longleftrightarrow> (\<forall>s. P (f s))"
  by (simp add: text_field_def)

subsection \<open>Searchable combobox\<close>

record combo_option =
  so_value :: jsstr
  so_label :: jsstr
  so_searchText :: "jsstr option"
  so_countLabel :: "jsstr option"
  so_disabled :: bool

definition combo :: "jsstr \<Rightarrow> jsstr \<Rightarrow> combo_option" where
  "combo v l = \<lparr>so_value = v, so_label = l, so_searchText = None, so_countLabel = None, so_disabled = False\<rparr>"

definition combo_items :: "combo_option option \<Rightarrow> combo_option list \<Rightarrow> combo_option list" where
  "combo_items allOption options = (case allOption of None \<Rightarrow> options | Some a \<Rightarrow> a # options)"

definition combo_selected :: "jsstr \<Rightarrow> combo_option list \<Rightarrow> combo_option option" where
  "combo_selected value items = find (\<lambda>i. so_value i = value) items"

definition combo_string :: "combo_option \<Rightarrow> jsstr" where
  "combo_string i = js_join (lit '' '') (filter (\<lambda>s. s \<noteq> []) [so_label i, opt_str (so_searchText i)])"

text \<open>Selecting an item passes its value, clearing the selection the empty string.\<close>

definition SearchableCombobox ::
  "jsstr \<Rightarrow> combo_option list \<Rightarrow> (jsstr \<Rightarrow> 'e) \<Rightarrow> jsstr \<Rightarrow> jsstr option \<Rightarrow> jsstr option \<Rightarrow> combo_option option
    \<Rightarrow> bool \<Rightarrow> 'e node" where
  "SearchableCombobox value options onValueChange placeholder searchPlaceholder emptyText allOption disabled =
     (let items = combo_items allOption options; selected = combo_selected value items in
      El ''Combobox'' [Flag ''disabled'' disabled, On ''clear'' (onValueChange [])]
        [El ''ComboboxTrigger'' [Flag ''disabled'' disabled]
           [el ''span'' [Txt (case selected of None \<Rightarrow> placeholder | Some i \<Rightarrow> so_label i)]],
         el ''ComboboxContent''
           [El ''ComboboxInput'' [Attr ''placeholder'' (nullish searchPlaceholder t_search)] [],
            el ''ComboboxEmpty'' [Txt (nullish emptyText t_no_option)],
            el ''ComboboxList'' (map (\<lambda>item.
              El ''ComboboxItem'' [Attr ''key'' (combo_string item), Flag ''disabled'' (disabled \<or> so_disabled item),
                  On ''select'' (onValueChange (so_value item))]
                [el ''span'' [Txt (so_label item)],
                 show_if (truthy (so_countLabel item)) (el ''span'' [Txt (opt_str (so_countLabel item))])]) items)]])"

lemma combo_selected_value: "combo_selected v items = Some i \<Longrightarrow> so_value i = v \<and> i \<in> set items"
  by (auto simp: combo_selected_def find_Some_iff)

lemma combo_selected_iff: "combo_selected v items \<noteq> None \<longleftrightarrow> v \<in> so_value ` set items"
  by (force simp: combo_selected_def find_None_iff)

lemma acts_combobox:
  "(\<And>v. P (f v)) \<Longrightarrow> acts P (SearchableCombobox v os f p sp et ao d)"
  by (simp add: SearchableCombobox_def Let_def list_all_iff)

subsection \<open>Data table\<close>

text \<open>A column: its identifier, header and cell; sorting and visibility belong to the table
  library.\<close>

record ('r, 'e) column =
  col_id :: string
  col_label :: jsstr
  col_sortable :: bool
  col_hideable :: bool
  col_cell :: "'r \<Rightarrow> 'e node"

type_synonym sorting = "(string \<times> bool) list"

datatype 'a updater = Value 'a | Update "'a \<Rightarrow> 'a"

fun apply_updater :: "'a updater \<Rightarrow> 'a \<Rightarrow> 'a" where
  "apply_updater (Value x) _ = x"
| "apply_updater (Update f) x = f x"

record server_pagination =
  sp_pageIndex :: int
  sp_pageSize :: int
  sp_pageCount :: int
  sp_total :: int

text \<open>Sorting goes to the server when the page sorts there, and to the table's own state
  otherwise: the result is what is reported and the new local state.\<close>

definition updateSorting :: "sorting option \<Rightarrow> sorting \<Rightarrow> sorting updater \<Rightarrow> sorting option \<times> sorting" where
  "updateSorting serverSorting localSorting updater =
     (let next' = apply_updater updater (nullish serverSorting localSorting)
      in case serverSorting of Some _ \<Rightarrow> (Some next', localSorting) | None \<Rightarrow> (None, next'))"

definition updatePagination ::
  "server_pagination option \<Rightarrow> (int \<times> int) updater \<Rightarrow> (int \<times> int) option" where
  "updatePagination serverPagination updater =
     (case serverPagination of None \<Rightarrow> None
      | Some p \<Rightarrow> Some (apply_updater updater (sp_pageIndex p, sp_pageSize p)))"

text \<open>What the table library computes for the current state: the rows of the page, the page, and
  the size of the filtered row model.\<close>

record 'r table_view =
  tv_rows :: "'r list"
  tv_pageIndex :: int
  tv_pageSize :: int
  tv_pageCount :: int
  tv_filtered :: int
  tv_canPrevious :: bool
  tv_canNext :: bool

datatype 'e dt_action = Item 'e | SetPageSize int | PreviousPage | NextPage

definition range_from :: "server_pagination \<Rightarrow> int" where
  "range_from p = sp_pageIndex p * sp_pageSize p + 1"

definition range_to :: "server_pagination \<Rightarrow> int" where
  "range_to p = min ((sp_pageIndex p + 1) * sp_pageSize p) (sp_total p)"

definition count_text :: "int \<Rightarrow> jsstr" where
  "count_text n = formatNumber (Some n)"

definition pagination_text :: "server_pagination option \<Rightarrow> int \<Rightarrow> jsstr" where
  "pagination_text sp filtered =
     (case sp of
        Some p \<Rightarrow> t_total_of @ count_text (sp_total p) @ t_rows_of
          @ (if sp_total p \<noteq> 0
             then t_showing @ count_text (range_from p) @ t_en_dash @ count_text (range_to p) @ t_rows_of
             else [])
      | None \<Rightarrow> t_total_of @ count_text filtered @ t_rows_of)"

definition DataTable ::
  "('r, 'e) column list \<Rightarrow> 'r table_view \<Rightarrow> nat \<Rightarrow> jsstr \<Rightarrow> jsstr \<Rightarrow> 'e node option \<Rightarrow> ('r \<Rightarrow> 'e node) option
    \<Rightarrow> nat \<Rightarrow> server_pagination option \<Rightarrow> 'e dt_action node" where
  "DataTable columns tv data_length emptyTitle emptyDescription toolbar renderMobileItem initialPageSize sp =
     (let rows = tv_rows tv;
          sizes = (if sp \<noteq> None then [50, 100, 200] else [10, 20, 50, 100])
      in Frag
       [(case toolbar of None \<Rightarrow> Null | Some t \<Rightarrow> map_node Item t),
        (case renderMobileItem of None \<Rightarrow> Null
         | Some render \<Rightarrow> el ''mobile''
             (if rows \<noteq> [] then map (\<lambda>r. map_node Item (render r)) rows
              else [EmptyState emptyTitle emptyDescription None])),
        el ''Table''
          [el ''TableHeader'' [el ''TableRow'' (map (\<lambda>c. el ''TableHead'' [Txt (col_label c)]) columns)],
           el ''TableBody''
             (if rows \<noteq> [] then map (\<lambda>r. el ''TableRow''
                (map (\<lambda>c. el ''TableCell'' [map_node Item (col_cell c r)]) columns)) rows
              else [el ''TableRow'' [el ''TableCell'' [EmptyState emptyTitle emptyDescription None]]])],
        show_if (sp \<noteq> None \<or> initialPageSize < data_length) (el ''footer''
          [el ''p'' [Txt (pagination_text sp (tv_filtered tv))],
           El ''Select'' [Attr ''value'' (show_int (tv_pageSize tv))]
             (map (\<lambda>size. El ''SelectItem'' [On ''select'' (SetPageSize size)] [Txt (show_int size @ t_rows_of)]) sizes),
           el ''span'' [Txt (show_int (tv_pageIndex tv + 1) @ lit '' / '' @ show_int (max (tv_pageCount tv) 1))],
           button (\<not> tv_canPrevious tv) PreviousPage [Txt t_prev_page],
           button (\<not> tv_canNext tv) NextPage [Txt t_next_page]])])"

text \<open>A table adds no action but paging: its actions are those of its cells, cards and toolbar.\<close>

lemma acts_DataTable:
  assumes "\<And>c r. c \<in> set columns \<Longrightarrow> r \<in> set (tv_rows tv) \<Longrightarrow> acts P (col_cell c r)"
    and "\<And>t. toolbar = Some t \<Longrightarrow> acts P t"
    and "\<And>f r. mobile = Some f \<Longrightarrow> r \<in> set (tv_rows tv) \<Longrightarrow> acts P (f r)"
  shows "acts (\<lambda>a. case a of Item e \<Rightarrow> P e | _ \<Rightarrow> True)
    (DataTable columns tv n et ed toolbar mobile ps sp)"
  using assms by (auto simp: DataTable_def Let_def list_all_iff EmptyState_def o_def split: option.splits)

text \<open>The controls of the table's toolbar.\<close>

datatype header_action = SortAsc | SortDesc | HideColumn

definition DataTableColumnHeader :: "('r, 'x) column \<Rightarrow> jsstr \<Rightarrow> jsstr option \<Rightarrow> header_action node" where
  "DataTableColumnHeader column title direction =
     (if \<not> col_sortable column then el ''div'' [Txt title]
      else el ''DropdownMenu''
        [El ''DropdownMenuTrigger'' [Attr ''icon'' (if direction = Some (lit ''desc'') then lit ''ArrowDown''
             else if direction = Some (lit ''asc'') then lit ''ArrowUp'' else lit ''ChevronsUpDown'')] [el ''span'' [Txt title]],
         El ''DropdownMenuItem'' [On ''click'' SortAsc] [Txt t_asc],
         El ''DropdownMenuItem'' [On ''click'' SortDesc] [Txt t_desc],
         show_if (col_hideable column) (El ''DropdownMenuItem'' [On ''click'' HideColumn] [Txt t_hide_column])])"

definition DataTableResetButton :: "bool \<Rightarrow> 'e \<Rightarrow> 'e node" where
  "DataTableResetButton disabled onClick =
     El ''Button'' [Attr ''aria-label'' t_reset_filters, Flag ''disabled'' disabled, On ''click'' onClick] [Txt t_reset]"

text \<open>Only columns with an accessor that may be hidden are listed.\<close>

definition DataTableViewOptions ::
  "(('r, 'x) column \<Rightarrow> bool) \<Rightarrow> ('r, 'x) column list \<Rightarrow> (string \<Rightarrow> bool) \<Rightarrow> (string \<Rightarrow> bool \<Rightarrow> 'e) \<Rightarrow> 'e node" where
  "DataTableViewOptions has_accessor columns visible toggle = el ''DropdownMenu''
     [el ''DropdownMenuTrigger'' [Txt t_show_columns],
      el ''DropdownMenuLabel'' [Txt t_toggle_columns],
      el ''items'' (map (\<lambda>c. El ''DropdownMenuCheckboxItem''
          [Flag ''checked'' (visible (col_id c)), OnBool ''checkedChange'' (toggle (col_id c))] [Txt (col_label c)])
        (filter (\<lambda>c. has_accessor c \<and> col_hideable c) columns))]"

text \<open>With server pagination on a page that exists (0 <= index and index * size < total) the table's footer shows the rows from .. to with 1 <= from <= to <= total, and to - from + 1 is the number of rows of that page, a full page or the rest; with no rows at all it shows no range.\<close>

theorem table_range_shown:
  assumes "0 < sp_pageSize p" "0 \<le> sp_pageIndex p" "sp_pageIndex p * sp_pageSize p < sp_total p"
  shows "pagination_text (Some p) n = t_total_of @ count_text (sp_total p) @ t_rows_of
      @ t_showing @ count_text (range_from p) @ t_en_dash @ count_text (range_to p) @ t_rows_of
    \<and> 1 \<le> range_from p \<and> range_from p \<le> range_to p \<and> range_to p \<le> sp_total p
    \<and> range_to p - range_from p + 1 = min (sp_pageSize p) (sp_total p - sp_pageIndex p * sp_pageSize p)"
proof -
  have "0 \<le> sp_pageIndex p * sp_pageSize p" using assms by simp
  moreover have "(sp_pageIndex p + 1) * sp_pageSize p = sp_pageIndex p * sp_pageSize p + sp_pageSize p"
    by (simp add: algebra_simps)
  moreover from calculation(1) have "sp_total p \<noteq> 0" using assms(3) by linarith
  ultimately show ?thesis using assms
    by (simp add: pagination_text_def range_from_def range_to_def min_def)
qed

theorem table_range_shown_witness:
  "let p = \<lparr>sp_pageIndex = 2, sp_pageSize = 50, sp_pageCount = 3, sp_total = 120\<rparr>
   in range_from p = 101 \<and> range_to p = 120 \<and> range_to p - range_from p + 1 = min 50 20"
  using table_range_shown [of "\<lparr>sp_pageIndex = 2, sp_pageSize = 50, sp_pageCount = 3, sp_total = 120\<rparr>" 0]
  by (simp add: range_from_def range_to_def)

end
