(* ===== verification/Auth.thy ===== *)
theory Auth
  imports Query_Cache Shared
begin

text \<open>
  The session (\<open>features/auth\<close>): the provider that keeps the current user in the query cache, the
  guards of the routes, and the login form; and the route table of \<open>routes/app-router.tsx\<close>.
\<close>

subsection \<open>Literals\<close>

definition t_login_failed :: jsstr where
  "t_login_failed = [0x767B, 0x5F55, 0x5931, 0x8D25, 0xFF0C, 0x8BF7, 0x7A0D, 0x540E, 0x91CD, 0x8BD5]"

definition t_hl_scan :: jsstr where
  "t_hl_scan = [0x591A, 0x533A, 0x57DF, 0x5B9E, 0x65F6, 0x626B, 0x63CF, 0x4E0E, 0x7ED3, 0x679C, 0x6392,
     0x884C]"

definition t_hl_colo :: jsstr where
  "t_hl_colo = [0x43, 0x6C, 0x6F, 0x75, 0x64, 0x66, 0x6C, 0x61, 0x72, 0x65, 0x20, 0x63, 0x6F, 0x6C, 0x6F,
     0x20, 0x5730, 0x7406, 0x5206, 0x6790]"

definition t_hl_roles :: jsstr where
  "t_hl_roles = [0x7BA1, 0x7406, 0x5458, 0x4E0E, 0x67E5, 0x770B, 0x8005, 0x6743, 0x9650, 0x9694, 0x79BB]"

definition t_hero :: jsstr where
  "t_hero = [0x4ECE, 0x591A, 0x5730, 0x533A, 0x5B9E, 0x6D4B, 0x6570, 0x636E, 0x4E2D, 0xFF0C, 0x6301,
     0x7EED, 0x627E, 0x5230, 0x66F4, 0x4F18, 0x7684, 0x20, 0x43, 0x6C, 0x6F, 0x75, 0x64, 0x66,
     0x6C, 0x61, 0x72, 0x65, 0x20, 0x49, 0x50, 0x3002]"

definition t_hero_sub :: jsstr where
  "t_hero_sub = [0x96C6, 0x4E2D, 0x7BA1, 0x7406, 0x626B, 0x63CF, 0x4EFB, 0x52A1, 0x3001, 0x41, 0x67, 0x65,
     0x6E, 0x74, 0x3001, 0x5730, 0x5740, 0x6765, 0x6E90, 0x3001, 0x81EA, 0x52A8, 0x5316,
     0x7B56, 0x7565, 0x4E0E, 0x8D26, 0x53F7, 0x6743, 0x9650, 0x3002]"

definition t_login_title :: jsstr where
  "t_login_title = [0x767B, 0x5F55, 0x7BA1, 0x7406, 0x5E73, 0x53F0]"

definition t_login_sub :: jsstr where
  "t_login_sub = [0x4F7F, 0x7528, 0x7BA1, 0x7406, 0x5458, 0x5206, 0x914D, 0x7684, 0x8D26, 0x53F7, 0x7EE7,
     0x7EED, 0x8BBF, 0x95EE, 0x3002]"

definition t_username_label :: jsstr where
  "t_username_label = [0x7528, 0x6237, 0x540D]"

definition t_password_label :: jsstr where
  "t_password_label = [0x5BC6, 0x7801]"

definition t_hide_pw :: jsstr where
  "t_hide_pw = [0x9690, 0x85CF, 0x5BC6, 0x7801]"

definition t_show_pw :: jsstr where
  "t_show_pw = [0x663E, 0x793A, 0x5BC6, 0x7801]"

definition t_login_button :: jsstr where
  "t_login_button = [0x767B, 0x5F55]"

definition t_login_note :: jsstr where
  "t_login_note = [0x8D26, 0x53F7, 0x7531, 0x7BA1, 0x7406, 0x5458, 0x7EDF, 0x4E00, 0x521B, 0x5EFA, 0x548C,
     0x6388, 0x6743, 0x3002]"


subsection \<open>The provider\<close>

definition authQueryKey :: qkey where
  "authQueryKey = [KS ''auth'', KS ''me'']"

definition currentUserQuery :: query_options where
  "currentUserQuery = (query authQueryKey getCurrentUser None)\<lparr>qo_stale := Some 60000\<rparr>"

text \<open>The provider's state: the cache, whether the user query has failed without data, and the
  pending mutations.\<close>

record auth_state =
  au_cache :: qcache
  au_failed :: bool
  au_loginPending :: bool
  au_logoutPending :: bool

record AuthContextValue =
  ac_user :: "User option"
  ac_isLoading :: bool
  ac_isAuthenticated :: bool
  ac_canManage :: bool
  ac_loginPending :: bool
  ac_logoutPending :: bool

fun cached_user :: "cached option \<Rightarrow> User option" where
  "cached_user (Some (CUser u)) = Some u"
| "cached_user _ = None"

text \<open>A query is pending while it has neither data nor an error.\<close>

definition auth_value :: "auth_state \<Rightarrow> AuthContextValue" where
  "auth_value s =
     (let data = getQueryData (au_cache s) authQueryKey; user = cached_user data in
      \<lparr>ac_user = user, ac_isLoading = (data = None \<and> \<not> au_failed s), ac_isAuthenticated = (user \<noteq> None),
       ac_canManage = (case user of None \<Rightarrow> False | Some u \<Rightarrow> usr_role u = Admin),
       ac_loginPending = au_loginPending s, ac_logoutPending = au_logoutPending s\<rparr>)"

text \<open>The context outside of the provider is null.\<close>

definition useAuth :: "AuthContextValue option \<Rightarrow> js_error + AuthContextValue" where
  "useAuth context =
     (case context of None \<Rightarrow> Inl (OtherError (lit ''useAuth must be used inside AuthProvider''))
      | Some value \<Rightarrow> Inr value)"

definition not_auth_key :: "qkey \<Rightarrow> bool" where
  "not_auth_key k \<longleftrightarrow> \<not> (k \<noteq> [] \<and> hd k = KS ''auth'')"

definition handleUnauthorized :: "auth_state \<Rightarrow> auth_state" where
  "handleUnauthorized s =
     s\<lparr>au_cache := removeQueries not_auth_key (setQueryData authQueryKey CNull (au_cache s))\<rparr>"

definition logout_settled :: "auth_state \<Rightarrow> auth_state" where
  "logout_settled s =
     s\<lparr>au_cache := removeQueries not_auth_key (setQueryData authQueryKey CNull (au_cache s)),
       au_logoutPending := False\<rparr>"

definition login_success :: "User \<Rightarrow> auth_state \<Rightarrow> auth_state" where
  "login_success user s = s\<lparr>au_cache := setQueryData authQueryKey (CUser user) (au_cache s), au_loginPending := False\<rparr>"

text \<open>Everything that happens to the provider: its own mutations, the answers of the user query,
  the session-expired event, and the pages' queries, which never use its key.\<close>

datatype auth_event =
    MeAnswered User | MeFailed | LoginStarted | LoginSucceeded User | LoginFailed
  | LogoutStarted | LogoutSettled | Unauthorized | PageData qkey json

definition page_key :: "qkey \<Rightarrow> bool" where
  "page_key k \<longleftrightarrow> not_auth_key k"

fun auth_step :: "auth_event \<Rightarrow> auth_state \<Rightarrow> auth_state" where
  "auth_step (MeAnswered u) s = s\<lparr>au_cache := setQueryData authQueryKey (CUser u) (au_cache s), au_failed := False\<rparr>"
| "auth_step MeFailed s = s\<lparr>au_failed := True\<rparr>"
| "auth_step LoginStarted s = s\<lparr>au_loginPending := True\<rparr>"
| "auth_step (LoginSucceeded u) s = login_success u s"
| "auth_step LoginFailed s = s\<lparr>au_loginPending := False\<rparr>"
| "auth_step LogoutStarted s = s\<lparr>au_logoutPending := True\<rparr>"
| "auth_step LogoutSettled s = logout_settled s"
| "auth_step Unauthorized s = handleUnauthorized s"
| "auth_step (PageData k d) s =
     (if page_key k then s\<lparr>au_cache := setQueryData k (CData d) (au_cache s)\<rparr> else s)"

definition auth_init :: auth_state where
  "auth_init = \<lparr>au_cache = [], au_failed = False, au_loginPending = False, au_logoutPending = False\<rparr>"

definition auth_run :: "auth_event list \<Rightarrow> auth_state" where
  "auth_run es = fold auth_step es auth_init"

subsection \<open>The end of a session\<close>

interpretation session: session_cache getQueryData setQueryData removeQueries authQueryKey "KS ''auth''" CNull
  by unfold_locales (simp add: authQueryKey_def)

lemma session_other: "session.other = not_auth_key"
  by (rule ext) (simp add: session.other_def not_auth_key_def)

lemma ended_cache:
  "removeQueries not_auth_key (setQueryData authQueryKey CNull c) = session.end_session c"
  by (simp add: session.end_session_def session_other)

lemma auth_key_reserved [simp]: "\<not> not_auth_key authQueryKey"
  by (simp add: not_auth_key_def authQueryKey_def)

lemma session_end_clears_aux:
  "ac_user (auth_value (handleUnauthorized s)) = None" "\<not> ac_isLoading (auth_value (handleUnauthorized s))"
  "\<not> ac_canManage (auth_value (handleUnauthorized s))"
  by (simp_all add: handleUnauthorized_def ended_cache auth_value_def Let_def session.end_session_data)

text \<open>Ending the session, by logging out (whether the request succeeded or not) or by a 401 anywhere, always leaves no user, not even a loading state, so every guard sends the visitor to the login, and no data of any page query is left in the cache to be shown to the next user.\<close>

theorem session_end_clears:
  "ac_user (auth_value (handleUnauthorized s)) = None \<and> \<not> ac_isLoading (auth_value (handleUnauthorized s))
   \<and> \<not> ac_canManage (auth_value (handleUnauthorized s))
   \<and> (\<forall>k. getQueryData (au_cache (handleUnauthorized s)) k =
        (if k = authQueryKey then Some CNull else if not_auth_key k then None else getQueryData (au_cache s) k))
   \<and> au_cache (logout_settled s) = au_cache (handleUnauthorized s)
   \<and> auth_value (logout_settled s) = (auth_value (handleUnauthorized s))\<lparr>ac_logoutPending := False\<rparr>"
  by (simp add: handleUnauthorized_def logout_settled_def ended_cache auth_value_def Let_def
      session.end_session_data session_other)

text \<open>The page data a user can see was loaded in the same session.\<close>

definition ends_session :: "auth_event \<Rightarrow> bool" where
  "ends_session e \<longleftrightarrow> e = LogoutSettled \<or> e = Unauthorized"

lemma auth_step_data:
  assumes "getQueryData (au_cache (auth_step e s)) k = Some (CData d)"
  shows "e = PageData k d \<or> (getQueryData (au_cache s) k = Some (CData d) \<and> (ends_session e \<longrightarrow> \<not> not_auth_key k))"
  using assms
  by (cases e) (auto simp: login_success_def logout_settled_def handleUnauthorized_def ended_cache
      session.end_session_data session_other client.get_set ends_session_def split: if_splits)

lemma auth_data_page_key:
  "getQueryData (au_cache (fold auth_step es s)) k = Some (CData d) \<Longrightarrow>
   (\<forall>k d. getQueryData (au_cache s) k = Some (CData d) \<longrightarrow> not_auth_key k) \<Longrightarrow> not_auth_key k"
proof (induction es arbitrary: s)
  case (Cons e es)
  have "\<forall>k d. getQueryData (au_cache (auth_step e s)) k = Some (CData d) \<longrightarrow> not_auth_key k"
  proof (intro allI impI)
    fix k d assume a: "getQueryData (au_cache (auth_step e s)) k = Some (CData d)"
    then show "not_auth_key k"
      using auth_step_data [OF a] Cons.prems(2)
      by (cases e) (auto simp: page_key_def split: if_splits)
  qed
  with Cons show ?case by simp
qed auto

lemma auth_run_since:
  assumes "getQueryData (au_cache (fold auth_step es s)) k = Some (CData d)"
    and "\<forall>k d. getQueryData (au_cache s) k \<noteq> Some (CData d)"
  shows "\<exists>xs ys. es = xs @ PageData k d # ys \<and> list_all (\<lambda>e. \<not> ends_session e) ys"
  using assms(1)
proof (induction es rule: rev_induct)
  case (snoc e es)
  let ?s = "fold auth_step es s"
  have a: "getQueryData (au_cache (auth_step e ?s)) k = Some (CData d)" using snoc.prems by simp
  have nk: "not_auth_key k"
    using auth_data_page_key [OF snoc.prems] assms(2) by blast
  consider "e = PageData k d" | "getQueryData (au_cache ?s) k = Some (CData d)" "\<not> ends_session e"
    using auth_step_data [OF a] nk by blast
  then show ?case
  proof cases
    case 1 then show ?thesis by fastforce
  next
    case 2
    with snoc.IH obtain xs ys where "es = xs @ PageData k d # ys" "list_all (\<lambda>e. \<not> ends_session e) ys"
      and "\<not> ends_session e" by auto
    then show ?thesis by (intro exI [of _ xs] exI [of _ "ys @ [e]"]) simp
  qed
qed (use assms(2) in simp)

text \<open>C4. In every history of the provider, page data found in the cache was loaded after the last logout or expiry: nothing of an earlier session survives into a later one.\<close>

theorem no_data_leak:
  assumes "getQueryData (au_cache (auth_run es)) k = Some (CData d)"
  shows "\<exists>xs ys. es = xs @ PageData k d # ys \<and> list_all (\<lambda>e. e \<noteq> LogoutSettled \<and> e \<noteq> Unauthorized) ys"
proof -
  have "\<forall>k d. getQueryData (au_cache auth_init) k \<noteq> Some (CData d)"
    by (simp add: auth_init_def getQueryData_def)
  from auth_run_since [OF assms [unfolded auth_run_def] this] show ?thesis
    by (simp add: ends_session_def)
qed

definition sample_history :: "auth_event list" where
  "sample_history = [PageData [KS ''users''] JNull, Unauthorized, PageData [KS ''overview''] JNull]"

theorem no_data_leak_witness:
  "getQueryData (au_cache (auth_run sample_history)) [KS ''users''] = None
   \<and> (\<exists>xs ys. sample_history = xs @ PageData [KS ''overview''] JNull # ys
        \<and> list_all (\<lambda>e. e \<noteq> LogoutSettled \<and> e \<noteq> Unauthorized) ys)"
proof
  show "getQueryData (au_cache (auth_run sample_history)) [KS ''users''] = None"
    by (simp add: auth_run_def sample_history_def auth_init_def page_key_def not_auth_key_def handleUnauthorized_def
        client.get_set client.get_remove authQueryKey_def getQueryData_def [of "[]"])
  have "getQueryData (au_cache (auth_run sample_history)) [KS ''overview''] = Some (CData JNull)"
    by (simp add: auth_run_def sample_history_def auth_init_def page_key_def not_auth_key_def handleUnauthorized_def
        client.get_set)
  from no_data_leak [OF this] show "\<exists>xs ys. sample_history = xs @ PageData [KS ''overview''] JNull # ys
        \<and> list_all (\<lambda>e. e \<noteq> LogoutSettled \<and> e \<noteq> Unauthorized) ys" .
qed

subsection \<open>Guards and routes\<close>

text \<open>What the router shows for a location.\<close>

datatype page =
    LoginP | DashboardP | SourcesP | ScansP | ResultsP | LeagueP | IPTrendP jsstr jsstr | BlacklistP
  | AgentsP | SettingsP | UsersP | PairP jsstr | EnrollmentP jsstr

text \<open>A redirect carries the path to come back to, if it sets one.\<close>

datatype outcome = AuthLoading | Goto jsstr "jsstr option" | Show page

definition ProtectedRoute :: "AuthContextValue \<Rightarrow> jsstr \<Rightarrow> outcome \<Rightarrow> outcome" where
  "ProtectedRoute auth pathname outlet =
     (if ac_isLoading auth then AuthLoading
      else if ac_user auth = None then Goto (lit ''/login'') (Some pathname)
      else outlet)"

definition PublicOnlyRoute :: "AuthContextValue \<Rightarrow> outcome \<Rightarrow> outcome" where
  "PublicOnlyRoute auth outlet =
     (if ac_isLoading auth then AuthLoading
      else if ac_user auth \<noteq> None then Goto (lit ''/'') None
      else outlet)"

definition AdminRoute :: "AuthContextValue \<Rightarrow> outcome \<Rightarrow> outcome" where
  "AdminRoute auth outlet = (if \<not> ac_canManage auth then Goto (lit ''/'') None else outlet)"

text \<open>The segments of a path: a slash at the end does not count, static segments are compared
  without regard to case, parameters are nonempty.\<close>

definition path_segments :: "jsstr \<Rightarrow> jsstr list" where
  "path_segments p = filter (\<lambda>s. s \<noteq> []) (split_on 47 p)"

definition protected_routes :: "AuthContextValue \<Rightarrow> jsstr \<Rightarrow> outcome" where
  "protected_routes auth pathname =
     (let segs = path_segments pathname; low = map ascii_lower segs; n = length segs in
      if n = 3 \<and> take 2 low = [lit ''agents'', lit ''pair''] then Show (PairP (segs ! 2))
      else if n = 3 \<and> take 2 low = [lit ''agents'', lit ''enrollments''] then Show (EnrollmentP (segs ! 2))
      else if low = [] then Show DashboardP
      else if low = [lit ''sources''] then Show SourcesP
      else if low = [lit ''jobs''] then Show ScansP
      else if low = [lit ''results''] then Show ResultsP
      else if low = [lit ''league''] then Show LeagueP
      else if n = 4 \<and> take 2 low = [lit ''league'', lit ''ip''] then Show (IPTrendP (segs ! 2) (segs ! 3))
      else if low = [lit ''blacklist''] then Show BlacklistP
      else if low = [lit ''agents''] then Show AgentsP
      else if low = [lit ''settings''] then Show SettingsP
      else if low = [lit ''users''] then AdminRoute auth (Show UsersP)
      else Goto (lit ''/'') None)"

definition AppRouter :: "AuthContextValue \<Rightarrow> jsstr \<Rightarrow> outcome" where
  "AppRouter auth pathname =
     (if map ascii_lower (path_segments pathname) = [lit ''login''] then PublicOnlyRoute auth (Show LoginP)
      else ProtectedRoute auth pathname (protected_routes auth pathname))"

text \<open>Following the redirects of the router.\<close>

fun follow :: "nat \<Rightarrow> AuthContextValue \<Rightarrow> jsstr \<Rightarrow> outcome" where
  "follow 0 auth p = AppRouter auth p"
| "follow (Suc n) auth p = (case AppRouter auth p of Goto q _ \<Rightarrow> follow n auth q | out \<Rightarrow> out)"

lemmas guard_defs = ProtectedRoute_def PublicOnlyRoute_def AdminRoute_def

lemma path_root: "path_segments (lit ''/'') = []" "path_segments (lit ''/login'') = [lit ''login'']"
  "ascii_lower (lit ''login'') = lit ''login''"
  by (simp_all add: path_segments_def lit_def ascii_lower_def)

lemma router_root: "AppRouter auth (lit ''/'') = ProtectedRoute auth (lit ''/'') (Show DashboardP)"
  by (simp add: AppRouter_def protected_routes_def path_root)

lemma router_login: "AppRouter auth (lit ''/login'') = PublicOnlyRoute auth (Show LoginP)"
  by (simp add: AppRouter_def path_root)

text \<open>A protected route is a page other than the login, an administrator's page or the way home.\<close>

lemma protected_shape:
  "(\<exists>pg. protected_routes auth p = Show pg \<and> pg \<noteq> LoginP \<and> (pg = UsersP \<longrightarrow> ac_canManage auth))
   \<or> protected_routes auth p = Goto (lit ''/'') None"
  by (simp add: protected_routes_def Let_def AdminRoute_def)

lemma protected_cases:
  obtains pg where "protected_routes auth p = Show pg" "pg \<noteq> LoginP" "pg = UsersP \<Longrightarrow> ac_canManage auth"
  | "protected_routes auth p = Goto (lit ''/'') None"
  using protected_shape [of auth p] by blast

text \<open>The value the provider gives has a manager only with a user.\<close>

definition coherent :: "AuthContextValue \<Rightarrow> bool" where
  "coherent auth \<longleftrightarrow> (ac_canManage auth \<longleftrightarrow> (\<exists>u. ac_user auth = Some u \<and> usr_role u = Admin))
     \<and> (ac_isLoading auth \<longrightarrow> ac_user auth = None)"

lemma auth_value_coherent [simp]: "coherent (auth_value s)"
  by (auto simp: coherent_def auth_value_def Let_def split: option.splits)

text \<open>C32. The redirects of the router never loop: whatever the path and the session, at most two redirects lead to a page or to the loading screen; without a user the end is the login page, with one it is a page other than the login.\<close>

theorem redirects_terminate:
  "follow 2 (auth_value s) p =
     (if ac_isLoading (auth_value s) then AuthLoading
      else if ac_user (auth_value s) = None then Show LoginP
      else case AppRouter (auth_value s) p of Show pg \<Rightarrow> Show pg | _ \<Rightarrow> Show DashboardP)
   \<and> (ac_user (auth_value s) \<noteq> None \<longrightarrow> follow 2 (auth_value s) p \<noteq> Show LoginP)"
proof -
  have home: "follow 1 (auth_value s) (lit ''/'') = (if ac_isLoading (auth_value s) then AuthLoading
      else if ac_user (auth_value s) = None then Show LoginP else Show DashboardP)"
    by (simp add: guard_defs router_root router_login)
  show ?thesis
  proof (cases "map ascii_lower (path_segments p) = [lit ''login'']")
    case True
    then show ?thesis using home by (auto simp: numeral_2_eq_2 AppRouter_def PublicOnlyRoute_def)
  next
    case False
    then show ?thesis using home router_login [of "auth_value s"]
      by (rule_tac auth = "auth_value s" and p = p in protected_cases)
        (auto simp: numeral_2_eq_2 AppRouter_def ProtectedRoute_def PublicOnlyRoute_def)
  qed
qed

text \<open>C1. No route shows anything but the login and the loading screen to a visitor without a session, and the user administration is shown to administrators only, under any spelling of the path.\<close>

theorem pages_guarded:
  assumes "AppRouter (auth_value s) p = Show pg"
  shows "(pg \<noteq> LoginP \<longrightarrow> ac_user (auth_value s) \<noteq> None)
    \<and> (pg = UsersP \<longrightarrow> (\<exists>u. ac_user (auth_value s) = Some u \<and> usr_role u = Admin))
    \<and> (pg = LoginP \<longrightarrow> ac_user (auth_value s) = None)"
  using assms auth_value_coherent [of s]
  by (rule_tac auth = "auth_value s" and p = p in protected_cases)
    (auto simp: AppRouter_def guard_defs coherent_def split: if_splits)

definition sample_admin :: User where
  "sample_admin = \<lparr>usr_id = lit ''u1'', usr_username = lit ''admin'', usr_display_name = lit ''Admin'', usr_role = Admin,
     usr_enabled = True, usr_last_login_at = None, usr_created_at = [], usr_updated_at = []\<rparr>"

lemma admin_session: "ac_user (auth_value (login_success sample_admin auth_init)) = Some sample_admin"
  "ac_canManage (auth_value (login_success sample_admin auth_init))"
  "\<not> ac_isLoading (auth_value (login_success sample_admin auth_init))"
  by (simp_all add: auth_value_def login_success_def client.get_set Let_def sample_admin_def)

theorem pages_guarded_witness:
  "AppRouter (auth_value (login_success sample_admin auth_init)) (lit ''/Users/'') = Show UsersP
   \<and> (\<exists>u. ac_user (auth_value (login_success sample_admin auth_init)) = Some u \<and> usr_role u = Admin)"
proof -
  have p: "path_segments (lit ''/Users/'') = [lit ''Users'']" "ascii_lower (lit ''Users'') = lit ''users''"
    by (simp_all add: path_segments_def lit_def ascii_lower_def)
  have a: "AppRouter (auth_value (login_success sample_admin auth_init)) (lit ''/Users/'') = Show UsersP"
    by (simp add: AppRouter_def protected_routes_def p guard_defs admin_session Let_def)
  from pages_guarded [OF a] a show ?thesis by simp
qed

theorem redirects_terminate_witness:
  "follow 2 (auth_value (login_success sample_admin auth_init)) (lit ''/login'') \<noteq> Show LoginP"
  by (rule mp [OF conjunct2 [OF redirects_terminate]]) (simp add: admin_session(1))

subsection \<open>The login page\<close>

text \<open>The state of the router's location: the path to come back to, when it is set.\<close>

definition login_submit :: "jsstr option \<Rightarrow> js_error + User \<Rightarrow> effect list \<times> jsstr" where
  "login_submit from_state result =
     (case result of
        Inr _ \<Rightarrow> ([Navigate (case from_state of Some p \<Rightarrow> p | None \<Rightarrow> lit ''/'') True], [])
      | Inl reason \<Rightarrow> ([], (case reason of ApiError m _ _ \<Rightarrow> m | _ \<Rightarrow> t_login_failed)))"

datatype login_action = SetUsername jsstr | SetPassword jsstr | TogglePassword | SubmitLogin

record login_view_state =
  lv_values :: LoginInput
  lv_errors :: field_errors
  lv_showPassword :: bool
  lv_error :: jsstr

definition login_highlights :: "jsstr list" where
  "login_highlights = [t_hl_scan, t_hl_colo, t_hl_roles]"

definition LoginPage :: "AuthContextValue \<Rightarrow> login_view_state \<Rightarrow> login_action node" where
  "LoginPage auth s = el ''main''
     [el ''section'' [el ''p'' [Txt (lit ''CF Scanner'')], el ''p'' [Txt (lit ''Network Quality Console'')],
        el ''p'' [Txt (lit ''Cloudflare IP Operations'')],
        el ''h1'' [Txt t_hero],
        el ''p'' [Txt t_hero_sub],
        el ''div'' (map (\<lambda>h. el ''div'' [Txt h]) login_highlights)],
      el ''section'' [el ''CardTitle'' [Txt t_login_title],
        el ''CardDescription'' [Txt t_login_sub],
        El ''form'' [On ''submit'' SubmitLogin]
          [show_if (lv_error s \<noteq> []) (el ''Alert'' [el ''AlertDescription'' [Txt (lv_error s)]]),
           el ''FormItem'' [el ''FormLabel'' [Txt t_username_label],
             El ''Input'' [Attr ''name'' (lit ''username''), Attr ''value'' (li_username (lv_values s)), OnStr ''change'' SetUsername] [],
             field_message (lv_errors s) ''username''],
           el ''FormItem'' [el ''FormLabel'' [Txt t_password_label],
             El ''Input'' [Attr ''name'' (lit ''password''), Attr ''value'' (li_password (lv_values s)),
               Attr ''type'' (if lv_showPassword s then lit ''text'' else lit ''password''), OnStr ''change'' SetPassword] [],
             El ''Button'' [Attr ''aria-label'' (if lv_showPassword s then t_hide_pw else t_show_pw),
               On ''click'' TogglePassword] [],
             field_message (lv_errors s) ''password''],
           El ''Button'' [Attr ''type'' (lit ''submit''), Flag ''disabled'' (ac_loginPending auth)] [Txt t_login_button]]],
      el ''p'' [Txt t_login_note]]"

text \<open>The handlers: a valid form calls the login with the parsed values, an invalid one shows the
  errors.\<close>

fun login_act :: "login_action \<Rightarrow> login_view_state \<Rightarrow> login_view_state \<times> LoginInput option" where
  "login_act (SetUsername v) s = (s\<lparr>lv_values := (lv_values s)\<lparr>li_username := v\<rparr>\<rparr>, None)"
| "login_act (SetPassword v) s = (s\<lparr>lv_values := (lv_values s)\<lparr>li_password := v\<rparr>\<rparr>, None)"
| "login_act TogglePassword s = (s\<lparr>lv_showPassword := \<not> lv_showPassword s\<rparr>, None)"
| "login_act SubmitLogin s =
     (case loginSchema (lv_values s) of
        Inl errors \<Rightarrow> (s\<lparr>lv_errors := errors\<rparr>, None)
      | Inr values \<Rightarrow> (s\<lparr>lv_errors := [], lv_error := []\<rparr>, Some values))"


definition signed_out_state :: auth_state where
  "signed_out_state = handleUnauthorized auth_init"


end
