(* ===== verification/Layout.thy ===== *)
theory Layout
  imports Auth
begin

text \<open>
  The frame of the console (\<open>components/layout\<close>): the sidebar with its navigation, the header, the
  theme switch, and the fallback of the error boundary.
\<close>

subsection \<open>Literals\<close>

definition t_nav_work :: jsstr where
  "t_nav_work = [0x5DE5, 0x4F5C, 0x53F0]"

definition t_nav_overview :: jsstr where
  "t_nav_overview = [0x8FD0, 0x884C, 0x603B, 0x89C8]"

definition t_nav_scan :: jsstr where
  "t_nav_scan = [0x626B, 0x63CF, 0x8FD0, 0x8425]"

definition t_nav_jobs :: jsstr where
  "t_nav_jobs = [0x626B, 0x63CF, 0x4EFB, 0x52A1]"

definition t_nav_results :: jsstr where
  "t_nav_results = [0x7ED3, 0x679C, 0x6392, 0x884C]"

definition t_nav_league :: jsstr where
  "t_nav_league = [0x6700, 0x4F73, 0x20, 0x49, 0x50]"

definition t_nav_blacklist :: jsstr where
  "t_nav_blacklist = [0x9ED1, 0x540D, 0x5355]"

definition t_nav_resources :: jsstr where
  "t_nav_resources = [0x8D44, 0x6E90, 0x7BA1, 0x7406]"

definition t_nav_sources :: jsstr where
  "t_nav_sources = [0x49, 0x50, 0x20, 0x6570, 0x636E, 0x6E90]"

definition t_nav_agents :: jsstr where
  "t_nav_agents = [0x41, 0x67, 0x65, 0x6E, 0x74, 0x20, 0x8282, 0x70B9]"

definition t_nav_system :: jsstr where
  "t_nav_system = [0x7CFB, 0x7EDF]"

definition t_nav_settings :: jsstr where
  "t_nav_settings = [0x8BBE, 0x7F6E]"

definition t_nav_users :: jsstr where
  "t_nav_users = [0x8D26, 0x53F7, 0x4E0E, 0x6743, 0x9650]"

definition t_middot :: jsstr where
  "t_middot = [0x20, 0xB7, 0x20]"

definition t_sign_out :: jsstr where
  "t_sign_out = [0x9000, 0x51FA, 0x767B, 0x5F55]"

definition t_th_light :: jsstr where
  "t_th_light = [0x6D45, 0x8272]"

definition t_th_dark :: jsstr where
  "t_th_dark = [0x6DF1, 0x8272]"

definition t_th_system :: jsstr where
  "t_th_system = [0x8DDF, 0x968F, 0x7CFB, 0x7EDF]"

definition t_th_current :: jsstr where
  "t_th_current = [0x5F53, 0x524D, 0x4E3B, 0x9898, 0xFF1A]"

definition t_th_click :: jsstr where
  "t_th_click = [0xFF0C, 0x70B9, 0x51FB, 0x5207, 0x6362]"

definition t_page_error :: jsstr where
  "t_page_error = [0x9875, 0x9762, 0x53D1, 0x751F, 0x9519, 0x8BEF]"

definition t_page_error_sub :: jsstr where
  "t_page_error_sub = [0x524D, 0x7AEF, 0x6CA1, 0x6709, 0x6B63, 0x786E, 0x5B8C, 0x6210, 0x672C, 0x6B21, 0x6E32,
     0x67D3, 0x3002, 0x53EF, 0x4EE5, 0x91CD, 0x8BD5, 0xFF0C, 0x6216, 0x5237, 0x65B0, 0x9875,
     0x9762, 0x91CD, 0x65B0, 0x52A0, 0x8F7D, 0x6570, 0x636E, 0x3002]"

definition t_reload_page :: jsstr where
  "t_reload_page = [0x91CD, 0x65B0, 0x52A0, 0x8F7D, 0x9875, 0x9762]"


subsection \<open>Navigation\<close>

record nav_item =
  ni_to :: jsstr
  ni_label :: jsstr
  ni_adminOnly :: bool

definition nav :: "string \<Rightarrow> jsstr \<Rightarrow> nav_item" where
  "nav to label = \<lparr>ni_to = lit to, ni_label = label, ni_adminOnly = False\<rparr>"

definition nav_groups :: "(jsstr \<times> nav_item list) list" where
  "nav_groups =
     [(t_nav_work, [nav ''/'' t_nav_overview]),
      (t_nav_scan, [nav ''/jobs'' t_nav_jobs, nav ''/results'' t_nav_results,
         nav ''/league'' t_nav_league, nav ''/blacklist'' t_nav_blacklist]),
      (t_nav_resources, [nav ''/sources'' t_nav_sources, nav ''/agents'' t_nav_agents]),
      (t_nav_system, [nav ''/settings'' t_nav_settings,
         (nav ''/users'' t_nav_users)\<lparr>ni_adminOnly := True\<rparr>])]"

definition visible_items :: "bool \<Rightarrow> nav_item list \<Rightarrow> nav_item list" where
  "visible_items canManage items = filter (\<lambda>i. \<not> ni_adminOnly i \<or> canManage) items"

definition nav_active :: "jsstr \<Rightarrow> nav_item \<Rightarrow> bool" where
  "nav_active pathname i =
     (if ni_to i = lit ''/'' then pathname = lit ''/'' else starts_with pathname (ni_to i))"

datatype layout_action = GoTo jsstr | Logout | SetTheme jsstr | ResetBoundary

text \<open>Signing out navigates once the logout has come back without an error.\<close>

definition logout_click :: "js_error + unit \<Rightarrow> effect list" where
  "logout_click result = (case result of Inr _ \<Rightarrow> [Navigate (lit ''/login'') True] | Inl _ \<Rightarrow> [])"

definition user_field :: "(User \<Rightarrow> jsstr) \<Rightarrow> AuthContextValue \<Rightarrow> jsstr" where
  "user_field f auth = (case ac_user auth of None \<Rightarrow> [] | Some u \<Rightarrow> f u)"

definition AppSidebar :: "AuthContextValue \<Rightarrow> jsstr \<Rightarrow> layout_action node" where
  "AppSidebar auth pathname = el ''Sidebar''
     [El ''SidebarMenuButton'' [On ''click'' (GoTo (lit ''/''))]
        [el ''span'' [Txt (lit ''CF Scanner'')], el ''span'' [Txt (lit ''Network Quality'')]],
      el ''SidebarContent'' (map (\<lambda>(label, items). el ''SidebarGroup''
        (el ''SidebarGroupLabel'' [Txt label] #
         map (\<lambda>i. El ''SidebarMenuButton'' [Flag ''isActive'' (nav_active pathname i), On ''click'' (GoTo (ni_to i))]
               [el ''span'' [Txt (ni_label i)]])
           (visible_items (ac_canManage auth) items))) nav_groups),
      el ''SidebarFooter''
        [el ''DropdownMenuTrigger'' [el ''span'' [Txt (user_field usr_display_name auth)],
           el ''span'' [Txt (lit ''@'' @ user_field usr_username auth @ t_middot
             @ (if ac_canManage auth then t_admin_role else t_viewer_role))]],
         el ''DropdownMenuContent''
           [el ''DropdownMenuLabel'' [el ''span'' [Txt (user_field usr_display_name auth)],
              el ''span'' [Txt (lit ''@'' @ user_field usr_username auth)]],
            show_if (ac_canManage auth) (El ''DropdownMenuItem'' [On ''click'' (GoTo (lit ''/users''))] [Txt t_nav_users]),
            El ''DropdownMenuItem'' [Flag ''disabled'' (ac_logoutPending auth), On ''click'' Logout] [Txt t_sign_out]]]]"

subsection \<open>Header\<close>

definition header_labels :: "(jsstr \<times> jsstr) list" where
  "header_labels =
     [(lit ''/'', t_nav_overview), (lit ''/jobs'', t_nav_jobs), (lit ''/results'', t_nav_results),
      (lit ''/blacklist'', t_nav_blacklist), (lit ''/sources'', t_nav_sources), (lit ''/agents'', t_nav_agents),
      (lit ''/settings'', t_nav_settings), (lit ''/users'', t_nav_users)]"

definition header_title :: "jsstr \<Rightarrow> jsstr" where
  "header_title pathname = nullish (map_of header_labels pathname) (lit ''Cloudflare IP Scanner'')"

definition themes :: "(jsstr \<times> jsstr) list" where
  "themes = [(lit ''light'', t_th_light), (lit ''dark'', t_th_dark), (lit ''system'', t_th_system)]"

definition selected_theme :: "jsstr option \<Rightarrow> jsstr \<times> jsstr" where
  "selected_theme theme =
     (case find (\<lambda>t. fst t = nullish theme (lit ''system'')) themes of Some t \<Rightarrow> t | None \<Rightarrow> themes ! 2)"

definition ThemeToggle :: "jsstr option \<Rightarrow> layout_action node" where
  "ThemeToggle theme = el ''DropdownMenu''
     [El ''DropdownMenuTrigger'' [Attr ''aria-label'' (t_th_current @ snd (selected_theme theme) @ t_th_click)] [],
      el ''DropdownMenuContent'' (map (\<lambda>(value, label).
        El ''DropdownMenuItem'' [On ''click'' (SetTheme value)]
          [el ''span'' [Txt label], show_if (value = nullish theme (lit ''system'')) (el ''Check'' [])]) themes)]"

definition SiteHeader :: "jsstr \<Rightarrow> jsstr option \<Rightarrow> layout_action node" where
  "SiteHeader pathname theme = el ''header''
     [el ''SidebarTrigger'' [], el ''BreadcrumbPage'' [Txt (header_title pathname)],
      el ''Badge'' [Txt (lit ''Live'')], ThemeToggle theme]"

definition AppShell :: "AuthContextValue \<Rightarrow> jsstr \<Rightarrow> jsstr option \<Rightarrow> layout_action node \<Rightarrow> layout_action node" where
  "AppShell auth pathname theme outlet = el ''SidebarProvider''
     [AppSidebar auth pathname, el ''SidebarInset'' [SiteHeader pathname theme, el ''main'' [outlet]]]"

text \<open>The error boundary renders its children unless they throw.\<close>

fun first_some :: "'a option list \<Rightarrow> 'a option" where
  "first_some [] = None"
| "first_some (Some x # r) = Some x"
| "first_some (None # r) = first_some r"

fun first_throw :: "'e node \<Rightarrow> js_error option" where
  "first_throw (Txt _) = None"
| "first_throw (Throw e) = Some e"
| "first_throw (El _ _ ks) = first_some (map first_throw ks)"
| "first_throw (Frag ks) = first_some (map first_throw ks)"

definition AppErrorBoundary :: "layout_action node \<Rightarrow> layout_action node" where
  "AppErrorBoundary children =
     (case first_throw children of None \<Rightarrow> children
      | Some e \<Rightarrow> el ''main'' [el ''CardTitle'' [Txt t_page_error],
          el ''CardDescription'' [Txt t_page_error_sub],
          el ''pre'' [Txt (error_message e)], button False ResetBoundary [Txt t_reload_page]])"

lemma first_some_None: "first_some xs = None \<longleftrightarrow> list_all (\<lambda>x. x = None) xs"
  by (induction xs rule: first_some.induct) auto

lemma first_throw_None: "first_throw v = None \<longleftrightarrow> \<not> throws v"
  by (induction v) (auto simp: first_some_None list_all_iff list_ex_iff)

text \<open>The error boundary never lets a rendering error through: what it shows throws nothing, it shows the children unchanged when they do not throw, and otherwise the message of the error with a button that resets it.\<close>

theorem boundary_catches:
  "\<not> throws (AppErrorBoundary v)
   \<and> (if throws v then offers ResetBoundary (AppErrorBoundary v)
        \<and> (\<exists>e. first_throw v = Some e \<and> (\<exists>a b. node_text (AppErrorBoundary v) = a @ error_message e @ b))
      else AppErrorBoundary v = v)"
proof (cases "first_throw v")
  case None
  then show ?thesis using first_throw_None [of v] by (simp add: AppErrorBoundary_def)
next
  case (Some e)
  then have "throws v" using first_throw_None [of v] by auto
  moreover have "\<exists>a b. node_text (AppErrorBoundary v) = a @ error_message e @ b"
    using Some by (simp add: AppErrorBoundary_def el_def button_def) (metis append_assoc)
  ultimately show ?thesis using Some by (simp add: AppErrorBoundary_def el_def button_def)
qed

subsection \<open>Every link leads to its page\<close>

definition sidebar_links :: "bool \<Rightarrow> nav_item list" where
  "sidebar_links canManage = concat (map (\<lambda>(_, items). visible_items canManage items) nav_groups)"

lemma sidebar_links_eval:
  "map ni_to (sidebar_links True) = map lit [''/'', ''/jobs'', ''/results'', ''/league'', ''/blacklist'', ''/sources'', ''/agents'', ''/settings'', ''/users'']"
  "map ni_to (sidebar_links False) = map lit [''/'', ''/jobs'', ''/results'', ''/league'', ''/blacklist'', ''/sources'', ''/agents'', ''/settings'']"
  by (simp_all add: sidebar_links_def nav_groups_def visible_items_def nav_def)

lemma link_pages:
  assumes "ac_user a \<noteq> None" "\<not> ac_isLoading a"
  shows "list_all (\<lambda>(p, pg). AppRouter a p = Show pg)
    [(lit ''/'', DashboardP), (lit ''/jobs'', ScansP), (lit ''/results'', ResultsP), (lit ''/league'', LeagueP),
     (lit ''/blacklist'', BlacklistP), (lit ''/sources'', SourcesP), (lit ''/agents'', AgentsP), (lit ''/settings'', SettingsP)]"
    "ac_canManage a \<Longrightarrow> AppRouter a (lit ''/users'') = Show UsersP"
proof -
  have s: "path_segments (lit (CHR ''/'' # p)) = path_segments (lit p)" for p
    by (simp add: path_segments_def lit_Cons)
  have w: "path_segments (lit p) = [lit p]" "ascii_lower (lit p) = lit p"
    if "p \<in> {''jobs'', ''results'', ''league'', ''blacklist'', ''sources'', ''agents'', ''settings'', ''users''}" for p
    using that by (auto simp: path_segments_def lit_def ascii_lower_def)
  have e: "path_segments [] = []" by (simp add: path_segments_def)
  note r = AppRouter_def protected_routes_def ProtectedRoute_def AdminRoute_def s w e
  show "list_all (\<lambda>(p, pg). AppRouter a p = Show pg)
    [(lit ''/'', DashboardP), (lit ''/jobs'', ScansP), (lit ''/results'', ResultsP), (lit ''/league'', LeagueP),
     (lit ''/blacklist'', BlacklistP), (lit ''/sources'', SourcesP), (lit ''/agents'', AgentsP), (lit ''/settings'', SettingsP)]"
    using assms by (simp add: r)
  show "ac_canManage a \<Longrightarrow> AppRouter a (lit ''/users'') = Show UsersP"
    using assms by (simp add: r)
qed

text \<open>The navigation and the routes agree: every link the sidebar shows a user leads directly to a page the router shows that user, no two links to the same page; the link to the user administration is shown to administrators only.\<close>

theorem nav_links_routed:
  assumes "ac_user (auth_value s) \<noteq> None"
  shows "\<exists>pages. list_all2 (\<lambda>i pg. AppRouter (auth_value s) (ni_to i) = Show pg)
      (sidebar_links (ac_canManage (auth_value s))) pages \<and> distinct pages
    \<and> (lit ''/users'' \<in> ni_to ` set (sidebar_links (ac_canManage (auth_value s))) \<longleftrightarrow> ac_canManage (auth_value s))"
proof -
  let ?a = "auth_value s"
  have "\<not> ac_isLoading ?a" using assms auth_value_coherent [of s] by (auto simp: coherent_def)
  note l = link_pages [OF assms this]
  define links where "links = sidebar_links (ac_canManage ?a)"
  define ps where "ps = [DashboardP, ScansP, ResultsP, LeagueP, BlacklistP, SourcesP, AgentsP, SettingsP]
      @ (if ac_canManage ?a then [UsersP] else [])"
  have t: "map ni_to links = map lit ([''/'', ''/jobs'', ''/results'', ''/league'', ''/blacklist'', ''/sources'', ''/agents'', ''/settings'']
      @ (if ac_canManage ?a then [''/users''] else []))"
    using sidebar_links_eval by (cases "ac_canManage ?a") (simp_all add: links_def)
  have "list_all2 (\<lambda>p pg. AppRouter ?a p = Show pg) (map ni_to links) ps"
    unfolding t ps_def using l by auto
  then have "list_all2 (\<lambda>i pg. AppRouter ?a (ni_to i) = Show pg) links ps"
    by (simp add: list.rel_map)
  moreover have "distinct ps" by (simp add: ps_def)
  moreover have "lit ''/users'' \<in> set (map ni_to links) \<longleftrightarrow> ac_canManage ?a"
    unfolding t by auto
  ultimately show ?thesis unfolding links_def by auto
qed

theorem nav_links_routed_witness:
  "lit ''/users'' \<in> ni_to ` set (sidebar_links (ac_canManage (auth_value (login_success sample_admin auth_init))))"
  using nav_links_routed [of "login_success sample_admin auth_init"] admin_session by auto

text \<open>The header has no title for the page of the best addresses the sidebar links to.\<close>

lemma header_misses_league:
  "header_title (lit ''/league'') = lit ''Cloudflare IP Scanner'' \<and> lit ''/league'' \<in> ni_to ` set (sidebar_links False)"
proof
  show "header_title (lit ''/league'') = lit ''Cloudflare IP Scanner''"
    by (simp add: header_title_def header_labels_def)
  have "lit ''/league'' \<in> set (map ni_to (sidebar_links False))"
    by (simp only: sidebar_links_eval) simp
  then show "lit ''/league'' \<in> ni_to ` set (sidebar_links False)" by simp
qed

end
