(* ===== verification/Query_Contract.thy ===== *)
theory Query_Contract
  imports Server_Contract Api
begin

text \<open>
  The server's reading of the query strings the console builds (\<open>internal/api/api.go\<close>): the
  filters of the results, of the league and of a trend, with every rejection. \<open>r.URL.Query()\<close>
  gives the decoded pairs of the query string; \<open>Get\<close> is the first value of a name, the empty
  string when there is none.
\<close>

definition Get :: "jsstr \<Rightarrow> string \<Rightarrow> jsstr" where
  "Get raw name = nullish (map_get (search_params raw) (lit name)) []"

definition entry_text :: "(string \<times> qval) list \<Rightarrow> string \<Rightarrow> jsstr" where
  "entry_text vs name = (case map_of vs name of None \<Rightarrow> [] | Some QUndef \<Rightarrow> [] | Some v \<Rightarrow> qval_text v)"

text \<open>The texts of a list of entries can be sent: no lone surrogate.\<close>

definition sendable :: "(string \<times> qval) list \<Rightarrow> bool" where
  "sendable vs \<longleftrightarrow> distinct (map fst vs) \<and> list_all (\<lambda>(k, v). case v of QStr s \<Rightarrow> well_formed s | _ \<Rightarrow> True) vs"

lemma map_of_kept:
  "distinct (map fst vs) \<Longrightarrow> map_of (kept_params vs) (lit k) =
     (case map_of vs k of None \<Rightarrow> None | Some v \<Rightarrow> if qval_kept v then Some (qval_text v) else None)"
proof (induction vs)
  case (Cons kv vs)
  have "map_of vs k = None" if "k \<notin> fst ` set vs" using that by (simp add: map_of_eq_None_iff)
  then show ?case using Cons by (cases kv) (auto simp: kept_params_def)
qed (simp add: kept_params_def)

text \<open>What the server reads is what the console wrote.\<close>

lemma Get_entry:
  assumes "sendable vs"
  shows "Get (createQueryString vs) k = entry_text vs k"
proof -
  have d: "distinct (map fst vs)" using assms by (simp add: sendable_def)
  have "well_formed (qval_text v)" if "(n, v) \<in> set vs" for n v
    using that assms by (cases v) (auto simp: sendable_def list_all_iff show_bool_def)
  then have "well_formed_pairs (kept_params vs)"
    by (auto simp: well_formed_pairs_def kept_params_def list_all_iff)
  then show ?thesis
    by (auto simp: Get_def map_get_def search_params_query [OF d] map_of_kept [OF d] entry_text_def qval_kept_def
        split: option.splits qval.splits)
qed

subsection \<open>Numbers and flags\<close>

text \<open>\<open>strconv.Atoi\<close>: an optional sign and decimal digits, within 64 bits.\<close>

definition Atoi :: "jsstr \<Rightarrow> int option" where
  "Atoi s =
     (let neg = (s \<noteq> [] \<and> hd s = 45); ds = (if s \<noteq> [] \<and> (hd s = 45 \<or> hd s = 43) then tl s else s) in
      if ds = [] \<or> \<not> list_all is_digit ds then None
      else let v = (if neg then - int (digits_value ds) else int (digits_value ds)) in
        if - (2 ^ 63) \<le> v \<and> v < 2 ^ 63 then Some v else None)"

lemma dec_digits_digit: "list_all is_digit (dec_digits n)"
  using dec_digits_range by (auto simp: list_all_iff is_digit_def)

lemma dec_digits_unsigned: "hd (dec_digits n) \<noteq> 45 \<and> hd (dec_digits n) \<noteq> 43"
proof -
  have "hd (dec_digits n) \<in> set (dec_digits n)" by simp
  from dec_digits_range [OF this] show ?thesis by auto
qed

lemma Atoi_show_int [simp]:
  assumes "- (2 ^ 63) \<le> n" "n < 2 ^ 63"
  shows "Atoi (show_int n) = Some n"
  using assms dec_digits_digit dec_digits_unsigned
  by (auto simp: Atoi_def show_int_def lit_minus digits_value_dec_digits Let_def)

definition queryInt :: "jsstr \<Rightarrow> string \<Rightarrow> int \<Rightarrow> int" where
  "queryInt raw name fallback =
     (case Atoi (Get raw name) of None \<Rightarrow> fallback | Some v \<Rightarrow> if v \<le> 0 then fallback else v)"

definition boundedQueryInt :: "jsstr \<Rightarrow> string \<Rightarrow> int \<Rightarrow> int \<Rightarrow> int \<Rightarrow> string + int" where
  "boundedQueryInt raw name fallback minimum maximum =
     (let text = TrimSpace (Get raw name) in
      if text = [] then Inr fallback
      else case Atoi text of
        None \<Rightarrow> Inl (name @ '' out of range'')
      | Some v \<Rightarrow> if v < minimum \<or> maximum < v then Inl (name @ '' out of range'') else Inr v)"

text \<open>\<open>strconv.ParseBool\<close>.\<close>

definition ParseBool :: "jsstr \<Rightarrow> bool option" where
  "ParseBool s =
     (if s \<in> lit ` {''1'', ''t'', ''T'', ''TRUE'', ''true'', ''True''} then Some True
      else if s \<in> lit ` {''0'', ''f'', ''F'', ''FALSE'', ''false'', ''False''} then Some False else None)"


subsection \<open>Results\<close>

text \<open>A time range is the number of hours before now; None is all of it.\<close>

record result_filter =
  rq_View :: jsstr
  rq_AgentID :: jsstr
  rq_JobID :: jsstr
  rq_Region :: jsstr
  rq_Continent :: jsstr
  rq_TargetIP :: jsstr
  rq_Colo :: jsstr
  rq_ColoCity :: jsstr
  rq_ColoCountry :: jsstr
  rq_ColoContinent :: jsstr
  rq_Available :: "bool option"
  rq_Since :: "nat option"
  rq_Page :: int
  rq_PageSize :: int
  rq_Sort :: jsstr
  rq_Order :: jsstr

definition allowedSorts :: "jsstr list" where
  "allowedSorts = [lit ''target_ip'', lit ''agent_name'', lit ''colo'', lit ''available'', lit ''latency_ms'',
     lit ''packet_loss'', lit ''http_status'', lit ''scanned_at'']"

definition range_hours :: "(jsstr \<times> nat option) list" where
  "range_hours = [([], Some 24), (lit ''24h'', Some 24), (lit ''1h'', Some 1), (lit ''7d'', Some (7 * 24)),
     (lit ''30d'', Some (30 * 24)), (lit ''all'', None)]"

definition resultFilterFromRequest :: "jsstr \<Rightarrow> bool \<Rightarrow> string + result_filter" where
  "resultFilterFromRequest raw includeGeo =
     (let text = (\<lambda>name. TrimSpace (Get raw name));
          geo = (\<lambda>name. if includeGeo then text name else []);
          view = str_or (text ''view'') (lit ''latest'');
          pageSize = queryInt raw ''page_size'' 50;
          order = str_or (ascii_lower (text ''order'')) (lit ''asc'');
          sorted_by = (if text ''sort'' \<noteq> [] then (text ''sort'', order)
            else if view = lit ''history'' then (lit ''scanned_at'', lit ''desc'') else (lit ''latency_ms'', lit ''asc''));
          available = Get raw ''available''
      in if view \<noteq> lit ''latest'' \<and> view \<noteq> lit ''history'' then Inl ''view must be latest or history''
      else if 200 < pageSize then Inl ''page_size must not exceed 200''
      else if order \<noteq> lit ''asc'' \<and> order \<noteq> lit ''desc'' then Inl ''order must be asc or desc''
      else if fst sorted_by \<notin> set allowedSorts then Inl ''unsupported result sort''
      else if available \<noteq> [] \<and> ParseBool available = None then Inl ''available must be true or false''
      else case map_of range_hours (text ''time_range'') of
        None \<Rightarrow> Inl ''time_range must be 1h, 24h, 7d, 30d, or all''
      | Some since \<Rightarrow> Inr \<lparr>rq_View = view, rq_AgentID = text ''agent_id'', rq_JobID = text ''job_id'',
          rq_Region = text ''region'', rq_Continent = text ''continent'', rq_TargetIP = text ''search'',
          rq_Colo = geo ''colo'', rq_ColoCity = geo ''colo_city'', rq_ColoCountry = geo ''colo_country'',
          rq_ColoContinent = geo ''colo_continent'',
          rq_Available = (if available = [] then None else ParseBool available), rq_Since = since,
          rq_Page = queryInt raw ''page'' 1, rq_PageSize = pageSize, rq_Sort = fst sorted_by, rq_Order = snd sorted_by\<rparr>)"

subsection \<open>League and trend\<close>

definition is_hex :: "nat \<Rightarrow> bool" where
  "is_hex u \<longleftrightarrow> is_digit u \<or> (65 \<le> u \<and> u \<le> 70) \<or> (97 \<le> u \<and> u \<le> 102)"

definition validUUID :: "jsstr \<Rightarrow> bool" where
  "validUUID value \<longleftrightarrow> length value = 36 \<and> value ! 8 = 45 \<and> value ! 13 = 45 \<and> value ! 18 = 45 \<and> value ! 23 = 45
     \<and> (let compact = filter (\<lambda>u. u \<noteq> 45) value in even (length compact) \<and> list_all is_hex compact)"

record league_filter =
  lq_AgentID :: jsstr
  lq_PrefixPage :: int
  lq_PrefixPageSize :: int
  lq_CandidatePage :: int
  lq_CandidatePageSize :: int

definition leagueDashboardFilterFromRequest :: "jsstr \<Rightarrow> string + league_filter" where
  "leagueDashboardFilterFromRequest raw =
     (let agent = TrimSpace (Get raw ''agent_id'') in
      if agent \<noteq> [] \<and> \<not> validUUID agent then Inl ''agent_id must be a valid UUID''
      else case (boundedQueryInt raw ''prefix_page'' 1 1 1000000, boundedQueryInt raw ''prefix_page_size'' 50 1 200,
                 boundedQueryInt raw ''candidate_page'' 1 1 1000000, boundedQueryInt raw ''candidate_page_size'' 50 1 200) of
        (Inr a, Inr b, Inr c, Inr d) \<Rightarrow> Inr \<lparr>lq_AgentID = agent, lq_PrefixPage = a, lq_PrefixPageSize = b,
           lq_CandidatePage = c, lq_CandidatePageSize = d\<rparr>
      | (Inl e, _, _, _) \<Rightarrow> Inl e | (_, Inl e, _, _) \<Rightarrow> Inl e | (_, _, Inl e, _) \<Rightarrow> Inl e | (_, _, _, Inl e) \<Rightarrow> Inl e)"

record trend_filter =
  tq_AgentID :: jsstr
  tq_TargetIP :: jsstr
  tq_Scheme :: jsstr
  tq_Hostname :: jsstr
  tq_Path :: jsstr
  tq_Port :: int
  tq_Attempts :: int
  tq_TimeoutMS :: int
  tq_Since :: nat

definition trend_hours :: "(jsstr \<times> nat) list" where
  "trend_hours = [([], 7 * 24), (lit ''7d'', 7 * 24), (lit ''24h'', 24), (lit ''30d'', 30 * 24)]"

text \<open>\<open>is_addr\<close> is \<open>netip.ParseAddr\<close> succeeding.\<close>

definition trendFilterFromRequest :: "(jsstr \<Rightarrow> bool) \<Rightarrow> jsstr \<Rightarrow> string + trend_filter" where
  "trendFilterFromRequest is_addr raw =
     (let text = (\<lambda>name. TrimSpace (Get raw name));
          scheme = str_or (text ''scheme'') (lit ''https'');
          hostname = str_or (text ''hostname'') (lit ''cloudflare.com'');
          path = str_or (text ''path'') (lit ''/cdn-cgi/trace'')
      in if \<not> validUUID (text ''agent_id'') then Inl ''agent_id must be a valid UUID''
      else if \<not> is_addr (text ''target_ip'') then Inl ''target_ip must be a valid IP address''
      else case map_of trend_hours (text ''time_range'') of None \<Rightarrow> Inl ''time_range must be 24h, 7d, or 30d''
      | Some since \<Rightarrow>
        if scheme \<noteq> lit ''http'' \<and> scheme \<noteq> lit ''https'' then Inl ''scheme must be http or https''
        else if list_ex (\<lambda>u. u = 32 \<or> u = 47 \<or> u = 92) hostname then Inl ''hostname is invalid''
        else if \<not> starts_with path (lit ''/'') then Inl ''path must start with /''
        else case (boundedQueryInt raw ''port'' 443 1 65535, boundedQueryInt raw ''attempts'' 3 1 10,
                   boundedQueryInt raw ''timeout_ms'' 5000 500 30000) of
          (Inr p, Inr a, Inr t) \<Rightarrow> Inr \<lparr>tq_AgentID = text ''agent_id'', tq_TargetIP = text ''target_ip'',
             tq_Scheme = scheme, tq_Hostname = hostname, tq_Path = path, tq_Port = p, tq_Attempts = a,
             tq_TimeoutMS = t, tq_Since = since\<rparr>
        | (Inl e, _, _) \<Rightarrow> Inl e | (_, Inl e, _) \<Rightarrow> Inl e | (_, _, Inl e) \<Rightarrow> Inl e)"

subsection \<open>Trimming what needs none\<close>

definition no_edge_space :: "jsstr \<Rightarrow> bool" where
  "no_edge_space s \<longleftrightarrow> s = [] \<or> \<not> is_go_space (hd s) \<and> \<not> is_go_space (last s)"

lemma TrimSpace_id [simp]: "no_edge_space s \<Longrightarrow> TrimSpace s = s"
proof -
  assume "no_edge_space s"
  then consider "s = []" | "s \<noteq> []" "\<not> is_go_space (hd s)" "\<not> is_go_space (last s)" by (auto simp: no_edge_space_def)
  then show ?thesis
    by cases (simp_all add: TrimSpace_def dropWhile_hd_no hd_rev)
qed

lemma no_edge_space_show_int [simp]: "no_edge_space (show_int n)"
proof -
  have "hd (show_int n) \<in> set (show_int n)" "last (show_int n) \<in> set (show_int n)" by simp_all
  then have "\<not> is_go_space (hd (show_int n))" "\<not> is_go_space (last (show_int n))"
    using show_int_range by (fastforce simp: is_go_space_def is_ws_def)+
  then show ?thesis by (simp add: no_edge_space_def)
qed

lemma no_edge_space_lits [simp]:
  "no_edge_space []" "no_edge_space (resultView_str v)" "no_edge_space (resultSort_str r)"
  "no_edge_space (resultOrder_str d)" "no_edge_space (resultTimeRange_str t)" "no_edge_space (trendTimeRange_str tt)"
proof -
  note d = no_edge_space_def lit_def is_go_space_def is_ws_def
  show "no_edge_space []" "no_edge_space (resultView_str v)" "no_edge_space (resultSort_str r)"
    "no_edge_space (resultOrder_str d)" "no_edge_space (resultTimeRange_str t)" "no_edge_space (trendTimeRange_str tt)"
    by (simp add: d, (cases v, auto simp: d) [], (cases r, auto simp: d) [], (cases d, auto simp: d) [],
        (cases t, auto simp: d) [], (cases tt, auto simp: d) [])
qed

lemma boundedQueryInt_entry:
  assumes "sendable vs" "map_of vs name = Some (QNum n)" "minimum \<le> n" "n \<le> maximum" "\<bar>n\<bar> < 2 ^ 62"
  shows "boundedQueryInt (createQueryString vs) name fallback minimum maximum = Inr n"
  using assms by (simp add: boundedQueryInt_def Get_entry entry_text_def Let_def)

end
