(* ===== verification/Results.thy ===== *)
theory Results
  imports Geo Layout Hooks Query_Contract
begin

text \<open>
  The results page (\<open>features/results\<close>): the state of its filters and every handler that changes
  it, the four queries computed from it, the toolbar with the filters, the table and its mobile cards,
  and the label of a colo's location.
\<close>

subsection \<open>Literals\<close>

definition t_ip_copied :: jsstr where
  "t_ip_copied = [0x49, 0x50, 0x20, 0x5DF2, 0x590D, 0x5236]"

definition t_ray_copied :: jsstr where
  "t_ray_copied = [0x43, 0x46, 0x2D, 0x52, 0x41, 0x59, 0x20, 0x5DF2, 0x590D, 0x5236]"

definition t_no_geo_option :: jsstr where
  "t_no_geo_option = [0x6CA1, 0x6709, 0x5339, 0x914D, 0x7684, 0x5730, 0x7406, 0x9009, 0x9879]"

definition t_search_ip :: jsstr where
  "t_search_ip = [0x641C, 0x7D22, 0x20, 0x49, 0x50]"

definition t_all_jobs :: jsstr where
  "t_all_jobs = [0x5168, 0x90E8, 0x626B, 0x63CF, 0x4EFB, 0x52A1]"

definition t_search_jobs :: jsstr where
  "t_search_jobs = [0x641C, 0x7D22, 0x626B, 0x63CF, 0x4EFB, 0x52A1, 0x2026]"

definition t_no_job_option :: jsstr where
  "t_no_job_option = [0x6CA1, 0x6709, 0x5339, 0x914D, 0x7684, 0x626B, 0x63CF, 0x4EFB, 0x52A1]"

definition t_all_agents :: jsstr where
  "t_all_agents = [0x5168, 0x90E8, 0x20, 0x41, 0x67, 0x65, 0x6E, 0x74]"

definition t_search_agents_regions :: jsstr where
  "t_search_agents_regions = [0x641C, 0x7D22, 0x20, 0x41, 0x67, 0x65, 0x6E, 0x74, 0x3001, 0x533A, 0x57DF, 0x2026]"

definition t_no_agent_option :: jsstr where
  "t_no_agent_option = [0x6CA1, 0x6709, 0x5339, 0x914D, 0x7684, 0x20, 0x41, 0x67, 0x65, 0x6E, 0x74]"

definition t_all_states :: jsstr where
  "t_all_states = [0x5168, 0x90E8, 0x72B6, 0x6001, 0x20, 0xB7, 0x20]"

definition t_only_available :: jsstr where
  "t_only_available = [0x4EC5, 0x53EF, 0x7528, 0x20, 0xB7, 0x20]"

definition t_only_failed :: jsstr where
  "t_only_failed = [0x4EC5, 0x5931, 0x8D25, 0x20, 0xB7, 0x20]"

definition t_last_1h :: jsstr where
  "t_last_1h = [0x6700, 0x8FD1, 0x20, 0x31, 0x20, 0x5C0F, 0x65F6]"

definition t_last_24h :: jsstr where
  "t_last_24h = [0x6700, 0x8FD1, 0x20, 0x32, 0x34, 0x20, 0x5C0F, 0x65F6]"

definition t_last_7d :: jsstr where
  "t_last_7d = [0x6700, 0x8FD1, 0x20, 0x37, 0x20, 0x5929]"

definition t_last_30d :: jsstr where
  "t_last_30d = [0x6700, 0x8FD1, 0x20, 0x33, 0x30, 0x20, 0x5929]"

definition t_all_history :: jsstr where
  "t_all_history = [0x5168, 0x90E8, 0x5386, 0x53F2]"

definition t_all_continents :: jsstr where
  "t_all_continents = [0x5168, 0x90E8, 0x5927, 0x6D32]"

definition t_search_continents :: jsstr where
  "t_search_continents = [0x641C, 0x7D22, 0x5927, 0x6D32, 0x2026]"

definition t_all_countries :: jsstr where
  "t_all_countries = [0x5168, 0x90E8, 0x56FD, 0x5BB6, 0x2F, 0x5730, 0x533A]"

definition t_search_countries :: jsstr where
  "t_search_countries = [0x641C, 0x7D22, 0x56FD, 0x5BB6, 0x6216, 0x5730, 0x533A, 0x2026]"

definition t_all_cities :: jsstr where
  "t_all_cities = [0x5168, 0x90E8, 0x57CE, 0x5E02]"

definition t_search_cities :: jsstr where
  "t_search_cities = [0x641C, 0x7D22, 0x57CE, 0x5E02, 0x2026]"

definition t_all_colos :: jsstr where
  "t_all_colos = [0x5168, 0x90E8, 0x20, 0x63, 0x6F, 0x6C, 0x6F]"

definition t_search_colos :: jsstr where
  "t_search_colos = [0x641C, 0x7D22, 0x20, 0x63, 0x6F, 0x6C, 0x6F, 0x3001, 0x57CE, 0x5E02, 0x6216, 0x56FD,
     0x5BB6, 0x2026]"

definition t_colo_place :: jsstr where
  "t_colo_place = [0x63, 0x6F, 0x6C, 0x6F, 0x20, 0x4F4D, 0x7F6E]"

definition t_connect_time :: jsstr where
  "t_connect_time = [0x8FDE, 0x63A5, 0x8017, 0x65F6]"

definition t_scan_time :: jsstr where
  "t_scan_time = [0x626B, 0x63CF, 0x65F6, 0x95F4]"

definition t_result_operations :: jsstr where
  "t_result_operations = [0x7ED3, 0x679C, 0x64CD, 0x4F5C]"

definition t_copy_ip :: jsstr where
  "t_copy_ip = [0x590D, 0x5236, 0x20, 0x49, 0x50]"

definition t_copy_ray :: jsstr where
  "t_copy_ray = [0x590D, 0x5236, 0x20, 0x43, 0x46, 0x2D, 0x52, 0x41, 0x59]"

definition t_loss :: jsstr where
  "t_loss = [0x4E22, 0x5305]"

definition t_no_results :: jsstr where
  "t_no_results = [0x6682, 0x65E0, 0x5339, 0x914D, 0x7ED3, 0x679C]"

definition t_no_results_sub :: jsstr where
  "t_no_results_sub = [0x8FD0, 0x884C, 0x626B, 0x63CF, 0x4EFB, 0x52A1, 0xFF0C, 0x6216, 0x8C03, 0x6574, 0x4EFB,
     0x52A1, 0x3001, 0x65F6, 0x95F4, 0x8303, 0x56F4, 0x3001, 0x41, 0x67, 0x65, 0x6E, 0x74,
     0x3001, 0x5730, 0x7406, 0x4F4D, 0x7F6E, 0x548C, 0x53EF, 0x7528, 0x72B6, 0x6001, 0x7B5B,
     0x9009, 0x3002]"

definition t_agents_failed :: jsstr where
  "t_agents_failed = [0x41, 0x67, 0x65, 0x6E, 0x74, 0x20, 0x5217, 0x8868, 0x52A0, 0x8F7D, 0x5931, 0x8D25]"

definition t_facets_failed :: jsstr where
  "t_facets_failed = [0x7ED3, 0x679C, 0x5730, 0x7406, 0x7B5B, 0x9009, 0x52A0, 0x8F7D, 0x5931, 0x8D25]"

definition t_jobs_failed :: jsstr where
  "t_jobs_failed = [0x626B, 0x63CF, 0x4EFB, 0x52A1, 0x7B5B, 0x9009, 0x52A0, 0x8F7D, 0x5931, 0x8D25]"

definition t_results_sub :: jsstr where
  "t_results_sub = [0x9ED8, 0x8BA4, 0x67E5, 0x770B, 0x6BCF, 0x4E2A, 0x20, 0x41, 0x67, 0x65, 0x6E, 0x74,
     0x3001, 0x76EE, 0x6807, 0x20, 0x49, 0x50, 0x20, 0x548C, 0x63A2, 0x6D4B, 0x914D, 0x7F6E,
     0x7684, 0x6700, 0x65B0, 0x72B6, 0x6001, 0xFF1B, 0x5386, 0x53F2, 0x8BB0, 0x5F55, 0x4FDD,
     0x7559, 0x6BCF, 0x4E00, 0x6B21, 0x539F, 0x59CB, 0x626B, 0x63CF, 0x7ED3, 0x679C, 0x3002]"

definition t_matching_results :: jsstr where
  "t_matching_results = [0x20, 0x6761, 0x5339, 0x914D, 0x7ED3, 0x679C]"

definition t_latest_results :: jsstr where
  "t_latest_results = [0x6700, 0x65B0, 0x7ED3, 0x679C]"

definition t_history_records :: jsstr where
  "t_history_records = [0x5386, 0x53F2, 0x8BB0, 0x5F55]"

definition t_latest_help :: jsstr where
  "t_latest_help = [0x6700, 0x65B0, 0x7ED3, 0x679C, 0x6309, 0x20, 0x41, 0x67, 0x65, 0x6E, 0x74, 0x3001,
     0x76EE, 0x6807, 0x20, 0x49, 0x50, 0x3001, 0x534F, 0x8BAE, 0x3001, 0x57DF, 0x540D, 0x3001,
     0x8DEF, 0x5F84, 0x3001, 0x7AEF, 0x53E3, 0x3001, 0x5C1D, 0x8BD5, 0x6B21, 0x6570, 0x548C,
     0x8D85, 0x65F6, 0x914D, 0x7F6E, 0x53BB, 0x91CD, 0xFF1B, 0x72B6, 0x6001, 0x4E0E, 0x20,
     0x63, 0x6F, 0x6C, 0x6F, 0x20, 0x7B5B, 0x9009, 0x5E94, 0x7528, 0x5728, 0x6700, 0x65B0,
     0x4E00, 0x6761, 0x7ED3, 0x679C, 0x4E0A, 0x3002]"

definition t_history_help :: jsstr where
  "t_history_help = [0x5386, 0x53F2, 0x8BB0, 0x5F55, 0x5C55, 0x793A, 0x6BCF, 0x6B21, 0x539F, 0x59CB, 0x626B,
     0x63CF, 0xFF0C, 0x4E0D, 0x505A, 0x53BB, 0x91CD, 0xFF1B, 0x9ED8, 0x8BA4, 0x6309, 0x626B,
     0x63CF, 0x65F6, 0x95F4, 0x4ECE, 0x65B0, 0x5230, 0x65E7, 0x6392, 0x5217, 0x3002]"


subsection \<open>The location of a colo\<close>

definition ColoLocationLabel :: "jsstr \<Rightarrow> jsstr \<Rightarrow> jsstr \<Rightarrow> jsstr \<Rightarrow> bool \<Rightarrow> 'e node" where
  "ColoLocationLabel code city country continent cityOnly =
     (if code = [] then el ''span'' [Txt t_dash]
      else
       (let known = (city \<noteq> [] \<and> country \<noteq> []);
            place = city @ lit '', '' @ country;
            location = (if known then if cityOnly then city else place else lit ''Location unknown'');
            accessibleLabel = (if known
              then code @ t_dot_sep @ place @ (if continent \<noteq> [] then t_dot_sep @ continent else [])
              else code @ t_dot_sep @ lit ''Location unknown'')
        in el ''Tooltip''
          [El ''TooltipTrigger'' [Attr ''aria-label'' accessibleLabel]
             [el ''span'' [Txt code], el ''span'' [Txt t_dot_sep, Txt location]],
           el ''TooltipContent''
             [if known then el ''div'' [el ''p'' [Txt code, Txt t_dot_sep, Txt city, Txt (lit '', ''), Txt country],
                                        show_if (continent \<noteq> []) (el ''p'' [Txt continent])]
              else el ''p'' [Txt (lit ''Cloudflare location metadata is unavailable for this colo.'')]]]))"

lemma acts_ColoLocationLabel [simp]: "acts P (ColoLocationLabel code city country continent b)"
  by (simp add: ColoLocationLabel_def Let_def)

subsection \<open>The state of the page\<close>

record results_state =
  rs_view :: ResultView
  rs_page :: int
  rs_pageSize :: int
  rs_sorting :: sorting
  rs_search :: jsstr
  rs_deferredSearch :: jsstr
  rs_agentId :: jsstr
  rs_jobId :: jsstr
  rs_geo :: geo_selection
  rs_available :: jsstr
  rs_timeRange :: ResultTimeRange

definition no_geo :: geo_selection where
  "no_geo = \<lparr>gs_continent = [], gs_country = [], gs_city = [], gs_colo = []\<rparr>"

definition latestSorting :: sorting where
  "latestSorting = [(''latency_ms'', False)]"

definition historySorting :: sorting where
  "historySorting = [(''scanned_at'', True)]"

definition results_init :: results_state where
  "results_init = \<lparr>rs_view = ViewLatest, rs_page = 1, rs_pageSize = 50, rs_sorting = latestSorting, rs_search = [],
     rs_deferredSearch = [], rs_agentId = [], rs_jobId = [], rs_geo = no_geo, rs_available = lit ''true'',
     rs_timeRange = Range24h\<rparr>"

text \<open>\<open>sort\<close> is cast from a column identifier; an identifier that is no \<open>ResultSort\<close> gives
  None (no reachable state has one, see below).\<close>

definition all_sorts :: "ResultSort list" where
  "all_sorts = [SortTargetIp, SortAgentName, SortColo, SortAvailable, SortLatencyMs, SortPacketLoss, SortHttpStatus, SortScannedAt]"

definition as_sort :: "string \<Rightarrow> ResultSort option" where
  "as_sort i = find (\<lambda>r. resultSort_str r = lit i) all_sorts"

definition results_sort :: "results_state \<Rightarrow> ResultSort option" where
  "results_sort s = (case rs_sorting s of (i, _) # _ \<Rightarrow> as_sort i
     | [] \<Rightarrow> Some (if rs_view s = ViewLatest then SortLatencyMs else SortScannedAt))"

definition results_order :: "results_state \<Rightarrow> ResultOrder" where
  "results_order s = (case rs_sorting s of (_, True) # _ \<Rightarrow> Desc | _ \<Rightarrow> Asc)"

definition available_filter :: "results_state \<Rightarrow> qval option" where
  "available_filter s = (if rs_available s \<noteq> [] then Some (QStr (rs_available s)) else None)"

definition facet_filters :: "results_state \<Rightarrow> ResultFacetFilters" where
  "facet_filters s = \<lparr>ff_view = Some (rs_view s), ff_agent_id = Some (rs_agentId s), ff_job_id = Some (rs_jobId s),
     ff_region = None, ff_continent = None, ff_search = Some (rs_deferredSearch s), ff_available = available_filter s,
     ff_time_range = Some (rs_timeRange s)\<rparr>"

definition effectiveGeo :: "results_state \<Rightarrow> ResultColoFacet list option \<Rightarrow> geo_selection" where
  "effectiveGeo s facets = normalizeGeoSelection (nullish facets []) (rs_geo s)"

definition job_filters :: "results_state \<Rightarrow> ResultJobFilters" where
  "job_filters s = \<lparr>rf_view = Some (rs_view s), rf_agent_id = Some (rs_agentId s), rf_job_id = None, rf_region = None,
     rf_continent = None, rf_search = None, rf_colo = None, rf_colo_city = None, rf_colo_country = None,
     rf_colo_continent = None, rf_available = available_filter s, rf_time_range = Some (rs_timeRange s),
     rf_page = None, rf_page_size = None, rf_sort = None, rf_order = None\<rparr>"

definition result_filters :: "results_state \<Rightarrow> geo_selection \<Rightarrow> ResultFilters" where
  "result_filters s g = \<lparr>rf_view = Some (rs_view s), rf_agent_id = Some (rs_agentId s), rf_job_id = Some (rs_jobId s),
     rf_region = None, rf_continent = None, rf_search = Some (rs_deferredSearch s), rf_colo = Some (gs_colo g),
     rf_colo_city = Some (gs_city g), rf_colo_country = Some (gs_country g), rf_colo_continent = Some (gs_continent g),
     rf_available = available_filter s, rf_time_range = Some (rs_timeRange s), rf_page = Some (rs_page s),
     rf_page_size = Some (rs_pageSize s), rf_sort = results_sort s, rf_order = Some (results_order s)\<rparr>"

subsection \<open>The handlers\<close>

datatype results_query = ResultsQ | AgentsQ | FacetsQ | JobsQ

datatype results_action =
    RsView ResultView | RsSearch jsstr | RsAgent jsstr | RsJob jsstr | RsColo jsstr | RsContinent jsstr
  | RsCountry jsstr | RsCity jsstr | RsAvailable jsstr | RsTimeRange ResultTimeRange | RsPagination int int
  | RsSorting sorting | RsReset | RsCopyIp jsstr | RsCopyRay jsstr | RsToggleColumn string bool | RsRefetch results_query

definition resetGeoFilters :: "results_state \<Rightarrow> results_state" where
  "resetGeoFilters s = s\<lparr>rs_geo := no_geo\<rparr>"

definition changeView :: "ResultView \<Rightarrow> results_state \<Rightarrow> results_state" where
  "changeView next' s = (resetGeoFilters (s\<lparr>rs_view := next', rs_page := 1, rs_jobId := [],
       rs_available := (if next' = ViewLatest then lit ''true'' else [])\<rparr>))
     \<lparr>rs_sorting := (if next' = ViewLatest then latestSorting else historySorting)\<rparr>"

definition resetAll :: "results_state \<Rightarrow> results_state" where
  "resetAll s = resetGeoFilters (s\<lparr>rs_page := 1, rs_search := [], rs_agentId := [], rs_jobId := [],
     rs_available := lit ''true'', rs_timeRange := Range24h\<rparr>)"

fun results_step :: "results_action \<Rightarrow> results_state \<Rightarrow> results_state" where
  "results_step (RsView v) s = changeView v s"
| "results_step (RsSearch v) s = s\<lparr>rs_search := v, rs_page := 1\<rparr>"
| "results_step (RsAgent v) s = (resetGeoFilters (s\<lparr>rs_agentId := v, rs_jobId := []\<rparr>))\<lparr>rs_page := 1\<rparr>"
| "results_step (RsJob v) s = (resetGeoFilters (s\<lparr>rs_jobId := v\<rparr>))\<lparr>rs_page := 1\<rparr>"
| "results_step (RsColo v) s = s\<lparr>rs_geo := (rs_geo s)\<lparr>gs_colo := v\<rparr>, rs_page := 1\<rparr>"
| "results_step (RsContinent v) s =
     s\<lparr>rs_geo := \<lparr>gs_continent = v, gs_country = [], gs_city = [], gs_colo = []\<rparr>, rs_page := 1\<rparr>"
| "results_step (RsCountry v) s =
     s\<lparr>rs_geo := (rs_geo s)\<lparr>gs_country := v, gs_city := [], gs_colo := []\<rparr>, rs_page := 1\<rparr>"
| "results_step (RsCity v) s = s\<lparr>rs_geo := (rs_geo s)\<lparr>gs_city := v, gs_colo := []\<rparr>, rs_page := 1\<rparr>"
| "results_step (RsAvailable v) s = (resetGeoFilters (s\<lparr>rs_available := v\<rparr>))\<lparr>rs_page := 1\<rparr>"
| "results_step (RsTimeRange v) s = (resetGeoFilters (s\<lparr>rs_timeRange := v, rs_jobId := []\<rparr>))\<lparr>rs_page := 1\<rparr>"
| "results_step (RsPagination i n) s = s\<lparr>rs_page := i + 1, rs_pageSize := n\<rparr>"
| "results_step (RsSorting next') s = s\<lparr>rs_sorting := take 1 next', rs_page := 1\<rparr>"
| "results_step RsReset s = resetAll s"
| "results_step _ s = s"

text \<open>React commits the deferred search in a render of its own.\<close>

definition commit_search :: "results_state \<Rightarrow> results_state" where
  "commit_search s = s\<lparr>rs_deferredSearch := js_trim (rs_search s)\<rparr>"

text \<open>The clipboard is written first; the toast appears when that has succeeded.\<close>

fun results_effects :: "results_action \<Rightarrow> bool \<Rightarrow> effect list" where
  "results_effects (RsCopyIp ip) done' = ClipboardWrite ip # (if done' then [ToastSuccess t_ip_copied None] else [])"
| "results_effects (RsCopyRay r) done' = ClipboardWrite r # (if done' then [ToastSuccess t_ray_copied None] else [])"
| "results_effects _ _ = []"

subsection \<open>The toolbar\<close>

definition facetOptions :: "GeoFacetOption list \<Rightarrow> combo_option list" where
  "facetOptions options = map (\<lambda>item. \<lparr>so_value = go_value item, so_label = go_label item,
     so_searchText = Some (go_label item), so_countLabel = Some (formatNumber (Some (go_count item))), so_disabled = False\<rparr>) options"

definition FacetCombobox :: "jsstr \<Rightarrow> jsstr \<Rightarrow> jsstr \<Rightarrow> GeoFacetOption list \<Rightarrow> (jsstr \<Rightarrow> 'e) \<Rightarrow> 'e node" where
  "FacetCombobox value placeholder searchPlaceholder options onChange =
     SearchableCombobox value (facetOptions options) onChange placeholder (Some searchPlaceholder)
       (Some t_no_geo_option) (Some (combo [] placeholder)) (options = [])"

text \<open>The properties of the table, as the page passes them.\<close>

record results_props =
  rt_page :: ResultPage
  rt_agents :: "Agent list"
  rt_facets :: "ResultColoFacet list"
  rt_jobs :: "ResultJobFacet list"
  rt_geo :: geo_selection

definition job_option :: "ResultJobFacet \<Rightarrow> combo_option" where
  "job_option j = \<lparr>so_value = jf_id j, so_label = jf_name j, so_searchText = Some (jf_name j @ lit '' '' @ jf_kind j),
     so_countLabel = Some (formatNumber (Some (jf_count j))), so_disabled = False\<rparr>"

definition agent_option :: "Agent \<Rightarrow> combo_option" where
  "agent_option a = \<lparr>so_value = ag_id a, so_label = ag_name a @ t_dot_sep @ ag_region a,
     so_searchText = Some (ag_name a @ lit '' '' @ ag_region a @ lit '' '' @ ag_continent a),
     so_countLabel = None, so_disabled = False\<rparr>"

definition results_filtered :: "results_state \<Rightarrow> geo_selection \<Rightarrow> bool" where
  "results_filtered s g \<longleftrightarrow> rs_search s \<noteq> [] \<or> rs_agentId s \<noteq> [] \<or> rs_jobId s \<noteq> [] \<or> gs_colo g \<noteq> []
     \<or> gs_continent g \<noteq> [] \<or> gs_country g \<noteq> [] \<or> gs_city g \<noteq> [] \<or> rs_available s \<noteq> lit ''true''
     \<or> rs_timeRange s \<noteq> Range24h"

definition select_items :: "jsstr \<Rightarrow> (jsstr \<times> 'e \<times> jsstr) list \<Rightarrow> 'e node" where
  "select_items value items = El ''Select'' [Attr ''value'' value]
     (map (\<lambda>(v, act, label). El ''SelectItem'' [Attr ''value'' v, On ''select'' act] [Txt label]) items)"

lemma offers_select_items [simp]: "offers e (select_items v items) \<longleftrightarrow> e \<in> (fst \<circ> snd) ` set items"
  by (induction items) (auto simp: select_items_def)

lemma acts_select_items [simp]: "acts P (select_items v items) \<longleftrightarrow> (\<forall>(v, a, l) \<in> set items. P a)"
  by (auto simp: select_items_def list_all_iff)

definition ResultsToolbar ::
  "(jsstr \<Rightarrow> jsstr \<Rightarrow> rat) \<Rightarrow> results_state \<Rightarrow> results_props \<Rightarrow> results_action node \<Rightarrow> results_action node" where
  "ResultsToolbar cmp s p viewOptions =
     (let g = rt_geo p; geoOptions = buildGeoFacetOptions cmp (rt_facets p) g; n = rp_counts (rt_page p) in
      el ''div''
       [SearchInput (rs_search s) t_search_ip RsSearch,
        SearchableCombobox (rs_jobId s) (map job_option (rt_jobs p)) RsJob t_all_jobs (Some t_search_jobs)
          (Some t_no_job_option) (Some (combo [] t_all_jobs)) False,
        SearchableCombobox (rs_agentId s) (map agent_option (rt_agents p)) RsAgent t_all_agents (Some t_search_agents_regions)
          (Some t_no_agent_option) (Some (combo [] t_all_agents)) False,
        select_items (str_or (rs_available s) (lit ''all''))
          [(lit ''all'', RsAvailable [], t_all_states @ formatNumber (Some (rc_all n))),
           (lit ''true'', RsAvailable (lit ''true''), t_only_available @ formatNumber (Some (rc_available n))),
           (lit ''false'', RsAvailable (lit ''false''), t_only_failed @ formatNumber (Some (rc_failed n)))],
        select_items (resultTimeRange_str (rs_timeRange s))
          [(lit ''1h'', RsTimeRange Range1h, t_last_1h), (lit ''24h'', RsTimeRange Range24h, t_last_24h),
           (lit ''7d'', RsTimeRange Range7d, t_last_7d), (lit ''30d'', RsTimeRange Range30d, t_last_30d),
           (lit ''all'', RsTimeRange RangeAll, t_all_history)],
        DataTableResetButton (\<not> results_filtered s g) RsReset,
        viewOptions,
        FacetCombobox (gs_continent g) t_all_continents t_search_continents (opt_continents geoOptions) RsContinent,
        FacetCombobox (gs_country g) t_all_countries t_search_countries (opt_countries geoOptions) RsCountry,
        FacetCombobox (gs_city g) t_all_cities t_search_cities (opt_cities geoOptions) RsCity,
        FacetCombobox (gs_colo g) t_all_colos t_search_colos (opt_colos geoOptions) RsColo])"

subsection \<open>The table\<close>

definition result_failure :: "ScanResult \<Rightarrow> jsstr" where
  "result_failure r = str_or (opt_str (sr_error_code r)) t_st_failed"

definition http_status_text :: "ScanResult \<Rightarrow> jsstr" where
  "http_status_text r = (if sr_http_status r = 0 then t_dash else show_int (sr_http_status r))"

definition result_location :: "ScanResult \<Rightarrow> 'e node" where
  "result_location r = ColoLocationLabel (sr_colo r) (sr_colo_city r) (sr_colo_country r) (sr_colo_continent r) False"

definition results_columns :: "intl \<Rightarrow> (ScanResult, results_action) column list" where
  "results_columns I =
     [\<lparr>col_id = ''target_ip'', col_label = lit ''IP'', col_sortable = True, col_hideable = True,
       col_cell = (\<lambda>r. el ''div'' [el ''p'' [Txt (sr_target_ip r)], el ''p'' [Txt (sr_job_name r)]])\<rparr>,
      \<lparr>col_id = ''agent_name'', col_label = lit ''Agent'', col_sortable = True, col_hideable = True,
       col_cell = (\<lambda>r. el ''div'' [el ''p'' [Txt (sr_agent_name r)],
         el ''p'' [Txt (sr_continent r), Txt (lit '' / ''), Txt (sr_region r)]])\<rparr>,
      \<lparr>col_id = ''colo'', col_label = t_colo_place, col_sortable = True, col_hideable = True, col_cell = result_location\<rparr>,
      \<lparr>col_id = ''latency_ms'', col_label = lit ''TTFB'', col_sortable = True, col_hideable = True,
       col_cell = (\<lambda>r. if sr_available r then el ''span'' [Txt (formatMS (Some (sr_latency_ms r)))]
         else el ''Badge'' [Txt (result_failure r)])\<rparr>,
      \<lparr>col_id = ''connection'', col_label = t_connect_time, col_sortable = False, col_hideable = True,
       col_cell = (\<lambda>r. el ''div'' [el ''p'' [Txt (formatMS (Some (sr_tcp_connect_ms r)))],
         el ''p'' [Txt (formatMS (Some (sr_tls_handshake_ms r)))]])\<rparr>,
      \<lparr>col_id = ''packet_loss'', col_label = t_loss_rate, col_sortable = True, col_hideable = True,
       col_cell = (\<lambda>r. El ''span'' [Flag ''amber'' (sr_packet_loss r > 0)] [Txt (formatPercent (Some (sr_packet_loss r)) 0)])\<rparr>,
      \<lparr>col_id = ''http_status'', col_label = lit ''HTTP'', col_sortable = True, col_hideable = True,
       col_cell = (\<lambda>r. el ''div'' [el ''p'' [Txt (http_status_text r)],
         el ''p'' [Txt (str_or (str_or (sr_http_version r) (sr_tls_version r)) t_dash)]])\<rparr>,
      \<lparr>col_id = ''scanned_at'', col_label = t_scan_time, col_sortable = True, col_hideable = True,
       col_cell = (\<lambda>r. el ''span'' [text_or_throw (formatDate I (Some (sr_scanned_at r)))])\<rparr>,
      \<lparr>col_id = ''actions'', col_label = t_operations, col_sortable = False, col_hideable = False,
       col_cell = (\<lambda>r. el ''DropdownMenu''
         [El ''DropdownMenuTrigger'' [Attr ''aria-label'' t_result_operations] [],
          el ''DropdownMenuLabel'' [Txt t_result_operations],
          El ''DropdownMenuItem'' [On ''click'' (RsCopyIp (sr_target_ip r))] [Txt t_copy_ip],
          show_if (sr_cf_ray r \<noteq> []) (El ''DropdownMenuItem'' [On ''click'' (RsCopyRay (sr_cf_ray r))] [Txt t_copy_ray])])\<rparr>]"

definition result_card :: "intl \<Rightarrow> ScanResult \<Rightarrow> results_action node" where
  "result_card I r = el ''Card''
     [el ''p'' [Txt (sr_target_ip r)], el ''p'' [Txt (sr_agent_name r), Txt t_dot_sep, Txt (sr_region r)],
      el ''p'' [Txt (sr_job_name r)], result_location r,
      el ''div'' [el ''p'' [Txt (lit ''TTFB'')],
                el ''p'' [Txt (if sr_available r then formatMS (Some (sr_latency_ms r)) else result_failure r)]],
      el ''div'' [el ''p'' [Txt t_loss], el ''p'' [Txt (formatPercent (Some (sr_packet_loss r)) 0)]],
      el ''div'' [el ''p'' [Txt (lit ''HTTP'')], el ''p'' [Txt (http_status_text r)]],
      el ''p'' [text_or_throw (formatDate I (Some (sr_scanned_at r)))]]"

text \<open>The page is the one the server answered with; the table counts from 0.\<close>

definition results_pagination :: "ResultPage \<Rightarrow> server_pagination" where
  "results_pagination p = \<lparr>sp_pageIndex = rp_page p - 1, sp_pageSize = rp_page_size p,
     sp_pageCount = rp_total_pages p, sp_total = rp_total p\<rparr>"

definition ResultsTable ::
  "intl \<Rightarrow> results_state \<Rightarrow> results_props \<Rightarrow> results_action node \<Rightarrow> ScanResult table_view
    \<Rightarrow> results_action dt_action node" where
  "ResultsTable I s p viewOptions tv =
     DataTable (results_columns I) tv (length (rp_items (rt_page p))) t_no_results
       t_no_results_sub
       (Some (ResultsToolbar (locale_compare I) s p viewOptions)) (Some (result_card I)) (nat (rp_page_size (rt_page p)))
       (Some (results_pagination (rt_page p)))"

subsection \<open>The page\<close>

definition ResultsPage ::
  "intl \<Rightarrow> results_state \<Rightarrow> ResultPage query_state \<Rightarrow> Agent list query_state \<Rightarrow> ResultColoFacet list query_state
    \<Rightarrow> ResultJobFacet list query_state \<Rightarrow> results_action node \<Rightarrow> ScanResult table_view \<Rightarrow> results_action dt_action node" where
  "ResultsPage I s results agents facets jobs viewOptions tv =
     (case results of QError e \<Rightarrow> ErrorState None (Some e) (Some (Item (RsRefetch ResultsQ))) | _ \<Rightarrow>
      case agents of QError e \<Rightarrow> ErrorState (Some t_agents_failed) (Some e) (Some (Item (RsRefetch AgentsQ))) | _ \<Rightarrow>
      case facets of QError e \<Rightarrow> ErrorState (Some t_facets_failed) (Some e) (Some (Item (RsRefetch FacetsQ))) | _ \<Rightarrow>
      case jobs of QError e \<Rightarrow> ErrorState (Some t_jobs_failed) (Some e) (Some (Item (RsRefetch JobsQ))) | _ \<Rightarrow>
      (case (results, agents, facets, jobs) of
         (QData r, QData a, QData f, QData j) \<Rightarrow> el ''div''
           [PageHeader None t_nav_results t_results_sub
              (Some (el ''Badge'' [Txt t_total_of, Txt (formatNumber (Some (rp_total r))), Txt t_matching_results])),
            El ''Tabs'' [Attr ''value'' (resultView_str (rs_view s))]
              [El ''TabsTrigger'' [On ''select'' (Item (RsView ViewLatest))] [Txt t_latest_results],
               El ''TabsTrigger'' [On ''select'' (Item (RsView ViewHistory))] [Txt t_history_records]],
            el ''div'' [Txt (if rs_view s = ViewLatest
              then t_latest_help
              else t_history_help)],
            ResultsTable I s \<lparr>rt_page = r, rt_agents = a, rt_facets = f, rt_jobs = j, rt_geo = effectiveGeo s (Some f)\<rparr>
              viewOptions tv]
       | _ \<Rightarrow> PageSkeleton (Some 10)))"

subsection \<open>Every query the page sends\<close>

text \<open>The states the page can reach: the user acts through its controls, the table library calls back
  with identifiers of sortable columns, an index of a page and a size of the list, and React commits the
  deferred search at any time.\<close>

definition sortable_ids :: "string list" where
  "sortable_ids = [''target_ip'', ''agent_name'', ''colo'', ''latency_ms'', ''packet_loss'', ''http_status'', ''scanned_at'']"

lemma sortable_ids_columns: "map col_id (filter col_sortable (results_columns I)) = sortable_ids"
  by (simp add: results_columns_def sortable_ids_def)

fun results_call_ok :: "results_action \<Rightarrow> bool" where
  "results_call_ok (RsSorting next') = list_all (\<lambda>(i, _). i \<in> set sortable_ids) next'"
| "results_call_ok (RsPagination i n) = (0 \<le> i \<and> i < 1000000 \<and> n \<in> {50, 100, 200})"
| "results_call_ok (RsAvailable v) = (v \<in> {[], lit ''true'', lit ''false''})"
| "results_call_ok _ = True"

inductive results_reach :: "results_state \<Rightarrow> bool" where
  reach_init: "results_reach results_init"
| reach_commit: "results_reach s \<Longrightarrow> results_reach (commit_search s)"
| reach_step: "results_reach s \<Longrightarrow> results_call_ok a \<Longrightarrow> results_reach (results_step a s)"

definition results_inv :: "results_state \<Rightarrow> bool" where
  "results_inv s \<longleftrightarrow> 1 \<le> rs_page s \<and> rs_page s \<le> 1000000 \<and> rs_pageSize s \<in> {50, 100, 200}
     \<and> length (rs_sorting s) \<le> 1 \<and> list_all (\<lambda>(i, _). i \<in> set sortable_ids) (rs_sorting s)
     \<and> rs_available s \<in> {[], lit ''true'', lit ''false''}"

lemma results_inv_init: "results_inv results_init"
  by (simp add: results_inv_def results_init_def latestSorting_def sortable_ids_def)

lemma results_inv_commit: "results_inv s \<Longrightarrow> results_inv (commit_search s)"
  by (simp add: results_inv_def commit_search_def)

lemma results_inv_geo [simp]: "results_inv (resetGeoFilters s) \<longleftrightarrow> results_inv s"
  by (simp add: results_inv_def resetGeoFilters_def)

lemma list_all_take: "list_all P xs \<Longrightarrow> list_all P (take n xs)"
  by (auto simp: list_all_iff dest: in_set_takeD)

lemma results_inv_step: "results_inv s \<Longrightarrow> results_call_ok a \<Longrightarrow> results_inv (results_step a s)"
  by (cases a; simp add: results_inv_def changeView_def resetAll_def resetGeoFilters_def latestSorting_def
      historySorting_def sortable_ids_def list_all_take)

lemma results_reach_inv: "results_reach s \<Longrightarrow> results_inv s"
  by (induction rule: results_reach.induct) (auto intro: results_inv_init results_inv_commit results_inv_step)

lemma as_sort_sortable: "i \<in> set sortable_ids \<Longrightarrow> \<exists>r. as_sort i = Some r \<and> resultSort_str r = lit i"
  by (auto simp: sortable_ids_def as_sort_def all_sorts_def)

lemma results_sort_sent: "results_inv s \<Longrightarrow> \<exists>r. results_sort s = Some r"
proof (cases "rs_sorting s")
  case (Cons x xs)
  assume "results_inv s"
  then have "fst x \<in> set sortable_ids" using Cons by (auto simp: results_inv_def)
  then show ?thesis using as_sort_sortable [of "fst x"] Cons by (auto simp: results_sort_def split: prod.splits)
qed (simp add: results_sort_def)

text \<open>What the server reads from a state.\<close>

definition server_view :: "results_state \<Rightarrow> geo_selection \<Rightarrow> ResultSort \<Rightarrow> result_filter" where
  "server_view s g r = \<lparr>rq_View = resultView_str (rs_view s), rq_AgentID = TrimSpace (rs_agentId s),
     rq_JobID = TrimSpace (rs_jobId s), rq_Region = [], rq_Continent = [], rq_TargetIP = TrimSpace (rs_deferredSearch s),
     rq_Colo = TrimSpace (gs_colo g), rq_ColoCity = TrimSpace (gs_city g), rq_ColoCountry = TrimSpace (gs_country g),
     rq_ColoContinent = TrimSpace (gs_continent g),
     rq_Available = (if rs_available s = [] then None else Some (rs_available s = lit ''true'')),
     rq_Since = (case rs_timeRange s of Range1h \<Rightarrow> Some 1 | Range24h \<Rightarrow> Some 24 | Range7d \<Rightarrow> Some 168
       | Range30d \<Rightarrow> Some 720 | RangeAll \<Rightarrow> None),
     rq_Page = rs_page s, rq_PageSize = rs_pageSize s, rq_Sort = resultSort_str r,
     rq_Order = resultOrder_str (results_order s)\<rparr>"

definition well_formed_state :: "results_state \<Rightarrow> geo_selection \<Rightarrow> bool" where
  "well_formed_state s g \<longleftrightarrow> list_all well_formed [rs_agentId s, rs_jobId s, rs_deferredSearch s, gs_colo g, gs_city g,
     gs_country g, gs_continent g, rs_available s]"

lemma result_entries_sendable:
  assumes "well_formed_state s g"
  shows "sendable (resultFilterEntries (result_filters s g))"
proof -
  have "well_formed (resultView_str v)" "well_formed (resultTimeRange_str t)" "well_formed (resultSort_str r)"
    "well_formed (resultOrder_str d)" for v t r d
    by ((cases v; simp), (cases t; simp), (cases r; simp), (cases d; simp))
  then show ?thesis using assms
    by (auto simp: sendable_def resultFilterEntries_def result_filters_def q_str_def q_num_def available_filter_def
        well_formed_state_def split: option.splits)
qed

lemma result_entry_texts:
  "entry_text (resultFilterEntries (result_filters s g)) ''view'' = resultView_str (rs_view s)"
  "entry_text (resultFilterEntries (result_filters s g)) ''agent_id'' = rs_agentId s"
  "entry_text (resultFilterEntries (result_filters s g)) ''job_id'' = rs_jobId s"
  "entry_text (resultFilterEntries (result_filters s g)) ''region'' = []"
  "entry_text (resultFilterEntries (result_filters s g)) ''continent'' = []"
  "entry_text (resultFilterEntries (result_filters s g)) ''search'' = rs_deferredSearch s"
  "entry_text (resultFilterEntries (result_filters s g)) ''colo'' = gs_colo g"
  "entry_text (resultFilterEntries (result_filters s g)) ''colo_city'' = gs_city g"
  "entry_text (resultFilterEntries (result_filters s g)) ''colo_country'' = gs_country g"
  "entry_text (resultFilterEntries (result_filters s g)) ''colo_continent'' = gs_continent g"
  "entry_text (resultFilterEntries (result_filters s g)) ''available'' = rs_available s"
  "entry_text (resultFilterEntries (result_filters s g)) ''time_range'' = resultTimeRange_str (rs_timeRange s)"
  "entry_text (resultFilterEntries (result_filters s g)) ''page'' = show_int (rs_page s)"
  "entry_text (resultFilterEntries (result_filters s g)) ''page_size'' = show_int (rs_pageSize s)"
  "results_sort s = Some r \<Longrightarrow> entry_text (resultFilterEntries (result_filters s g)) ''sort'' = resultSort_str r"
  "entry_text (resultFilterEntries (result_filters s g)) ''order'' = resultOrder_str (results_order s)"
  by (simp_all add: entry_text_def resultFilterEntries_def result_filters_def q_str_def q_num_def available_filter_def)

lemma lower_order: "ascii_lower (resultOrder_str d) = resultOrder_str d"
  by (cases d) (simp_all add: ascii_lower_def lit_def)

lemma range_hours_time: "map_of range_hours (resultTimeRange_str t) = Some (case t of Range1h \<Rightarrow> Some 1 | Range24h \<Rightarrow> Some 24
    | Range7d \<Rightarrow> Some 168 | Range30d \<Rightarrow> Some 720 | RangeAll \<Rightarrow> None)"
  by (cases t) (simp_all add: range_hours_def)

lemma result_strs_nonempty [simp]:
  "resultView_str v \<noteq> []" "resultSort_str r \<noteq> []" "resultOrder_str d \<noteq> []"
  by ((cases v; simp), (cases r; simp), (cases d; simp))

lemma sort_allowed [simp]: "resultSort_str r \<in> set allowedSorts"
  by (cases r) (simp_all add: allowedSorts_def)

lemma view_order_allowed:
  "resultView_str v = lit ''latest'' \<or> resultView_str v = lit ''history''"
  "resultOrder_str d = lit ''asc'' \<or> resultOrder_str d = lit ''desc''"
  by ((cases v; simp), (cases d; simp))

lemma available_parsed:
  "v \<in> {[], lit ''true'', lit ''false''} \<Longrightarrow> v \<noteq> [] \<Longrightarrow> ParseBool v = Some (v = lit ''true'')"
  by (auto simp: ParseBool_def)

lemma server_reads_state:
  assumes "results_inv s" "well_formed_state s g" "results_sort s = Some r"
  shows "resultFilterFromRequest (createQueryString (resultFilterEntries (result_filters s g))) True = Inr (server_view s g r)"
proof -
  let ?vs = "resultFilterEntries (result_filters s g)"
  note G = Get_entry [OF result_entries_sendable [OF assms(2)]] result_entry_texts
  have n: "queryInt (createQueryString ?vs) ''page'' 1 = rs_page s" "queryInt (createQueryString ?vs) ''page_size'' 50 = rs_pageSize s"
    using assms(1) by (auto simp: queryInt_def G results_inv_def)
  have sz: "\<not> 200 < rs_pageSize s" and av: "rs_available s \<in> {[], lit ''true'', lit ''false''}"
    using assms(1) by (auto simp: results_inv_def)
  show ?thesis
    using view_order_allowed(1) [of "rs_view s"] view_order_allowed(2) [of "results_order s"] sz available_parsed [OF av]
    by (auto simp: resultFilterFromRequest_def server_view_def n G(1) result_entry_texts(1-14,16)
        result_entry_texts(15) [OF assms(3)] lower_order range_hours_time str_or_nonempty Let_def)
qed

text \<open>C7. In every state the page can reach, whatever the effective geographic selection, the server accepts the query string of the results query and reads from it exactly that state: view, agent, job, search, geography, availability, time range, page, page size, sort key and order (each text trimmed). No reachable state sends a page, a page size or a sort key the server refuses.\<close>

theorem results_query_understood:
  assumes "results_reach s" and "well_formed_state s g"
  shows "\<exists>r. results_sort s = Some r
    \<and> resultFilterFromRequest (createQueryString (resultFilterEntries (result_filters s g))) True = Inr (server_view s g r)
    \<and> 1 \<le> rs_page s \<and> rs_pageSize s \<in> {50, 100, 200}"
proof -
  note inv = results_reach_inv [OF assms(1)]
  obtain r where "results_sort s = Some r" using results_sort_sent [OF inv] by blast
  with server_reads_state [OF inv assms(2)] inv show ?thesis by (auto simp: results_inv_def)
qed

lemma sample_results_run:
  "results_reach (results_step (RsPagination 2 100) (commit_search (results_step (RsSearch (lit ''1.1'')) results_init)))"
  by (intro reach_step reach_commit reach_init) simp_all

theorem results_query_understood_witness:
  "\<exists>r. resultFilterFromRequest (createQueryString (resultFilterEntries (result_filters
       (results_step (RsPagination 2 100) (commit_search (results_step (RsSearch (lit ''1.1'')) results_init))) no_geo))) True
     = Inr (server_view (results_step (RsPagination 2 100) (commit_search (results_step (RsSearch (lit ''1.1'')) results_init))) no_geo r)"
proof -
  have t: "js_trim (lit ''1.1'') = lit ''1.1''" by (simp add: js_trim_def lit_def is_ws_def)
  have "well_formed_state (results_step (RsPagination 2 100) (commit_search (results_step (RsSearch (lit ''1.1'')) results_init))) no_geo"
    by (simp add: well_formed_state_def results_init_def commit_search_def no_geo_def t)
  from results_query_understood [OF sample_results_run this] show ?thesis by blast
qed

subsection \<open>What a filter change resets\<close>

text \<open>A handler that changes the state leaves the user on the first page, paging itself apart, so no filter change can strand the list on a page that no longer exists. The filters that depend on a changed one are cleared: a new view, agent, job, availability or time range drops the geographic selection, a new view, agent or time range drops the job, and a new continent, country or city drops the finer levels.\<close>

theorem dependent_filters_cleared:
  "(results_step a s = s \<or> (\<exists>i n. a = RsPagination i n) \<or> rs_page (results_step a s) = 1)
   \<and> (rs_view (results_step a s) \<noteq> rs_view s \<or> rs_agentId (results_step a s) \<noteq> rs_agentId s
       \<or> rs_timeRange (results_step a s) \<noteq> rs_timeRange s
      \<longrightarrow> rs_jobId (results_step a s) = [] \<and> rs_geo (results_step a s) = no_geo)
   \<and> (rs_jobId (results_step a s) \<noteq> rs_jobId s \<or> rs_available (results_step a s) \<noteq> rs_available s
      \<longrightarrow> rs_geo (results_step a s) = no_geo)
   \<and> (gs_continent (rs_geo (results_step a s)) \<noteq> gs_continent (rs_geo s) \<longrightarrow> gs_country (rs_geo (results_step a s)) = [])
   \<and> (gs_country (rs_geo (results_step a s)) \<noteq> gs_country (rs_geo s) \<longrightarrow> gs_city (rs_geo (results_step a s)) = [])
   \<and> (gs_city (rs_geo (results_step a s)) \<noteq> gs_city (rs_geo s) \<longrightarrow> gs_colo (rs_geo (results_step a s)) = [])"
  by (cases a) (simp_all add: changeView_def resetAll_def resetGeoFilters_def no_geo_def)

theorem dependent_filters_cleared_witness:
  "rs_page (results_step (RsAgent (lit ''a'')) (results_init\<lparr>rs_page := 7, rs_geo := sample_selection\<rparr>)) = 1
   \<and> rs_geo (results_step (RsAgent (lit ''a'')) (results_init\<lparr>rs_page := 7, rs_geo := sample_selection\<rparr>)) = no_geo"
  using dependent_filters_cleared [of "RsAgent (lit ''a'')" "results_init\<lparr>rs_page := 7, rs_geo := sample_selection\<rparr>"]
  by (simp add: results_init_def resetGeoFilters_def)

text \<open>The reset brings the latest results back to the state of the first visit, except for the size and
  order of the list. In the history view it is no inverse of entering the view: entering shows every
  result, the reset leaves only the available ones; and a history view that was just opened counts as
  filtered.\<close>

lemma reset_latest:
  "rs_view s = ViewLatest \<Longrightarrow>
   commit_search (resetAll s) = results_init\<lparr>rs_pageSize := rs_pageSize s, rs_sorting := rs_sorting s\<rparr>
   \<and> \<not> results_filtered (resetAll s) (effectiveGeo (resetAll s) facets)"
  by (simp add: resetAll_def resetGeoFilters_def results_init_def commit_search_def js_trim_def results_filtered_def
      effectiveGeo_def normalizeGeoSelection_def no_geo_def Let_def)

lemma reset_history_differs:
  "rs_available (changeView ViewHistory s) = [] \<and> rs_available (resetAll (changeView ViewHistory s)) = lit ''true''
   \<and> results_filtered (changeView ViewHistory s) g"
  by (simp add: changeView_def resetAll_def resetGeoFilters_def results_filtered_def)

subsection \<open>No filter is stuck\<close>

lemma offers_FacetCombobox:
  "options \<noteq> [] \<Longrightarrow> offers (f []) (FacetCombobox v pl sp options f)"
  by (simp add: FacetCombobox_def SearchableCombobox_def Let_def)

lemma toolbar_clears:
  assumes "g = rt_geo p" "backed (rt_facets p) g"
  shows "gs_continent g \<noteq> [] \<Longrightarrow> offers (RsContinent []) (ResultsToolbar cmp s p vo)"
    "gs_country g \<noteq> [] \<Longrightarrow> offers (RsCountry []) (ResultsToolbar cmp s p vo)"
    "gs_city g \<noteq> [] \<Longrightarrow> offers (RsCity []) (ResultsToolbar cmp s p vo)"
    "gs_colo g \<noteq> [] \<Longrightarrow> offers (RsColo []) (ResultsToolbar cmp s p vo)"
proof -
  define opts where "opts = buildGeoFacetOptions cmp (rt_facets p) (rt_geo p)"
  have t: "offers e (ResultsToolbar cmp s p vo)"
    if "offers e (FacetCombobox (gs_continent g) t_all_continents t_search_continents (opt_continents opts) RsContinent)
      \<or> offers e (FacetCombobox (gs_country g) t_all_countries t_search_countries (opt_countries opts) RsCountry)
      \<or> offers e (FacetCombobox (gs_city g) t_all_cities t_search_cities (opt_cities opts) RsCity)
      \<or> offers e (FacetCombobox (gs_colo g) t_all_colos t_search_colos (opt_colos opts) RsColo)" for e
    using that by (simp add: ResultsToolbar_def opts_def assms(1) Let_def)
  note b = backed_offered [OF assms(2) opts_def [folded assms(1)]]
  show "gs_continent g \<noteq> [] \<Longrightarrow> offers (RsContinent []) (ResultsToolbar cmp s p vo)"
    using b(1) by (intro t) (auto intro!: offers_FacetCombobox)
  show "gs_country g \<noteq> [] \<Longrightarrow> offers (RsCountry []) (ResultsToolbar cmp s p vo)"
    using b(2) by (intro t) (auto intro!: offers_FacetCombobox)
  show "gs_city g \<noteq> [] \<Longrightarrow> offers (RsCity []) (ResultsToolbar cmp s p vo)"
    using b(3) by (intro t) (auto intro!: offers_FacetCombobox)
  show "gs_colo g \<noteq> [] \<Longrightarrow> offers (RsColo []) (ResultsToolbar cmp s p vo)"
    using b(4) by (intro t) (auto intro!: offers_FacetCombobox)
qed

lemma page_offers_toolbar:
  assumes "offers e (ResultsToolbar (locale_compare I) s
      \<lparr>rt_page = r, rt_agents = a, rt_facets = f, rt_jobs = j, rt_geo = effectiveGeo s (Some f)\<rparr> vo)"
  shows "offers (Item e) (ResultsPage I s (QData r) (QData a) (QData f) (QData j) vo tv)"
  using offers_map_node [OF assms, of Item] by (simp add: ResultsPage_def ResultsTable_def DataTable_def Let_def)

text \<open>C12. The results page never traps the user in a filter: whenever the data are shown, each level of the effective geographic selection that is active can be cleared with its own combobox (it is enabled exactly because the facets still support the level), and if anything at all is filtered the reset button is enabled.\<close>

theorem active_filters_clearable:
  assumes "g = effectiveGeo s (Some f)" and "page = ResultsPage I s (QData r) (QData a) (QData f) (QData j) vo tv"
  shows "(gs_continent g \<noteq> [] \<longrightarrow> offers (Item (RsContinent [])) page)
    \<and> (gs_country g \<noteq> [] \<longrightarrow> offers (Item (RsCountry [])) page)
    \<and> (gs_city g \<noteq> [] \<longrightarrow> offers (Item (RsCity [])) page)
    \<and> (gs_colo g \<noteq> [] \<longrightarrow> offers (Item (RsColo [])) page)
    \<and> (results_filtered s g \<longrightarrow> offers (Item RsReset) page)"
proof -
  let ?p = "\<lparr>rt_page = r, rt_agents = a, rt_facets = f, rt_jobs = j, rt_geo = effectiveGeo s (Some f)\<rparr>"
  have "backed (rt_facets ?p) g" using normalize_backed by (simp add: assms(1) effectiveGeo_def)
  note t = toolbar_clears [OF _ this, of "locale_compare I" s vo]
  have "offers RsReset (ResultsToolbar (locale_compare I) s ?p vo)" if "results_filtered s g"
    using that by (simp add: ResultsToolbar_def Let_def DataTableResetButton_def assms(1))
  then show ?thesis using t assms(1) by (auto simp: assms(2) intro!: page_offers_toolbar)
qed

theorem active_filters_clearable_witness:
  "offers (Item (RsCountry [])) (ResultsPage plain_intl (results_init\<lparr>rs_geo := sample_selection\<rparr>)
     (QData \<lparr>rp_items = [], rp_total = 0, rp_page = 1, rp_page_size = 50, rp_total_pages = 0,
        rp_counts = \<lparr>rc_all = 0, rc_available = 0, rc_failed = 0\<rparr>\<rparr>) (QData []) (QData sample_facets) (QData []) Null
     \<lparr>tv_rows = [], tv_pageIndex = 0, tv_pageSize = 50, tv_pageCount = 0, tv_filtered = 0, tv_canPrevious = False, tv_canNext = False\<rparr>)"
proof -
  have "gs_country (effectiveGeo (results_init\<lparr>rs_geo := sample_selection\<rparr>) (Some sample_facets)) \<noteq> []"
    by (simp add: effectiveGeo_def normalizeGeoSelection_def sample_selection_def sample_facets_def Let_def)
  then show ?thesis using active_filters_clearable [OF refl refl] by blast
qed

end
