(* ===== verification/League.thy ===== *)
theory League
  imports Results
begin

text \<open>
  The league of prefixes and candidate addresses (\<open>features/league\<close>): the page with its two
  paginated tables, the link to the trend of a candidate, and the page of the trend, which reads the
  candidate back from the address bar.
\<close>

subsection \<open>Literals\<close>

definition t_tier_champion :: jsstr where
  "t_tier_champion = [0x51A0, 0x519B, 0x5C42]"

definition t_tier_challenger :: jsstr where
  "t_tier_challenger = [0x6311, 0x6218, 0x5C42]"

definition t_tier_observation :: jsstr where
  "t_tier_observation = [0x89C2, 0x5BDF, 0x5C42]"

definition t_no_colo :: jsstr where
  "t_no_colo = [0x672A, 0x8BC6, 0x522B, 0x20, 0x63, 0x6F, 0x6C, 0x6F]"

definition t_view_trend :: jsstr where
  "t_view_trend = [0x67E5, 0x770B, 0x8D8B, 0x52BF]"

definition t_bad_window :: jsstr where
  "t_bad_window = [0x574F, 0x7A97, 0x53E3, 0x20]"

definition t_best_candidates :: jsstr where
  "t_best_candidates = [0x5019, 0x9009, 0x6700, 0x4F73, 0x20, 0x49, 0x50]"

definition t_best_candidates_sub :: jsstr where
  "t_best_candidates_sub = [0x6BCF, 0x4E2A, 0x51A0, 0x519B, 0x6216, 0x6311, 0x6218, 0x524D, 0x7F00, 0x6700, 0x591A,
     0x5C55, 0x793A, 0x4E24, 0x4E2A, 0x5019, 0x9009, 0xFF1B, 0x6392, 0x5E8F, 0x4F18, 0x5148,
     0x8003, 0x8651, 0x53EF, 0x7528, 0x7387, 0xFF0C, 0x518D, 0x6BD4, 0x8F83, 0x20, 0x50, 0x39,
     0x35, 0x20, 0x5EF6, 0x8FDF, 0x548C, 0x5E73, 0x5747, 0x4E22, 0x5305, 0x3002]"

definition t_no_candidates :: jsstr where
  "t_no_candidates = [0x6682, 0x65E0, 0x5019, 0x9009, 0x20, 0x49, 0x50, 0x3002, 0x521B, 0x5EFA, 0x201C, 0x667A,
     0x80FD, 0x7B5B, 0x9009, 0x6700, 0x4F73, 0x20, 0x49, 0x50, 0x201D, 0x626B, 0x63CF, 0x8BA1,
     0x5212, 0x540E, 0xFF0C, 0x7CFB, 0x7EDF, 0x4F1A, 0x5148, 0x4ECE, 0x89C2, 0x5BDF, 0x5C42,
     0x79EF, 0x7D2F, 0x591A, 0x20, 0x49, 0x50, 0x20, 0x6837, 0x672C, 0x3002]"

definition t_prefix_word :: jsstr where
  "t_prefix_word = [0x524D, 0x7F00]"

definition t_samples :: jsstr where
  "t_samples = [0x6837, 0x672C]"

definition t_availability :: jsstr where
  "t_availability = [0x53EF, 0x7528, 0x7387]"

definition t_p95 :: jsstr where
  "t_p95 = [0x50, 0x39, 0x35, 0x20, 0x5EF6, 0x8FDF]"

definition t_avg_loss :: jsstr where
  "t_avg_loss = [0x5E73, 0x5747, 0x4E22, 0x5305]"

definition t_last_scan :: jsstr where
  "t_last_scan = [0x6700, 0x8FD1, 0x626B, 0x63CF]"

definition t_prefix_moves :: jsstr where
  "t_prefix_moves = [0x524D, 0x7F00, 0x5347, 0x964D, 0x7EA7]"

definition t_prefix_moves_sub :: jsstr where
  "t_prefix_moves_sub = [0x5347, 0x7EA7, 0x4F9D, 0x8D56, 0x20, 0x37, 0x20, 0x5929, 0x5185, 0x7684, 0x8DE8, 0x20,
     0x49, 0x50, 0x20, 0x6837, 0x672C, 0xFF1B, 0x964D, 0x7EA7, 0x4F7F, 0x7528, 0x6700, 0x8FD1,
     0x20, 0x32, 0x34, 0x20, 0x5C0F, 0x65F6, 0x7684, 0x660E, 0x663E, 0x6076, 0x5316, 0xFF0C,
     0x5E76, 0x901A, 0x8FC7, 0x8FDE, 0x7EED, 0x574F, 0x7A97, 0x53E3, 0x907F, 0x514D, 0x4E00,
     0x6B21, 0x6296, 0x52A8, 0x8BEF, 0x5224, 0x3002]"

definition t_no_prefixes :: jsstr where
  "t_no_prefixes = [0x5C1A, 0x672A, 0x521D, 0x59CB, 0x5316, 0x524D, 0x7F00, 0x8054, 0x8D5B, 0x3002, 0x8BF7,
     0x521B, 0x5EFA, 0x6216, 0x8FD0, 0x884C, 0x4E00, 0x6B21, 0x201C, 0x667A, 0x80FD, 0x7B5B,
     0x9009, 0x6700, 0x4F73, 0x20, 0x49, 0x50, 0x201D, 0x4EFB, 0x52A1, 0x3002]"

definition t_tier_word :: jsstr where
  "t_tier_word = [0x5C42, 0x7EA7]"

definition t_samples_ip :: jsstr where
  "t_samples_ip = [0x6837, 0x672C, 0x20, 0x2F, 0x20, 0x49, 0x50]"

definition t_availability_7d :: jsstr where
  "t_availability_7d = [0x37, 0x20, 0x5929, 0x53EF, 0x7528, 0x7387]"

definition t_p95_7d :: jsstr where
  "t_p95_7d = [0x37, 0x20, 0x5929, 0x20, 0x50, 0x39, 0x35]"

definition t_last_result :: jsstr where
  "t_last_result = [0x6700, 0x8FD1, 0x7ED3, 0x679C]"

definition t_last_scheduled :: jsstr where
  "t_last_scheduled = [0x6700, 0x8FD1, 0x8C03, 0x5EA6]"

definition t_league_failed :: jsstr where
  "t_league_failed = [0x6700, 0x4F73, 0x20, 0x49, 0x50, 0x20, 0x8054, 0x8D5B, 0x52A0, 0x8F7D, 0x5931, 0x8D25]"

definition t_league_title :: jsstr where
  "t_league_title = [0x6700, 0x4F73, 0x20, 0x49, 0x50, 0x20, 0x8054, 0x8D5B]"

definition t_league_sub :: jsstr where
  "t_league_sub = [0x6309, 0x20, 0x41, 0x67, 0x65, 0x6E, 0x74, 0x20, 0x72EC, 0x7ACB, 0x8BC4, 0x4F30, 0x524D,
     0x7F00, 0x8D28, 0x91CF, 0xFF1A, 0x51A0, 0x519B, 0x5C42, 0x9AD8, 0x9891, 0x6DF1, 0x6316,
     0xFF0C, 0x6311, 0x6218, 0x5C42, 0x7EE7, 0x7EED, 0x9A8C, 0x8BC1, 0xFF0C, 0x89C2, 0x5BDF,
     0x5C42, 0x4F4E, 0x9891, 0x4FDD, 0x7559, 0x664B, 0x7EA7, 0x673A, 0x4F1A, 0xFF1B, 0x5019,
     0x9009, 0x20, 0x49, 0x50, 0x20, 0x4F1A, 0x56FA, 0x5B9A, 0x590D, 0x6D4B, 0x3002]"

definition t_champion_prefixes :: jsstr where
  "t_champion_prefixes = [0x51A0, 0x519B, 0x524D, 0x7F00]"

definition t_champion_sub :: jsstr where
  "t_champion_sub = [0x6700, 0x77ED, 0x6BCF, 0x5C0F, 0x65F6, 0x8FDB, 0x5165, 0x4E00, 0x8F6E, 0x65B0, 0x20,
     0x49, 0x50, 0x20, 0x63A2, 0x7D22, 0x4E0E, 0x5019, 0x9009, 0x590D, 0x6D4B, 0x3002]"

definition t_challenger_prefixes :: jsstr where
  "t_challenger_prefixes = [0x6311, 0x6218, 0x524D, 0x7F00]"

definition t_challenger_sub :: jsstr where
  "t_challenger_sub = [0x6700, 0x77ED, 0x6BCF, 0x20, 0x36, 0x20, 0x5C0F, 0x65F6, 0x7EE7, 0x7EED, 0x79EF, 0x7D2F,
     0x8DE8, 0x20, 0x49, 0x50, 0x20, 0x8BC1, 0x636E, 0x3002]"

definition t_observation_prefixes :: jsstr where
  "t_observation_prefixes = [0x89C2, 0x5BDF, 0x524D, 0x7F00]"

definition t_observation_sub :: jsstr where
  "t_observation_sub = [0x6700, 0x77ED, 0x6BCF, 0x20, 0x32, 0x34, 0x20, 0x5C0F, 0x65F6, 0x4FDD, 0x7559, 0x4E00,
     0x6B21, 0x664B, 0x7EA7, 0x673A, 0x4F1A, 0x3002]"

definition t_candidate_ips :: jsstr where
  "t_candidate_ips = [0x5019, 0x9009, 0x20, 0x49, 0x50]"

definition t_candidate_ips_sub :: jsstr where
  "t_candidate_ips_sub = [0x81F3, 0x5C11, 0x5177, 0x6709, 0x91CD, 0x590D, 0x6837, 0x672C, 0xFF0C, 0x6309, 0x7A33,
     0x5B9A, 0x6027, 0x4E0E, 0x20, 0x50, 0x39, 0x35, 0x20, 0x6392, 0x5E8F, 0x3002]"

definition t_trend_failed :: jsstr where
  "t_trend_failed = [0x49, 0x50, 0x20, 0x8D8B, 0x52BF, 0x52A0, 0x8F7D, 0x5931, 0x8D25]"

definition t_same_probe :: jsstr where
  "t_same_probe = [0x20, 0xB7, 0x20, 0x4EC5, 0x6BD4, 0x8F83, 0x76F8, 0x540C, 0x63A2, 0x6D4B, 0x914D, 0x7F6E,
     0x3002]"

definition t_back_league :: jsstr where
  "t_back_league = [0x8FD4, 0x56DE, 0x8054, 0x8D5B]"

definition t_sample_count :: jsstr where
  "t_sample_count = [0x6837, 0x672C, 0x6570]"

definition t_sample_count_sub :: jsstr where
  "t_sample_count_sub = [0x5F53, 0x524D, 0x65F6, 0x95F4, 0x8303, 0x56F4, 0x5185, 0x7684, 0x539F, 0x59CB, 0x626B,
     0x63CF, 0x6B21, 0x6570]"

definition t_availability_sub :: jsstr where
  "t_availability_sub = [0x6210, 0x529F, 0x63A2, 0x6D4B, 0x5360, 0x5168, 0x90E8, 0x6837, 0x672C, 0x7684, 0x6BD4,
     0x4F8B]"

definition t_p50 :: jsstr where
  "t_p50 = [0x50, 0x35, 0x30, 0x20, 0x5EF6, 0x8FDF]"

definition t_p50_sub :: jsstr where
  "t_p50_sub = [0x5178, 0x578B, 0x7F51, 0x7EDC, 0x8868, 0x73B0]"

definition t_p95_sub :: jsstr where
  "t_p95_sub = [0x7528, 0x4E8E, 0x89C2, 0x5BDF, 0x5C3E, 0x90E8, 0x6296, 0x52A8]"

definition t_latest_colo :: jsstr where
  "t_latest_colo = [0x6700, 0x8FD1, 0x20, 0x63, 0x6F, 0x6C, 0x6F, 0xFF1A]"

definition t_unrecognized :: jsstr where
  "t_unrecognized = [0x672A, 0x8BC6, 0x522B]"

definition t_no_samples :: jsstr where
  "t_no_samples = [0x5F53, 0x524D, 0x8303, 0x56F4, 0x6CA1, 0x6709, 0x8BE5, 0x20, 0x49, 0x50, 0x20, 0x7684,
     0x5386, 0x53F2, 0x6837, 0x672C, 0x3002]"

definition t_latency_trend :: jsstr where
  "t_latency_trend = [0x5EF6, 0x8FDF, 0x8D8B, 0x52BF]"

definition t_latency_trend_sub :: jsstr where
  "t_latency_trend_sub = [0x603B, 0x5EF6, 0x8FDF, 0x4E0E, 0x20, 0x54, 0x54, 0x46, 0x42, 0x20, 0x5206, 0x5F00,
     0x663E, 0x793A, 0xFF1B, 0x5931, 0x8D25, 0x6837, 0x672C, 0x4E0D, 0x4F2A, 0x9020, 0x4E3A,
     0x20, 0x30, 0x20, 0x6D, 0x73, 0x3002]"

definition t_loss_trend :: jsstr where
  "t_loss_trend = [0x4E22, 0x5305, 0x7387, 0x8D8B, 0x52BF]"

definition t_loss_trend_sub :: jsstr where
  "t_loss_trend_sub = [0x72EC, 0x7ACB, 0x5750, 0x6807, 0x8F74, 0x663E, 0x793A, 0x20, 0x30, 0x25, 0xFF5E, 0x31,
     0x30, 0x30, 0x25, 0xFF0C, 0x907F, 0x514D, 0x548C, 0x6BEB, 0x79D2, 0x6307, 0x6807, 0x6DF7,
     0x6DC6, 0x3002]"

definition t_prefix_of :: jsstr where
  "t_prefix_of = [0x524D, 0x7F00, 0x20]"

definition t_unknown :: jsstr where
  "t_unknown = [0x672A, 0x77E5]"

definition t_attempts_of :: jsstr where
  "t_attempts_of = [0x5C1D, 0x8BD5, 0x20]"

definition t_times_timeout :: jsstr where
  "t_times_timeout = [0x20, 0x6B21, 0x20, 0xB7, 0x20, 0x8D85, 0x65F6, 0x20]"


subsection \<open>The link to a trend\<close>

fun tierLabels :: "PrefixTier \<Rightarrow> jsstr" where
  "tierLabels TierChampion = t_tier_champion"
| "tierLabels TierChallenger = t_tier_challenger"
| "tierLabels TierObservation = t_tier_observation"

definition TierBadge :: "PrefixTier \<Rightarrow> 'e node" where
  "TierBadge tier = El ''Badge'' [Attr ''variant'' (if tier = TierChampion then lit ''default''
     else if tier = TierChallenger then lit ''secondary'' else lit ''outline'')] [Txt (tierLabels tier)]"

definition trend_params :: "LeagueCandidate \<Rightarrow> (jsstr \<times> jsstr) list" where
  "trend_params item = [(lit ''prefix'', lc_prefix_cidr item), (lit ''tier'', prefixTier_str (lc_tier item)),
     (lit ''scheme'', lc_scheme item), (lit ''hostname'', lc_hostname item), (lit ''path'', lc_path item),
     (lit ''port'', num_text (lc_port item)), (lit ''attempts'', num_text (lc_attempts item)),
     (lit ''timeout_ms'', num_text (lc_timeout_ms item))]"

definition trendHref :: "LeagueCandidate \<Rightarrow> js_error + jsstr" where
  "trendHref item =
     (case (encodeURIComponent (lc_agent_id item), encodeURIComponent (lc_target_ip item)) of
        (Inr a, Inr t) \<Rightarrow> Inr (lit ''/league/ip/'' @ a @ lit ''/'' @ t @ lit ''?'' @ form_serialize (trend_params item))
      | (Inl e, _) \<Rightarrow> Inl e | (_, Inl e) \<Rightarrow> Inl e)"

subsection \<open>The league page\<close>

definition SummaryCard :: "jsstr \<Rightarrow> int \<Rightarrow> jsstr \<Rightarrow> 'e node" where
  "SummaryCard title value description =
     el ''Card'' [el ''p'' [Txt title], el ''p'' [Txt (formatNumber (Some value))], el ''p'' [Txt description]]"

definition TablePagination :: "int \<Rightarrow> int \<Rightarrow> int \<Rightarrow> int \<Rightarrow> (int \<Rightarrow> 'e) \<Rightarrow> (int \<Rightarrow> 'e) \<Rightarrow> 'e node" where
  "TablePagination page pageSize count totalPages onPageChange onPageSizeChange =
     (if count = 0 then Null
      else (let first' = (page - 1) * pageSize + 1; last' = min (page * pageSize) count in
        el ''div''
         [el ''p'' [Txt t_total_of, Txt (formatNumber (Some count)), Txt t_showing, Txt (formatNumber (Some first')),
                  Txt t_en_dash, Txt (formatNumber (Some last')), Txt t_rows_of],
          select_items (show_int pageSize)
            [(lit ''50'', onPageSizeChange 50, lit ''50'' @ t_rows_of), (lit ''100'', onPageSizeChange 100, lit ''100'' @ t_rows_of),
             (lit ''200'', onPageSizeChange 200, lit ''200'' @ t_rows_of)],
          el ''span'' [Txt (show_int page), Txt (lit '' / ''), Txt (show_int (max totalPages 1))],
          button (page \<le> 1) (onPageChange (page - 1)) [],
          button (totalPages \<le> page) (onPageChange (page + 1)) []]))"

record league_state =
  ls_agentId :: jsstr
  ls_candidatePage :: int
  ls_candidatePageSize :: int
  ls_prefixPage :: int
  ls_prefixPageSize :: int

datatype league_action =
    LgAgent jsstr | LgCandidatePage int | LgCandidatePageSize int | LgPrefixPage int | LgPrefixPageSize int
  | LgFollow jsstr | LgRefetchAgents | LgRefetchLeague

definition league_init :: league_state where
  "league_init = \<lparr>ls_agentId = [], ls_candidatePage = 1, ls_candidatePageSize = 50, ls_prefixPage = 1, ls_prefixPageSize = 50\<rparr>"

definition league_filters :: "league_state \<Rightarrow> LeagueDashboardFilters" where
  "league_filters s = \<lparr>lf_agent_id = (if ls_agentId s \<noteq> [] then Some (ls_agentId s) else None),
     lf_prefix_page = ls_prefixPage s, lf_prefix_page_size = ls_prefixPageSize s,
     lf_candidate_page = ls_candidatePage s, lf_candidate_page_size = ls_candidatePageSize s\<rparr>"

definition changeAgent :: "jsstr \<Rightarrow> league_state \<Rightarrow> league_state" where
  "changeAgent value s = s\<lparr>ls_agentId := (if value = lit ''all'' then [] else value), ls_candidatePage := 1, ls_prefixPage := 1\<rparr>"

fun league_step :: "league_action \<Rightarrow> league_state \<Rightarrow> league_state" where
  "league_step (LgAgent v) s = changeAgent v s"
| "league_step (LgCandidatePage p) s = s\<lparr>ls_candidatePage := p\<rparr>"
| "league_step (LgCandidatePageSize n) s = s\<lparr>ls_candidatePageSize := n, ls_candidatePage := 1\<rparr>"
| "league_step (LgPrefixPage p) s = s\<lparr>ls_prefixPage := p\<rparr>"
| "league_step (LgPrefixPageSize n) s = s\<lparr>ls_prefixPageSize := n, ls_prefixPage := 1\<rparr>"
| "league_step _ s = s"

definition candidate_row :: "intl \<Rightarrow> LeagueCandidate \<Rightarrow> league_action node" where
  "candidate_row I item = el ''TableRow''
     [el ''TableCell'' [el ''p'' [Txt (lc_target_ip item)], el ''p'' [Txt (str_or (lc_colo item) t_no_colo)]],
      el ''TableCell'' [el ''p'' [Txt (lc_agent_name item)], el ''p'' [Txt (lc_continent item), Txt (lit '' / ''), Txt (lc_region item)]],
      el ''TableCell'' [el ''span'' [Txt (lc_prefix_cidr item)], TierBadge (lc_tier item)],
      el ''TableCell'' [Txt (formatNumber (Some (lc_sample_count item)))],
      el ''TableCell'' [Txt (formatPercent (Some (lc_availability_rate item)) 1)],
      el ''TableCell'' [Txt (formatMS (Some (lc_latency_p95_ms item)))],
      el ''TableCell'' [Txt (formatPercent (Some (lc_packet_loss_avg item)) 1)],
      el ''TableCell'' [text_or_throw (formatDate I (Some (lc_last_scanned_at item)))],
      el ''TableCell'' [case trendHref item of Inl e \<Rightarrow> Throw e
        | Inr href \<Rightarrow> El ''Link'' [Attr ''to'' href, On ''click'' (LgFollow href)] [Txt t_view_trend]]]"

definition prefix_row :: "intl \<Rightarrow> PrefixLeagueEntry \<Rightarrow> league_action node" where
  "prefix_row I item = el ''TableRow''
     [el ''TableCell'' [el ''p'' [Txt (pl_prefix_cidr item)],
        el ''p'' [Txt (pl_scheme item), Txt (lit ''://''), Txt (pl_hostname item), Txt (lit '':''), Txt (show_int (pl_port item)), Txt (pl_path item)]],
      el ''TableCell'' [el ''p'' [Txt (pl_agent_name item)], el ''p'' [Txt (pl_continent item), Txt (lit '' / ''), Txt (pl_region item)]],
      el ''TableCell'' [TierBadge (pl_tier item), show_if (pl_bad_streak item > 0)
        (el ''p'' [Txt t_bad_window, Txt (show_int (pl_bad_streak item)), Txt (lit ''/2'')])],
      el ''TableCell'' [Txt (formatNumber (Some (pl_sample_count item))), Txt (lit '' / ''), Txt (formatNumber (Some (pl_distinct_ip_count item)))],
      el ''TableCell'' [Txt (formatPercent (Some (pl_availability_rate item)) 1)],
      el ''TableCell'' [Txt (formatMS (Some (pl_latency_p95_ms item)))],
      el ''TableCell'' [Txt (formatPercent (Some (pl_packet_loss_avg item)) 1)],
      el ''TableCell'' [text_or_throw (formatDate I (pl_last_result_at item))],
      el ''TableCell'' [text_or_throw (formatDate I (pl_last_scheduled_at item))]]"

definition heads :: "jsstr list \<Rightarrow> 'e node" where
  "heads hs = el ''TableHeader'' [el ''TableRow'' (map (\<lambda>h. el ''TableHead'' [Txt h]) hs)]"

lemma acts_heads [simp]: "acts P (heads hs)"
  by (simp add: heads_def list_all_iff)

definition candidates_card :: "intl \<Rightarrow> LeagueCandidate LeaguePage \<Rightarrow> league_action node" where
  "candidates_card I p = el ''Card''
     [el ''CardTitle'' [Txt t_best_candidates],
      el ''CardDescription'' [Txt t_best_candidates_sub],
      (if lp_items p = [] then el ''div'' [Txt t_no_candidates]
       else el ''Table'' [heads [lit ''IP / colo'', lit ''Agent'', t_prefix_word, t_samples, t_availability, t_p95, t_avg_loss,
              t_last_scan, t_operations], el ''TableBody'' (map (candidate_row I) (lp_items p))]),
      TablePagination (lp_page p) (lp_page_size p) (lp_total p) (lp_total_pages p) LgCandidatePage LgCandidatePageSize]"

definition prefixes_card :: "intl \<Rightarrow> PrefixLeagueEntry LeaguePage \<Rightarrow> league_action node" where
  "prefixes_card I p = el ''Card''
     [el ''CardTitle'' [Txt t_prefix_moves],
      el ''CardDescription'' [Txt t_prefix_moves_sub],
      (if lp_items p = [] then el ''div'' [Txt t_no_prefixes]
       else el ''Table'' [heads [t_prefix_word, lit ''Agent'', t_tier_word, t_samples_ip, t_availability_7d, t_p95_7d, t_avg_loss,
              t_last_result, t_last_scheduled], el ''TableBody'' (map (prefix_row I) (lp_items p))]),
      TablePagination (lp_page p) (lp_page_size p) (lp_total p) (lp_total_pages p) LgPrefixPage LgPrefixPageSize]"

definition LeaguePage_view ::
  "intl \<Rightarrow> league_state \<Rightarrow> Agent list query_state \<Rightarrow> LeagueDashboard query_state \<Rightarrow> league_action node" where
  "LeaguePage_view I s agents league =
     (case agents of QError e \<Rightarrow> ErrorState (Some t_agents_failed) (Some e) (Some LgRefetchAgents) | _ \<Rightarrow>
      case league of QError e \<Rightarrow> ErrorState (Some t_league_failed) (Some e) (Some LgRefetchLeague) | _ \<Rightarrow>
      (case (agents, league) of
         (QData as, QData d) \<Rightarrow>
           (let summary = ld_summary d in el ''div''
             [PageHeader None t_league_title t_league_sub
                (Some (select_items (str_or (ls_agentId s) (lit ''all''))
                  ((lit ''all'', LgAgent (lit ''all''), t_all_agents) # map (\<lambda>a. (ag_id a, LgAgent (ag_id a), ag_name a)) as))),
              SummaryCard t_champion_prefixes (ld_champion_prefixes summary) t_champion_sub,
              SummaryCard t_challenger_prefixes (ld_challenger_prefixes summary) t_challenger_sub,
              SummaryCard t_observation_prefixes (ld_observation_prefixes summary) t_observation_sub,
              SummaryCard t_candidate_ips (ld_candidate_ips summary) t_candidate_ips_sub,
              candidates_card I (ld_candidates d), prefixes_card I (ld_prefixes d)])
       | _ \<Rightarrow> PageSkeleton (Some 10)))"

subsection \<open>The trend page\<close>

definition numberParam :: "(jsstr \<times> jsstr) list \<Rightarrow> string \<Rightarrow> rat \<Rightarrow> rat" where
  "numberParam params key fallback =
     (case map_get params (lit key) of None \<Rightarrow> fallback
      | Some s \<Rightarrow> (case js_number s of Fin value \<Rightarrow> if value > 0 then value else fallback | _ \<Rightarrow> fallback))"

text \<open>The tier is cast from a text; a text that names no tier is read as the observation tier here,
  which nothing but the key of the query can tell apart.\<close>

definition tier_of :: "jsstr \<Rightarrow> PrefixTier" where
  "tier_of s = (if s = lit ''champion'' then TierChampion else if s = lit ''challenger'' then TierChallenger else TierObservation)"

definition trend_candidate :: "jsstr \<Rightarrow> jsstr \<Rightarrow> (jsstr \<times> jsstr) list \<Rightarrow> LeagueCandidate" where
  "trend_candidate agentID targetIP params =
     \<lparr>lc_agent_id = agentID, lc_agent_name = [], lc_region = [], lc_continent = [],
      lc_prefix_cidr = nullish (map_get params (lit ''prefix'')) [],
      lc_tier = tier_of (str_or (opt_str (map_get params (lit ''tier''))) (lit ''observation'')),
      lc_scheme = nullish (map_get params (lit ''scheme'')) (lit ''https''),
      lc_hostname = nullish (map_get params (lit ''hostname'')) (lit ''cloudflare.com''),
      lc_path = nullish (map_get params (lit ''path'')) (lit ''/cdn-cgi/trace''),
      lc_port = numberParam params ''port'' 443, lc_attempts = numberParam params ''attempts'' 3,
      lc_timeout_ms = numberParam params ''timeout_ms'' 5000, lc_target_ip = targetIP, lc_colo = [],
      lc_sample_count = 0, lc_availability_rate = 0, lc_latency_p95_ms = 0, lc_packet_loss_avg = 0,
      lc_last_scanned_at = []\<rparr>"

text \<open>A point of the charts: the latency of a failed probe is no value.\<close>

record chart_point =
  cp_label :: "js_error + jsstr"
  cp_latency_ms :: "rat option"
  cp_ttfb_ms :: "rat option"
  cp_packet_loss :: rat

text \<open>\<open>label\<close> is \<open>timeLabel\<close>, the short form of \<open>Intl.DateTimeFormat\<close>.\<close>

definition chart_data :: "(jsstr \<Rightarrow> js_error + jsstr) \<Rightarrow> IPTrendPoint list \<Rightarrow> chart_point list" where
  "chart_data timeLabel points = map (\<lambda>p. \<lparr>cp_label = timeLabel (tp_scanned_at p),
     cp_latency_ms = (if tp_available p then Some (tp_latency_ms p) else None),
     cp_ttfb_ms = (if tp_available p then Some (tp_ttfb_ms p) else None), cp_packet_loss = tp_packet_loss p\<rparr>) points"

datatype trend_action = TrRange TrendTimeRange | TrBack | TrRefetch

definition trend_metric :: "jsstr \<Rightarrow> jsstr \<Rightarrow> jsstr \<Rightarrow> 'e node" where
  "trend_metric label value description = el ''Card'' [el ''p'' [Txt label], el ''p'' [Txt value], el ''p'' [Txt description]]"

definition line_values :: "(chart_point \<Rightarrow> rat option) \<Rightarrow> chart_point list \<Rightarrow> 'e node" where
  "line_values f ps = el ''Line'' (map (\<lambda>p. el ''point'' [text_or_throw (cp_label p),
     (case f p of None \<Rightarrow> Null | Some v \<Rightarrow> Txt (num_text v))]) ps)"

lemma acts_line_values [simp]: "acts P (line_values f ps)"
  by (auto simp: line_values_def list_all_iff split: option.splits)

definition IPTrendPage ::
  "(jsstr \<Rightarrow> js_error + jsstr) \<Rightarrow> LeagueCandidate \<Rightarrow> TrendTimeRange \<Rightarrow> IPTrend query_state \<Rightarrow> trend_action node" where
  "IPTrendPage timeLabel candidate timeRange trend =
     (case trend of
        QError e \<Rightarrow> ErrorState (Some t_trend_failed) (Some e) (Some TrRefetch)
      | QPending \<Rightarrow> PageSkeleton (Some 8)
      | QData t \<Rightarrow>
        (let data = chart_data timeLabel (it_points t); summary = it_summary t in el ''div''
          [PageHeader (Some t_league_title) (it_target_ip t)
             (it_agent_name t @ t_dot_sep @ lc_scheme candidate @ lit ''://'' @ lc_hostname candidate @ lit '':''
                @ num_text (lc_port candidate) @ lc_path candidate @ t_same_probe)
             (Some (el ''div''
               [El ''Link'' [Attr ''to'' (lit ''/league''), On ''click'' TrBack] [Txt t_back_league],
                select_items (trendTimeRange_str timeRange)
                  [(lit ''24h'', TrRange Trend24h, t_last_24h), (lit ''7d'', TrRange Trend7d, t_last_7d), (lit ''30d'', TrRange Trend30d, t_last_30d)]])),
           trend_metric t_sample_count (formatNumber (Some (it_sample_count summary))) t_sample_count_sub,
           trend_metric t_availability (formatPercent (Some (it_availability_rate summary)) 1) t_availability_sub,
           trend_metric t_p50 (formatMS (Some (it_latency_p50_ms summary))) t_p50_sub,
           trend_metric t_p95 (formatMS (Some (it_latency_p95_ms summary))) t_p95_sub,
           trend_metric t_avg_loss (formatPercent (Some (it_packet_loss_avg summary)) 1)
             (t_latest_colo @ str_or (it_latest_colo summary) t_unrecognized),
           (if data = [] then el ''Card'' [Txt t_no_samples]
            else Frag
             [el ''Card'' [el ''CardTitle'' [Txt t_latency_trend], el ''CardDescription'' [Txt t_latency_trend_sub],
                line_values cp_latency_ms data, line_values cp_ttfb_ms data],
              el ''Card'' [el ''CardTitle'' [Txt t_loss_trend], el ''CardDescription'' [Txt t_loss_trend_sub],
                line_values (\<lambda>p. Some (cp_packet_loss p)) data]]),
           el ''Badge'' [Txt t_prefix_of, Txt (str_or (lc_prefix_cidr candidate) t_unknown)],
           el ''Badge'' [Txt t_attempts_of, Txt (num_text (lc_attempts candidate)), Txt t_times_timeout,
                       Txt (num_text (lc_timeout_ms candidate)), Txt t_ms_unit]]))"

subsection \<open>The link and the page of a trend agree\<close>

text \<open>What follows a click: the path before the question mark is matched by the router, which decodes
  the parameters with \<open>param\<close>; the rest are the search parameters.\<close>

definition href_path :: "jsstr \<Rightarrow> jsstr" where
  "href_path h = takeWhile (\<lambda>u. u \<noteq> 63) h"

definition href_search :: "jsstr \<Rightarrow> jsstr" where
  "href_search h = dropWhile (\<lambda>u. u \<noteq> 63) h"

definition opened_candidate :: "(jsstr \<Rightarrow> jsstr) \<Rightarrow> jsstr \<Rightarrow> LeagueCandidate option" where
  "opened_candidate param href =
     (case path_segments (href_path href) of
        [_, _, a, t] \<Rightarrow> Some (trend_candidate (param a) (param t) (search_params (href_search href)))
      | _ \<Rightarrow> None)"

definition linkable :: "LeagueCandidate \<Rightarrow> bool" where
  "linkable c \<longleftrightarrow> lc_agent_id c \<noteq> [] \<and> lc_target_ip c \<noteq> [] \<and> well_formed (lc_agent_id c) \<and> well_formed (lc_target_ip c)
     \<and> 37 \<notin> set (lc_agent_id c) \<and> 37 \<notin> set (lc_target_ip c)
     \<and> well_formed (lc_prefix_cidr c) \<and> well_formed (lc_scheme c) \<and> well_formed (lc_hostname c) \<and> well_formed (lc_path c)
     \<and> (\<forall>x \<in> {lc_port c, lc_attempts c, lc_timeout_ms c}. \<exists>n. x = of_nat n \<and> 0 < n \<and> n < 10 ^ 21)"

lemma well_formed_tier [simp]: "well_formed (prefixTier_str t)"
  by (cases t) simp_all

lemma trend_params_form:
  assumes "linkable c"
  shows "form_parse (form_serialize (trend_params c)) = trend_params c"
  using assms by (intro form_round_trip) (simp add: trend_params_def well_formed_pairs_def linkable_def)

lemma js_number_num_text: "0 < n \<Longrightarrow> n < 10 ^ 21 \<Longrightarrow> js_number (num_text (of_nat n)) = Fin (of_nat n)"
proof -
  assume n: "0 < n" "n < 10 ^ 21"
  have t: "num_text (of_nat n) = dec_digits n"
    using num_text_of_int [of "int n"] by (simp add: show_int_def)
  show ?thesis
    using js_number_digits [of "dec_digits n"] n dec_digits_range
    by (auto simp: t digits_value_dec_digits list_all_iff Server_Clock.is_digit_def)
qed

lemma numberParam_text:
  "map_get ps (lit k) = Some (num_text x) \<Longrightarrow> x = of_nat n \<Longrightarrow> 0 < n \<Longrightarrow> n < 10 ^ 21 \<Longrightarrow> numberParam ps k d = x"
  by (simp add: numberParam_def js_number_num_text)

lemma tier_of_str [simp]: "tier_of (prefixTier_str t) = t" "prefixTier_str t \<noteq> []"
  by (cases t; simp add: tier_of_def)+

lemma trend_params_get:
  "map_get (trend_params c) (lit ''prefix'') = Some (lc_prefix_cidr c)"
  "map_get (trend_params c) (lit ''tier'') = Some (prefixTier_str (lc_tier c))"
  "map_get (trend_params c) (lit ''scheme'') = Some (lc_scheme c)"
  "map_get (trend_params c) (lit ''hostname'') = Some (lc_hostname c)"
  "map_get (trend_params c) (lit ''path'') = Some (lc_path c)"
  "map_get (trend_params c) (lit ''port'') = Some (num_text (lc_port c))"
  "map_get (trend_params c) (lit ''attempts'') = Some (num_text (lc_attempts c))"
  "map_get (trend_params c) (lit ''timeout_ms'') = Some (num_text (lc_timeout_ms c))"
  by (simp_all add: map_get_def trend_params_def)

definition bare :: "LeagueCandidate \<Rightarrow> LeagueCandidate" where
  "bare c = c\<lparr>lc_agent_name := [], lc_region := [], lc_continent := [], lc_colo := [], lc_sample_count := 0,
     lc_availability_rate := 0, lc_latency_p95_ms := 0, lc_packet_loss_avg := 0, lc_last_scanned_at := []\<rparr>"

lemma candidate_from_params:
  assumes "linkable c"
  shows "trend_candidate (lc_agent_id c) (lc_target_ip c) (trend_params c) = bare c"
proof -
  have "numberParam (trend_params c) ''port'' 443 = lc_port c" "numberParam (trend_params c) ''attempts'' 3 = lc_attempts c"
    "numberParam (trend_params c) ''timeout_ms'' 5000 = lc_timeout_ms c"
    using assms numberParam_text trend_params_get(6-8) by (auto simp: linkable_def)
  then show ?thesis by (simp add: trend_candidate_def trend_params_get bare_def str_or_nonempty)
qed

lemma takeWhile_stop: "x \<notin> set a \<Longrightarrow> takeWhile (\<lambda>u. u \<noteq> x) (a @ x # b) = a" "x \<notin> set a \<Longrightarrow> dropWhile (\<lambda>u. u \<noteq> x) (a @ x # b) = x # b"
  by (induction a) auto

lemma trend_path_segments:
  assumes "47 \<notin> set a" "47 \<notin> set t" "a \<noteq> []" "t \<noteq> []"
  shows "path_segments (lit ''/league/ip/'' @ a @ lit ''/'' @ t) = [lit ''league'', lit ''ip'', a, t]"
proof -
  have e: "lit ''/league/ip/'' @ a @ lit ''/'' @ t = 47 # (lit ''league'' @ 47 # (lit ''ip'' @ 47 # (a @ 47 # t)))"
    by (simp add: lit_def)
  have "47 \<notin> set (lit ''league'')" "47 \<notin> set (lit ''ip'')" by (simp_all add: lit_def)
  then show ?thesis
    unfolding path_segments_def e using assms by (simp add: split_on_append split_on_none)
qed

lemma trendHref_parts:
  assumes "linkable c"
  obtains a t where "encodeURIComponent (lc_agent_id c) = Inr a" "encodeURIComponent (lc_target_ip c) = Inr t"
    "trendHref c = Inr (lit ''/league/ip/'' @ a @ lit ''/'' @ t @ lit ''?'' @ form_serialize (trend_params c))"
    "47 \<notin> set a" "47 \<notin> set t" "63 \<notin> set a" "63 \<notin> set t" "a \<noteq> []" "t \<noteq> []"
proof -
  have w: "well_formed (lc_agent_id c)" "well_formed (lc_target_ip c)" "lc_agent_id c \<noteq> []" "lc_target_ip c \<noteq> []"
    using assms by (simp_all add: linkable_def)
  obtain a t where e: "encodeURIComponent (lc_agent_id c) = Inr a" "encodeURIComponent (lc_target_ip c) = Inr t"
    using encode_well_formed w by blast
  have u: "list_all (\<lambda>u. u < 0x10000) (lc_agent_id c)" "list_all (\<lambda>u. u < 0x10000) (lc_target_ip c)"
    using w by (simp_all add: well_formed_def)
  show ?thesis
    using that [OF e] e encode_no_delims(1,2) [OF u(1) e(1)] encode_no_delims(1,2) [OF u(2) e(2)]
      encode_nonempty [OF e(1) w(3,1)] encode_nonempty [OF e(2) w(4,2)]
    by (simp add: trendHref_def)
qed

text \<open>C8. The link of a candidate leads to the trend of that candidate: its address can be built, the router matches it as the trend page, and the page reads back agent, address, prefix, tier, scheme, hostname, path, port, attempts and timeout unchanged, so the trend request is the one for the listed candidate, whatever characters the texts hold. The router decodes a path parameter as decodeURIComponent does (for values without a percent sign, which it treats specially).\<close>

theorem trend_link_round_trip:
  assumes "linkable c"
    and param: "\<And>s e. well_formed s \<Longrightarrow> 37 \<notin> set s \<Longrightarrow> encodeURIComponent s = Inr e \<Longrightarrow> param e = s"
  shows "\<exists>href a t. trendHref c = Inr href
    \<and> protected_routes auth (href_path href) = Show (IPTrendP a t)
    \<and> param a = lc_agent_id c \<and> param t = lc_target_ip c
    \<and> opened_candidate param href = Some (bare c)
    \<and> getIPTrend (bare c) tr = getIPTrend c tr"
proof -
  obtain a t where p: "encodeURIComponent (lc_agent_id c) = Inr a" "encodeURIComponent (lc_target_ip c) = Inr t"
    "trendHref c = Inr (lit ''/league/ip/'' @ a @ lit ''/'' @ t @ lit ''?'' @ form_serialize (trend_params c))"
    "47 \<notin> set a" "47 \<notin> set t" "63 \<notin> set a" "63 \<notin> set t" "a \<noteq> []" "t \<noteq> []"
    by (rule trendHref_parts [OF assms(1)])
  define href where "href = lit ''/league/ip/'' @ a @ lit ''/'' @ t @ lit ''?'' @ form_serialize (trend_params c)"
  have h: "href = (lit ''/league/ip/'' @ a @ lit ''/'' @ t) @ 63 # form_serialize (trend_params c)"
    by (simp add: href_def lit_Cons)
  have n: "63 \<notin> set (lit ''/league/ip/'' @ a @ lit ''/'' @ t)" using p(6,7) by (simp add: lit_def)
  have path: "href_path href = lit ''/league/ip/'' @ a @ lit ''/'' @ t"
    and search: "href_search href = 63 # form_serialize (trend_params c)"
    using takeWhile_stop [OF n] by (simp_all add: href_path_def href_search_def h)
  note segs = trend_path_segments [OF p(4,5,8,9)]
  have low: "ascii_lower (lit ''league'') = lit ''league''" "ascii_lower (lit ''ip'') = lit ''ip''"
    by (simp_all add: ascii_lower_def lit_def)
  have r: "protected_routes auth (href_path href) = Show (IPTrendP a t)"
    by (simp add: protected_routes_def path segs low Let_def)
  have q: "param a = lc_agent_id c" "param t = lc_target_ip c"
    using assms(1) param p(1,2) by (simp_all add: linkable_def)
  have "search_params (href_search href) = trend_params c"
    by (simp add: search search_params_def trend_params_form [OF assms(1)])
  then have o: "opened_candidate param href = Some (bare c)"
    by (simp add: opened_candidate_def path segs q candidate_from_params [OF assms(1)])
  have "getIPTrend (bare c) tr = getIPTrend c tr" by (simp add: getIPTrend_def bare_def)
  then show ?thesis using p(3) r q o href_def by blast
qed

definition sample_candidate :: LeagueCandidate where
  "sample_candidate = \<lparr>lc_agent_id = lit ''a-1'', lc_agent_name = lit ''edge'', lc_region = lit ''kix'', lc_continent = lit ''Asia'',
     lc_prefix_cidr = lit ''2606:4700::/32'', lc_tier = TierChampion, lc_scheme = lit ''https'', lc_hostname = lit ''example.com'',
     lc_path = lit ''/a?b=c&d'', lc_port = 8443, lc_attempts = 3, lc_timeout_ms = 5000, lc_target_ip = lit ''2606:4700::1'',
     lc_colo = lit ''KIX'', lc_sample_count = 12, lc_availability_rate = 99, lc_latency_p95_ms = 20, lc_packet_loss_avg = 0,
     lc_last_scanned_at = lit ''2026-01-01''\<rparr>"

definition decode_param :: "jsstr \<Rightarrow> jsstr" where
  "decode_param e = (case decodeURIComponent e of Inr s \<Rightarrow> s | Inl _ \<Rightarrow> e)"

theorem trend_link_round_trip_witness:
  "\<exists>href. trendHref sample_candidate = Inr href \<and> opened_candidate decode_param href = Some (bare sample_candidate)"
proof -
  have n: "\<exists>n. (8443 :: rat) = of_nat n \<and> 0 < n \<and> n < 10 ^ 21" by (rule exI [of _ 8443]) simp
  have n': "\<exists>n. (3 :: rat) = of_nat n \<and> 0 < n \<and> n < 10 ^ 21" by (rule exI [of _ 3]) simp
  have n'': "\<exists>n. (5000 :: rat) = of_nat n \<and> 0 < n \<and> n < 10 ^ 21" by (rule exI [of _ 5000]) simp
  have l: "linkable sample_candidate"
    using n n' n'' by (simp add: linkable_def sample_candidate_def) (simp add: lit_def)
  have "decode_param e = s" if "well_formed s" "encodeURIComponent s = Inr e" for s e
    using uri_component_round_trip [OF that] by (simp add: decode_param_def)
  then show ?thesis using trend_link_round_trip [OF l] by blast
qed

subsection \<open>The pages of the league\<close>

lemma acts_TablePagination:
  "acts P (TablePagination page sz count pages onPage onSize) \<longleftrightarrow> count = 0 \<or>
     (P (onSize 50) \<and> P (onSize 100) \<and> P (onSize 200) \<and> (page \<le> 1 \<or> P (onPage (page - 1))) \<and> (pages \<le> page \<or> P (onPage (page + 1))))"
  by (auto simp: TablePagination_def Let_def)

definition league_inv :: "league_state \<Rightarrow> bool" where
  "league_inv s \<longleftrightarrow> ls_prefixPage s \<in> {1..1000000} \<and> ls_candidatePage s \<in> {1..1000000}
     \<and> ls_prefixPageSize s \<in> {1..200} \<and> ls_candidatePageSize s \<in> {1..200}
     \<and> (ls_agentId s = [] \<or> validUUID (ls_agentId s) \<and> no_edge_space (ls_agentId s) \<and> well_formed (ls_agentId s))"

definition page_ok :: "'a LeaguePage \<Rightarrow> bool" where
  "page_ok p \<longleftrightarrow> 1 \<le> lp_page p \<and> lp_page p \<le> max (lp_total_pages p) 1 \<and> lp_total_pages p \<le> 1000000"

lemma acts_league_rows [simp]: "acts P (prefix_row I e)"
  "(\<And>h. P (LgFollow h)) \<Longrightarrow> acts P (candidate_row I c)"
  by (auto simp: prefix_row_def candidate_row_def TierBadge_def split: sum.splits)

lemma league_cards_keep:
  assumes "league_inv s" "page_ok c" "page_ok p"
  shows "acts (\<lambda>a. league_inv (league_step a s)) (candidates_card I c)" "acts (\<lambda>a. league_inv (league_step a s)) (prefixes_card I p)"
  using assms
  by (auto simp: candidates_card_def prefixes_card_def acts_TablePagination list_all_iff league_inv_def page_ok_def max_def
      split: if_splits)

definition uuid_ids :: "Agent list \<Rightarrow> bool" where
  "uuid_ids as \<longleftrightarrow> (\<forall>a \<in> set as. validUUID (ag_id a) \<and> no_edge_space (ag_id a) \<and> well_formed (ag_id a))"

lemma league_inv_agent: "league_inv s \<Longrightarrow> uuid_ids as \<Longrightarrow> a \<in> set as \<Longrightarrow> league_inv (changeAgent (ag_id a) s)"
  "league_inv s \<Longrightarrow> league_inv (changeAgent (lit ''all'') s)"
  by (simp_all add: league_inv_def changeAgent_def uuid_ids_def)

lemma league_view_keeps:
  assumes "league_inv s" "uuid_ids as" "page_ok (ld_candidates d)" "page_ok (ld_prefixes d)"
  shows "acts (\<lambda>a. league_inv (league_step a s)) (LeaguePage_view I s (QData as) (QData d))"
  using assms(1) league_cards_keep [OF assms(1,3,4)] league_inv_agent(1) [OF assms(1,2)] league_inv_agent(2) [OF assms(1)]
  by (simp add: LeaguePage_view_def PageHeader_def SummaryCard_def Let_def)

lemma league_entries_sendable: "league_inv s \<Longrightarrow> sendable (leagueFilterEntries (league_filters s))"
  by (auto simp: sendable_def leagueFilterEntries_def league_filters_def q_str_def league_inv_def)

lemma league_reads:
  assumes "league_inv s"
  shows "leagueDashboardFilterFromRequest (createQueryString (leagueFilterEntries (league_filters s))) =
    Inr \<lparr>lq_AgentID = ls_agentId s, lq_PrefixPage = ls_prefixPage s, lq_PrefixPageSize = ls_prefixPageSize s,
      lq_CandidatePage = ls_candidatePage s, lq_CandidatePageSize = ls_candidatePageSize s\<rparr>"
proof -
  let ?vs = "leagueFilterEntries (league_filters s)"
  note send = league_entries_sendable [OF assms]
  have a: "Get (createQueryString ?vs) ''agent_id'' = ls_agentId s"
    unfolding Get_entry [OF send] by (simp add: entry_text_def leagueFilterEntries_def league_filters_def q_str_def)
  have t: "TrimSpace (ls_agentId s) = ls_agentId s" using assms by (auto simp: league_inv_def no_edge_space_def)
  have m: "map_of ?vs ''prefix_page'' = Some (QNum (ls_prefixPage s))" "map_of ?vs ''prefix_page_size'' = Some (QNum (ls_prefixPageSize s))"
    "map_of ?vs ''candidate_page'' = Some (QNum (ls_candidatePage s))" "map_of ?vs ''candidate_page_size'' = Some (QNum (ls_candidatePageSize s))"
    by (simp_all add: leagueFilterEntries_def league_filters_def q_str_def)
  note b = m [THEN boundedQueryInt_entry [OF send]]
  have "\<not> (ls_agentId s \<noteq> [] \<and> \<not> validUUID (ls_agentId s))" using assms by (auto simp: league_inv_def)
  then show ?thesis
    using assms b by (simp add: leagueDashboardFilterFromRequest_def a t league_inv_def Let_def)
qed

text \<open>C9. The league page starts in a state whose query the server accepts, every control it offers keeps it in such a state (the pager offers only pages of the answer, a new page size or agent returns to the first page, agents have the identifiers the server gave), and from each such state the server reads exactly the agent, pages and page sizes of the state.\<close>

theorem league_query_understood:
  assumes "league_inv s" "uuid_ids as" "page_ok (ld_candidates d)" "page_ok (ld_prefixes d)"
  shows "league_inv league_init
    \<and> acts (\<lambda>a. league_inv (league_step a s)) (LeaguePage_view I s (QData as) (QData d))
    \<and> leagueDashboardFilterFromRequest (createQueryString (leagueFilterEntries (league_filters s))) =
       Inr \<lparr>lq_AgentID = ls_agentId s, lq_PrefixPage = ls_prefixPage s, lq_PrefixPageSize = ls_prefixPageSize s,
         lq_CandidatePage = ls_candidatePage s, lq_CandidatePageSize = ls_candidatePageSize s\<rparr>"
  using league_view_keeps [OF assms] league_reads [OF assms(1)] by (simp add: league_inv_def league_init_def)

theorem league_query_understood_witness:
  "leagueDashboardFilterFromRequest (createQueryString (leagueFilterEntries (league_filters (league_init\<lparr>ls_prefixPage := 3\<rparr>)))) =
     Inr \<lparr>lq_AgentID = [], lq_PrefixPage = 3, lq_PrefixPageSize = 50, lq_CandidatePage = 1, lq_CandidatePageSize = 50\<rparr>"
proof -
  have i: "league_inv (league_init\<lparr>ls_prefixPage := 3\<rparr>)" by (simp add: league_inv_def league_init_def)
  let ?d = "\<lparr>ld_summary = undefined, ld_prefixes = \<lparr>lp_items = [], lp_total = 0, lp_page = 1, lp_page_size = 50, lp_total_pages = 0\<rparr>,
    ld_candidates = \<lparr>lp_items = [], lp_total = 0, lp_page = 1, lp_page_size = 50, lp_total_pages = 0\<rparr>\<rparr>"
  have p: "page_ok (ld_candidates ?d)" "page_ok (ld_prefixes ?d)" "uuid_ids []" by (simp_all add: page_ok_def uuid_ids_def)
  show ?thesis using league_query_understood [OF i p(3,1,2)] by (simp add: league_init_def)
qed

end
