(* ===== verification/Filter_Toolbar.thy ===== *)
theory Filter_Toolbar
  imports Shared
begin

text \<open>
  The contract of the toolbars above the tables: a search field, filters, and a button that resets them.
  The button can be pressed exactly while a filter is active, and pressing it leaves the same fresh filters
  whatever they were. Every table of the console with such a toolbar discharges the contract.
\<close>

text \<open>The value the first search field of a view shows.\<close>

fun input_value :: "'e node \<Rightarrow> jsstr option" where
  "input_value (El name as ks) =
     (if name = ''InputGroupInput''
      then (case filter (\<lambda>a. case a of Attr n _ \<Rightarrow> n = ''value'' | _ \<Rightarrow> False) as of Attr _ v # _ \<Rightarrow> Some v | _ \<Rightarrow> None)
      else (case dropWhile (\<lambda>x. x = None) (map input_value ks) of [] \<Rightarrow> None | x # _ \<Rightarrow> x))"
| "input_value (Frag ks) = (case dropWhile (\<lambda>x. x = None) (map input_value ks) of [] \<Rightarrow> None | x # _ \<Rightarrow> x)"
| "input_value _ = None"

lemma input_SearchInput [simp]: "input_value (SearchInput v placeholder change) = Some v"
  by (simp add: SearchInput_def el_def)

lemma input_first [simp]: "input_value (el ''div'' (SearchInput v p c # ks)) = Some v"
  by (simp add: el_def)

lemma offers_SearchInput [simp]: "\<not> offers e (SearchInput v p c)"
  by (simp add: SearchInput_def)

lemma offers_reset [simp]: "offers e (DataTableResetButton d x) \<longleftrightarrow> \<not> d \<and> x = e"
  by (auto simp: DataTableResetButton_def)

text \<open>What a user can rely on, from the filters the table starts with: the button starts disabled, a search
  after any run of actions enables it, and resetting after any run gives the same filters, an empty search
  field and a disabled button.\<close>

definition resettable :: "('f \<Rightarrow> 'a node) \<Rightarrow> ('a \<Rightarrow> 'f \<Rightarrow> 'f) \<Rightarrow> 'a \<Rightarrow> (jsstr \<Rightarrow> 'a) \<Rightarrow> 'f \<Rightarrow> bool" where
  "resettable toolbar step reset search start \<longleftrightarrow>
     \<not> offers reset (toolbar start)
     \<and> (\<forall>as s. s \<noteq> [] \<longrightarrow> offers reset (toolbar (step (search s) (fold step as start))))
     \<and> (\<forall>as. step reset (fold step as start) = step reset start)
     \<and> \<not> offers reset (toolbar (step reset start)) \<and> input_value (toolbar (step reset start)) = Some []"

locale filter_toolbar =
  fixes toolbar :: "'f \<Rightarrow> 'a node"
    and step :: "'a \<Rightarrow> 'f \<Rightarrow> 'f"
    and reset :: 'a
    and search :: "jsstr \<Rightarrow> 'a"
    and query :: "'f \<Rightarrow> jsstr"
    and active :: "'f \<Rightarrow> bool"
  assumes offered: "offers reset (toolbar f) \<longleftrightarrow> active f"
    and query_shown: "input_value (toolbar f) = Some (query f)"
    and searched: "query (step (search s) f) = s"
    and query_active: "query f \<noteq> [] \<Longrightarrow> active f"
    and cleared: "\<not> active (step reset f)"
    and reset_forgets: "step reset f = step reset g"
begin

lemma query_cleared: "query (step reset f) = []"
  using query_active cleared by blast

lemma search_enables: "s \<noteq> [] \<Longrightarrow> offers reset (toolbar (step (search s) f))"
  by (simp add: offered query_active searched)

lemma toolbar_resettable: "\<not> active start \<Longrightarrow> resettable toolbar step reset search start"
  unfolding resettable_def using search_enables reset_forgets by (auto simp: offered query_shown query_cleared cleared)

end

end
