(* ===== verification/Users.thy ===== *)
theory Users
  imports Layout Filter_Toolbar
begin

text \<open>
  The user administration (\<open>features/users\<close>): the table with its filters and row actions, the
  dialog that creates or edits a user, the dialog that resets a password, and the page.
\<close>

subsection \<open>Literals\<close>

definition t_edit_user :: jsstr where
  "t_edit_user = [0x7F16, 0x8F91, 0x8D26, 0x53F7]"

definition t_create_user :: jsstr where
  "t_create_user = [0x521B, 0x5EFA, 0x8D26, 0x53F7]"

definition t_edit_user_sub :: jsstr where
  "t_edit_user_sub = [0x8C03, 0x6574, 0x663E, 0x793A, 0x540D, 0x79F0, 0x3001, 0x89D2, 0x8272, 0x548C, 0x8D26,
     0x53F7, 0x72B6, 0x6001, 0x3002]"

definition t_create_user_sub :: jsstr where
  "t_create_user_sub = [0x65B0, 0x8D26, 0x53F7, 0x521B, 0x5EFA, 0x540E, 0x53EF, 0x4EE5, 0x7ACB, 0x5373, 0x767B,
     0x5F55, 0x7BA1, 0x7406, 0x5E73, 0x53F0, 0x3002]"

definition t_username_field :: jsstr where
  "t_username_field = [0x7528, 0x6237, 0x540D]"

definition t_username_fixed :: jsstr where
  "t_username_fixed = [0x521B, 0x5EFA, 0x540E, 0x4E0D, 0x53EF, 0x4FEE, 0x6539, 0x3002]"

definition t_initial_password :: jsstr where
  "t_initial_password = [0x521D, 0x59CB, 0x5BC6, 0x7801]"

definition t_display_name :: jsstr where
  "t_display_name = [0x663E, 0x793A, 0x540D, 0x79F0]"

definition t_permission :: jsstr where
  "t_permission = [0x6743, 0x9650]"

definition t_no_self_role :: jsstr where
  "t_no_self_role = [0x4E0D, 0x80FD, 0x4FEE, 0x6539, 0x5F53, 0x524D, 0x767B, 0x5F55, 0x8D26, 0x53F7, 0x7684,
     0x7BA1, 0x7406, 0x5458, 0x6743, 0x9650, 0x3002]"

definition t_role_help :: jsstr where
  "t_role_help = [0x7BA1, 0x7406, 0x5458, 0x53EF, 0x6267, 0x884C, 0x6240, 0x6709, 0x64CD, 0x4F5C, 0xFF1B,
     0x67E5, 0x770B, 0x8005, 0x53EA, 0x80FD, 0x8BFB, 0x53D6, 0x6570, 0x636E, 0x3002]"

definition t_enable_user :: jsstr where
  "t_enable_user = [0x542F, 0x7528, 0x8D26, 0x53F7]"

definition t_no_self_disable :: jsstr where
  "t_no_self_disable = [0x5F53, 0x524D, 0x767B, 0x5F55, 0x8D26, 0x53F7, 0x4E0D, 0x80FD, 0x505C, 0x7528, 0x81EA,
     0x5DF1, 0x3002]"

definition t_disable_help :: jsstr where
  "t_disable_help = [0x505C, 0x7528, 0x540E, 0x5DF2, 0x6709, 0x4F1A, 0x8BDD, 0x4F1A, 0x7ACB, 0x5373, 0x5931,
     0x6548, 0x3002]"

definition t_reset_of :: jsstr where
  "t_reset_of = [0x91CD, 0x7F6E, 0x20]"

definition t_password_of :: jsstr where
  "t_password_of = [0x20, 0x7684, 0x5BC6, 0x7801]"

definition t_reset_sub :: jsstr where
  "t_reset_sub = [0x4FDD, 0x5B58, 0x540E, 0x8BE5, 0x8D26, 0x53F7, 0x6240, 0x6709, 0x5DF2, 0x767B, 0x5F55,
     0x4F1A, 0x8BDD, 0x90FD, 0x4F1A, 0x7ACB, 0x5373, 0x5931, 0x6548, 0x3002]"

definition t_new_password :: jsstr where
  "t_new_password = [0x65B0, 0x5BC6, 0x7801]"

definition t_confirm_password :: jsstr where
  "t_confirm_password = [0x786E, 0x8BA4, 0x65B0, 0x5BC6, 0x7801]"

definition t_reset_password :: jsstr where
  "t_reset_password = [0x91CD, 0x7F6E, 0x5BC6, 0x7801]"

definition t_search_users :: jsstr where
  "t_search_users = [0x641C, 0x7D22, 0x7528, 0x6237, 0x540D, 0x6216, 0x663E, 0x793A, 0x540D, 0x79F0]"

definition t_all_roles :: jsstr where
  "t_all_roles = [0x5168, 0x90E8, 0x6743, 0x9650]"

definition t_delete_user :: jsstr where
  "t_delete_user = [0x5220, 0x9664, 0x8D26, 0x53F7]"

definition t_account :: jsstr where
  "t_account = [0x8D26, 0x53F7]"

definition t_last_login :: jsstr where
  "t_last_login = [0x6700, 0x540E, 0x767B, 0x5F55]"

definition t_never_logged_in :: jsstr where
  "t_never_logged_in = [0x4ECE, 0x672A, 0x767B, 0x5F55]"

definition t_user_operations :: jsstr where
  "t_user_operations = [0x8D26, 0x53F7, 0x64CD, 0x4F5C]"

definition t_no_users :: jsstr where
  "t_no_users = [0x6682, 0x65E0, 0x8D26, 0x53F7]"

definition t_no_users_sub :: jsstr where
  "t_no_users_sub = [0x521B, 0x5EFA, 0x7BA1, 0x7406, 0x5458, 0x6216, 0x67E5, 0x770B, 0x8005, 0x8D26, 0x53F7,
     0x540E, 0xFF0C, 0x7528, 0x6237, 0x5373, 0x53EF, 0x767B, 0x5F55, 0x5E73, 0x53F0, 0x3002]"

definition t_delete_user_q :: jsstr where
  "t_delete_user_q = [0x5220, 0x9664, 0x8D26, 0x53F7, 0x20]"

definition t_delete_user_sub :: jsstr where
  "t_delete_user_sub = [0x8BE5, 0x8D26, 0x53F7, 0x7684, 0x6240, 0x6709, 0x4F1A, 0x8BDD, 0x4F1A, 0x7ACB, 0x5373,
     0x5931, 0x6548, 0x3002, 0x6B64, 0x64CD, 0x4F5C, 0x4E0D, 0x53EF, 0x64A4, 0x9500, 0x3002]"

definition t_users_sub :: jsstr where
  "t_users_sub = [0x521B, 0x5EFA, 0x5E73, 0x53F0, 0x8D26, 0x53F7, 0xFF0C, 0x5E76, 0x5728, 0x7BA1, 0x7406,
     0x5458, 0x4E0E, 0x67E5, 0x770B, 0x8005, 0x4E24, 0x79CD, 0x6743, 0x9650, 0x4E4B, 0x95F4,
     0x5206, 0x914D, 0x8BBF, 0x95EE, 0x80FD, 0x529B, 0x3002]"

definition t_users_total :: jsstr where
  "t_users_total = [0x8D26, 0x53F7, 0x603B, 0x6570]"

definition t_users_total_sub :: jsstr where
  "t_users_total_sub = [0x6240, 0x6709, 0x5E73, 0x53F0, 0x767B, 0x5F55, 0x8D26, 0x53F7]"

definition t_admins_sub :: jsstr where
  "t_admins_sub = [0x53EF, 0x4EE5, 0x7BA1, 0x7406, 0x7CFB, 0x7EDF, 0x4E0E, 0x53D1, 0x8D77, 0x626B, 0x63CF]"

definition t_viewers_sub :: jsstr where
  "t_viewers_sub = [0x53EA, 0x80FD, 0x67E5, 0x770B, 0x5F53, 0x524D, 0x6570, 0x636E]"


subsection \<open>The create and edit dialog\<close>

datatype user_form = CreateForm CreateUserInput | UpdateForm UpdateUserInput

datatype user_dialog_action =
    UdUsername jsstr | UdPassword jsstr | UdDisplay jsstr | UdRole UserRole | UdEnabled bool | UdCancel | UdSubmit

definition editing_self :: "AuthContextValue \<Rightarrow> User option \<Rightarrow> bool" where
  "editing_self auth user \<longleftrightarrow> map_option usr_id user = map_option usr_id (ac_user auth)"

definition user_dialog_defaults :: "User option \<Rightarrow> user_form" where
  "user_dialog_defaults user =
     (case user of
        Some u \<Rightarrow> UpdateForm \<lparr>uu_display_name = usr_display_name u, uu_role = usr_role u, uu_enabled = usr_enabled u\<rparr>
      | None \<Rightarrow> CreateForm \<lparr>cu_username = [], cu_display_name = [], cu_password = [], cu_role = Viewer\<rparr>)"

fun user_form_set :: "user_dialog_action \<Rightarrow> user_form \<Rightarrow> user_form" where
  "user_form_set (UdUsername s) (CreateForm v) = CreateForm (v\<lparr>cu_username := s\<rparr>)"
| "user_form_set (UdPassword s) (CreateForm v) = CreateForm (v\<lparr>cu_password := s\<rparr>)"
| "user_form_set (UdDisplay s) (CreateForm v) = CreateForm (v\<lparr>cu_display_name := s\<rparr>)"
| "user_form_set (UdRole r) (CreateForm v) = CreateForm (v\<lparr>cu_role := r\<rparr>)"
| "user_form_set (UdDisplay s) (UpdateForm v) = UpdateForm (v\<lparr>uu_display_name := s\<rparr>)"
| "user_form_set (UdRole r) (UpdateForm v) = UpdateForm (v\<lparr>uu_role := r\<rparr>)"
| "user_form_set (UdEnabled b) (UpdateForm v) = UpdateForm (v\<lparr>uu_enabled := b\<rparr>)"
| "user_form_set _ f = f"

text \<open>Submitting validates with the schema of the mode and calls the mutation of the mode; the
  dialog closes when it has succeeded.\<close>

datatype user_request = CreateRequest CreateUserInput | UpdateRequest jsstr UpdateUserInput

definition user_dialog_submit :: "User option \<Rightarrow> user_form \<Rightarrow> field_errors + user_request" where
  "user_dialog_submit user form =
     (case (user, form) of
        (Some u, UpdateForm v) \<Rightarrow> map_sum id (\<lambda>w. UpdateRequest (usr_id u) w) (updateUserSchema v)
      | (None, CreateForm v) \<Rightarrow> map_sum id CreateRequest (createUserSchema v)
      | (Some u, CreateForm v) \<Rightarrow> Inl []
      | (None, UpdateForm v) \<Rightarrow> Inl [])"

fun form_display :: "user_form \<Rightarrow> jsstr" where
  "form_display (CreateForm v) = cu_display_name v"
| "form_display (UpdateForm v) = uu_display_name v"

fun form_role :: "user_form \<Rightarrow> UserRole" where
  "form_role (CreateForm v) = cu_role v"
| "form_role (UpdateForm v) = uu_role v"

definition UserDialog ::
  "AuthContextValue \<Rightarrow> User option \<Rightarrow> bool \<Rightarrow> user_form \<Rightarrow> field_errors \<Rightarrow> bool \<Rightarrow> user_dialog_action node" where
  "UserDialog auth user isOpen form errors pending =
     (let self = editing_self auth user in
      if \<not> isOpen then Null
      else El ''Dialog'' [On ''openChange'' UdCancel]
       [el ''DialogTitle'' [Txt (if user \<noteq> None then t_edit_user else t_create_user)],
        el ''DialogDescription'' [Txt (if user \<noteq> None then t_edit_user_sub else t_create_user_sub)],
        El ''form'' [On ''submit'' UdSubmit]
         [(case form of
             CreateForm v \<Rightarrow> Frag
               [text_field ''username'' t_username_field (cu_username v) UdUsername errors,
                el ''FormDescription'' [Txt t_username_fixed],
                text_field ''password'' t_initial_password (cu_password v) UdPassword errors]
           | UpdateForm _ \<Rightarrow> Null),
          text_field ''display_name'' t_display_name (form_display form) UdDisplay errors,
          el ''FormItem''
            [el ''FormLabel'' [Txt t_permission],
             El ''Select'' [Attr ''value'' (userRole_str (form_role form)), Flag ''disabled'' self]
               [El ''SelectItem'' [Flag ''disabled'' self, On ''select'' (UdRole Admin)] [Txt t_admin_role],
                El ''SelectItem'' [Flag ''disabled'' self, On ''select'' (UdRole Viewer)] [Txt t_viewer_role]],
             el ''FormDescription'' [Txt (if self then t_no_self_role else t_role_help)],
             field_message errors ''role''],
          (case form of
             UpdateForm v \<Rightarrow> el ''FormItem''
               [el ''FormLabel'' [Txt t_enable_user],
                el ''FormDescription'' [Txt (if self then t_no_self_disable else t_disable_help)],
                El ''Switch'' [Flag ''checked'' (uu_enabled v), Flag ''disabled'' self, OnBool ''checkedChange'' UdEnabled] []]
           | CreateForm _ \<Rightarrow> Null)],
        El ''Button'' [On ''click'' UdCancel] [Txt t_cancel],
        El ''Button'' [Flag ''disabled'' pending, On ''click'' UdSubmit]
          [Txt (if user \<noteq> None then t_save_changes else t_create_user)]])"

subsection \<open>Resetting a password\<close>

datatype reset_action = RpPassword jsstr | RpConfirm jsstr | RpCancel | RpSubmit

text \<open>After a success the dialog closes, and a user who reset their own password is signed out.\<close>

definition reset_submit :: "AuthContextValue \<Rightarrow> User option \<Rightarrow> ResetPasswordValues \<Rightarrow> js_error + unit \<Rightarrow>
    (jsstr \<times> jsstr) option \<times> bool \<times> effect list" where
  "reset_submit auth user values result =
     (case user of None \<Rightarrow> (None, False, [])
      | Some u \<Rightarrow>
        (case result of
           Inl _ \<Rightarrow> (Some (usr_id u, rp_password values), False, [])
         | Inr _ \<Rightarrow> (Some (usr_id u, rp_password values), True,
             if Some (usr_id u) = map_option usr_id (ac_user auth) then [DispatchEvent ''cfscan:unauthorized''] else [])))"

definition ResetPasswordDialog ::
  "User option \<Rightarrow> bool \<Rightarrow> ResetPasswordValues \<Rightarrow> field_errors \<Rightarrow> bool \<Rightarrow> reset_action node" where
  "ResetPasswordDialog user isOpen v errors pending =
     (if \<not> isOpen then Null
      else El ''Dialog'' [On ''openChange'' RpCancel]
       [el ''DialogTitle'' [Txt (t_reset_of @ (case user of None \<Rightarrow> [] | Some u \<Rightarrow> usr_display_name u) @ t_password_of)],
        el ''DialogDescription'' [Txt t_reset_sub],
        El ''form'' [On ''submit'' RpSubmit]
          [text_field ''password'' t_new_password (rp_password v) RpPassword errors,
           text_field ''confirm_password'' t_confirm_password (rp_confirm_password v) RpConfirm errors],
        El ''Button'' [On ''click'' RpCancel] [Txt t_cancel],
        El ''Button'' [Flag ''disabled'' pending, On ''click'' RpSubmit] [Txt t_reset_password]])"

subsection \<open>The table\<close>

datatype users_action =
    UsSearch jsstr | UsRole jsstr | UsResetFilters | UsEdit User | UsReset User | UsAskDelete User
  | UsConfirmDelete | UsCancelDelete | UsCreate | UsRefetch | UsDialog user_dialog_action | UsPassword reset_action

text \<open>The filters are the filter values of two columns; undefined means no filter.\<close>

record users_filters =
  uf_search :: "jsstr option"
  uf_role :: "jsstr option"

definition UsersToolbar :: "users_filters \<Rightarrow> users_action node" where
  "UsersToolbar f =
     (let role = nullish (uf_role f) (lit ''all'');
          filtered = (truthy (uf_search f) \<or> role \<noteq> lit ''all'') in
      el ''div''
       [SearchInput (opt_str (uf_search f)) t_search_users UsSearch,
        El ''Select'' [Attr ''value'' role]
          [El ''SelectItem'' [On ''select'' (UsRole (lit ''all''))] [Txt t_all_roles],
           El ''SelectItem'' [On ''select'' (UsRole (lit ''admin''))] [Txt t_admin_role],
           El ''SelectItem'' [On ''select'' (UsRole (lit ''viewer''))] [Txt t_viewer_role]],
        DataTableResetButton (\<not> filtered) UsResetFilters])"

fun users_filter_step :: "users_action \<Rightarrow> users_filters \<Rightarrow> users_filters" where
  "users_filter_step (UsSearch s) f = f\<lparr>uf_search := Some s\<rparr>"
| "users_filter_step (UsRole v) f = f\<lparr>uf_role := (if v = lit ''all'' then None else Some v)\<rparr>"
| "users_filter_step UsResetFilters f = f\<lparr>uf_search := Some [], uf_role := None\<rparr>"
| "users_filter_step _ f = f"

text \<open>The toolbar keeps the contract of the toolbars.\<close>

interpretation users_toolbar: filter_toolbar UsersToolbar users_filter_step UsResetFilters UsSearch "\<lambda>f. opt_str (uf_search f)" "\<lambda>f. truthy (uf_search f) \<or> nullish (uf_role f) (lit ''all'') \<noteq> lit ''all''"
  by unfold_locales (auto simp: UsersToolbar_def truthy_def opt_str_def Let_def split: option.splits)

definition role_label :: "UserRole \<Rightarrow> jsstr" where
  "role_label r = (if r = Admin then t_admin_role else t_viewer_role)"

definition is_self :: "AuthContextValue \<Rightarrow> User \<Rightarrow> bool" where
  "is_self auth u \<longleftrightarrow> Some (usr_id u) = map_option usr_id (ac_user auth)"

definition user_menu :: "AuthContextValue \<Rightarrow> User \<Rightarrow> users_action node" where
  "user_menu auth u = el ''DropdownMenuContent''
     [El ''DropdownMenuItem'' [On ''click'' (UsEdit u)] [Txt t_edit_user],
      El ''DropdownMenuItem'' [On ''click'' (UsReset u)] [Txt t_reset_password],
      El ''DropdownMenuItem'' [Flag ''disabled'' (is_self auth u), On ''click'' (UsAskDelete u)] [Txt t_delete_user]]"

definition users_columns :: "intl \<Rightarrow> clock \<Rightarrow> AuthContextValue \<Rightarrow> (User, users_action) column list" where
  "users_columns I c auth =
     [\<lparr>col_id = ''username'', col_label = t_account, col_sortable = True, col_hideable = True,
       col_cell = (\<lambda>u. el ''div'' [el ''p'' [Txt (usr_username u)], el ''p'' [Txt (usr_display_name u)]])\<rparr>,
      \<lparr>col_id = ''role'', col_label = t_permission, col_sortable = True, col_hideable = True,
       col_cell = (\<lambda>u. el ''Badge'' [Txt (role_label (usr_role u))])\<rparr>,
      \<lparr>col_id = ''enabled'', col_label = t_state, col_sortable = True, col_hideable = True,
       col_cell = (\<lambda>u. StatusBadge (enabled_status (usr_enabled u)))\<rparr>,
      \<lparr>col_id = ''last_login_at'', col_label = t_last_login, col_sortable = True, col_hideable = True,
       col_cell = (\<lambda>u. if truthy (usr_last_login_at u)
         then el ''div'' [el ''p'' [LiveRelativeTime I c (usr_last_login_at u)],
                        el ''p'' [text_or_throw (formatDate I (usr_last_login_at u))]]
         else el ''span'' [Txt t_never_logged_in])\<rparr>,
      \<lparr>col_id = ''created_at'', col_label = t_created_at, col_sortable = True, col_hideable = True,
       col_cell = (\<lambda>u. el ''span'' [text_or_throw (formatDate I (Some (usr_created_at u)))])\<rparr>,
      \<lparr>col_id = ''actions'', col_label = t_operations, col_sortable = False, col_hideable = False,
       col_cell = (\<lambda>u. el ''DropdownMenu''
         [El ''DropdownMenuTrigger'' [Attr ''aria-label'' (t_operate @ usr_username u)] [],
          el ''DropdownMenuLabel'' [Txt t_user_operations], user_menu auth u])\<rparr>]"

record users_table_state =
  ut_editing :: "User option"
  ut_resetting :: "User option"
  ut_deleting :: "User option"
  ut_removePending :: bool

definition user_card :: "AuthContextValue \<Rightarrow> User \<Rightarrow> users_action node" where
  "user_card auth u = el ''Card''
     [el ''p'' [Txt (usr_username u)], el ''p'' [Txt (usr_display_name u)], StatusBadge (enabled_status (usr_enabled u)),
      el ''Badge'' [Txt (role_label (usr_role u))], user_menu auth u]"

definition UsersTable ::
  "intl \<Rightarrow> clock \<Rightarrow> AuthContextValue \<Rightarrow> User table_view \<Rightarrow> nat \<Rightarrow> users_filters \<Rightarrow> users_table_state
    \<Rightarrow> users_action dt_action node" where
  "UsersTable I c auth tv n f s = Frag
     [DataTable (users_columns I c auth) tv n t_no_users t_no_users_sub
        (Some (UsersToolbar f)) (Some (user_card auth)) 20 None,
      (case ut_deleting s of None \<Rightarrow> Null
       | Some u \<Rightarrow> El ''AlertDialog'' [On ''openChange'' (Item UsCancelDelete)]
           [el ''AlertDialogTitle'' [Txt (t_delete_user_q @ usr_username u @ t_question)],
            el ''AlertDialogDescription'' [Txt t_delete_user_sub],
            El ''AlertDialogCancel'' [On ''click'' (Item UsCancelDelete)] [Txt t_cancel],
            El ''AlertDialogAction'' [Flag ''disabled'' (ut_removePending s), On ''click'' (Item UsConfirmDelete)] [Txt t_confirm_delete]])]"

text \<open>Confirming calls the mutation for the user the dialog is open for.\<close>

fun users_step :: "users_action \<Rightarrow> users_table_state \<Rightarrow> users_table_state \<times> api_call list" where
  "users_step (UsEdit u) s = (s\<lparr>ut_editing := Some u\<rparr>, [])"
| "users_step (UsReset u) s = (s\<lparr>ut_resetting := Some u\<rparr>, [])"
| "users_step (UsAskDelete u) s = (s\<lparr>ut_deleting := Some u\<rparr>, [])"
| "users_step UsCancelDelete s = (s\<lparr>ut_deleting := None\<rparr>, [])"
| "users_step UsConfirmDelete s =
     (case ut_deleting s of None \<Rightarrow> (s, []) | Some u \<Rightarrow> (s\<lparr>ut_removePending := True\<rparr>, [deleteUser (usr_id u)]))"
| "users_step UsRefetch s = (s, [listUsers])"
| "users_step _ s = (s, [])"

subsection \<open>The page\<close>

definition UsersPage :: "User list query_state \<Rightarrow> users_action dt_action node \<Rightarrow> users_action dt_action node" where
  "UsersPage users table =
     (case users of
        QPending \<Rightarrow> PageSkeleton (Some 6)
      | QError e \<Rightarrow> ErrorState None (Some e) (Some (Item UsRefetch))
      | QData items \<Rightarrow> el ''div''
          [PageHeader None t_nav_users t_users_sub
             (Some (button False (Item UsCreate) [Txt t_create_user])),
           MetricCard t_users_total (Txt (show_int (int (length items)))) t_users_total_sub Null,
           MetricCard t_admin_role (Txt (show_int (int (length (filter (\<lambda>u. usr_role u = Admin \<and> usr_enabled u) items)))))
             t_admins_sub Null,
           MetricCard t_viewer_role (Txt (show_int (int (length (filter (\<lambda>u. usr_role u = Viewer \<and> usr_enabled u) items)))))
             t_viewers_sub Null,
           table])"

subsection \<open>A user cannot lock themselves out\<close>

definition spares_self :: "AuthContextValue \<Rightarrow> users_action \<Rightarrow> bool" where
  "spares_self auth a \<longleftrightarrow> (case a of UsAskDelete u \<Rightarrow> \<not> is_self auth u | _ \<Rightarrow> True)"

lemma spares_self_simps [simp]:
  "spares_self auth (UsSearch t)" "spares_self auth (UsRole t)" "spares_self auth UsResetFilters"
  "spares_self auth (UsEdit u)" "spares_self auth (UsReset u)"
  "spares_self auth (UsAskDelete u) \<longleftrightarrow> \<not> is_self auth u" "spares_self auth UsCancelDelete"
  "spares_self auth UsConfirmDelete"
  by (simp_all add: spares_self_def)

lemma users_table_spares_self:
  "acts (\<lambda>a. case a of Item e \<Rightarrow> spares_self auth e | _ \<Rightarrow> True) (UsersTable I c auth tv n f s)"
proof -
  have m: "acts (spares_self auth) (user_menu auth u)" for u
    by (simp add: user_menu_def)
  have "acts (\<lambda>a. case a of Item e \<Rightarrow> spares_self auth e | _ \<Rightarrow> True)
      (DataTable (users_columns I c auth) tv n t_no_users t_no_users_sub (Some (UsersToolbar f)) (Some (user_card auth)) 20 None)"
    using m by (intro acts_DataTable)
      (auto simp: users_columns_def UsersToolbar_def user_card_def SearchInput_def DataTableResetButton_def Let_def)
  then show ?thesis by (auto simp: UsersTable_def split: option.splits)
qed

definition keeps_access :: "user_dialog_action \<Rightarrow> bool" where
  "keeps_access a \<longleftrightarrow> (case a of UdRole _ \<Rightarrow> False | UdEnabled _ \<Rightarrow> False | _ \<Rightarrow> True)"

lemma keeps_access_form:
  "keeps_access a \<Longrightarrow> form = UpdateForm v \<Longrightarrow>
   \<exists>w. user_form_set a form = UpdateForm w \<and> uu_role w = uu_role v \<and> uu_enabled w = uu_enabled v"
  by (cases a) (auto simp: keeps_access_def)

lemma keeps_access_run:
  "list_all keeps_access as \<Longrightarrow>
   \<exists>w. fold user_form_set as (UpdateForm v) = UpdateForm w \<and> uu_role w = uu_role v \<and> uu_enabled w = uu_enabled v"
proof (induction as arbitrary: v)
  case (Cons a as)
  from Cons.prems obtain w where w: "user_form_set a (UpdateForm v) = UpdateForm w" "uu_role w = uu_role v" "uu_enabled w = uu_enabled v"
    using keeps_access_form [of a "UpdateForm v" v] by auto
  moreover obtain x where "fold user_form_set as (UpdateForm w) = UpdateForm x" "uu_role x = uu_role w" "uu_enabled x = uu_enabled w"
    using Cons.IH [of w] Cons.prems by auto
  ultimately show ?case by auto
qed simp

text \<open>C10. No user can lock themselves out in the user administration: the table offers no way to delete the signed-in user, in no row, card or menu; and while a user edits themselves every control of the dialog that can be operated leaves role and status alone, so whatever they do, a submitted change keeps their role and keeps them enabled as they were. This is what the server demands of such a change.\<close>

theorem no_self_lockout:
  assumes "ac_user auth = Some me" "usr_id u = usr_id me"
    and "list_all keeps_access as"
    and "user_dialog_submit (Some u) (fold user_form_set as (user_dialog_defaults (Some u))) = Inr (UpdateRequest i w)"
  shows "\<not> offers (Item (UsAskDelete u)) (UsersTable I c auth tv n f s)
    \<and> acts keeps_access (UserDialog auth (Some u) isOpen form errors pending)
    \<and> i = usr_id me \<and> uu_role w = usr_role u \<and> uu_enabled w = usr_enabled u"
proof (intro conjI)
  show "\<not> offers (Item (UsAskDelete u)) (UsersTable I c auth tv n f s)"
    using acts_offers [OF users_table_spares_self [of auth I c tv n f s], of "Item (UsAskDelete u)"] assms(1,2)
    by (auto simp: is_self_def)
  have "editing_self auth (Some u)" using assms(1,2) by (simp add: editing_self_def)
  then show "acts keeps_access (UserDialog auth (Some u) isOpen form errors pending)"
    by (auto simp: UserDialog_def keeps_access_def Let_def split: user_form.splits)
  obtain v where v: "fold user_form_set as (user_dialog_defaults (Some u)) = UpdateForm v"
    "uu_role v = usr_role u" "uu_enabled v = usr_enabled u"
    using keeps_access_run [OF assms(3)] by (fastforce simp: user_dialog_defaults_def)
  have "i = usr_id u \<and> uu_role w = uu_role v \<and> uu_enabled w = uu_enabled v"
    using assms(4) by (auto simp: v(1) user_dialog_submit_def updateUserSchema_def Let_def map_sum_def split: sum.splits)
  then show "i = usr_id me" "uu_role w = usr_role u" "uu_enabled w = usr_enabled u" using v assms(2) by auto
qed

lemma sample_self_submit:
  "user_dialog_submit (Some sample_admin) (fold user_form_set [UdDisplay (lit ''Root'')] (user_dialog_defaults (Some sample_admin)))
     = Inr (UpdateRequest (lit ''u1'') \<lparr>uu_display_name = lit ''Root'', uu_role = Admin, uu_enabled = True\<rparr>)"
  by (simp add: user_dialog_submit_def user_dialog_defaults_def sample_admin_def updateUserSchema_def
      displayNameErrors_def z_defs js_trim_def lit_def is_ws_def Let_def z_result_def)

theorem no_self_lockout_witness:
  "\<exists>w. user_dialog_submit (Some sample_admin)
       (fold user_form_set [UdDisplay (lit ''Root'')] (user_dialog_defaults (Some sample_admin))) = Inr (UpdateRequest (lit ''u1'') w)
     \<and> uu_role w = Admin \<and> uu_enabled w"
proof -
  have k: "list_all keeps_access [UdDisplay (lit ''Root'')]" by (simp add: keeps_access_def)
  from no_self_lockout [OF admin_session(1) refl k sample_self_submit] sample_self_submit
  show ?thesis by (simp add: sample_admin_def)
qed

text \<open>Resetting a password sends the id of the user the dialog is open for and the parsed password; on success the dialog closes, and exactly when it was the signed-in user's own password the session-expired event follows, after which the provider has no user and the routes lead to the login. A failure leaves the dialog open and the session as it was.\<close>

theorem own_reset_signs_out:
  assumes "ac_user (auth_value st) = Some me" "p \<noteq> []" "path_segments p \<noteq> []" "map ascii_lower (path_segments p) \<noteq> [lit ''login'']"
  shows "reset_submit (auth_value st) (Some u) v (Inl e) = (Some (usr_id u, rp_password v), False, [])
    \<and> reset_submit (auth_value st) (Some u) v (Inr ()) = (Some (usr_id u, rp_password v), True,
        if usr_id u = usr_id me then [DispatchEvent ''cfscan:unauthorized''] else [])
    \<and> AppRouter (auth_value (handleUnauthorized st)) p = Goto (lit ''/login'') (Some p)"
  using assms session_end_clears_aux [of st] by (simp add: reset_submit_def AppRouter_def ProtectedRoute_def)

theorem own_reset_signs_out_witness:
  "AppRouter (auth_value (handleUnauthorized (login_success sample_admin auth_init))) (lit ''/users'')
     = Goto (lit ''/login'') (Some (lit ''/users''))"
proof -
  have p: "path_segments (lit ''/users'') = [lit ''users'']" "ascii_lower (lit ''users'') = lit ''users''"
    by (simp_all add: path_segments_def lit_def ascii_lower_def)
  show ?thesis using own_reset_signs_out [OF admin_session(1), of "lit ''/users''"] p by simp
qed

end
