(* ===== verification/Scans.thy ===== *)
theory Scans
  imports League Users
begin

text \<open>
  The scan jobs (\<open>features/scans\<close>): the fields of a scan configuration, which the schedule dialog
  shares, the dialog that creates a job with its guard against losing a form, the table of jobs with
  filters, actions and the dialog that stops a job, and the page.
\<close>

subsection \<open>Literals\<close>

definition t_mode_one :: jsstr where
  "t_mode_one = [0x8986, 0x76D6, 0x5168, 0x90E8, 0x542F, 0x7528, 0x20, 0x43, 0x49, 0x44, 0x52]"

definition t_mode_one_n :: jsstr where
  "t_mode_one_n = [0xFF08, 0x5F53, 0x524D, 0x6765, 0x6E90, 0x5171, 0x20]"

definition t_mode_one_tail :: jsstr where
  "t_mode_one_tail = [0x20, 0x6761, 0xFF0C, 0x49, 0x50, 0x76, 0x36, 0x20, 0x5F00, 0x5173, 0x4F1A, 0x5F71,
     0x54CD, 0x5B9E, 0x9645, 0x6570, 0x91CF, 0xFF09]"

definition t_mode_league_sub :: jsstr where
  "t_mode_league_sub = [0x6309, 0x20, 0x41, 0x67, 0x65, 0x6E, 0x74, 0x20, 0x72EC, 0x7ACB, 0x7EF4, 0x62A4, 0x51A0,
     0x519B, 0x3001, 0x6311, 0x6218, 0x4E0E, 0x89C2, 0x5BDF, 0x5C42, 0xFF0C, 0x4F18, 0x5148,
     0x6DF1, 0x6316, 0x4F18, 0x8D28, 0x524D, 0x7F00, 0x5E76, 0x56FA, 0x5B9A, 0x590D, 0x6D4B,
     0x5019, 0x9009, 0x20, 0x49, 0x50, 0x3002]"

definition t_mode_count_sub :: jsstr where
  "t_mode_count_sub = [0x4ECE, 0x5168, 0x90E8, 0x542F, 0x7528, 0x524D, 0x7F00, 0x4E2D, 0x8F6E, 0x8BE2, 0x62BD,
     0x53D6, 0x6307, 0x5B9A, 0x6570, 0x91CF, 0x3002]"

definition t_choose :: jsstr where
  "t_choose = [0x9009, 0x62E9, 0x20]"

definition t_dot_concurrency :: jsstr where
  "t_dot_concurrency = [0x20, 0xB7, 0x20, 0x5E76, 0x53D1, 0x20]"

definition t_advanced :: jsstr where
  "t_advanced = [0x9608, 0x503C, 0x4E0E, 0x9AD8, 0x7EA7, 0x9009, 0x9879]"

definition t_timeout_label :: jsstr where
  "t_timeout_label = [0x5355, 0x6B21, 0x8D85, 0x65F6, 0xFF08, 0x6BEB, 0x79D2, 0xFF09]"

definition t_latency_label :: jsstr where
  "t_latency_label = [0x5EF6, 0x8FDF, 0x9608, 0x503C, 0xFF08, 0x6BEB, 0x79D2, 0xFF09]"

definition t_latency_sub :: jsstr where
  "t_latency_sub = [0x8D85, 0x8FC7, 0x540E, 0x8FDB, 0x5165, 0x5F53, 0x524D, 0x20, 0x41, 0x67, 0x65, 0x6E,
     0x74, 0x20, 0x7684, 0x9ED1, 0x540D, 0x5355, 0x3002]"

definition t_loss_label :: jsstr where
  "t_loss_label = [0x4E22, 0x5305, 0x9608, 0x503C, 0xFF08, 0x25, 0xFF09]"

definition t_blacklist_label :: jsstr where
  "t_blacklist_label = [0x9ED1, 0x540D, 0x5355, 0x7B49, 0x5F85, 0x65F6, 0x95F4, 0xFF08, 0x5206, 0x949F, 0xFF09]"

definition t_ipv6_label :: jsstr where
  "t_ipv6_label = [0x5305, 0x542B, 0x20, 0x49, 0x50, 0x76, 0x36, 0x20, 0x91C7, 0x6837]"

definition t_ipv6_sub :: jsstr where
  "t_ipv6_sub = [0x49, 0x50, 0x76, 0x36, 0x20, 0x53EA, 0x6309, 0x20, 0x43, 0x49, 0x44, 0x52, 0x20, 0x91C7,
     0x6837, 0xFF0C, 0x4E0D, 0x4F1A, 0x5C55, 0x5F00, 0x6574, 0x4E2A, 0x5730, 0x5740, 0x7A7A,
     0x95F4, 0x3002]"

definition t_blocked_label :: jsstr where
  "t_blocked_label = [0x5305, 0x542B, 0x5F53, 0x524D, 0x9ED1, 0x540D, 0x5355, 0x20, 0x49, 0x50]"

definition t_blocked_sub :: jsstr where
  "t_blocked_sub = [0x901A, 0x5E38, 0x53EA, 0x7528, 0x4E8E, 0x4EBA, 0x5DE5, 0x590D, 0x6838, 0xFF0C, 0x4E0D,
     0x5EFA, 0x8BAE, 0x65E5, 0x5E38, 0x8BA1, 0x5212, 0x5F00, 0x542F, 0x3002]"

definition t_job_name :: jsstr where
  "t_job_name = [0x4EFB, 0x52A1, 0x540D, 0x79F0]"

definition t_job_name_sub :: jsstr where
  "t_job_name_sub = [0x5B9A, 0x65F6, 0x8BA1, 0x5212, 0x751F, 0x6210, 0x7684, 0x6BCF, 0x4E00, 0x8F6E, 0x4EFB,
     0x52A1, 0x4E5F, 0x4F1A, 0x4F7F, 0x7528, 0x8FD9, 0x4E2A, 0x540D, 0x79F0, 0x3002]"

definition t_scan_range :: jsstr where
  "t_scan_range = [0x626B, 0x63CF, 0x8303, 0x56F4]"

definition t_mode_count :: jsstr where
  "t_mode_count = [0x6309, 0x6570, 0x91CF, 0x91C7, 0x6837]"

definition t_mode_prefix :: jsstr where
  "t_mode_prefix = [0x6BCF, 0x4E2A, 0x524D, 0x7F00, 0x53D6, 0x20, 0x31, 0x20, 0x4E2A, 0x20, 0x49, 0x50]"

definition t_mode_league :: jsstr where
  "t_mode_league = [0x667A, 0x80FD, 0x7B5B, 0x9009, 0x6700, 0x4F73, 0x20, 0x49, 0x50]"

definition t_budget :: jsstr where
  "t_budget = [0x5355, 0x20, 0x41, 0x67, 0x65, 0x6E, 0x74, 0x20, 0x5355, 0x8F6E, 0x9884, 0x7B97]"

definition t_sample_size :: jsstr where
  "t_sample_size = [0x91C7, 0x6837, 0x20, 0x49, 0x50, 0x20, 0x6570, 0x91CF]"

definition t_budget_sub :: jsstr where
  "t_budget_sub = [0x4F5C, 0x4E3A, 0x6BCF, 0x4E2A, 0x20, 0x41, 0x67, 0x65, 0x6E, 0x74, 0x20, 0x6BCF, 0x8F6E,
     0x7684, 0x76EE, 0x6807, 0x4E0A, 0x9650, 0xFF1B, 0x672A, 0x8F6E, 0x5230, 0x7684, 0x89C2,
     0x5BDF, 0x524D, 0x7F00, 0x4F1A, 0x5728, 0x540E, 0x7EED, 0x8F6E, 0x6B21, 0x7EE7, 0x7EED,
     0x83B7, 0x5F97, 0x673A, 0x4F1A, 0x3002]"

definition t_sample_size_sub :: jsstr where
  "t_sample_size_sub = [0x6BCF, 0x4E2A, 0x6240, 0x9009, 0x20, 0x41, 0x67, 0x65, 0x6E, 0x74, 0x20, 0x90FD, 0x4F1A,
     0x626B, 0x63CF, 0x8FD9, 0x4E00, 0x6279, 0x76EE, 0x6807, 0x3002]"

definition t_auto_targets :: jsstr where
  "t_auto_targets = [0x81EA, 0x52A8, 0x6309, 0x524D, 0x7F00, 0x6570, 0x91CF, 0x751F, 0x6210, 0x76EE, 0x6807]"

definition t_auto_targets_sub :: jsstr where
  "t_auto_targets_sub = [0x5BF9, 0x5B98, 0x65B9, 0x5730, 0x5740, 0x6BB5, 0x4E0E, 0x6240, 0x6709, 0x542F, 0x7528,
     0x20, 0x41, 0x53, 0x4E, 0x20, 0x524D, 0x7F00, 0x7684, 0x53BB, 0x91CD, 0x5E76, 0x96C6,
     0xFF0C, 0x5404, 0x9009, 0x62E9, 0x4E00, 0x4E2A, 0x552F, 0x4E00, 0x20, 0x49, 0x50, 0x3002]"

definition t_attempts_label :: jsstr where
  "t_attempts_label = [0x6BCF, 0x4E2A, 0x20, 0x49, 0x50, 0x20, 0x5C1D, 0x8BD5, 0x6B21, 0x6570]"

definition t_attempts_sub :: jsstr where
  "t_attempts_sub = [0x7528, 0x4E8E, 0x8BA1, 0x7B97, 0x6210, 0x529F, 0x7387, 0x548C, 0x4E22, 0x5305, 0x7387,
     0x3002]"

definition t_scheme_label :: jsstr where
  "t_scheme_label = [0x534F, 0x8BAE]"

definition t_hostname_label :: jsstr where
  "t_hostname_label = [0x6D4B, 0x8BD5, 0x57DF, 0x540D]"

definition t_port_label :: jsstr where
  "t_port_label = [0x7AEF, 0x53E3]"

definition t_path_label :: jsstr where
  "t_path_label = [0x8BF7, 0x6C42, 0x8DEF, 0x5F84]"

definition t_path_sub :: jsstr where
  "t_path_sub = [0x9ED8, 0x8BA4, 0x8DEF, 0x5F84, 0x53EF, 0x8BFB, 0x53D6, 0x20, 0x60, 0x63, 0x6F, 0x6C,
     0x6F, 0x3D, 0x60, 0xFF0C, 0x5E76, 0x4FDD, 0x7559, 0x54CD, 0x5E94, 0x5934, 0x4E2D, 0x7684,
     0x20, 0x43, 0x46, 0x2D, 0x52, 0x41, 0x59, 0x3002]"

definition t_run_agents :: jsstr where
  "t_run_agents = [0x6267, 0x884C, 0x20, 0x41, 0x67, 0x65, 0x6E, 0x74]"

definition t_run_agents_sub :: jsstr where
  "t_run_agents_sub = [0x4E0D, 0x9009, 0x62E9, 0x65F6, 0x5728, 0x6267, 0x884C, 0x65F6, 0x81EA, 0x52A8, 0x4F7F,
     0x7528, 0x6240, 0x6709, 0x5728, 0x7EBF, 0x20, 0x41, 0x67, 0x65, 0x6E, 0x74, 0xFF1B,
     0x79BB, 0x7EBF, 0x8282, 0x70B9, 0x4E0D, 0x4F1A, 0x63A5, 0x6536, 0x4EFB, 0x52A1, 0x3002]"

definition t_no_agents_registered :: jsstr where
  "t_no_agents_registered = [0x5F53, 0x524D, 0x6CA1, 0x6709, 0x5DF2, 0x6CE8, 0x518C, 0x20, 0x41, 0x67, 0x65, 0x6E,
     0x74, 0xFF0C, 0x4EFB, 0x52A1, 0x6267, 0x884C, 0x65F6, 0x5C06, 0x65E0, 0x6CD5, 0x4E0B,
     0x53D1, 0x3002]"

definition t_create_job :: jsstr where
  "t_create_job = [0x521B, 0x5EFA, 0x626B, 0x63CF, 0x4EFB, 0x52A1]"

definition t_create_job_sub :: jsstr where
  "t_create_job_sub = [0x4ECE, 0x5F53, 0x524D, 0x542F, 0x7528, 0x7684, 0x20, 0x43, 0x6C, 0x6F, 0x75, 0x64, 0x66,
     0x6C, 0x61, 0x72, 0x65, 0x20, 0x524D, 0x7F00, 0x4E2D, 0x91C7, 0x6837, 0x76EE, 0x6807,
     0xFF0C, 0x5E76, 0x5C06, 0x540C, 0x4E00, 0x6279, 0x20, 0x49, 0x50, 0x20, 0x5206, 0x53D1,
     0x7ED9, 0x6240, 0x9009, 0x20, 0x41, 0x67, 0x65, 0x6E, 0x74, 0x3002]"

definition t_create_and_send :: jsstr where
  "t_create_and_send = [0x521B, 0x5EFA, 0x5E76, 0x4E0B, 0x53D1]"

definition t_discard_q :: jsstr where
  "t_discard_q = [0x653E, 0x5F03, 0x672A, 0x4FDD, 0x5B58, 0x7684, 0x4EFB, 0x52A1, 0x914D, 0x7F6E, 0xFF1F]"

definition t_discard_sub :: jsstr where
  "t_discard_sub = [0x5F53, 0x524D, 0x8868, 0x5355, 0x5305, 0x542B, 0x5C1A, 0x672A, 0x63D0, 0x4EA4, 0x7684,
     0x4FEE, 0x6539, 0xFF0C, 0x5173, 0x95ED, 0x540E, 0x8FD9, 0x4E9B, 0x5185, 0x5BB9, 0x4F1A,
     0x88AB, 0x6E05, 0x7A7A, 0x3002]"

definition t_keep_editing :: jsstr where
  "t_keep_editing = [0x7EE7, 0x7EED, 0x7F16, 0x8F91]"

definition t_discard :: jsstr where
  "t_discard = [0x653E, 0x5F03, 0x4FEE, 0x6539]"


subsection \<open>The configuration fields\<close>

datatype scan_field =
    SfName jsstr | SfMode SamplingMode | SfCount jsnum | SfAttempts jsnum | SfScheme Scheme | SfHostname jsstr
  | SfPort jsnum | SfPath jsstr | SfAgent jsstr bool | SfTimeout jsnum | SfLatency jsnum | SfLoss jsnum
  | SfBlacklist jsnum | SfIpv6 bool | SfBlocked bool | SfAdvanced bool

text \<open>Choosing a scheme also sets its default port; an agent is appended to or filtered from the
  selection. \<open>SfAdvanced\<close> opens or closes the advanced options and is no field.\<close>

fun scan_field_set :: "scan_field \<Rightarrow> 'a CreateScanJob_scheme \<Rightarrow> 'a CreateScanJob_scheme" where
  "scan_field_set (SfName s) v = v\<lparr>cj_name := s\<rparr>"
| "scan_field_set (SfMode m) v = v\<lparr>cj_sampling_mode := m\<rparr>"
| "scan_field_set (SfCount n) v = v\<lparr>cj_target_count := n\<rparr>"
| "scan_field_set (SfAttempts n) v = v\<lparr>cj_attempts := n\<rparr>"
| "scan_field_set (SfScheme s) v = v\<lparr>cj_scheme := s, cj_port := Fin (if s = SchemeHttps then 443 else 80)\<rparr>"
| "scan_field_set (SfHostname s) v = v\<lparr>cj_hostname := s\<rparr>"
| "scan_field_set (SfPort n) v = v\<lparr>cj_port := n\<rparr>"
| "scan_field_set (SfPath s) v = v\<lparr>cj_path := s\<rparr>"
| "scan_field_set (SfAgent i True) v = v\<lparr>cj_agent_ids := cj_agent_ids v @ [i]\<rparr>"
| "scan_field_set (SfAgent i False) v = v\<lparr>cj_agent_ids := filter (\<lambda>x. x \<noteq> i) (cj_agent_ids v)\<rparr>"
| "scan_field_set (SfTimeout n) v = v\<lparr>cj_timeout_ms := n\<rparr>"
| "scan_field_set (SfLatency n) v = v\<lparr>cj_max_latency_ms := n\<rparr>"
| "scan_field_set (SfLoss n) v = v\<lparr>cj_max_packet_loss := n\<rparr>"
| "scan_field_set (SfBlacklist n) v = v\<lparr>cj_blacklist_minutes := n\<rparr>"
| "scan_field_set (SfIpv6 b) v = v\<lparr>cj_include_ipv6 := b\<rparr>"
| "scan_field_set (SfBlocked b) v = v\<lparr>cj_include_blocked := b\<rparr>"
| "scan_field_set (SfAdvanced b) v = v"

fun num_value :: "jsnum \<Rightarrow> jsstr" where
  "num_value (Fin x) = num_text x"
| "num_value NaN = lit ''NaN''"
| "num_value (Infinity b) = (if b then lit ''Infinity'' else lit ''-Infinity'')"

definition number_field :: "string \<Rightarrow> jsstr \<Rightarrow> jsnum \<Rightarrow> (jsnum \<Rightarrow> 'e) \<Rightarrow> jsstr \<Rightarrow> field_errors \<Rightarrow> 'e node" where
  "number_field name label value onChange description errors = el ''FormItem''
     [el ''FormLabel'' [Txt label],
      El ''Input'' [Attr ''name'' (lit name), Attr ''value'' (num_value value), OnNum ''change'' onChange] [],
      el ''FormDescription'' [Txt description], field_message errors name]"

lemma acts_number_field [simp]: "acts P (number_field n l v f d es) \<longleftrightarrow> (\<forall>x. P (f x))"
  by (simp add: number_field_def)

definition switch_field :: "jsstr \<Rightarrow> jsstr \<Rightarrow> bool \<Rightarrow> (bool \<Rightarrow> 'e) \<Rightarrow> 'e node" where
  "switch_field label description value onChange = el ''FormItem''
     [el ''FormLabel'' [Txt label], el ''FormDescription'' [Txt description],
      El ''Switch'' [Flag ''checked'' value, OnBool ''checkedChange'' onChange] []]"

lemma acts_switch_field [simp]: "acts P (switch_field l d v f) \<longleftrightarrow> (\<forall>b. P (f b))"
  by (simp add: switch_field_def)

definition mode_description :: "SamplingMode \<Rightarrow> Overview option \<Rightarrow> jsstr" where
  "mode_description mode overview =
     (case mode of
        OnePerPrefix \<Rightarrow> t_mode_one @ (case overview of None \<Rightarrow> []
          | Some ov \<Rightarrow> t_mode_one_n @ show_int (ov_prefixes_total ov) @ t_mode_one_tail) @ t_full_stop
      | LeagueMode \<Rightarrow> t_mode_league_sub
      | ByCount \<Rightarrow> t_mode_count_sub)"

definition agent_choice :: "'a CreateScanJob_scheme \<Rightarrow> Agent \<Rightarrow> scan_field node" where
  "agent_choice v agent = el ''label''
     [El ''Checkbox'' [Flag ''checked'' (ag_id agent \<in> set (cj_agent_ids v)), Flag ''disabled'' (ag_status agent \<noteq> AgentOnline),
        Attr ''aria-label'' (t_choose @ ag_name agent), OnBool ''checkedChange'' (SfAgent (ag_id agent))] [],
      el ''strong'' [Txt (ag_name agent)], StatusBadge (agentStatus_str (ag_status agent)),
      el ''span'' [Txt (ag_continent agent), Txt (lit '' / ''), Txt (ag_region agent), Txt t_dot_concurrency, Txt (show_int (ag_concurrency agent))]]"

definition advanced_fields :: "bool \<Rightarrow> 'a CreateScanJob_scheme \<Rightarrow> field_errors \<Rightarrow> scan_field node" where
  "advanced_fields advancedOpen v errors =
     El ''Collapsible'' [Flag ''open'' advancedOpen, OnBool ''openChange'' SfAdvanced]
       [el ''CollapsibleTrigger'' [Txt t_advanced],
        show_if advancedOpen (el ''CollapsibleContent''
         [number_field ''timeout_ms'' t_timeout_label (cj_timeout_ms v) SfTimeout [] errors,
          number_field ''max_latency_ms'' t_latency_label (cj_max_latency_ms v) SfLatency t_latency_sub errors,
          number_field ''max_packet_loss'' t_loss_label (cj_max_packet_loss v) SfLoss [] errors,
          number_field ''blacklist_minutes'' t_blacklist_label (cj_blacklist_minutes v) SfBlacklist [] errors,
          switch_field t_ipv6_label t_ipv6_sub (cj_include_ipv6 v) SfIpv6,
          switch_field t_blocked_label t_blocked_sub (cj_include_blocked v) SfBlocked])]"

definition ScanConfigurationFields ::
  "bool \<Rightarrow> 'a CreateScanJob_scheme \<Rightarrow> field_errors \<Rightarrow> Agent list query_state \<Rightarrow> Overview option \<Rightarrow> scan_field node" where
  "ScanConfigurationFields advancedOpen v errors agents overview =
     (let mode = cj_sampling_mode v; items = (case agents of QData as \<Rightarrow> as | _ \<Rightarrow> []) in Frag
       [text_field ''name'' t_job_name (cj_name v) SfName errors,
        el ''FormDescription'' [Txt t_job_name_sub],
        el ''FormItem''
          [el ''FormLabel'' [Txt t_scan_range],
           select_items (samplingMode_str mode)
             [(lit ''count'', SfMode ByCount, t_mode_count), (lit ''one_per_prefix'', SfMode OnePerPrefix, t_mode_prefix),
              (lit ''league'', SfMode LeagueMode, t_mode_league)],
           el ''FormDescription'' [Txt (mode_description mode overview)], field_message errors ''sampling_mode''],
        (if mode \<noteq> OnePerPrefix
         then number_field ''target_count'' (if mode = LeagueMode then t_budget else t_sample_size)
                (cj_target_count v) SfCount
                (if mode = LeagueMode then t_budget_sub
                 else t_sample_size_sub) errors
         else el ''div'' [el ''p'' [Txt t_auto_targets],
                el ''p'' [Txt t_auto_targets_sub]]),
        number_field ''attempts'' t_attempts_label (cj_attempts v) SfAttempts t_attempts_sub errors,
        el ''FormItem''
          [el ''FormLabel'' [Txt t_scheme_label],
           select_items (scheme_str (cj_scheme v)) [(lit ''https'', SfScheme SchemeHttps, lit ''HTTPS''), (lit ''http'', SfScheme SchemeHttp, lit ''HTTP'')],
           field_message errors ''scheme''],
        text_field ''hostname'' t_hostname_label (cj_hostname v) SfHostname errors,
        number_field ''port'' t_port_label (cj_port v) SfPort [] errors,
        text_field ''path'' t_path_label (cj_path v) SfPath errors,
        el ''FormDescription'' [Txt t_path_sub],
        el ''p'' [Txt t_run_agents],
        el ''p'' [Txt t_run_agents_sub],
        el ''FormItem''
          [el ''div'' (map (agent_choice v) items),
           show_if (agents \<noteq> QPending \<and> items = []) (el ''p'' [Txt t_no_agents_registered]),
           field_message errors ''agent_ids''],
        advanced_fields advancedOpen v errors])"

subsection \<open>The create dialog\<close>

record scan_dialog =
  sd_open :: bool
  sd_advanced :: bool
  sd_confirm :: bool
  sd_values :: CreateScanJob
  sd_errors :: field_errors
  sd_pending :: bool

datatype scan_dialog_action =
    SdOpenChange bool | SdField scan_field | SdSubmit | SdSettled "js_error + ScanJob" | SdConfirmChange bool | SdDiscard

definition scan_dialog_init :: scan_dialog where
  "scan_dialog_init = \<lparr>sd_open = False, sd_advanced = False, sd_confirm = False, sd_values = defaultScanJobValues,
     sd_errors = [], sd_pending = False\<rparr>"

definition sd_dirty :: "scan_dialog \<Rightarrow> bool" where
  "sd_dirty s \<longleftrightarrow> sd_values s \<noteq> defaultScanJobValues"

definition sd_reset :: "scan_dialog \<Rightarrow> scan_dialog" where
  "sd_reset s = s\<lparr>sd_values := defaultScanJobValues, sd_errors := []\<rparr>"

definition requestOpenChange :: "bool \<Rightarrow> scan_dialog \<Rightarrow> scan_dialog" where
  "requestOpenChange nextOpen s =
     (if \<not> nextOpen \<and> sd_dirty s \<and> \<not> sd_pending s then s\<lparr>sd_confirm := True\<rparr>
      else (if nextOpen then s else (sd_reset s)\<lparr>sd_advanced := False\<rparr>)\<lparr>sd_open := nextOpen\<rparr>)"

text \<open>Submitting runs the schema first; the mutation settles later. A request that fails leaves the
  dialog and the form as they are.\<close>

definition scan_submit :: "scan_dialog \<Rightarrow> scan_dialog \<times> CreateScanJob option" where
  "scan_submit s = (case createScanJobSchema (sd_values s) of
      Inl e \<Rightarrow> (s\<lparr>sd_errors := e\<rparr>, None)
    | Inr v \<Rightarrow> (s\<lparr>sd_errors := [], sd_pending := True\<rparr>, Some v))"

fun scan_settled :: "js_error + ScanJob \<Rightarrow> scan_dialog \<Rightarrow> scan_dialog" where
  "scan_settled (Inl e) s = s\<lparr>sd_pending := False\<rparr>"
| "scan_settled (Inr job) s = (sd_reset s)\<lparr>sd_pending := False, sd_open := False\<rparr>"

fun scan_dialog_step :: "scan_dialog_action \<Rightarrow> scan_dialog \<Rightarrow> scan_dialog" where
  "scan_dialog_step (SdOpenChange b) s = requestOpenChange b s"
| "scan_dialog_step (SdField (SfAdvanced b)) s = s\<lparr>sd_advanced := b\<rparr>"
| "scan_dialog_step (SdField f) s = s\<lparr>sd_values := scan_field_set f (sd_values s)\<rparr>"
| "scan_dialog_step SdSubmit s = fst (scan_submit s)"
| "scan_dialog_step (SdSettled r) s = scan_settled r s"
| "scan_dialog_step (SdConfirmChange b) s = s\<lparr>sd_confirm := b\<rparr>"
| "scan_dialog_step SdDiscard s = (sd_reset s)\<lparr>sd_confirm := False, sd_open := False\<rparr>"

definition online_agents :: "Agent list query_state \<Rightarrow> Agent list" where
  "online_agents agents = (case agents of QData as \<Rightarrow> filter (\<lambda>a. ag_status a = AgentOnline) as | _ \<Rightarrow> [])"

text \<open>A form whose submit button is disabled cannot be submitted with the keyboard either.\<close>

definition CreateScanDialog ::
  "scan_dialog \<Rightarrow> Agent list query_state \<Rightarrow> Overview option \<Rightarrow> scan_dialog_action node" where
  "CreateScanDialog s agents overview =
     (let blocked = (sd_pending s \<or> online_agents agents = []) in Frag
       [button False (SdOpenChange True) [Txt t_create_job],
        show_if (sd_open s) (El ''Dialog'' [On ''openChange'' (SdOpenChange False)]
         [el ''DialogTitle'' [Txt t_create_job],
          el ''DialogDescription'' [Txt t_create_job_sub],
          map_node SdField (ScanConfigurationFields (sd_advanced s) (sd_values s) (sd_errors s) agents overview),
          button False (SdOpenChange False) [Txt t_cancel],
          button blocked SdSubmit [Txt t_create_and_send]]),
        show_if (sd_confirm s) (El ''AlertDialog'' [OnBool ''openChange'' SdConfirmChange]
         [el ''AlertDialogTitle'' [Txt t_discard_q],
          el ''AlertDialogDescription'' [Txt t_discard_sub],
          button False (SdConfirmChange False) [Txt t_keep_editing],
          button False SdDiscard [Txt t_discard]])])"

end
