(* ===== verification/Guarded_Form.thy ===== *)
theory Guarded_Form
  imports Prelude
begin

text \<open>
  The contract of a dialog that guards a form: what the dialogs that create a scan job and edit a schedule
  promise, stated once. The dialog has a form with values, may be open, may wait for a request and may ask
  for a confirmation; its actions are the edits of the form, the request to close, the submission, and
  those that let the form go (the confirmed discard, the success of the request, an opening).
\<close>

locale guarded_form =
  fixes step :: "'a \<Rightarrow> 's \<Rightarrow> 's"
    and is_open :: "'s \<Rightarrow> bool"
    and dirty :: "'s \<Rightarrow> bool"
    and pending :: "'s \<Rightarrow> bool"
    and asks :: "'s \<Rightarrow> bool"
    and vals :: "'s \<Rightarrow> 'v"
    and edits :: "'a \<Rightarrow> bool"
    and closing :: 'a
    and submits :: "'a \<Rightarrow> bool"
    and releases :: "'a \<Rightarrow> bool"
  assumes close_asks: "dirty s \<Longrightarrow> \<not> pending s \<Longrightarrow> asks (step closing s)"
    and close_keeps: "dirty s \<Longrightarrow> \<not> pending s \<Longrightarrow> is_open (step closing s) = is_open s \<and> vals (step closing s) = vals s"
    and keeps: "\<not> edits a \<Longrightarrow> \<not> releases a \<Longrightarrow> a \<noteq> closing \<Longrightarrow> is_open s \<Longrightarrow>
      is_open (step a s) \<and> vals (step a s) = vals s"
    and edit_open: "edits a \<Longrightarrow> is_open (step a s) = is_open s"
    and dirty_kept: "\<not> edits a \<Longrightarrow> \<not> releases a \<Longrightarrow> dirty s \<Longrightarrow> \<not> pending s \<Longrightarrow> dirty (step a s)"
    and waits: "\<not> submits a \<Longrightarrow> \<not> pending s \<Longrightarrow> \<not> pending (step a s)"
begin

text \<open>An edited form that is not being submitted survives every run of actions that neither edits it nor lets
  it go, however often the user tries to close the dialog: it stays open with its values.\<close>

lemma form_kept:
  assumes "list_all (\<lambda>a. \<not> edits a \<and> \<not> releases a \<and> \<not> submits a) as" "is_open s" "dirty s" "\<not> pending s"
  shows "is_open (fold step as s) \<and> dirty (fold step as s) \<and> \<not> pending (fold step as s) \<and> vals (fold step as s) = vals s"
  using assms
proof (induction as arbitrary: s)
  case (Cons a as)
  have a: "\<not> edits a" "\<not> releases a" "\<not> submits a" using Cons.prems(1) by simp_all
  have "is_open (step a s) \<and> vals (step a s) = vals s"
    using close_keeps [OF Cons.prems(3,4)] keeps [OF a(1,2) _ Cons.prems(2)] Cons.prems(2) by (cases "a = closing") auto
  moreover have "dirty (step a s)" "\<not> pending (step a s)"
    using dirty_kept [OF a(1,2) Cons.prems(3,4)] waits [OF a(3) Cons.prems(4)] by auto
  ultimately show ?case using Cons by simp
qed simp

text \<open>Between two edits the attempt to close always asks.\<close>

lemma close_after_run:
  assumes "list_all (\<lambda>a. \<not> edits a \<and> \<not> releases a \<and> \<not> submits a) as" "is_open s" "dirty s" "\<not> pending s"
  shows "asks (step closing (fold step as s)) \<and> is_open (step closing (fold step as s)) \<and> vals (step closing (fold step as s)) = vals s"
  using form_kept [OF assms] close_asks [of "fold step as s"] close_keeps [of "fold step as s"] by simp

end

end
