(* ===== verification/Scan_Jobs.thy ===== *)
theory Scan_Jobs
  imports Scans Guarded_Form
begin

text \<open>
  The guard of the create dialog, proved over its runs, and the table of scan jobs
  (\<open>features/scans/components/scan-jobs-table.tsx\<close>) with its filters, its actions, the dialog that stops
  a job, and the page (\<open>scans-page.tsx\<close>).
\<close>

subsection \<open>Literals\<close>

definition t_search_job_name :: jsstr where
  "t_search_job_name = [0x641C, 0x7D22, 0x4EFB, 0x52A1, 0x540D, 0x79F0]"

definition t_every_state :: jsstr where
  "t_every_state = [0x5168, 0x90E8, 0x72B6, 0x6001]"

definition t_cancel_job :: jsstr where
  "t_cancel_job = [0x53D6, 0x6D88, 0x4EFB, 0x52A1]"

definition t_stop_rest :: jsstr where
  "t_stop_rest = [0x505C, 0x6B62, 0x5269, 0x4F59, 0x4EFB, 0x52A1]"

definition t_job_word :: jsstr where
  "t_job_word = [0x4EFB, 0x52A1]"

definition t_kind_word :: jsstr where
  "t_kind_word = [0x7C7B, 0x578B]"

definition t_kind_recheck :: jsstr where
  "t_kind_recheck = [0x9ED1, 0x540D, 0x5355, 0x590D, 0x68C0]"

definition t_kind_scheduled :: jsstr where
  "t_kind_scheduled = [0x5B9A, 0x65F6, 0x626B, 0x63CF]"

definition t_kind_normal :: jsstr where
  "t_kind_normal = [0x5E38, 0x89C4, 0x626B, 0x63CF]"

definition t_per_prefix :: jsstr where
  "t_per_prefix = [0x6BCF, 0x524D, 0x7F00, 0x20, 0x31, 0x20, 0x49, 0x50]"

definition t_progress :: jsstr where
  "t_progress = [0x8FDB, 0x5EA6]"

definition t_outcome :: jsstr where
  "t_outcome = [0x7ED3, 0x679C]"

definition t_job_operations :: jsstr where
  "t_job_operations = [0x4EFB, 0x52A1, 0x64CD, 0x4F5C]"

definition t_copy_job_id :: jsstr where
  "t_copy_job_id = [0x590D, 0x5236, 0x4EFB, 0x52A1, 0x20, 0x49, 0x44]"

definition t_copy_probe :: jsstr where
  "t_copy_probe = [0x590D, 0x5236, 0x63A2, 0x6D4B, 0x5730, 0x5740]"

definition t_success_n :: jsstr where
  "t_success_n = [0x6210, 0x529F, 0x20]"

definition t_fail_n :: jsstr where
  "t_fail_n = [0x20, 0xB7, 0x20, 0x5931, 0x8D25, 0x20]"

definition t_no_jobs :: jsstr where
  "t_no_jobs = [0x6682, 0x65E0, 0x626B, 0x63CF, 0x4EFB, 0x52A1]"

definition t_no_jobs_sub :: jsstr where
  "t_no_jobs_sub = [0x521B, 0x5EFA, 0x4EFB, 0x52A1, 0x540E, 0xFF0C, 0x5728, 0x7EBF, 0x20, 0x41, 0x67, 0x65,
     0x6E, 0x74, 0x20, 0x4F1A, 0x4E3B, 0x52A8, 0x9886, 0x53D6, 0x5E76, 0x6267, 0x884C, 0x3002]"

definition t_cancel_job_q :: jsstr where
  "t_cancel_job_q = [0x53D6, 0x6D88, 0x8FD9, 0x4E2A, 0x626B, 0x63CF, 0x4EFB, 0x52A1, 0xFF1F]"

definition t_stop_rest_q :: jsstr where
  "t_stop_rest_q = [0x505C, 0x6B62, 0x5269, 0x4F59, 0x626B, 0x63CF, 0x4EFB, 0x52A1, 0xFF1F]"

definition t_stop_sub :: jsstr where
  "t_stop_sub = [0x5DF2, 0x5B8C, 0x6210, 0x7684, 0x7ED3, 0x679C, 0x4F1A, 0x4FDD, 0x7559, 0xFF1B, 0x5C1A,
     0x672A, 0x9886, 0x53D6, 0x548C, 0x20, 0x41, 0x67, 0x65, 0x6E, 0x74, 0x20, 0x5F53, 0x524D,
     0x6279, 0x6B21, 0x4E2D, 0x7684, 0x672A, 0x5B8C, 0x6210, 0x76EE, 0x6807, 0x5C06, 0x88AB,
     0x53D6, 0x6D88, 0x3002, 0x505C, 0x6B62, 0x540E, 0x4E0D, 0x80FD, 0x7EE7, 0x7EED, 0x539F,
     0x4EFB, 0x52A1, 0xFF0C, 0x53EF, 0x590D, 0x5236, 0x914D, 0x7F6E, 0x91CD, 0x65B0, 0x521B,
     0x5EFA, 0x3002]"

definition t_go_back :: jsstr where
  "t_go_back = [0x8FD4, 0x56DE]"

definition t_confirm_cancel :: jsstr where
  "t_confirm_cancel = [0x786E, 0x8BA4, 0x53D6, 0x6D88]"

definition t_job_id_copied :: jsstr where
  "t_job_id_copied = [0x4EFB, 0x52A1, 0x20, 0x49, 0x44, 0x20, 0x5DF2, 0x590D, 0x5236]"

definition t_probe_copied :: jsstr where
  "t_probe_copied = [0x63A2, 0x6D4B, 0x5730, 0x5740, 0x5DF2, 0x590D, 0x5236]"

definition t_jobs_sub :: jsstr where
  "t_jobs_sub = [0x4ECE, 0x5DF2, 0x542F, 0x7528, 0x7684, 0x5B98, 0x65B9, 0x4E0E, 0x20, 0x41, 0x53, 0x4E,
     0x20, 0x524D, 0x7F00, 0x4E2D, 0x91C7, 0x6837, 0x76EE, 0x6807, 0xFF0C, 0x5C06, 0x540C,
     0x4E00, 0x6279, 0x20, 0x49, 0x50, 0x20, 0x5206, 0x53D1, 0x7ED9, 0x4E0D, 0x540C, 0x5730,
     0x533A, 0x20, 0x41, 0x67, 0x65, 0x6E, 0x74, 0xFF0C, 0x5E76, 0x6301, 0x7EED, 0x8DDF,
     0x8E2A, 0x8FDB, 0x5EA6, 0x548C, 0x7B5B, 0x9009, 0x7ED3, 0x679C, 0x3002]"


subsection \<open>Runs of the create dialog\<close>

text \<open>What can happen to the dialog: the user takes an action its view offers, or the pending request
  settles.\<close>

fun dialog_event :: "scan_dialog \<Rightarrow> Agent list query_state \<Rightarrow> scan_dialog_action \<Rightarrow> bool" where
  "dialog_event s agents (SdOpenChange b) = (b \<noteq> sd_open s)"
| "dialog_event s agents (SdField f) = sd_open s"
| "dialog_event s agents SdSubmit = (sd_open s \<and> \<not> sd_pending s \<and> online_agents agents \<noteq> [])"
| "dialog_event s agents (SdSettled r) = sd_pending s"
| "dialog_event s agents (SdConfirmChange b) = sd_confirm s"
| "dialog_event s agents SdDiscard = sd_confirm s"

inductive dialog_reach :: "scan_dialog \<Rightarrow> bool" where
  dialog_start: "dialog_reach scan_dialog_init"
| dialog_step: "dialog_reach s \<Longrightarrow> dialog_event s agents a \<Longrightarrow> dialog_reach (scan_dialog_step a s)"

text \<open>A closed dialog holds the default values: opening it always shows a fresh form.\<close>

definition closed_clean :: "scan_dialog \<Rightarrow> bool" where
  "closed_clean s \<longleftrightarrow> (\<not> sd_open s \<longrightarrow> sd_values s = defaultScanJobValues \<and> sd_errors s = [])"

lemma field_step_open [simp]: "sd_open (scan_dialog_step (SdField f) s) = sd_open s"
  by (cases f) simp_all

lemma submit_simps [simp]:
  "sd_open (fst (scan_submit s)) = sd_open s" "sd_values (fst (scan_submit s)) = sd_values s"
  by (simp_all add: scan_submit_def split: sum.split)

lemma dialog_reach_clean: "dialog_reach s \<Longrightarrow> closed_clean s"
proof (induction rule: dialog_reach.induct)
  case dialog_start
  show ?case by (simp add: closed_clean_def scan_dialog_init_def)
next
  case (dialog_step s agents a)
  show ?case
  proof (cases a)
    case (SdSettled r)
    then show ?thesis using dialog_step.IH by (cases r) (auto simp: closed_clean_def sd_reset_def)
  qed (use dialog_step in \<open>auto simp: closed_clean_def requestOpenChange_def sd_reset_def sd_dirty_def\<close>)
qed

text \<open>A step that drops the edited values.\<close>

definition drops :: "scan_dialog_action \<Rightarrow> scan_dialog \<Rightarrow> bool" where
  "drops a s \<longleftrightarrow> sd_dirty s \<and> sd_values (scan_dialog_step a s) \<noteq> sd_values s \<and> (\<forall>f. a \<noteq> SdField f)"

lemma drops_cases:
  "drops a s \<Longrightarrow> a = SdDiscard \<or> (\<exists>job. a = SdSettled (Inr job)) \<or> (a = SdOpenChange False \<and> sd_pending s)"
proof (cases a)
  case (SdSettled r)
  assume "drops a s"
  then show ?thesis using SdSettled by (cases r) (auto simp: drops_def)
qed (auto simp: drops_def requestOpenChange_def sd_reset_def split: if_splits)


lemma sample_dialog_run:
  "dialog_reach (scan_dialog_step (SdField (SfName (lit ''ab''))) (scan_dialog_step (SdOpenChange True) scan_dialog_init))"
  by (intro dialog_step [where agents = QPending] dialog_start) (simp_all add: scan_dialog_init_def requestOpenChange_def)


text \<open>The dialog as a guarded form.\<close>

fun scan_edits :: "scan_dialog_action \<Rightarrow> bool" where
  "scan_edits (SdField f) = True"
| "scan_edits _ = False"

fun scan_releases :: "scan_dialog_action \<Rightarrow> bool" where
  "scan_releases SdDiscard = True"
| "scan_releases (SdSettled r) = True"
| "scan_releases _ = False"

lemma scan_step_pending [simp]:
  "\<not> sd_pending (scan_settled r s)" "sd_pending (scan_dialog_step (SdField f) s) = sd_pending s"
  by (cases r; simp add: sd_reset_def) (cases f; simp)

interpretation create_dialog: guarded_form scan_dialog_step sd_open sd_dirty sd_pending sd_confirm sd_values
  scan_edits "SdOpenChange False" "\<lambda>a. a = SdSubmit" scan_releases
proof
  fix a s
  show "sd_dirty s \<Longrightarrow> \<not> sd_pending s \<Longrightarrow> sd_confirm (scan_dialog_step (SdOpenChange False) s)"
    by (simp add: requestOpenChange_def)
  show "sd_dirty s \<Longrightarrow> \<not> sd_pending s \<Longrightarrow> sd_open (scan_dialog_step (SdOpenChange False) s) = sd_open s
      \<and> sd_values (scan_dialog_step (SdOpenChange False) s) = sd_values s"
    by (simp add: requestOpenChange_def)
  show "\<not> scan_edits a \<Longrightarrow> \<not> scan_releases a \<Longrightarrow> a \<noteq> SdOpenChange False \<Longrightarrow> sd_open s \<Longrightarrow>
      sd_open (scan_dialog_step a s) \<and> sd_values (scan_dialog_step a s) = sd_values s"
    by (cases a) (auto simp: requestOpenChange_def)
  show "scan_edits a \<Longrightarrow> sd_open (scan_dialog_step a s) = sd_open s"
    by (cases a) simp_all
  show "\<not> scan_edits a \<Longrightarrow> \<not> scan_releases a \<Longrightarrow> sd_dirty s \<Longrightarrow> \<not> sd_pending s \<Longrightarrow> sd_dirty (scan_dialog_step a s)"
    by (cases a) (auto simp: requestOpenChange_def sd_dirty_def)
  show "a \<noteq> SdSubmit \<Longrightarrow> \<not> sd_pending s \<Longrightarrow> \<not> sd_pending (scan_dialog_step a s)"
    by (cases a) (auto simp: requestOpenChange_def sd_reset_def)
qed

text \<open>The one gap of the guard: a dialog closed while its request is pending may be opened again and
  filled in; when the request then succeeds the new form is closed and lost without a question.\<close>

lemma late_success_drops:
  fixes n :: jsstr
  assumes "dialog_reach s" "sd_open s" "sd_pending s"
  defines "(s' :: scan_dialog) \<equiv> scan_dialog_step (SdField (SfName n)) (scan_dialog_step (SdOpenChange True) (scan_dialog_step (SdOpenChange False) s))"
  shows "dialog_reach s' \<and> sd_open s' \<and> cj_name (sd_values s') = n \<and> \<not> sd_open (scan_dialog_step (SdSettled (Inr job)) s')
    \<and> sd_values (scan_dialog_step (SdSettled (Inr job)) s') = defaultScanJobValues"
proof -
  have "dialog_reach s'"
    unfolding s'_def using assms(1-3)
    by (intro dialog_step [where agents = QPending]) (simp_all add: requestOpenChange_def sd_reset_def)
  then show ?thesis using assms(2,3) by (simp add: s'_def requestOpenChange_def sd_reset_def)
qed

subsection \<open>The table of jobs\<close>

datatype jobs_action =
    JbSearch jsstr | JbStatus jsstr | JbResetFilters | JbCopyId ScanJob | JbCopyUrl ScanJob | JbAskStop ScanJob
  | JbCancelStop | JbConfirmStop | JbRefetch | JbDialog scan_dialog_action

record jobs_filters =
  jb_name :: "jsstr option"
  jb_status :: "jsstr option"

definition JobToolbar :: "jobs_filters \<Rightarrow> jobs_action node" where
  "JobToolbar f =
     (let status = nullish (jb_status f) (lit ''all''); filtered = (truthy (jb_name f) \<or> status \<noteq> lit ''all'') in
      el ''div''
       [SearchInput (opt_str (jb_name f)) t_search_job_name JbSearch,
        select_items status
          [(lit ''all'', JbStatus (lit ''all''), t_every_state), (lit ''pending'', JbStatus (lit ''pending''), t_st_pending),
           (lit ''running'', JbStatus (lit ''running''), t_st_running), (lit ''completed'', JbStatus (lit ''completed''), t_st_completed),
           (lit ''stopped'', JbStatus (lit ''stopped''), t_st_stopped)],
        DataTableResetButton (\<not> filtered) JbResetFilters])"

fun jobs_filter_step :: "jobs_action \<Rightarrow> jobs_filters \<Rightarrow> jobs_filters" where
  "jobs_filter_step (JbSearch s) f = f\<lparr>jb_name := Some s\<rparr>"
| "jobs_filter_step (JbStatus v) f = f\<lparr>jb_status := (if v = lit ''all'' then None else Some v)\<rparr>"
| "jobs_filter_step JbResetFilters f = \<lparr>jb_name = Some [], jb_status = None\<rparr>"
| "jobs_filter_step _ f = f"

text \<open>The toolbar keeps the contract of the toolbars.\<close>

interpretation jobs_toolbar: filter_toolbar JobToolbar jobs_filter_step JbResetFilters JbSearch "\<lambda>f. opt_str (jb_name f)" "\<lambda>f. truthy (jb_name f) \<or> nullish (jb_status f) (lit ''all'') \<noteq> lit ''all''"
  by unfold_locales (auto simp: JobToolbar_def truthy_def opt_str_def Let_def split: option.splits)

definition probe_url :: "ScanJob \<Rightarrow> jsstr" where
  "probe_url j = sj_scheme j @ lit ''://'' @ sj_hostname j @ lit '':'' @ show_int (sj_port j) @ sj_path j"

definition stoppable :: "AuthContextValue \<Rightarrow> ScanJob \<Rightarrow> bool" where
  "stoppable auth j \<longleftrightarrow> ac_canManage auth \<and> sj_status j \<in> {lit ''pending'', lit ''running''}"

definition stop_label :: "ScanJob \<Rightarrow> jsstr" where
  "stop_label j = (if sj_status j = lit ''pending'' then t_cancel_job else t_stop_rest)"

definition job_progress :: "ScanJob \<Rightarrow> jobs_action node" where
  "job_progress j = el ''div''
     [el ''span'' [Txt (show_int (sj_completed_targets j)), Txt (lit '' / ''), Txt (show_int (sj_total_targets j))],
      el ''span'' [Txt (to_fixed 0 (sj_progress j)), Txt (lit ''%'')],
      El ''Progress'' [Attr ''value'' (num_text (sj_progress j))] []]"

text \<open>The stop entry of the row menu listens to \<open>onSelect\<close>; whether the menu of the component
  library fires it is not part of the sources.\<close>

definition jobs_columns :: "intl \<Rightarrow> AuthContextValue \<Rightarrow> (ScanJob, jobs_action) column list" where
  "jobs_columns I auth =
     [\<lparr>col_id = ''name'', col_label = t_job_word, col_sortable = True, col_hideable = True,
       col_cell = (\<lambda>j. el ''div'' [el ''p'' [Txt (sj_name j)], el ''p'' [Txt (probe_url j)]])\<rparr>,
      \<lparr>col_id = ''kind'', col_label = t_kind_word, col_sortable = True, col_hideable = True,
       col_cell = (\<lambda>j. el ''div''
         [el ''Badge'' [Txt (if sj_kind j = lit ''blacklist_recheck'' then t_kind_recheck
             else if sj_kind j = lit ''scheduled'' then t_kind_scheduled else t_kind_normal)],
          (case sj_sampling_mode j of OnePerPrefix \<Rightarrow> el ''Badge'' [Txt t_per_prefix]
           | LeagueMode \<Rightarrow> el ''Badge'' [Txt t_league_title] | ByCount \<Rightarrow> Null)])\<rparr>,
      \<lparr>col_id = ''status'', col_label = t_state, col_sortable = True, col_hideable = True,
       col_cell = (\<lambda>j. StatusBadge (sj_status j))\<rparr>,
      \<lparr>col_id = ''progress'', col_label = t_progress, col_sortable = True, col_hideable = True, col_cell = job_progress\<rparr>,
      \<lparr>col_id = ''outcome'', col_label = t_outcome, col_sortable = True, col_hideable = True,
       col_cell = (\<lambda>j. el ''span'' [Txt (show_int (sj_success_targets j)), Txt (lit ''/''), Txt (show_int (sj_failed_targets j))])\<rparr>,
      \<lparr>col_id = ''created_at'', col_label = t_created_at, col_sortable = True, col_hideable = True,
       col_cell = (\<lambda>j. el ''span'' [text_or_throw (formatDate I (Some (sj_created_at j)))])\<rparr>,
      \<lparr>col_id = ''actions'', col_label = t_operations, col_sortable = False, col_hideable = False,
       col_cell = (\<lambda>j. el ''DropdownMenu''
         [El ''DropdownMenuTrigger'' [Attr ''aria-label'' t_job_operations] [],
          el ''DropdownMenuLabel'' [Txt t_job_operations],
          El ''DropdownMenuItem'' [On ''click'' (JbCopyId j)] [Txt t_copy_job_id],
          El ''DropdownMenuItem'' [On ''click'' (JbCopyUrl j)] [Txt t_copy_probe],
          show_if (stoppable auth j) (El ''DropdownMenuItem'' [On ''select'' (JbAskStop j)] [Txt (stop_label j)])])\<rparr>]"

definition job_card :: "intl \<Rightarrow> AuthContextValue \<Rightarrow> ScanJob \<Rightarrow> jobs_action node" where
  "job_card I auth j = el ''Card''
     [el ''p'' [Txt (sj_name j)], el ''p'' [Txt (sj_hostname j), Txt (sj_path j)], StatusBadge (sj_status j), job_progress j,
      el ''span'' [Txt t_success_n, Txt (show_int (sj_success_targets j)), Txt t_fail_n, Txt (show_int (sj_failed_targets j))],
      el ''span'' [text_or_throw (formatDate I (Some (sj_created_at j)))],
      show_if (stoppable auth j) (button False (JbAskStop j) [Txt (stop_label j)])]"

text \<open>The jobs view keeps the job whose stop is being confirmed and whether that request is pending.\<close>

record jobs_state =
  js_stopping :: "ScanJob option"
  js_pending :: bool

definition ScanJobsTable ::
  "intl \<Rightarrow> AuthContextValue \<Rightarrow> jobs_filters \<Rightarrow> jobs_state \<Rightarrow> ScanJob table_view \<Rightarrow> nat \<Rightarrow> jobs_action dt_action node" where
  "ScanJobsTable I auth f s tv n = Frag
     [DataTable (jobs_columns I auth) tv n t_no_jobs t_no_jobs_sub
        (Some (JobToolbar f)) (Some (job_card I auth)) 20 None,
      show_if (ac_canManage auth \<and> js_stopping s \<noteq> None) (let pend = (map_option sj_status (js_stopping s) = Some (lit ''pending'')) in
        El ''AlertDialog'' [On ''openChange'' (Item JbCancelStop)]
         [el ''AlertDialogTitle'' [Txt (if pend then t_cancel_job_q else t_stop_rest_q)],
          el ''AlertDialogDescription'' [Txt t_stop_sub],
          button False (Item JbCancelStop) [Txt t_go_back],
          button (js_pending s) (Item JbConfirmStop) [Txt (if pend then t_confirm_cancel else t_stop_rest)]])]"

fun jobs_step :: "jobs_action \<Rightarrow> jobs_state \<Rightarrow> jobs_state \<times> api_call list" where
  "jobs_step (JbAskStop j) s = (s\<lparr>js_stopping := Some j\<rparr>, [])"
| "jobs_step JbCancelStop s = (s\<lparr>js_stopping := None\<rparr>, [])"
| "jobs_step JbConfirmStop s =
     (case js_stopping s of None \<Rightarrow> (s, []) | Some j \<Rightarrow> (s\<lparr>js_pending := True\<rparr>, [stopJob (sj_id j)]))"
| "jobs_step JbRefetch s = (s, [getJobs (Some 100)])"
| "jobs_step _ s = (s, [])"

fun jobs_effects :: "jobs_action \<Rightarrow> bool \<Rightarrow> effect list" where
  "jobs_effects (JbCopyId j) done' = ClipboardWrite (sj_id j) # (if done' then [ToastSuccess t_job_id_copied None] else [])"
| "jobs_effects (JbCopyUrl j) done' = ClipboardWrite (probe_url j) # (if done' then [ToastSuccess t_probe_copied None] else [])"
| "jobs_effects _ _ = []"

subsection \<open>The page\<close>

definition ScansPage ::
  "AuthContextValue \<Rightarrow> ScanJob list query_state \<Rightarrow> scan_dialog_action node \<Rightarrow> jobs_action dt_action node \<Rightarrow> jobs_action dt_action node" where
  "ScansPage auth jobs dialog table =
     (if jobs = QPending then PageSkeleton (Some 8)
      else el ''div''
       [PageHeader None t_nav_jobs t_jobs_sub
          (if ac_canManage auth then Some (map_node (\<lambda>a. Item (JbDialog a)) dialog) else None),
        (case jobs of QError e \<Rightarrow> ErrorState None (Some e) (Some (Item JbRefetch)) | _ \<Rightarrow> table)])"

text \<open>What changes the server's jobs: creating, and asking for or confirming a stop.\<close>

fun jobs_managing :: "jobs_action \<Rightarrow> bool" where
  "jobs_managing (JbAskStop _) = True"
| "jobs_managing JbConfirmStop = True"
| "jobs_managing (JbDialog _) = True"
| "jobs_managing _ = False"

lemma jobs_viewer_table:
  assumes "\<not> ac_canManage auth"
  shows "acts (\<lambda>a. case a of Item e \<Rightarrow> \<not> jobs_managing e | _ \<Rightarrow> True) (ScanJobsTable I auth f s tv n)"
proof -
  have "acts (\<lambda>a. case a of Item e \<Rightarrow> \<not> jobs_managing e | _ \<Rightarrow> True)
      (DataTable (jobs_columns I auth) tv n t_no_jobs t_no_jobs_sub (Some (JobToolbar f)) (Some (job_card I auth)) 20 None)"
    using assms
    by (intro acts_DataTable) (auto simp: jobs_columns_def JobToolbar_def job_card_def job_progress_def SearchInput_def
        DataTableResetButton_def stoppable_def Let_def split: SamplingMode.split)
  then show ?thesis using assms by (simp add: ScanJobsTable_def)
qed

lemma jobs_viewer_page:
  assumes "\<not> ac_canManage auth"
  shows "acts (\<lambda>a. case a of Item e \<Rightarrow> \<not> jobs_managing e | _ \<Rightarrow> True)
    (ScansPage auth jobs dialog (ScanJobsTable I auth f s tv n))"
  using jobs_viewer_table [OF assms] assms
  by (simp add: ScansPage_def PageSkeleton_def PageHeader_def ErrorState_def Let_def list_all_iff split: query_state.split)

end
