(* ===== verification/Schedules.thy ===== *)
theory Schedules
  imports Scan_Jobs
begin

text \<open>
  The scan schedules of the settings (\<open>features/settings/components\<close>): the time zone combobox, the
  dialog that creates or edits a schedule with its guard, and the table with its switches, row
  actions and the dialog that deletes a schedule.
\<close>

subsection \<open>Literals\<close>

definition t_choose_zone :: jsstr where
  "t_choose_zone = [0x9009, 0x62E9, 0x65F6, 0x533A]"

definition t_search_zone :: jsstr where
  "t_search_zone = [0x641C, 0x7D22, 0x65F6, 0x533A, 0xFF0C, 0x4F8B, 0x5982, 0x20, 0x53, 0x68, 0x61, 0x6E,
     0x67, 0x68, 0x61, 0x69, 0x3001, 0x55, 0x54, 0x43, 0x2026]"

definition t_no_zone :: jsstr where
  "t_no_zone = [0x6CA1, 0x6709, 0x5339, 0x914D, 0x7684, 0x65F6, 0x533A]"

definition t_hourly :: jsstr where
  "t_hourly = [0x6BCF, 0x5C0F, 0x65F6]"

definition t_six_hourly :: jsstr where
  "t_six_hourly = [0x6BCF, 0x20, 0x36, 0x20, 0x5C0F, 0x65F6]"

definition t_daily_2 :: jsstr where
  "t_daily_2 = [0x6BCF, 0x5929, 0x20, 0x30, 0x32, 0x3A, 0x30, 0x30]"

definition t_daily_8 :: jsstr where
  "t_daily_8 = [0x6BCF, 0x5929, 0x20, 0x30, 0x38, 0x3A, 0x30, 0x30]"

definition t_monday_8 :: jsstr where
  "t_monday_8 = [0x6BCF, 0x5468, 0x4E00, 0x20, 0x30, 0x38, 0x3A, 0x30, 0x30]"

definition t_edit_schedule :: jsstr where
  "t_edit_schedule = [0x7F16, 0x8F91, 0x5B9A, 0x65F6, 0x8BA1, 0x5212]"

definition t_new_schedule :: jsstr where
  "t_new_schedule = [0x65B0, 0x5EFA, 0x5B9A, 0x65F6, 0x8BA1, 0x5212]"

definition t_schedule_sub :: jsstr where
  "t_schedule_sub = [0x4E2D, 0x5FC3, 0x7AEF, 0x6309, 0x20, 0x43, 0x72, 0x6F, 0x6E, 0x20, 0x548C, 0x65F6,
     0x533A, 0x521B, 0x5EFA, 0x626B, 0x63CF, 0x4EFB, 0x52A1, 0xFF1B, 0x6D4F, 0x89C8, 0x5668,
     0x5173, 0x95ED, 0x6216, 0x670D, 0x52A1, 0x5668, 0x91CD, 0x542F, 0x4E0D, 0x4F1A, 0x4E22,
     0x5931, 0x8BA1, 0x5212, 0x3002]"

definition t_run_plan :: jsstr where
  "t_run_plan = [0x6267, 0x884C, 0x8BA1, 0x5212]"

definition t_enable_plan :: jsstr where
  "t_enable_plan = [0x542F, 0x7528, 0x8BA1, 0x5212]"

definition t_enable_plan_sub :: jsstr where
  "t_enable_plan_sub = [0x505C, 0x7528, 0x540E, 0x4FDD, 0x7559, 0x914D, 0x7F6E, 0xFF0C, 0x4F46, 0x4E2D, 0x5FC3,
     0x4E0D, 0x4F1A, 0x81EA, 0x52A8, 0x521B, 0x5EFA, 0x4EFB, 0x52A1, 0x3002]"

definition t_common_freq :: jsstr where
  "t_common_freq = [0x5E38, 0x7528, 0x9891, 0x7387]"

definition t_custom_cron :: jsstr where
  "t_custom_cron = [0x81EA, 0x5B9A, 0x4E49, 0x20, 0x43, 0x72, 0x6F, 0x6E]"

definition t_preset_sub :: jsstr where
  "t_preset_sub = [0x9009, 0x62E9, 0x9884, 0x8BBE, 0x540E, 0x4ECD, 0x53EF, 0x76F4, 0x63A5, 0x4FEE, 0x6539,
     0x8868, 0x8FBE, 0x5F0F, 0x3002]"

definition t_zone :: jsstr where
  "t_zone = [0x65F6, 0x533A]"

definition t_cron_label :: jsstr where
  "t_cron_label = [0x43, 0x72, 0x6F, 0x6E, 0x20, 0x8868, 0x8FBE, 0x5F0F]"

definition t_cron_sub :: jsstr where
  "t_cron_sub = [0x6807, 0x51C6, 0x20, 0x35, 0x20, 0x6BB5, 0x683C, 0x5F0F, 0xFF1A, 0x5206, 0x949F, 0x3001,
     0x5C0F, 0x65F6, 0x3001, 0x65E5, 0x671F, 0x3001, 0x6708, 0x4EFD, 0x3001, 0x661F, 0x671F,
     0xFF1B, 0x4E5F, 0x652F, 0x6301, 0x20, 0x40, 0x68, 0x6F, 0x75, 0x72, 0x6C, 0x79, 0x20,
     0x548C, 0x20, 0x40, 0x64, 0x61, 0x69, 0x6C, 0x79, 0x3002]"

definition t_create_plan :: jsstr where
  "t_create_plan = [0x521B, 0x5EFA, 0x8BA1, 0x5212]"

definition t_discard_plan_q :: jsstr where
  "t_discard_plan_q = [0x653E, 0x5F03, 0x672A, 0x4FDD, 0x5B58, 0x7684, 0x8BA1, 0x5212, 0x914D, 0x7F6E, 0xFF1F]"

definition t_discard_plan_sub :: jsstr where
  "t_discard_plan_sub = [0x5173, 0x95ED, 0x540E, 0xFF0C, 0x672C, 0x6B21, 0x4FEE, 0x6539, 0x4E0D, 0x4F1A, 0x4FDD,
     0x5B58, 0x3002]"

definition t_daily :: jsstr where
  "t_daily = [0x6BCF, 0x5929]"

definition t_weekly :: jsstr where
  "t_weekly = [0x6BCF, 0x5468]"

definition t_search_plan :: jsstr where
  "t_search_plan = [0x641C, 0x7D22, 0x8BA1, 0x5212, 0x540D, 0x79F0]"

definition t_all_online :: jsstr where
  "t_all_online = [0x5168, 0x90E8, 0x5728, 0x7EBF]"

definition t_plan_word :: jsstr where
  "t_plan_word = [0x8BA1, 0x5212]"

definition t_freq :: jsstr where
  "t_freq = [0x9891, 0x7387]"

definition t_scan_size :: jsstr where
  "t_scan_size = [0x626B, 0x63CF, 0x89C4, 0x6A21]"

definition t_per_prefix_ip :: jsstr where
  "t_per_prefix_ip = [0x6BCF, 0x524D, 0x7F00, 0x20, 0x31, 0x20, 0x4E2A, 0x20, 0x49, 0x50]"

definition t_league_budget :: jsstr where
  "t_league_budget = [0x8054, 0x8D5B, 0x9884, 0x7B97, 0x20]"

definition t_n_ips :: jsstr where
  "t_n_ips = [0x20, 0x4E2A, 0x20, 0x49, 0x50]"

definition t_next_run_label :: jsstr where
  "t_next_run_label = [0x4E0B, 0x6B21, 0x6267, 0x884C]"

definition t_last_time :: jsstr where
  "t_last_time = [0x4E0A, 0x6B21, 0x20]"

definition t_edit_plan :: jsstr where
  "t_edit_plan = [0x7F16, 0x8F91, 0x8BA1, 0x5212]"

definition t_delete_plan :: jsstr where
  "t_delete_plan = [0x5220, 0x9664, 0x8BA1, 0x5212]"

definition t_custom :: jsstr where
  "t_custom = [0x81EA, 0x5B9A, 0x4E49]"

definition t_no_plans :: jsstr where
  "t_no_plans = [0x6682, 0x65E0, 0x5B9A, 0x65F6, 0x8BA1, 0x5212]"

definition t_no_plans_sub :: jsstr where
  "t_no_plans_sub = [0x521B, 0x5EFA, 0x8BA1, 0x5212, 0x540E, 0xFF0C, 0x4E2D, 0x5FC3, 0x7AEF, 0x4F1A, 0x6309,
     0x20, 0x43, 0x72, 0x6F, 0x6E, 0x20, 0x548C, 0x65F6, 0x533A, 0x81EA, 0x52A8, 0x751F,
     0x6210, 0x626B, 0x63CF, 0x4EFB, 0x52A1, 0x3002]"

definition t_delete_plan_q :: jsstr where
  "t_delete_plan_q = [0x5220, 0x9664, 0x5B9A, 0x65F6, 0x8BA1, 0x5212, 0xFF1F]"

definition t_quote_open :: jsstr where
  "t_quote_open = [0x201C]"

definition t_delete_plan_sub :: jsstr where
  "t_delete_plan_sub = [0x201D, 0x7684, 0x914D, 0x7F6E, 0x4F1A, 0x88AB, 0x6C38, 0x4E45, 0x5220, 0x9664, 0xFF0C,
     0x5DF2, 0x7ECF, 0x521B, 0x5EFA, 0x7684, 0x5386, 0x53F2, 0x626B, 0x63CF, 0x4EFB, 0x52A1,
     0x4E0D, 0x4F1A, 0x53D7, 0x5230, 0x5F71, 0x54CD, 0x3002]"


subsection \<open>Time zones\<close>

definition TIMEZONES :: "jsstr list" where
  "TIMEZONES = [lit ''UTC'', lit ''Asia/Shanghai'', lit ''Asia/Hong_Kong'', lit ''Asia/Tokyo'', lit ''Asia/Singapore'',
     lit ''Europe/London'', lit ''Europe/Berlin'', lit ''America/Los_Angeles'', lit ''America/New_York'']"

definition timezone_option :: "jsstr \<Rightarrow> combo_option" where
  "timezone_option zone = \<lparr>so_value = zone, so_label = zone, so_searchText = Some (replace_unit 95 32 zone),
     so_countLabel = None, so_disabled = False\<rparr>"

definition TIMEZONE_OPTIONS :: "combo_option list" where
  "TIMEZONE_OPTIONS = map timezone_option TIMEZONES"

definition zone_options :: "jsstr \<Rightarrow> combo_option list" where
  "zone_options value = (if list_ex (\<lambda>option. so_value option = value) TIMEZONE_OPTIONS then TIMEZONE_OPTIONS
     else timezone_option value # TIMEZONE_OPTIONS)"

definition TimezoneCombobox :: "jsstr \<Rightarrow> (jsstr \<Rightarrow> 'e) \<Rightarrow> 'e node" where
  "TimezoneCombobox value onValueChange = SearchableCombobox value (zone_options value) onValueChange t_choose_zone
     (Some t_search_zone) (Some t_no_zone) None False"

lemma acts_TimezoneCombobox: "(\<And>v. P (f v)) \<Longrightarrow> acts P (TimezoneCombobox v f)"
  unfolding TimezoneCombobox_def by (rule acts_combobox)

text \<open>Whatever zone a schedule has, the combobox shows it.\<close>

lemma zone_shown: "\<exists>i. combo_selected value (zone_options value) = Some i \<and> so_label i = value"
proof -
  have "combo_selected value (zone_options value) \<noteq> None"
    unfolding combo_selected_iff by (force simp: zone_options_def TIMEZONE_OPTIONS_def timezone_option_def list_ex_iff)
  then obtain i where i: "combo_selected value (zone_options value) = Some i" by blast
  have "\<forall>o' \<in> set (zone_options value). so_label o' = so_value o'"
    by (auto simp: zone_options_def TIMEZONE_OPTIONS_def timezone_option_def)
  with combo_selected_value [OF i] i show ?thesis by auto
qed

subsection \<open>Form values of a schedule\<close>

definition cronPresets :: "(jsstr \<times> jsstr) list" where
  "cronPresets = [(lit ''0 * * * *'', t_hourly), (lit ''0 */6 * * *'', t_six_hourly), (lit ''0 2 * * *'', t_daily_2),
     (lit ''0 8 * * *'', t_daily_8), (lit ''0 8 * * 1'', t_monday_8)]"

definition scan_config :: "'a UpsertScanSchedule_scheme \<Rightarrow> UpsertScanSchedule" where
  "scan_config s = \<lparr>cj_name = cj_name s, cj_agent_ids = cj_agent_ids s, cj_sampling_mode = cj_sampling_mode s,
     cj_target_count = cj_target_count s, cj_scheme = cj_scheme s, cj_hostname = cj_hostname s, cj_path = cj_path s,
     cj_port = cj_port s, cj_attempts = cj_attempts s, cj_timeout_ms = cj_timeout_ms s,
     cj_max_latency_ms = cj_max_latency_ms s, cj_max_packet_loss = cj_max_packet_loss s,
     cj_blacklist_minutes = cj_blacklist_minutes s, cj_include_ipv6 = cj_include_ipv6 s,
     cj_include_blocked = cj_include_blocked s, us_enabled = us_enabled s, us_cron_expression = us_cron_expression s,
     us_timezone = us_timezone s\<rparr>"

definition valuesFromSchedule :: "ScanSchedule option \<Rightarrow> UpsertScanSchedule" where
  "valuesFromSchedule schedule = (case schedule of None \<Rightarrow> defaultScanScheduleValues | Some s \<Rightarrow> scan_config s)"

text \<open>The table has its own copy; \<open>overrides\<close> is what the spread at its end replaces.\<close>

definition scheduleInput :: "ScanSchedule \<Rightarrow> (UpsertScanSchedule \<Rightarrow> UpsertScanSchedule) \<Rightarrow> UpsertScanSchedule" where
  "scheduleInput item overrides = overrides (scan_config item)"

subsection \<open>The dialog\<close>

record schedule_dialog =
  hd_open :: bool
  hd_schedule :: "ScanSchedule option"
  hd_advanced :: bool
  hd_confirm :: bool
  hd_base :: UpsertScanSchedule
  hd_values :: UpsertScanSchedule
  hd_errors :: field_errors
  hd_pending :: bool

datatype schedule_action =
    HdOpen "ScanSchedule option" | HdRequest bool | HdField scan_field | HdEnabled bool | HdCron jsstr | HdPreset jsstr
  | HdZone jsstr | HdSubmit | HdSettled "js_error + ScanSchedule" | HdConfirmChange bool | HdDiscard

definition hd_dirty :: "schedule_dialog \<Rightarrow> bool" where
  "hd_dirty s \<longleftrightarrow> hd_values s \<noteq> hd_base s"

definition hd_reset :: "UpsertScanSchedule \<Rightarrow> schedule_dialog \<Rightarrow> schedule_dialog" where
  "hd_reset v s = s\<lparr>hd_base := v, hd_values := v, hd_errors := []\<rparr>"

text \<open>The page opens the dialog for a schedule or for a new one; the effect of the dialog then resets
  the form. Closing clears the page's schedule.\<close>

definition hd_opened :: "ScanSchedule option \<Rightarrow> schedule_dialog \<Rightarrow> schedule_dialog" where
  "hd_opened sch s = hd_reset (valuesFromSchedule sch) (s\<lparr>hd_open := True, hd_schedule := sch\<rparr>)"

definition hd_closed :: "schedule_dialog \<Rightarrow> schedule_dialog" where
  "hd_closed s = s\<lparr>hd_open := False, hd_schedule := None\<rparr>"

definition requestClose :: "bool \<Rightarrow> schedule_dialog \<Rightarrow> schedule_dialog" where
  "requestClose nextOpen s =
     (if \<not> nextOpen \<and> hd_dirty s \<and> \<not> hd_pending s then s\<lparr>hd_confirm := True\<rparr>
      else if \<not> nextOpen then hd_closed ((hd_reset (valuesFromSchedule (hd_schedule s)) s)\<lparr>hd_advanced := False\<rparr>)
      else s\<lparr>hd_open := True\<rparr>)"

datatype schedule_request = CreateSchedule UpsertScanSchedule | UpdateSchedule jsstr UpsertScanSchedule

definition schedule_submit :: "schedule_dialog \<Rightarrow> schedule_dialog \<times> schedule_request option" where
  "schedule_submit s = (case scanScheduleSchema (hd_values s) of
      Inl e \<Rightarrow> (s\<lparr>hd_errors := e\<rparr>, None)
    | Inr v \<Rightarrow> (s\<lparr>hd_errors := [], hd_pending := True\<rparr>,
        Some (case hd_schedule s of Some sch \<Rightarrow> UpdateSchedule (ss_id sch) v | None \<Rightarrow> CreateSchedule v)))"

fun schedule_settled :: "js_error + ScanSchedule \<Rightarrow> schedule_dialog \<Rightarrow> schedule_dialog" where
  "schedule_settled (Inl e) s = s\<lparr>hd_pending := False\<rparr>"
| "schedule_settled (Inr _) s = hd_closed ((hd_reset (hd_values s) s)\<lparr>hd_pending := False\<rparr>)"

text \<open>Choosing a preset writes its expression and validates the field; choosing the custom entry changes
  nothing.\<close>

fun schedule_step :: "schedule_action \<Rightarrow> schedule_dialog \<Rightarrow> schedule_dialog" where
  "schedule_step (HdOpen sch) s = hd_opened sch s"
| "schedule_step (HdRequest b) s = requestClose b s"
| "schedule_step (HdField (SfAdvanced b)) s = s\<lparr>hd_advanced := b\<rparr>"
| "schedule_step (HdField f) s = s\<lparr>hd_values := scan_field_set f (hd_values s)\<rparr>"
| "schedule_step (HdEnabled b) s = s\<lparr>hd_values := (hd_values s)\<lparr>us_enabled := b\<rparr>\<rparr>"
| "schedule_step (HdCron c) s = s\<lparr>hd_values := (hd_values s)\<lparr>us_cron_expression := c\<rparr>\<rparr>"
| "schedule_step (HdPreset c) s = (if c = lit ''custom'' then s else s\<lparr>hd_values := (hd_values s)\<lparr>us_cron_expression := c\<rparr>\<rparr>)"
| "schedule_step (HdZone z) s = s\<lparr>hd_values := (hd_values s)\<lparr>us_timezone := z\<rparr>\<rparr>"
| "schedule_step HdSubmit s = fst (schedule_submit s)"
| "schedule_step (HdSettled r) s = schedule_settled r s"
| "schedule_step (HdConfirmChange b) s = s\<lparr>hd_confirm := b\<rparr>"
| "schedule_step HdDiscard s = hd_closed ((hd_reset (valuesFromSchedule (hd_schedule s)) s)\<lparr>hd_confirm := False\<rparr>)"

definition cron_preset :: "jsstr \<Rightarrow> jsstr" where
  "cron_preset expression = (case find (\<lambda>(v, l). v = expression) cronPresets of Some (v, l) \<Rightarrow> v | None \<Rightarrow> lit ''custom'')"

definition ScheduleDialog ::
  "schedule_dialog \<Rightarrow> Agent list query_state \<Rightarrow> Overview option \<Rightarrow> schedule_action node" where
  "ScheduleDialog s agents overview =
     (let v = hd_values s; es = hd_errors s in Frag
       [show_if (hd_open s) (El ''Dialog'' [On ''openChange'' (HdRequest False)]
         [el ''DialogTitle'' [Txt (if hd_schedule s \<noteq> None then t_edit_schedule else t_new_schedule)],
          el ''DialogDescription'' [Txt t_schedule_sub],
          el ''div'' [Txt t_run_plan],
          switch_field t_enable_plan t_enable_plan_sub (us_enabled v) HdEnabled,
          el ''Label'' [Txt t_common_freq],
          select_items (cron_preset (us_cron_expression v))
            (map (\<lambda>(c, l). (c, HdPreset c, l)) cronPresets @ [(lit ''custom'', HdPreset (lit ''custom''), t_custom_cron)]),
          el ''p'' [Txt t_preset_sub],
          el ''FormItem'' [el ''FormLabel'' [Txt t_zone], TimezoneCombobox (us_timezone v) HdZone, field_message es ''timezone''],
          text_field ''cron_expression'' t_cron_label (us_cron_expression v) HdCron es,
          el ''FormDescription'' [Txt t_cron_sub],
          map_node HdField (ScanConfigurationFields (hd_advanced s) v es agents overview),
          button False (HdRequest False) [Txt t_cancel],
          button (hd_pending s) HdSubmit [Txt (if hd_schedule s \<noteq> None then t_save_changes else t_create_plan)]]),
        show_if (hd_confirm s) (El ''AlertDialog'' [OnBool ''openChange'' HdConfirmChange]
         [el ''AlertDialogTitle'' [Txt t_discard_plan_q],
          el ''AlertDialogDescription'' [Txt t_discard_plan_sub],
          button False (HdConfirmChange False) [Txt t_keep_editing],
          button False HdDiscard [Txt t_discard]])])"

subsection \<open>The table\<close>

definition cronLabels :: "(jsstr \<times> jsstr) list" where
  "cronLabels = [(lit ''0 * * * *'', t_hourly), (lit ''0 */6 * * *'', t_six_hourly), (lit ''0 2 * * *'', t_daily_2),
     (lit ''0 8 * * *'', t_daily_8), (lit ''0 8 * * 1'', t_monday_8), (lit ''@hourly'', t_hourly),
     (lit ''@daily'', t_daily), (lit ''@weekly'', t_weekly)]"

datatype schedules_action =
    ScSearch jsstr | ScResetFilters | ScToggle ScanSchedule bool | ScRun ScanSchedule | ScEdit ScanSchedule
  | ScAskDelete ScanSchedule | ScCancelDelete | ScConfirmDelete | ScCreate | ScRefetch

definition SchedulesToolbar :: "jsstr option \<Rightarrow> schedules_action node" where
  "SchedulesToolbar name = el ''div''
     [SearchInput (opt_str name) t_search_plan ScSearch, DataTableResetButton (\<not> truthy name) ScResetFilters]"

fun plan_filter_step :: "schedules_action \<Rightarrow> jsstr option \<Rightarrow> jsstr option" where
  "plan_filter_step (ScSearch s) name = Some s"
| "plan_filter_step ScResetFilters name = Some []"
| "plan_filter_step _ name = name"

text \<open>The toolbar keeps the contract of the toolbars.\<close>

interpretation plans_toolbar: filter_toolbar SchedulesToolbar plan_filter_step ScResetFilters ScSearch "opt_str" "truthy"
  by unfold_locales (auto simp: SchedulesToolbar_def truthy_def opt_str_def split: option.splits)

definition agents_text :: "ScanSchedule \<Rightarrow> jsstr" where
  "agents_text s = (if cj_agent_ids s = [] then t_all_online else show_int (int (length (cj_agent_ids s))))"

definition enabled_badge :: "bool \<Rightarrow> 'e node" where
  "enabled_badge b = el ''Badge'' [Txt (if b then t_enable else t_disable)]"

definition toggle_label :: "ScanSchedule \<Rightarrow> jsstr" where
  "toggle_label s = (if us_enabled s then t_disable else t_enable) @ lit '' '' @ cj_name s"

record schedules_state =
  sc_deleting :: "ScanSchedule option"
  sc_updatePending :: bool
  sc_runPending :: bool

definition schedules_columns :: "intl \<Rightarrow> bool \<Rightarrow> schedules_state \<Rightarrow> (ScanSchedule, schedules_action) column list" where
  "schedules_columns I canManage st =
     [\<lparr>col_id = ''name'', col_label = t_plan_word, col_sortable = True, col_hideable = True,
       col_cell = (\<lambda>s. el ''div'' [el ''p'' [Txt (cj_name s)], el ''p'' [Txt (cj_hostname s), Txt (cj_path s)]])\<rparr>,
      \<lparr>col_id = ''cron_expression'', col_label = t_freq, col_sortable = True, col_hideable = True,
       col_cell = (\<lambda>s. el ''div'' [el ''p'' [Txt (nullish (map_of cronLabels (us_cron_expression s)) t_custom_cron)],
         el ''p'' [Txt (us_cron_expression s), Txt t_dot_sep, Txt (us_timezone s)]])\<rparr>,
      \<lparr>col_id = ''target_count'', col_label = t_scan_size, col_sortable = True, col_hideable = True,
       col_cell = (\<lambda>s. el ''div''
         [el ''p'' [Txt (case cj_sampling_mode s of OnePerPrefix \<Rightarrow> t_per_prefix_ip
            | LeagueMode \<Rightarrow> t_league_budget @ num_value (cj_target_count s) | ByCount \<Rightarrow> num_value (cj_target_count s) @ t_n_ips)],
          el ''p'' [Txt (agents_text s), Txt (lit '' Agent'')]])\<rparr>,
      \<lparr>col_id = ''next_run_at'', col_label = t_next_run_label, col_sortable = True, col_hideable = True,
       col_cell = (\<lambda>s. el ''div'' [el ''p'' [text_or_throw (formatDateInTimezone I (Some (ss_next_run_at s)) (Some (us_timezone s)))],
         el ''p'' [Txt t_last_time, text_or_throw (formatDateInTimezone I (ss_last_run_at s) (Some (us_timezone s)))]])\<rparr>,
      \<lparr>col_id = ''enabled'', col_label = t_state, col_sortable = True, col_hideable = True,
       col_cell = (\<lambda>s. el ''div''
         [El ''Switch'' [Flag ''checked'' (us_enabled s), Flag ''disabled'' (sc_updatePending st),
            Attr ''aria-label'' (toggle_label s), OnBool ''checkedChange'' (ScToggle s)] [],
          enabled_badge (us_enabled s)])\<rparr>,
      \<lparr>col_id = ''actions'', col_label = t_operations, col_sortable = False, col_hideable = True,
       col_cell = (\<lambda>s. show_if canManage (el ''DropdownMenu''
         [El ''DropdownMenuTrigger'' [Attr ''aria-label'' (t_operate @ cj_name s)] [],
          El ''DropdownMenuItem'' [Flag ''disabled'' (sc_runPending st), On ''click'' (ScRun s)] [Txt t_run_now],
          El ''DropdownMenuItem'' [On ''click'' (ScEdit s)] [Txt t_edit_plan],
          El ''DropdownMenuItem'' [On ''click'' (ScAskDelete s)] [Txt t_delete_plan]]))\<rparr>]"

definition schedule_card :: "intl \<Rightarrow> bool \<Rightarrow> ScanSchedule \<Rightarrow> schedules_action node" where
  "schedule_card I canManage s = el ''Card''
     [el ''p'' [Txt (cj_name s)], el ''p'' [Txt (us_cron_expression s)],
      (if canManage then El ''Switch'' [Flag ''checked'' (us_enabled s), Attr ''aria-label'' (toggle_label s), OnBool ''checkedChange'' (ScToggle s)] []
       else enabled_badge (us_enabled s)),
      el ''div'' [el ''p'' [Txt t_freq], el ''p'' [Txt (nullish (map_of cronLabels (us_cron_expression s)) t_custom)]],
      el ''div'' [el ''p'' [Txt t_next_run_label], el ''p'' [text_or_throw (formatDateInTimezone I (Some (ss_next_run_at s)) (Some (us_timezone s)))]],
      el ''div'' [el ''p'' [Txt t_scan_size], el ''p'' [Txt (case cj_sampling_mode s of OnePerPrefix \<Rightarrow> t_per_prefix
         | LeagueMode \<Rightarrow> t_league_budget @ num_value (cj_target_count s) | ByCount \<Rightarrow> num_value (cj_target_count s) @ lit '' IP'')]],
      el ''div'' [el ''p'' [Txt (lit ''Agent'')], el ''p'' [Txt (agents_text s)]],
      show_if (truthy (ss_last_error s)) (el ''p'' [Txt (opt_str (ss_last_error s))]),
      show_if canManage (el ''div'' [button False (ScRun s) [Txt t_run_now], button False (ScEdit s) [Txt t_edit]])]"

definition SchedulesTable ::
  "intl \<Rightarrow> bool \<Rightarrow> schedules_state \<Rightarrow> jsstr option \<Rightarrow> ScanSchedule table_view \<Rightarrow> nat \<Rightarrow> schedules_action dt_action node" where
  "SchedulesTable I canManage st name tv n = Frag
     [DataTable (schedules_columns I canManage st) tv n t_no_plans t_no_plans_sub
        (Some (SchedulesToolbar name)) (Some (schedule_card I canManage)) 10 None,
      show_if (canManage \<and> sc_deleting st \<noteq> None) (El ''AlertDialog'' [On ''openChange'' (Item ScCancelDelete)]
        [el ''AlertDialogTitle'' [Txt t_delete_plan_q],
         el ''AlertDialogDescription'' [Txt (t_quote_open @ (case sc_deleting st of None \<Rightarrow> [] | Some s \<Rightarrow> cj_name s) @ t_delete_plan_sub)],
         button False (Item ScCancelDelete) [Txt t_cancel],
         button False (Item ScConfirmDelete) [Txt t_delete]])]"

text \<open>The requests of the actions; the confirmed deletion closes its dialog at once.\<close>

fun schedules_step :: "schedules_action \<Rightarrow> schedules_state \<Rightarrow> schedules_state \<times> api_call list" where
  "schedules_step (ScToggle s b) st =
     (st\<lparr>sc_updatePending := True\<rparr>, [updateSchedule (ss_id s) (scheduleInput s (\<lambda>v. v\<lparr>us_enabled := b\<rparr>))])"
| "schedules_step (ScRun s) st = (st\<lparr>sc_runPending := True\<rparr>, [runSchedule (ss_id s)])"
| "schedules_step (ScAskDelete s) st = (st\<lparr>sc_deleting := Some s\<rparr>, [])"
| "schedules_step ScCancelDelete st = (st\<lparr>sc_deleting := None\<rparr>, [])"
| "schedules_step ScConfirmDelete st =
     (st\<lparr>sc_deleting := None\<rparr>, case sc_deleting st of None \<Rightarrow> [] | Some s \<Rightarrow> [deleteSchedule (ss_id s)])"
| "schedules_step _ st = (st, [])"

subsection \<open>Editing keeps the configuration\<close>

text \<open>A configuration the server stores: the schema accepts it and its texts are trimmed.\<close>

definition stored_ok :: "UpsertScanSchedule \<Rightarrow> bool" where
  "stored_ok v \<longleftrightarrow> scanScheduleSchema v = Inr v"

lemma opened_values:
  "hd_values (schedule_step (HdOpen sch) s) = valuesFromSchedule sch" "\<not> hd_dirty (schedule_step (HdOpen sch) s)"
  "hd_schedule (schedule_step (HdOpen sch) s) = sch"
  by (simp_all add: hd_opened_def hd_reset_def hd_dirty_def)


definition sample_schedule :: ScanSchedule where
  "sample_schedule = UpsertScanSchedule.extend defaultScanScheduleValues
     (ScanSchedule.fields (lit ''s1'') (lit ''2026-01-01T00:00:00Z'') None None None (lit ''2026-01-01'') (lit ''2026-01-01''))"

lemma sample_schedule_config: "scan_config sample_schedule = defaultScanScheduleValues" "ss_id sample_schedule = lit ''s1''"
  by (simp_all add: scan_config_def sample_schedule_def defaultScanScheduleValues_def defaultScanJobValues_def CreateScanJob.defs
      UpsertScanSchedule.defs ScanSchedule.defs)


text \<open>The guard of the dialog: an attempt to close a changed form asks first.\<close>

lemma schedule_close_asks:
  "hd_dirty s \<Longrightarrow> \<not> hd_pending s \<Longrightarrow> schedule_step (HdRequest False) s = s\<lparr>hd_confirm := True\<rparr>"
  by (simp add: requestClose_def)

text \<open>The dialog as a guarded form, of which the create dialog is another.\<close>

fun schedule_edits :: "schedule_action \<Rightarrow> bool" where
  "schedule_edits (HdField f) = True"
| "schedule_edits (HdEnabled b) = True"
| "schedule_edits (HdCron c) = True"
| "schedule_edits (HdPreset c) = True"
| "schedule_edits (HdZone z) = True"
| "schedule_edits _ = False"

fun schedule_releases :: "schedule_action \<Rightarrow> bool" where
  "schedule_releases HdDiscard = True"
| "schedule_releases (HdSettled r) = True"
| "schedule_releases (HdOpen sch) = True"
| "schedule_releases _ = False"

lemma schedule_field_step [simp]:
  "hd_open (schedule_step (HdField f) s) = hd_open s" "hd_pending (schedule_step (HdField f) s) = hd_pending s"
  by (cases f; simp)+

lemma schedule_settled_pending [simp]: "\<not> hd_pending (schedule_settled r s)"
  by (cases r) (simp_all add: hd_closed_def hd_reset_def)

lemma schedule_submit_simps [simp]:
  "hd_open (fst (schedule_submit s)) = hd_open s" "hd_values (fst (schedule_submit s)) = hd_values s"
  "hd_base (fst (schedule_submit s)) = hd_base s"
  by (simp_all add: schedule_submit_def split: sum.split)

lemma requestClose_simps [simp]:
  "requestClose True s = s\<lparr>hd_open := True\<rparr>"
  "hd_dirty s \<Longrightarrow> \<not> hd_pending s \<Longrightarrow> requestClose False s = s\<lparr>hd_confirm := True\<rparr>"
  "hd_pending (requestClose b s) = hd_pending s"
  by (simp_all add: requestClose_def hd_closed_def hd_reset_def)

lemma schedule_dirty_simps [simp]:
  "hd_dirty (s\<lparr>hd_confirm := b\<rparr>) = hd_dirty s" "hd_dirty (fst (schedule_submit s)) = hd_dirty s"
  "hd_dirty s \<Longrightarrow> \<not> hd_pending s \<Longrightarrow> hd_dirty (requestClose c s)"
  by (simp_all add: hd_dirty_def requestClose_def)

interpretation schedule_form: guarded_form schedule_step hd_open hd_dirty hd_pending hd_confirm hd_values
  schedule_edits "HdRequest False" "\<lambda>a. a = HdSubmit" schedule_releases
proof
  fix a s
  show "hd_dirty s \<Longrightarrow> \<not> hd_pending s \<Longrightarrow> hd_confirm (schedule_step (HdRequest False) s)"
    by (simp add: requestClose_def)
  show "hd_dirty s \<Longrightarrow> \<not> hd_pending s \<Longrightarrow> hd_open (schedule_step (HdRequest False) s) = hd_open s
      \<and> hd_values (schedule_step (HdRequest False) s) = hd_values s"
    by (simp add: requestClose_def)
  show "\<not> schedule_edits a \<Longrightarrow> \<not> schedule_releases a \<Longrightarrow> a \<noteq> HdRequest False \<Longrightarrow> hd_open s \<Longrightarrow>
      hd_open (schedule_step a s) \<and> hd_values (schedule_step a s) = hd_values s"
    by (cases a; (simp only: schedule_edits.simps schedule_releases.simps not_True_eq_False not_False_eq_True)?; simp)
  show "schedule_edits a \<Longrightarrow> hd_open (schedule_step a s) = hd_open s"
    by (cases a; (simp only: schedule_edits.simps schedule_releases.simps not_True_eq_False not_False_eq_True)?; simp)
  show "\<not> schedule_edits a \<Longrightarrow> \<not> schedule_releases a \<Longrightarrow> hd_dirty s \<Longrightarrow> \<not> hd_pending s \<Longrightarrow> hd_dirty (schedule_step a s)"
    by (cases a; (simp only: schedule_edits.simps schedule_releases.simps not_True_eq_False not_False_eq_True)?; simp)
  show "a \<noteq> HdSubmit \<Longrightarrow> \<not> hd_pending s \<Longrightarrow> \<not> hd_pending (schedule_step a s)"
    by (cases a; (simp only: schedule_edits.simps schedule_releases.simps not_True_eq_False not_False_eq_True)?; simp add: hd_opened_def hd_reset_def hd_closed_def)
qed

text \<open>C37. The forms of a new scan job and of a schedule survive whatever else the user does: once a form is changed, no sequence of actions short of submitting it or confirming the discard, closing attempts included, closes the dialog or changes a value, and at the end of any such sequence the next attempt to close still asks.\<close>

theorem guarded_dialogs:
  "(sd_open s \<and> sd_dirty s \<and> \<not> sd_pending s \<and> list_all (\<lambda>a. \<not> scan_edits a \<and> \<not> scan_releases a \<and> a \<noteq> SdSubmit) as \<longrightarrow>
      sd_open (fold scan_dialog_step as s) \<and> sd_values (fold scan_dialog_step as s) = sd_values s
      \<and> sd_confirm (scan_dialog_step (SdOpenChange False) (fold scan_dialog_step as s)))
    \<and> (hd_open h \<and> hd_dirty h \<and> \<not> hd_pending h \<and> list_all (\<lambda>a. \<not> schedule_edits a \<and> \<not> schedule_releases a \<and> a \<noteq> HdSubmit) hs \<longrightarrow>
      hd_open (fold schedule_step hs h) \<and> hd_values (fold schedule_step hs h) = hd_values h
      \<and> hd_confirm (schedule_step (HdRequest False) (fold schedule_step hs h)))"
  using create_dialog.form_kept [of as s] create_dialog.close_after_run [of as s]
    schedule_form.form_kept [of hs h] schedule_form.close_after_run [of hs h] by blast

theorem guarded_dialogs_witness:
  "let s = scan_dialog_step (SdField (SfName (lit ''ab''))) (scan_dialog_step (SdOpenChange True) scan_dialog_init)
   in cj_name (sd_values (fold scan_dialog_step [SdOpenChange False, SdConfirmChange False, SdOpenChange False] s)) = lit ''ab''"
proof -
  let ?s = "scan_dialog_step (SdField (SfName (lit ''ab''))) (scan_dialog_step (SdOpenChange True) scan_dialog_init)"
  let ?as = "[SdOpenChange False, SdConfirmChange False, SdOpenChange False]"
  have s: "sd_open ?s" "sd_dirty ?s" "\<not> sd_pending ?s" "cj_name (sd_values ?s) = lit ''ab''"
    by (simp_all add: scan_dialog_init_def requestOpenChange_def sd_dirty_def defaultScanJobValues_def)
  have a: "list_all (\<lambda>a. \<not> scan_edits a \<and> \<not> scan_releases a \<and> a \<noteq> SdSubmit) ?as" by simp
  have "sd_values (fold scan_dialog_step ?as ?s) = sd_values ?s"
    using guarded_dialogs [of ?s ?as] s(1-3) a by blast
  then show ?thesis using s(4) by (simp only: Let_def)
qed

text \<open>Every preset is an expression the schema accepts, and the table labels it as the dialog does.\<close>

lemma presets_valid:
  "list_all (\<lambda>(c, l). cron_ok c \<and> cron_preset c = c \<and> map_of cronLabels c = Some l) cronPresets"
  by (simp add: cronPresets_def cronLabels_def cron_preset_def cron_ok_def starts_with_def lit_def is_ws_def)

subsection \<open>What a viewer can do\<close>

fun schedules_managing :: "schedules_action \<Rightarrow> bool" where
  "schedules_managing (ScToggle _ _) = True"
| "schedules_managing (ScRun _) = True"
| "schedules_managing (ScEdit _) = True"
| "schedules_managing (ScAskDelete _) = True"
| "schedules_managing ScConfirmDelete = True"
| "schedules_managing ScCreate = True"
| "schedules_managing _ = False"

text \<open>The switch of the desktop table is the one control that does not ask for the permission; the
  server refuses what it sends.\<close>

definition viewer_schedules_ok :: "schedules_action \<Rightarrow> bool" where
  "viewer_schedules_ok a \<longleftrightarrow> \<not> schedules_managing a \<or> (\<exists>s b. a = ScToggle s b)"

lemma schedules_viewer:
  "acts (\<lambda>a. case a of Item e \<Rightarrow> viewer_schedules_ok e | _ \<Rightarrow> True) (SchedulesTable I False st name tv n)"
proof -
  have "acts (\<lambda>a. case a of Item e \<Rightarrow> viewer_schedules_ok e | _ \<Rightarrow> True)
      (DataTable (schedules_columns I False st) tv n t_no_plans t_no_plans_sub (Some (SchedulesToolbar name))
        (Some (schedule_card I False)) 10 None)"
    by (intro acts_DataTable) (auto simp: schedules_columns_def SchedulesToolbar_def schedule_card_def SearchInput_def
        DataTableResetButton_def enabled_badge_def viewer_schedules_ok_def Let_def)
  then show ?thesis by (simp add: SchedulesTable_def)
qed

lemma schedule_switch_ungated:
  "s \<in> set (tv_rows tv) \<Longrightarrow>
   \<not> acts (\<lambda>a. case a of Item e \<Rightarrow> \<not> schedules_managing e | _ \<Rightarrow> True)
     (SchedulesTable I False \<lparr>sc_deleting = None, sc_updatePending = False, sc_runPending = False\<rparr> name tv n)"
  by (auto simp: SchedulesTable_def DataTable_def schedules_columns_def list_all_iff o_def Let_def)

end
