(* ===== verification/Automation.thy ===== *)
theory Automation
  imports Schedules Server_Contract
begin

text \<open>
  The automation views of the settings: the overview of what the server will do next
  (\<open>automation-overview.tsx\<close>), the table of past runs (\<open>automation-runs-table.tsx\<close>), and what
  the server selects for a black-list recheck, the reference for the number the views estimate.
\<close>

subsection \<open>Literals\<close>

definition t_scan_plan :: jsstr where
  "t_scan_plan = [0x626B, 0x63CF, 0x8BA1, 0x5212]"

definition t_one_per_enabled :: jsstr where
  "t_one_per_enabled = [0x6BCF, 0x4E2A, 0x542F, 0x7528, 0x524D, 0x7F00, 0x53D6, 0x20, 0x31, 0x20, 0x4E2A, 0x20,
     0x49, 0x50]"

definition t_ip_per_agent :: jsstr where
  "t_ip_per_agent = [0x20, 0x4E2A, 0x20, 0x49, 0x50, 0x20, 0x2F, 0x20, 0x41, 0x67, 0x65, 0x6E, 0x74]"

definition t_recheck_title :: jsstr where
  "t_recheck_title = [0x9ED1, 0x540D, 0x5355, 0x590D, 0x67E5]"

definition t_recovery_policy :: jsstr where
  "t_recovery_policy = [0x6062, 0x590D, 0x7B56, 0x7565]"

definition t_current_n :: jsstr where
  "t_current_n = [0x5F53, 0x524D, 0x20]"

definition t_candidates_take :: jsstr where
  "t_candidates_take = [0x20, 0x4E2A, 0x5019, 0x9009, 0xFF0C, 0x53D6, 0x20]"

definition t_pct_at_most :: jsstr where
  "t_pct_at_most = [0x25, 0xFF0C, 0x6700, 0x591A, 0x20]"

definition t_data_sync :: jsstr where
  "t_data_sync = [0x6570, 0x636E, 0x540C, 0x6B65]"

definition t_sync_startup :: jsstr where
  "t_sync_startup = [0x5B9A, 0x65F6, 0x6267, 0x884C, 0xFF0C, 0x5E76, 0x5728, 0x4E2D, 0x5FC3, 0x542F, 0x52A8,
     0x65F6, 0x540C, 0x6B65]"

definition t_sync_planned :: jsstr where
  "t_sync_planned = [0x4EC5, 0x6309, 0x8BA1, 0x5212, 0x6267, 0x884C]"

definition t_enabled_automation :: jsstr where
  "t_enabled_automation = [0x5DF2, 0x542F, 0x7528, 0x81EA, 0x52A8, 0x5316]"

definition t_all_visible :: jsstr where
  "t_all_visible = [0x6240, 0x6709, 0x975E, 0x624B, 0x52A8, 0x884C, 0x4E3A, 0x5747, 0x5728, 0x6B64, 0x5904,
     0x53EF, 0x89C1]"

definition t_no_plan_yet :: jsstr where
  "t_no_plan_yet = [0x6682, 0x65E0, 0x8BA1, 0x5212]"

definition t_shown_when_enabled :: jsstr where
  "t_shown_when_enabled = [0x542F, 0x7528, 0x81EA, 0x52A8, 0x5316, 0x540E, 0x663E, 0x793A]"

definition t_estimated_label :: jsstr where
  "t_estimated_label = [0x9884, 0x8BA1, 0x9ED1, 0x540D, 0x5355, 0x590D, 0x67E5]"

definition t_estimated_sub :: jsstr where
  "t_estimated_sub = [0x6309, 0x5F53, 0x524D, 0x5019, 0x9009, 0x3001, 0x6BD4, 0x4F8B, 0x4E0E, 0x5355, 0x8F6E,
     0x4E0A, 0x9650, 0x4F30, 0x7B97]"

definition t_recent_failures :: jsstr where
  "t_recent_failures = [0x6700, 0x8FD1, 0x5F02, 0x5E38, 0x6267, 0x884C]"

definition t_recent_failures_sub :: jsstr where
  "t_recent_failures_sub = [0x6700, 0x8FD1, 0x20, 0x32, 0x30, 0x20, 0x6761, 0x6267, 0x884C, 0x8BB0, 0x5F55, 0x4E2D,
     0x7684, 0x5931, 0x8D25, 0x6570]"

definition t_upcoming_title :: jsstr where
  "t_upcoming_title = [0x5373, 0x5C06, 0x6267, 0x884C]"

definition t_upcoming_sub :: jsstr where
  "t_upcoming_sub = [0x6309, 0x4E0B, 0x6B21, 0x6267, 0x884C, 0x65F6, 0x95F4, 0x6392, 0x5E8F, 0xFF0C, 0x4FBF,
     0x4E8E, 0x63D0, 0x524D, 0x786E, 0x8BA4, 0x4E2D, 0x5FC3, 0x4F1A, 0x4EA7, 0x751F, 0x54EA,
     0x4E9B, 0x7F51, 0x7EDC, 0x884C, 0x4E3A, 0x3002]"

definition t_no_automation :: jsstr where
  "t_no_automation = [0x5F53, 0x524D, 0x6CA1, 0x6709, 0x5DF2, 0x542F, 0x7528, 0x7684, 0x81EA, 0x52A8, 0x5316,
     0x8BA1, 0x5212, 0x3002]"

definition t_online_agents_n :: jsstr where
  "t_online_agents_n = [0x5F53, 0x524D, 0x5728, 0x7EBF, 0x20, 0x41, 0x67, 0x65, 0x6E, 0x74, 0xFF1A]"

definition t_enabled_prefixes_n :: jsstr where
  "t_enabled_prefixes_n = [0xFF1B, 0x542F, 0x7528, 0x524D, 0x7F00, 0xFF1A]"

definition t_actual_sub :: jsstr where
  "t_actual_sub = [0x3002, 0x5B9E, 0x9645, 0x4EFB, 0x52A1, 0x6570, 0x91CF, 0x8FD8, 0x4F1A, 0x53D7, 0x5230,
     0x20, 0x41, 0x67, 0x65, 0x6E, 0x74, 0x20, 0x6570, 0x91CF, 0x3001, 0x49, 0x50, 0x76, 0x36,
     0x20, 0x5F00, 0x5173, 0x548C, 0x9ED1, 0x540D, 0x5355, 0x8FC7, 0x6EE4, 0x5F71, 0x54CD,
     0x3002]"

definition t_source_sync :: jsstr where
  "t_source_sync = [0x6570, 0x636E, 0x6E90, 0x540C, 0x6B65]"

definition t_by_plan :: jsstr where
  "t_by_plan = [0x6309, 0x8BA1, 0x5212]"

definition t_by_startup :: jsstr where
  "t_by_startup = [0x542F, 0x52A8, 0x6267, 0x884C]"

definition t_by_hand :: jsstr where
  "t_by_hand = [0x624B, 0x52A8, 0x89E6, 0x53D1]"

definition t_agent_tasks :: jsstr where
  "t_agent_tasks = [0x20, 0x4E2A, 0x20, 0x41, 0x67, 0x65, 0x6E, 0x74, 0x20, 0x76EE, 0x6807, 0x4EFB, 0x52A1]"

definition t_n_targets_dot :: jsstr where
  "t_n_targets_dot = [0x20, 0x4E2A, 0x76EE, 0x6807, 0x20, 0xB7, 0x20]"

definition t_n_task_groups :: jsstr where
  "t_n_task_groups = [0x20, 0x4E2A, 0x4EFB, 0x52A1, 0x7EC4]"

definition t_n_prefixes_found :: jsstr where
  "t_n_prefixes_found = [0x20, 0x4E2A, 0x524D, 0x7F00]"

definition t_sync_success_n :: jsstr where
  "t_sync_success_n = [0x6210, 0x529F, 0x20]"

definition t_sync_failed_n :: jsstr where
  "t_sync_failed_n = [0x20, 0xB7, 0x20, 0x5931, 0x8D25, 0x20]"

definition t_n_locations :: jsstr where
  "t_n_locations = [0x20, 0x4E2A, 0x20, 0x63, 0x6F, 0x6C, 0x6F, 0x20, 0x4F4D, 0x7F6E]"

definition t_search_automation :: jsstr where
  "t_search_automation = [0x641C, 0x7D22, 0x81EA, 0x52A8, 0x5316, 0x540D, 0x79F0]"

definition t_automation :: jsstr where
  "t_automation = [0x81EA, 0x52A8, 0x5316]"

definition t_run_outcome :: jsstr where
  "t_run_outcome = [0x6267, 0x884C, 0x7ED3, 0x679C]"

definition t_started_at :: jsstr where
  "t_started_at = [0x5F00, 0x59CB, 0x65F6, 0x95F4]"

definition t_no_runs :: jsstr where
  "t_no_runs = [0x6682, 0x65E0, 0x6267, 0x884C, 0x8BB0, 0x5F55]"

definition t_no_runs_sub :: jsstr where
  "t_no_runs_sub = [0x81EA, 0x52A8, 0x8BA1, 0x5212, 0x8FD0, 0x884C, 0x540E, 0x4F1A, 0x5728, 0x8FD9, 0x91CC,
     0x4FDD, 0x5B58, 0x914D, 0x7F6E, 0x5FEB, 0x7167, 0x3001, 0x89E6, 0x53D1, 0x539F, 0x56E0,
     0x548C, 0x7ED3, 0x679C, 0x3002]"


subsection \<open>Numbers of a form\<close>

text \<open>Products and ceilings of numbers that a form may have made NaN or infinite.\<close>

fun num_scale :: "rat \<Rightarrow> jsnum \<Rightarrow> jsnum" where
  "num_scale k NaN = NaN"
| "num_scale k (Infinity b) = (if k = 0 then NaN else Infinity (if 0 < k then b else \<not> b))"
| "num_scale k (Fin x) = Fin (k * x)"

fun num_ceil :: "jsnum \<Rightarrow> jsnum" where
  "num_ceil (Fin x) = Fin (of_int \<lceil>x\<rceil>)"
| "num_ceil v = v"

fun num_round :: "jsnum \<Rightarrow> jsnum" where
  "num_round (Fin x) = Fin (of_int (math_round x))"
| "num_round v = v"

fun num_min :: "jsnum \<Rightarrow> jsnum \<Rightarrow> jsnum" where
  "num_min NaN v = NaN"
| "num_min v NaN = NaN"
| "num_min (Infinity a) v = (if a then v else Infinity False)"
| "num_min v (Infinity b) = (if b then v else Infinity False)"
| "num_min (Fin x) (Fin y) = Fin (min x y)"

text \<open>\<open>toFixed(0)\<close>, and the number format, which is applied to integers only.\<close>

fun num_fixed0 :: "jsnum \<Rightarrow> jsstr" where
  "num_fixed0 (Fin x) = to_fixed 0 x"
| "num_fixed0 v = num_value v"

fun num_grouped :: "jsnum \<Rightarrow> jsstr" where
  "num_grouped (Fin x) = formatNumber (Some \<lfloor>x\<rfloor>)"
| "num_grouped v = num_value v"

subsection \<open>The recheck estimate and the server's selection\<close>

definition estimated_recheck :: "BlacklistRecheckSettings \<Rightarrow> jsnum" where
  "estimated_recheck d =
     num_min (num_ceil (num_scale (of_int (br_eligible_targets d)) (br_fraction d))) (br_max_targets d)"

text \<open>The server reads at most a limit of the candidates, grouped by agent, and takes the fraction of
  each group, rounded up, as long as targets remain. A candidate is its agent and its address.\<close>

definition candidateLimit :: "rat \<Rightarrow> int \<Rightarrow> int" where
  "candidateLimit fraction maxTargets = min (max \<lceil>of_int maxTargets / fraction\<rceil> maxTargets) 20000"

fun select_groups :: "rat \<Rightarrow> int \<Rightarrow> ('a \<times> 'b) list list \<Rightarrow> ('a \<times> 'b) list list" where
  "select_groups fraction remaining [] = []"
| "select_groups fraction remaining (g # gs) =
     (if remaining \<le> 0 then []
      else let n = int (length g);
               c1 = \<lceil>of_int n * fraction\<rceil>;
               c2 = (if c1 < 1 \<and> 0 < n then 1 else c1);
               count = min (min c2 n) remaining
           in if count = 0 then select_groups fraction remaining gs
              else take (nat count) g # select_groups fraction (remaining - count) gs)"

definition agent_groups :: "('a \<times> 'b) list \<Rightarrow> ('a \<times> 'b) list list" where
  "agent_groups rows = map (\<lambda>a. filter (\<lambda>r. fst r = a) rows) (rev (remdups (rev (map fst rows))))"

text \<open>The candidates arrive ordered by agent and due time. The result is the list of the created
  jobs, each with its targets.\<close>

definition CreateBlacklistRechecks :: "rat \<Rightarrow> int \<Rightarrow> ('a \<times> 'b) list \<Rightarrow> ('a \<times> 'b) list list" where
  "CreateBlacklistRechecks fraction maxTargets candidates =
     select_groups fraction maxTargets (agent_groups (take (nat (candidateLimit fraction maxTargets)) candidates))"

definition recheck_total :: "('a \<times> 'b) list list \<Rightarrow> int" where
  "recheck_total jobs = sum_list (map (\<lambda>j. int (length j)) jobs)"

definition ceil_sum :: "rat \<Rightarrow> ('a \<times> 'b) list list \<Rightarrow> int" where
  "ceil_sum f gs = sum_list (map (\<lambda>g. \<lceil>of_int (int (length g)) * f\<rceil>) gs)"

lemma ceil_share:
  fixes f :: rat
  assumes "0 < f" "f \<le> 1" "0 < (n :: int)"
  shows "1 \<le> \<lceil>of_int n * f\<rceil>" "\<lceil>of_int n * f\<rceil> \<le> n"
proof -
  have "0 < of_int n * f" using assms by simp
  then show "1 \<le> \<lceil>of_int n * f\<rceil>" by linarith
  have "of_int n * f \<le> of_int n * 1" using assms by (intro mult_left_mono) simp_all
  then show "\<lceil>of_int n * f\<rceil> \<le> n" by linarith
qed

lemma select_count:
  assumes "0 < f" "f \<le> 1" "\<forall>g \<in> set gs. g \<noteq> []" "0 \<le> m"
  shows "recheck_total (select_groups f m gs) = min (ceil_sum f gs) m"
  using assms(3,4)
proof (induction gs arbitrary: m)
  case Nil
  then show ?case by (simp add: recheck_total_def ceil_sum_def)
next
  case (Cons g gs)
  let ?c = "\<lceil>of_int (int (length g)) * f\<rceil>"
  have c: "1 \<le> ?c" "?c \<le> int (length g)"
    using ceil_share [OF assms(1,2), of "int (length g)"] Cons.prems(1) by simp_all
  have rest: "0 \<le> ceil_sum f gs" unfolding ceil_sum_def
  proof (rule sum_list_nonneg)
    fix x assume "x \<in> set (map (\<lambda>g. \<lceil>of_int (int (length g)) * f\<rceil>) gs)"
    then obtain h where h: "h \<in> set gs" "x = \<lceil>of_int (int (length h)) * f\<rceil>" by auto
    with Cons.prems(1) have "0 < int (length h)" by simp
    from ceil_share(1) [OF assms(1,2) this] h show "0 \<le> x" by linarith
  qed
  show ?case
  proof (cases "m \<le> 0")
    case True
    with Cons.prems(2) c rest show ?thesis by (simp add: recheck_total_def ceil_sum_def)
  next
    case False
    have count: "min (min (if ?c < 1 \<and> 0 < int (length g) then 1 else ?c) (int (length g))) m = min ?c m"
      using c by simp
    have take_len: "int (length (take (nat k) g)) = k" if "0 \<le> k" "k \<le> int (length g)" for k
      using that by simp
    have k: "0 < min ?c m" "min ?c m \<le> int (length g)" using False c by linarith+
    with take_len [of "min ?c m"] have "min ?c m \<noteq> 0" "int (length (take (nat (min ?c m)) g)) = min ?c m"
      by (simp_all only: less_imp_le less_irrefl)
    moreover have "- 1 < of_int (int (length g)) * f" using c(1) by linarith
    ultimately have "recheck_total (select_groups f m (g # gs)) = min ?c m + recheck_total (select_groups f (m - min ?c m) gs)"
      using False unfolding select_groups.simps Let_def count recheck_total_def by simp
    also have "\<dots> = min ?c m + min (ceil_sum f gs) (m - min ?c m)"
      using Cons.IH [of "m - min ?c m"] Cons.prems(1) by simp
    also have "\<dots> = min (?c + ceil_sum f gs) m" using rest by linarith
    finally show ?thesis by (simp add: ceil_sum_def)
  qed
qed

lemma ceil_sum_bounds:
  "\<lceil>of_int (sum_list (map (\<lambda>g. int (length g)) gs)) * f\<rceil> \<le> ceil_sum f gs"
  "gs \<noteq> [] \<Longrightarrow> ceil_sum f gs \<le> \<lceil>of_int (sum_list (map (\<lambda>g. int (length g)) gs)) * f\<rceil> + int (length gs) - 1"
proof -
  have "\<lceil>of_int (sum_list (map (\<lambda>g. int (length g)) gs)) * f\<rceil> \<le> ceil_sum f gs
    \<and> (gs \<noteq> [] \<longrightarrow> ceil_sum f gs \<le> \<lceil>of_int (sum_list (map (\<lambda>g. int (length g)) gs)) * f\<rceil> + int (length gs) - 1)"
  proof (induction gs)
    case (Cons g gs)
    let ?a = "of_int (int (length g)) * f" and ?b = "of_int (sum_list (map (\<lambda>g. int (length g)) gs)) * f"
    have eq: "of_int (sum_list (map (\<lambda>g. int (length g)) (g # gs))) * f = ?a + ?b" by (simp add: algebra_simps)
    have "\<lceil>?a + ?b\<rceil> \<le> \<lceil>?a\<rceil> + \<lceil>?b\<rceil>" "\<lceil>?a\<rceil> + \<lceil>?b\<rceil> \<le> \<lceil>?a + ?b\<rceil> + 1" by linarith+
    moreover have "ceil_sum f (g # gs) = \<lceil>?a\<rceil> + ceil_sum f gs" by (simp add: ceil_sum_def)
    moreover have "gs = [] \<Longrightarrow> ?b = 0 \<and> ceil_sum f gs = 0" by (simp add: ceil_sum_def)
    ultimately show ?case unfolding eq using Cons.IH by (cases "gs = []") auto
  qed (simp add: ceil_sum_def)
  then show "\<lceil>of_int (sum_list (map (\<lambda>g. int (length g)) gs)) * f\<rceil> \<le> ceil_sum f gs"
    "gs \<noteq> [] \<Longrightarrow> ceil_sum f gs \<le> \<lceil>of_int (sum_list (map (\<lambda>g. int (length g)) gs)) * f\<rceil> + int (length gs) - 1"
    by simp_all
qed

lemma agent_groups_nonempty: "g \<in> set (agent_groups rows) \<Longrightarrow> g \<noteq> []"
proof -
  assume "g \<in> set (agent_groups rows)"
  then obtain r where "r \<in> set rows" "g = filter (\<lambda>x. fst x = fst r) rows"
    by (auto simp: agent_groups_def)
  then have "r \<in> set g" by simp
  then show "g \<noteq> []" by auto
qed

lemma sum_filter_keys:
  "distinct ks \<Longrightarrow> set (map fst rows) \<subseteq> set ks \<Longrightarrow>
   sum_list (map (\<lambda>a. int (length (filter (\<lambda>r. fst r = a) rows))) ks) = int (length rows)"
proof (induction rows)
  case (Cons r rows)
  have "sum_list (map (\<lambda>a. int (length (filter (\<lambda>r. fst r = a) (r # rows)))) ks)
      = sum_list (map (\<lambda>a. (if fst r = a then 1 else 0) + int (length (filter (\<lambda>r. fst r = a) rows))) ks)"
    by (intro arg_cong [where f = sum_list] map_cong) auto
  also have "\<dots> = sum_list (map (\<lambda>a. if fst r = a then 1 else 0) ks)
      + sum_list (map (\<lambda>a. int (length (filter (\<lambda>r. fst r = a) rows))) ks)"
    by (rule sum_list_addf)
  also have "sum_list (map (\<lambda>a. if fst r = a then (1 :: int) else 0) ks) = 1"
    using Cons.prems by (subst sum_list_distinct_conv_sum_set) (auto simp: sum.delta)
  finally show ?case using Cons by simp
qed simp

lemma agent_groups_total: "sum_list (map (\<lambda>g. int (length g)) (agent_groups rows)) = int (length rows)"
  unfolding agent_groups_def map_map o_def by (rule sum_filter_keys) auto

lemma agent_groups_count: "length (agent_groups rows) = card (set (map fst rows))"
  by (simp add: agent_groups_def length_remdups_card_conv)

lemma agent_groups_nil: "agent_groups rows = [] \<longleftrightarrow> rows = []"
  by (metis agent_groups_count agent_groups_total card_0_eq int_eq_iff length_0_conv length_greater_0_conv list.map(1)
      List.finite_set list.set_map map_is_Nil_conv of_nat_0 set_empty sum_list.Nil)

lemma limit_reaches:
  assumes "0 < f" "f \<le> 1" "1 \<le> M" "\<lceil>of_int M / f\<rceil> \<le> 20000" "candidateLimit f M \<le> n"
  shows "M \<le> \<lceil>of_int n * f\<rceil>" "M \<le> \<lceil>of_int (candidateLimit f M) * f\<rceil>"
proof -
  have "of_int M / f \<le> of_int (candidateLimit f M)"
    using assms(4) unfolding candidateLimit_def by linarith
  then have le: "of_int M \<le> of_int (candidateLimit f M) * f" using assms(1) by (simp add: pos_divide_le_eq)
  then show "M \<le> \<lceil>of_int (candidateLimit f M) * f\<rceil>" by linarith
  have "of_int (candidateLimit f M) * f \<le> of_int n * f" using assms(1,5) by (intro mult_right_mono) simp_all
  with le show "M \<le> \<lceil>of_int n * f\<rceil>" by linarith
qed


definition sample_settings :: BlacklistRecheckSettings where
  "sample_settings = UpdateBlacklistRecheckSettings.extend
     (sample_recheck\<lparr>br_fraction := Fin (1 / 2), br_max_targets := Fin (of_int 2)\<rparr>)
     (BlacklistRecheckSettings.fields [] None None 3 [])"


subsection \<open>The overview\<close>

record upcoming =
  up_key :: jsstr
  up_name :: jsstr
  up_type :: jsstr
  up_next :: jsstr
  up_timezone :: jsstr
  up_detail :: jsstr
  up_enabled :: bool

definition schedule_upcoming :: "ScanSchedule \<Rightarrow> upcoming" where
  "schedule_upcoming s = \<lparr>up_key = ss_id s, up_name = cj_name s, up_type = t_scan_plan, up_next = ss_next_run_at s,
     up_timezone = us_timezone s,
     up_detail = (case cj_sampling_mode s of
         OnePerPrefix \<Rightarrow> t_one_per_enabled
       | LeagueMode \<Rightarrow> t_league_budget @ num_value (cj_target_count s) @ t_ip_per_agent
       | ByCount \<Rightarrow> num_value (cj_target_count s) @ t_n_ips),
     up_enabled = us_enabled s\<rparr>"

definition recheck_upcoming :: "BlacklistRecheckSettings \<Rightarrow> upcoming" where
  "recheck_upcoming d = \<lparr>up_key = lit ''blacklist'', up_name = t_recheck_title, up_type = t_recovery_policy,
     up_next = br_next_run_at d, up_timezone = br_timezone d,
     up_detail = t_current_n @ show_int (br_eligible_targets d) @ t_candidates_take
       @ num_fixed0 (num_scale 100 (br_fraction d)) @ t_pct_at_most @ num_value (br_max_targets d),
     up_enabled = br_enabled d\<rparr>"

definition source_upcoming :: "SourceSyncSchedule \<Rightarrow> upcoming" where
  "source_upcoming s = \<lparr>up_key = sourceKind_str (sy_source s), up_name = sy_name s, up_type = t_data_sync,
     up_next = sy_next_run_at s, up_timezone = sy_timezone s,
     up_detail = (if sy_run_on_startup s then t_sync_startup else t_sync_planned),
     up_enabled = sy_enabled s\<rparr>"

text \<open>The difference of two dates; NaN, from a date that does not parse, compares as equal.\<close>

definition next_diff :: "intl \<Rightarrow> upcoming \<Rightarrow> upcoming \<Rightarrow> rat" where
  "next_diff I a b = (case (date_ms I (up_next a), date_ms I (up_next b)) of (Fin x, Fin y) \<Rightarrow> x - y | _ \<Rightarrow> 0)"

definition upcoming_list ::
  "intl \<Rightarrow> ScanSchedule list \<Rightarrow> BlacklistRecheckSettings option \<Rightarrow> SourceSyncSchedule list \<Rightarrow> upcoming list" where
  "upcoming_list I schedules blacklist sources =
     js_sort (next_diff I) (filter up_enabled
       (map schedule_upcoming schedules @ (case blacklist of None \<Rightarrow> [] | Some d \<Rightarrow> [recheck_upcoming d])
        @ map source_upcoming sources))"

definition enabledCount ::
  "ScanSchedule list \<Rightarrow> BlacklistRecheckSettings option \<Rightarrow> SourceSyncSchedule list \<Rightarrow> nat" where
  "enabledCount schedules blacklist sources =
     length (filter us_enabled schedules) + (if (case blacklist of None \<Rightarrow> False | Some d \<Rightarrow> br_enabled d) then 1 else 0)
     + length (filter sy_enabled sources)"

definition recentFailures :: "AutomationRun list \<Rightarrow> nat" where
  "recentFailures runs = length (take 20 (filter (\<lambda>r. ar_status r = RunFailed) runs))"

definition estimatedRecheck :: "BlacklistRecheckSettings option \<Rightarrow> jsnum" where
  "estimatedRecheck blacklist = (case blacklist of None \<Rightarrow> Fin 0 | Some d \<Rightarrow> estimated_recheck d)"

definition q_pending :: "'a query_state \<Rightarrow> bool" where
  "q_pending q \<longleftrightarrow> q = QPending"

fun q_error :: "'a query_state \<Rightarrow> js_error option" where
  "q_error (QError e) = Some e"
| "q_error _ = None"

fun q_data :: "'a query_state \<Rightarrow> 'a option" where
  "q_data (QData x) = Some x"
| "q_data _ = None"

definition upcoming_row :: "intl \<Rightarrow> upcoming \<Rightarrow> 'e node" where
  "upcoming_row I u = el ''div''
     [el ''p'' [Txt (up_name u)], el ''Badge'' [Txt (up_type u)], el ''p'' [Txt (up_detail u)],
      el ''p'' [text_or_throw (formatDateInTimezone I (Some (up_next u)) (Some (up_timezone u)))], el ''p'' [Txt (up_timezone u)]]"

definition overview_card :: "jsstr \<Rightarrow> jsstr \<Rightarrow> 'e node \<Rightarrow> 'e node" where
  "overview_card title value description = el ''Card''
     [el ''CardDescription'' [Txt title], el ''CardTitle'' [Txt value], el ''CardContent'' [description]]"

definition AutomationOverview ::
  "intl \<Rightarrow> ScanSchedule list query_state \<Rightarrow> BlacklistRecheckSettings query_state \<Rightarrow> SourceSyncSchedule list query_state
    \<Rightarrow> AutomationRun list query_state \<Rightarrow> Overview query_state \<Rightarrow> 'e \<Rightarrow> 'e node" where
  "AutomationOverview I schedules blacklist sources runs overview retry =
     (if q_pending schedules \<or> q_pending blacklist \<or> q_pending sources \<or> q_pending runs \<or> q_pending overview
      then PageSkeleton (Some 6)
      else case find (\<lambda>e. e \<noteq> None) [q_error schedules, q_error blacklist, q_error sources, q_error runs, q_error overview] of
        Some e \<Rightarrow> ErrorState None e (Some retry)
      | None \<Rightarrow>
        (let sc = nullish (q_data schedules) []; bl = q_data blacklist; so = nullish (q_data sources) [];
             up = upcoming_list I sc bl so
         in el ''div''
          [overview_card t_enabled_automation (show_int (int (enabledCount sc bl so))) (Txt t_all_visible),
           overview_card t_next_run_label (case up of [] \<Rightarrow> t_no_plan_yet | u # _ \<Rightarrow> up_name u)
             (case up of [] \<Rightarrow> Txt t_shown_when_enabled
              | u # _ \<Rightarrow> text_or_throw (formatDateInTimezone I (Some (up_next u)) (Some (up_timezone u)))),
           overview_card t_estimated_label (num_grouped (estimatedRecheck bl)) (Txt t_estimated_sub),
           overview_card t_recent_failures (show_int (int (recentFailures (nullish (q_data runs) []))))
             (Txt t_recent_failures_sub),
           el ''Card''
             [el ''CardTitle'' [Txt t_upcoming_title],
              el ''CardDescription'' [Txt t_upcoming_sub],
              el ''CardContent'' (if up \<noteq> [] then map (upcoming_row I) (take 8 up)
                else [el ''p'' [Txt t_no_automation]])],
           el ''p'' [Txt t_online_agents_n, Txt (show_int (case q_data overview of None \<Rightarrow> 0 | Some ov \<Rightarrow> ov_agents_online ov)),
             Txt t_enabled_prefixes_n, Txt (formatNumber (map_option ov_prefixes_total (q_data overview))),
             Txt t_actual_sub]]))"

text \<open>What the overview announces.\<close>

lemma js_insert_cong:
  "(\<And>y. y \<in> set ys \<Longrightarrow> c x y = d x y) \<Longrightarrow> js_insert c x ys = js_insert d x ys"
  by (induction ys) auto

lemma js_sort_cong:
  "(\<And>x y. x \<in> set xs \<Longrightarrow> y \<in> set xs \<Longrightarrow> c x y = d x y) \<Longrightarrow> js_sort c xs = js_sort d xs"
  by (induction xs) (auto intro: js_insert_cong)

definition next_time :: "intl \<Rightarrow> upcoming \<Rightarrow> rat" where
  "next_time I u = (case date_ms I (up_next u) of Fin x \<Rightarrow> x | _ \<Rightarrow> 0)"

lemma upcoming_set:
  "set (upcoming_list I schedules blacklist sources) = {u. up_enabled u \<and> (u \<in> schedule_upcoming ` set schedules
     \<or> u \<in> recheck_upcoming ` set_option blacklist \<or> u \<in> source_upcoming ` set sources)}"
  by (auto simp: upcoming_list_def split: option.splits)

lemma upcoming_length: "length (upcoming_list I schedules blacklist sources) = enabledCount schedules blacklist sources"
  by (simp add: upcoming_list_def enabledCount_def filter_map o_def schedule_upcoming_def source_upcoming_def
      recheck_upcoming_def split: option.split)

text \<open>The automation overview accounts for everything the server will do by itself: the list of upcoming runs holds exactly the enabled schedules, the enabled recheck and the enabled source syncs, as many as the card counts; and when their dates parse it is in the order of the next run, so the card of the next run names one that no other enabled automation precedes.\<close>

theorem overview_complete:
  assumes "\<forall>u \<in> set (upcoming_list I schedules blacklist sources). is_finite (date_ms I (up_next u))"
  shows "length (upcoming_list I schedules blacklist sources) = enabledCount schedules blacklist sources
    \<and> set (upcoming_list I schedules blacklist sources) = {u. up_enabled u \<and> (u \<in> schedule_upcoming ` set schedules
         \<or> u \<in> recheck_upcoming ` set_option blacklist \<or> u \<in> source_upcoming ` set sources)}
    \<and> sorted (map (next_time I) (upcoming_list I schedules blacklist sources))
    \<and> (\<forall>u us. upcoming_list I schedules blacklist sources = u # us \<longrightarrow>
         (\<forall>v \<in> set us. next_time I u \<le> next_time I v))"
proof -
  let ?xs = "filter up_enabled (map schedule_upcoming schedules @ (case blacklist of None \<Rightarrow> [] | Some d \<Rightarrow> [recheck_upcoming d])
        @ map source_upcoming sources)"
  have fin: "\<exists>t. date_ms I (up_next u) = Fin t" if "u \<in> set ?xs" for u
  proof -
    have "is_finite (date_ms I (up_next u))" using assms that unfolding upcoming_list_def set_js_sort by blast
    then show ?thesis by (cases "date_ms I (up_next u)") auto
  qed
  have diff: "next_diff I u v = by_key (next_time I) u v" if uv: "u \<in> set ?xs" "v \<in> set ?xs" for u v
  proof -
    obtain a b where "date_ms I (up_next u) = Fin a" "date_ms I (up_next v) = Fin b" using fin uv by metis
    then show ?thesis by (simp add: next_diff_def by_key_def next_time_def)
  qed
  have "upcoming_list I schedules blacklist sources = js_sort (by_key (next_time I)) ?xs"
    unfolding upcoming_list_def by (rule js_sort_cong) (rule diff)
  then have s: "sorted (map (next_time I) (upcoming_list I schedules blacklist sources))"
    by (simp add: sorted_by_key)
  then have "\<forall>u us. upcoming_list I schedules blacklist sources = u # us \<longrightarrow> (\<forall>v \<in> set us. next_time I u \<le> next_time I v)"
    by auto
  with s show ?thesis by (simp add: upcoming_length upcoming_set)
qed

definition sample_intl :: intl where
  "sample_intl = \<lparr>intl_date = Inr, intl_date_tz = (\<lambda>_ s. Inr s), date_ms = (\<lambda>s. Fin (of_nat (length s))),
     locale_compare = (\<lambda>a b. of_nat (length a) - of_nat (length b)), locale_string = id\<rparr>"

theorem overview_complete_witness:
  "length (upcoming_list sample_intl [] (Some sample_settings) []) = 1"
proof -
  have "is_finite (date_ms sample_intl t)" for t by (simp add: sample_intl_def)
  moreover have "enabledCount [] (Some sample_settings) [] = 1"
    by (simp add: enabledCount_def sample_settings_def UpdateBlacklistRecheckSettings.defs sample_recheck_def)
  ultimately show ?thesis using overview_complete [of sample_intl "[]" "Some sample_settings" "[]"] by simp
qed

text \<open>The card of the failures counts among all the runs that were loaded, not among the last twenty.\<close>

lemma failures_of_all_runs:
  assumes "ar_status ok = RunCompleted" "ar_status bad = RunFailed"
  shows "recentFailures (replicate 20 ok @ [bad]) = 1"
    and "length (filter (\<lambda>r. ar_status r = RunFailed) (take 20 (replicate 20 ok @ [bad]))) = 0"
  using assms by (simp_all add: recentFailures_def)

lemma failures_bounded: "recentFailures runs \<le> 20"
  by (simp add: recentFailures_def)

subsection \<open>Past runs\<close>

definition typeLabel :: "AutomationType \<Rightarrow> jsstr" where
  "typeLabel t = (if t = ScanScheduleRun then t_scan_plan else if t = BlacklistRecheckRun then t_recheck_title else t_source_sync)"

definition triggerLabel :: "Trigger \<Rightarrow> jsstr" where
  "triggerLabel t = (if t = ByScheduler then t_by_plan else if t = AtStartup then t_by_startup else t_by_hand)"

definition is_number :: "json option \<Rightarrow> bool" where
  "is_number v \<longleftrightarrow> (case v of Some (JNum _) \<Rightarrow> True | _ \<Rightarrow> False)"

definition or_zero :: "json option \<Rightarrow> jsstr" where
  "or_zero v = json_nullish v (lit ''0'') json_text"

definition number_text :: "json option \<Rightarrow> jsstr" where
  "number_text v = (case v of Some j \<Rightarrow> json_text j | None \<Rightarrow> lit ''undefined'')"

definition summaryText :: "AutomationRun \<Rightarrow> jsstr" where
  "summaryText run =
     (let summary = Some (ar_summary run); tasks = json_member ''tasks'' summary; targets = json_member ''targets'' summary;
          prefixes = json_member ''prefix_count'' summary; synced = json_member ''synced'' summary;
          locations = json_member ''locations'' summary
      in if is_number tasks then number_text tasks @ t_agent_tasks
         else if is_number targets then
           (if ar_status run = RunSkipped then json_nullish (json_member ''reason'' summary) t_st_skipped json_text
            else number_text targets @ t_n_targets_dot @ or_zero (json_member ''jobs'' summary) @ t_n_task_groups)
         else if is_number prefixes then number_text prefixes @ t_n_prefixes_found
         else if is_number synced then t_sync_success_n @ number_text synced @ t_sync_failed_n @ or_zero (json_member ''failed'' summary)
         else if is_number locations then number_text locations @ t_n_locations
         else str_or (opt_str (ar_error run)) t_st_completed)"

datatype runs_action = ArSearch jsstr | ArResetFilters | ArRefetch

definition AutomationRunsToolbar :: "jsstr option \<Rightarrow> runs_action node" where
  "AutomationRunsToolbar name = el ''div''
     [SearchInput (opt_str name) t_search_automation ArSearch, DataTableResetButton (\<not> truthy name) ArResetFilters]"

fun runs_filter_step :: "runs_action \<Rightarrow> jsstr option \<Rightarrow> jsstr option" where
  "runs_filter_step (ArSearch s) name = Some s"
| "runs_filter_step ArResetFilters name = Some []"
| "runs_filter_step _ name = name"

text \<open>The toolbar keeps the contract of the toolbars.\<close>

interpretation runs_toolbar: filter_toolbar AutomationRunsToolbar runs_filter_step ArResetFilters ArSearch "opt_str" "truthy"
  by unfold_locales (auto simp: AutomationRunsToolbar_def truthy_def opt_str_def split: option.splits)

definition runs_columns :: "intl \<Rightarrow> (AutomationRun, runs_action) column list" where
  "runs_columns I =
     [\<lparr>col_id = ''name'', col_label = t_automation, col_sortable = True, col_hideable = True,
       col_cell = (\<lambda>r. el ''div'' [el ''p'' [Txt (ar_name r)], el ''Badge'' [Txt (typeLabel (ar_automation_type r))],
         el ''Badge'' [Txt (triggerLabel (ar_trigger r))]])\<rparr>,
      \<lparr>col_id = ''status'', col_label = t_state, col_sortable = True, col_hideable = True,
       col_cell = (\<lambda>r. StatusBadge (runStatus_str (ar_status r)))\<rparr>,
      \<lparr>col_id = ''summary'', col_label = t_run_outcome, col_sortable = True, col_hideable = True,
       col_cell = (\<lambda>r. el ''div'' [el ''p'' [Txt (summaryText r)],
         show_if (truthy (ar_error r)) (el ''p'' [Txt (opt_str (ar_error r))])])\<rparr>,
      \<lparr>col_id = ''started_at'', col_label = t_started_at, col_sortable = True, col_hideable = True,
       col_cell = (\<lambda>r. el ''span'' [text_or_throw (formatDate I (Some (ar_started_at r)))])\<rparr>]"

definition run_card :: "intl \<Rightarrow> AutomationRun \<Rightarrow> runs_action node" where
  "run_card I r = el ''Card''
     [el ''p'' [Txt (ar_name r)],
      el ''p'' [Txt (typeLabel (ar_automation_type r)), Txt t_dot_sep, Txt (triggerLabel (ar_trigger r))],
      StatusBadge (runStatus_str (ar_status r)), el ''p'' [Txt (summaryText r)],
      el ''p'' [text_or_throw (formatDate I (Some (ar_started_at r)))]]"

definition AutomationRunsTable ::
  "intl \<Rightarrow> AutomationRun list query_state \<Rightarrow> jsstr option \<Rightarrow> AutomationRun table_view \<Rightarrow> runs_action dt_action node" where
  "AutomationRunsTable I runs name tv =
     (case runs of
        QPending \<Rightarrow> PageSkeleton (Some 8)
      | QError e \<Rightarrow> ErrorState None (Some e) (Some (Item ArRefetch))
      | QData items \<Rightarrow> DataTable (runs_columns I) tv (length items) t_no_runs t_no_runs_sub
          (Some (AutomationRunsToolbar name)) (Some (run_card I)) 20 None)"

end
