(* ===== verification/Settings.thy ===== *)
theory Settings
  imports Automation
begin

text \<open>
  The settings page (\<open>features/settings/settings-page.tsx\<close>) and its two editors: the black-list
  recheck (\<open>blacklist-recheck-panel.tsx\<close>) and the source syncs (\<open>source-sync-panel.tsx\<close>).
\<close>

subsection \<open>Literals\<close>

definition t_edit_recheck :: jsstr where
  "t_edit_recheck = [0x7F16, 0x8F91, 0x9ED1, 0x540D, 0x5355, 0x590D, 0x67E5]"

definition t_edit_recheck_sub :: jsstr where
  "t_edit_recheck_sub = [0x6240, 0x6709, 0x81EA, 0x52A8, 0x590D, 0x67E5, 0x548C, 0x9ED1, 0x540D, 0x5355, 0x9875,
     0x7684, 0x201C, 0x7ACB, 0x5373, 0x590D, 0x67E5, 0x201D, 0x90FD, 0x4F1A, 0x4F7F, 0x7528,
     0x8FD9, 0x5957, 0x914D, 0x7F6E, 0x3002]"

definition t_enable_recheck :: jsstr where
  "t_enable_recheck = [0x542F, 0x7528, 0x81EA, 0x52A8, 0x590D, 0x67E5]"

definition t_enable_recheck_sub :: jsstr where
  "t_enable_recheck_sub = [0x505C, 0x7528, 0x540E, 0x4ECD, 0x53EF, 0x624B, 0x52A8, 0x7ACB, 0x5373, 0x8FD0, 0x884C,
     0x3002]"

definition t_cron_five :: jsstr where
  "t_cron_five = [0x6807, 0x51C6, 0x20, 0x35, 0x20, 0x6BB5, 0x20, 0x43, 0x72, 0x6F, 0x6E, 0x3002]"

definition t_round_fraction :: jsstr where
  "t_round_fraction = [0x6BCF, 0x8F6E, 0x9009, 0x62E9, 0x6BD4, 0x4F8B]"

definition t_percent_sub :: jsstr where
  "t_percent_sub = [0x586B, 0x5199, 0x20, 0x31, 0x2013, 0x31, 0x30, 0x30, 0x20, 0x7684, 0x767E, 0x5206,
     0x6BD4, 0x3002]"

definition t_round_max :: jsstr where
  "t_round_max = [0x5355, 0x8F6E, 0x76EE, 0x6807, 0x4E0A, 0x9650]"

definition t_due_only :: jsstr where
  "t_due_only = [0x4EC5, 0x590D, 0x67E5, 0x5DF2, 0x5230, 0x671F, 0x76EE, 0x6807]"

definition t_due_only_sub :: jsstr where
  "t_due_only_sub = [0x5173, 0x95ED, 0x540E, 0x4F1A, 0x4ECE, 0x6574, 0x4E2A, 0x9ED1, 0x540D, 0x5355, 0x4E2D,
     0x9009, 0x62E9, 0x3002]"

definition t_skip_running :: jsstr where
  "t_skip_running = [0x907F, 0x514D, 0x4EFB, 0x52A1, 0x91CD, 0x53E0]"

definition t_skip_running_sub :: jsstr where
  "t_skip_running_sub = [0x4E0A, 0x4E00, 0x8F6E, 0x4ECD, 0x5728, 0x8FD0, 0x884C, 0x65F6, 0x8DF3, 0x8FC7, 0x672C,
     0x8F6E, 0x3002]"

definition t_recover_latency :: jsstr where
  "t_recover_latency = [0x6062, 0x590D, 0x5EF6, 0x8FDF, 0x9608, 0x503C, 0xFF08, 0x6BEB, 0x79D2, 0xFF09]"

definition t_recover_loss :: jsstr where
  "t_recover_loss = [0x6062, 0x590D, 0x4E22, 0x5305, 0x9608, 0x503C, 0xFF08, 0x25, 0xFF09]"

definition t_retry_wait :: jsstr where
  "t_retry_wait = [0x518D, 0x6B21, 0x5931, 0x8D25, 0x7B49, 0x5F85, 0xFF08, 0x5206, 0x949F, 0xFF09]"

definition t_save_settings :: jsstr where
  "t_save_settings = [0x4FDD, 0x5B58, 0x8BBE, 0x7F6E]"

definition t_recheck_sub :: jsstr where
  "t_recheck_sub = [0x51B3, 0x5B9A, 0x4EC0, 0x4E48, 0x65F6, 0x5019, 0x590D, 0x67E5, 0x3001, 0x9009, 0x62E9,
     0x591A, 0x5C11, 0x76EE, 0x6807, 0xFF0C, 0x4EE5, 0x53CA, 0x590D, 0x67E5, 0x6210, 0x529F,
     0x6216, 0x5931, 0x8D25, 0x540E, 0x7684, 0x5904, 0x7406, 0x9608, 0x503C, 0x3002]"

definition t_edit_policy :: jsstr where
  "t_edit_policy = [0x7F16, 0x8F91, 0x7B56, 0x7565]"

definition t_auto_recheck :: jsstr where
  "t_auto_recheck = [0x81EA, 0x52A8, 0x590D, 0x67E5]"

definition t_current_candidates :: jsstr where
  "t_current_candidates = [0x5F53, 0x524D, 0x5019, 0x9009]"

definition t_estimated_round :: jsstr where
  "t_estimated_round = [0x9884, 0x8BA1, 0x672C, 0x8F6E, 0x76EE, 0x6807]"

definition t_selection_rule :: jsstr where
  "t_selection_rule = [0x9009, 0x62E9, 0x89C4, 0x5219]"

definition t_only_due :: jsstr where
  "t_only_due = [0x4EC5, 0x5DF2, 0x5230, 0x671F]"

definition t_whole_list :: jsstr where
  "t_whole_list = [0x5168, 0x90E8, 0x9ED1, 0x540D, 0x5355]"

definition t_pct_max :: jsstr where
  "t_pct_max = [0x25, 0x20, 0xB7, 0x20, 0x6700, 0x591A, 0x20]"

definition t_recover_title :: jsstr where
  "t_recover_title = [0x6062, 0x590D, 0x4E0E, 0x518D, 0x6B21, 0x5931, 0x8D25]"

definition t_recover_a :: jsstr where
  "t_recover_a = [0x590D, 0x67E5, 0x7ED3, 0x679C, 0x53EF, 0x7528, 0x3001, 0x5EF6, 0x8FDF, 0x4E0D, 0x8D85,
     0x8FC7, 0x20]"

definition t_recover_b :: jsstr where
  "t_recover_b = [0x20, 0x6D, 0x73, 0x20, 0x4E14, 0x4E22, 0x5305, 0x4E0D, 0x8D85, 0x8FC7, 0x20]"

definition t_recover_c :: jsstr where
  "t_recover_c = [0x25, 0x20, 0x65F6, 0x79FB, 0x51FA, 0x9ED1, 0x540D, 0x5355, 0xFF1B, 0x5426, 0x5219,
     0x7EE7, 0x7EED, 0x4FDD, 0x7559, 0xFF0C, 0x5E76, 0x5728, 0x20]"

definition t_recover_d :: jsstr where
  "t_recover_d = [0x20, 0x5206, 0x949F, 0x540E, 0x518D, 0x6B21, 0x8FDB, 0x5165, 0x5019, 0x9009, 0x3002]"

definition t_sync_official :: jsstr where
  "t_sync_official = [0x540C, 0x6B65, 0x20, 0x43, 0x6C, 0x6F, 0x75, 0x64, 0x66, 0x6C, 0x61, 0x72, 0x65, 0x20,
     0x5B98, 0x65B9, 0x516C, 0x5E03, 0x7684, 0x4EE3, 0x7406, 0x5730, 0x5740, 0x6BB5, 0x3002]"

definition t_sync_asn :: jsstr where
  "t_sync_asn = [0x540C, 0x6B65, 0x6240, 0x6709, 0x5DF2, 0x542F, 0x7528, 0x20, 0x43, 0x6C, 0x6F, 0x75,
     0x64, 0x66, 0x6C, 0x61, 0x72, 0x65, 0x20, 0x41, 0x53, 0x4E, 0x20, 0x5F53, 0x524D, 0x5BA3,
     0x544A, 0x7684, 0x20, 0x42, 0x47, 0x50, 0x20, 0x524D, 0x7F00, 0x3002]"

definition t_sync_colo :: jsstr where
  "t_sync_colo = [0x540C, 0x6B65, 0x20, 0x43, 0x6C, 0x6F, 0x75, 0x64, 0x66, 0x6C, 0x61, 0x72, 0x65, 0x20,
     0x5B98, 0x65B9, 0x72B6, 0x6001, 0x9875, 0x516C, 0x5E03, 0x7684, 0x20, 0x63, 0x6F, 0x6C,
     0x6F, 0x20, 0x57CE, 0x5E02, 0x3001, 0x56FD, 0x5BB6, 0x548C, 0x5927, 0x6D32, 0x4FE1,
     0x606F, 0x3002]"

definition t_run_freq :: jsstr where
  "t_run_freq = [0x6267, 0x884C, 0x9891, 0x7387]"

definition t_center_start :: jsstr where
  "t_center_start = [0x4E2D, 0x5FC3, 0x542F, 0x52A8]"

definition t_sync_now_start :: jsstr where
  "t_sync_now_start = [0x7ACB, 0x5373, 0x540C, 0x6B65]"

definition t_await_plan :: jsstr where
  "t_await_plan = [0x7B49, 0x5F85, 0x8BA1, 0x5212]"

definition t_edit_sync :: jsstr where
  "t_edit_sync = [0x7F16, 0x8F91, 0x6570, 0x636E, 0x6E90, 0x540C, 0x6B65]"

definition t_enable_sync :: jsstr where
  "t_enable_sync = [0x542F, 0x7528, 0x5B9A, 0x65F6, 0x540C, 0x6B65]"

definition t_enable_sync_sub :: jsstr where
  "t_enable_sync_sub = [0x505C, 0x7528, 0x540E, 0x4ECD, 0x53EF, 0x624B, 0x52A8, 0x7ACB, 0x5373, 0x540C, 0x6B65,
     0x3002]"

definition t_startup_sync :: jsstr where
  "t_startup_sync = [0x4E2D, 0x5FC3, 0x542F, 0x52A8, 0x65F6, 0x7ACB, 0x5373, 0x540C, 0x6B65]"

definition t_startup_sync_sub :: jsstr where
  "t_startup_sync_sub = [0x6BCF, 0x6B21, 0x4E2D, 0x5FC3, 0x670D, 0x52A1, 0x91CD, 0x542F, 0x540E, 0x6267, 0x884C,
     0x4E00, 0x6B21, 0xFF0C, 0x5E76, 0x91CD, 0x65B0, 0x8BA1, 0x7B97, 0x4E0B, 0x6B21, 0x65F6,
     0x95F4, 0x3002]"

definition t_theme_light :: jsstr where
  "t_theme_light = [0x6D45, 0x8272]"

definition t_theme_light_sub :: jsstr where
  "t_theme_light_sub = [0x59CB, 0x7EC8, 0x4F7F, 0x7528, 0x6D45, 0x8272, 0x754C, 0x9762]"

definition t_theme_dark :: jsstr where
  "t_theme_dark = [0x6DF1, 0x8272]"

definition t_theme_dark_sub :: jsstr where
  "t_theme_dark_sub = [0x59CB, 0x7EC8, 0x4F7F, 0x7528, 0x6DF1, 0x8272, 0x754C, 0x9762]"

definition t_theme_system :: jsstr where
  "t_theme_system = [0x8DDF, 0x968F, 0x7CFB, 0x7EDF]"

definition t_theme_system_sub :: jsstr where
  "t_theme_system_sub = [0x6839, 0x636E, 0x64CD, 0x4F5C, 0x7CFB, 0x7EDF, 0x81EA, 0x52A8, 0x5207, 0x6362]"

definition t_appearance :: jsstr where
  "t_appearance = [0x5916, 0x89C2]"

definition t_appearance_sub :: jsstr where
  "t_appearance_sub = [0x4E3B, 0x9898, 0x8BBE, 0x7F6E, 0x4FDD, 0x5B58, 0x5728, 0x5F53, 0x524D, 0x6D4F, 0x89C8,
     0x5668, 0x4E2D, 0xFF0C, 0x4E0D, 0x5F71, 0x54CD, 0x5176, 0x4ED6, 0x7528, 0x6237, 0x3002]"

definition t_theme_group :: jsstr where
  "t_theme_group = [0x754C, 0x9762, 0x4E3B, 0x9898]"

definition t_sec_overview :: jsstr where
  "t_sec_overview = [0x81EA, 0x52A8, 0x5316, 0x603B, 0x89C8]"

definition t_sec_runs :: jsstr where
  "t_sec_runs = [0x6267, 0x884C, 0x8BB0, 0x5F55]"

definition t_scan_plan_sub :: jsstr where
  "t_scan_plan_sub = [0x4E2D, 0x5FC3, 0x7AEF, 0x6309, 0x20, 0x43, 0x72, 0x6F, 0x6E, 0x20, 0x548C, 0x65F6,
     0x533A, 0x521B, 0x5EFA, 0x626B, 0x63CF, 0x4EFB, 0x52A1, 0xFF1B, 0x624B, 0x52A8, 0x626B,
     0x63CF, 0x4ECD, 0x5728, 0x201C, 0x626B, 0x63CF, 0x4EFB, 0x52A1, 0x201D, 0x9875, 0x9762,
     0x53D1, 0x8D77, 0x3002]"

definition t_new_plan :: jsstr where
  "t_new_plan = [0x65B0, 0x5EFA, 0x8BA1, 0x5212]"

definition t_settings_sub :: jsstr where
  "t_settings_sub = [0x96C6, 0x4E2D, 0x7BA1, 0x7406, 0x81EA, 0x52A8, 0x5316, 0x7B56, 0x7565, 0x3001, 0x540E,
     0x53F0, 0x540C, 0x6B65, 0x3001, 0x6267, 0x884C, 0x8BB0, 0x5F55, 0x548C, 0x5F53, 0x524D,
     0x6D4F, 0x89C8, 0x5668, 0x7684, 0x5916, 0x89C2, 0x3002]"


subsection \<open>The recheck panel\<close>

datatype recheck_field =
    RfEnabled bool | RfCron jsstr | RfZone jsstr | RfPercent jsnum | RfMax jsnum | RfDue bool | RfSkip bool
  | RfAttempts jsnum | RfTimeout jsnum | RfLatency jsnum | RfLoss jsnum | RfRetry jsnum

text \<open>The fraction is edited as a percentage.\<close>

fun recheck_field_set :: "recheck_field \<Rightarrow> UpdateBlacklistRecheckSettings \<Rightarrow> UpdateBlacklistRecheckSettings" where
  "recheck_field_set (RfEnabled b) v = v\<lparr>br_enabled := b\<rparr>"
| "recheck_field_set (RfCron s) v = v\<lparr>br_cron_expression := s\<rparr>"
| "recheck_field_set (RfZone s) v = v\<lparr>br_timezone := s\<rparr>"
| "recheck_field_set (RfPercent x) v = v\<lparr>br_fraction := num_scale (1 / 100) x\<rparr>"
| "recheck_field_set (RfMax x) v = v\<lparr>br_max_targets := x\<rparr>"
| "recheck_field_set (RfDue b) v = v\<lparr>br_due_only := b\<rparr>"
| "recheck_field_set (RfSkip b) v = v\<lparr>br_skip_if_running := b\<rparr>"
| "recheck_field_set (RfAttempts x) v = v\<lparr>br_attempts := x\<rparr>"
| "recheck_field_set (RfTimeout x) v = v\<lparr>br_timeout_ms := x\<rparr>"
| "recheck_field_set (RfLatency x) v = v\<lparr>br_max_latency_ms := x\<rparr>"
| "recheck_field_set (RfLoss x) v = v\<lparr>br_max_packet_loss := x\<rparr>"
| "recheck_field_set (RfRetry x) v = v\<lparr>br_retry_minutes := x\<rparr>"

definition recheck_input :: "'a UpdateBlacklistRecheckSettings_scheme \<Rightarrow> UpdateBlacklistRecheckSettings" where
  "recheck_input v = \<lparr>br_enabled = br_enabled v, br_cron_expression = br_cron_expression v, br_timezone = br_timezone v,
     br_due_only = br_due_only v, br_fraction = br_fraction v, br_max_targets = br_max_targets v,
     br_skip_if_running = br_skip_if_running v, br_attempts = br_attempts v, br_timeout_ms = br_timeout_ms v,
     br_max_latency_ms = br_max_latency_ms v, br_max_packet_loss = br_max_packet_loss v, br_retry_minutes = br_retry_minutes v\<rparr>"

record recheck_panel =
  rk_settings :: "BlacklistRecheckSettings query_state"
  rk_open :: bool
  rk_values :: UpdateBlacklistRecheckSettings
  rk_errors :: field_errors
  rk_update_pending :: bool
  rk_run_pending :: bool

datatype recheck_action =
    RkQuery "BlacklistRecheckSettings query_state" | RkRefetch | RkRun | RkRunSettled | RkOpen bool | RkField recheck_field
  | RkSubmit | RkSettled bool

text \<open>The effect runs when the dialog opens and whenever the query has new data (the query library keeps
  the object of an unchanged result, so only a changed result is new).\<close>

definition recheck_effect :: "recheck_panel \<Rightarrow> recheck_panel \<Rightarrow> recheck_panel" where
  "recheck_effect old s =
     (case q_data (rk_settings s) of
        None \<Rightarrow> s
      | Some d \<Rightarrow> if rk_open s \<and> (\<not> rk_open old \<or> q_data (rk_settings old) \<noteq> Some d)
                 then s\<lparr>rk_values := recheck_input d, rk_errors := []\<rparr> else s)"

definition recheck_submit :: "recheck_panel \<Rightarrow> recheck_panel \<times> api_call list" where
  "recheck_submit s =
     (case blacklistRecheckSchema (rk_values s) of
        Inl e \<Rightarrow> (s\<lparr>rk_errors := e\<rparr>, [])
      | Inr v \<Rightarrow> (s\<lparr>rk_errors := [], rk_update_pending := True\<rparr>, [updateBlacklistRecheck v]))"

fun recheck_raw :: "recheck_action \<Rightarrow> recheck_panel \<Rightarrow> recheck_panel \<times> api_call list" where
  "recheck_raw (RkQuery q) s = (s\<lparr>rk_settings := q\<rparr>, [])"
| "recheck_raw RkRefetch s = (s, [getBlacklistRecheck])"
| "recheck_raw RkRun s = (s\<lparr>rk_run_pending := True\<rparr>, [runBlacklistRecheck])"
| "recheck_raw RkRunSettled s = (s\<lparr>rk_run_pending := False\<rparr>, [])"
| "recheck_raw (RkOpen b) s = (s\<lparr>rk_open := b\<rparr>, [])"
| "recheck_raw (RkField f) s = (s\<lparr>rk_values := recheck_field_set f (rk_values s)\<rparr>, [])"
| "recheck_raw RkSubmit s = recheck_submit s"
| "recheck_raw (RkSettled ok) s = (if ok then s\<lparr>rk_update_pending := False, rk_open := False\<rparr> else s\<lparr>rk_update_pending := False\<rparr>, [])"

definition recheck_step :: "recheck_action \<Rightarrow> recheck_panel \<Rightarrow> recheck_panel \<times> api_call list" where
  "recheck_step a s = (case recheck_raw a s of (s', calls) \<Rightarrow> (recheck_effect s s', calls))"

definition recheck_dialog :: "bool \<Rightarrow> recheck_panel \<Rightarrow> recheck_action node" where
  "recheck_dialog canManage s =
     (let v = rk_values s; es = rk_errors s in
      show_if (canManage \<and> rk_open s) (El ''Dialog'' [OnBool ''openChange'' RkOpen]
       [el ''DialogTitle'' [Txt t_edit_recheck],
        el ''DialogDescription'' [Txt t_edit_recheck_sub],
        switch_field t_enable_recheck t_enable_recheck_sub (br_enabled v) (RkField \<circ> RfEnabled),
        text_field ''cron_expression'' t_cron_label (br_cron_expression v) (RkField \<circ> RfCron) es,
        el ''FormDescription'' [Txt t_cron_five],
        el ''FormItem'' [el ''FormLabel'' [Txt t_zone], TimezoneCombobox (br_timezone v) (RkField \<circ> RfZone), field_message es ''timezone''],
        number_field ''fraction'' t_round_fraction (num_round (num_scale 100 (br_fraction v))) (RkField \<circ> RfPercent)
          t_percent_sub es,
        number_field ''max_targets'' t_round_max (br_max_targets v) (RkField \<circ> RfMax) [] es,
        switch_field t_due_only t_due_only_sub (br_due_only v) (RkField \<circ> RfDue),
        switch_field t_skip_running t_skip_running_sub (br_skip_if_running v) (RkField \<circ> RfSkip),
        number_field ''attempts'' t_attempts_label (br_attempts v) (RkField \<circ> RfAttempts) [] es,
        number_field ''timeout_ms'' t_timeout_label (br_timeout_ms v) (RkField \<circ> RfTimeout) [] es,
        number_field ''max_latency_ms'' t_recover_latency (br_max_latency_ms v) (RkField \<circ> RfLatency) [] es,
        number_field ''max_packet_loss'' t_recover_loss (br_max_packet_loss v) (RkField \<circ> RfLoss) [] es,
        number_field ''retry_minutes'' t_retry_wait (br_retry_minutes v) (RkField \<circ> RfRetry) [] es,
        button False (RkOpen False) [Txt t_cancel],
        button (rk_update_pending s) RkSubmit [Txt t_save_settings]]))"

definition recheck_card :: "intl \<Rightarrow> bool \<Rightarrow> recheck_panel \<Rightarrow> BlacklistRecheckSettings \<Rightarrow> recheck_action node" where
  "recheck_card I canManage s d = el ''Card''
     [el ''CardTitle'' [Txt t_recheck_title],
      el ''CardDescription'' [Txt t_recheck_sub],
      show_if canManage (el ''div'' [button (rk_run_pending s) RkRun [Txt t_run_now],
        button False (RkOpen True) [Txt t_edit_policy]]),
      el ''p'' [Txt t_auto_recheck],
      el ''p'' [Txt (br_cron_expression d), Txt t_dot_sep, Txt (br_timezone d)],
      el ''Badge'' [Txt (if br_enabled d then t_st_enabled else t_st_disabled)],
      el ''div'' [el ''p'' [Txt t_current_candidates], el ''p'' [Txt (formatNumber (Some (br_eligible_targets d)))]],
      el ''div'' [el ''p'' [Txt t_estimated_round], el ''p'' [Txt (num_grouped (estimated_recheck d))]],
      el ''div'' [el ''p'' [Txt t_selection_rule],
        el ''p'' [Txt (if br_due_only d then t_only_due else t_whole_list), Txt t_dot_sep,
          Txt (num_fixed0 (num_scale 100 (br_fraction d))), Txt t_pct_max, Txt (num_value (br_max_targets d))]],
      el ''div'' [el ''p'' [Txt t_next_run_label],
        el ''p'' [text_or_throw (formatDateInTimezone I (Some (br_next_run_at d)) (Some (br_timezone d)))]],
      el ''p'' [Txt t_recover_title],
      el ''p'' [Txt t_recover_a, Txt (num_value (br_max_latency_ms d)), Txt t_recover_b,
        Txt (num_value (br_max_packet_loss d)), Txt t_recover_c, Txt (num_value (br_retry_minutes d)),
        Txt t_recover_d],
      show_if (truthy (br_last_error d)) (el ''p'' [Txt (opt_str (br_last_error d))])]"

definition BlacklistRecheckPanel :: "intl \<Rightarrow> bool \<Rightarrow> recheck_panel \<Rightarrow> recheck_action node" where
  "BlacklistRecheckPanel I canManage s =
     (case rk_settings s of
        QPending \<Rightarrow> PageSkeleton (Some 5)
      | QError e \<Rightarrow> ErrorState None (Some e) (Some RkRefetch)
      | QData d \<Rightarrow> Frag [recheck_card I canManage s d, recheck_dialog canManage s])"

text \<open>Opening shows the stored settings; a changed result of the background refetch replaces whatever
  was typed meanwhile, because the effect does not look at the form.\<close>

lemma recheck_opens_stored:
  "rk_settings s = QData d \<Longrightarrow> \<not> rk_open s \<Longrightarrow> rk_values (fst (recheck_step (RkOpen True) s)) = recheck_input d"
  by (simp add: recheck_step_def recheck_effect_def)

lemma recheck_refetch_drops:
  assumes "rk_open s" "rk_settings s = QData d" "d' \<noteq> d"
  shows "rk_values (fst (recheck_step (RkQuery (QData d')) (fst (recheck_step (RkField f) s)))) = recheck_input d'"
  using assms by (simp add: recheck_step_def recheck_effect_def)

text \<open>The percentage field shows the whole percentage it was given.\<close>

lemma percent_round_trip:
  "num_round (num_scale 100 (br_fraction (recheck_field_set (RfPercent (Fin (of_int n))) v))) = Fin (of_int n)"
  by simp

subsection \<open>The source syncs\<close>

datatype sync_action =
    SyRefetch | SyRun SourceSyncSchedule | SyRunSettled | SyEdit SourceSyncSchedule | SyClose | SyEnabled bool | SyCron jsstr
  | SyZone jsstr | SyStartup bool | SySubmit | SySettled bool

record sync_panel =
  sp_editing :: "SourceSyncSchedule option"
  sp_values :: UpdateSourceSyncSchedule
  sp_errors :: field_errors
  sp_update_pending :: bool
  sp_run_pending :: bool

definition sync_input :: "SourceSyncSchedule \<Rightarrow> UpdateSourceSyncSchedule" where
  "sync_input s = \<lparr>uy_enabled = sy_enabled s, uy_cron_expression = sy_cron_expression s, uy_timezone = sy_timezone s,
     uy_run_on_startup = sy_run_on_startup s\<rparr>"

definition sync_opened :: "SourceSyncSchedule \<Rightarrow> sync_panel \<Rightarrow> sync_panel" where
  "sync_opened item s = s\<lparr>sp_editing := Some item, sp_values := sync_input item, sp_errors := []\<rparr>"

definition sync_submit :: "sync_panel \<Rightarrow> sync_panel \<times> api_call list" where
  "sync_submit s =
     (case sourceSyncSchema (sp_values s) of
        Inl e \<Rightarrow> (s\<lparr>sp_errors := e\<rparr>, [])
      | Inr v \<Rightarrow>
        (case sp_editing s of
           None \<Rightarrow> (s\<lparr>sp_errors := []\<rparr>, [])
         | Some e \<Rightarrow> (s\<lparr>sp_errors := [], sp_update_pending := True\<rparr>, [updateSourceSync (sourceKind_str (sy_source e)) v])))"

fun sync_step :: "sync_action \<Rightarrow> sync_panel \<Rightarrow> sync_panel \<times> api_call list" where
  "sync_step SyRefetch s = (s, [getSourceSyncs])"
| "sync_step (SyRun item) s = (s\<lparr>sp_run_pending := True\<rparr>, [runSourceSync (sourceKind_str (sy_source item))])"
| "sync_step SyRunSettled s = (s\<lparr>sp_run_pending := False\<rparr>, [])"
| "sync_step (SyEdit item) s = (sync_opened item s, [])"
| "sync_step SyClose s = (s\<lparr>sp_editing := None\<rparr>, [])"
| "sync_step (SyEnabled b) s = (s\<lparr>sp_values := (sp_values s)\<lparr>uy_enabled := b\<rparr>\<rparr>, [])"
| "sync_step (SyCron c) s = (s\<lparr>sp_values := (sp_values s)\<lparr>uy_cron_expression := c\<rparr>\<rparr>, [])"
| "sync_step (SyZone z) s = (s\<lparr>sp_values := (sp_values s)\<lparr>uy_timezone := z\<rparr>\<rparr>, [])"
| "sync_step (SyStartup b) s = (s\<lparr>sp_values := (sp_values s)\<lparr>uy_run_on_startup := b\<rparr>\<rparr>, [])"
| "sync_step SySubmit s = sync_submit s"
| "sync_step (SySettled ok) s = (if ok then s\<lparr>sp_update_pending := False, sp_editing := None\<rparr> else s\<lparr>sp_update_pending := False\<rparr>, [])"

fun source_description :: "SourceKind \<Rightarrow> jsstr" where
  "source_description Official = t_sync_official"
| "source_description AsnSource = t_sync_asn"
| "source_description ColoSource = t_sync_colo"

definition sync_card :: "intl \<Rightarrow> bool \<Rightarrow> sync_panel \<Rightarrow> SourceSyncSchedule \<Rightarrow> sync_action node" where
  "sync_card I canManage s item = el ''Card''
     [el ''CardTitle'' [Txt (sy_name item)], el ''CardDescription'' [Txt (source_description (sy_source item))],
      el ''Badge'' [Txt (if sy_enabled item then t_st_enabled else t_st_disabled)],
      el ''div'' [el ''p'' [Txt t_run_freq], el ''p'' [Txt (sy_cron_expression item)]],
      el ''div'' [el ''p'' [Txt t_zone], el ''p'' [Txt (sy_timezone item)]],
      el ''div'' [el ''p'' [Txt t_next_run_label],
        el ''p'' [text_or_throw (formatDateInTimezone I (Some (sy_next_run_at item)) (Some (sy_timezone item)))]],
      el ''div'' [el ''p'' [Txt t_center_start], el ''p'' [Txt (if sy_run_on_startup item then t_sync_now_start else t_await_plan)]],
      show_if (truthy (sy_last_error item)) (el ''p'' [Txt (opt_str (sy_last_error item))]),
      show_if canManage (el ''div'' [button (sp_run_pending s) (SyRun item) [Txt t_sync_now_start],
        button False (SyEdit item) [Txt t_edit]])]"

definition sync_dialog :: "bool \<Rightarrow> sync_panel \<Rightarrow> sync_action node" where
  "sync_dialog canManage s =
     (let v = sp_values s; es = sp_errors s in
      show_if (canManage \<and> sp_editing s \<noteq> None) (El ''Dialog'' [On ''openChange'' SyClose]
       [el ''DialogTitle'' [Txt t_edit_sync],
        el ''DialogDescription'' [Txt (case sp_editing s of None \<Rightarrow> [] | Some e \<Rightarrow> sy_name e)],
        switch_field t_enable_sync t_enable_sync_sub (uy_enabled v) SyEnabled,
        text_field ''cron_expression'' t_cron_label (uy_cron_expression v) SyCron es,
        el ''FormDescription'' [Txt t_cron_five],
        el ''FormItem'' [el ''FormLabel'' [Txt t_zone], TimezoneCombobox (uy_timezone v) SyZone, field_message es ''timezone''],
        switch_field t_startup_sync t_startup_sync_sub (uy_run_on_startup v) SyStartup,
        button False SyClose [Txt t_cancel],
        button (sp_update_pending s) SySubmit [Txt t_save_settings]]))"

definition SourceSyncPanel ::
  "intl \<Rightarrow> bool \<Rightarrow> SourceSyncSchedule list query_state \<Rightarrow> sync_panel \<Rightarrow> sync_action node" where
  "SourceSyncPanel I canManage schedules s =
     (case schedules of
        QPending \<Rightarrow> PageSkeleton (Some 5)
      | QError e \<Rightarrow> ErrorState None (Some e) (Some SyRefetch)
      | QData items \<Rightarrow> Frag [el ''div'' (map (sync_card I canManage s) items), sync_dialog canManage s])"

text \<open>Editing a source and saving it unchanged updates that source with what it had.\<close>

lemma sync_edit_faithful:
  "sourceSyncSchema (sync_input item) = Inr (sync_input item) \<Longrightarrow>
   snd (sync_step SySubmit (fst (sync_step (SyEdit item) s))) = [updateSourceSync (sourceKind_str (sy_source item)) (sync_input item)]"
  by (simp add: sync_opened_def sync_submit_def)

subsection \<open>Appearance\<close>

definition settings_themes :: "(string \<times> jsstr \<times> jsstr) list" where
  "settings_themes = [(''light'', t_theme_light, t_theme_light_sub), (''dark'', t_theme_dark, t_theme_dark_sub),
     (''system'', t_theme_system, t_theme_system_sub)]"

definition AppearanceSettings :: "jsstr option \<Rightarrow> (jsstr \<Rightarrow> 'e) \<Rightarrow> 'e node" where
  "AppearanceSettings theme setTheme = el ''Card''
     [el ''CardTitle'' [Txt t_appearance], el ''CardDescription'' [Txt t_appearance_sub],
      El ''RadioGroup'' [Attr ''value'' (nullish theme (lit ''system'')), Attr ''aria-label'' t_theme_group]
       (map (\<lambda>(value, label, description). el ''label''
          [el ''span'' [Txt label], el ''span'' [Txt description],
           El ''RadioGroupItem'' [Attr ''value'' (lit value), On ''select'' (setTheme (lit value))] []]) settings_themes)]"

subsection \<open>The page\<close>

datatype settings_section = SecOverview | SecSchedules | SecBlacklist | SecSources | SecRuns | SecAppearance

definition settingsSections :: "(settings_section \<times> jsstr) list" where
  "settingsSections = [(SecOverview, t_sec_overview), (SecSchedules, t_scan_plan), (SecBlacklist, t_recheck_title),
     (SecSources, t_source_sync), (SecRuns, t_sec_runs), (SecAppearance, t_appearance)]"

datatype settings_action =
    StSection settings_section | StTheme jsstr | StRetryOverview | StRetrySchedules | StCreate
  | StTable "schedules_action dt_action" | StRecheck recheck_action | StSync sync_action | StRuns "runs_action dt_action"
  | StDialog schedule_action

record settings_state =
  se_section :: settings_section
  se_dialog :: schedule_dialog
  se_table :: schedules_state
  se_recheck :: recheck_panel
  se_sync :: sync_panel

text \<open>What the page sees of the server.\<close>

record settings_data =
  sq_schedules :: "ScanSchedule list query_state"
  sq_sources :: "SourceSyncSchedule list query_state"
  sq_runs :: "AutomationRun list query_state"
  sq_overview :: "Overview query_state"
  sq_agents :: "Agent list query_state"

definition ScanSchedulesPanel ::
  "bool \<Rightarrow> ScanSchedule list query_state \<Rightarrow> schedules_action dt_action node \<Rightarrow> settings_action node" where
  "ScanSchedulesPanel canManage schedules table = el ''Card''
     [el ''CardTitle'' [Txt t_scan_plan],
      el ''CardDescription'' [Txt t_scan_plan_sub],
      show_if canManage (button False StCreate [Txt t_new_plan]),
      (case schedules of
         QPending \<Rightarrow> PageSkeleton (Some 5)
       | QError e \<Rightarrow> ErrorState None (Some e) (Some StRetrySchedules)
       | QData _ \<Rightarrow> map_node StTable table)]"

text \<open>Only the panel of the selected section is mounted. The table views and name filters of the two
  tables are the table library's.\<close>

definition SettingsPage ::
  "intl \<Rightarrow> AuthContextValue \<Rightarrow> settings_state \<Rightarrow> settings_data \<Rightarrow> jsstr option \<Rightarrow> jsstr option \<Rightarrow> ScanSchedule table_view
    \<Rightarrow> nat \<Rightarrow> jsstr option \<Rightarrow> AutomationRun table_view \<Rightarrow> settings_action node" where
  "SettingsPage I auth s q theme planName plans n runName runs =
     (let canManage = ac_canManage auth in el ''div''
       [PageHeader None t_nav_settings t_settings_sub None,
        el ''TabsList'' (map (\<lambda>(value, label). El ''TabsTrigger'' [On ''click'' (StSection value)] [Txt label]) settingsSections),
        el ''TabsContent'' [case se_section s of
            SecOverview \<Rightarrow> AutomationOverview I (sq_schedules q) (rk_settings (se_recheck s)) (sq_sources q) (sq_runs q) (sq_overview q) StRetryOverview
          | SecSchedules \<Rightarrow> ScanSchedulesPanel canManage (sq_schedules q) (SchedulesTable I canManage (se_table s) planName plans n)
          | SecBlacklist \<Rightarrow> map_node StRecheck (BlacklistRecheckPanel I canManage (se_recheck s))
          | SecSources \<Rightarrow> map_node StSync (SourceSyncPanel I canManage (sq_sources q) (se_sync s))
          | SecRuns \<Rightarrow> map_node StRuns (AutomationRunsTable I (sq_runs q) runName runs)
          | SecAppearance \<Rightarrow> AppearanceSettings theme StTheme],
        show_if canManage (map_node StDialog (ScheduleDialog (se_dialog s) (sq_agents q) (q_data (sq_overview q))))])"

text \<open>Leaving a section unmounts its panel, so its state starts afresh when it is entered again; the
  schedule dialog belongs to the page and stays. The table's edit and the header's create open it.\<close>

definition schedules_init :: schedules_state where
  "schedules_init = \<lparr>sc_deleting = None, sc_updatePending = False, sc_runPending = False\<rparr>"

definition enter_section :: "settings_section \<Rightarrow> settings_state \<Rightarrow> settings_state" where
  "enter_section v s = (if v = se_section s then s else
     s\<lparr>se_section := v, se_table := schedules_init,
       se_recheck := (se_recheck s)\<lparr>rk_open := False, rk_errors := [], rk_update_pending := False, rk_run_pending := False\<rparr>,
       se_sync := (se_sync s)\<lparr>sp_editing := None, sp_errors := [], sp_update_pending := False, sp_run_pending := False\<rparr>\<rparr>)"

definition dialog_calls :: "schedule_request option \<Rightarrow> api_call list" where
  "dialog_calls r = (case r of None \<Rightarrow> [] | Some (CreateSchedule v) \<Rightarrow> [createSchedule v] | Some (UpdateSchedule i v) \<Rightarrow> [updateSchedule i v])"

fun settings_step :: "settings_action \<Rightarrow> settings_state \<Rightarrow> settings_state \<times> api_call list" where
  "settings_step (StSection v) s = (enter_section v s, [])"
| "settings_step (StTheme _) s = (s, [])"
| "settings_step StRetryOverview s = (s, [getSchedules, getBlacklistRecheck, getSourceSyncs, getAutomationRuns (Some 200), getOverview])"
| "settings_step StRetrySchedules s = (s, [getSchedules])"
| "settings_step StCreate s = (s\<lparr>se_dialog := schedule_step (HdOpen None) (se_dialog s)\<rparr>, [])"
| "settings_step (StTable (Item (ScEdit item))) s = (s\<lparr>se_dialog := schedule_step (HdOpen (Some item)) (se_dialog s)\<rparr>, [])"
| "settings_step (StTable (Item a)) s = (s\<lparr>se_table := fst (schedules_step a (se_table s))\<rparr>, snd (schedules_step a (se_table s)))"
| "settings_step (StTable _) s = (s, [])"
| "settings_step (StRecheck a) s = (s\<lparr>se_recheck := fst (recheck_step a (se_recheck s))\<rparr>, snd (recheck_step a (se_recheck s)))"
| "settings_step (StSync a) s = (s\<lparr>se_sync := fst (sync_step a (se_sync s))\<rparr>, snd (sync_step a (se_sync s)))"
| "settings_step (StRuns (Item ArRefetch)) s = (s, [getAutomationRuns (Some 200)])"
| "settings_step (StRuns _) s = (s, [])"
| "settings_step (StDialog HdSubmit) s = (s\<lparr>se_dialog := fst (schedule_submit (se_dialog s))\<rparr>, dialog_calls (snd (schedule_submit (se_dialog s))))"
| "settings_step (StDialog a) s = (s\<lparr>se_dialog := schedule_step a (se_dialog s)\<rparr>, [])"

subsection \<open>What a viewer can do\<close>

fun settings_managing :: "settings_action \<Rightarrow> bool" where
  "settings_managing (StTable (Item a)) = schedules_managing a"
| "settings_managing (StRecheck a) = (a \<noteq> RkRefetch)"
| "settings_managing (StSync a) = (a \<noteq> SyRefetch)"
| "settings_managing (StDialog _) = True"
| "settings_managing StCreate = True"
| "settings_managing _ = False"

definition settings_switch :: "settings_action \<Rightarrow> bool" where
  "settings_switch a \<longleftrightarrow> (\<exists>s b. a = StTable (Item (ScToggle s b)))"

lemma settings_reads:
  "snd (settings_step a s) \<noteq> [] \<Longrightarrow> \<not> settings_managing a \<Longrightarrow>
     set (snd (settings_step a s)) \<subseteq> {getSchedules, getBlacklistRecheck, getSourceSyncs, getAutomationRuns (Some 200), getOverview}"
  by (cases "(a, s)" rule: settings_step.cases)
     (auto simp: recheck_step_def split: schedules_action.splits prod.splits)

lemma settings_viewer:
  assumes "\<not> ac_canManage auth"
  shows "acts (\<lambda>a. \<not> settings_managing a \<or> settings_switch a) (SettingsPage I auth s q theme planName plans n runName runs)"
proof -
  let ?P = "\<lambda>a. \<not> settings_managing a \<or> settings_switch a"
  have o: "acts ?P (AutomationOverview I a b c d e StRetryOverview)" for a b c d e
    by (simp add: AutomationOverview_def PageSkeleton_def ErrorState_def overview_card_def upcoming_row_def Let_def list_all_iff
        split: option.split list.split)
  have table: "acts (?P \<circ> StTable) (SchedulesTable I False t planName plans n)" for t
    by (rule acts_mono [OF schedules_viewer]) (auto simp: viewer_schedules_ok_def settings_switch_def split: dt_action.splits)
  have sch: "acts ?P (ScanSchedulesPanel False a (SchedulesTable I False t planName plans n))" for a t
    using table by (simp add: ScanSchedulesPanel_def PageSkeleton_def ErrorState_def Let_def list_all_iff split: query_state.split)
  have rk: "acts (?P \<circ> StRecheck) (BlacklistRecheckPanel I False t)" for t
    by (simp add: BlacklistRecheckPanel_def recheck_card_def recheck_dialog_def PageSkeleton_def ErrorState_def Let_def list_all_iff
        split: query_state.split)
  have sy: "acts (?P \<circ> StSync) (SourceSyncPanel I False a t)" for a t
    by (simp add: SourceSyncPanel_def sync_card_def sync_dialog_def PageSkeleton_def ErrorState_def Let_def list_all_iff
        split: query_state.split)
  have ru: "acts (?P \<circ> StRuns) (AutomationRunsTable I a runName runs)" for a
    by (rule acts_mono [OF acts_True]) (simp add: settings_switch_def)
  have ap: "acts ?P (AppearanceSettings theme StTheme)"
    by (simp add: AppearanceSettings_def settings_themes_def)
  show ?thesis using assms o sch rk sy ru ap
    by (simp add: SettingsPage_def PageHeader_def settingsSections_def Let_def split: settings_section.split)
qed

end
