(* ===== verification/Agents.thy ===== *)
theory Agents
  imports Settings
begin

text \<open>
  The agents (\<open>features/agents\<close>): the page with its metrics and table, the pending connection requests,
  the dialog that adds an agent, and the page that approves a request, with the server's validation of
  what the two forms send.
\<close>

subsection \<open>Literals\<close>

definition t_node_name_required :: jsstr where
  "t_node_name_required = [0x8BF7, 0x8F93, 0x5165, 0x8282, 0x70B9, 0x540D, 0x79F0]"

definition t_region_required :: jsstr where
  "t_region_required = [0x8BF7, 0x8F93, 0x5165, 0x5730, 0x533A]"

definition t_continent_required :: jsstr where
  "t_continent_required = [0x8BF7, 0x9009, 0x62E9, 0x5927, 0x6D32]"

definition t_request_device :: jsstr where
  "t_request_device = [0x8BF7, 0x6C42, 0x8BBE, 0x5907]"

definition t_requested_name :: jsstr where
  "t_requested_name = [0x8BF7, 0x6C42, 0x540D, 0x79F0]"

definition t_not_given :: jsstr where
  "t_not_given = [0x672A, 0x63D0, 0x4F9B]"

definition t_os_label :: jsstr where
  "t_os_label = [0x64CD, 0x4F5C, 0x7CFB, 0x7EDF]"

definition t_arch_label :: jsstr where
  "t_arch_label = [0x67B6, 0x6784]"

definition t_agent_version :: jsstr where
  "t_agent_version = [0x41, 0x67, 0x65, 0x6E, 0x74, 0x20, 0x7248, 0x672C]"

definition t_requested_concurrency :: jsstr where
  "t_requested_concurrency = [0x8BF7, 0x6C42, 0x5E76, 0x53D1, 0x6570]"

definition t_pairing_expires_a :: jsstr where
  "t_pairing_expires_a = [0x914D, 0x5BF9, 0x8BF7, 0x6C42, 0x5C06, 0x5728, 0x20]"

definition t_pairing_expires_b :: jsstr where
  "t_pairing_expires_b = [0x5230, 0x671F]"

definition t_approved_waiting :: jsstr where
  "t_approved_waiting = [0x5DF2, 0x6279, 0x51C6, 0xFF0C, 0x6B63, 0x5728, 0x7B49, 0x5F85, 0x20, 0x41, 0x67, 0x65,
     0x6E, 0x74, 0x20, 0x5B8C, 0x6210, 0x8FDE, 0x63A5]"

definition t_keep_running :: jsstr where
  "t_keep_running = [0x8BF7, 0x4FDD, 0x6301, 0x20, 0x41, 0x67, 0x65, 0x6E, 0x74, 0x20, 0x8FDB, 0x7A0B, 0x8FD0,
     0x884C, 0x3002, 0x8FDE, 0x63A5, 0x6210, 0x529F, 0x540E, 0x6B64, 0x9875, 0x9762, 0x4F1A,
     0x81EA, 0x52A8, 0x66F4, 0x65B0, 0x3002]"

definition t_agent_connected :: jsstr where
  "t_agent_connected = [0x41, 0x67, 0x65, 0x6E, 0x74, 0x20, 0x5DF2, 0x6210, 0x529F, 0x8FDE, 0x63A5]"

definition t_got_identity :: jsstr where
  "t_got_identity = [0x20, 0x5DF2, 0x83B7, 0x5F97, 0x72EC, 0x7ACB, 0x8EAB, 0x4EFD, 0x5E76, 0x5F00, 0x59CB,
     0x53D1, 0x9001, 0x5FC3, 0x8DF3, 0x3002]"

definition t_view_agents :: jsstr where
  "t_view_agents = [0x67E5, 0x770B, 0x20, 0x41, 0x67, 0x65, 0x6E, 0x74]"

definition t_request_rejected :: jsstr where
  "t_request_rejected = [0x6B64, 0x8FDE, 0x63A5, 0x8BF7, 0x6C42, 0x5DF2, 0x88AB, 0x62D2, 0x7EDD]"

definition t_rerun_connect :: jsstr where
  "t_rerun_connect = [0x9700, 0x8981, 0x8FDE, 0x63A5, 0x65F6, 0xFF0C, 0x8BF7, 0x5728, 0x20, 0x41, 0x67, 0x65,
     0x6E, 0x74, 0x20, 0x673A, 0x5668, 0x91CD, 0x65B0, 0x8FD0, 0x884C, 0x20, 0x63, 0x6F, 0x6E,
     0x6E, 0x65, 0x63, 0x74, 0x20, 0x547D, 0x4EE4, 0x3002]"

definition t_pairing_invalid :: jsstr where
  "t_pairing_invalid = [0x6B64, 0x914D, 0x5BF9, 0x8BF7, 0x6C42, 0x5DF2, 0x5931, 0x6548]"

definition t_rerun_pairing :: jsstr where
  "t_rerun_pairing = [0x8BF7, 0x5728, 0x20, 0x41, 0x67, 0x65, 0x6E, 0x74, 0x20, 0x673A, 0x5668, 0x91CD, 0x65B0,
     0x8FD0, 0x884C, 0x8FDE, 0x63A5, 0x547D, 0x4EE4, 0xFF0C, 0x751F, 0x6210, 0x65B0, 0x7684,
     0x914D, 0x5BF9, 0x8BF7, 0x6C42, 0x3002]"

definition t_only_view :: jsstr where
  "t_only_view = [0x5F53, 0x524D, 0x8D26, 0x53F7, 0x53EA, 0x6709, 0x67E5, 0x770B, 0x6743, 0x9650, 0xFF0C,
     0x8BF7, 0x8054, 0x7CFB, 0x7BA1, 0x7406, 0x5458, 0x6279, 0x51C6, 0x6B64, 0x20, 0x41, 0x67,
     0x65, 0x6E, 0x74, 0x3002]"

definition t_node_name :: jsstr where
  "t_node_name = [0x8282, 0x70B9, 0x540D, 0x79F0]"

definition t_area :: jsstr where
  "t_area = [0x5730, 0x533A]"

definition t_max_concurrency :: jsstr where
  "t_max_concurrency = [0x6700, 0x5927, 0x5E76, 0x53D1, 0x6570]"

definition t_loading_pairing :: jsstr where
  "t_loading_pairing = [0x6B63, 0x5728, 0x52A0, 0x8F7D, 0x914D, 0x5BF9, 0x8BF7, 0x6C42]"

definition t_pairing_failed :: jsstr where
  "t_pairing_failed = [0x914D, 0x5BF9, 0x8BF7, 0x6C42, 0x52A0, 0x8F7D, 0x5931, 0x8D25]"

definition t_approve_title :: jsstr where
  "t_approve_title = [0x6279, 0x51C6, 0x20, 0x41, 0x67, 0x65, 0x6E, 0x74, 0x20, 0x8FDE, 0x63A5]"

definition t_approve_sub :: jsstr where
  "t_approve_sub = [0x4E00, 0x4E2A, 0x65B0, 0x7684, 0x20, 0x41, 0x67, 0x65, 0x6E, 0x74, 0x20, 0x6B63, 0x5728,
     0x8BF7, 0x6C42, 0x52A0, 0x5165, 0x20, 0x43, 0x46, 0x20, 0x53, 0x63, 0x61, 0x6E, 0x6E,
     0x65, 0x72, 0x3002, 0x957F, 0x671F, 0x20, 0x54, 0x6F, 0x6B, 0x65, 0x6E, 0x20, 0x4E0D,
     0x4F1A, 0x663E, 0x793A, 0x5728, 0x6D4F, 0x89C8, 0x5668, 0x4E2D, 0x3002]"

definition t_reject :: jsstr where
  "t_reject = [0x62D2, 0x7EDD]"

definition t_approve_connect :: jsstr where
  "t_approve_connect = [0x6279, 0x51C6, 0x5E76, 0x8FDE, 0x63A5]"

definition t_command_copied :: jsstr where
  "t_command_copied = [0x547D, 0x4EE4, 0x5DF2, 0x590D, 0x5236]"

definition t_copy_command :: jsstr where
  "t_copy_command = [0x590D, 0x5236, 0x547D, 0x4EE4]"

definition t_binary :: jsstr where
  "t_binary = [0x4E8C, 0x8FDB, 0x5236]"

definition t_ttl_label :: jsstr where
  "t_ttl_label = [0x6709, 0x6548, 0x671F, 0xFF08, 0x5206, 0x949F, 0xFF09]"

definition t_ttl_sub :: jsstr where
  "t_ttl_sub = [0x9ED8, 0x8BA4, 0x20, 0x33, 0x30, 0x20, 0x5206, 0x949F, 0xFF0C, 0x4F7F, 0x7528, 0x4E00,
     0x6B21, 0x540E, 0x7ACB, 0x5373, 0x5931, 0x6548, 0x3002]"

definition t_add_1 :: jsstr where
  "t_add_1 = [0x5728, 0x76EE, 0x6807, 0x673A, 0x5668, 0x8FD0, 0x884C, 0x547D, 0x4EE4, 0x3002]"

definition t_add_2 :: jsstr where
  "t_add_2 = [0x6253, 0x5F00, 0x7EC8, 0x7AEF, 0x4E2D, 0x663E, 0x793A, 0x7684, 0x914D, 0x5BF9, 0x20,
     0x55, 0x52, 0x4C, 0x3002]"

definition t_add_3 :: jsstr where
  "t_add_3 = [0x786E, 0x8BA4, 0x8BBE, 0x5907, 0x4FE1, 0x606F, 0x5E76, 0x6279, 0x51C6, 0xFF0C, 0x41,
     0x67, 0x65, 0x6E, 0x74, 0x20, 0x4F1A, 0x81EA, 0x52A8, 0x4FDD, 0x5B58, 0x8EAB, 0x4EFD,
     0x5E76, 0x5F00, 0x59CB, 0x8FD0, 0x884C, 0x3002]"

definition t_use_word :: jsstr where
  "t_use_word = [0x4F7F, 0x7528, 0x20]"

definition t_see_pairing :: jsstr where
  "t_see_pairing = [0x20, 0x67E5, 0x770B, 0x914D, 0x5BF9, 0x20, 0x55, 0x52, 0x4C, 0x3002]"

definition t_command_ready :: jsstr where
  "t_command_ready = [0x4E00, 0x6B21, 0x6027, 0x90E8, 0x7F72, 0x547D, 0x4EE4, 0x5DF2, 0x751F, 0x6210]"

definition t_once_a :: jsstr where
  "t_once_a = [0x4EC5, 0x53EF, 0x4F7F, 0x7528, 0x4E00, 0x6B21, 0xFF0C, 0x5C06, 0x5728, 0x20]"

definition t_once_b :: jsstr where
  "t_once_b = [0x20, 0x5206, 0x949F, 0x540E, 0x5931, 0x6548, 0x3002]"

definition t_token_a :: jsstr where
  "t_token_a = [0x4E00, 0x6B21, 0x6027, 0x5BC6, 0x94A5, 0x4F1A, 0x51FA, 0x73B0, 0x5728, 0x547D, 0x4EE4,
     0x4E2D, 0x3002, 0x6B63, 0x5F0F, 0x81EA, 0x52A8, 0x5316, 0x73AF, 0x5883, 0x4E5F, 0x53EF,
     0x901A, 0x8FC7, 0x20]"

definition t_token_b :: jsstr where
  "t_token_b = [0x20, 0x6216, 0x20]"

definition t_token_c :: jsstr where
  "t_token_c = [0x20, 0x4F20, 0x5165, 0xFF0C, 0x907F, 0x514D, 0x8FDB, 0x5165, 0x20, 0x53, 0x68, 0x65,
     0x6C, 0x6C, 0x20, 0x5386, 0x53F2, 0x3002]"

definition t_regenerate :: jsstr where
  "t_regenerate = [0x91CD, 0x65B0, 0x751F, 0x6210]"

definition t_add_agent :: jsstr where
  "t_add_agent = [0x6DFB, 0x52A0, 0x20, 0x41, 0x67, 0x65, 0x6E, 0x74]"

definition t_connect_agent :: jsstr where
  "t_connect_agent = [0x8FDE, 0x63A5, 0x20, 0x41, 0x67, 0x65, 0x6E, 0x74]"

definition t_connect_agent_sub :: jsstr where
  "t_connect_agent_sub = [0x666E, 0x901A, 0x90E8, 0x7F72, 0x901A, 0x8FC7, 0x6D4F, 0x89C8, 0x5668, 0x6279, 0x51C6,
     0xFF1B, 0x65E0, 0x4EBA, 0x503C, 0x5B88, 0x90E8, 0x7F72, 0x4F7F, 0x7528, 0x4E00, 0x6B21,
     0x6027, 0x9884, 0x6388, 0x6743, 0x5BC6, 0x94A5, 0x3002]"

definition t_from_agent :: jsstr where
  "t_from_agent = [0x4ECE, 0x20, 0x41, 0x67, 0x65, 0x6E, 0x74, 0x20, 0x53D1, 0x8D77, 0x20]"

definition t_recommended :: jsstr where
  "t_recommended = [0x63A8, 0x8350]"

definition t_from_agent_sub :: jsstr where
  "t_from_agent_sub = [0x8FD0, 0x884C, 0x65E0, 0x79D8, 0x5BC6, 0x547D, 0x4EE4, 0xFF0C, 0x518D, 0x901A, 0x8FC7,
     0x20, 0x57, 0x65, 0x62, 0x20, 0x786E, 0x8BA4, 0x8BBE, 0x5907, 0x4FE1, 0x606F, 0x3002]"

definition t_auto_deploy :: jsstr where
  "t_auto_deploy = [0x81EA, 0x52A8, 0x5316, 0x90E8, 0x7F72]"

definition t_auto_deploy_sub :: jsstr where
  "t_auto_deploy_sub = [0x9884, 0x5148, 0x6279, 0x51C6, 0x20, 0x41, 0x67, 0x65, 0x6E, 0x74, 0xFF0C, 0x9002,
     0x5408, 0x811A, 0x672C, 0x548C, 0x65E0, 0x4EBA, 0x503C, 0x5B88, 0x5B89, 0x88C5, 0x3002]"

definition t_close_word :: jsstr where
  "t_close_word = [0x5173, 0x95ED]"

definition t_generate_command :: jsstr where
  "t_generate_command = [0x751F, 0x6210, 0x90E8, 0x7F72, 0x547D, 0x4EE4]"


subsection \<open>The forms\<close>

definition continents :: "jsstr list" where
  "continents = [lit ''Africa'', lit ''Asia'', lit ''Europe'', lit ''North America'', lit ''Oceania'', lit ''South America'']"

definition agent_errors :: "'a ApproveAgentEnrollmentInput_scheme \<Rightarrow> field_errors" where
  "agent_errors v =
     field ''name'' [z_min_length 1 (Some t_node_name_required) (js_trim (ap_name v)), z_max_length 128 None (js_trim (ap_name v))]
   @ field ''region'' [z_min_length 1 (Some t_region_required) (js_trim (ap_region v)), z_max_length 128 None (js_trim (ap_region v))]
   @ field ''continent'' [z_min_length 1 (Some t_continent_required) (ap_continent v)]
   @ field ''concurrency'' (z_int (ap_concurrency v) @ z_range (of_int 1) (of_int 4096) (ap_concurrency v))"

definition agent_trim :: "'a ApproveAgentEnrollmentInput_scheme \<Rightarrow> 'a ApproveAgentEnrollmentInput_scheme" where
  "agent_trim v = v\<lparr>ap_name := js_trim (ap_name v), ap_region := js_trim (ap_region v)\<rparr>"

definition approvalSchema :: "ApproveAgentEnrollmentInput \<Rightarrow> field_errors + ApproveAgentEnrollmentInput" where
  "approvalSchema v = z_result (agent_errors v) (agent_trim v)"

definition preauthorizedSchema ::
  "CreatePreauthorizedEnrollmentInput \<Rightarrow> field_errors + CreatePreauthorizedEnrollmentInput" where
  "preauthorizedSchema v =
     z_result (agent_errors v @ field ''ttl_minutes'' (z_int (ap_ttl_minutes v) @ z_range (of_int 5) (of_int 1440) (ap_ttl_minutes v)))
       (agent_trim v)"

subsection \<open>The server's validation\<close>

definition textLengthBetween :: "jsstr \<Rightarrow> nat \<Rightarrow> nat \<Rightarrow> bool" where
  "textLengthBetween value minimum maximum \<longleftrightarrow>
     minimum \<le> length (scalars value) \<and> length (scalars value) \<le> maximum"

definition validApprovedAgent :: "jsstr \<Rightarrow> jsstr \<Rightarrow> jsstr \<Rightarrow> int \<Rightarrow> bool" where
  "validApprovedAgent name region continent concurrency \<longleftrightarrow>
     textLengthBetween name 1 128 \<and> textLengthBetween region 1 128 \<and> textLengthBetween continent 1 64
     \<and> 1 \<le> concurrency \<and> concurrency \<le> 4096"

text \<open>The fields the server keeps of a request, or nothing when it answers that the request is invalid.\<close>

definition decodeEnrollmentApproval ::
  "'a ApproveAgentEnrollmentInput_scheme \<Rightarrow> (jsstr \<times> jsstr \<times> jsstr \<times> int) option" where
  "decodeEnrollmentApproval v =
     (case go_int (ap_concurrency v) of
        None \<Rightarrow> None
      | Some c \<Rightarrow>
        (let name = TrimSpace (ap_name v); region = TrimSpace (ap_region v); continent = TrimSpace (ap_continent v)
         in if validApprovedAgent name region continent c then Some (name, region, continent, c) else None))"

definition preauthorized_accepted ::
  "CreatePreauthorizedEnrollmentInput \<Rightarrow> (jsstr \<times> jsstr \<times> jsstr \<times> int \<times> int) option" where
  "preauthorized_accepted v =
     (case (decodeEnrollmentApproval v, go_int (ap_ttl_minutes v)) of
        (Some (n, r, c, k), Some ttl) \<Rightarrow>
          (let t = (if ttl = 0 then 30 else ttl) in if t < 5 \<or> 1440 < t then None else Some (n, r, c, k, t))
      | _ \<Rightarrow> None)"

lemma scalars_length: "length (scalars s) \<le> length s" "s \<noteq> [] \<Longrightarrow> scalars s \<noteq> []"
proof -
  have "length (code_points s) \<le> length s \<and> (s \<noteq> [] \<longrightarrow> code_points s \<noteq> [])"
    by (induction s rule: code_points.induct) auto
  then show "length (scalars s) \<le> length s" "s \<noteq> [] \<Longrightarrow> scalars s \<noteq> []"
    by (simp_all add: scalars_def)
qed

lemma TrimSpace_trimmed:
  assumes "js_trim s = s" "133 \<notin> set s"
  shows "TrimSpace s = s"
proof (cases "s = []")
  case False
  then have "\<not> is_ws (hd s)" "\<not> is_ws (last s)" using js_trim_ends [of s] assms(1) by simp_all
  moreover have "hd s \<noteq> 133" "last s \<noteq> 133" using assms(2) False hd_in_set last_in_set by metis+
  ultimately have "\<not> is_go_space (hd s)" "\<not> is_go_space (hd (rev s))" using False
    by (simp_all add: is_go_space_def hd_rev)
  then have "dropWhile is_go_space s = s" "dropWhile is_go_space (rev s) = rev s"
    using False by (auto intro!: dropWhile_hd_no)
  then show ?thesis by (simp add: TrimSpace_def)
qed (simp add: TrimSpace_def)

lemma text_accepted:
  assumes "t = js_trim s" "t \<noteq> []" "length t \<le> m"
  shows "textLengthBetween t 1 m"
proof -
  have "scalars t \<noteq> []" "length (scalars t) \<le> length t" using scalars_length assms(2) by auto
  then show ?thesis using assms(3) by (cases "scalars t") (simp_all add: textLengthBetween_def)
qed

lemma continent_accepted:
  "c \<in> set continents \<Longrightarrow> TrimSpace c = c \<and> textLengthBetween c 1 64"
  by (auto simp: continents_def TrimSpace_def is_go_space_def is_ws_def textLengthBetween_def scalars_ascii lit_def)

lemma agent_form_accepted:
  fixes v :: "'a ApproveAgentEnrollmentInput_scheme"
  assumes "agent_errors v = []" "ap_continent v \<in> set continents" "133 \<notin> set (ap_name v)" "133 \<notin> set (ap_region v)"
  shows "\<exists>k. ap_concurrency v = Fin (of_int k)
    \<and> decodeEnrollmentApproval (agent_trim v) = Some (js_trim (ap_name v), js_trim (ap_region v), ap_continent v, k)"
proof -
  have sub: "set (js_trim s) \<subseteq> set s" for s
    by (auto simp: js_trim_def dest!: set_dropWhileD)
  obtain k where k: "ap_concurrency v = Fin (of_int k)" "1 \<le> k" "k \<le> 4096"
    and n: "js_trim (ap_name v) \<noteq> []" "length (js_trim (ap_name v)) \<le> 128"
    and r: "js_trim (ap_region v) \<noteq> []" "length (js_trim (ap_region v)) \<le> 128"
    using assms(1) unfolding agent_errors_def append_is_Nil_conv field_nil z_int_range
    by (auto simp: z_min_length_def z_max_length_def Suc_le_eq)
  have "TrimSpace (js_trim (ap_name v)) = js_trim (ap_name v)" "TrimSpace (js_trim (ap_region v)) = js_trim (ap_region v)"
    using sub [of "ap_name v"] sub [of "ap_region v"] assms(3,4) by (auto intro!: TrimSpace_trimmed)
  with k n r continent_accepted [OF assms(2)] text_accepted [OF refl, of "ap_name v" 128] text_accepted [OF refl, of "ap_region v" 128]
  show ?thesis by (simp add: decodeEnrollmentApproval_def validApprovedAgent_def agent_trim_def Let_def)
qed

text \<open>C24. What the two agent forms accept the server accepts, and it keeps exactly the trimmed name and region, the chosen continent and the concurrency (and, for a pre-authorisation, the lifetime); the server's check never answers that such a request is invalid. The text may not contain the one control character the server trims and the browser does not.\<close>

theorem enrollment_form_server_accepts:
  assumes "133 \<notin> set (ap_name v)" "133 \<notin> set (ap_region v)" "ap_continent v \<in> set continents"
    and "133 \<notin> set (ap_name p)" "133 \<notin> set (ap_region p)" "ap_continent p \<in> set continents"
  shows "(approvalSchema v = Inr w \<longrightarrow> (\<exists>k. ap_concurrency v = Fin (of_int k)
      \<and> decodeEnrollmentApproval w = Some (js_trim (ap_name v), js_trim (ap_region v), ap_continent v, k)))
    \<and> (preauthorizedSchema p = Inr q \<longrightarrow> (\<exists>k t. ap_concurrency p = Fin (of_int k) \<and> ap_ttl_minutes p = Fin (of_int t)
      \<and> preauthorized_accepted q = Some (js_trim (ap_name p), js_trim (ap_region p), ap_continent p, k, t)))"
proof (intro conjI impI)
  assume "approvalSchema v = Inr w"
  then show "\<exists>k. ap_concurrency v = Fin (of_int k)
      \<and> decodeEnrollmentApproval w = Some (js_trim (ap_name v), js_trim (ap_region v), ap_continent v, k)"
    using agent_form_accepted [of v] assms(1-3) by (simp add: approvalSchema_def)
next
  assume "preauthorizedSchema p = Inr q"
  then have e: "agent_errors p = []" and q: "q = agent_trim p"
    and l: "list_all fst (z_int (ap_ttl_minutes p) @ z_range (of_int 5) (of_int 1440) (ap_ttl_minutes p))"
    unfolding preauthorizedSchema_def z_result_Inr append_is_Nil_conv field_nil by auto
  from l obtain t where t: "ap_ttl_minutes p = Fin (of_int t)" "5 \<le> t" "t \<le> 1440"
    unfolding z_int_range by auto
  have "ap_ttl_minutes q = ap_ttl_minutes p" by (simp add: q agent_trim_def)
  with t agent_form_accepted [OF e assms(6,4,5)] q
  show "\<exists>k t. ap_concurrency p = Fin (of_int k) \<and> ap_ttl_minutes p = Fin (of_int t)
      \<and> preauthorized_accepted q = Some (js_trim (ap_name p), js_trim (ap_region p), ap_continent p, k, t)"
    by (auto simp: preauthorized_accepted_def Let_def)
qed

definition sample_agent :: CreatePreauthorizedEnrollmentInput where
  "sample_agent = ApproveAgentEnrollmentInput.extend
     \<lparr>ap_name = lit '' edge'', ap_region = lit ''HK'', ap_continent = lit ''Asia'', ap_concurrency = Fin (of_int 64)\<rparr>
     (CreatePreauthorizedEnrollmentInput.fields (Fin (of_int 30)))"

theorem enrollment_form_server_accepts_witness:
  "\<exists>k t. preauthorized_accepted (agent_trim sample_agent) = Some (lit ''edge'', lit ''HK'', lit ''Asia'', k, t)"
proof -
  have a: "ap_name sample_agent = lit '' edge''" "ap_region sample_agent = lit ''HK''" "ap_continent sample_agent = lit ''Asia''"
    "ap_concurrency sample_agent = Fin (of_int 64)" "ap_ttl_minutes sample_agent = Fin (of_int 30)"
    by (simp_all add: sample_agent_def ApproveAgentEnrollmentInput.defs CreatePreauthorizedEnrollmentInput.defs)
  have t: "js_trim (lit '' edge'') = lit ''edge''" "js_trim (lit ''HK'') = lit ''HK''"
    by (simp_all add: js_trim_def lit_def is_ws_def)
  have "agent_errors sample_agent = []"
    unfolding agent_errors_def append_is_Nil_conv field_nil z_int_range a t by (simp add: z_defs) (simp add: lit_def)
  moreover have "list_all fst (z_int (ap_ttl_minutes sample_agent) @ z_range (of_int 5) (of_int 1440) (ap_ttl_minutes sample_agent))"
    unfolding z_int_range a by simp
  ultimately have p: "preauthorizedSchema sample_agent = Inr (agent_trim sample_agent)"
    unfolding preauthorizedSchema_def z_result_Inr append_is_Nil_conv field_nil by simp
  have "133 \<notin> set (lit '' edge'')" "133 \<notin> set (lit ''HK'')" "lit ''Asia'' \<in> set continents"
    by (simp_all add: lit_def continents_def)
  with enrollment_form_server_accepts [of "ApproveAgentEnrollmentInput.truncate sample_agent" sample_agent undefined "agent_trim sample_agent"] p
  show ?thesis by (auto simp: a t ApproveAgentEnrollmentInput.defs)
qed

subsection \<open>The approval page\<close>

datatype agent_field = AfName jsstr | AfRegion jsstr | AfContinent jsstr | AfConcurrency jsnum | AfTtl jsnum

fun agent_field_set :: "agent_field \<Rightarrow> 'a ApproveAgentEnrollmentInput_scheme \<Rightarrow> 'a ApproveAgentEnrollmentInput_scheme" where
  "agent_field_set (AfName s) v = v\<lparr>ap_name := s\<rparr>"
| "agent_field_set (AfRegion s) v = v\<lparr>ap_region := s\<rparr>"
| "agent_field_set (AfContinent s) v = v\<lparr>ap_continent := s\<rparr>"
| "agent_field_set (AfConcurrency n) v = v\<lparr>ap_concurrency := n\<rparr>"
| "agent_field_set (AfTtl n) v = v"

datatype approval_action =
    AvQuery "AgentEnrollment query_state" | AvField agent_field | AvApprove | AvReject | AvApproveSettled | AvRejectSettled
  | AvRefetch | AvFollow jsstr

record approval_state =
  av_enrollment :: "AgentEnrollment query_state"
  av_values :: ApproveAgentEnrollmentInput
  av_errors :: field_errors
  av_approving :: bool
  av_rejecting :: bool

definition approval_locator :: "jsstr option \<Rightarrow> jsstr option \<Rightarrow> EnrollmentLocator" where
  "approval_locator pairingToken enrollmentID =
     (if truthy enrollmentID then LocId (opt_str enrollmentID) else LocToken (nullish pairingToken []))"

definition int_or :: "int \<Rightarrow> int \<Rightarrow> int" where
  "int_or a b = (if a \<noteq> 0 then a else b)"

definition approval_defaults :: "AgentEnrollment \<Rightarrow> ApproveAgentEnrollmentInput" where
  "approval_defaults e =
     \<lparr>ap_name = str_or (opt_str (en_name e)) (en_requested_name e), ap_region = opt_str (en_region e),
      ap_continent = str_or (opt_str (en_continent e)) (lit ''Asia''),
      ap_concurrency = Fin (of_int (int_or (int_or (nullish (en_concurrency e) 0) (en_requested_concurrency e)) 64))\<rparr>"

definition approval_init :: approval_state where
  "approval_init = \<lparr>av_enrollment = QPending,
     av_values = \<lparr>ap_name = [], ap_region = [], ap_continent = lit ''Asia'', ap_concurrency = Fin 64\<rparr>,
     av_errors = [], av_approving = False, av_rejecting = False\<rparr>"

text \<open>A changed result of the query resets the form; approving sends the parsed values.\<close>

fun approval_step :: "EnrollmentLocator \<Rightarrow> approval_action \<Rightarrow> approval_state \<Rightarrow> approval_state \<times> (js_error + api_call) list" where
  "approval_step l (AvQuery q) s =
     (case q_data q of
        Some e \<Rightarrow> if q_data (av_enrollment s) = Some e then (s\<lparr>av_enrollment := q\<rparr>, [])
          else (s\<lparr>av_enrollment := q, av_values := approval_defaults e, av_errors := []\<rparr>, [])
      | None \<Rightarrow> (s\<lparr>av_enrollment := q\<rparr>, []))"
| "approval_step l (AvField f) s = (s\<lparr>av_values := agent_field_set f (av_values s)\<rparr>, [])"
| "approval_step l AvApprove s =
     (case approvalSchema (av_values s) of
        Inl e \<Rightarrow> (s\<lparr>av_errors := e\<rparr>, [])
      | Inr v \<Rightarrow> (s\<lparr>av_errors := [], av_approving := True\<rparr>, [approveAgentEnrollment l v]))"
| "approval_step l AvReject s = (s\<lparr>av_rejecting := True\<rparr>, [rejectAgentEnrollment l])"
| "approval_step l AvApproveSettled s = (s\<lparr>av_approving := False\<rparr>, [])"
| "approval_step l AvRejectSettled s = (s\<lparr>av_rejecting := False\<rparr>, [])"
| "approval_step l AvRefetch s = (s, [getAgentEnrollment l])"
| "approval_step l (AvFollow p) s = (s, [])"

definition DeviceDetails :: "intl \<Rightarrow> clock \<Rightarrow> AgentEnrollment \<Rightarrow> 'e node" where
  "DeviceDetails I c e = el ''div''
     [el ''div'' [Txt t_request_device],
      el ''dl'' (map (\<lambda>(label, value). el ''div'' [el ''dt'' [Txt label], el ''dd'' [Txt value]])
        [(t_requested_name, str_or (en_requested_name e) t_not_given), (t_os_label, str_or (en_os e) t_not_given),
         (t_arch_label, str_or (en_architecture e) t_not_given), (t_agent_version, str_or (en_version e) t_not_given),
         (t_requested_concurrency, show_int (en_requested_concurrency e))]),
      el ''p'' [Txt t_pairing_expires_a, LiveRelativeTime I c (Some (en_expires_at e)), Txt t_pairing_expires_b]]"

definition continent_select :: "jsstr \<Rightarrow> (jsstr \<Rightarrow> 'e) \<Rightarrow> field_errors \<Rightarrow> 'e node" where
  "continent_select value change errors = el ''FormItem''
     [el ''FormLabel'' [Txt t_continent], select_items value (map (\<lambda>c. (c, change c, c)) continents), field_message errors ''continent'']"

definition notice :: "jsstr \<Rightarrow> 'e node list \<Rightarrow> 'e node" where
  "notice title body = el ''div'' (el ''h2'' [Txt title] # body)"

definition approval_content :: "intl \<Rightarrow> clock \<Rightarrow> bool \<Rightarrow> approval_state \<Rightarrow> AgentEnrollment \<Rightarrow> approval_action node" where
  "approval_content I c canManage s item =
     (if en_status item = EnrollApproved then
        notice t_approved_waiting [el ''p'' [Txt t_keep_running]]
      else if en_status item = EnrollClaimed then
        notice t_agent_connected [el ''p'' [Txt (opt_str (en_name item)), Txt t_got_identity],
          button False (AvFollow (lit ''/agents'')) [Txt t_view_agents]]
      else if en_status item = EnrollRejected then
        notice t_request_rejected [el ''p'' [Txt t_rerun_connect]]
      else if en_status item = EnrollExpired \<or> en_status item = EnrollRevoked then
        notice t_pairing_invalid [el ''p'' [Txt t_rerun_pairing]]
      else if \<not> canManage then
        el ''div'' [DeviceDetails I c item, el ''div'' [Txt t_only_view]]
      else el ''div''
        [DeviceDetails I c item,
         text_field ''name'' t_node_name (ap_name (av_values s)) (AvField \<circ> AfName) (av_errors s),
         text_field ''region'' t_area (ap_region (av_values s)) (AvField \<circ> AfRegion) (av_errors s),
         continent_select (ap_continent (av_values s)) (AvField \<circ> AfContinent) (av_errors s),
         number_field ''concurrency'' t_max_concurrency (ap_concurrency (av_values s)) (AvField \<circ> AfConcurrency) [] (av_errors s)])"

definition EnrollmentApprovalPage :: "intl \<Rightarrow> clock \<Rightarrow> bool \<Rightarrow> approval_state \<Rightarrow> approval_action node" where
  "EnrollmentApprovalPage I c canManage s =
     (case av_enrollment s of
        QPending \<Rightarrow> El ''main'' [Attr ''aria-label'' t_loading_pairing] []
      | QError e \<Rightarrow> el ''main'' [ErrorState (Some t_pairing_failed) (Some e) (Some AvRefetch)]
      | QData item \<Rightarrow> el ''main''
          [el ''CardTitle'' [Txt t_approve_title],
           el ''CardDescription'' [Txt t_approve_sub],
           approval_content I c canManage s item,
           show_if (en_status item = EnrollPending \<and> canManage) (let busy = (av_approving s \<or> av_rejecting s) in
             el ''CardFooter'' [button busy AvReject [Txt t_reject], button busy AvApprove [Txt t_approve_connect]])])"

fun approval_managing :: "approval_action \<Rightarrow> bool" where
  "approval_managing AvApprove = True"
| "approval_managing AvReject = True"
| "approval_managing (AvField _) = True"
| "approval_managing _ = False"


definition sample_enrollment :: AgentEnrollment where
  "sample_enrollment = \<lparr>en_id = lit ''e1'', en_mode = DeviceMode, en_status = EnrollPending, en_requested_name = lit ''edge'',
     en_os = [], en_architecture = [], en_version = [], en_requested_concurrency = 0, en_name = None, en_region = None,
     en_continent = None, en_concurrency = None, en_agent_id = None, en_expires_at = [], en_approved_at = None,
     en_claimed_at = None, en_created_at = [], en_updated_at = []\<rparr>"


text \<open>A pending request is shown with the name the agent asked for and a usable concurrency.\<close>

lemma approval_defaults_pending:
  "en_name e = None \<Longrightarrow> en_concurrency e = None \<Longrightarrow> en_requested_concurrency e = n \<Longrightarrow> 1 \<le> n \<Longrightarrow>
   ap_name (approval_defaults e) = en_requested_name e \<and> ap_concurrency (approval_defaults e) = Fin (of_int n)"
  by (simp add: approval_defaults_def int_or_def str_or_def)

subsection \<open>Adding an agent\<close>

datatype add_mode = DeviceAdd | PreauthorizedAdd

datatype add_action =
    AaOpenChange bool | AaClose | AaMode add_mode | AaField agent_field | AaSubmit
  | AaSettled "js_error + CreatePreauthorizedEnrollmentResponse" | AaRegenerate | AaCopy jsstr

record add_agent =
  aa_open :: bool
  aa_mode :: add_mode
  aa_generated :: "CreatePreauthorizedEnrollmentResponse option"
  aa_values :: CreatePreauthorizedEnrollmentInput
  aa_errors :: field_errors
  aa_pending :: bool

definition add_defaults :: CreatePreauthorizedEnrollmentInput where
  "add_defaults = ApproveAgentEnrollmentInput.extend
     \<lparr>ap_name = [], ap_region = [], ap_continent = lit ''Asia'', ap_concurrency = Fin 64\<rparr>
     (CreatePreauthorizedEnrollmentInput.fields (Fin 30))"

definition add_init :: add_agent where
  "add_init = \<lparr>aa_open = False, aa_mode = DeviceAdd, aa_generated = None, aa_values = add_defaults, aa_errors = [], aa_pending = False\<rparr>"

definition handleOpenChange :: "bool \<Rightarrow> add_agent \<Rightarrow> add_agent" where
  "handleOpenChange nextOpen s =
     (if nextOpen then s\<lparr>aa_open := True\<rparr>
      else s\<lparr>aa_open := False, aa_mode := DeviceAdd, aa_generated := None, aa_values := add_defaults, aa_errors := []\<rparr>)"

text \<open>The dialog's own way to close goes through \<open>handleOpenChange\<close>; its close button only closes.\<close>

fun add_step :: "add_action \<Rightarrow> add_agent \<Rightarrow> add_agent \<times> api_call list \<times> effect list" where
  "add_step (AaOpenChange b) s = (handleOpenChange b s, [], [])"
| "add_step AaClose s = (s\<lparr>aa_open := False\<rparr>, [], [])"
| "add_step (AaMode m) s = (s\<lparr>aa_mode := m, aa_generated := None\<rparr>, [], [])"
| "add_step (AaField (AfTtl n)) s = (s\<lparr>aa_values := (aa_values s)\<lparr>ap_ttl_minutes := n\<rparr>\<rparr>, [], [])"
| "add_step (AaField f) s = (s\<lparr>aa_values := agent_field_set f (aa_values s)\<rparr>, [], [])"
| "add_step AaSubmit s =
     (case preauthorizedSchema (aa_values s) of
        Inl e \<Rightarrow> (s\<lparr>aa_errors := e\<rparr>, [], [])
      | Inr v \<Rightarrow> (s\<lparr>aa_errors := [], aa_pending := True\<rparr>, [createPreauthorizedEnrollment v], []))"
| "add_step (AaSettled (Inl e)) s = (s\<lparr>aa_pending := False\<rparr>, [], [])"
| "add_step (AaSettled (Inr r)) s = (s\<lparr>aa_pending := False, aa_generated := Some r\<rparr>, [], [])"
| "add_step AaRegenerate s = (s\<lparr>aa_generated := None\<rparr>, [], [])"
| "add_step (AaCopy t) s = (s, [], [ClipboardWrite t, ToastSuccess t_command_copied None])"

definition agent_target :: "AgentEnrollmentConfig option \<Rightarrow> jsstr \<Rightarrow> jsstr \<times> jsstr" where
  "agent_target config origin =
     (str_or (case config of None \<Rightarrow> [] | Some c \<Rightarrow> ec_public_url c) origin,
      str_or (case config of None \<Rightarrow> [] | Some c \<Rightarrow> ec_agent_image c) (lit ''ghcr.io/3011/cfscan-agent:latest''))"

text \<open>A line of a shell command continued on the next.\<close>

definition continued :: "jsstr list \<Rightarrow> jsstr" where
  "continued lines = js_join (lit '' '' @ [92, 10] @ lit ''  '') lines"

definition docker_command :: "jsstr \<Rightarrow> jsstr \<Rightarrow> jsstr" where
  "docker_command img rest = continued
     [lit ''docker run -d'', lit ''--name cfscan-agent'', lit ''--restart unless-stopped'',
      lit ''-e CFSCAN_AGENT_IDENTITY_FILE=/var/lib/cfscan-agent/identity.json'',
      lit ''-v cfscan-agent-data:/var/lib/cfscan-agent'', img @ lit '' '' @ rest]"

definition deviceCommands :: "jsstr \<Rightarrow> jsstr \<Rightarrow> jsstr \<times> jsstr" where
  "deviceCommands agentURL img =
     (let rest = lit ''connect --server '' @ agentURL in (lit ''cfscan-agent '' @ rest, docker_command img rest))"

definition joinCommands :: "jsstr \<Rightarrow> jsstr \<Rightarrow> CreatePreauthorizedEnrollmentResponse \<Rightarrow> jsstr \<times> jsstr" where
  "joinCommands agentURL img r =
     (let rest = lit ''join --server '' @ agentURL @ lit '' --token '' @ cr_pairing_token r
      in (lit ''cfscan-agent '' @ rest, docker_command img rest))"

definition CommandBlock :: "jsstr \<Rightarrow> add_action node" where
  "CommandBlock value = el ''div'' [el ''code'' [Txt value],
     El ''Button'' [Attr ''aria-label'' t_copy_command, On ''click'' (AaCopy value)] []]"

definition command_tabs :: "jsstr \<times> jsstr \<Rightarrow> add_action node" where
  "command_tabs commands = el ''Tabs''
     [el ''TabsTrigger'' [Txt t_binary], el ''TabsTrigger'' [Txt (lit ''Docker'')],
      CommandBlock (fst commands), CommandBlock (snd commands)]"

definition add_form :: "add_agent \<Rightarrow> add_action node" where
  "add_form s = (let v = aa_values s; es = aa_errors s in el ''form''
     [text_field ''name'' t_node_name (ap_name v) (AaField \<circ> AfName) es,
      text_field ''region'' t_area (ap_region v) (AaField \<circ> AfRegion) es,
      continent_select (ap_continent v) (AaField \<circ> AfContinent) es,
      number_field ''concurrency'' t_max_concurrency (ap_concurrency v) (AaField \<circ> AfConcurrency) [] es,
      number_field ''ttl_minutes'' t_ttl_label (ap_ttl_minutes v) (AaField \<circ> AfTtl) t_ttl_sub es])"

definition add_content :: "jsstr \<Rightarrow> jsstr \<Rightarrow> add_agent \<Rightarrow> add_action node" where
  "add_content agentURL img s =
     (if aa_mode s = DeviceAdd then el ''div''
        [el ''li'' [Txt t_add_1], el ''li'' [Txt t_add_2],
         el ''li'' [Txt t_add_3],
         command_tabs (deviceCommands agentURL img),
         el ''p'' [Txt t_use_word, Txt (lit ''docker logs -f cfscan-agent''), Txt t_see_pairing]]
      else case aa_generated s of
        Some r \<Rightarrow> el ''div''
          [el ''p'' [Txt t_command_ready],
           el ''p'' [Txt t_once_a, Txt (show_int (math_round (of_int (cr_expires_in r) / 60))), Txt t_once_b],
           command_tabs (joinCommands agentURL img r),
           el ''p'' [Txt t_token_a, Txt (lit ''--token-file''), Txt t_token_b,
             Txt (lit ''--token-stdin''), Txt t_token_c],
           button False AaRegenerate [Txt t_regenerate]]
      | None \<Rightarrow> add_form s)"

definition AddAgentDialog :: "jsstr \<Rightarrow> AgentEnrollmentConfig option \<Rightarrow> add_agent \<Rightarrow> add_action node" where
  "AddAgentDialog origin config s =
     (let (agentURL, img) = agent_target config origin in Frag
       [button False (AaOpenChange True) [Txt t_add_agent],
        show_if (aa_open s) (El ''Dialog'' [On ''openChange'' (AaOpenChange False)]
         [el ''DialogTitle'' [Txt t_connect_agent],
          el ''DialogDescription'' [Txt t_connect_agent_sub],
          el ''Label'' [El ''RadioGroupItem'' [On ''select'' (AaMode DeviceAdd)] [], Txt t_from_agent, Txt t_recommended,
            Txt t_from_agent_sub],
          el ''Label'' [El ''RadioGroupItem'' [On ''select'' (AaMode PreauthorizedAdd)] [], Txt t_auto_deploy,
            Txt t_auto_deploy_sub],
          add_content agentURL img s,
          button False AaClose [Txt t_close_word],
          show_if (aa_mode s = PreauthorizedAdd \<and> aa_generated s = None)
            (button (aa_pending s) AaSubmit [Txt t_generate_command])])])"

text \<open>Closing the dialog by its own means forgets the token and the form; the close button keeps both,
  so that the next opening shows the old one-time command again.\<close>

lemma dismissed_forgets:
  "aa_generated (fst (add_step (AaOpenChange False) s)) = None \<and> aa_values (fst (add_step (AaOpenChange False) s)) = add_defaults
   \<and> aa_mode (fst (add_step (AaOpenChange False) s)) = DeviceAdd"
  by (simp add: handleOpenChange_def)

lemma close_button_keeps_token:
  assumes "aa_mode s = PreauthorizedAdd" "aa_generated s = Some r"
  defines "s' \<equiv> fst (add_step (AaOpenChange True) (fst (add_step AaClose s)))"
  shows "aa_open s' \<and> add_content u i s' = add_content u i s \<and> aa_generated s' = Some r"
  using assms by (simp add: handleOpenChange_def add_content_def)

end
