(* ===== verification/Pages.thy ===== *)
theory Pages
  imports Agents
begin

text \<open>
  The agents page with its table and pending requests (\<open>features/agents\<close>) and the black-list page
  (\<open>features/blacklist\<close>).
\<close>

subsection \<open>Literals\<close>

definition t_search_agents :: jsstr where
  "t_search_agents = [0x641C, 0x7D22, 0x540D, 0x79F0, 0x3001, 0x5730, 0x533A, 0x6216, 0x5927, 0x6D32]"

definition t_platform_unknown :: jsstr where
  "t_platform_unknown = [0x5E73, 0x53F0, 0x4FE1, 0x606F, 0x672A, 0x77E5]"

definition t_location :: jsstr where
  "t_location = [0x4F4D, 0x7F6E]"

definition t_last_seen :: jsstr where
  "t_last_seen = [0x6700, 0x540E, 0x5FC3, 0x8DF3]"

definition t_version :: jsstr where
  "t_version = [0x7248, 0x672C]"

definition t_platform :: jsstr where
  "t_platform = [0x5E73, 0x53F0]"

definition t_no_agents :: jsstr where
  "t_no_agents = [0x6682, 0x65E0, 0x20, 0x41, 0x67, 0x65, 0x6E, 0x74]"

definition t_no_agents_sub :: jsstr where
  "t_no_agents_sub = [0x5728, 0x5730, 0x533A, 0x670D, 0x52A1, 0x5668, 0x542F, 0x52A8, 0x20, 0x41, 0x67, 0x65,
     0x6E, 0x74, 0x20, 0x5E76, 0x914D, 0x7F6E, 0x4E2D, 0x5FC3, 0x5730, 0x5740, 0x4E0E, 0x20,
     0x54, 0x6F, 0x6B, 0x65, 0x6E, 0x20, 0x540E, 0xFF0C, 0x8282, 0x70B9, 0x4F1A, 0x81EA,
     0x52A8, 0x6CE8, 0x518C, 0x3002]"

definition t_connect_requests :: jsstr where
  "t_connect_requests = [0x8FDE, 0x63A5, 0x8BF7, 0x6C42]"

definition t_connect_requests_sub :: jsstr where
  "t_connect_requests_sub = [0x5BA1, 0x6279, 0x65B0, 0x8BF7, 0x6C42, 0xFF0C, 0x5E76, 0x8DDF, 0x8E2A, 0x5DF2, 0x7ECF,
     0x6279, 0x51C6, 0x4F46, 0x5C1A, 0x672A, 0x5B8C, 0x6210, 0x8FDE, 0x63A5, 0x7684, 0x20,
     0x41, 0x67, 0x65, 0x6E, 0x74, 0x3002]"

definition t_unnamed_agent :: jsstr where
  "t_unnamed_agent = [0x672A, 0x547D, 0x540D, 0x20, 0x41, 0x67, 0x65, 0x6E, 0x74]"

definition t_approved_badge :: jsstr where
  "t_approved_badge = [0x5DF2, 0x6279, 0x51C6, 0xFF0C, 0x7B49, 0x5F85, 0x8FDE, 0x63A5]"

definition t_to_approve :: jsstr where
  "t_to_approve = [0x5F85, 0x5BA1, 0x6279]"

definition t_device_unreported :: jsstr where
  "t_device_unreported = [0x8BBE, 0x5907, 0x4FE1, 0x606F, 0x5F85, 0x4E0A, 0x62A5]"

definition t_expires_at :: jsstr where
  "t_expires_at = [0x5230, 0x671F, 0x65F6, 0x95F4, 0xFF1A]"

definition t_view_state :: jsstr where
  "t_view_state = [0x67E5, 0x770B, 0x72B6, 0x6001]"

definition t_view_approve :: jsstr where
  "t_view_approve = [0x67E5, 0x770B, 0x5E76, 0x6279, 0x51C6]"

definition t_agents_title :: jsstr where
  "t_agents_title = [0x41, 0x67, 0x65, 0x6E, 0x74, 0x20, 0x8282, 0x70B9]"

definition t_agents_sub :: jsstr where
  "t_agents_sub = [0x7BA1, 0x7406, 0x5206, 0x5E03, 0x5F0F, 0x626B, 0x63CF, 0x8282, 0x70B9, 0x3001, 0x8FDE,
     0x63A5, 0x72B6, 0x6001, 0x548C, 0x8FD0, 0x884C, 0x80FD, 0x529B, 0x3002]"

definition t_nodes_total :: jsstr where
  "t_nodes_total = [0x8282, 0x70B9, 0x603B, 0x6570]"

definition t_nodes_total_sub :: jsstr where
  "t_nodes_total_sub = [0x5DF2, 0x5B8C, 0x6210, 0x8FDE, 0x63A5, 0x7684, 0x20, 0x41, 0x67, 0x65, 0x6E, 0x74]"

definition t_nodes_online :: jsstr where
  "t_nodes_online = [0x5728, 0x7EBF, 0x8282, 0x70B9]"

definition t_nodes_online_sub :: jsstr where
  "t_nodes_online_sub = [0x6700, 0x8FD1, 0x20, 0x34, 0x35, 0x20, 0x79D2, 0x5185, 0x6709, 0x5FC3, 0x8DF3]"

definition t_regions_covered :: jsstr where
  "t_regions_covered = [0x8986, 0x76D6, 0x5730, 0x533A]"

definition t_regions_sub :: jsstr where
  "t_regions_sub = [0x6309, 0x5927, 0x6D32, 0x548C, 0x5730, 0x533A, 0x53BB, 0x91CD]"

definition t_online_capacity :: jsstr where
  "t_online_capacity = [0x5728, 0x7EBF, 0x5E76, 0x53D1, 0x5BB9, 0x91CF]"

definition t_another :: jsstr where
  "t_another = [0x53E6, 0x6709, 0x20]"

definition t_requests_running :: jsstr where
  "t_requests_running = [0x20, 0x4E2A, 0x8FDE, 0x63A5, 0x8BF7, 0x6C42, 0x8FDB, 0x884C, 0x4E2D]"

definition t_capacity_sub :: jsstr where
  "t_capacity_sub = [0x6240, 0x6709, 0x5728, 0x7EBF, 0x20, 0x41, 0x67, 0x65, 0x6E, 0x74, 0x20, 0x914D, 0x7F6E,
     0x4E4B, 0x548C]"

definition t_r_timeout :: jsstr where
  "t_r_timeout = [0x8D85, 0x65F6]"

definition t_r_network :: jsstr where
  "t_r_network = [0x7F51, 0x7EDC, 0x9519, 0x8BEF]"

definition t_r_http :: jsstr where
  "t_r_http = [0x48, 0x54, 0x54, 0x50, 0x20, 0x5F02, 0x5E38]"

definition t_r_probe :: jsstr where
  "t_r_probe = [0x63A2, 0x6D4B, 0x5931, 0x8D25]"

definition t_r_loss :: jsstr where
  "t_r_loss = [0x9AD8, 0x4E22, 0x5305]"

definition t_r_latency :: jsstr where
  "t_r_latency = [0x9AD8, 0x5EF6, 0x8FDF]"

definition t_r_unavailable :: jsstr where
  "t_r_unavailable = [0x4E0D, 0x53EF, 0x7528]"

definition t_all_reasons :: jsstr where
  "t_all_reasons = [0x5168, 0x90E8, 0x539F, 0x56E0]"

definition t_reason :: jsstr where
  "t_reason = [0x539F, 0x56E0]"

definition t_failures :: jsstr where
  "t_failures = [0x5931, 0x8D25, 0x6B21, 0x6570]"

definition t_next_recheck :: jsstr where
  "t_next_recheck = [0x4E0B, 0x6B21, 0x590D, 0x68C0]"

definition t_updated_at :: jsstr where
  "t_updated_at = [0x66F4, 0x65B0, 0x65F6, 0x95F4]"

definition t_blacklist_empty :: jsstr where
  "t_blacklist_empty = [0x9ED1, 0x540D, 0x5355, 0x4E3A, 0x7A7A]"

definition t_blacklist_empty_sub :: jsstr where
  "t_blacklist_empty_sub = [0x5F53, 0x524D, 0x6CA1, 0x6709, 0x9700, 0x8981, 0x6682, 0x65F6, 0x8FC7, 0x6EE4, 0x7684,
     0x20, 0x49, 0x50, 0x3002]"

definition t_blacklist_title :: jsstr where
  "t_blacklist_title = [0x9ED1, 0x540D, 0x5355]"

definition t_blacklist_sub :: jsstr where
  "t_blacklist_sub = [0x9ED1, 0x540D, 0x5355, 0x6309, 0x20, 0x41, 0x67, 0x65, 0x6E, 0x74, 0x20, 0x7EF4, 0x5EA6,
     0x9694, 0x79BB, 0x3002, 0x9AD8, 0x5EF6, 0x8FDF, 0x3001, 0x9AD8, 0x4E22, 0x5305, 0x6216,
     0x8D85, 0x65F6, 0x76EE, 0x6807, 0x4F1A, 0x6682, 0x65F6, 0x8FC7, 0x6EE4, 0xFF0C, 0x5230,
     0x671F, 0x540E, 0x7684, 0x81EA, 0x52A8, 0x590D, 0x67E5, 0x8303, 0x56F4, 0x3001, 0x6BD4,
     0x4F8B, 0x548C, 0x9608, 0x503C, 0x7531, 0x201C, 0x8BBE, 0x7F6E, 0x20, 0x2192, 0x20,
     0x81EA, 0x52A8, 0x5316, 0x20, 0x2192, 0x20, 0x9ED1, 0x540D, 0x5355, 0x590D, 0x67E5,
     0x201D, 0x7EDF, 0x4E00, 0x7BA1, 0x7406, 0x3002]"

definition t_recheck_now :: jsstr where
  "t_recheck_now = [0x6309, 0x5F53, 0x524D, 0x7B56, 0x7565, 0x7ACB, 0x5373, 0x590D, 0x67E5]"

definition t_plan_recheck_q :: jsstr where
  "t_plan_recheck_q = [0x5B89, 0x6392, 0x9ED1, 0x540D, 0x5355, 0x590D, 0x68C0, 0xFF1F]"

definition t_plan_recheck_sub :: jsstr where
  "t_plan_recheck_sub = [0x7CFB, 0x7EDF, 0x4F1A, 0x4F7F, 0x7528, 0x201C, 0x8BBE, 0x7F6E, 0x20, 0x2192, 0x20,
     0x81EA, 0x52A8, 0x5316, 0x20, 0x2192, 0x20, 0x9ED1, 0x540D, 0x5355, 0x590D, 0x67E5,
     0x201D, 0x4E2D, 0x4FDD, 0x5B58, 0x7684, 0x5019, 0x9009, 0x8303, 0x56F4, 0x3001, 0x6BD4,
     0x4F8B, 0x3001, 0x4E0A, 0x9650, 0x548C, 0x63A2, 0x6D4B, 0x9608, 0x503C, 0x521B, 0x5EFA,
     0x4EFB, 0x52A1, 0x3002]"

definition t_confirm_plan :: jsstr where
  "t_confirm_plan = [0x786E, 0x8BA4, 0x5B89, 0x6392]"


subsection \<open>Agents\<close>

datatype agents_action =
    AgSearch jsstr | AgStatus jsstr | AgResetFilters | AgRefetch | AgRefetchEnrollments | AgFollow jsstr | AgAdd add_action

record agents_filters =
  af_search :: "jsstr option"
  af_status :: "jsstr option"

definition AgentsToolbar :: "agents_filters \<Rightarrow> agents_action node" where
  "AgentsToolbar f =
     (let status = nullish (af_status f) (lit ''all''); hasFilter = (truthy (af_search f) \<or> status \<noteq> lit ''all'') in
      el ''div''
       [SearchInput (opt_str (af_search f)) t_search_agents AgSearch,
        select_items status [(lit ''all'', AgStatus (lit ''all''), t_every_state), (lit ''online'', AgStatus (lit ''online''), t_st_online),
          (lit ''offline'', AgStatus (lit ''offline''), t_st_offline)],
        DataTableResetButton (\<not> hasFilter) AgResetFilters])"

fun agents_filter_step :: "agents_action \<Rightarrow> agents_filters \<Rightarrow> agents_filters" where
  "agents_filter_step (AgSearch s) f = f\<lparr>af_search := Some s\<rparr>"
| "agents_filter_step (AgStatus v) f = f\<lparr>af_status := (if v = lit ''all'' then None else Some v)\<rparr>"
| "agents_filter_step AgResetFilters f = \<lparr>af_search = Some [], af_status = None\<rparr>"
| "agents_filter_step _ f = f"

text \<open>The toolbar keeps the contract of the toolbars.\<close>

interpretation agents_toolbar: filter_toolbar AgentsToolbar agents_filter_step AgResetFilters AgSearch "\<lambda>f. opt_str (af_search f)" "\<lambda>f. truthy (af_search f) \<or> nullish (af_status f) (lit ''all'') \<noteq> lit ''all''"
  by unfold_locales (auto simp: AgentsToolbar_def truthy_def opt_str_def Let_def split: option.splits)

text \<open>\<open>[a, b].filter(Boolean).join(' ' dot ' ') || otherwise\<close>.\<close>

definition platform_text :: "jsstr \<Rightarrow> jsstr \<Rightarrow> jsstr \<Rightarrow> jsstr" where
  "platform_text os arch otherwise = str_or (js_join t_dot_sep (filter (\<lambda>s. s \<noteq> []) [os, arch])) otherwise"

text \<open>The hidden search column has no cell.\<close>

definition agents_columns :: "intl \<Rightarrow> clock \<Rightarrow> (Agent, agents_action) column list" where
  "agents_columns I c =
     [\<lparr>col_id = ''name'', col_label = t_name_label, col_sortable = True, col_hideable = True,
       col_cell = (\<lambda>a. el ''div'' [el ''p'' [Txt (ag_name a)], el ''p'' [Txt (platform_text (ag_os a) (ag_architecture a) t_platform_unknown)]])\<rparr>,
      \<lparr>col_id = ''continent'', col_label = t_location, col_sortable = True, col_hideable = True,
       col_cell = (\<lambda>a. el ''div'' [el ''Badge'' [Txt (ag_continent a)], el ''span'' [Txt (ag_region a)]])\<rparr>,
      \<lparr>col_id = ''concurrency'', col_label = t_concurrency, col_sortable = True, col_hideable = True,
       col_cell = (\<lambda>a. el ''span'' [Txt (show_int (ag_concurrency a))])\<rparr>,
      \<lparr>col_id = ''status'', col_label = t_state, col_sortable = False, col_hideable = True,
       col_cell = (\<lambda>a. StatusBadge (agentStatus_str (ag_status a)))\<rparr>,
      \<lparr>col_id = ''last_seen_at'', col_label = t_last_seen, col_sortable = True, col_hideable = True,
       col_cell = (\<lambda>a. el ''div'' [el ''p'' [LiveRelativeTime I c (Some (ag_last_seen_at a))],
         el ''p'' [text_or_throw (formatDate I (Some (ag_last_seen_at a)))]])\<rparr>,
      \<lparr>col_id = ''version'', col_label = t_version, col_sortable = True, col_hideable = True,
       col_cell = (\<lambda>a. el ''p'' [Txt (str_or (ag_version a) t_unknown)])\<rparr>]"

definition agent_card :: "intl \<Rightarrow> clock \<Rightarrow> Agent \<Rightarrow> agents_action node" where
  "agent_card I c a = el ''Card''
     [el ''p'' [Txt (ag_name a)], el ''p'' [Txt (ag_continent a), Txt (lit '' / ''), Txt (ag_region a)], StatusBadge (agentStatus_str (ag_status a)),
      el ''p'' [Txt t_concurrency], el ''p'' [Txt (show_int (ag_concurrency a))],
      el ''p'' [Txt t_last_seen], el ''p'' [LiveRelativeTime I c (Some (ag_last_seen_at a))],
      el ''p'' [Txt t_platform], el ''p'' [Txt (platform_text (ag_os a) (ag_architecture a) t_unknown)],
      el ''p'' [Txt t_version], el ''p'' [Txt (str_or (ag_version a) t_unknown)]]"

definition AgentsTable :: "intl \<Rightarrow> clock \<Rightarrow> agents_filters \<Rightarrow> Agent table_view \<Rightarrow> nat \<Rightarrow> agents_action dt_action node" where
  "AgentsTable I c f tv n = DataTable (agents_columns I c) tv n t_no_agents
     t_no_agents_sub (Some (AgentsToolbar f)) (Some (agent_card I c)) 10 None"

definition enrollment_href :: "AgentEnrollment \<Rightarrow> jsstr" where
  "enrollment_href e = lit ''/agents/enrollments/'' @ en_id e"

definition PendingEnrollmentsCard :: "intl \<Rightarrow> clock \<Rightarrow> AgentEnrollment list \<Rightarrow> agents_action node" where
  "PendingEnrollmentsCard I c enrollments =
     (if enrollments = [] then Null else el ''Card''
       (el ''CardTitle'' [Txt t_connect_requests]
        # el ''CardDescription'' [Txt t_connect_requests_sub]
        # el ''span'' [Txt (show_int (int (length enrollments)))]
        # map (\<lambda>e. el ''div''
            [el ''p'' [Txt (str_or (str_or (en_requested_name e) (opt_str (en_name e))) t_unnamed_agent)],
             el ''Badge'' [Txt (if en_status e = EnrollApproved then t_approved_badge else t_to_approve)],
             el ''span'' [Txt (platform_text (en_os e) (en_architecture e) t_device_unreported)],
             show_if (en_version e \<noteq> []) (el ''span'' [Txt (lit ''Agent ''), Txt (en_version e)]),
             el ''span'' [Txt t_expires_at, LiveRelativeTime I c (Some (en_expires_at e))],
             El ''Link'' [Attr ''to'' (enrollment_href e), On ''click'' (AgFollow (enrollment_href e))]
               [Txt (if en_status e = EnrollApproved then t_view_state else t_view_approve)]]) enrollments))"

definition activeEnrollments :: "AgentEnrollment list \<Rightarrow> AgentEnrollment list" where
  "activeEnrollments items = filter (\<lambda>e. en_status e = EnrollPending \<or> en_status e = EnrollApproved) items"

definition online_only :: "Agent list \<Rightarrow> Agent list" where
  "online_only items = filter (\<lambda>a. ag_status a = AgentOnline) items"

definition region_count :: "Agent list \<Rightarrow> nat" where
  "region_count items = length (remdups (map (\<lambda>a. ag_continent a @ lit ''/'' @ ag_region a) items))"

definition online_concurrency :: "Agent list \<Rightarrow> int" where
  "online_concurrency items = foldl (\<lambda>total a. total + ag_concurrency a) 0 (online_only items)"

definition AgentsPage ::
  "intl \<Rightarrow> clock \<Rightarrow> bool \<Rightarrow> Agent list query_state \<Rightarrow> AgentEnrollment list query_state \<Rightarrow> jsstr \<Rightarrow> AgentEnrollmentConfig option
    \<Rightarrow> add_agent \<Rightarrow> agents_filters \<Rightarrow> Agent table_view \<Rightarrow> agents_action dt_action node" where
  "AgentsPage I c canManage agents enrollments origin config add f tv =
     (if q_pending agents \<or> q_pending enrollments then PageSkeleton (Some 6)
      else case (agents, enrollments) of
        (QError e, _) \<Rightarrow> ErrorState None (Some e) (Some (Item AgRefetch))
      | (_, QError e) \<Rightarrow> ErrorState (Some t_pairing_failed) (Some e) (Some (Item AgRefetchEnrollments))
      | _ \<Rightarrow>
        (let items = nullish (q_data agents) []; active = activeEnrollments (nullish (q_data enrollments) []);
             online = online_only items
         in el ''div''
          [PageHeader None t_agents_title t_agents_sub
             (Some (PermissionGate canManage (map_node (Item \<circ> AgAdd) (AddAgentDialog origin config add)) Null)),
           MetricCard t_nodes_total (Txt (show_int (int (length items)))) t_nodes_total_sub Null,
           MetricCard t_nodes_online (Txt (show_int (int (length online)) @ lit '' / '' @ show_int (int (length items)))) t_nodes_online_sub Null,
           MetricCard t_regions_covered (Txt (show_int (int (region_count items)))) t_regions_sub Null,
           MetricCard t_online_capacity (Txt (show_int (online_concurrency items)))
             (if active \<noteq> [] then t_another @ show_int (int (length active)) @ t_requests_running else t_capacity_sub) Null,
           map_node Item (PendingEnrollmentsCard I c active),
           AgentsTable I c f tv (length items)]))"

lemma agents_viewer:
  "acts (\<lambda>a. case a of Item (AgAdd _) \<Rightarrow> False | _ \<Rightarrow> True) (AgentsPage I c False agents enrollments origin config add f tv)"
proof -
  let ?P = "\<lambda>a. case a of Item (AgAdd _) \<Rightarrow> False | _ \<Rightarrow> True" and ?Q = "\<lambda>a. case a of AgAdd _ \<Rightarrow> False | _ \<Rightarrow> True"
  have "acts (\<lambda>a. case a of Item e \<Rightarrow> ?Q e | _ \<Rightarrow> True) (AgentsTable I c f tv n)" for n
    unfolding AgentsTable_def
    by (rule acts_DataTable) (auto simp: agents_columns_def AgentsToolbar_def agent_card_def SearchInput_def
        DataTableResetButton_def Let_def)
  then have "acts ?P (AgentsTable I c f tv n)" for n
    by (rule acts_mono) (auto split: dt_action.splits agents_action.splits)
  moreover have "acts (?P \<circ> Item) (PendingEnrollmentsCard I c es)" for es
    by (simp add: PendingEnrollmentsCard_def list_all_iff)
  ultimately show ?thesis
    by (simp add: AgentsPage_def PageSkeleton_def PageHeader_def MetricCard_def ErrorState_def PermissionGate_def Let_def
        list_all_iff split: query_state.split)
qed

text \<open>The metrics: no region is counted twice, and only online agents count for the capacity.\<close>

lemma region_count_card: "region_count items = card ((\<lambda>a. ag_continent a @ lit ''/'' @ ag_region a) ` set items)"
  by (simp add: region_count_def length_remdups_card_conv)

lemma online_concurrency_sum: "online_concurrency items = sum_list (map ag_concurrency (online_only items))"
proof -
  have "foldl (\<lambda>total a. total + ag_concurrency a) t xs = t + sum_list (map ag_concurrency xs)"
    for t :: int and xs :: "Agent list"
    by (induction xs arbitrary: t) simp_all
  then show ?thesis by (simp add: online_concurrency_def)
qed

subsection \<open>The black list\<close>

text \<open>The names a plain object inherits: looking one up gives a function, which renders as nothing.\<close>

definition inherited_functions :: "string list" where
  "inherited_functions = [''constructor'', ''hasOwnProperty'', ''isPrototypeOf'', ''propertyIsEnumerable'', ''toLocaleString'',
     ''toString'', ''valueOf'', ''__defineGetter__'', ''__defineSetter__'', ''__lookupGetter__'', ''__lookupSetter__'']"

definition reasonLabel :: "jsstr \<Rightarrow> 'e node" where
  "reasonLabel reason =
     (let labels = [(lit ''TIMEOUT'', t_r_timeout), (lit ''NETWORK_ERROR'', t_r_network), (lit ''HTTP_ERROR'', t_r_http),
        (lit ''PROBE_ERROR'', t_r_probe), (lit ''HIGH_PACKET_LOSS'', t_r_loss), (lit ''HIGH_LATENCY'', t_r_latency),
        (lit ''UNAVAILABLE'', t_r_unavailable)]
      in if reason \<in> lit ` set inherited_functions then Null
         else if reason = lit ''__proto__'' then Throw (OtherError (lit ''Objects are not valid as a React child''))
         else Txt (nullish (map_of labels reason) reason))"

datatype blacklist_action =
    BlSearch jsstr | BlReason jsstr | BlResetFilters | BlRefetch | BlOpen bool | BlConfirm | BlSettled

record blacklist_filters =
  bf_ip :: "jsstr option"
  bf_reason :: "jsstr option"

definition BlacklistToolbar :: "blacklist_filters \<Rightarrow> blacklist_action node" where
  "BlacklistToolbar f =
     (let reason = nullish (bf_reason f) (lit ''all''); hasFilter = (truthy (bf_ip f) \<or> reason \<noteq> lit ''all'') in
      el ''div''
       [SearchInput (opt_str (bf_ip f)) t_search_ip BlSearch,
        select_items reason
          [(lit ''all'', BlReason (lit ''all''), t_all_reasons), (lit ''TIMEOUT'', BlReason (lit ''TIMEOUT''), t_r_timeout),
           (lit ''NETWORK_ERROR'', BlReason (lit ''NETWORK_ERROR''), t_r_network),
           (lit ''HIGH_PACKET_LOSS'', BlReason (lit ''HIGH_PACKET_LOSS''), t_r_loss),
           (lit ''HIGH_LATENCY'', BlReason (lit ''HIGH_LATENCY''), t_r_latency)],
        DataTableResetButton (\<not> hasFilter) BlResetFilters])"

fun blacklist_filter_step :: "blacklist_action \<Rightarrow> blacklist_filters \<Rightarrow> blacklist_filters" where
  "blacklist_filter_step (BlSearch s) f = f\<lparr>bf_ip := Some s\<rparr>"
| "blacklist_filter_step (BlReason v) f = f\<lparr>bf_reason := (if v = lit ''all'' then None else Some v)\<rparr>"
| "blacklist_filter_step BlResetFilters f = \<lparr>bf_ip = Some [], bf_reason = None\<rparr>"
| "blacklist_filter_step _ f = f"

text \<open>The toolbar keeps the contract of the toolbars.\<close>

interpretation blacklist_toolbar: filter_toolbar BlacklistToolbar blacklist_filter_step BlResetFilters BlSearch "\<lambda>f. opt_str (bf_ip f)" "\<lambda>f. truthy (bf_ip f) \<or> nullish (bf_reason f) (lit ''all'') \<noteq> lit ''all''"
  by unfold_locales (auto simp: BlacklistToolbar_def truthy_def opt_str_def Let_def split: option.splits)

definition blacklist_columns :: "intl \<Rightarrow> (BlacklistEntry, blacklist_action) column list" where
  "blacklist_columns I =
     [\<lparr>col_id = ''target_ip'', col_label = lit ''IP'', col_sortable = True, col_hideable = True,
       col_cell = (\<lambda>b. el ''span'' [Txt (be_target_ip b)])\<rparr>,
      \<lparr>col_id = ''agent_name'', col_label = lit ''Agent'', col_sortable = True, col_hideable = True,
       col_cell = (\<lambda>b. el ''div'' [el ''p'' [Txt (be_agent_name b)], el ''p'' [Txt (be_continent b), Txt (lit '' / ''), Txt (be_region b)]])\<rparr>,
      \<lparr>col_id = ''reason'', col_label = t_reason, col_sortable = False, col_hideable = True,
       col_cell = (\<lambda>b. el ''Badge'' [reasonLabel (be_reason b)])\<rparr>,
      \<lparr>col_id = ''failure_count'', col_label = t_failures, col_sortable = True, col_hideable = True,
       col_cell = (\<lambda>b. el ''span'' [Txt (show_int (be_failure_count b))])\<rparr>,
      \<lparr>col_id = ''retry_after'', col_label = t_next_recheck, col_sortable = True, col_hideable = True,
       col_cell = (\<lambda>b. el ''span'' [text_or_throw (formatDate I (Some (be_retry_after b)))])\<rparr>,
      \<lparr>col_id = ''updated_at'', col_label = t_updated_at, col_sortable = True, col_hideable = True,
       col_cell = (\<lambda>b. el ''span'' [text_or_throw (formatDate I (Some (be_updated_at b)))])\<rparr>]"

definition blacklist_card :: "intl \<Rightarrow> BlacklistEntry \<Rightarrow> blacklist_action node" where
  "blacklist_card I b = el ''Card''
     [el ''p'' [Txt (be_target_ip b)], el ''p'' [Txt (be_agent_name b), Txt t_dot_sep, Txt (be_region b)],
      el ''Badge'' [reasonLabel (be_reason b)], el ''p'' [Txt t_failures], el ''p'' [Txt (show_int (be_failure_count b))],
      el ''p'' [Txt t_next_recheck], el ''p'' [text_or_throw (formatDate I (Some (be_retry_after b)))]]"

definition BlacklistTable :: "intl \<Rightarrow> blacklist_filters \<Rightarrow> BlacklistEntry table_view \<Rightarrow> nat \<Rightarrow> blacklist_action dt_action node" where
  "BlacklistTable I f tv n = DataTable (blacklist_columns I) tv n t_blacklist_empty t_blacklist_empty_sub
     (Some (BlacklistToolbar f)) (Some (blacklist_card I)) 10 None"

text \<open>The confirmation dialog keeps its own open state; its action is a plain button, which does not
  close it.\<close>

record blacklist_state =
  bl_open :: bool
  bl_pending :: bool

fun blacklist_step :: "blacklist_action \<Rightarrow> blacklist_state \<Rightarrow> blacklist_state \<times> api_call list" where
  "blacklist_step (BlOpen b) s = (s\<lparr>bl_open := b\<rparr>, [])"
| "blacklist_step BlConfirm s = (s\<lparr>bl_pending := True\<rparr>, [recheck])"
| "blacklist_step BlSettled s = (s\<lparr>bl_pending := False\<rparr>, [])"
| "blacklist_step BlRefetch s = (s, [getEntries (Some 500)])"
| "blacklist_step _ s = (s, [])"

definition BlacklistPage ::
  "bool \<Rightarrow> blacklist_state \<Rightarrow> BlacklistEntry list query_state \<Rightarrow> blacklist_action dt_action node \<Rightarrow> blacklist_action dt_action node" where
  "BlacklistPage canManage s blacklist table =
     (if q_pending blacklist then PageSkeleton (Some 8)
      else el ''div''
       [PageHeader None t_blacklist_title t_blacklist_sub
          (if canManage then Some (Frag
             [button False (Item (BlOpen True)) [Txt t_recheck_now],
              show_if (bl_open s) (El ''AlertDialog'' [On ''openChange'' (Item (BlOpen False))]
               [el ''AlertDialogTitle'' [Txt t_plan_recheck_q],
                el ''AlertDialogDescription'' [Txt t_plan_recheck_sub],
                button False (Item (BlOpen False)) [Txt t_cancel],
                button (bl_pending s) (Item BlConfirm) [Txt t_confirm_plan]])])
           else None),
        (case blacklist of QError e \<Rightarrow> ErrorState None (Some e) (Some (Item BlRefetch)) | _ \<Rightarrow> table)])"

lemma acts_reasonLabel [simp]: "acts P (reasonLabel r)"
  by (simp add: reasonLabel_def Let_def)

lemma blacklist_viewer:
  "acts (\<lambda>a. a \<noteq> Item BlConfirm \<and> (\<forall>b. a \<noteq> Item (BlOpen b))) (BlacklistPage False s blacklist (BlacklistTable I f tv n))"
proof -
  let ?Q = "\<lambda>e. e \<noteq> BlConfirm \<and> (\<forall>b. e \<noteq> BlOpen b)"
  have "acts (\<lambda>a. case a of Item e \<Rightarrow> ?Q e | _ \<Rightarrow> True) (BlacklistTable I f tv n)"
    unfolding BlacklistTable_def
    by (rule acts_DataTable) (auto simp: blacklist_columns_def BlacklistToolbar_def blacklist_card_def SearchInput_def
        DataTableResetButton_def Let_def)
  then have "acts (\<lambda>a. a \<noteq> Item BlConfirm \<and> (\<forall>b. a \<noteq> Item (BlOpen b))) (BlacklistTable I f tv n)"
    by (rule acts_mono) (auto split: dt_action.splits)
  then show ?thesis
    by (simp add: BlacklistPage_def PageSkeleton_def PageHeader_def ErrorState_def Let_def list_all_iff split: query_state.split)
qed

text \<open>After the recheck was created the confirmation is still open and its button enabled again.\<close>

lemma confirm_stays_open:
  assumes "bl_open s"
  defines "s' \<equiv> fst (blacklist_step BlSettled (fst (blacklist_step BlConfirm s)))"
  shows "bl_open s'" "\<not> q_pending q \<Longrightarrow> offers (Item BlConfirm) (BlacklistPage True s' q table)"
  using assms by (auto simp: BlacklistPage_def PageHeader_def)

text \<open>Three of the reasons that have a label cannot be chosen in the filter.\<close>

lemma reasons_not_offered:
  assumes "r \<in> {''HTTP_ERROR'', ''PROBE_ERROR'', ''UNAVAILABLE''}"
  shows "\<not> offers (BlReason (lit r)) (BlacklistToolbar f)"
  using assms by (auto simp: BlacklistToolbar_def SearchInput_def DataTableResetButton_def select_items_def Let_def)

end
