(* ===== verification/Sources.thy ===== *)
theory Sources
  imports Pages
begin

text \<open>
  The address sources (\<open>features/sources\<close>): the table of ASN sources with its switches, actions and
  delete dialog, the dialog that adds an ASN, and the page with its totals.
\<close>

subsection \<open>Literals\<close>

definition t_add_asn :: jsstr where
  "t_add_asn = [0x6DFB, 0x52A0, 0x20, 0x41, 0x53, 0x4E]"

definition t_add_asn_title :: jsstr where
  "t_add_asn_title = [0x6DFB, 0x52A0, 0x20, 0x41, 0x53, 0x4E, 0x20, 0x6570, 0x636E, 0x6E90]"

definition t_add_asn_sub :: jsstr where
  "t_add_asn_sub = [0x4EC5, 0x6DFB, 0x52A0, 0x4F60, 0x5DF2, 0x786E, 0x8BA4, 0x5C5E, 0x4E8E, 0x20, 0x43, 0x6C,
     0x6F, 0x75, 0x64, 0x66, 0x6C, 0x61, 0x72, 0x65, 0x20, 0x6216, 0x5176, 0x7F51, 0x7EDC,
     0x7EC4, 0x7EC7, 0x7684, 0x20, 0x41, 0x53, 0x4E, 0x3002, 0x65B0, 0x589E, 0x540E, 0x53EF,
     0x4EE5, 0x5355, 0x72EC, 0x540C, 0x6B65, 0x5F53, 0x524D, 0x20, 0x42, 0x47, 0x50, 0x20,
     0x5BA3, 0x544A, 0x524D, 0x7F00, 0x3002]"

definition t_only_digits :: jsstr where
  "t_only_digits = [0x53EA, 0x586B, 0x5199, 0x6570, 0x5B57, 0xFF0C, 0x4E0D, 0x9700, 0x8981, 0x8F93, 0x5165,
     0x20, 0x41, 0x53, 0x20, 0x524D, 0x7F00, 0x3002]"

definition t_organization :: jsstr where
  "t_organization = [0x7EC4, 0x7EC7]"

definition t_enable_now :: jsstr where
  "t_enable_now = [0x7ACB, 0x5373, 0x542F, 0x7528]"

definition t_enable_now_sub :: jsstr where
  "t_enable_now_sub = [0x542F, 0x7528, 0x540E, 0xFF0C, 0x8BE5, 0x20, 0x41, 0x53, 0x4E, 0x20, 0x7684, 0x6D3B,
     0x8DC3, 0x524D, 0x7F00, 0x4F1A, 0x53C2, 0x4E0E, 0x4EFB, 0x52A1, 0x91C7, 0x6837, 0x3002]"

definition t_search_asn :: jsstr where
  "t_search_asn = [0x641C, 0x7D22, 0x20, 0x41, 0x53, 0x4E, 0x3001, 0x540D, 0x79F0, 0x6216, 0x7EC4, 0x7EC7]"

definition t_built_in :: jsstr where
  "t_built_in = [0x5185, 0x7F6E]"

definition t_sync_state :: jsstr where
  "t_sync_state = [0x540C, 0x6B65, 0x72B6, 0x6001]"

definition t_prefix_amount :: jsstr where
  "t_prefix_amount = [0x524D, 0x7F00, 0x6570, 0x91CF]"

definition t_last_sync :: jsstr where
  "t_last_sync = [0x6700, 0x540E, 0x540C, 0x6B65]"

definition t_asn_operations :: jsstr where
  "t_asn_operations = [0x41, 0x53, 0x4E, 0x20, 0x64CD, 0x4F5C]"

definition t_disable_source :: jsstr where
  "t_disable_source = [0x505C, 0x7528, 0x6570, 0x636E, 0x6E90]"

definition t_enable_source :: jsstr where
  "t_enable_source = [0x542F, 0x7528, 0x6570, 0x636E, 0x6E90]"

definition t_delete_source :: jsstr where
  "t_delete_source = [0x5220, 0x9664, 0x6570, 0x636E, 0x6E90]"

definition t_sync_word :: jsstr where
  "t_sync_word = [0x540C, 0x6B65]"

definition t_no_asn :: jsstr where
  "t_no_asn = [0x6682, 0x65E0, 0x20, 0x41, 0x53, 0x4E, 0x20, 0x6570, 0x636E, 0x6E90]"

definition t_no_asn_sub :: jsstr where
  "t_no_asn_sub = [0x6DFB, 0x52A0, 0x786E, 0x8BA4, 0x5C5E, 0x4E8E, 0x20, 0x43, 0x6C, 0x6F, 0x75, 0x64, 0x66,
     0x6C, 0x61, 0x72, 0x65, 0x20, 0x7684, 0x20, 0x41, 0x53, 0x4E, 0xFF0C, 0x6216, 0x91CD,
     0x65B0, 0x52A0, 0x8F7D, 0x5185, 0x7F6E, 0x6570, 0x636E, 0x6E90, 0x3002]"

definition t_delete_as :: jsstr where
  "t_delete_as = [0x5220, 0x9664, 0x20, 0x41, 0x53]"

definition t_delete_asn_sub :: jsstr where
  "t_delete_asn_sub = [0x8BE5, 0x20, 0x41, 0x53, 0x4E, 0x20, 0x7684, 0x524D, 0x7F00, 0x5C06, 0x4E0D, 0x518D,
     0x53C2, 0x4E0E, 0x626B, 0x63CF, 0x91C7, 0x6837, 0x3002, 0x5DF2, 0x6709, 0x626B, 0x63CF,
     0x7ED3, 0x679C, 0x4E0D, 0x4F1A, 0x88AB, 0x5220, 0x9664, 0x3002]"

definition t_official_title :: jsstr where
  "t_official_title = [0x43, 0x6C, 0x6F, 0x75, 0x64, 0x66, 0x6C, 0x61, 0x72, 0x65, 0x20, 0x5B98, 0x65B9, 0x4EE3,
     0x7406, 0x524D, 0x7F00]"

definition t_official_sub :: jsstr where
  "t_official_sub = [0x8BE5, 0x6765, 0x6E90, 0x4E0E, 0x20, 0x41, 0x53, 0x4E, 0x20, 0x524D, 0x7F00, 0x540C,
     0x65F6, 0x4FDD, 0x7559, 0xFF1B, 0x626B, 0x63CF, 0x6C60, 0x6309, 0x20, 0x43, 0x49, 0x44,
     0x52, 0x20, 0x53BB, 0x91CD, 0xFF0C, 0x4E0D, 0x4F1A, 0x91CD, 0x590D, 0x91C7, 0x6837,
     0x540C, 0x4E00, 0x524D, 0x7F00, 0x3002]"

definition t_sync_official_word :: jsstr where
  "t_sync_official_word = [0x540C, 0x6B65, 0x5B98, 0x65B9, 0x6BB5]"

definition t_auto_sync :: jsstr where
  "t_auto_sync = [0x81EA, 0x52A8, 0x540C, 0x6B65]"

definition t_auto_sync_sub :: jsstr where
  "t_auto_sync_sub = [0x4E2D, 0x5FC3, 0x542F, 0x52A8, 0x65F6, 0xFF0C, 0x4E4B, 0x540E, 0x6BCF, 0x20, 0x36, 0x20,
     0x5C0F, 0x65F6]"

definition t_last_sync_failed :: jsstr where
  "t_last_sync_failed = [0x6700, 0x8FD1, 0x4E00, 0x6B21, 0x540C, 0x6B65, 0x5931, 0x8D25]"

definition t_sources_title :: jsstr where
  "t_sources_title = [0x49, 0x50, 0x20, 0x6570, 0x636E, 0x6E90]"

definition t_sources_sub :: jsstr where
  "t_sources_sub = [0x7EDF, 0x4E00, 0x7BA1, 0x7406, 0x20, 0x43, 0x6C, 0x6F, 0x75, 0x64, 0x66, 0x6C, 0x61,
     0x72, 0x65, 0x20, 0x5B98, 0x65B9, 0x4EE3, 0x7406, 0x5730, 0x5740, 0x6BB5, 0x548C, 0x5DF2,
     0x786E, 0x8BA4, 0x7684, 0x20, 0x41, 0x53, 0x4E, 0x20, 0x5BA3, 0x544A, 0x524D, 0x7F00,
     0x3002, 0x4EFB, 0x52A1, 0x521B, 0x5EFA, 0x65F6, 0x4F7F, 0x7528, 0x6240, 0x6709, 0x542F,
     0x7528, 0x6765, 0x6E90, 0x7684, 0x53BB, 0x91CD, 0x5E76, 0x96C6, 0x3002]"

definition t_sync_all :: jsstr where
  "t_sync_all = [0x540C, 0x6B65, 0x5168, 0x90E8, 0x6570, 0x636E, 0x6E90]"

definition t_official_prefixes :: jsstr where
  "t_official_prefixes = [0x5B98, 0x65B9, 0x524D, 0x7F00]"

definition t_official_prefixes_sub :: jsstr where
  "t_official_prefixes_sub = [0x43, 0x6C, 0x6F, 0x75, 0x64, 0x66, 0x6C, 0x61, 0x72, 0x65, 0x20, 0x660E, 0x786E, 0x516C,
     0x5E03, 0x7684, 0x4EE3, 0x7406, 0x5730, 0x5740, 0x6BB5]"

definition t_asn_prefixes :: jsstr where
  "t_asn_prefixes = [0x542F, 0x7528, 0x20, 0x41, 0x53, 0x4E, 0x20, 0x524D, 0x7F00]"

definition t_asn_prefixes_sub :: jsstr where
  "t_asn_prefixes_sub = [0x20, 0x4E2A, 0x542F, 0x7528, 0x20, 0x41, 0x53, 0x4E, 0x20, 0x7684, 0x539F, 0x59CB,
     0x524D, 0x7F00]"

definition t_asn_versions_sub :: jsstr where
  "t_asn_versions_sub = [0x49, 0x50, 0x76, 0x36, 0x20, 0x6309, 0x20, 0x43, 0x49, 0x44, 0x52, 0x20, 0x4FDD, 0x5B58,
     0x5E76, 0x5728, 0x4EFB, 0x52A1, 0x4E2D, 0x91C7, 0x6837]"

definition t_asn_enabled :: jsstr where
  "t_asn_enabled = [0x542F, 0x7528, 0x20, 0x41, 0x53, 0x4E]"

definition t_asn_enabled_sub :: jsstr where
  "t_asn_enabled_sub = [0x5185, 0x7F6E, 0x20, 0x41, 0x53, 0x4E, 0x20, 0x53EF, 0x505C, 0x7528, 0x4F46, 0x4E0D,
     0x53EF, 0x8BEF, 0x5220]"

definition t_official_failed :: jsstr where
  "t_official_failed = [0x5B98, 0x65B9, 0x6570, 0x636E, 0x6E90, 0x52A0, 0x8F7D, 0x5931, 0x8D25]"

definition t_asns_failed :: jsstr where
  "t_asns_failed = [0x41, 0x53, 0x4E, 0x20, 0x6570, 0x636E, 0x6E90, 0x52A0, 0x8F7D, 0x5931, 0x8D25]"

definition t_asn_tab :: jsstr where
  "t_asn_tab = [0x41, 0x53, 0x4E, 0x20, 0x6570, 0x636E, 0x6E90]"

definition t_official_tab :: jsstr where
  "t_official_tab = [0x5B98, 0x65B9, 0x5730, 0x5740, 0x6BB5]"

definition t_asn_tab_sub :: jsstr where
  "t_asn_tab_sub = [0x6309, 0x20, 0x41, 0x53, 0x4E, 0x20, 0x540C, 0x6B65, 0x5F53, 0x524D, 0x20, 0x42, 0x47,
     0x50, 0x20, 0x5BA3, 0x544A, 0xFF0C, 0x5E76, 0x72EC, 0x7ACB, 0x63A7, 0x5236, 0x662F,
     0x5426, 0x53C2, 0x4E0E, 0x626B, 0x63CF, 0x3002]"


subsection \<open>Adding an ASN\<close>

datatype asn_field = NfAsn jsnum | NfName jsstr | NfOrganization jsstr | NfEnabled bool

datatype create_asn_action = CaOpen bool | CaField asn_field | CaSubmit | CaSettled bool

record create_asn =
  cd_open :: bool
  cd_values :: CreateASNSourceValues
  cd_errors :: field_errors
  cd_pending :: bool

fun asn_field_set :: "asn_field \<Rightarrow> CreateASNSourceValues \<Rightarrow> CreateASNSourceValues" where
  "asn_field_set (NfAsn n) v = v\<lparr>av_asn := n\<rparr>"
| "asn_field_set (NfName s) v = v\<lparr>av_name := s\<rparr>"
| "asn_field_set (NfOrganization s) v = v\<lparr>av_organization := s\<rparr>"
| "asn_field_set (NfEnabled b) v = v\<lparr>av_enabled := b\<rparr>"

text \<open>The effect resets the form when the dialog has closed, and at the start.\<close>

definition create_asn_effect :: "create_asn \<Rightarrow> create_asn" where
  "create_asn_effect s = (if \<not> cd_open s then s\<lparr>cd_values := defaultASNSourceValues, cd_errors := []\<rparr> else s)"

definition create_asn_init :: create_asn where
  "create_asn_init = \<lparr>cd_open = False, cd_values = defaultASNSourceValues, cd_errors = [], cd_pending = False\<rparr>"

definition asn_request :: "CreateASNSourceValues \<Rightarrow> CreateASNSource" where
  "asn_request v = \<lparr>ca_asn = av_asn v, ca_name = av_name v, ca_organization = av_organization v, ca_enabled = Some (av_enabled v)\<rparr>"

definition create_asn_submit :: "create_asn \<Rightarrow> create_asn \<times> api_call list" where
  "create_asn_submit s =
     (case createASNSourceSchema (cd_values s) of
        Inl e \<Rightarrow> (s\<lparr>cd_errors := e\<rparr>, [])
      | Inr v \<Rightarrow> (s\<lparr>cd_errors := [], cd_pending := True\<rparr>, [createASN (asn_request v)]))"

fun create_asn_step :: "create_asn_action \<Rightarrow> create_asn \<Rightarrow> create_asn \<times> api_call list" where
  "create_asn_step (CaOpen b) s = (if b = cd_open s then (s, []) else (create_asn_effect (s\<lparr>cd_open := b\<rparr>), []))"
| "create_asn_step (CaField f) s = (s\<lparr>cd_values := asn_field_set f (cd_values s)\<rparr>, [])"
| "create_asn_step CaSubmit s = create_asn_submit s"
| "create_asn_step (CaSettled ok) s =
     (if ok then (if cd_open s then create_asn_effect (s\<lparr>cd_open := False, cd_pending := False\<rparr>) else s\<lparr>cd_pending := False\<rparr>, [])
      else (s\<lparr>cd_pending := False\<rparr>, []))"

text \<open>The number field shows nothing for zero and for NaN.\<close>

definition asn_shown :: "jsnum \<Rightarrow> jsstr" where
  "asn_shown n = (if n = Fin 0 \<or> n = NaN then [] else num_value n)"

definition CreateASNDialog :: "create_asn \<Rightarrow> create_asn_action node" where
  "CreateASNDialog s = (let v = cd_values s; es = cd_errors s in Frag
     [button False (CaOpen True) [Txt t_add_asn],
      show_if (cd_open s) (El ''Dialog'' [OnBool ''openChange'' CaOpen]
       [el ''DialogTitle'' [Txt t_add_asn_title],
        el ''DialogDescription'' [Txt t_add_asn_sub],
        el ''FormItem''
          [el ''FormLabel'' [Txt (lit ''ASN'')],
           El ''Input'' [Attr ''name'' (lit ''asn''), Attr ''value'' (asn_shown (av_asn v)), OnNum ''change'' (CaField \<circ> NfAsn)] [],
           el ''FormDescription'' [Txt t_only_digits], field_message es ''asn''],
        text_field ''name'' t_name_label (av_name v) (CaField \<circ> NfName) es,
        text_field ''organization'' t_organization (av_organization v) (CaField \<circ> NfOrganization) es,
        switch_field t_enable_now t_enable_now_sub (av_enabled v) (CaField \<circ> NfEnabled),
        button False (CaOpen False) [Txt t_cancel],
        button (cd_pending s) CaSubmit [Txt t_add_asn]])])"

text \<open>A request that is still out when its dialog is closed and opened again closes the new form.\<close>

lemma create_asn_closed_fresh:
  "cd_open s \<Longrightarrow> cd_values (fst (create_asn_step (CaOpen False) s)) = defaultASNSourceValues"
  by (simp add: create_asn_effect_def)

subsection \<open>The table\<close>

datatype asn_action =
    AsSearch jsstr | AsEnabled jsstr | AsResetFilters | AsToggle int bool | AsSync int | AsAskDelete ASNSource
  | AsCancelDelete | AsConfirmDelete

record asn_filters =
  nf_search :: "jsstr option"
  nf_enabled :: "bool option"

text \<open>The select shows the text of the filter value, which is a boolean, not one of its entries.\<close>

definition ASNToolbar :: "asn_filters \<Rightarrow> asn_action node" where
  "ASNToolbar f =
     (let enabled = (case nf_enabled f of None \<Rightarrow> lit ''all'' | Some b \<Rightarrow> show_bool b);
          filtered = (truthy (nf_search f) \<or> enabled \<noteq> lit ''all'') in
      el ''div''
       [SearchInput (opt_str (nf_search f)) t_search_asn AsSearch,
        select_items enabled [(lit ''all'', AsEnabled (lit ''all''), t_every_state), (lit ''enabled'', AsEnabled (lit ''enabled''), t_st_enabled),
          (lit ''disabled'', AsEnabled (lit ''disabled''), t_st_disabled)],
        DataTableResetButton (\<not> filtered) AsResetFilters])"

fun asn_filter_step :: "asn_action \<Rightarrow> asn_filters \<Rightarrow> asn_filters" where
  "asn_filter_step (AsSearch s) f = f\<lparr>nf_search := Some s\<rparr>"
| "asn_filter_step (AsEnabled v) f = f\<lparr>nf_enabled := (if v = lit ''all'' then None else Some (v = lit ''enabled''))\<rparr>"
| "asn_filter_step AsResetFilters f = \<lparr>nf_search = Some [], nf_enabled = None\<rparr>"
| "asn_filter_step _ f = f"

text \<open>The toolbar keeps the contract of the toolbars.\<close>

interpretation asn_toolbar: filter_toolbar ASNToolbar asn_filter_step AsResetFilters AsSearch "\<lambda>f. opt_str (nf_search f)" "\<lambda>f. truthy (nf_search f) \<or> nf_enabled f \<noteq> None"
  by unfold_locales (auto simp: ASNToolbar_def truthy_def opt_str_def show_bool_def Let_def split: option.splits)

record asn_state =
  an_deleting :: "ASNSource option"
  an_syncPending :: bool
  an_updatePending :: bool

definition asn_name :: "ASNSource \<Rightarrow> jsstr" where
  "asn_name s = lit ''AS'' @ show_int (as_asn s)"

definition on_off_badge :: "bool \<Rightarrow> 'e node" where
  "on_off_badge b = el ''Badge'' [Txt (if b then t_st_enabled else t_st_disabled)]"

definition asn_columns :: "intl \<Rightarrow> bool \<Rightarrow> asn_state \<Rightarrow> (ASNSource, asn_action) column list" where
  "asn_columns I canManage st =
     [\<lparr>col_id = ''asn'', col_label = lit ''ASN'', col_sortable = True, col_hideable = True,
       col_cell = (\<lambda>s. el ''span'' [Txt (asn_name s)])\<rparr>,
      \<lparr>col_id = ''name'', col_label = t_name_label, col_sortable = True, col_hideable = True,
       col_cell = (\<lambda>s. el ''div'' [el ''p'' [Txt (ASNSource.as_name s)], show_if (as_managed s) (el ''Badge'' [Txt t_built_in]),
         el ''p'' [Txt (as_organization s)]])\<rparr>,
      \<lparr>col_id = ''enabled'', col_label = t_enable, col_sortable = False, col_hideable = True,
       col_cell = (\<lambda>s. if canManage
         then El ''Switch'' [Flag ''checked'' (as_enabled s), Flag ''disabled'' (an_updatePending st),
            Attr ''aria-label'' ((if as_enabled s then t_disable else t_enable) @ lit '' '' @ asn_name s), OnBool ''checkedChange'' (AsToggle (as_asn s))] []
         else on_off_badge (as_enabled s))\<rparr>,
      \<lparr>col_id = ''status'', col_label = t_sync_state, col_sortable = False, col_hideable = True,
       col_cell = (\<lambda>s. el ''div'' [StatusBadge (as_status s), show_if (truthy (as_last_error s)) (el ''p'' [Txt (opt_str (as_last_error s))])])\<rparr>,
      \<lparr>col_id = ''prefix_count'', col_label = t_prefix_amount, col_sortable = True, col_hideable = True,
       col_cell = (\<lambda>s. el ''span'' [Txt (formatNumber (Some (as_prefix_count s)))])\<rparr>,
      \<lparr>col_id = ''ip_versions'', col_label = lit ''IPv4 / IPv6'', col_sortable = False, col_hideable = True,
       col_cell = (\<lambda>s. el ''span'' [Txt (formatNumber (Some (as_ipv4_count s))), Txt (lit '' / ''), Txt (formatNumber (Some (as_ipv6_count s)))])\<rparr>,
      \<lparr>col_id = ''last_synced_at'', col_label = t_last_sync, col_sortable = True, col_hideable = True,
       col_cell = (\<lambda>s. el ''span'' [text_or_throw (formatDate I (as_last_synced_at s))])\<rparr>]
     @ (if canManage then
     [\<lparr>col_id = ''actions'', col_label = t_operations, col_sortable = False, col_hideable = False,
       col_cell = (\<lambda>s. el ''DropdownMenu''
         [El ''DropdownMenuTrigger'' [Attr ''aria-label'' t_asn_operations] [],
          el ''DropdownMenuLabel'' [Txt (asn_name s)],
          El ''DropdownMenuItem'' [Flag ''disabled'' (an_syncPending st), On ''click'' (AsSync (as_asn s))] [Txt t_sync_now_start],
          El ''DropdownMenuItem'' [Flag ''disabled'' (an_updatePending st), On ''click'' (AsToggle (as_asn s) (\<not> as_enabled s))]
            [Txt (if as_enabled s then t_disable_source else t_enable_source)],
          show_if (\<not> as_managed s) (El ''DropdownMenuItem'' [On ''click'' (AsAskDelete s)] [Txt t_delete_source])])\<rparr>]
     else [])"

definition asn_card :: "intl \<Rightarrow> bool \<Rightarrow> asn_state \<Rightarrow> ASNSource \<Rightarrow> asn_action node" where
  "asn_card I canManage st s = el ''Card''
     [el ''p'' [Txt (asn_name s)], show_if (as_managed s) (el ''Badge'' [Txt t_built_in]), el ''p'' [Txt (ASNSource.as_name s)],
      el ''p'' [Txt (as_organization s)],
      (if canManage then El ''Switch'' [Flag ''checked'' (as_enabled s), OnBool ''checkedChange'' (AsToggle (as_asn s))] []
       else on_off_badge (as_enabled s)),
      el ''p'' [Txt t_state], StatusBadge (as_status s), el ''p'' [Txt t_prefix_word], el ''p'' [Txt (formatNumber (Some (as_prefix_count s)))],
      el ''p'' [Txt (lit ''IPv4 / IPv6'')], el ''p'' [Txt (show_int (as_ipv4_count s)), Txt (lit '' / ''), Txt (show_int (as_ipv6_count s))],
      el ''span'' [text_or_throw (formatDate I (as_last_synced_at s))],
      show_if canManage (button (an_syncPending st) (AsSync (as_asn s)) [Txt t_sync_word])]"

definition ASNTable ::
  "intl \<Rightarrow> bool \<Rightarrow> asn_filters \<Rightarrow> asn_state \<Rightarrow> ASNSource table_view \<Rightarrow> nat \<Rightarrow> asn_action dt_action node" where
  "ASNTable I canManage f st tv n = Frag
     [DataTable (asn_columns I canManage st) tv n t_no_asn t_no_asn_sub
        (Some (ASNToolbar f)) (Some (asn_card I canManage st)) 10 None,
      show_if (canManage \<and> an_deleting st \<noteq> None) (El ''AlertDialog'' [On ''openChange'' (Item AsCancelDelete)]
       [el ''AlertDialogTitle'' [Txt (t_delete_as @ (case an_deleting st of None \<Rightarrow> [] | Some s \<Rightarrow> show_int (as_asn s)) @ t_question)],
        el ''AlertDialogDescription'' [Txt t_delete_asn_sub],
        button False (Item AsCancelDelete) [Txt t_cancel],
        button False (Item AsConfirmDelete) [Txt t_confirm_delete]])]"

definition toggle_input :: "bool \<Rightarrow> UpdateASNSource" where
  "toggle_input b = \<lparr>ua_name = None, ua_organization = None, ua_enabled = Some b\<rparr>"

fun asn_step :: "asn_action \<Rightarrow> asn_state \<Rightarrow> asn_state \<times> api_call list" where
  "asn_step (AsToggle a b) st = (st\<lparr>an_updatePending := True\<rparr>, [updateASN a (toggle_input b)])"
| "asn_step (AsSync a) st = (st\<lparr>an_syncPending := True\<rparr>, [syncASN a])"
| "asn_step (AsAskDelete s) st = (st\<lparr>an_deleting := Some s\<rparr>, [])"
| "asn_step AsCancelDelete st = (st\<lparr>an_deleting := None\<rparr>, [])"
| "asn_step AsConfirmDelete st =
     (st\<lparr>an_deleting := None\<rparr>, case an_deleting st of None \<Rightarrow> [] | Some s \<Rightarrow> [deleteASN (as_asn s)])"
| "asn_step _ st = (st, [])"

text \<open>The deletion is offered for sources that are not built in, and its request names the source the
  dialog asked about.\<close>

lemma asn_delete_guarded:
  "acts (\<lambda>a. \<forall>s. a = Item (AsAskDelete s) \<longrightarrow> \<not> as_managed s) (ASNTable I canManage f st tv n)"
proof -
  let ?Q = "\<lambda>a. \<forall>s. a = AsAskDelete s \<longrightarrow> \<not> as_managed s"
  have "acts (\<lambda>a. case a of Item e \<Rightarrow> ?Q e | _ \<Rightarrow> True)
      (DataTable (asn_columns I canManage st) tv n t_no_asn t_no_asn_sub (Some (ASNToolbar f)) (Some (asn_card I canManage st)) 10 None)"
    by (rule acts_DataTable) (auto simp: asn_columns_def ASNToolbar_def asn_card_def on_off_badge_def SearchInput_def
        DataTableResetButton_def Let_def split: if_splits)
  then have "acts (\<lambda>a. \<forall>s. a = Item (AsAskDelete s) \<longrightarrow> \<not> as_managed s)
      (DataTable (asn_columns I canManage st) tv n t_no_asn t_no_asn_sub (Some (ASNToolbar f)) (Some (asn_card I canManage st)) 10 None)"
    by (rule acts_mono) (auto split: dt_action.splits)
  then show ?thesis by (simp add: ASNTable_def)
qed

text \<open>Choosing an entry of the enabled filter leaves the select without a selected entry.\<close>

lemma asn_filter_not_shown:
  "v = lit ''enabled'' \<or> v = lit ''disabled'' \<Longrightarrow>
   (case nf_enabled (asn_filter_step (AsEnabled v) f) of None \<Rightarrow> lit ''all'' | Some b \<Rightarrow> show_bool b)
     \<notin> {lit ''all'', lit ''enabled'', lit ''disabled''}"
  by (auto simp: show_bool_def)

subsection \<open>The page\<close>

datatype sources_action =
    SoTable "asn_action dt_action" | SoCreate create_asn_action | SoSyncAll | SoSyncOfficial | SoRefetchOfficial | SoRefetchASNs
  | SoTab bool

record sources_state =
  so_official :: "SourceStatus query_state"
  so_asns :: "ASNSource list query_state"
  so_officialData :: "SourceStatus option"
  so_asnData :: "ASNSource list option"
  so_syncOfficialPending :: bool
  so_syncASNsPending :: bool
  so_asnTab :: bool

definition source_totals :: "ASNSource list \<Rightarrow> int \<times> int \<times> int" where
  "source_totals enabled =
     foldl (\<lambda>(p, a, b) s. (p + as_prefix_count s, a + as_ipv4_count s, b + as_ipv6_count s)) (0, 0, 0) enabled"

definition official_tab :: "intl \<Rightarrow> bool \<Rightarrow> sources_state \<Rightarrow> sources_action node" where
  "official_tab I canManage s = (let d = so_officialData s in el ''Card''
     [el ''CardTitle'' [Txt t_official_title],
      el ''CardDescription'' [Txt t_official_sub],
      show_if canManage (button (so_syncOfficialPending s) SoSyncOfficial [Txt t_sync_official_word]),
      el ''p'' [Txt t_sync_state], StatusBadge (case d of None \<Rightarrow> lit ''never'' | Some o' \<Rightarrow> st_status o'),
      el ''p'' [Txt (lit ''IPv4 / IPv6'')], el ''p'' [Txt (show_int (case d of None \<Rightarrow> 0 | Some o' \<Rightarrow> st_ipv4_count o')), Txt (lit '' / ''),
        Txt (show_int (case d of None \<Rightarrow> 0 | Some o' \<Rightarrow> st_ipv6_count o'))],
      el ''p'' [Txt t_last_sync], el ''p'' [text_or_throw (formatDate I (case d of None \<Rightarrow> None | Some o' \<Rightarrow> st_last_synced_at o'))],
      el ''p'' [Txt t_auto_sync], el ''p'' [Txt t_auto_sync_sub],
      (case d of None \<Rightarrow> Null | Some o' \<Rightarrow> show_if (truthy (st_last_error o'))
         (ErrorState (Some t_last_sync_failed) (Some (OtherError (opt_str (st_last_error o')))) None))])"

definition SourcesPage ::
  "intl \<Rightarrow> bool \<Rightarrow> sources_state \<Rightarrow> create_asn \<Rightarrow> asn_action dt_action node \<Rightarrow> sources_action node" where
  "SourcesPage I canManage s create table =
     (if q_pending (so_official s) \<or> q_pending (so_asns s) then PageSkeleton (Some 8)
      else
       (let items = nullish (so_asnData s) []; enabled = filter as_enabled items; (prefixes, ipv4, ipv6) = source_totals enabled;
            syncing = (so_syncOfficialPending s \<or> so_syncASNsPending s)
        in el ''div''
         [PageHeader None t_sources_title t_sources_sub
            (if canManage then Some (button syncing SoSyncAll [Txt t_sync_all]) else None),
          MetricCard t_official_prefixes (Txt (formatNumber (map_option st_prefix_count (so_officialData s)))) t_official_prefixes_sub Null,
          MetricCard t_asn_prefixes (Txt (formatNumber (Some prefixes))) (show_int (int (length enabled)) @ t_asn_prefixes_sub) Null,
          MetricCard (lit ''ASN IPv4 / IPv6'') (Txt (formatNumber (Some ipv4) @ lit '' / '' @ formatNumber (Some ipv6))) t_asn_versions_sub Null,
          MetricCard t_asn_enabled (Txt (show_int (int (length enabled)) @ lit '' / '' @ show_int (int (length items)))) t_asn_enabled_sub Null,
          (case so_official s of QError e \<Rightarrow> ErrorState (Some t_official_failed) (Some e) (Some SoRefetchOfficial) | _ \<Rightarrow> Null),
          (case so_asns s of QError e \<Rightarrow> ErrorState (Some t_asns_failed) (Some e) (Some SoRefetchASNs) | _ \<Rightarrow> Null),
          El ''TabsTrigger'' [On ''click'' (SoTab True)] [Txt t_asn_tab],
          El ''TabsTrigger'' [On ''click'' (SoTab False)] [Txt t_official_tab],
          (if so_asnTab s then el ''TabsContent''
             [el ''h2'' [Txt (lit ''Cloudflare ASN'')], el ''p'' [Txt t_asn_tab_sub],
              show_if canManage (map_node SoCreate (CreateASNDialog create)),
              show_if (q_error (so_asns s) = None) (map_node SoTable table)]
           else el ''TabsContent'' [official_tab I canManage s])]))"

text \<open>What the actions of the page send; both requests of the full sync start at once.\<close>

fun sources_step :: "sources_action \<Rightarrow> sources_state \<Rightarrow> sources_state \<times> api_call list" where
  "sources_step SoSyncAll s = (s\<lparr>so_syncOfficialPending := True, so_syncASNsPending := True\<rparr>, [syncOfficial, syncAllASNs])"
| "sources_step SoSyncOfficial s = (s\<lparr>so_syncOfficialPending := True\<rparr>, [syncOfficial])"
| "sources_step SoRefetchOfficial s = (s, [getOfficial])"
| "sources_step SoRefetchASNs s = (s, [getASNs])"
| "sources_step (SoTab b) s = (s\<lparr>so_asnTab := b\<rparr>, [])"
| "sources_step (SoTable _) s = (s, [])"
| "sources_step (SoCreate _) s = (s, [])"

text \<open>The requests of an action anywhere on the page.\<close>

fun sources_calls :: "sources_action \<Rightarrow> sources_state \<Rightarrow> asn_state \<Rightarrow> create_asn \<Rightarrow> api_call list" where
  "sources_calls (SoTable (Item a)) s t c = snd (asn_step a t)"
| "sources_calls (SoCreate a) s t c = snd (create_asn_step a c)"
| "sources_calls a s t c = snd (sources_step a s)"

lemma source_totals_sums:
  "source_totals xs = (sum_list (map as_prefix_count xs), sum_list (map as_ipv4_count xs), sum_list (map as_ipv6_count xs))"
proof -
  have "foldl (\<lambda>(p, a, b) s. (p + as_prefix_count s, a + as_ipv4_count s, b + as_ipv6_count s)) (p, a, b) xs
      = (p + sum_list (map as_prefix_count xs), a + sum_list (map as_ipv4_count xs), b + sum_list (map as_ipv6_count xs))"
    for p a b and xs :: "ASNSource list"
    by (induction xs arbitrary: p a b) simp_all
  then show ?thesis by (simp add: source_totals_def)
qed

fun sources_managing :: "sources_action \<Rightarrow> bool" where
  "sources_managing (SoTable (Item (AsToggle _ _))) = True"
| "sources_managing (SoTable (Item (AsSync _))) = True"
| "sources_managing (SoTable (Item (AsAskDelete _))) = True"
| "sources_managing (SoTable (Item AsConfirmDelete)) = True"
| "sources_managing (SoCreate _) = True"
| "sources_managing SoSyncAll = True"
| "sources_managing SoSyncOfficial = True"
| "sources_managing _ = False"

lemma sources_viewer:
  "acts (\<lambda>a. \<not> sources_managing a) (SourcesPage I False s create (ASNTable I False f st tv n))"
proof -
  let ?Q = "\<lambda>e. \<not> sources_managing (SoTable (Item e))"
  have "acts (\<lambda>a. case a of Item e \<Rightarrow> ?Q e | _ \<Rightarrow> True)
      (DataTable (asn_columns I False st) tv n t_no_asn t_no_asn_sub (Some (ASNToolbar f)) (Some (asn_card I False st)) 10 None)"
    by (rule acts_DataTable) (auto simp: asn_columns_def ASNToolbar_def asn_card_def on_off_badge_def SearchInput_def
        DataTableResetButton_def Let_def)
  then have "acts ((\<lambda>a. \<not> sources_managing a) \<circ> SoTable) (ASNTable I False f st tv n)"
    unfolding ASNTable_def by (simp, rule acts_mono) (auto split: dt_action.splits)
  moreover have "acts (\<lambda>a. \<not> sources_managing a) (official_tab I False s)"
    by (cases "so_officialData s") (simp_all add: official_tab_def ErrorState_def Let_def)
  moreover have "acts (\<lambda>a. \<not> sources_managing a) (case so_official s of QError e \<Rightarrow> ErrorState t (Some e) (Some SoRefetchOfficial) | _ \<Rightarrow> Null)"
    "acts (\<lambda>a. \<not> sources_managing a) (case so_asns s of QError e \<Rightarrow> ErrorState t (Some e) (Some SoRefetchASNs) | _ \<Rightarrow> Null)" for t
    by (cases "so_official s"; simp add: ErrorState_def) (cases "so_asns s"; simp add: ErrorState_def)
  ultimately show ?thesis
    by (simp add: SourcesPage_def PageSkeleton_def PageHeader_def MetricCard_def Let_def source_totals_sums list_all_iff)
qed

end
