(* ===== verification/Dashboard.thy ===== *)
theory Dashboard
  imports Sources "HOL-Library.Multiset"
begin

text \<open>
  The dashboard (\<open>features/dashboard\<close>): the chart of the latency by colo with its percentiles, the
  cards of the recent jobs and the best results, and the page.
\<close>

subsection \<open>Literals\<close>

definition t_n_samples :: jsstr where
  "t_n_samples = [0x20, 0x4E2A, 0x6837, 0x672C]"

definition t_average_value :: jsstr where
  "t_average_value = [0x5E73, 0x5747, 0x503C]"

definition t_minimum_value :: jsstr where
  "t_minimum_value = [0x6700, 0x4F4E, 0x503C]"

definition t_chart_title :: jsstr where
  "t_chart_title = [0x63, 0x6F, 0x6C, 0x6F, 0x20, 0x5EF6, 0x8FDF, 0x8868, 0x73B0]"

definition t_chart_sub :: jsstr where
  "t_chart_sub = [0x6309, 0x20, 0x50, 0x35, 0x30, 0x20, 0x54, 0x54, 0x46, 0x42, 0x20, 0x6392, 0x540D,
     0xFF0C, 0x6A2A, 0x7EBF, 0x8868, 0x793A, 0x5F53, 0x524D, 0x20, 0x63, 0x6F, 0x6C, 0x6F,
     0x20, 0x4E2D, 0x4F4D, 0x6C34, 0x5E73, 0xFF1B, 0x60AC, 0x505C, 0x53EF, 0x67E5, 0x770B,
     0x20, 0x50, 0x39, 0x35, 0x20, 0x548C, 0x6837, 0x672C, 0x6570, 0x3002]"

definition t_await_colo :: jsstr where
  "t_await_colo = [0x7B49, 0x5F85, 0x20, 0x63, 0x6F, 0x6C, 0x6F, 0x20, 0x6570, 0x636E]"

definition t_await_colo_sub :: jsstr where
  "t_await_colo_sub = [0x8FD0, 0x884C, 0x626B, 0x63CF, 0x4EFB, 0x52A1, 0x540E, 0xFF0C, 0x8FD9, 0x91CC, 0x4F1A,
     0x6309, 0x5B9E, 0x9645, 0x547D, 0x4E2D, 0x7684, 0x20, 0x43, 0x6C, 0x6F, 0x75, 0x64, 0x66,
     0x6C, 0x61, 0x72, 0x65, 0x20, 0x63, 0x6F, 0x6C, 0x6F, 0x20, 0x5C55, 0x793A, 0x5EF6,
     0x8FDF, 0x8868, 0x73B0, 0x3002]"

definition t_fastest :: jsstr where
  "t_fastest = [0x6700, 0x5FEB, 0x20]"

definition t_samples_word :: jsstr where
  "t_samples_word = [0x20, 0x6837, 0x672C]"

definition t_recent_jobs :: jsstr where
  "t_recent_jobs = [0x6700, 0x8FD1, 0x4EFB, 0x52A1]"

definition t_recent_jobs_sub :: jsstr where
  "t_recent_jobs_sub = [0x5F53, 0x524D, 0x961F, 0x5217, 0x4E0E, 0x6700, 0x8FD1, 0x5B8C, 0x6210, 0x7684, 0x626B,
     0x63CF, 0x3002]"

definition t_all_jobs_link :: jsstr where
  "t_all_jobs_link = [0x5168, 0x90E8, 0x4EFB, 0x52A1]"

definition t_success_mid :: jsstr where
  "t_success_mid = [0x20, 0xB7, 0x20, 0x6210, 0x529F, 0x20]"

definition t_no_jobs_yet :: jsstr where
  "t_no_jobs_yet = [0x8FD8, 0x6CA1, 0x6709, 0x4EFB, 0x52A1]"

definition t_no_jobs_yet_sub :: jsstr where
  "t_no_jobs_yet_sub = [0x521B, 0x5EFA, 0x7B2C, 0x4E00, 0x8F6E, 0x626B, 0x63CF, 0x540E, 0xFF0C, 0x4EFB, 0x52A1,
     0x8FDB, 0x5EA6, 0x4F1A, 0x663E, 0x793A, 0x5728, 0x8FD9, 0x91CC, 0x3002]"

definition t_best_title :: jsstr where
  "t_best_title = [0x5F53, 0x524D, 0x4F18, 0x9009, 0x20, 0x49, 0x50]"

definition t_best_sub :: jsstr where
  "t_best_sub = [0x6309, 0x20, 0x41, 0x67, 0x65, 0x6E, 0x74, 0x20, 0x5B9E, 0x6D4B, 0x20, 0x54, 0x54, 0x46,
     0x42, 0x20, 0x6392, 0x5E8F, 0x7684, 0x53EF, 0x7528, 0x7ED3, 0x679C, 0x3002]"

definition t_view_ranking :: jsstr where
  "t_view_ranking = [0x67E5, 0x770B, 0x6392, 0x884C]"

definition t_copy_word :: jsstr where
  "t_copy_word = [0x590D, 0x5236, 0x20]"

definition t_no_best :: jsstr where
  "t_no_best = [0x6682, 0x65E0, 0x53EF, 0x7528, 0x7ED3, 0x679C]"

definition t_no_best_sub :: jsstr where
  "t_no_best_sub = [0x5F53, 0x524D, 0x8FD8, 0x6CA1, 0x6709, 0x901A, 0x8FC7, 0x53EF, 0x7528, 0x6027, 0x4E0E,
     0x9608, 0x503C, 0x7B5B, 0x9009, 0x7684, 0x20, 0x49, 0x50, 0x3002]"

definition t_dashboard_title :: jsstr where
  "t_dashboard_title = [0x8FD0, 0x884C, 0x603B, 0x89C8]"

definition t_dashboard_sub :: jsstr where
  "t_dashboard_sub = [0x4ECE, 0x7CFB, 0x7EDF, 0x5065, 0x5EB7, 0x3001, 0x626B, 0x63CF, 0x6267, 0x884C, 0x5230,
     0x5404, 0x5730, 0x533A, 0x4F18, 0x9009, 0x7ED3, 0x679C, 0xFF0C, 0x96C6, 0x4E2D, 0x67E5,
     0x770B, 0x5F53, 0x524D, 0x20, 0x43, 0x6C, 0x6F, 0x75, 0x64, 0x66, 0x6C, 0x61, 0x72, 0x65,
     0x20, 0x49, 0x50, 0x20, 0x6C60, 0x7684, 0x8FD0, 0x884C, 0x72B6, 0x6001, 0x3002]"

definition t_agents_online :: jsstr where
  "t_agents_online = [0x5728, 0x7EBF, 0x20, 0x41, 0x67, 0x65, 0x6E, 0x74]"

definition t_active_prefixes :: jsstr where
  "t_active_prefixes = [0x6D3B, 0x8DC3, 0x524D, 0x7F00]"

definition t_active_prefixes_sub :: jsstr where
  "t_active_prefixes_sub = [0x5B98, 0x65B9, 0x5730, 0x5740, 0x6BB5, 0x4E0E, 0x542F, 0x7528, 0x20, 0x41, 0x53, 0x4E,
     0x20, 0x53BB, 0x91CD, 0x540E]"

definition t_running_jobs :: jsstr where
  "t_running_jobs = [0x8FD0, 0x884C, 0x4E2D, 0x4EFB, 0x52A1]"

definition t_done_a :: jsstr where
  "t_done_a = [0x7D2F, 0x8BA1, 0x5B8C, 0x6210, 0x20]"

definition t_done_b :: jsstr where
  "t_done_b = [0x20, 0x4E2A, 0x4EFB, 0x52A1]"

definition t_average_latency :: jsstr where
  "t_average_latency = [0x5E73, 0x5747, 0x53EF, 0x7528, 0x5EF6, 0x8FDF]"

definition t_day_a :: jsstr where
  "t_day_a = [0x8FD1, 0x20, 0x32, 0x34, 0x20, 0x5C0F, 0x65F6, 0x20]"

definition t_day_b :: jsstr where
  "t_day_b = [0x20, 0x6761, 0x7ED3, 0x679C]"

definition t_colo_failed :: jsstr where
  "t_colo_failed = [0x63, 0x6F, 0x6C, 0x6F, 0x20, 0x6570, 0x636E, 0x52A0, 0x8F7D, 0x5931, 0x8D25]"

definition t_jobs_failed_dashboard :: jsstr where
  "t_jobs_failed_dashboard = [0x4EFB, 0x52A1, 0x6570, 0x636E, 0x52A0, 0x8F7D, 0x5931, 0x8D25]"

definition t_attention :: jsstr where
  "t_attention = [0x9700, 0x8981, 0x5173, 0x6CE8]"

definition t_attention_sub :: jsstr where
  "t_attention_sub = [0x5F71, 0x54CD, 0x5F53, 0x524D, 0x626B, 0x63CF, 0x8986, 0x76D6, 0x548C, 0x7ED3, 0x679C,
     0x8D28, 0x91CF, 0x7684, 0x4E8B, 0x9879, 0x3002]"

definition t_offline_agent :: jsstr where
  "t_offline_agent = [0x79BB, 0x7EBF, 0x20, 0x41, 0x67, 0x65, 0x6E, 0x74]"

definition t_offline_agent_sub :: jsstr where
  "t_offline_agent_sub = [0x65E0, 0x6CD5, 0x9886, 0x53D6, 0x65B0, 0x7684, 0x626B, 0x63CF, 0x4EFB, 0x52A1]"

definition t_blocked_ip :: jsstr where
  "t_blocked_ip = [0x9ED1, 0x540D, 0x5355, 0x20, 0x49, 0x50]"

definition t_blocked_ip_sub :: jsstr where
  "t_blocked_ip_sub = [0x7B49, 0x5F85, 0x91CA, 0x653E, 0x6216, 0x5B9A, 0x671F, 0x590D, 0x68C0]"

definition t_usable_ip :: jsstr where
  "t_usable_ip = [0x53EF, 0x7528, 0x20, 0x49, 0x50]"

definition t_usable_ip_sub :: jsstr where
  "t_usable_ip_sub = [0x6700, 0x8FD1, 0x7ED3, 0x679C, 0x4E2D, 0x901A, 0x8FC7, 0x63A2, 0x6D4B]"

definition t_no_attention :: jsstr where
  "t_no_attention = [0x5F53, 0x524D, 0x6CA1, 0x6709, 0x9700, 0x8981, 0x7ACB, 0x5373, 0x5904, 0x7406, 0x7684,
     0x7CFB, 0x7EDF, 0x5F02, 0x5E38, 0x3002]"


subsection \<open>Percentiles\<close>

definition percentile :: "rat list \<Rightarrow> rat \<Rightarrow> rat" where
  "percentile values ratio =
     (if values = [] then 0
      else (let index = min (int (length values) - 1) (\<lceil>of_nat (length values) * ratio\<rceil> - 1) in values ! nat index))"

text \<open>It is the nearest-rank percentile: the first value such that at least the given share of the
  values is not greater.\<close>

lemma percentile_nth:
  assumes "vs \<noteq> []" "0 < r" "r \<le> 1"
  obtains k where "k < length vs" "\<lceil>of_nat (length vs) * r\<rceil> = int k + 1" "percentile vs r = vs ! k"
proof -
  let ?c = "\<lceil>of_nat (length vs) * r\<rceil>"
  have c: "1 \<le> ?c" "?c \<le> int (length vs)" using ceil_share [OF assms(2,3), of "int (length vs)"] assms(1) by simp_all
  then have "0 \<le> ?c - 1" by linarith
  then obtain k where k: "?c - 1 = int k" by (rule nonneg_int_cases)
  then have "k < length vs" "?c = int k + 1" using c(2) by linarith+
  moreover from this have "min (int (length vs) - 1) (?c - 1) = int k" by linarith
  then have "percentile vs r = vs ! k" using assms(1) unfolding percentile_def Let_def by simp
  ultimately show ?thesis by (rule that)
qed

lemma percentile_rank:
  assumes "sorted vs" "vs \<noteq> []" "0 < r" "r \<le> 1"
  shows "percentile vs r \<in> set vs
    \<and> of_nat (length vs) * r \<le> of_nat (length (filter (\<lambda>v. v \<le> percentile vs r) vs))
    \<and> of_nat (length (filter (\<lambda>v. v < percentile vs r) vs)) < of_nat (length vs) * r"
proof -
  let ?c = "\<lceil>of_nat (length vs) * r\<rceil>"
  obtain k where k: "k < length vs" "?c = int k + 1" and p: "percentile vs r = vs ! k"
    using percentile_nth [OF assms(2-4)] by blast
  have "{0..k} \<subseteq> {i. i < length vs \<and> vs ! i \<le> vs ! k}"
    using k assms(1) by (auto intro: sorted_nth_mono)
  then have "card {0..k} \<le> length (filter (\<lambda>v. v \<le> vs ! k) vs)"
    unfolding length_filter_conv_card by (rule card_mono [rotated]) simp
  then have le: "?c \<le> int (length (filter (\<lambda>v. v \<le> vs ! k) vs))" using k(2) by simp
  have "{i. i < length vs \<and> vs ! i < vs ! k} \<subseteq> {..<k}"
  proof
    fix i assume "i \<in> {i. i < length vs \<and> vs ! i < vs ! k}"
    then show "i \<in> {..<k}" using sorted_nth_mono [OF assms(1), of k i] k(1) by (cases "k \<le> i") auto
  qed
  then have "length (filter (\<lambda>v. v < vs ! k) vs) \<le> card {..<k}"
    unfolding length_filter_conv_card by (rule card_mono [rotated]) simp
  then have lt: "int (length (filter (\<lambda>v. v < vs ! k) vs)) < ?c" using k(2) by simp
  have "of_nat (length vs) * r \<le> of_nat (length (filter (\<lambda>v. v \<le> vs ! k) vs))"
    using le by (metis ceiling_le_iff of_int_of_nat_eq)
  moreover have "of_nat (length (filter (\<lambda>v. v < vs ! k) vs)) < of_nat (length vs) * r"
    using lt by (metis less_ceiling_iff of_int_of_nat_eq)
  ultimately show ?thesis using k(1) by (simp add: p)
qed

definition is_percentile :: "rat list \<Rightarrow> rat \<Rightarrow> rat \<Rightarrow> bool" where
  "is_percentile vs r v \<longleftrightarrow> v \<in> set vs \<and> of_nat (length vs) * r \<le> of_nat (length (filter (\<lambda>w. w \<le> v) vs))
     \<and> of_nat (length (filter (\<lambda>w. w < v) vs)) < of_nat (length vs) * r"

lemma is_percentile_less: "is_percentile vs r v \<Longrightarrow> is_percentile vs r w \<Longrightarrow> \<not> v < w"
proof
  assume vw: "is_percentile vs r v" "is_percentile vs r w" "v < w"
  have "length (filter (\<lambda>x. x \<le> v) vs) \<le> length (filter (\<lambda>x. x < w) vs)"
    using vw(3) by (induction vs) auto
  then have "(of_nat (length (filter (\<lambda>x. x \<le> v) vs)) :: rat) \<le> of_nat (length (filter (\<lambda>x. x < w) vs))" by simp
  with vw(1,2) show False unfolding is_percentile_def by linarith
qed

lemma is_percentile_unique: "is_percentile vs r v \<Longrightarrow> is_percentile vs r w \<Longrightarrow> v = w"
  using is_percentile_less by (metis linorder_neqE)

lemma percentile_sort:
  assumes "vs \<noteq> []" "0 < r" "r \<le> 1"
  shows "is_percentile vs r (percentile (sort vs) r)"
proof -
  have "length (filter P (sort vs)) = length (filter P vs)" for P
    by (metis mset_filter mset_sort size_mset)
  moreover have "sort vs \<noteq> []" using assms(1) by (metis set_empty set_sort)
  ultimately show ?thesis using percentile_rank [of "sort vs" r] assms by (simp add: is_percentile_def)
qed

lemma percentile_mono:
  assumes "sorted vs" "0 < r" "r \<le> s" "s \<le> 1"
  shows "percentile vs r \<le> percentile vs s"
proof (cases "vs = []")
  case False
  have "r \<le> 1" "0 < s" using assms(2-4) by (auto intro: order_trans less_le_trans)
  then obtain k l where k: "\<lceil>of_nat (length vs) * r\<rceil> = int k + 1" "percentile vs r = vs ! k"
    and l: "l < length vs" "\<lceil>of_nat (length vs) * s\<rceil> = int l + 1" "percentile vs s = vs ! l"
    using percentile_nth False assms(2,4) by metis
  have "of_nat (length vs) * r \<le> of_nat (length vs) * s" using assms(3) by (intro mult_left_mono) simp_all
  then have "\<lceil>of_nat (length vs) * r\<rceil> \<le> \<lceil>of_nat (length vs) * s\<rceil>" by (rule ceiling_mono)
  then have "k \<le> l" using k(1) l(2) by linarith
  then show ?thesis using k(2) l assms(1) by (simp add: sorted_nth_mono)
qed (simp add: percentile_def)

lemma percentile_ge_hd:
  assumes "sorted vs" "vs \<noteq> []" "0 < r" "r \<le> 1"
  shows "hd vs \<le> percentile vs r"
proof -
  have "percentile vs r \<in> set vs" using percentile_rank [OF assms] by simp
  then show ?thesis using assms(1,2) by (cases vs) auto
qed

subsection \<open>The metrics of the colos\<close>

record colo_group =
  cg_values :: "rat list"
  cg_city :: jsstr
  cg_country :: jsstr
  cg_continent :: jsstr

definition usable :: "ScanResult \<Rightarrow> bool" where
  "usable r \<longleftrightarrow> sr_available r \<and> sr_colo r \<noteq> [] \<and> 0 < sr_latency_ms r"

definition fill :: "jsstr \<Rightarrow> jsstr \<Rightarrow> jsstr" where
  "fill old new = (if old = [] \<and> new \<noteq> [] then new else old)"

definition add_result :: "(jsstr, colo_group) jsmap \<Rightarrow> ScanResult \<Rightarrow> (jsstr, colo_group) jsmap" where
  "add_result groups item =
     (let g = nullish (map_get groups (sr_colo item)) \<lparr>cg_values = [], cg_city = sr_colo_city item, cg_country = sr_colo_country item,
                cg_continent = sr_colo_continent item\<rparr>
      in map_set (sr_colo item) \<lparr>cg_values = cg_values g @ [sr_latency_ms item], cg_city = fill (cg_city g) (sr_colo_city item),
           cg_country = fill (cg_country g) (sr_colo_country item), cg_continent = fill (cg_continent g) (sr_colo_continent item)\<rparr> groups)"

record colo_metric =
  cm_colo :: jsstr
  cm_city :: jsstr
  cm_country :: jsstr
  cm_continent :: jsstr
  cm_shortLabel :: jsstr
  cm_p50 :: int
  cm_p95 :: int
  cm_minimum :: int
  cm_average :: int
  cm_samples :: nat

definition colo_metric_of :: "jsstr \<times> colo_group \<Rightarrow> colo_metric" where
  "colo_metric_of e = (case e of (colo, g) \<Rightarrow>
     let values = js_sort (by_key (\<lambda>x. x)) (cg_values g) in
     \<lparr>cm_colo = colo, cm_city = cg_city g, cm_country = cg_country g, cm_continent = cg_continent g,
      cm_shortLabel = colo @ t_dot_sep @ str_or (cg_city g) (lit ''Unknown''),
      cm_p50 = math_round (percentile values (1 / 2)), cm_p95 = math_round (percentile values (95 / 100)),
      cm_minimum = math_round (values ! 0),
      cm_average = math_round (foldl (+) 0 values / of_nat (length values)), cm_samples = length values\<rparr>)"

definition colo_data :: "ScanResult list \<Rightarrow> colo_metric list" where
  "colo_data results =
     take 10 (js_sort (by_key (\<lambda>m. of_int (cm_p50 m))) (map colo_metric_of (foldl add_result [] (filter usable results))))"

definition totalSamples :: "colo_metric list \<Rightarrow> nat" where
  "totalSamples data = sum_list (map cm_samples data)"

definition overallMedian :: "colo_metric list \<Rightarrow> int" where
  "overallMedian data = (if data = [] then 0
     else math_round (percentile (js_sort (by_key (\<lambda>x. x)) (map (\<lambda>m. of_int (cm_p50 m)) data)) (1 / 2)))"

definition latencies :: "jsstr \<Rightarrow> ScanResult list \<Rightarrow> rat list" where
  "latencies colo results = map sr_latency_ms (filter (\<lambda>r. usable r \<and> sr_colo r = colo) results)"

definition groups_ok :: "(jsstr, colo_group) jsmap \<Rightarrow> ScanResult list \<Rightarrow> bool" where
  "groups_ok m rs \<longleftrightarrow> distinct (map fst m) \<and> (\<forall>c. case map_get m c of
      None \<Rightarrow> filter (\<lambda>r. sr_colo r = c) rs = []
    | Some g \<Rightarrow> cg_values g = map sr_latency_ms (filter (\<lambda>r. sr_colo r = c) rs) \<and> cg_values g \<noteq> [])"

lemma groups_ok_add: "groups_ok m rs \<Longrightarrow> groups_ok (add_result m r) (rs @ [r])"
  unfolding groups_ok_def add_result_def Let_def
proof (elim conjE, intro conjI allI)
  fix c
  assume d: "distinct (map fst m)" and inv: "\<forall>c. case map_get m c of
      None \<Rightarrow> filter (\<lambda>r. sr_colo r = c) rs = []
    | Some g \<Rightarrow> cg_values g = map sr_latency_ms (filter (\<lambda>r. sr_colo r = c) rs) \<and> cg_values g \<noteq> []"
  show "distinct (map fst (map_set (sr_colo r) v m))" for v using d by (rule map_set_distinct)
  from inv [rule_format, of c] show "case map_get (map_set (sr_colo r) \<lparr>cg_values = cg_values (nullish (map_get m (sr_colo r)) \<lparr>cg_values = [],
        cg_city = sr_colo_city r, cg_country = sr_colo_country r, cg_continent = sr_colo_continent r\<rparr>) @ [sr_latency_ms r],
        cg_city = x, cg_country = y, cg_continent = z\<rparr> m) c of
      None \<Rightarrow> filter (\<lambda>r. sr_colo r = c) (rs @ [r]) = []
    | Some g \<Rightarrow> cg_values g = map sr_latency_ms (filter (\<lambda>r. sr_colo r = c) (rs @ [r])) \<and> cg_values g \<noteq> []" for x y z
    by (cases "map_get m c") auto
qed

lemma groups_ok_fold: "groups_ok m seen \<Longrightarrow> groups_ok (foldl add_result m rs) (seen @ rs)"
proof (induction rs arbitrary: m seen)
  case (Cons r rs)
  from Cons.IH [OF groups_ok_add [OF Cons.prems, of r]] show ?case by simp
qed simp

lemma groups_of_results: "groups_ok (foldl add_result [] (filter usable results)) (filter usable results)"
  using groups_ok_fold [of "[]" "[]"] by (simp add: groups_ok_def)

text \<open>What the metrics of the latencies of a colo have to be.\<close>

definition metric_ok :: "rat list \<Rightarrow> colo_metric \<Rightarrow> bool" where
  "metric_ok vs m \<longleftrightarrow> cm_samples m = length vs \<and> vs \<noteq> []
     \<and> cm_minimum m = math_round (Min (set vs))
     \<and> (\<exists>v. is_percentile vs (1 / 2) v \<and> cm_p50 m = math_round v) \<and> (\<exists>v. is_percentile vs (95 / 100) v \<and> cm_p95 m = math_round v)
     \<and> cm_average m = math_round (sum_list vs / of_nat (length vs))
     \<and> cm_minimum m \<le> cm_p50 m \<and> cm_p50 m \<le> cm_p95 m \<and> cm_minimum m \<le> cm_average m"

lemma mset_js_insert: "mset (js_insert cmp x ys) = add_mset x (mset ys)"
  by (induction ys) auto

lemma mset_js_sort: "mset (js_sort cmp xs) = mset xs"
  by (induction xs) (auto simp: mset_js_insert)

lemma js_sort_values: "js_sort (by_key (\<lambda>x. x)) vs = sort vs" for vs :: "rat list"
proof -
  have "sorted (js_sort (by_key (\<lambda>x. x)) vs)" using sorted_by_key [of "\<lambda>x. x" vs] by simp
  moreover have "mset (js_sort (by_key (\<lambda>x. x)) vs) = mset vs" by (rule mset_js_sort)
  ultimately show ?thesis by (metis properties_for_sort)
qed

lemma sum_list_ge_min:
  fixes vs :: "rat list"
  assumes "\<forall>v \<in> set vs. m \<le> v"
  shows "of_nat (length vs) * m \<le> sum_list vs"
  using assms by (induction vs) (auto simp: algebra_simps intro: add_mono)

lemma metric_ok_of:
  assumes "cg_values g = vs" "vs \<noteq> []"
  shows "metric_ok vs (colo_metric_of (c, g))"
proof -
  have ne: "sort vs \<noteq> []" using assms(2) by (metis set_empty set_sort)
  have s: "sorted (sort vs)" by simp
  have hd: "sort vs ! 0 = Min (set vs)"
  proof (cases "sort vs")
    case (Cons a l)
    then have "\<forall>x \<in> set l. a \<le> x" "set vs = insert a (set l)" using s by (metis sorted_simps(2), metis list.simps(15) set_sort)
    then show ?thesis unfolding Cons by (simp add: Min_insert2)
  qed (use ne in simp)
  have fl: "foldl (+) a xs = a + sum_list xs" for a :: rat and xs by (induction xs arbitrary: a) simp_all
  have sum: "sum_list (sort vs) = sum_list vs" by (metis mset_sort sum_mset_sum_list)
  have min: "\<forall>v \<in> set vs. Min (set vs) \<le> v" by simp
  have avg: "Min (set vs) \<le> sum_list vs / of_nat (length vs)"
    using sum_list_ge_min [OF min] assms(2) by (simp add: pos_le_divide_eq mult.commute)
  have half: "(0 :: rat) < 1 / 2" "(1 / 2 :: rat) \<le> 95 / 100" "(95 / 100 :: rat) \<le> 1" "(1 / 2 :: rat) \<le> 1" by simp_all
  have "Min (set vs) \<le> percentile (sort vs) (1 / 2)"
    using percentile_ge_hd [OF s ne half(1,4)] ne hd by (simp add: hd_conv_nth)
  moreover have "percentile (sort vs) (1 / 2) \<le> percentile (sort vs) (95 / 100)"
    by (rule percentile_mono [OF s half(1,2,3)])
  ultimately have "cm_minimum (colo_metric_of (c, g)) \<le> cm_p50 (colo_metric_of (c, g))"
    "cm_p50 (colo_metric_of (c, g)) \<le> cm_p95 (colo_metric_of (c, g))" "cm_minimum (colo_metric_of (c, g)) \<le> cm_average (colo_metric_of (c, g))"
    using assms avg by (simp_all add: colo_metric_of_def Let_def js_sort_values hd fl sum math_round_mono)
  moreover have "is_percentile vs (1 / 2) (percentile (sort vs) (1 / 2))" "is_percentile vs (95 / 100) (percentile (sort vs) (95 / 100))"
    by (rule percentile_sort [OF assms(2)]; simp)+
  ultimately show ?thesis using assms unfolding metric_ok_def
    by (auto simp: colo_metric_of_def Let_def js_sort_values hd fl sum)
qed

lemma latencies_alt: "latencies c results = map sr_latency_ms (filter (\<lambda>r. sr_colo r = c) (filter usable results))"
  by (simp add: latencies_def conj_commute)

lemma cm_colo_of [simp]: "cm_colo (colo_metric_of e) = fst e"
  by (cases e) (simp add: colo_metric_of_def Let_def)

lemma all_metrics:
  fixes results defines "ms \<equiv> map colo_metric_of (foldl add_result [] (filter usable results))"
  shows "distinct (map cm_colo ms)" "m \<in> set ms \<Longrightarrow> metric_ok (latencies (cm_colo m) results) m"
    "latencies c results \<noteq> [] \<Longrightarrow> \<exists>m \<in> set ms. cm_colo m = c"
proof -
  let ?g = "foldl add_result [] (filter usable results)"
  have ok: "distinct (map fst ?g)" "\<And>c. case map_get ?g c of
      None \<Rightarrow> filter (\<lambda>r. sr_colo r = c) (filter usable results) = []
    | Some g \<Rightarrow> cg_values g = map sr_latency_ms (filter (\<lambda>r. sr_colo r = c) (filter usable results)) \<and> cg_values g \<noteq> []"
    using groups_of_results [of results] unfolding groups_ok_def by blast+
  show "distinct (map cm_colo ms)" using ok(1) by (simp add: ms_def o_def)
  show "metric_ok (latencies (cm_colo m) results) m" if "m \<in> set ms"
  proof -
    from that obtain c g where cg: "(c, g) \<in> set ?g" "m = colo_metric_of (c, g)" by (auto simp: ms_def)
    from iffD1 [OF map_get_in [OF ok(1)] cg(1)] have "map_get ?g c = Some g" .
    with ok(2) [of c] have "cg_values g = latencies c results" "latencies c results \<noteq> []" unfolding latencies_alt by force+
    with metric_ok_of [of g "latencies c results" c] cg(2) show ?thesis by simp
  qed
  show "\<exists>m \<in> set ms. cm_colo m = c" if "latencies c results \<noteq> []"
  proof (cases "map_get ?g c")
    case None
    with ok(2) [of c] that show ?thesis by (simp add: latencies_alt)
  next
    case (Some g)
    from iffD2 [OF map_get_in [OF ok(1)] this] have "(c, g) \<in> set ?g" .
    then show ?thesis unfolding ms_def by force
  qed
qed

text \<open>The latency chart of the dashboard: its bars are for distinct colos, at most ten, in the order of the median; every bar's sample count, minimum, median, 95th percentile (by nearest rank) and average are those of exactly the available results of that colo with a positive latency, with minimum <= median <= 95th percentile and minimum <= average; and a colo with such results that has no bar was left out only because ten others have a median at most its own.\<close>

theorem colo_chart_correct:
  "length (colo_data results) \<le> 10 \<and> distinct (map cm_colo (colo_data results)) \<and> sorted (map cm_p50 (colo_data results))
   \<and> (\<forall>m \<in> set (colo_data results). metric_ok (latencies (cm_colo m) results) m)
   \<and> (latencies c results \<noteq> [] \<and> c \<notin> cm_colo ` set (colo_data results) \<longrightarrow> length (colo_data results) = 10
        \<and> (\<forall>m \<in> set (colo_data results). \<exists>v. is_percentile (latencies c results) (1 / 2) v \<and> cm_p50 m \<le> math_round v))"
proof -
  let ?ms = "map colo_metric_of (foldl add_result [] (filter usable results))"
  let ?s = "js_sort (by_key (\<lambda>m. of_int (cm_p50 m))) ?ms"
  have d: "colo_data results = take 10 ?s" by (simp add: colo_data_def)
  have set: "set ?s = set ?ms" by simp
  have "sorted (map (\<lambda>m. of_int (cm_p50 m) :: rat) ?s)" by (rule sorted_by_key)
  then have sorted: "sorted (map cm_p50 ?s)" by (simp add: sorted_map)
  have "mset (map cm_colo ?s) = mset (map cm_colo ?ms)" by (simp only: mset_map mset_js_sort)
  then have dist: "distinct (map cm_colo ?s)" using all_metrics(1) [of results] mset_eq_imp_distinct_iff by blast
  have ok: "\<forall>m \<in> set (take 10 ?s). metric_ok (latencies (cm_colo m) results) m"
    using all_metrics(2) [of _ results] set set_take_subset by (metis subsetD)
  have rest: "length (take 10 ?s) = 10 \<and> (\<forall>m \<in> set (take 10 ?s). \<exists>v. is_percentile (latencies c results) (1 / 2) v \<and> cm_p50 m \<le> math_round v)"
    if c: "latencies c results \<noteq> []" "c \<notin> cm_colo ` set (take 10 ?s)"
  proof -
    obtain m where m: "m \<in> set ?ms" "cm_colo m = c" using all_metrics(3) [OF c(1)] by blast
    then have "m \<in> set (take 10 ?s) \<union> set (drop 10 ?s)" using set by (metis append_take_drop_id set_append)
    with m c(2) have dr: "m \<in> set (drop 10 ?s)" by blast
    then have "10 < length ?s" by (metis drop_all empty_iff list.set(1) not_le)
    moreover have "\<forall>x \<in> set (take 10 ?s). cm_p50 x \<le> cm_p50 m"
      using sorted dr by (metis append_take_drop_id sorted_wrt_append sorted_map)
    moreover have "\<exists>v. is_percentile (latencies c results) (1 / 2) v \<and> cm_p50 m = math_round v"
      using all_metrics(2) [OF m(1)] m(2) by (simp add: metric_ok_def)
    ultimately show ?thesis by force
  qed
  show ?thesis unfolding d using sorted dist ok rest by (simp add: take_map [symmetric] sorted_wrt_take distinct_take del: take_map)
qed

definition sample_result :: "jsstr \<Rightarrow> rat \<Rightarrow> ScanResult" where
  "sample_result colo ms = \<lparr>sr_id = 1, sr_job_id = [], sr_job_name = [], sr_agent_id = [], sr_agent_name = [], sr_region = [],
     sr_continent = [], sr_target_ip = lit ''1.1.1.1'', sr_available = True, sr_latency_ms = ms, sr_packet_loss = 0, sr_tcp_connect_ms = 0,
     sr_tls_handshake_ms = 0, sr_ttfb_ms = 0, sr_total_ms = 0, sr_http_status = 200, sr_http_version = [], sr_tls_version = [],
     sr_colo = colo, sr_colo_city = [], sr_colo_country = [], sr_colo_continent = [], sr_cf_ray = [], sr_error_code = None, sr_scanned_at = []\<rparr>"

theorem colo_chart_correct_witness:
  "\<exists>m \<in> set (colo_data [sample_result (lit ''HKG'') 30, sample_result (lit ''NRT'') 20]). cm_colo m = lit ''HKG''
     \<and> metric_ok [30] m"
proof -
  let ?rs = "[sample_result (lit ''HKG'') 30, sample_result (lit ''NRT'') 20]"
  have l: "latencies (lit ''HKG'') ?rs = [30]" by (simp add: latencies_def usable_def sample_result_def)
  have "length (colo_data ?rs) \<noteq> 10" by (simp add: colo_data_def add_result_def usable_def sample_result_def Let_def map_set_def)
  with colo_chart_correct [of ?rs "lit ''HKG''"] l show ?thesis by force
qed

text \<open>The page asks for the 200 available results with the lowest latencies, so the chart is that of the
  fastest ones: cutting a sorted list can only lower a percentile, and does.\<close>

lemma truncated_percentile_le:
  assumes "sorted vs" "0 < n" "0 < r" "r \<le> 1"
  shows "percentile (take n vs) r \<le> percentile vs r"
proof (cases "vs = []")
  case False
  then have ne: "take n vs \<noteq> []" using assms(2) by simp
  obtain k where k: "k < length (take n vs)" "\<lceil>of_nat (length (take n vs)) * r\<rceil> = int k + 1" "percentile (take n vs) r = take n vs ! k"
    using percentile_nth [OF ne assms(3,4)] by blast
  obtain l where l: "l < length vs" "\<lceil>of_nat (length vs) * r\<rceil> = int l + 1" "percentile vs r = vs ! l"
    using percentile_nth [OF False assms(3,4)] by blast
  have "of_nat (length (take n vs)) * r \<le> of_nat (length vs) * r" using assms(3) by (intro mult_right_mono) simp_all
  then have "\<lceil>of_nat (length (take n vs)) * r\<rceil> \<le> \<lceil>of_nat (length vs) * r\<rceil>" by (rule ceiling_mono)
  then have "k \<le> l" using k(2) l(2) by linarith
  then show ?thesis using k(1,3) l(1,3) assms(1) by (simp add: sorted_nth_mono)
qed simp

lemma truncated_percentile_lower: "percentile (take 2 [1, 2, 3, 4]) (1 / 2) < percentile [1, 2, 3, 4] (1 / 2)"
  by (simp add: percentile_def Let_def)

subsection \<open>The cards\<close>

datatype dashboard_action = DaFollow jsstr | DaCopy jsstr | DaRefetchOverview | DaRefetchResults | DaRefetchJobs

definition place_text :: "jsstr \<Rightarrow> jsstr \<Rightarrow> jsstr" where
  "place_text city country = str_or city (lit ''Location unknown'') @ (if country \<noteq> [] then lit '', '' @ country else [])"

definition ColoTooltip :: "bool \<Rightarrow> colo_metric option \<Rightarrow> 'e node" where
  "ColoTooltip active item =
     (case item of
        None \<Rightarrow> Null
      | Some m \<Rightarrow> if \<not> active then Null else el ''div''
         [el ''span'' [Txt (cm_colo m), Txt t_dot_sep, Txt (place_text (cm_city m) (cm_country m))],
          el ''Badge'' [Txt (show_int (int (cm_samples m))), Txt t_n_samples],
          show_if (cm_continent m \<noteq> []) (el ''p'' [Txt (cm_continent m)]),
          el ''dt'' [Txt (lit ''P50 TTFB'')], el ''dd'' [Txt (show_int (cm_p50 m)), Txt (lit '' ms'')],
          el ''dt'' [Txt (lit ''P95 TTFB'')], el ''dd'' [Txt (show_int (cm_p95 m)), Txt (lit '' ms'')],
          el ''dt'' [Txt t_average_value], el ''dd'' [Txt (show_int (cm_average m)), Txt (lit '' ms'')],
          el ''dt'' [Txt t_minimum_value], el ''dd'' [Txt (show_int (cm_minimum m)), Txt (lit '' ms'')]])"

definition chartHeight :: "colo_metric list \<Rightarrow> int" where
  "chartHeight data = max 280 (min 430 (int (length data) * 44 + 52))"

definition colo_bar :: "nat \<times> colo_metric \<Rightarrow> 'e node" where
  "colo_bar e = (case e of (index, m) \<Rightarrow> El ''Bar''
     [Attr ''label'' (cm_shortLabel m), Attr ''fill'' (if index = 0 then lit ''var(--chart-2)'' else lit ''var(--chart-1)''),
      Attr ''fillOpacity'' (num_text (max (1 / 2) (1 - of_nat index * (55 / 1000))))] [Txt (show_int (cm_p50 m) @ lit ''ms'')])"

definition ColoPerformanceChart :: "ScanResult list \<Rightarrow> dashboard_action node" where
  "ColoPerformanceChart results =
     (let data = colo_data results in el ''Card''
       [el ''CardTitle'' [Txt t_chart_title],
        el ''CardDescription'' [Txt t_chart_sub],
        (case data of
           [] \<Rightarrow> EmptyState t_await_colo t_await_colo_sub None
         | m # _ \<Rightarrow> Frag
            [el ''Badge'' [Txt t_fastest, Txt (cm_colo m), Txt t_dot_sep, Txt (place_text (cm_city m) (cm_country m))],
             el ''Badge'' [Txt (lit ''P50 ''), Txt (show_int (cm_p50 m)), Txt (lit '' ms'')],
             el ''Badge'' [Txt (formatNumber (Some (int (totalSamples data)))), Txt t_samples_word],
             El ''BarChart'' [Attr ''height'' (show_int (chartHeight data))]
               (El ''ReferenceLine'' [Attr ''x'' (show_int (overallMedian data))] [] # map colo_bar (enumerate 0 data))])])"

definition RecentJobsCard :: "ScanJob list \<Rightarrow> dashboard_action node" where
  "RecentJobsCard jobs = el ''Card''
     [el ''CardTitle'' [Txt t_recent_jobs], el ''CardDescription'' [Txt t_recent_jobs_sub],
      El ''Link'' [Attr ''to'' (lit ''/jobs''), On ''click'' (DaFollow (lit ''/jobs''))] [Txt t_all_jobs_link],
      el ''CardContent''
       (if jobs \<noteq> [] then map (\<lambda>j. el ''div''
          [el ''p'' [Txt (sj_name j)],
           el ''p'' [Txt (show_int (sj_completed_targets j)), Txt (lit '' / ''), Txt (show_int (sj_total_targets j)),
             Txt t_success_mid, Txt (show_int (sj_success_targets j))],
           StatusBadge (sj_status j), El ''Progress'' [Attr ''value'' (num_text (sj_progress j))] []]) (take 5 jobs)
        else [EmptyState t_no_jobs_yet t_no_jobs_yet_sub None])]"

definition best_results :: "ScanResult list \<Rightarrow> ScanResult list" where
  "best_results results = take 6 (filter sr_available results)"

definition copy_result :: "jsstr \<Rightarrow> bool \<Rightarrow> effect list" where
  "copy_result ip done' = ClipboardWrite ip # (if done' then [ToastSuccess t_ip_copied None] else [])"

definition TopResultsCard :: "ScanResult list \<Rightarrow> dashboard_action node" where
  "TopResultsCard results = (let best = best_results results in el ''Card''
     [el ''CardTitle'' [Txt t_best_title], el ''CardDescription'' [Txt t_best_sub],
      El ''Link'' [Attr ''to'' (lit ''/results''), On ''click'' (DaFollow (lit ''/results''))] [Txt t_view_ranking],
      el ''CardContent''
       (if best \<noteq> [] then map (\<lambda>r. el ''div''
          [El ''Button'' [Attr ''aria-label'' (t_copy_word @ sr_target_ip r), On ''click'' (DaCopy (sr_target_ip r))] [],
           el ''p'' [Txt (sr_target_ip r)], el ''p'' [Txt (sr_agent_name r), Txt t_dot_sep, Txt (sr_region r)],
           ColoLocationLabel (sr_colo r) (sr_colo_city r) (sr_colo_country r) (sr_colo_continent r) False,
           el ''span'' [Txt (formatMS (Some (sr_latency_ms r)))]]) best
        else [EmptyState t_no_best t_no_best_sub None])])"

subsection \<open>The page\<close>

definition dashboard_filters :: ResultFilters where
  "dashboard_filters = \<lparr>rf_view = Some ViewLatest, rf_agent_id = None, rf_job_id = None, rf_region = None, rf_continent = None,
     rf_search = None, rf_colo = None, rf_colo_city = None, rf_colo_country = None, rf_colo_continent = None,
     rf_available = Some (QBool True), rf_time_range = Some Range24h, rf_page = Some 1, rf_page_size = Some 200,
     rf_sort = Some SortLatencyMs, rf_order = Some Asc\<rparr>"

definition dashboard_queries :: "query_options list" where
  "dashboard_queries = [useOverview, useScanJobs (Some 8) (Some 5000), useScanResults dashboard_filters (Some 10000), useAgents (Some 5000)]"

definition offline_agents :: "Agent list option \<Rightarrow> Agent list" where
  "offline_agents agents = filter (\<lambda>a. ag_status a = AgentOffline) (nullish agents [])"

definition attentionCount :: "Agent list option \<Rightarrow> Overview \<Rightarrow> nat" where
  "attentionCount agents d = length (offline_agents agents) + (if 0 < ov_ips_blacklisted d then 1 else 0)"

definition attention_row :: "jsstr \<Rightarrow> jsstr \<Rightarrow> jsstr \<Rightarrow> 'e node" where
  "attention_row title description n = el ''div'' [el ''p'' [Txt title], el ''p'' [Txt description], el ''Badge'' [Txt n]]"

text \<open>The data a query still has beside its error are given apart.\<close>

definition DashboardPage ::
  "Overview query_state \<Rightarrow> ScanResult list query_state \<Rightarrow> ScanResult list option \<Rightarrow> ScanJob list query_state \<Rightarrow> ScanJob list option
    \<Rightarrow> Agent list option \<Rightarrow> dashboard_action node" where
  "DashboardPage overview results resultData jobs jobData agentData =
     (case overview of
        QPending \<Rightarrow> PageSkeleton None
      | QError e \<Rightarrow> ErrorState None (Some e) (Some DaRefetchOverview)
      | QData d \<Rightarrow> el ''div''
         [PageHeader None t_dashboard_title t_dashboard_sub None,
          MetricCard t_agents_online (Txt (show_int (ov_agents_online d) @ lit '' / '' @ show_int (ov_agents_total d))) t_nodes_online_sub Null,
          MetricCard t_active_prefixes (Txt (formatNumber (Some (ov_prefixes_total d)))) t_active_prefixes_sub Null,
          MetricCard t_running_jobs (Txt (formatNumber (Some (ov_running_jobs d))))
            (t_done_a @ formatNumber (Some (ov_completed_jobs d)) @ t_done_b) Null,
          MetricCard t_average_latency (Txt (formatMS (Some (ov_average_latency_ms d))))
            (t_day_a @ formatNumber (Some (ov_results_last_24h d)) @ t_day_b) Null,
          (case results of QError e \<Rightarrow> el ''Card'' [ErrorState (Some t_colo_failed) (Some e) (Some DaRefetchResults)]
           | _ \<Rightarrow> ColoPerformanceChart (nullish resultData [])),
          (case jobs of QError e \<Rightarrow> el ''Card'' [ErrorState (Some t_jobs_failed_dashboard) (Some e) (Some DaRefetchJobs)]
           | _ \<Rightarrow> RecentJobsCard (nullish jobData [])),
          TopResultsCard (nullish resultData []),
          el ''Card''
           [el ''CardTitle'' [Txt t_attention], el ''CardDescription'' [Txt t_attention_sub],
            attention_row t_offline_agent t_offline_agent_sub (show_int (int (length (offline_agents agentData)))),
            attention_row t_blocked_ip t_blocked_ip_sub (formatNumber (Some (ov_ips_blacklisted d))),
            attention_row t_usable_ip t_usable_ip_sub (formatNumber (Some (ov_ips_available d))),
            show_if (attentionCount agentData d = 0) (el ''p'' [Txt t_no_attention])]])"

end
