(* ===== verification/Permissions.thy ===== *)
theory Permissions
  imports Dashboard
begin

text \<open>
  What a user without the right to manage can do on the pages that have managing controls: the views of
  the pages, the requests their actions send, and the access the server's routes ask for.
\<close>

subsection \<open>Requests of the pages\<close>

fun scans_calls :: "jobs_action dt_action \<Rightarrow> jobs_state \<Rightarrow> scan_dialog \<Rightarrow> api_call list" where
  "scans_calls (Item (JbDialog SdSubmit)) s d = (case snd (scan_submit d) of None \<Rightarrow> [] | Some v \<Rightarrow> [createJob v])"
| "scans_calls (Item (JbDialog _)) s d = []"
| "scans_calls (Item a) s d = snd (jobs_step a s)"
| "scans_calls _ s d = []"

fun agents_calls :: "agents_action dt_action \<Rightarrow> add_agent \<Rightarrow> api_call list" where
  "agents_calls (Item (AgAdd a)) s = fst (snd (add_step a s))"
| "agents_calls (Item AgRefetch) s = [getAgents]"
| "agents_calls (Item AgRefetchEnrollments) s = [getAgentEnrollments]"
| "agents_calls _ s = []"

fun blacklist_calls :: "blacklist_action dt_action \<Rightarrow> blacklist_state \<Rightarrow> api_call list" where
  "blacklist_calls (Item a) s = snd (blacklist_step a s)"
| "blacklist_calls _ s = []"

text \<open>Every request goes to a route that asks for no more than a session.\<close>

definition reads_only :: "api_call list \<Rightarrow> bool" where
  "reads_only calls \<longleftrightarrow> list_all (\<lambda>c. \<exists>a. route_access c = Some a \<and> a \<le> Session) calls"

lemma reads_only_simps [simp]:
  "reads_only []" "reads_only (c # cs) \<longleftrightarrow> (\<exists>a. route_access c = Some a \<and> a \<le> Session) \<and> reads_only cs"
  by (simp_all add: reads_only_def)

lemma page_reads_session:
  "list_all (\<lambda>c. route_access c = Some Session)
    [getAgents, getAgentEnrollments, getEntries n, getOverview, getJobs n, getSchedules, getBlacklistRecheck, getSourceSyncs,
     getAutomationRuns n, getOfficial, getASNs]"
proof -
  have q: "hd (lit ''?limit='' @ s) = 63" for s by (simp add: lit_Cons)
  show ?thesis
    unfolding api_defs
    unfolding path_static
    by (simp add: route_access_v1 route_access_query seg_access_static q no_delims_lit plain_segment_def)
qed

lemma reads_session [simp]:
  "route_access getAgents = Some Session" "route_access getAgentEnrollments = Some Session" "route_access (getEntries n) = Some Session"
  "route_access getOverview = Some Session" "route_access (getJobs n) = Some Session" "route_access getSchedules = Some Session"
  "route_access getBlacklistRecheck = Some Session" "route_access getSourceSyncs = Some Session"
  "route_access (getAutomationRuns n) = Some Session" "route_access getOfficial = Some Session" "route_access getASNs = Some Session"
  using page_reads_session [of n] by simp_all

lemma jobs_calls_reads: "(case a of Item e \<Rightarrow> \<not> jobs_managing e | _ \<Rightarrow> True) \<Longrightarrow> reads_only (scans_calls a s d)"
  by (cases "(a, s, d)" rule: scans_calls.cases) (auto elim: jobs_managing.elims)

lemma agents_calls_reads: "(case a of Item (AgAdd _) \<Rightarrow> False | _ \<Rightarrow> True) \<Longrightarrow> reads_only (agents_calls a s)"
  by (cases "(a, s)" rule: agents_calls.cases) auto

lemma blacklist_calls_reads: "a \<noteq> Item BlConfirm \<Longrightarrow> reads_only (blacklist_calls a s)"
proof (cases a)
  case (Item e)
  assume "a \<noteq> Item BlConfirm"
  then show ?thesis using Item by (cases e) simp_all
qed simp_all

lemma sources_calls_reads: "\<not> sources_managing a \<Longrightarrow> reads_only (sources_calls a s t c)"
proof (cases a)
  case (SoTable d)
  assume n: "\<not> sources_managing a"
  show ?thesis
  proof (cases d)
    case (Item e)
    then show ?thesis using n SoTable by (cases e) simp_all
  qed (simp_all add: SoTable)
qed simp_all

lemma settings_calls_reads: "\<not> settings_managing a \<Longrightarrow> reads_only (snd (settings_step a s))"
  using settings_reads [of a s] by (cases "snd (settings_step a s) = []") (auto simp: reads_only_def list_all_iff)

text \<open>C2. A user without the right to manage only reads: whatever such a user can do on the scans, agents, black-list, sources and settings pages, in any state of the pages and their dialogs, sends no request at all or requests whose routes ask for a session only. The one exception is the switch of the desktop table of schedules, which is shown to everyone and whose request the server then refuses.\<close>

theorem viewer_read_only:
  assumes "\<not> ac_canManage auth"
  shows "acts (\<lambda>a. reads_only (scans_calls a js d)) (ScansPage auth jobs dialog (ScanJobsTable I auth f js tv n))
    \<and> acts (\<lambda>a. reads_only (agents_calls a add)) (AgentsPage I c (ac_canManage auth) agents enrollments origin config add g tw)
    \<and> acts (\<lambda>a. reads_only (blacklist_calls a b)) (BlacklistPage (ac_canManage auth) b entries (BlacklistTable I h tx n))
    \<and> acts (\<lambda>a. reads_only (sources_calls a so st cr)) (SourcesPage I (ac_canManage auth) so cr (ASNTable I (ac_canManage auth) k st ty n))
    \<and> acts (\<lambda>a. reads_only (snd (settings_step a se)) \<or> (\<exists>s e. a = StTable (Item (ScToggle s e))))
        (SettingsPage I auth se q theme planName plans n runName runs)"
proof -
  have m: "ac_canManage auth = False" using assms by simp
  show ?thesis unfolding m
  proof (intro conjI)
    show "acts (\<lambda>a. reads_only (scans_calls a js d)) (ScansPage auth jobs dialog (ScanJobsTable I auth f js tv n))"
      by (rule acts_mono [OF jobs_viewer_page [OF assms]]) (rule jobs_calls_reads)
    show "acts (\<lambda>a. reads_only (agents_calls a add)) (AgentsPage I c False agents enrollments origin config add g tw)"
      by (rule acts_mono [OF agents_viewer]) (rule agents_calls_reads)
    show "acts (\<lambda>a. reads_only (blacklist_calls a b)) (BlacklistPage False b entries (BlacklistTable I h tx n))"
      by (rule acts_mono [OF blacklist_viewer]) (rule blacklist_calls_reads, simp)
    show "acts (\<lambda>a. reads_only (sources_calls a so st cr)) (SourcesPage I False so cr (ASNTable I False k st ty n))"
      by (rule acts_mono [OF sources_viewer]) (rule sources_calls_reads)
    show "acts (\<lambda>a. reads_only (snd (settings_step a se)) \<or> (\<exists>s e. a = StTable (Item (ScToggle s e))))
        (SettingsPage I auth se q theme planName plans n runName runs)"
      by (rule acts_mono [OF settings_viewer [OF assms]]) (auto simp: settings_switch_def intro: settings_calls_reads)
  qed
qed

definition viewer_auth :: AuthContextValue where
  "viewer_auth = auth_value (login_success (sample_admin\<lparr>usr_role := Viewer\<rparr>) auth_init)"

lemma viewer_auth: "\<not> ac_canManage viewer_auth"
  by (simp add: viewer_auth_def auth_value_def login_success_def client.get_set Let_def sample_admin_def)

definition no_rows :: "'r table_view" where
  "no_rows = \<lparr>tv_rows = [], tv_pageIndex = 0, tv_pageSize = 10, tv_pageCount = 1, tv_filtered = 0, tv_canPrevious = False, tv_canNext = False\<rparr>"

theorem viewer_read_only_witness:
  "acts (\<lambda>a. reads_only (blacklist_calls a \<lparr>bl_open = True, bl_pending = False\<rparr>))
     (BlacklistPage (ac_canManage viewer_auth) \<lparr>bl_open = True, bl_pending = False\<rparr> (QData [])
       (BlacklistTable sample_intl \<lparr>bf_ip = None, bf_reason = None\<rparr> no_rows 0))"
  by (rule conjunct1 [OF conjunct2 [OF conjunct2 [OF viewer_read_only [OF viewer_auth]]]])

end
