(* ===== verification/Console.thy ===== *)
theory Console
  imports Permissions
begin

text \<open>
  The console as a whole: the session, the router, the pages and the server's routes in one step relation.
  A state is the session, the address and the requests sent so far, each with the user signed in at the time.
  The user navigates, the router redirects, the provider asks for the user, a page sends what its queries or
  its offered actions send, and responses come back and change the session.
\<close>

subsection \<open>What a page can send\<close>

text \<open>An action the user can take in a view.\<close>

definition takes :: "'e \<Rightarrow> 'e node \<Rightarrow> bool" where
  "takes a v \<longleftrightarrow> \<not> acts (\<lambda>x. x \<noteq> a) v"

lemma takes_acts: "takes a v \<Longrightarrow> acts P v \<Longrightarrow> P a"
  using acts_mono [of P v "\<lambda>x. x \<noteq> a"] by (auto simp: takes_def)

text \<open>The queries a page mounts, with whatever filters its state gives them.\<close>

fun page_queries :: "page \<Rightarrow> api_call set" where
  "page_queries LoginP = {}"
| "page_queries DashboardP = {getOverview, getAgents} \<union> range getJobs \<union> range getResults"
| "page_queries SourcesP = {getOfficial, getASNs}"
| "page_queries ScansP = {getAgents, getOverview} \<union> range getJobs"
| "page_queries ResultsP = {getAgents} \<union> range getResults \<union> range getResultFacets \<union> range getResultJobs"
| "page_queries LeagueP = {getAgents} \<union> range getLeagueDashboard"
| "page_queries (IPTrendP a t) = {c. \<exists>cand range. c = getIPTrend cand range}"
| "page_queries BlacklistP = range getEntries"
| "page_queries AgentsP = {getAgents, getAgentEnrollments, getAgentEnrollmentConfig}"
| "page_queries SettingsP = {getSchedules, getBlacklistRecheck, getSourceSyncs, getOverview, getAgents} \<union> range getAutomationRuns"
| "page_queries UsersP = {listUsers}"
| "page_queries (PairP t) = {c. usable_locator (LocToken t) \<and> getAgentEnrollment (LocToken t) = Inr c}"
| "page_queries (EnrollmentP i) = {c. usable_locator (LocId i) \<and> getAgentEnrollment (LocId i) = Inr c}"

fun locator_page :: "EnrollmentLocator \<Rightarrow> page" where
  "locator_page (LocToken t) = PairP t"
| "locator_page (LocId i) = EnrollmentP i"

inductive page_sends :: "AuthContextValue \<Rightarrow> page \<Rightarrow> api_call \<Rightarrow> bool" where
  queries: "c \<in> page_queries pg \<Longrightarrow> page_sends auth pg c"
| logs_in: "page_sends auth LoginP (login_call v)"
| scans: "takes a (ScansPage auth jobs dialog (ScanJobsTable I auth f js tv n)) \<Longrightarrow> c \<in> set (scans_calls a js d) \<Longrightarrow> page_sends auth ScansP c"
| agents: "takes a (AgentsPage I ck (ac_canManage auth) ags ens origin config add g tw) \<Longrightarrow> c \<in> set (agents_calls a add) \<Longrightarrow>
    page_sends auth AgentsP c"
| blacklist: "takes a (BlacklistPage (ac_canManage auth) b entries (BlacklistTable I h tx n)) \<Longrightarrow> c \<in> set (blacklist_calls a b) \<Longrightarrow>
    page_sends auth BlacklistP c"
| sources: "takes a (SourcesPage I (ac_canManage auth) so cr (ASNTable I (ac_canManage auth) k st ty n)) \<Longrightarrow>
    c \<in> set (sources_calls a so st cr) \<Longrightarrow> page_sends auth SourcesP c"
| settings: "takes a (SettingsPage I auth se q theme planName plans n runName runs) \<Longrightarrow> c \<in> set (snd (settings_step a se)) \<Longrightarrow>
    page_sends auth SettingsP c"
| approval: "takes a (EnrollmentApprovalPage I ck (ac_canManage auth) av) \<Longrightarrow> Inr c \<in> set (snd (approval_step l a av)) \<Longrightarrow>
    usable_locator l \<Longrightarrow> page_sends auth (locator_page l) c"
| users: "c \<in> set (snd (users_step e ut)) \<Longrightarrow> page_sends auth UsersP c"
| accounts: "c \<in> {createUser cu, updateUser i uu, resetPassword i pw} \<Longrightarrow> page_sends auth UsersP c"

inductive_cases page_sends_cases: "page_sends auth pg c"

subsection \<open>The steps\<close>

record console =
  co_auth :: auth_state
  co_path :: jsstr
  co_sent :: "(User option \<times> api_call) list"

definition signed_in :: "console \<Rightarrow> User option" where
  "signed_in s = ac_user (auth_value (co_auth s))"

definition sending :: "api_call \<Rightarrow> console \<Rightarrow> console" where
  "sending c s = s\<lparr>co_sent := (signed_in s, c) # co_sent s\<rparr>"

text \<open>A response settles a query under its key: an expiry ends the session, a body becomes page data.\<close>

definition settled :: "qkey \<Rightarrow> effect list \<Rightarrow> js_error + json option \<Rightarrow> auth_state \<Rightarrow> auth_state" where
  "settled k es out a =
     (if DispatchEvent ''cfscan:unauthorized'' \<in> set es then auth_step Unauthorized a
      else case out of Inr (Some d) \<Rightarrow> auth_step (PageData k d) a | _ \<Rightarrow> a)"

inductive console_step :: "console \<Rightarrow> console \<Rightarrow> bool" where
  navigate: "console_step s (s\<lparr>co_path := p\<rparr>)"
| redirect: "AppRouter (auth_value (co_auth s)) (co_path s) = Goto p from_path \<Longrightarrow> console_step s (s\<lparr>co_path := p\<rparr>)"
| provider: "console_step s (s\<lparr>co_auth := auth_step e (co_auth s)\<rparr>)"
| asks_user: "console_step s (sending getCurrentUser s)"
| logs_out: "signed_in s \<noteq> None \<Longrightarrow> console_step s (sending logout_call s)"
| sends: "AppRouter (auth_value (co_auth s)) (co_path s) = Show pg \<Longrightarrow> page_sends (auth_value (co_auth s)) pg c \<Longrightarrow>
    console_step s (sending c s)"
| answers: "request date_parse path ex ck = (ck', es, out) \<Longrightarrow> console_step s (s\<lparr>co_auth := settled k es out (co_auth s)\<rparr>)"

inductive console_reach :: "console \<Rightarrow> bool" where
  opened: "console_reach \<lparr>co_auth = auth_init, co_path = p, co_sent = []\<rparr>"
| stepped: "console_reach s \<Longrightarrow> console_step s t \<Longrightarrow> console_reach t"

inductive_cases console_step_cases: "console_step s t"

subsection \<open>What the server has to refuse\<close>

text \<open>The reads of the pages ask for a session.\<close>

lemma filtered_reads_session [simp]:
  "route_access getAgentEnrollmentConfig = Some Session" "route_access (getLeagueDashboard lf) = Some Session"
  "route_access (getIPTrend lc tr) = Some Session" "route_access (getResults rf) = Some Session"
  "route_access (getResultFacets ff) = Some Session" "route_access (getResultJobs rf) = Some Session"
  "route_access getCurrentUser = Some Session" "route_access logout_call = Some Session" "route_access (login_call v) = Some Public"
proof -
  have q: "createQueryString vs = [] \<or> hd (createQueryString vs) = 63" for vs by (rule createQueryString_head)
  note rt = route_access_v1 route_access_query seg_access_static
  show "route_access getAgentEnrollmentConfig = Some Session" "route_access (getLeagueDashboard lf) = Some Session"
    "route_access (getIPTrend lc tr) = Some Session" "route_access (getResults rf) = Some Session"
    "route_access (getResultFacets ff) = Some Session" "route_access (getResultJobs rf) = Some Session"
    "route_access getCurrentUser = Some Session" "route_access logout_call = Some Session" "route_access (login_call v) = Some Public"
    unfolding api_defs
    unfolding path_static
    by (simp_all add: rt q no_delims_lit plain_segment_def)
qed

lemma page_queries_session: "pg \<noteq> UsersP \<Longrightarrow> c \<in> page_queries pg \<Longrightarrow> route_access c = Some Session"
  by (cases pg) (auto dest: enrollment_read_session)

text \<open>The one request a viewer can send that the server refuses.\<close>

definition schedule_switch_call :: "api_call \<Rightarrow> bool" where
  "schedule_switch_call c \<longleftrightarrow> (\<exists>item b. c = updateSchedule (ss_id item) (scheduleInput item (\<lambda>v. v\<lparr>us_enabled := b\<rparr>)))"

lemma reads_only_member: "reads_only cs \<Longrightarrow> c \<in> set cs \<Longrightarrow> route_access c \<noteq> Some AdminOnly"
  by (auto simp: reads_only_def list_all_iff)

lemma approval_viewer: "acts (\<lambda>a. \<not> approval_managing a) (EnrollmentApprovalPage I ck False av)"
proof (cases "av_enrollment av")
  case (QData e)
  then show ?thesis by (cases "en_status e")
    (auto simp: EnrollmentApprovalPage_def approval_content_def notice_def DeviceDetails_def Let_def)
qed (simp_all add: EnrollmentApprovalPage_def ErrorState_def Let_def)

lemma viewer_sends:
  assumes "\<not> ac_canManage auth" "page_sends auth pg c" "pg \<noteq> UsersP" "pg \<noteq> LoginP"
  shows "route_access c \<noteq> Some AdminOnly \<or> schedule_switch_call c"
proof -
  have m: "ac_canManage auth = False" using assms(1) by simp
  from assms(2) show ?thesis
  proof cases
    case queries
    then show ?thesis using page_queries_session assms(3) by auto
  next
    case (scans a jobs dialog I f js tv n d)
    have "reads_only (scans_calls a js d)"
      using takes_acts [OF scans(2) jobs_viewer_page [OF assms(1)]] by (rule jobs_calls_reads)
    then show ?thesis using reads_only_member scans(3) by blast
  next
    case (agents a I ck ags ens origin config add g tw)
    have "reads_only (agents_calls a add)"
      using takes_acts [OF agents(2) [unfolded m] agents_viewer] by (rule agents_calls_reads)
    then show ?thesis using reads_only_member agents(3) by blast
  next
    case (blacklist a b entries I h tx n)
    have "reads_only (blacklist_calls a b)"
      using takes_acts [OF blacklist(2) [unfolded m] blacklist_viewer] by (simp add: blacklist_calls_reads)
    then show ?thesis using reads_only_member blacklist(3) by blast
  next
    case (sources a I so cr k st ty n)
    have "reads_only (sources_calls a so st cr)"
      using takes_acts [OF sources(2) [unfolded m] sources_viewer] by (rule sources_calls_reads)
    then show ?thesis using reads_only_member sources(3) by blast
  next
    case (settings a I se q theme planName plans n runName runs)
    have v: "\<not> settings_managing a \<or> settings_switch a"
      by (rule takes_acts [OF settings(2) settings_viewer [OF assms(1)]])
    show ?thesis
    proof (cases "settings_switch a")
      case True
      then obtain s e where "a = StTable (Item (ScToggle s e))" by (auto simp: settings_switch_def)
      then have "c = updateSchedule (ss_id s) (scheduleInput s (\<lambda>v. v\<lparr>us_enabled := e\<rparr>))" using settings(3) by simp
      then show ?thesis unfolding schedule_switch_call_def by blast
    next
      case False
      then show ?thesis using v settings_calls_reads reads_only_member settings(3) by blast
    qed
  next
    case (approval a I ck av l)
    have "\<not> approval_managing a"
      by (rule takes_acts [OF approval(2) [unfolded m] approval_viewer])
    then have "getAgentEnrollment l = Inr c"
      using approval(3) by (cases a) (auto split: option.splits if_splits)
    then show ?thesis using enrollment_read_session approval(4) by auto
  qed (use assms in simp_all)
qed

subsection \<open>Every request of every history\<close>

definition permitted :: "User option \<Rightarrow> api_call \<Rightarrow> bool" where
  "permitted user c \<longleftrightarrow>
     (case user of None \<Rightarrow> route_access c = Some Public \<or> c = getCurrentUser
      | Some u \<Rightarrow> usr_role u = Viewer \<longrightarrow> route_access c \<noteq> Some AdminOnly \<or> schedule_switch_call c)"

lemma login_sends:
  assumes "page_sends auth LoginP c"
  shows "route_access c = Some Public"
  using assms
proof cases
  case (approval a I ck av l)
  then show ?thesis by (cases l) simp_all
qed simp_all

text \<open>What the router shows under a session: the login to visitors only, the user administration to administrators.\<close>

lemma shown_page:
  assumes "AppRouter (auth_value s) p = Show pg"
  obtains "pg = LoginP" "ac_user (auth_value s) = None"
  | u where "pg \<noteq> LoginP" "ac_user (auth_value s) = Some u" "pg = UsersP \<Longrightarrow> usr_role u = Admin"
      "ac_canManage (auth_value s) \<longleftrightarrow> usr_role u = Admin"
  using assms auth_value_coherent [of s]
  by (rule_tac auth = "auth_value s" and p = p in protected_cases)
    (auto simp: AppRouter_def guard_defs coherent_def split: if_splits)

lemma sends_permitted:
  assumes "AppRouter (auth_value s) p = Show pg" "page_sends (auth_value s) pg c"
  shows "permitted (ac_user (auth_value s)) c"
  using assms(1)
proof (cases rule: shown_page)
  case 1
  then show ?thesis using assms(2) login_sends by (simp add: permitted_def)
next
  case (2 u)
  show ?thesis
  proof (cases "usr_role u = Admin")
    case False
    then have "route_access c \<noteq> Some AdminOnly \<or> schedule_switch_call c"
      using viewer_sends [OF _ assms(2)] 2 by auto
    then show ?thesis by (simp add: permitted_def 2(2))
  qed (simp add: permitted_def 2(2))
qed

lemma step_permitted:
  assumes "console_step s t" "list_all (case_prod permitted) (co_sent s)"
  shows "list_all (case_prod permitted) (co_sent t)"
  using assms
proof cases
  case (sends pg c)
  then show ?thesis using assms(2) sends_permitted by (simp add: sending_def signed_in_def)
next
  case asks_user
  then show ?thesis using assms(2) by (auto simp: sending_def permitted_def split: option.split)
next
  case logs_out
  then show ?thesis using assms(2) by (auto simp: sending_def permitted_def)
qed simp_all

lemma reach_permitted: "console_reach s \<Longrightarrow> list_all (case_prod permitted) (co_sent s)"
  by (induction rule: console_reach.induct) (simp, blast intro: step_permitted)

text \<open>C3. The console asks for no more than its user may do, over every history of navigation, redirects, logins, expiries, responses and requests from the first page on: a visitor without a session sends only requests whose routes are public and the question who is signed in; a signed-in user without the administrator's role sends no request whose route is for administrators, the switch of the table of schedules excepted.\<close>

theorem console_requests_permitted:
  assumes "console_reach s" "(user, c) \<in> set (co_sent s)"
  shows "case user of None \<Rightarrow> route_access c = Some Public \<or> c = getCurrentUser
    | Some u \<Rightarrow> usr_role u = Viewer \<longrightarrow> route_access c \<noteq> Some AdminOnly \<or> schedule_switch_call c"
  using reach_permitted [OF assms(1)] assms(2) by (auto simp: list_all_iff permitted_def)

text \<open>A viewer signs in and opens the scans: the page asks for the agents.\<close>

definition viewer_session :: console where
  "viewer_session = sending getAgents
     \<lparr>co_auth = auth_step (LoginSucceeded (sample_admin\<lparr>usr_role := Viewer\<rparr>)) auth_init, co_path = lit ''/jobs'', co_sent = []\<rparr>"

lemma viewer_session_reach: "console_reach viewer_session"
proof -
  let ?s = "\<lparr>co_auth = auth_init, co_path = lit ''/jobs'', co_sent = []\<rparr>"
  let ?t = "?s\<lparr>co_auth := auth_step (LoginSucceeded (sample_admin\<lparr>usr_role := Viewer\<rparr>)) (co_auth ?s)\<rparr>"
  have t: "console_reach ?t" by (rule stepped [OF opened provider])
  have "ac_user (auth_value (co_auth ?t)) \<noteq> None" "\<not> ac_isLoading (auth_value (co_auth ?t))"
    by (simp_all add: auth_value_def login_success_def client.get_set Let_def)
  then have "AppRouter (auth_value (co_auth ?t)) (co_path ?t) = Show ScansP"
    using link_pages(1) [of "auth_value (co_auth ?t)"] by simp
  then have "console_reach (sending getAgents ?t)"
    by (rule stepped [OF t sends]) (rule queries, simp)
  then show ?thesis by (simp add: viewer_session_def)
qed

theorem console_requests_permitted_witness:
  "console_reach viewer_session \<and> (\<exists>u. (Some u, getAgents) \<in> set (co_sent viewer_session) \<and> usr_role u = Viewer
     \<and> (route_access getAgents \<noteq> Some AdminOnly \<or> schedule_switch_call getAgents))"
proof -
  let ?u = "sample_admin\<lparr>usr_role := Viewer\<rparr>"
  have m: "(Some ?u, getAgents) \<in> set (co_sent viewer_session)"
    by (simp add: viewer_session_def sending_def signed_in_def auth_value_def login_success_def client.get_set Let_def)
  have "usr_role ?u = Viewer \<longrightarrow> route_access getAgents \<noteq> Some AdminOnly \<or> schedule_switch_call getAgents"
    using console_requests_permitted [OF viewer_session_reach m] by simp
  then show ?thesis using m viewer_session_reach by (intro conjI exI [of _ ?u]) auto
qed

end
