(* ===== verification/Ui_Primitives.thy ===== *)
theory Ui_Primitives
  imports View "HOL-Library.Sublist"
begin

text \<open>
  The primitives of \<open>web/src/components/ui\<close>: thin components that render an element, or a part of the
  Base UI library, with a fixed slot name and the properties they are given. Class names are
  presentation and are left out, as in the views; the library's parts (\<open>DialogPrimitive.Popup\<close> and so
  on) are elements of their own name. What the primitives decide, which properties they consume, which
  they pass on, which default they put in their place and what they render around their children, is
  modelled as written.
\<close>

text \<open>A JSX element with \<open>{...props}\<close> after its own attributes: a property of the same name replaces the
  element's attribute.\<close>

fun attr_name :: "'e attr \<Rightarrow> string" where
  "attr_name (Attr n _) = n"
| "attr_name (Flag n _) = n"
| "attr_name (On n _) = n"
| "attr_name (OnStr n _) = n"
| "attr_name (OnBool n _) = n"
| "attr_name (OnNum n _) = n"

definition spread :: "'e attr list \<Rightarrow> 'e attr list \<Rightarrow> 'e attr list" where
  "spread base props = filter (\<lambda>a. attr_name a \<notin> attr_name ` set props) base @ props"

text \<open>Properties a component destructures out of \<open>props\<close>: the ones it takes are data (strings, numbers and
  flags by their types), never handlers.\<close>

fun data_named :: "string list \<Rightarrow> 'e attr \<Rightarrow> bool" where
  "data_named ns (Attr n _) = (n \<in> set ns)"
| "data_named ns (Flag n _) = (n \<in> set ns)"
| "data_named ns _ = False"

definition omit :: "string list \<Rightarrow> 'e attr list \<Rightarrow> 'e attr list" where
  "omit ns props = filter (\<lambda>a. \<not> data_named ns a) props"

definition data_props :: "string list \<Rightarrow> 'e attr list \<Rightarrow> 'e attr list" where
  "data_props ns props = filter (data_named ns) props"

text \<open>The value of a property, with its default.\<close>

fun prop_or :: "string \<Rightarrow> string \<Rightarrow> 'e attr list \<Rightarrow> jsstr" where
  "prop_or n d [] = lit d"
| "prop_or n d (Attr m v # as) = (if m = n then v else prop_or n d as)"
| "prop_or n d (_ # as) = prop_or n d as"

fun flag_or :: "string \<Rightarrow> bool \<Rightarrow> 'e attr list \<Rightarrow> bool" where
  "flag_or n d [] = d"
| "flag_or n d (Flag m b # as) = (if m = n then b else flag_or n d as)"
| "flag_or n d (_ # as) = flag_or n d as"

definition flag_on :: "string \<Rightarrow> 'e attr list \<Rightarrow> bool" where
  "flag_on n props = list_ex (\<lambda>a. case a of Flag m b \<Rightarrow> m = n \<and> b | _ \<Rightarrow> False) props"

text \<open>A flag passed on under another name, absent when it is not given.\<close>

fun flag_prop :: "string \<Rightarrow> string \<Rightarrow> 'e attr list \<Rightarrow> 'e attr list" where
  "flag_prop a n [] = []"
| "flag_prop a n (Flag m b # as) = (if m = n then Flag a b # flag_prop a n as else flag_prop a n as)"
| "flag_prop a n (_ # as) = flag_prop a n as"

definition positioner :: "(string \<times> string) list \<Rightarrow> 'e attr list \<Rightarrow> 'e attr list" where
  "positioner ds props = map (\<lambda>(n, d). Attr n (prop_or n d props)) ds"

definition slot :: "string \<Rightarrow> 'e attr" where
  "slot name = Attr ''data-slot'' (lit name)"

definition icon :: "string \<Rightarrow> 'e node" where
  "icon name = El name [] []"

type_synonym 'e primitive = "'e attr list \<Rightarrow> 'e node list \<Rightarrow> 'e node"

subsection \<open>Buttons, fields and labels\<close>

definition Button :: "'e primitive" where
  "Button props kids = El ''ButtonPrimitive'' (spread [slot ''button''] (omit [''variant'', ''size''] props)) kids"

definition Input :: "'e primitive" where
  "Input props kids = El ''InputPrimitive'' (spread [slot ''input''] props) kids"

definition Label :: "'e primitive" where
  "Label props kids = El ''label'' (spread [slot ''label''] props) kids"

definition Textarea :: "'e primitive" where
  "Textarea props kids = El ''textarea'' (spread [slot ''textarea''] props) kids"

definition Separator :: "'e primitive" where
  "Separator props kids = El ''SeparatorPrimitive'' (spread [slot ''separator'', Attr ''orientation'' (prop_or ''orientation'' ''horizontal'' props)]
     (omit [''orientation''] props)) kids"

definition Skeleton :: "'e primitive" where
  "Skeleton props kids = El ''div'' (spread [slot ''skeleton''] props) kids"

subsection \<open>Cards, alerts, badges and breadcrumbs\<close>

definition Card :: "'e primitive" where
  "Card props kids = El ''div'' (spread [slot ''card'', Attr ''data-size'' (prop_or ''size'' ''default'' props)]
     (omit [''size''] props)) kids"

definition CardHeader :: "'e primitive" where
  "CardHeader props kids = El ''div'' (spread [slot ''card-header''] props) kids"

definition CardTitle :: "'e primitive" where
  "CardTitle props kids = El ''div'' (spread [slot ''card-title''] props) kids"

definition CardDescription :: "'e primitive" where
  "CardDescription props kids = El ''div'' (spread [slot ''card-description''] props) kids"

definition CardAction :: "'e primitive" where
  "CardAction props kids = El ''div'' (spread [slot ''card-action''] props) kids"

definition CardContent :: "'e primitive" where
  "CardContent props kids = El ''div'' (spread [slot ''card-content''] props) kids"

definition CardFooter :: "'e primitive" where
  "CardFooter props kids = El ''div'' (spread [slot ''card-footer''] props) kids"

definition Alert :: "'e primitive" where
  "Alert props kids = El ''div'' (spread [slot ''alert'', Attr ''role'' (lit ''alert'')] (omit [''variant''] props)) kids"

definition AlertTitle :: "'e primitive" where
  "AlertTitle props kids = El ''div'' (spread [slot ''alert-title''] props) kids"

definition AlertDescription :: "'e primitive" where
  "AlertDescription props kids = El ''div'' (spread [slot ''alert-description''] props) kids"

definition AlertAction :: "'e primitive" where
  "AlertAction props kids = El ''div'' (spread [slot ''alert-action''] props) kids"

definition Badge :: "'e primitive" where
  "Badge props kids = El ''span'' (spread [slot ''badge'', Attr ''data-variant'' (prop_or ''variant'' ''default'' props)]
     (omit [''variant''] props)) kids"

definition Breadcrumb :: "'e primitive" where
  "Breadcrumb props kids = El ''nav'' (spread [Attr ''aria-label'' (lit ''breadcrumb''), slot ''breadcrumb''] props) kids"

definition BreadcrumbList :: "'e primitive" where
  "BreadcrumbList props kids = El ''ol'' (spread [slot ''breadcrumb-list''] props) kids"

definition BreadcrumbItem :: "'e primitive" where
  "BreadcrumbItem props kids = El ''li'' (spread [slot ''breadcrumb-item''] props) kids"

definition BreadcrumbLink :: "'e primitive" where
  "BreadcrumbLink props kids = El ''a'' (spread [slot ''breadcrumb-link''] props) kids"

definition BreadcrumbPage :: "'e primitive" where
  "BreadcrumbPage props kids = El ''span'' (spread [slot ''breadcrumb-page'', Attr ''role'' (lit ''link''), Attr ''aria-disabled'' (lit ''true''), Attr ''aria-current'' (lit ''page'')] props) kids"

definition BreadcrumbSeparator :: "'e primitive" where
  "BreadcrumbSeparator props kids = El ''li'' (spread [slot ''breadcrumb-separator'', Attr ''role'' (lit ''presentation''), Attr ''aria-hidden'' (lit ''true'')] props)
     (if kids = [] then [icon ''ChevronRightIcon''] else kids)"

definition BreadcrumbEllipsis :: "'e primitive" where
  "BreadcrumbEllipsis props kids = El ''span'' (spread [slot ''breadcrumb-ellipsis'', Attr ''role'' (lit ''presentation''), Attr ''aria-hidden'' (lit ''true'')] props)
     [icon ''MoreHorizontalIcon'', el ''span'' [Txt (lit ''More'')]]"

subsection \<open>Switches, boxes and progress\<close>

definition Collapsible :: "'e primitive" where
  "Collapsible props kids = El ''CollapsiblePrimitive.Root'' (spread [slot ''collapsible''] props) kids"

definition CollapsibleTrigger :: "'e primitive" where
  "CollapsibleTrigger props kids = El ''CollapsiblePrimitive.Trigger'' (spread [slot ''collapsible-trigger''] props) kids"

definition CollapsibleContent :: "'e primitive" where
  "CollapsibleContent props kids = El ''CollapsiblePrimitive.Panel'' (spread [slot ''collapsible-content''] props) kids"

definition Checkbox :: "'e primitive" where
  "Checkbox props kids = El ''CheckboxPrimitive.Root'' (spread [slot ''checkbox''] props)
     [El ''CheckboxPrimitive.Indicator'' [slot ''checkbox-indicator''] [icon ''CheckIcon'']]"

definition Switch :: "'e primitive" where
  "Switch props kids = El ''SwitchPrimitive.Root'' (spread [slot ''switch'', Attr ''data-size'' (prop_or ''size'' ''default'' props)] (omit [''size''] props))
     [El ''SwitchPrimitive.Thumb'' [slot ''switch-thumb''] []]"

definition RadioGroup :: "'e primitive" where
  "RadioGroup props kids = El ''RadioGroupPrimitive'' (spread [slot ''radio-group''] props) kids"

definition RadioGroupItem :: "'e primitive" where
  "RadioGroupItem props kids = El ''RadioPrimitive.Root'' (spread [slot ''radio-group-item''] props)
     [El ''RadioPrimitive.Indicator'' [slot ''radio-group-indicator''] [el ''span'' []]]"

definition ProgressTrack :: "'e primitive" where
  "ProgressTrack props kids = El ''ProgressPrimitive.Track'' (spread [slot ''progress-track''] props) kids"

definition ProgressIndicator :: "'e primitive" where
  "ProgressIndicator props kids = El ''ProgressPrimitive.Indicator'' (spread [slot ''progress-indicator''] props) kids"

definition Progress :: "'e primitive" where
  "Progress props kids = El ''ProgressPrimitive.Root'' (spread [slot ''progress''] props) (kids
     @ [ProgressTrack [] [ProgressIndicator [] []]])"

definition ProgressLabel :: "'e primitive" where
  "ProgressLabel props kids = El ''ProgressPrimitive.Label'' (spread [slot ''progress-label''] props) kids"

definition ProgressValue :: "'e primitive" where
  "ProgressValue props kids = El ''ProgressPrimitive.Value'' (spread [slot ''progress-value''] props) kids"

subsection \<open>Tables, tabs and tooltips\<close>

definition Table :: "'e primitive" where
  "Table props kids = El ''div'' [slot ''table-container''] [El ''table'' (spread [slot ''table''] props) kids]"

definition TableHeader :: "'e primitive" where
  "TableHeader props kids = El ''thead'' (spread [slot ''table-header''] props) kids"

definition TableBody :: "'e primitive" where
  "TableBody props kids = El ''tbody'' (spread [slot ''table-body''] props) kids"

definition TableFooter :: "'e primitive" where
  "TableFooter props kids = El ''tfoot'' (spread [slot ''table-footer''] props) kids"

definition TableRow :: "'e primitive" where
  "TableRow props kids = El ''tr'' (spread [slot ''table-row''] props) kids"

definition TableHead :: "'e primitive" where
  "TableHead props kids = El ''th'' (spread [slot ''table-head''] props) kids"

definition TableCell :: "'e primitive" where
  "TableCell props kids = El ''td'' (spread [slot ''table-cell''] props) kids"

definition TableCaption :: "'e primitive" where
  "TableCaption props kids = El ''caption'' (spread [slot ''table-caption''] props) kids"

definition Tabs :: "'e primitive" where
  "Tabs props kids = El ''TabsPrimitive.Root'' (spread [slot ''tabs'', Attr ''data-orientation'' (prop_or ''orientation'' ''horizontal'' props)]
     (omit [''orientation''] props)) kids"

definition TabsList :: "'e primitive" where
  "TabsList props kids = El ''TabsPrimitive.List'' (spread [slot ''tabs-list'', Attr ''data-variant'' (prop_or ''variant'' ''default'' props)]
     (omit [''variant''] props)) kids"

definition TabsTrigger :: "'e primitive" where
  "TabsTrigger props kids = El ''TabsPrimitive.Tab'' (spread [slot ''tabs-trigger''] props) kids"

definition TabsContent :: "'e primitive" where
  "TabsContent props kids = El ''TabsPrimitive.Panel'' (spread [slot ''tabs-content''] props) kids"

definition TooltipProvider :: "'e primitive" where
  "TooltipProvider props kids = El ''TooltipPrimitive.Provider'' (spread [slot ''tooltip-provider'', Attr ''delay'' (prop_or ''delay'' ''0'' props)]
     (omit [''delay''] props)) kids"

definition Tooltip :: "'e primitive" where
  "Tooltip props kids = El ''TooltipPrimitive.Root'' (spread [slot ''tooltip''] props) kids"

definition TooltipTrigger :: "'e primitive" where
  "TooltipTrigger props kids = El ''TooltipPrimitive.Trigger'' (spread [slot ''tooltip-trigger''] props) kids"

definition TooltipContent :: "'e primitive" where
  "TooltipContent props kids = el ''TooltipPrimitive.Portal''
     [El ''TooltipPrimitive.Positioner'' (positioner [(''align'', ''center''), (''alignOffset'', ''0''), (''side'', ''top''), (''sideOffset'', ''4'')] props)
       [El ''TooltipPrimitive.Popup'' (spread [slot ''tooltip-content''] (omit [''align'', ''alignOffset'', ''side'', ''sideOffset''] props))
          (kids @ [el ''TooltipPrimitive.Arrow'' []])]]"

subsection \<open>Dialogs\<close>

definition Dialog :: "'e primitive" where
  "Dialog props kids = El ''DialogPrimitive.Root'' (spread [slot ''dialog''] props) kids"

definition DialogTrigger :: "'e primitive" where
  "DialogTrigger props kids = El ''DialogPrimitive.Trigger'' (spread [slot ''dialog-trigger''] props) kids"

definition DialogPortal :: "'e primitive" where
  "DialogPortal props kids = El ''DialogPrimitive.Portal'' (spread [slot ''dialog-portal''] props) kids"

definition DialogClose :: "'e primitive" where
  "DialogClose props kids = El ''DialogPrimitive.Close'' (spread [slot ''dialog-close''] props) kids"

definition DialogOverlay :: "'e primitive" where
  "DialogOverlay props kids = El ''DialogPrimitive.Backdrop'' (spread [slot ''dialog-overlay''] props) kids"

definition DialogContent :: "'e primitive" where
  "DialogContent props kids = DialogPortal [] [DialogOverlay [] [],
     El ''DialogPrimitive.Popup'' (spread [slot ''dialog-content''] (omit [''showCloseButton''] props))
       (kids @ [show_if (flag_or ''showCloseButton'' True props)
          (El ''DialogPrimitive.Close'' [slot ''dialog-close''] [icon ''XIcon'', el ''span'' [Txt (lit ''Close'')]])])]"

definition DialogHeader :: "'e primitive" where
  "DialogHeader props kids = El ''div'' (spread [slot ''dialog-header''] props) kids"

definition DialogFooter :: "'e primitive" where
  "DialogFooter props kids = El ''div'' (spread [slot ''dialog-footer''] (omit [''showCloseButton''] props))
     (kids @ [show_if (flag_or ''showCloseButton'' False props) (el ''DialogPrimitive.Close'' [Txt (lit ''Close'')])])"

definition DialogTitle :: "'e primitive" where
  "DialogTitle props kids = El ''DialogPrimitive.Title'' (spread [slot ''dialog-title''] props) kids"

definition DialogDescription :: "'e primitive" where
  "DialogDescription props kids = El ''DialogPrimitive.Description'' (spread [slot ''dialog-description''] props) kids"

definition AlertDialog :: "'e primitive" where
  "AlertDialog props kids = El ''AlertDialogPrimitive.Root'' (spread [slot ''alert-dialog''] props) kids"

definition AlertDialogTrigger :: "'e primitive" where
  "AlertDialogTrigger props kids = El ''AlertDialogPrimitive.Trigger'' (spread [slot ''alert-dialog-trigger''] props) kids"

definition AlertDialogPortal :: "'e primitive" where
  "AlertDialogPortal props kids = El ''AlertDialogPrimitive.Portal'' (spread [slot ''alert-dialog-portal''] props) kids"

definition AlertDialogOverlay :: "'e primitive" where
  "AlertDialogOverlay props kids = El ''AlertDialogPrimitive.Backdrop'' (spread [slot ''alert-dialog-overlay''] props) kids"

definition AlertDialogContent :: "'e primitive" where
  "AlertDialogContent props kids = AlertDialogPortal [] [AlertDialogOverlay [] [],
     El ''AlertDialogPrimitive.Popup'' (spread [slot ''alert-dialog-content'', Attr ''data-size'' (prop_or ''size'' ''default'' props)]
       (omit [''size''] props)) kids]"

definition AlertDialogHeader :: "'e primitive" where
  "AlertDialogHeader props kids = El ''div'' (spread [slot ''alert-dialog-header''] props) kids"

definition AlertDialogFooter :: "'e primitive" where
  "AlertDialogFooter props kids = El ''div'' (spread [slot ''alert-dialog-footer''] props) kids"

definition AlertDialogMedia :: "'e primitive" where
  "AlertDialogMedia props kids = El ''div'' (spread [slot ''alert-dialog-media''] props) kids"

definition AlertDialogTitle :: "'e primitive" where
  "AlertDialogTitle props kids = El ''AlertDialogPrimitive.Title'' (spread [slot ''alert-dialog-title''] props) kids"

definition AlertDialogDescription :: "'e primitive" where
  "AlertDialogDescription props kids = El ''AlertDialogPrimitive.Description'' (spread [slot ''alert-dialog-description''] props) kids"

definition AlertDialogAction :: "'e primitive" where
  "AlertDialogAction props kids = Button (spread [slot ''alert-dialog-action''] props) kids"

definition AlertDialogCancel :: "'e primitive" where
  "AlertDialogCancel props kids = El ''AlertDialogPrimitive.Close'' (spread [slot ''alert-dialog-cancel'']
     (omit [''variant'', ''size''] props)) kids"

definition Sheet :: "'e primitive" where
  "Sheet props kids = El ''SheetPrimitive.Root'' (spread [slot ''sheet''] props) kids"

definition SheetTrigger :: "'e primitive" where
  "SheetTrigger props kids = El ''SheetPrimitive.Trigger'' (spread [slot ''sheet-trigger''] props) kids"

definition SheetClose :: "'e primitive" where
  "SheetClose props kids = El ''SheetPrimitive.Close'' (spread [slot ''sheet-close''] props) kids"

definition SheetPortal :: "'e primitive" where
  "SheetPortal props kids = El ''SheetPrimitive.Portal'' (spread [slot ''sheet-portal''] props) kids"

definition SheetOverlay :: "'e primitive" where
  "SheetOverlay props kids = El ''SheetPrimitive.Backdrop'' (spread [slot ''sheet-overlay''] props) kids"

definition SheetContent :: "'e primitive" where
  "SheetContent props kids = SheetPortal [] [SheetOverlay [] [],
     El ''SheetPrimitive.Popup'' (spread [slot ''sheet-content'', Attr ''data-side'' (prop_or ''side'' ''right'' props)] (omit [''side'', ''showCloseButton''] props))
       (kids @ [show_if (flag_or ''showCloseButton'' True props)
          (El ''SheetPrimitive.Close'' [slot ''sheet-close''] [icon ''XIcon'', el ''span'' [Txt (lit ''Close'')]])])]"

definition SheetHeader :: "'e primitive" where
  "SheetHeader props kids = El ''div'' (spread [slot ''sheet-header''] props) kids"

definition SheetFooter :: "'e primitive" where
  "SheetFooter props kids = El ''div'' (spread [slot ''sheet-footer''] props) kids"

definition SheetTitle :: "'e primitive" where
  "SheetTitle props kids = El ''SheetPrimitive.Title'' (spread [slot ''sheet-title''] props) kids"

definition SheetDescription :: "'e primitive" where
  "SheetDescription props kids = El ''SheetPrimitive.Description'' (spread [slot ''sheet-description''] props) kids"

subsection \<open>Menus and selects\<close>

definition DropdownMenu :: "'e primitive" where
  "DropdownMenu props kids = El ''MenuPrimitive.Root'' (spread [slot ''dropdown-menu''] props) kids"

definition DropdownMenuPortal :: "'e primitive" where
  "DropdownMenuPortal props kids = El ''MenuPrimitive.Portal'' (spread [slot ''dropdown-menu-portal''] props) kids"

definition DropdownMenuTrigger :: "'e primitive" where
  "DropdownMenuTrigger props kids = El ''MenuPrimitive.Trigger'' (spread [slot ''dropdown-menu-trigger''] props) kids"

definition DropdownMenuContent :: "'e primitive" where
  "DropdownMenuContent props kids = el ''MenuPrimitive.Portal''
     [El ''MenuPrimitive.Positioner'' (positioner [(''align'', ''start''), (''alignOffset'', ''0''), (''side'', ''bottom''), (''sideOffset'', ''4'')] props)
       [El ''MenuPrimitive.Popup'' (spread [slot ''dropdown-menu-content''] (omit [''align'', ''alignOffset'', ''side'', ''sideOffset''] props)) kids]]"

definition DropdownMenuGroup :: "'e primitive" where
  "DropdownMenuGroup props kids = El ''MenuPrimitive.Group'' (spread [slot ''dropdown-menu-group''] props) kids"

definition DropdownMenuLabel :: "'e primitive" where
  "DropdownMenuLabel props kids = El ''div'' (spread ([slot ''dropdown-menu-label''] @ flag_prop ''data-inset'' ''inset'' props)
     (omit [''inset''] props)) kids"

definition DropdownMenuItem :: "'e primitive" where
  "DropdownMenuItem props kids = El ''MenuPrimitive.Item'' (spread ([slot ''dropdown-menu-item'', Attr ''data-variant'' (prop_or ''variant'' ''default'' props)] @ flag_prop ''data-inset'' ''inset'' props)
     (omit [''inset'', ''variant''] props)) kids"

definition DropdownMenuSub :: "'e primitive" where
  "DropdownMenuSub props kids = El ''MenuPrimitive.SubmenuRoot'' (spread [slot ''dropdown-menu-sub''] props) kids"

definition DropdownMenuSubTrigger :: "'e primitive" where
  "DropdownMenuSubTrigger props kids = El ''MenuPrimitive.SubmenuTrigger'' (spread (slot ''dropdown-menu-sub-trigger'' # flag_prop ''data-inset'' ''inset'' props) (omit [''inset''] props))
     (kids @ [icon ''ChevronRightIcon''])"

definition DropdownMenuSubContent :: "'e primitive" where
  "DropdownMenuSubContent props kids = DropdownMenuContent (spread [slot ''dropdown-menu-sub-content'', Attr ''align'' (prop_or ''align'' ''start'' props), Attr ''alignOffset'' (prop_or ''alignOffset'' ''-3'' props), Attr ''side'' (prop_or ''side'' ''right'' props), Attr ''sideOffset'' (prop_or ''sideOffset'' ''0'' props)]
     (omit [''align'', ''alignOffset'', ''side'', ''sideOffset''] props)) kids"

definition DropdownMenuCheckboxItem :: "'e primitive" where
  "DropdownMenuCheckboxItem props kids = El ''MenuPrimitive.CheckboxItem'' (spread (slot ''dropdown-menu-checkbox-item'' # flag_prop ''data-inset'' ''inset'' props) (omit [''inset''] props))
     (El ''span'' [slot ''dropdown-menu-checkbox-item-indicator''] [el ''MenuPrimitive.CheckboxItemIndicator'' [icon ''CheckIcon'']] # kids)"

definition DropdownMenuRadioGroup :: "'e primitive" where
  "DropdownMenuRadioGroup props kids = El ''MenuPrimitive.RadioGroup'' (spread [slot ''dropdown-menu-radio-group''] props) kids"

definition DropdownMenuRadioItem :: "'e primitive" where
  "DropdownMenuRadioItem props kids = El ''MenuPrimitive.RadioItem'' (spread (slot ''dropdown-menu-radio-item'' # flag_prop ''data-inset'' ''inset'' props) (omit [''inset''] props))
     (El ''span'' [slot ''dropdown-menu-radio-item-indicator''] [el ''MenuPrimitive.RadioItemIndicator'' [icon ''CheckIcon'']] # kids)"

definition DropdownMenuSeparator :: "'e primitive" where
  "DropdownMenuSeparator props kids = El ''MenuPrimitive.Separator'' (spread [slot ''dropdown-menu-separator''] props) kids"

definition DropdownMenuShortcut :: "'e primitive" where
  "DropdownMenuShortcut props kids = El ''span'' (spread [slot ''dropdown-menu-shortcut''] props) kids"

definition Select :: "'e primitive" where
  "Select props kids = El ''SelectPrimitive.Root'' (spread [slot ''select''] props) kids"

definition SelectGroup :: "'e primitive" where
  "SelectGroup props kids = El ''SelectPrimitive.Group'' (spread [slot ''select-group''] props) kids"

definition SelectValue :: "'e primitive" where
  "SelectValue props kids = El ''SelectPrimitive.Value'' (spread [slot ''select-value''] props) kids"

definition SelectTrigger :: "'e primitive" where
  "SelectTrigger props kids = El ''SelectPrimitive.Trigger'' (spread [slot ''select-trigger'', Attr ''data-size'' (prop_or ''size'' ''default'' props)] (omit [''size''] props))
     (kids @ [el ''SelectPrimitive.Icon'' [icon ''ChevronDownIcon'']])"

definition SelectScrollUpButton :: "'e primitive" where
  "SelectScrollUpButton props kids = El ''SelectPrimitive.ScrollUpArrow'' (spread [slot ''select-scroll-up-button''] props) [icon ''ChevronUpIcon'']"

definition SelectScrollDownButton :: "'e primitive" where
  "SelectScrollDownButton props kids = El ''SelectPrimitive.ScrollDownArrow'' (spread [slot ''select-scroll-down-button''] props) [icon ''ChevronDownIcon'']"

definition SelectContent :: "'e primitive" where
  "SelectContent props kids = el ''SelectPrimitive.Portal''
     [El ''SelectPrimitive.Positioner'' (positioner [(''side'', ''bottom''), (''sideOffset'', ''4''), (''align'', ''start''), (''alignOffset'', ''0'')] props
          @ [Flag ''alignItemWithTrigger'' (flag_or ''alignItemWithTrigger'' False props)])
       [El ''SelectPrimitive.Popup'' (spread [slot ''select-content'', Flag ''data-align-trigger'' (flag_or ''alignItemWithTrigger'' False props)]
          (omit [''side'', ''sideOffset'', ''align'', ''alignOffset'', ''alignItemWithTrigger''] props))
          [SelectScrollUpButton [] [], el ''SelectPrimitive.List'' kids, SelectScrollDownButton [] []]]]"

definition SelectLabel :: "'e primitive" where
  "SelectLabel props kids = El ''SelectPrimitive.GroupLabel'' (spread [slot ''select-label''] props) kids"

definition SelectItem :: "'e primitive" where
  "SelectItem props kids = El ''SelectPrimitive.Item'' (spread [slot ''select-item''] props)
     [el ''SelectPrimitive.ItemText'' kids, el ''SelectPrimitive.ItemIndicator'' [icon ''CheckIcon'']]"

definition SelectSeparator :: "'e primitive" where
  "SelectSeparator props kids = El ''SelectPrimitive.Separator'' (spread [slot ''select-separator''] props) kids"

subsection \<open>Input groups and comboboxes\<close>

definition InputGroup :: "'e primitive" where
  "InputGroup props kids = El ''div'' (spread [slot ''input-group'', Attr ''role'' (lit ''group'')] props) kids"

definition InputGroupAddon :: "'e primitive" where
  "InputGroupAddon props kids = El ''div'' (spread [Attr ''role'' (lit ''group''), slot ''input-group-addon'', Attr ''data-align'' (prop_or ''align'' ''inline-start'' props)]
     (omit [''align''] props)) kids"

definition InputGroupButton :: "'e primitive" where
  "InputGroupButton props kids = Button (spread [Attr ''type'' (prop_or ''type'' ''button'' props), Attr ''data-size'' (prop_or ''size'' ''xs'' props), Attr ''variant'' (prop_or ''variant'' ''ghost'' props)]
     (omit [''type'', ''size'', ''variant''] props)) kids"

definition InputGroupText :: "'e primitive" where
  "InputGroupText props kids = El ''span'' (spread [] props) kids"

definition InputGroupInput :: "'e primitive" where
  "InputGroupInput props kids = Input (spread [slot ''input-group-control''] props) kids"

definition InputGroupTextarea :: "'e primitive" where
  "InputGroupTextarea props kids = Textarea (spread [slot ''input-group-control''] props) kids"

definition ComboboxValue :: "'e primitive" where
  "ComboboxValue props kids = El ''ComboboxPrimitive.Value'' (spread [slot ''combobox-value''] props) kids"

definition ComboboxTrigger :: "'e primitive" where
  "ComboboxTrigger props kids = El ''ComboboxPrimitive.Trigger'' (spread [slot ''combobox-trigger''] props) (kids
     @ [icon ''ChevronDownIcon''])"

definition ComboboxClear :: "'e primitive" where
  "ComboboxClear props kids = El ''ComboboxPrimitive.Clear'' (spread [slot ''combobox-clear''] props) [icon ''XIcon'']"

definition ComboboxInput :: "'e primitive" where
  "ComboboxInput props kids = InputGroup []
     (InputGroupInput (spread [Flag ''disabled'' (flag_on ''disabled'' props)] (omit [''disabled'', ''showTrigger'', ''showClear''] props)) []
      # InputGroupAddon [Attr ''align'' (lit ''inline-end'')]
          [show_if (flag_or ''showTrigger'' True props) (InputGroupButton
             [Attr ''size'' (lit ''icon-xs''), Attr ''variant'' (lit ''ghost''), slot ''input-group-button'', Flag ''disabled'' (flag_on ''disabled'' props)]
             [ComboboxTrigger [] []]),
           show_if (flag_or ''showClear'' False props) (ComboboxClear [Flag ''disabled'' (flag_on ''disabled'' props)] [])]
      # kids)"

definition ComboboxContent :: "'e primitive" where
  "ComboboxContent props kids = El ''ComboboxPrimitive.Portal'' (data_props [''container''] props)
     [El ''ComboboxPrimitive.Positioner'' (positioner [(''side'', ''bottom''), (''sideOffset'', ''6''), (''align'', ''start''), (''alignOffset'', ''0'')] props
          @ data_props [''anchor''] props)
       [El ''ComboboxPrimitive.Popup'' (spread [slot ''combobox-content'', Flag ''data-chips'' (data_props [''anchor''] props \<noteq> [])]
          (omit [''side'', ''sideOffset'', ''align'', ''alignOffset'', ''anchor'', ''container''] props)) kids]]"

definition ComboboxList :: "'e primitive" where
  "ComboboxList props kids = El ''ComboboxPrimitive.List'' (spread [slot ''combobox-list''] props) kids"

definition ComboboxItem :: "'e primitive" where
  "ComboboxItem props kids = El ''ComboboxPrimitive.Item'' (spread [slot ''combobox-item''] props)
     (kids @ [el ''ComboboxPrimitive.ItemIndicator'' [icon ''CheckIcon'']])"

definition ComboboxGroup :: "'e primitive" where
  "ComboboxGroup props kids = El ''ComboboxPrimitive.Group'' (spread [slot ''combobox-group''] props) kids"

definition ComboboxLabel :: "'e primitive" where
  "ComboboxLabel props kids = El ''ComboboxPrimitive.GroupLabel'' (spread [slot ''combobox-label''] props) kids"

definition ComboboxCollection :: "'e primitive" where
  "ComboboxCollection props kids = El ''ComboboxPrimitive.Collection'' (spread [slot ''combobox-collection''] props) kids"

definition ComboboxEmpty :: "'e primitive" where
  "ComboboxEmpty props kids = El ''ComboboxPrimitive.Empty'' (spread [slot ''combobox-empty''] props) kids"

definition ComboboxSeparator :: "'e primitive" where
  "ComboboxSeparator props kids = El ''ComboboxPrimitive.Separator'' (spread [slot ''combobox-separator''] props) kids"

definition ComboboxChips :: "'e primitive" where
  "ComboboxChips props kids = El ''ComboboxPrimitive.Chips'' (spread [slot ''combobox-chips''] props) kids"

definition ComboboxChip :: "'e primitive" where
  "ComboboxChip props kids = El ''ComboboxPrimitive.Chip'' (spread [slot ''combobox-chip''] (omit [''showRemove''] props))
     (kids @ [show_if (flag_or ''showRemove'' True props)
        (El ''ComboboxPrimitive.ChipRemove'' [slot ''combobox-chip-remove''] [icon ''XIcon''])])"

definition ComboboxChipsInput :: "'e primitive" where
  "ComboboxChipsInput props kids = El ''ComboboxPrimitive.Input'' (spread [slot ''combobox-chip-input''] props) kids"

text \<open>The selection of a \<open>Select\<close> is passed on unless it was cleared.\<close>

fun select_value_change :: "('v \<Rightarrow> 'e) \<Rightarrow> 'v option \<Rightarrow> 'e option" where
  "select_value_change onValueChange None = None"
| "select_value_change onValueChange (Some v) = Some (onValueChange v)"

text \<open>A click into the addon of an input group moves the focus to the input, if the group has one, except
  when it hits a button of the addon.\<close>

definition addon_focuses :: "bool \<Rightarrow> bool \<Rightarrow> bool" where
  "addon_focuses in_button has_input = (if in_button then False else has_input)"

subsection \<open>What a primitive adds and keeps\<close>

text \<open>A primitive is transparent when the user can do with what it renders exactly what its properties and
  children let them do, when it fails only if a child does, and when it shows all its children show.\<close>

definition transparent :: "'e primitive \<Rightarrow> bool" where
  "transparent f \<longleftrightarrow> (\<forall>as ks P e.
     (acts P (f as ks) \<longleftrightarrow> acts P (El [] as ks)) \<and> (offers e (f as ks) \<longleftrightarrow> offers e (El [] as ks))
     \<and> (throws (f as ks) \<longleftrightarrow> throws (El [] as ks))
     \<and> subseq (concat (map node_text ks)) (node_text (f as ks)))"

lemma is_disabled_append [simp]: "is_disabled (as @ bs) \<longleftrightarrow> is_disabled as \<or> is_disabled bs"
  by (simp add: is_disabled_def)

text \<open>Attributes that are plain data, and not the one that disables a control.\<close>

fun plain :: "'e attr \<Rightarrow> bool" where
  "plain (Attr _ _) = True"
| "plain (Flag n _) = (n \<noteq> ''disabled'')"
| "plain _ = False"

lemma plain_filter: "list_all plain as \<Longrightarrow> list_all plain (filter Q as)"
  by (auto simp: list_all_iff)

lemma plain_disabled: "list_all plain as \<Longrightarrow> \<not> is_disabled as"
  by (induction as rule: list.induct) (auto simp: is_disabled_def elim: plain.elims)

lemma plain_acts: "list_all plain as \<Longrightarrow> list_all (attr_acts P) as"
  by (induction as) (auto elim: plain.elims)

lemma plain_offers: "list_all plain as \<Longrightarrow> \<not> list_ex (\<lambda>a. case a of On _ x \<Rightarrow> x = e | _ \<Rightarrow> False) as"
  by (induction as) (auto elim: plain.elims)

lemma spread_acts [simp]:
  assumes "list_all plain base"
  shows "is_disabled (spread base as) = is_disabled as"
    and "list_all (attr_acts P) (spread base as) = list_all (attr_acts P) as"
    and "list_ex (\<lambda>a. case a of On _ x \<Rightarrow> x = e | _ \<Rightarrow> False) (spread base as) =
      list_ex (\<lambda>a. case a of On _ x \<Rightarrow> x = e | _ \<Rightarrow> False) as"
  using plain_disabled [OF plain_filter [OF assms]] plain_acts [OF plain_filter [OF assms]]
    plain_offers [OF plain_filter [OF assms]]
  by (simp_all add: spread_def)

lemma omit_acts [simp]:
  shows "''disabled'' \<notin> set ns \<Longrightarrow> is_disabled (omit ns as) = is_disabled as"
    and "list_all (attr_acts P) (omit ns as) = list_all (attr_acts P) as"
    and "list_ex (\<lambda>a. case a of On _ x \<Rightarrow> x = e | _ \<Rightarrow> False) (omit ns as) =
      list_ex (\<lambda>a. case a of On _ x \<Rightarrow> x = e | _ \<Rightarrow> False) as"
proof -
  show "is_disabled (omit ns as) = is_disabled as" if "''disabled'' \<notin> set ns"
    using that by (induction as) (auto simp: omit_def is_disabled_def elim: data_named.elims)
  show "list_all (attr_acts P) (omit ns as) = list_all (attr_acts P) as"
    by (induction as) (auto simp: omit_def elim: data_named.elims)
  show "list_ex (\<lambda>a. case a of On _ x \<Rightarrow> x = e | _ \<Rightarrow> False) (omit ns as) =
      list_ex (\<lambda>a. case a of On _ x \<Rightarrow> x = e | _ \<Rightarrow> False) as"
    by (induction as) (auto simp: omit_def elim: data_named.elims)
qed

lemma plain_simps [simp]:
  "plain (slot n)" "list_all plain (positioner ds as)" "list_all plain (flag_prop a n as) \<longleftrightarrow> a \<noteq> ''disabled'' \<or> flag_prop a n as = []"
  "''disabled'' \<notin> set ns \<Longrightarrow> list_all plain (data_props ns as)"
proof -
  show "list_all plain (flag_prop a n as) \<longleftrightarrow> a \<noteq> ''disabled'' \<or> flag_prop a n as = []"
    by (induction as rule: flag_prop.induct) auto
  show "list_all plain (data_props ns as)" if "''disabled'' \<notin> set ns"
    using that by (auto simp: data_props_def list_all_iff elim!: data_named.elims)
qed (simp_all add: slot_def positioner_def list_all_iff split_beta)

lemma plain_attrs [simp]:
  assumes "list_all plain as"
  shows "\<not> is_disabled as" "list_all (attr_acts P) as" "\<not> list_ex (\<lambda>a. case a of On _ x \<Rightarrow> x = e | _ \<Rightarrow> False) as"
  using plain_disabled [OF assms] plain_acts [OF assms] plain_offers [OF assms] by auto

lemma icon_inert [simp]: "acts P (icon n)" "\<not> offers e (icon n)" "\<not> throws (icon n)" "node_text (icon n) = []"
  by (simp_all add: icon_def is_disabled_def)

lemma el_show_throws [simp]:
  "throws (el n ks) = list_ex throws ks" "throws (show_if b v) = (b \<and> throws v)"
  "node_text (el n ks) = concat (map node_text ks)" "node_text (show_if b v) = (if b then node_text v else [])"
  by (simp_all add: el_def show_if_def)

lemma slot_inert [simp]:
  "attr_acts P (slot n)" "\<not> (case slot n of On s x \<Rightarrow> x = e | _ \<Rightarrow> False)" "is_disabled (slot n # as) = is_disabled as"
  by (simp_all add: slot_def)

lemma subseq_around [simp]: "subseq xs (xs @ ys)" "subseq xs (ys @ xs)" "subseq xs (zs @ xs @ ys)"
  by (simp_all add: prefix_imp_subseq suffix_imp_subseq list_emb_append2)

lemma disabled_flag_on: "flag_on ''disabled'' as = is_disabled as"
  by (simp add: flag_on_def is_disabled_def)

end
