(* ===== verification/Ui_Form.thy ===== *)
theory Ui_Form
  imports Ui_Primitives
begin

text \<open>
  The form fields of \<open>web/src/components/ui/form.tsx\<close>: a field's identifiers, taken from the contexts of
  its \<open>FormField\<close> and \<open>FormItem\<close>, and the label, control, description and message that carry them. The state
  of a field is the form library's: an error, with its message when it has one.
\<close>

type_synonym field_error = "jsstr option option"

record form_ids =
  ff_id :: jsstr
  ff_name :: jsstr
  ff_formItemId :: jsstr
  ff_formDescriptionId :: jsstr
  ff_formMessageId :: jsstr

fun useFormField :: "jsstr option \<Rightarrow> jsstr option \<Rightarrow> js_error + form_ids" where
  "useFormField None item = Inl (OtherError (lit ''useFormField should be used within <FormField>''))"
| "useFormField (Some name) None = Inl (OtherError (lit ''useFormField should be used within <FormItem>''))"
| "useFormField (Some name) (Some i) = Inr \<lparr>ff_id = i, ff_name = name, ff_formItemId = i @ lit ''-form-item'',
     ff_formDescriptionId = i @ lit ''-form-item-description'', ff_formMessageId = i @ lit ''-form-item-message''\<rparr>"

text \<open>The children of an item find its identifier in their context.\<close>

definition FormItem :: "jsstr \<Rightarrow> (jsstr option \<Rightarrow> 'e node list) \<Rightarrow> 'e attr list \<Rightarrow> 'e node" where
  "FormItem i kids props = El ''div'' (spread [slot ''form-item''] props) (kids (Some i))"

definition FormLabel :: "jsstr option \<Rightarrow> jsstr option \<Rightarrow> 'e primitive" where
  "FormLabel field item props kids =
     (case useFormField field item of Inl e \<Rightarrow> Throw e
      | Inr f \<Rightarrow> Label (spread [slot ''form-label'', Attr ''htmlFor'' (ff_formItemId f)] props) kids)"

text \<open>Properties are merged from left to right: a later one replaces an earlier one of the same name, but
  event handlers are all kept.\<close>

fun is_handler :: "'e attr \<Rightarrow> bool" where
  "is_handler (Attr _ _) = False"
| "is_handler (Flag _ _) = False"
| "is_handler _ = True"

definition mergeProps :: "'e attr list \<Rightarrow> 'e attr list \<Rightarrow> 'e attr list" where
  "mergeProps as bs = filter (\<lambda>a. is_handler a \<or> attr_name a \<notin> attr_name ` set bs) as @ bs"

definition control_attrs :: "field_error \<Rightarrow> form_ids \<Rightarrow> 'e attr list" where
  "control_attrs error f =
     [Attr ''id'' (ff_formItemId f),
      Attr ''aria-describedby'' (if error = None then ff_formDescriptionId f
        else ff_formDescriptionId f @ lit '' '' @ ff_formMessageId f),
      Flag ''aria-invalid'' (error \<noteq> None), slot ''form-control'']"

text \<open>The control is its only child with the attributes of the field merged in; anything else is refused.\<close>

fun FormControl :: "jsstr option \<Rightarrow> jsstr option \<Rightarrow> field_error \<Rightarrow> 'e attr list \<Rightarrow> 'e node list \<Rightarrow> 'e node" where
  "FormControl field item error props kids =
     (case useFormField field item of Inl e \<Rightarrow> Throw e
      | Inr f \<Rightarrow> (case kids of
          [El n as ks] \<Rightarrow> El n (mergeProps (mergeProps as props) (control_attrs error f)) ks
        | _ \<Rightarrow> Throw (OtherError (lit ''React.Children.only expected to receive a single React element child.''))))"

definition FormDescription :: "jsstr option \<Rightarrow> jsstr option \<Rightarrow> 'e primitive" where
  "FormDescription field item props kids =
     (case useFormField field item of Inl e \<Rightarrow> Throw e
      | Inr f \<Rightarrow> El ''p'' (spread [slot ''form-description'', Attr ''id'' (ff_formDescriptionId f)] props) kids)"

definition FormMessage :: "jsstr option \<Rightarrow> jsstr option \<Rightarrow> field_error \<Rightarrow> 'e primitive" where
  "FormMessage field item error props kids =
     (case useFormField field item of Inl e \<Rightarrow> Throw e
      | Inr f \<Rightarrow> (let body = (case error of Some m \<Rightarrow> if opt_str m = [] then [] else [Txt (opt_str m)] | None \<Rightarrow> kids) in
          if body = [] then Null
          else El ''p'' (spread [slot ''form-message'', Attr ''id'' (ff_formMessageId f)] props) body))"

subsection \<open>The parts of a field refer to each other\<close>

fun attr_of :: "string \<Rightarrow> 'e node \<Rightarrow> jsstr option" where
  "attr_of n (El _ as _) = (case filter (\<lambda>a. attr_name a = n) as of Attr _ v # _ \<Rightarrow> Some v | _ \<Rightarrow> None)"
| "attr_of n _ = None"

lemma is_disabled_mergeProps:
  "''disabled'' \<notin> attr_name ` set bs \<Longrightarrow> is_disabled (mergeProps as bs) = is_disabled as"
proof -
  assume b: "''disabled'' \<notin> attr_name ` set bs"
  have "\<not> is_disabled bs"
  proof
    assume "is_disabled bs"
    then obtain a where "a \<in> set bs" "case a of Flag n v \<Rightarrow> n = ''disabled'' \<and> v | _ \<Rightarrow> False"
      by (auto simp: is_disabled_def list_ex_iff)
    moreover from this(2) obtain v where "a = Flag ''disabled'' v" by (cases a) auto
    ultimately have "Flag ''disabled'' v \<in> set bs" by simp
    then have "''disabled'' \<in> attr_name ` set bs" by force
    with b show False by simp
  qed
  moreover have nb: "x \<in> set bs \<Longrightarrow> attr_name x \<noteq> ''disabled''" for x using b by force
  have "is_disabled (filter (\<lambda>a. is_handler a \<or> attr_name a \<notin> attr_name ` set bs) as) = is_disabled as"
    by (induction as) (auto simp: is_disabled_def dest: nb split: attr.splits)
  ultimately show ?thesis by (simp add: mergeProps_def)
qed

lemma handlers_mergeProps:
  assumes "list_all plain bs"
  shows "list_all (attr_acts P) (mergeProps as bs) = list_all (attr_acts P) as"
proof -
  have "list_all (attr_acts P) (filter (\<lambda>a. is_handler a \<or> attr_name a \<notin> attr_name ` set bs) as) = list_all (attr_acts P) as"
    by (induction as) (auto elim: is_handler.elims)
  with assms show ?thesis by (simp add: mergeProps_def)
qed

lemma mergeProps_Nil [simp]: "mergeProps as [] = as"
  by (simp add: mergeProps_def)

lemma attr_of_mergeProps:
  "filter (\<lambda>a. attr_name a = n) bs = [Attr m v] \<Longrightarrow> list_all (\<lambda>a. attr_name a = n \<longrightarrow> \<not> is_handler a) as \<Longrightarrow>
   attr_of n (El t (mergeProps as bs) ks) = Some v"
proof -
  assume b: "filter (\<lambda>a. attr_name a = n) bs = [Attr m v]" and h: "list_all (\<lambda>a. attr_name a = n \<longrightarrow> \<not> is_handler a) as"
  have "Attr m v \<in> {a \<in> set bs. attr_name a = n}" unfolding set_filter [symmetric] b by simp
  then have "n \<in> attr_name ` set bs" by force
  then have "filter (\<lambda>a. attr_name a = n) (filter (\<lambda>a. is_handler a \<or> attr_name a \<notin> attr_name ` set bs) as) = []"
    using h by (auto simp: filter_empty_conv list_all_iff)
  then show ?thesis using b by (simp add: mergeProps_def)
qed

text \<open>The label is for the control, the control is described by the description and, exactly when the field
  has an error, by the message, which is shown then under that very identifier when it has a text; the
  wiring leaves the control's handlers and its disabled state alone.\<close>

theorem form_field_wired:
  assumes "list_all (\<lambda>a. attr_name a \<in> {''id'', ''aria-describedby''} \<longrightarrow> \<not> is_handler a) as"
    and c_def: "c = FormControl (Some n) (Some i) error [] [El t as ks :: 'e node]"
  shows "attr_of ''htmlFor'' (FormLabel (Some n) (Some i) [] ls :: 'e node) = attr_of ''id'' c
    \<and> attr_of ''aria-describedby'' c = Some (i @ lit ''-form-item-description'' @ (if error = None then [] else lit '' '' @ i @ lit ''-form-item-message''))
    \<and> attr_of ''id'' (FormDescription (Some n) (Some i) [] ls :: 'e node) = Some (i @ lit ''-form-item-description'')
    \<and> (error = Some (Some m) \<and> m \<noteq> [] \<longrightarrow>
        attr_of ''id'' (FormMessage (Some n) (Some i) error [] [] :: 'e node) = Some (i @ lit ''-form-item-message'')
        \<and> node_text (FormMessage (Some n) (Some i) error [] [] :: 'e node) = m)
    \<and> acts P c = acts P (El t as ks) \<and> throws c = throws (El t as ks)"
proof -
  define f where "f = \<lparr>ff_id = i, ff_name = n, ff_formItemId = i @ lit ''-form-item'',
     ff_formDescriptionId = i @ lit ''-form-item-description'', ff_formMessageId = i @ lit ''-form-item-message''\<rparr>"
  have c: "c = El t (mergeProps as (control_attrs error f)) ks" by (simp add: c_def f_def)
  have "attr_of ''id'' c = Some (ff_formItemId f)"
    unfolding c using assms(1) by (intro attr_of_mergeProps) (auto simp: control_attrs_def slot_def list_all_iff)
  moreover have "attr_of ''aria-describedby'' c = Some (i @ lit ''-form-item-description'' @ (if error = None then [] else lit '' '' @ i @ lit ''-form-item-message''))"
    unfolding c using assms(1) by (intro attr_of_mergeProps) (auto simp: control_attrs_def slot_def list_all_iff f_def)
  moreover have "is_disabled (mergeProps as (control_attrs error f)) = is_disabled as"
    by (rule is_disabled_mergeProps) (auto simp: control_attrs_def slot_def)
  moreover have "list_all (attr_acts P) (mergeProps as (control_attrs error f)) = list_all (attr_acts P) as"
    by (rule handlers_mergeProps) (simp add: control_attrs_def)
  ultimately show ?thesis
    by (simp add: c f_def FormLabel_def Label_def FormDescription_def FormMessage_def spread_def slot_def)
qed

text \<open>A control without a description still names one.\<close>

lemma described_by_missing:
  "attr_of ''aria-describedby'' (FormControl (Some n) (Some i) None [] [El t [] ks]) = Some (i @ lit ''-form-item-description'')"
  by (simp add: mergeProps_def control_attrs_def slot_def)

end
