(* ===== verification/Ui_Chart.thy ===== *)
theory Ui_Chart
  imports Ui_Primitives League Pages
begin

text \<open>
  The chart components of \<open>web/src/components/ui/chart.tsx\<close>: the configuration of the series, the style
  sheet that declares their colours for both themes, the lookup of a series' configuration from a
  tooltip payload, the tooltip and the legend; and the two charts of the trend page with the
  configurations they pass. Drawing is the chart library's.
\<close>

subsection \<open>Literals\<close>

definition t_total_latency :: jsstr where
  "t_total_latency = [0x603B, 0x5EF6, 0x8FDF]"


subsection \<open>Configurations\<close>

record chart_item =
  ci_label :: "jsstr option"
  ci_icon :: "string option"
  ci_color :: "jsstr option"
  ci_theme :: "(jsstr \<times> jsstr) list option"

type_synonym chart_config = "(jsstr \<times> chart_item) list"

definition THEMES :: "(jsstr \<times> jsstr) list" where
  "THEMES = [(lit ''light'', []), (lit ''dark'', lit ''.dark'')]"

fun useChart :: "chart_config option \<Rightarrow> js_error + chart_config" where
  "useChart None = Inl (OtherError (lit ''useChart must be used within a <ChartContainer />''))"
| "useChart (Some c) = Inr c"

text \<open>A property lookup on the configuration also finds what every object inherits: a function, which has
  neither label nor icon.\<close>

definition inherited_name :: "jsstr \<Rightarrow> bool" where
  "inherited_name k \<longleftrightarrow> k \<in> lit ` set inherited_functions \<or> k = lit ''__proto__''"

definition no_item :: chart_item where
  "no_item = \<lparr>ci_label = None, ci_icon = None, ci_color = None, ci_theme = None\<rparr>"

definition config_get :: "chart_config \<Rightarrow> jsstr \<Rightarrow> chart_item option" where
  "config_get config k =
     (case map_of config k of Some i \<Rightarrow> Some i | None \<Rightarrow> if inherited_name k then Some no_item else None)"

subsection \<open>The style sheet\<close>

text \<open>A theme given for a series replaces its colour only where it names one.\<close>

definition item_color :: "jsstr \<Rightarrow> chart_item \<Rightarrow> jsstr option" where
  "item_color theme i =
     (case Option.bind (ci_theme i) (\<lambda>t. map_of t theme) of Some c \<Rightarrow> Some c | None \<Rightarrow> ci_color i)"

definition color_line :: "jsstr \<Rightarrow> jsstr \<times> chart_item \<Rightarrow> jsstr" where
  "color_line theme ki =
     (let color = item_color theme (snd ki) in
      if truthy color then lit ''  --color-'' @ fst ki @ lit '': '' @ opt_str color @ lit '';'' else [])"

definition colorConfig :: "chart_config \<Rightarrow> chart_config" where
  "colorConfig config = filter (\<lambda>(k, i). ci_theme i \<noteq> None \<or> truthy (ci_color i)) config"

definition theme_block :: "jsstr \<Rightarrow> chart_config \<Rightarrow> jsstr \<times> jsstr \<Rightarrow> jsstr" where
  "theme_block chartId colors tp =
     [10] @ snd tp @ lit '' [data-chart='' @ chartId @ lit ''] {'' @ [10]
       @ js_join [10] (map (color_line (fst tp)) colors) @ [10] @ lit ''}'' @ [10]"

definition ChartStyle :: "jsstr \<Rightarrow> chart_config \<Rightarrow> 'e node" where
  "ChartStyle chartId config =
     (if colorConfig config = [] then Null
      else el ''style'' [Txt (js_join [10] (map (theme_block chartId (colorConfig config)) THEMES))])"

text \<open>The identifier of a chart is the given one or React's, without its colons.\<close>

definition chart_id :: "jsstr option \<Rightarrow> jsstr \<Rightarrow> jsstr" where
  "chart_id i uniqueId = lit ''chart-'' @ nullish i (filter (\<lambda>u. u \<noteq> 58) uniqueId)"

definition ChartContainer :: "jsstr \<Rightarrow> chart_config \<Rightarrow> jsstr option \<Rightarrow> 'e primitive" where
  "ChartContainer uniqueId config i props kids =
     El ''div'' (spread [slot ''chart'', Attr ''data-chart'' (chart_id i uniqueId)] (omit [''id''] props))
       [ChartStyle (chart_id i uniqueId) config, el ''ResponsiveContainer'' kids]"

subsection \<open>From a payload to its configuration\<close>

text \<open>A string the payload holds under the key names the configuration; else a string the drawn datum holds
  there; else the key itself.\<close>

fun json_str :: "json option \<Rightarrow> jsstr option" where
  "json_str (Some (JStr s)) = Some s"
| "json_str _ = None"

fun getPayloadConfigFromPayload :: "chart_config \<Rightarrow> json \<Rightarrow> jsstr \<Rightarrow> chart_item option" where
  "getPayloadConfigFromPayload config (JObj payload) key =
     (let payloadPayload = (case map_of payload (lit ''payload'') of Some (JObj p) \<Rightarrow> Some p | _ \<Rightarrow> None);
          configLabelKey = (case json_str (map_of payload key) of
              Some s \<Rightarrow> s
            | None \<Rightarrow> nullish (json_str (Option.bind payloadPayload (\<lambda>p. map_of p key))) key)
      in case config_get config configLabelKey of Some i \<Rightarrow> Some i | None \<Rightarrow> config_get config key)"
| "getPayloadConfigFromPayload config (JArr xs) key = config_get config key"
| "getPayloadConfigFromPayload config j key = None"

subsection \<open>The tooltip\<close>

text \<open>An entry of the payload the chart library passes, and its properties as the lookup sees them.\<close>

record tooltip_item =
  ti_name :: "jsstr option"
  ti_dataKey :: "jsstr option"
  ti_type :: "jsstr option"
  ti_value :: json
  ti_color :: "jsstr option"
  ti_payload :: "(jsstr \<times> json) list"

definition opt_field :: "string \<Rightarrow> jsstr option \<Rightarrow> (jsstr \<times> json) list" where
  "opt_field n v = (case v of None \<Rightarrow> [] | Some s \<Rightarrow> [(lit n, JStr s)])"

definition item_json :: "tooltip_item \<Rightarrow> json" where
  "item_json i = JObj (opt_field ''name'' (ti_name i) @ opt_field ''dataKey'' (ti_dataKey i) @ opt_field ''type'' (ti_type i)
     @ [(lit ''value'', ti_value i)] @ opt_field ''color'' (ti_color i) @ [(lit ''payload'', JObj (ti_payload i))])"

record tooltip_props =
  tt_active :: bool
  tt_hideLabel :: bool
  tt_hideIndicator :: bool
  tt_indicator :: string
  tt_label :: "jsstr option"
  tt_nameKey :: "jsstr option"
  tt_labelKey :: "jsstr option"

fun first_some_or :: "jsstr option list \<Rightarrow> jsstr \<Rightarrow> jsstr" where
  "first_some_or [] d = d"
| "first_some_or (Some s # os) d = s"
| "first_some_or (None # os) d = first_some_or os d"

definition tooltip_label :: "chart_config \<Rightarrow> tooltip_props \<Rightarrow> tooltip_item list \<Rightarrow> 'e node" where
  "tooltip_label config p payload =
     (case payload of [] \<Rightarrow> Null
      | item # _ \<Rightarrow>
        if tt_hideLabel p then Null
        else (let key = first_some_or [tt_labelKey p, ti_dataKey item, ti_name item] (lit ''value'');
                  itemConfig = getPayloadConfigFromPayload config (item_json item) key;
                  value = (case tt_label p of
                      Some l \<Rightarrow> if \<not> truthy (tt_labelKey p)
                        then (case Option.bind (config_get config l) ci_label of Some t \<Rightarrow> Some t | None \<Rightarrow> Some l)
                        else Option.bind itemConfig ci_label
                    | None \<Rightarrow> Option.bind itemConfig ci_label)
              in if truthy value then el ''div'' [Txt (opt_str value)] else Null))"

text \<open>A number is written in the reader's locale, anything else as a string.\<close>

fun tooltip_value :: "(rat \<Rightarrow> jsstr) \<Rightarrow> json \<Rightarrow> 'e node" where
  "tooltip_value toLocaleString JNull = Null"
| "tooltip_value toLocaleString (JNum x) = el ''span'' [Txt (toLocaleString x)]"
| "tooltip_value toLocaleString j = el ''span'' [Txt (json_text j)]"

definition tooltip_row :: "(rat \<Rightarrow> jsstr) \<Rightarrow> chart_config \<Rightarrow> tooltip_props \<Rightarrow> 'e node \<Rightarrow> bool \<Rightarrow> tooltip_item \<Rightarrow> 'e node" where
  "tooltip_row toLocaleString config p tooltipLabel nestLabel item =
     (let key = first_some_or [tt_nameKey p, ti_name item, ti_dataKey item] (lit ''value'');
          itemConfig = getPayloadConfigFromPayload config (item_json item) key
      in el ''div''
        [(case Option.bind itemConfig ci_icon of Some i \<Rightarrow> icon i
          | None \<Rightarrow> show_if (\<not> tt_hideIndicator p) (El ''div'' [Attr ''--color-bg'' (opt_str (ti_color item))] [])),
         el ''div''
          [el ''div'' [show_if nestLabel tooltipLabel,
             el ''span'' [Txt (case Option.bind itemConfig ci_label of Some l \<Rightarrow> l | None \<Rightarrow> opt_str (ti_name item))]],
           tooltip_value toLocaleString (ti_value item)]])"

definition ChartTooltipContent :: "(rat \<Rightarrow> jsstr) \<Rightarrow> chart_config option \<Rightarrow> tooltip_props \<Rightarrow> tooltip_item list \<Rightarrow> 'e node" where
  "ChartTooltipContent toLocaleString ctx p payload =
     (case useChart ctx of Inl e \<Rightarrow> Throw e
      | Inr config \<Rightarrow>
        if \<not> tt_active p \<or> payload = [] then Null
        else (let nestLabel = (length payload = 1 \<and> tt_indicator p \<noteq> ''dot''); tooltipLabel = tooltip_label config p payload
              in el ''div''
               [show_if (\<not> nestLabel) tooltipLabel,
                el ''div'' (map (tooltip_row toLocaleString config p tooltipLabel nestLabel)
                  (filter (\<lambda>i. ti_type i \<noteq> Some (lit ''none'')) payload))]))"

definition ChartLegendContent :: "chart_config option \<Rightarrow> bool \<Rightarrow> jsstr option \<Rightarrow> tooltip_item list \<Rightarrow> 'e node" where
  "ChartLegendContent ctx hideIcon nameKey payload =
     (case useChart ctx of Inl e \<Rightarrow> Throw e
      | Inr config \<Rightarrow>
        if payload = [] then Null
        else el ''div'' (map (\<lambda>item.
          (let itemConfig = getPayloadConfigFromPayload config (item_json item)
                 (first_some_or [nameKey, ti_dataKey item] (lit ''value''))
           in el ''div''
             [(case Option.bind itemConfig ci_icon of Some i \<Rightarrow> if hideIcon then El ''div'' [Attr ''color'' (opt_str (ti_color item))] [] else icon i
               | None \<Rightarrow> El ''div'' [Attr ''color'' (opt_str (ti_color item))] []),
              Txt (opt_str (Option.bind itemConfig ci_label))]))
          (filter (\<lambda>i. ti_type i \<noteq> Some (lit ''none'')) payload)))"

subsection \<open>The charts of the trend page\<close>

definition series :: "jsstr \<Rightarrow> jsstr \<Rightarrow> chart_item" where
  "series label color = \<lparr>ci_label = Some label, ci_icon = None, ci_color = Some color, ci_theme = None\<rparr>"

definition latencyConfig :: chart_config where
  "latencyConfig = [(lit ''latency_ms'', series t_total_latency (lit ''var(--chart-1)'')),
     (lit ''ttfb_ms'', series (lit ''TTFB'') (lit ''var(--chart-2)''))]"

definition lossConfig :: chart_config where
  "lossConfig = [(lit ''packet_loss'', series t_loss_rate (lit ''var(--chart-3)''))]"

text \<open>The lines of the two charts with the key of their values and their stroke.\<close>

definition latency_lines :: "(jsstr \<times> jsstr) list" where
  "latency_lines = [(lit ''latency_ms'', lit ''var(--color-latency_ms)''), (lit ''ttfb_ms'', lit ''var(--color-ttfb_ms)'')]"

definition loss_lines :: "(jsstr \<times> jsstr) list" where
  "loss_lines = [(lit ''packet_loss'', lit ''var(--color-packet_loss)'')]"

text \<open>A datum of the charts as an object: the fields of the point, with the label and the values that are
  missing for a failed sample.\<close>

definition num_or_null :: "rat option \<Rightarrow> json" where
  "num_or_null v = (case v of None \<Rightarrow> JNull | Some x \<Rightarrow> JNum x)"

definition point_json :: "jsstr \<Rightarrow> IPTrendPoint \<Rightarrow> (jsstr \<times> json) list" where
  "point_json label p =
     [(lit ''scanned_at'', JStr (tp_scanned_at p)), (lit ''available'', JBool (tp_available p)),
      (lit ''latency_ms'', if tp_available p then JNum (tp_latency_ms p) else JNull), (lit ''packet_loss'', JNum (tp_packet_loss p)),
      (lit ''tcp_connect_ms'', JNum (tp_tcp_connect_ms p)), (lit ''tls_handshake_ms'', JNum (tp_tls_handshake_ms p)),
      (lit ''ttfb_ms'', if tp_available p then JNum (tp_ttfb_ms p) else JNull), (lit ''colo'', JStr (tp_colo p)),
      (lit ''label'', JStr label)]"

text \<open>What the chart library passes for the lines at a datum: their key as name, the value there and the
  stroke as colour.\<close>

definition line_payload :: "(jsstr \<times> json) list \<Rightarrow> jsstr \<times> jsstr \<Rightarrow> tooltip_item" where
  "line_payload datum line = \<lparr>ti_name = Some (fst line), ti_dataKey = Some (fst line), ti_type = None,
     ti_value = nullish (map_of datum (fst line)) JNull, ti_color = Some (snd line), ti_payload = datum\<rparr>"

definition plain_tooltip :: "jsstr \<Rightarrow> tooltip_props" where
  "plain_tooltip label = \<lparr>tt_active = True, tt_hideLabel = False, tt_hideIndicator = False, tt_indicator = ''dot'',
     tt_label = Some label, tt_nameKey = None, tt_labelKey = None\<rparr>"

subsection \<open>Colours and labels\<close>

lemma sublist_js_join: "x \<in> set xs \<Longrightarrow> sublist x (js_join sep xs)"
proof (induction sep xs rule: js_join.induct)
  case (3 sep a b xs)
  show ?case
  proof (cases "x = a")
    case True
    then show ?thesis by (simp add: sublist_append)
  next
    case False
    with 3 have "sublist x (js_join sep (b # xs))" by simp
    then show ?thesis by (simp add: sublist_append)
  qed
qed auto

lemma sublist_between: "sublist x ys \<Longrightarrow> sublist x (ps @ ys @ ss)"
  by (auto simp: sublist_def) (metis append.assoc)

text \<open>Every colour a theme has for a series is declared in the block of that theme.\<close>

lemma colour_declared:
  assumes "(k, i) \<in> set config" "tp \<in> set THEMES" "item_color (fst tp) i = Some c" "c \<noteq> []"
  shows "sublist (theme_block cid (colorConfig config) tp) (node_text (ChartStyle cid config))
    \<and> sublist (lit ''  --color-'' @ k @ lit '': '' @ c @ lit '';'') (theme_block cid (colorConfig config) tp)"
proof -
  have "ci_theme i \<noteq> None \<or> truthy (ci_color i)"
    using assms(3,4) by (auto simp: item_color_def truthy_def split: option.splits)
  then have k: "(k, i) \<in> set (colorConfig config)" using assms(1) by (simp add: colorConfig_def)
  then have "sublist (color_line (fst tp) (k, i)) (js_join [10] (map (color_line (fst tp)) (colorConfig config)))"
    by (intro sublist_js_join) simp
  then have "sublist (color_line (fst tp) (k, i)) (theme_block cid (colorConfig config) tp)"
    using sublist_between [where ps = "[10] @ snd tp @ lit '' [data-chart='' @ cid @ lit ''] {'' @ [10]"
        and ss = "[10] @ lit ''}'' @ [10]"] by (simp add: theme_block_def)
  moreover have "color_line (fst tp) (k, i) = lit ''  --color-'' @ k @ lit '': '' @ c @ lit '';''"
    using assms(3,4) by (simp add: color_line_def truthy_def opt_str_def)
  moreover have "sublist (theme_block cid (colorConfig config) tp) (js_join [10] (map (theme_block cid (colorConfig config)) THEMES))"
    using assms(2) by (intro sublist_js_join) simp
  ultimately show ?thesis using k by (auto simp: ChartStyle_def)
qed

text \<open>The tooltip over a datum of the trend charts.\<close>

definition trend_tooltip :: "(rat \<Rightarrow> jsstr) \<Rightarrow> chart_config \<Rightarrow> (jsstr \<times> jsstr) list \<Rightarrow> jsstr \<Rightarrow> IPTrendPoint \<Rightarrow> unit node" where
  "trend_tooltip loc config lines label p =
     ChartTooltipContent loc (Some config) (plain_tooltip label) (map (line_payload (point_json label p)) lines)"

lemma line_config:
  "getPayloadConfigFromPayload latencyConfig (item_json (line_payload (point_json label p) (lit ''latency_ms'', s))) (lit ''latency_ms'')
     = Some (series t_total_latency (lit ''var(--chart-1)''))"
  "getPayloadConfigFromPayload latencyConfig (item_json (line_payload (point_json label p) (lit ''ttfb_ms'', s))) (lit ''ttfb_ms'')
     = Some (series (lit ''TTFB'') (lit ''var(--chart-2)''))"
  "getPayloadConfigFromPayload lossConfig (item_json (line_payload (point_json label p) (lit ''packet_loss'', s))) (lit ''packet_loss'')
     = Some (series t_loss_rate (lit ''var(--chart-3)''))"
  by (simp_all add: item_json_def line_payload_def opt_field_def point_json_def config_get_def latencyConfig_def lossConfig_def Let_def)

lemma line_payload_simps [simp]:
  "ti_name (line_payload d l) = Some (fst l)" "ti_dataKey (line_payload d l) = Some (fst l)" "ti_type (line_payload d l) = None"
  "ti_value (line_payload d l) = nullish (map_of d (fst l)) JNull" "ti_color (line_payload d l) = Some (snd l)"
  by (simp_all add: line_payload_def)

lemma plain_tooltip_simps [simp]:
  "tt_active (plain_tooltip l)" "\<not> tt_hideIndicator (plain_tooltip l)" "tt_indicator (plain_tooltip l) = ''dot''"
  "tt_nameKey (plain_tooltip l) = None"
  by (simp_all add: plain_tooltip_def)

lemma point_values:
  "map_of (point_json label p) (lit ''latency_ms'') = Some (if tp_available p then JNum (tp_latency_ms p) else JNull)"
  "map_of (point_json label p) (lit ''ttfb_ms'') = Some (if tp_available p then JNum (tp_ttfb_ms p) else JNull)"
  "map_of (point_json label p) (lit ''packet_loss'') = Some (JNum (tp_packet_loss p))"
  by (simp_all add: point_json_def)

lemma tooltip_label_plain:
  assumes "\<not> inherited_name label" "label \<notin> fst ` set config" "label \<noteq> []"
  shows "tooltip_label config (plain_tooltip label) (i # is) = el ''div'' [Txt label]"
proof -
  have "map_of config label = None" using assms(2) by (simp add: map_of_eq_None_iff)
  then show ?thesis using assms by (simp add: tooltip_label_def plain_tooltip_def config_get_def Let_def)
qed

text \<open>The charts of the trend page are readable: every stroke refers to a colour variable that the chart's style sheet declares for both themes, the tooltip over a sample shows its time and, for each line, the line's label and value, and a failed sample shows its loss but no latency, never a zero.\<close>

theorem trend_charts_readable:
  assumes "\<not> inherited_name label" "label \<notin> fst ` set (latencyConfig @ lossConfig)" "label \<noteq> []" "tp \<in> set THEMES"
  shows "(\<forall>(k, stroke) \<in> set latency_lines. stroke = lit ''var(--color-'' @ k @ lit '')'' \<and> (\<exists>c.
        sublist (theme_block cid (colorConfig latencyConfig) tp) (node_text (ChartStyle cid latencyConfig :: unit node))
        \<and> sublist (lit ''  --color-'' @ k @ lit '': '' @ c @ lit '';'') (theme_block cid (colorConfig latencyConfig) tp)))
    \<and> (\<forall>(k, stroke) \<in> set loss_lines. stroke = lit ''var(--color-'' @ k @ lit '')'' \<and> (\<exists>c.
        sublist (theme_block cid (colorConfig lossConfig) tp) (node_text (ChartStyle cid lossConfig :: unit node))
        \<and> sublist (lit ''  --color-'' @ k @ lit '': '' @ c @ lit '';'') (theme_block cid (colorConfig lossConfig) tp)))
    \<and> node_text (trend_tooltip loc latencyConfig latency_lines label p) =
        label @ t_total_latency @ (if tp_available p then loc (tp_latency_ms p) else [])
          @ lit ''TTFB'' @ (if tp_available p then loc (tp_ttfb_ms p) else [])
    \<and> node_text (trend_tooltip loc lossConfig loss_lines label p) = label @ t_loss_rate @ loc (tp_packet_loss p)"
proof -
  define declares where "declares config k \<longleftrightarrow> (\<exists>c. sublist (theme_block cid (colorConfig config) tp) (node_text (ChartStyle cid config :: unit node))
      \<and> sublist (lit ''  --color-'' @ k @ lit '': '' @ c @ lit '';'') (theme_block cid (colorConfig config) tp))" for config k
  have colours: "declares config k"
    if "(k, series l (lit (v # vs))) \<in> set config" for config k l v vs
    using colour_declared [OF that assms(4), of "lit (v # vs)" cid] by (auto simp: item_color_def series_def declares_def)
  have label: "tooltip_label latencyConfig (plain_tooltip label) (i # is) = el ''div'' [Txt label]"
    "tooltip_label lossConfig (plain_tooltip label) (i # is) = el ''div'' [Txt label]" for i "is"
    using assms(1-3) by (auto intro!: tooltip_label_plain)
  have strokes: "lit ''var(--color-latency_ms)'' = lit ''var(--color-'' @ lit ''latency_ms'' @ lit '')''"
    "lit ''var(--color-ttfb_ms)'' = lit ''var(--color-'' @ lit ''ttfb_ms'' @ lit '')''"
    "lit ''var(--color-packet_loss)'' = lit ''var(--color-'' @ lit ''packet_loss'' @ lit '')''"
    by (simp_all flip: lit_append)
  have "(lit ''latency_ms'', series t_total_latency (lit ''var(--chart-1)'')) \<in> set latencyConfig"
    "(lit ''ttfb_ms'', series (lit ''TTFB'') (lit ''var(--chart-2)'')) \<in> set latencyConfig"
    "(lit ''packet_loss'', series t_loss_rate (lit ''var(--chart-3)'')) \<in> set lossConfig"
    by (simp_all add: latencyConfig_def lossConfig_def)
  note declared = this [THEN colours]
  have texts: "node_text (trend_tooltip loc latencyConfig latency_lines label p) =
        label @ t_total_latency @ (if tp_available p then loc (tp_latency_ms p) else [])
          @ lit ''TTFB'' @ (if tp_available p then loc (tp_ttfb_ms p) else [])"
    "node_text (trend_tooltip loc lossConfig loss_lines label p) = label @ t_loss_rate @ loc (tp_packet_loss p)"
    by (simp_all add: trend_tooltip_def ChartTooltipContent_def latency_lines_def loss_lines_def label tooltip_row_def
        line_config point_values series_def Let_def)
  show ?thesis unfolding declares_def [symmetric]
    using declared texts strokes by (simp only: latency_lines_def loss_lines_def) simp
qed

theorem trend_charts_readable_witness:
  "node_text (trend_tooltip num_text lossConfig loss_lines (lit ''06/01 12:00'')
      \<lparr>tp_scanned_at = lit ''2025-06-01T04:00:00Z'', tp_available = False, tp_latency_ms = 0, tp_packet_loss = 100, tp_tcp_connect_ms = 0,
        tp_tls_handshake_ms = 0, tp_ttfb_ms = 0, tp_colo = []\<rparr>) = lit ''06/01 12:00'' @ t_loss_rate @ num_text 100"
proof -
  have "\<not> inherited_name (lit ''06/01 12:00'')" "lit ''06/01 12:00'' \<notin> fst ` set (latencyConfig @ lossConfig)"
    by (auto simp: inherited_name_def inherited_functions_def latencyConfig_def lossConfig_def)
  then show ?thesis
    using trend_charts_readable [of "lit ''06/01 12:00''" "(lit ''light'', [])" "lit ''chart-1''" num_text] by (simp add: THEMES_def)
qed

end
