(* ===== verification/Ui_Sidebar.thy ===== *)
theory Ui_Sidebar
  imports Ui_Primitives
begin

text \<open>
  The sidebar of \<open>web/src/components/ui/sidebar.tsx\<close>: its provider with the state of the desktop bar and
  of the mobile sheet, the keyboard shortcut and the cookie, what the bar renders, the tooltips of its
  buttons with their timer, and \<open>hooks/use-mobile\<close> that decides between the two layouts.
\<close>

subsection \<open>The layout switch\<close>

definition MOBILE_BREAKPOINT :: int where
  "MOBILE_BREAKPOINT = 768"

definition mobile_query :: jsstr where
  "mobile_query = lit ''(max-width: '' @ show_int (MOBILE_BREAKPOINT - 1) @ lit ''px)''"

text \<open>\<open>matchMedia\<close> on the query, in a window of the given width, when there is a window.\<close>

definition max_width_matches :: "int \<Rightarrow> rat \<Rightarrow> bool" where
  "max_width_matches n width \<longleftrightarrow> width \<le> of_int n"

fun useIsMobile :: "rat option \<Rightarrow> bool" where
  "useIsMobile None = False"
| "useIsMobile (Some width) = max_width_matches (MOBILE_BREAKPOINT - 1) width"

text \<open>The repository holds the hook twice; the second copy assumes a window.\<close>

definition useIsMobile_tsx :: "rat \<Rightarrow> bool" where
  "useIsMobile_tsx width = max_width_matches (768 - 1) width"

lemma mobile_copies_agree: "useIsMobile_tsx w = useIsMobile (Some w)"
  by (simp add: useIsMobile_tsx_def MOBILE_BREAKPOINT_def)

subsection \<open>The provider\<close>

definition cookie_text :: "bool \<Rightarrow> jsstr" where
  "cookie_text openState = lit ''sidebar_state='' @ show_bool openState @ lit ''; path=/; max-age='' @ show_int (60 * 60 * 24 * 7)"

record sidebar_props =
  sp_defaultOpen :: bool
  sp_open :: "bool option"
  sp_onOpenChange :: bool

record sidebar_state =
  sb_width :: rat
  sb_openMobile :: bool
  sb_open :: bool

datatype sidebar_effect = WriteCookie jsstr | CallOpenChange bool | PreventDefault

definition sidebar_init :: "sidebar_props \<Rightarrow> rat \<Rightarrow> sidebar_state" where
  "sidebar_init p width = \<lparr>sb_width = width, sb_openMobile = False, sb_open = sp_defaultOpen p\<rparr>"

definition sidebar_mobile :: "sidebar_state \<Rightarrow> bool" where
  "sidebar_mobile s = useIsMobile (Some (sb_width s))"

definition sidebar_open :: "sidebar_props \<Rightarrow> sidebar_state \<Rightarrow> bool" where
  "sidebar_open p s = (case sp_open p of Some b \<Rightarrow> b | None \<Rightarrow> sb_open s)"

text \<open>The setter takes a value or a function of the current value; the current value is the one of the
  last render, since the function is called at once.\<close>

datatype setter = ToValue bool | Update "bool \<Rightarrow> bool"

definition setOpen :: "sidebar_props \<Rightarrow> setter \<Rightarrow> sidebar_state \<Rightarrow> sidebar_state \<times> sidebar_effect list" where
  "setOpen p value s =
     (let openState = (case value of Update f \<Rightarrow> f (sidebar_open p s) | ToValue b \<Rightarrow> b) in
      if sp_onOpenChange p then (s, [CallOpenChange openState, WriteCookie (cookie_text openState)])
      else (s\<lparr>sb_open := openState\<rparr>, [WriteCookie (cookie_text openState)]))"

definition toggleSidebar :: "sidebar_props \<Rightarrow> sidebar_state \<Rightarrow> sidebar_state \<times> sidebar_effect list" where
  "toggleSidebar p s =
     (if sidebar_mobile s then (s\<lparr>sb_openMobile := \<not> sb_openMobile s\<rparr>, []) else setOpen p (Update Not) s)"

definition handleKeyDown ::
  "sidebar_props \<Rightarrow> jsstr \<Rightarrow> bool \<Rightarrow> bool \<Rightarrow> sidebar_state \<Rightarrow> sidebar_state \<times> sidebar_effect list" where
  "handleKeyDown p key metaKey ctrlKey s =
     (if key = lit ''b'' \<and> (metaKey \<or> ctrlKey)
      then (let (s', es) = toggleSidebar p s in (s', PreventDefault # es)) else (s, []))"

datatype sidebar_event = Toggle | KeyDown jsstr bool bool | OpenMobile bool | Resize rat

fun sidebar_step :: "sidebar_props \<Rightarrow> sidebar_event \<Rightarrow> sidebar_state \<Rightarrow> sidebar_state \<times> sidebar_effect list" where
  "sidebar_step p Toggle s = toggleSidebar p s"
| "sidebar_step p (KeyDown k m c) s = handleKeyDown p k m c s"
| "sidebar_step p (OpenMobile b) s = (s\<lparr>sb_openMobile := b\<rparr>, [])"
| "sidebar_step p (Resize w) s = (s\<lparr>sb_width := w\<rparr>, [])"

text \<open>A run of events from the page load, with the cookie they leave.\<close>

fun cookie_after :: "jsstr option \<Rightarrow> sidebar_effect list \<Rightarrow> jsstr option" where
  "cookie_after c [] = c"
| "cookie_after c (WriteCookie v # es) = cookie_after (Some v) es"
| "cookie_after c (_ # es) = cookie_after c es"

fun sidebar_run :: "sidebar_props \<Rightarrow> sidebar_event list \<Rightarrow> sidebar_state \<times> jsstr option \<Rightarrow> sidebar_state \<times> jsstr option" where
  "sidebar_run p [] sc = sc"
| "sidebar_run p (e # es) (s, c) =
     (let (s', fx) = sidebar_step p e s in sidebar_run p es (s', cookie_after c fx))"

subsection \<open>What the sidebar renders\<close>

record 'e sidebar_ctx =
  cx_open :: bool
  cx_isMobile :: bool
  cx_openMobile :: bool
  cx_setOpenMobile :: "bool \<Rightarrow> 'e"
  cx_toggle :: 'e

fun useSidebar :: "'e sidebar_ctx option \<Rightarrow> js_error + 'e sidebar_ctx" where
  "useSidebar None = Inl (OtherError (lit ''useSidebar must be used within a SidebarProvider.''))"
| "useSidebar (Some c) = Inr c"

definition sidebar_context :: "sidebar_props \<Rightarrow> (sidebar_event \<Rightarrow> 'e) \<Rightarrow> sidebar_state \<Rightarrow> 'e sidebar_ctx" where
  "sidebar_context p emb s = \<lparr>cx_open = sidebar_open p s, cx_isMobile = sidebar_mobile s,
     cx_openMobile = sb_openMobile s, cx_setOpenMobile = emb \<circ> OpenMobile, cx_toggle = emb Toggle\<rparr>"

definition sidebar_data_state :: "'e sidebar_ctx \<Rightarrow> jsstr" where
  "sidebar_data_state c = (if cx_open c then lit ''expanded'' else lit ''collapsed'')"

text \<open>The wrapper the provider renders around the page.\<close>

definition sidebar_wrapper :: "'e primitive" where
  "sidebar_wrapper props kids = El ''div'' (spread [slot ''sidebar-wrapper''] (omit [''defaultOpen'', ''open''] props)) kids"

definition Sidebar :: "'e sidebar_ctx option \<Rightarrow> 'e primitive" where
  "Sidebar ctx props kids =
     (case useSidebar ctx of Inl e \<Rightarrow> Throw e
      | Inr c \<Rightarrow>
        (let side = prop_or ''side'' ''left'' props; collapsible = prop_or ''collapsible'' ''offcanvas'' props;
             rest = omit [''side'', ''variant'', ''collapsible'', ''dir''] props in
         if collapsible = lit ''none'' then El ''div'' (spread [slot ''sidebar''] rest) kids
         else if cx_isMobile c then
           Sheet (spread [Flag ''open'' (cx_openMobile c), OnBool ''openChange'' (cx_setOpenMobile c)] rest)
            [SheetContent (data_props [''dir''] props
                @ [Attr ''data-sidebar'' (lit ''sidebar''), slot ''sidebar'', Attr ''data-mobile'' (lit ''true''), Attr ''side'' side])
              [SheetHeader [] [SheetTitle [] [Txt (lit ''Sidebar'')],
                 SheetDescription [] [Txt (lit ''Displays the mobile sidebar.'')]],
               el ''div'' kids]]
         else
           El ''div'' [Attr ''data-state'' (sidebar_data_state c),
              Attr ''data-collapsible'' (if cx_open c then [] else collapsible),
              Attr ''data-variant'' (prop_or ''variant'' ''sidebar'' props), Attr ''data-side'' side, slot ''sidebar'']
            [El ''div'' [slot ''sidebar-gap''] [],
             El ''div'' (spread [slot ''sidebar-container'', Attr ''data-side'' side] rest)
               [El ''div'' [Attr ''data-sidebar'' (lit ''sidebar''), slot ''sidebar-inner''] kids]]))"

text \<open>A click handler of the caller runs besides the toggle.\<close>

definition clicks :: "'e attr list \<Rightarrow> 'e attr list" where
  "clicks props = filter (\<lambda>a. case a of On n _ \<Rightarrow> n = ''click'' | _ \<Rightarrow> False) props"

definition no_clicks :: "'e attr list \<Rightarrow> 'e attr list" where
  "no_clicks props = filter (\<lambda>a. case a of On n _ \<Rightarrow> n \<noteq> ''click'' | _ \<Rightarrow> True) props"

definition SidebarTrigger :: "'e sidebar_ctx option \<Rightarrow> 'e primitive" where
  "SidebarTrigger ctx props kids =
     (case useSidebar ctx of Inl e \<Rightarrow> Throw e
      | Inr c \<Rightarrow> Button (spread [Attr ''data-sidebar'' (lit ''trigger''), slot ''sidebar-trigger'', Attr ''variant'' (lit ''ghost''),
            Attr ''size'' (lit ''icon-sm'')] (no_clicks props) @ clicks props @ [On ''click'' (cx_toggle c)])
          [icon ''PanelLeftIcon'', el ''span'' [Txt (lit ''Toggle Sidebar'')]])"

definition SidebarRail :: "'e sidebar_ctx option \<Rightarrow> 'e primitive" where
  "SidebarRail ctx props kids =
     (case useSidebar ctx of Inl e \<Rightarrow> Throw e
      | Inr c \<Rightarrow> El ''button'' (spread [Attr ''data-sidebar'' (lit ''rail''), slot ''sidebar-rail'',
            Attr ''aria-label'' (lit ''Toggle Sidebar''), Attr ''tabIndex'' (lit ''-1''), On ''click'' (cx_toggle c),
            Attr ''title'' (lit ''Toggle Sidebar'')] props) kids)"

definition SidebarInset :: "'e primitive" where
  "SidebarInset props kids = El ''main'' (spread [slot ''sidebar-inset''] props) kids"

definition SidebarInput :: "'e primitive" where
  "SidebarInput props kids = Input (spread [slot ''sidebar-input'', Attr ''data-sidebar'' (lit ''input'')] props) kids"

definition SidebarHeader :: "'e primitive" where
  "SidebarHeader props kids = El ''div'' (spread [slot ''sidebar-header'', Attr ''data-sidebar'' (lit ''header'')] props) kids"

definition SidebarFooter :: "'e primitive" where
  "SidebarFooter props kids = El ''div'' (spread [slot ''sidebar-footer'', Attr ''data-sidebar'' (lit ''footer'')] props) kids"

definition SidebarSeparator :: "'e primitive" where
  "SidebarSeparator props kids = Separator (spread [slot ''sidebar-separator'', Attr ''data-sidebar'' (lit ''separator'')] props) kids"

definition SidebarContent :: "'e primitive" where
  "SidebarContent props kids = El ''div'' (spread [slot ''sidebar-content'', Attr ''data-sidebar'' (lit ''content'')] props) kids"

definition SidebarGroup :: "'e primitive" where
  "SidebarGroup props kids = El ''div'' (spread [slot ''sidebar-group'', Attr ''data-sidebar'' (lit ''group'')] props) kids"

definition SidebarGroupContent :: "'e primitive" where
  "SidebarGroupContent props kids = El ''div'' (spread [slot ''sidebar-group-content'', Attr ''data-sidebar'' (lit ''group-content'')] props) kids"

definition SidebarMenu :: "'e primitive" where
  "SidebarMenu props kids = El ''ul'' (spread [slot ''sidebar-menu'', Attr ''data-sidebar'' (lit ''menu'')] props) kids"

definition SidebarMenuItem :: "'e primitive" where
  "SidebarMenuItem props kids = El ''li'' (spread [slot ''sidebar-menu-item'', Attr ''data-sidebar'' (lit ''menu-item'')] props) kids"

definition SidebarMenuBadge :: "'e primitive" where
  "SidebarMenuBadge props kids = El ''div'' (spread [slot ''sidebar-menu-badge'', Attr ''data-sidebar'' (lit ''menu-badge'')] props) kids"

definition SidebarMenuSub :: "'e primitive" where
  "SidebarMenuSub props kids = El ''ul'' (spread [slot ''sidebar-menu-sub'', Attr ''data-sidebar'' (lit ''menu-sub'')] props) kids"

definition SidebarMenuSubItem :: "'e primitive" where
  "SidebarMenuSubItem props kids = El ''li'' (spread [slot ''sidebar-menu-sub-item'', Attr ''data-sidebar'' (lit ''menu-sub-item'')] props) kids"


definition SidebarGroupLabel :: "'e primitive" where
  "SidebarGroupLabel props kids = El ''div'' (spread [slot ''sidebar-group-label'', Attr ''data-sidebar'' (lit ''group-label'')] props) kids"

definition SidebarGroupAction :: "'e primitive" where
  "SidebarGroupAction props kids = El ''button'' (spread [slot ''sidebar-group-action'', Attr ''data-sidebar'' (lit ''group-action'')] props) kids"

definition SidebarMenuAction :: "'e primitive" where
  "SidebarMenuAction props kids = El ''button'' (spread [slot ''sidebar-menu-action'', Attr ''data-sidebar'' (lit ''menu-action'')]
     (omit [''showOnHover''] props)) kids"

text \<open>The width of a skeleton row, from a random number in \<open>[0, 1)\<close>.\<close>

definition skeleton_width :: "rat \<Rightarrow> int" where
  "skeleton_width random = \<lfloor>random * 40\<rfloor> + 50"

definition SidebarMenuSkeleton :: "rat \<Rightarrow> 'e primitive" where
  "SidebarMenuSkeleton random props kids =
     El ''div'' (spread [slot ''sidebar-menu-skeleton'', Attr ''data-sidebar'' (lit ''menu-skeleton'')] (omit [''showIcon''] props))
      [show_if (flag_or ''showIcon'' False props) (Skeleton [Attr ''data-sidebar'' (lit ''menu-skeleton-icon'')] []),
       Skeleton [Attr ''data-sidebar'' (lit ''menu-skeleton-text''),
         Attr ''--skeleton-width'' (show_int (skeleton_width random) @ lit ''%'')] []]"

definition SidebarMenuSubButton :: "'e primitive" where
  "SidebarMenuSubButton props kids = El ''a'' (spread ([slot ''sidebar-menu-sub-button'', Attr ''data-sidebar'' (lit ''menu-sub-button''),
       Attr ''data-size'' (prop_or ''size'' ''md'' props)] @ [Flag ''data-active'' (flag_or ''isActive'' False props)])
     (omit [''size'', ''isActive''] props)) kids"

subsection \<open>The tooltips of the menu buttons\<close>

record tooltip_state =
  tp_enabled :: bool
  tp_timer :: bool
  tp_deps :: "(bool \<times> bool \<times> jsstr) option"

text \<open>The effect runs when one of its dependencies changed; it first clears the timer of the last run.\<close>

definition tooltip_render :: "bool \<Rightarrow> bool \<Rightarrow> jsstr \<Rightarrow> tooltip_state \<Rightarrow> tooltip_state" where
  "tooltip_render isMobile collapsed tooltip t =
     (if tp_deps t = Some (isMobile, collapsed, tooltip) then t
      else if \<not> collapsed \<or> isMobile \<or> tooltip = [] then
        \<lparr>tp_enabled = False, tp_timer = False, tp_deps = Some (isMobile, collapsed, tooltip)\<rparr>
      else \<lparr>tp_enabled = tp_enabled t, tp_timer = True, tp_deps = Some (isMobile, collapsed, tooltip)\<rparr>)"

definition tooltip_timeout :: "tooltip_state \<Rightarrow> tooltip_state" where
  "tooltip_timeout t = (if tp_timer t then t\<lparr>tp_enabled := True, tp_timer := False\<rparr> else t)"

inductive tooltip_reach :: "tooltip_state \<Rightarrow> bool" where
  Mount: "tooltip_reach \<lparr>tp_enabled = False, tp_timer = False, tp_deps = None\<rparr>"
| Render: "tooltip_reach t \<Longrightarrow> tooltip_reach (tooltip_render m c s t)"
| Timeout: "tooltip_reach t \<Longrightarrow> tooltip_reach (tooltip_timeout t)"

definition SidebarMenuButton :: "'e sidebar_ctx option \<Rightarrow> tooltip_state \<Rightarrow> jsstr \<Rightarrow> 'e primitive" where
  "SidebarMenuButton ctx t tooltip props kids =
     (case useSidebar ctx of Inl e \<Rightarrow> Throw e
      | Inr c \<Rightarrow>
        (let attrs = spread [slot ''sidebar-menu-button'', Attr ''data-sidebar'' (lit ''menu-button''),
               Attr ''data-size'' (prop_or ''size'' ''default'' props), Flag ''data-active'' (flag_or ''isActive'' False props)]
               (omit [''isActive'', ''variant'', ''size''] props) in
         if tooltip = [] then El ''button'' attrs kids
         else Tooltip [Flag ''disabled'' (\<not> tp_enabled t)]
           [TooltipTrigger (Attr ''delay'' (lit ''350'') # attrs) kids,
            show_if (tp_enabled t) (TooltipContent [Attr ''side'' (lit ''right''), Attr ''align'' (lit ''center'')] [Txt tooltip])]))"

lemma tooltip_inv:
  "tooltip_reach t \<Longrightarrow> tp_enabled t \<or> tp_timer t \<Longrightarrow> \<exists>tooltip. tp_deps t = Some (False, True, tooltip) \<and> tooltip \<noteq> []"
proof (induction rule: tooltip_reach.induct)
  case (Render t m c s)
  then show ?case by (auto simp: tooltip_render_def split: if_splits)
next
  case (Timeout t)
  then show ?case by (auto simp: tooltip_timeout_def split: if_splits)
qed simp

lemma skeleton_width_bounds:
  assumes "0 \<le> random" "random < 1"
  shows "50 \<le> skeleton_width random \<and> skeleton_width random \<le> 89"
  using assms by (auto simp: skeleton_width_def floor_less_iff le_floor_iff)

subsection \<open>The bar and its cookie\<close>

lemma setOpen_uncontrolled:
  "\<not> sp_onOpenChange p \<Longrightarrow> sp_open p = None \<Longrightarrow>
   toggleSidebar p s = (if sidebar_mobile s then (s\<lparr>sb_openMobile := \<not> sb_openMobile s\<rparr>, [])
     else (s\<lparr>sb_open := \<not> sb_open s\<rparr>, [WriteCookie (cookie_text (\<not> sb_open s))]))"
  by (simp add: toggleSidebar_def setOpen_def sidebar_open_def Let_def)

text \<open>The cookie of a run says what the bar shows, unless the bar was never toggled.\<close>

definition cookie_agrees :: "sidebar_props \<Rightarrow> sidebar_state \<times> jsstr option \<Rightarrow> bool" where
  "cookie_agrees p sc \<longleftrightarrow> (case snd sc of None \<Rightarrow> sb_open (fst sc) = sp_defaultOpen p | Some v \<Rightarrow> v = cookie_text (sb_open (fst sc)))"

lemma cookie_agrees_run:
  "\<not> sp_onOpenChange p \<Longrightarrow> sp_open p = None \<Longrightarrow> cookie_agrees p sc \<Longrightarrow> cookie_agrees p (sidebar_run p es sc)"
proof (induction es arbitrary: sc)
  case (Cons e es)
  obtain s c where sc: "sc = (s, c)" by (cases sc)
  have "cookie_agrees p (fst (sidebar_step p e s), cookie_after c (snd (sidebar_step p e s)))"
    using Cons.prems by (cases e)
      (auto simp: sc cookie_agrees_def handleKeyDown_def setOpen_uncontrolled split: option.splits)
  with Cons show ?case by (simp add: sc split_beta)
qed simp

text \<open>The sidebar's control works on what is on the screen: the trigger, the rail and Ctrl or Cmd with B do the same, on a narrow window they open or close the sheet and nothing else, on a wide one the bar and nothing else, any other key is left to the page, and whatever was done, the cookie written last says whether the bar is open.\<close>

theorem sidebar_control:
  assumes "sp_open p = None" "\<not> sp_onOpenChange p" "sidebar_run p es (sidebar_init p w, None) = (s, cookie)"
  shows "offers (emb Toggle) (SidebarTrigger (Some (sidebar_context p emb s)) [] [])
    \<and> offers (emb Toggle) (SidebarRail (Some (sidebar_context p emb s)) [] [])
    \<and> (meta \<or> ctrl \<longrightarrow> fst (sidebar_step p (KeyDown (lit ''b'') meta ctrl) s) = fst (sidebar_step p Toggle s))
    \<and> (k \<noteq> lit ''b'' \<or> \<not> (meta \<or> ctrl) \<longrightarrow> sidebar_step p (KeyDown k meta ctrl) s = (s, []))
    \<and> fst (sidebar_step p Toggle s) =
        (if sb_width s \<le> 767 then s\<lparr>sb_openMobile := \<not> sb_openMobile s\<rparr> else s\<lparr>sb_open := \<not> sb_open s\<rparr>)
    \<and> (case cookie of None \<Rightarrow> sb_open s = sp_defaultOpen p | Some v \<Rightarrow> v = cookie_text (sb_open s))"
proof -
  have "cookie_agrees p (sidebar_init p w, None)" by (simp add: cookie_agrees_def sidebar_init_def)
  from cookie_agrees_run [OF assms(2,1) this, of es] have "cookie_agrees p (s, cookie)" by (simp only: assms(3))
  then have c: "case cookie of None \<Rightarrow> sb_open s = sp_defaultOpen p | Some v \<Rightarrow> v = cookie_text (sb_open s)"
    by (simp add: cookie_agrees_def split: option.splits)
  have m: "sidebar_mobile s \<longleftrightarrow> sb_width s \<le> 767"
    by (simp add: sidebar_mobile_def max_width_matches_def MOBILE_BREAKPOINT_def)
  have o: "offers (emb Toggle) (SidebarTrigger (Some (sidebar_context p emb s)) [] [])"
    "offers (emb Toggle) (SidebarRail (Some (sidebar_context p emb s)) [] [])"
    by (simp_all add: SidebarTrigger_def SidebarRail_def sidebar_context_def Button_def spread_def omit_def no_clicks_def
        clicks_def slot_def)
  show ?thesis
    using c o by (simp add: handleKeyDown_def setOpen_uncontrolled [OF assms(2,1)] m split_beta)
qed

theorem sidebar_control_witness:
  "fst (sidebar_step \<lparr>sp_defaultOpen = True, sp_open = None, sp_onOpenChange = False\<rparr> Toggle
     \<lparr>sb_width = 1024, sb_openMobile = False, sb_open = True\<rparr>)
   = \<lparr>sb_width = 1024, sb_openMobile = False, sb_open = False\<rparr>"
  using sidebar_control [of "\<lparr>sp_defaultOpen = True, sp_open = None, sp_onOpenChange = False\<rparr>" "[]" 1024
      "\<lparr>sb_width = 1024, sb_openMobile = False, sb_open = True\<rparr>" None id False True "lit ''b''"]
  by (simp add: sidebar_init_def)

text \<open>The cookie is written to keep the state, but nothing reads it: a page load starts from the default,
  whatever the cookie says.\<close>

lemma cookie_not_restored:
  "sidebar_run p [Toggle] (sidebar_init p 1024, None) = (s, c) \<Longrightarrow> sp_open p = None \<Longrightarrow> \<not> sp_onOpenChange p \<Longrightarrow>
   sp_defaultOpen p \<Longrightarrow> c = Some (cookie_text False) \<and> sb_open (sidebar_init p 1024)"
  by (auto simp: setOpen_uncontrolled sidebar_init_def sidebar_mobile_def max_width_matches_def MOBILE_BREAKPOINT_def)

text \<open>A tooltip is shown only over a collapsed bar on a wide window.\<close>

lemma tooltip_only_collapsed:
  "tooltip_reach t \<Longrightarrow> tp_enabled t \<Longrightarrow> tp_deps t = Some (m, c, tip) \<Longrightarrow> c \<and> \<not> m"
  using tooltip_inv [of t] by auto

end
