(* ===== verification/Ui_Render.thy ===== *)
theory Ui_Render
  imports Ui_Primitives Ui_Sidebar
begin

text \<open>
  The views of the console name the primitives they use; here they are rendered, each element that names
  a primitive being replaced by what the primitive renders. Rendering gives the user no action the view
  did not have, takes none away, fails no more and no less often, and shows every text of the view.
\<close>

named_theorems transparent_simps \<open>primitives that are transparent\<close>

lemma button_transparent [transparent_simps]:
  "transparent Button"
  by (simp_all add: transparent_def Button_def)

lemma input_transparent [transparent_simps]:
  "transparent Input"
  by (simp_all add: transparent_def Input_def)

lemma label_transparent [transparent_simps]:
  "transparent Label"
  by (simp_all add: transparent_def Label_def)

lemma textarea_transparent [transparent_simps]:
  "transparent Textarea"
  by (simp_all add: transparent_def Textarea_def)

lemma separator_transparent [transparent_simps]:
  "transparent Separator"
  by (simp_all add: transparent_def Separator_def)

lemma skeleton_transparent [transparent_simps]:
  "transparent Skeleton"
  by (simp_all add: transparent_def Skeleton_def)

lemma card_transparent [transparent_simps]:
  "transparent Card" "transparent CardHeader" "transparent CardTitle" "transparent CardDescription"
  "transparent CardAction" "transparent CardContent" "transparent CardFooter"
  by (simp_all add: transparent_def Card_def CardHeader_def CardTitle_def CardDescription_def CardAction_def CardContent_def
      CardFooter_def)

lemma alert_transparent [transparent_simps]:
  "transparent Alert" "transparent AlertTitle" "transparent AlertDescription" "transparent AlertAction"
  by (simp_all add: transparent_def Alert_def AlertTitle_def AlertDescription_def AlertAction_def)

lemma badge_transparent [transparent_simps]:
  "transparent Badge"
  by (simp_all add: transparent_def Badge_def)

lemma breadcrumb_transparent [transparent_simps]:
  "transparent Breadcrumb" "transparent BreadcrumbList" "transparent BreadcrumbItem" "transparent BreadcrumbLink"
  "transparent BreadcrumbPage" "transparent BreadcrumbSeparator"
  by (simp_all add: transparent_def Breadcrumb_def BreadcrumbList_def BreadcrumbItem_def BreadcrumbLink_def BreadcrumbPage_def
      BreadcrumbSeparator_def)

lemma collapsible_transparent [transparent_simps]:
  "transparent Collapsible" "transparent CollapsibleTrigger" "transparent CollapsibleContent"
  by (simp_all add: transparent_def Collapsible_def CollapsibleTrigger_def CollapsibleContent_def)

lemma radio_group_transparent [transparent_simps]:
  "transparent RadioGroup"
  by (simp_all add: transparent_def RadioGroup_def)

lemma progress_transparent [transparent_simps]:
  "transparent ProgressTrack" "transparent ProgressIndicator" "transparent Progress" "transparent ProgressLabel"
  "transparent ProgressValue"
  by (simp_all add: transparent_def Progress_def ProgressTrack_def ProgressIndicator_def ProgressLabel_def ProgressValue_def)

lemma table_transparent [transparent_simps]:
  "transparent Table" "transparent TableHeader" "transparent TableBody" "transparent TableFooter"
  "transparent TableRow" "transparent TableHead" "transparent TableCell" "transparent TableCaption"
  by (simp_all add: transparent_def Table_def TableHeader_def TableBody_def TableFooter_def TableRow_def TableHead_def TableCell_def
      TableCaption_def)

lemma tabs_transparent [transparent_simps]:
  "transparent Tabs" "transparent TabsList" "transparent TabsTrigger" "transparent TabsContent"
  by (simp_all add: transparent_def Tabs_def TabsList_def TabsTrigger_def TabsContent_def)

lemma tooltip_transparent [transparent_simps]:
  "transparent TooltipProvider" "transparent Tooltip" "transparent TooltipTrigger" "transparent TooltipContent"
  by (simp_all add: transparent_def TooltipProvider_def Tooltip_def TooltipTrigger_def TooltipContent_def)

lemma dialog_transparent [transparent_simps]:
  "transparent Dialog" "transparent DialogTrigger" "transparent DialogPortal" "transparent DialogClose"
  "transparent DialogOverlay" "transparent DialogContent" "transparent DialogHeader" "transparent DialogFooter"
  "transparent DialogTitle" "transparent DialogDescription"
  by (simp_all add: transparent_def Dialog_def DialogTrigger_def DialogPortal_def DialogClose_def DialogOverlay_def DialogContent_def
      DialogHeader_def DialogFooter_def DialogTitle_def DialogDescription_def)

lemma alert_dialog_transparent [transparent_simps]:
  "transparent AlertDialog" "transparent AlertDialogTrigger" "transparent AlertDialogPortal" "transparent AlertDialogOverlay"
  "transparent AlertDialogContent" "transparent AlertDialogHeader" "transparent AlertDialogFooter" "transparent AlertDialogMedia"
  "transparent AlertDialogTitle" "transparent AlertDialogDescription" "transparent AlertDialogAction" "transparent AlertDialogCancel"
  by (simp_all add: transparent_def Button_def AlertDialog_def AlertDialogTrigger_def AlertDialogPortal_def AlertDialogOverlay_def
      AlertDialogContent_def AlertDialogHeader_def AlertDialogFooter_def AlertDialogMedia_def
      AlertDialogTitle_def AlertDialogDescription_def AlertDialogAction_def AlertDialogCancel_def)

lemma sheet_transparent [transparent_simps]:
  "transparent Sheet" "transparent SheetTrigger" "transparent SheetClose" "transparent SheetPortal"
  "transparent SheetOverlay" "transparent SheetContent" "transparent SheetHeader" "transparent SheetFooter"
  "transparent SheetTitle" "transparent SheetDescription"
  by (simp_all add: transparent_def Sheet_def SheetTrigger_def SheetClose_def SheetPortal_def SheetOverlay_def SheetContent_def
      SheetHeader_def SheetFooter_def SheetTitle_def SheetDescription_def)

lemma dropdown_menu_transparent [transparent_simps]:
  "transparent DropdownMenu" "transparent DropdownMenuPortal" "transparent DropdownMenuTrigger" "transparent DropdownMenuContent"
  "transparent DropdownMenuGroup" "transparent DropdownMenuLabel" "transparent DropdownMenuItem" "transparent DropdownMenuSub"
  "transparent DropdownMenuSubTrigger" "transparent DropdownMenuSubContent" "transparent DropdownMenuCheckboxItem" "transparent DropdownMenuRadioGroup"
  "transparent DropdownMenuRadioItem" "transparent DropdownMenuSeparator" "transparent DropdownMenuShortcut"
  by (simp_all add: transparent_def DropdownMenu_def DropdownMenuPortal_def DropdownMenuTrigger_def DropdownMenuContent_def
      DropdownMenuGroup_def DropdownMenuLabel_def DropdownMenuItem_def DropdownMenuSub_def
      DropdownMenuSubTrigger_def DropdownMenuSubContent_def DropdownMenuCheckboxItem_def
      DropdownMenuRadioGroup_def DropdownMenuRadioItem_def DropdownMenuSeparator_def
      DropdownMenuShortcut_def)

lemma select_transparent [transparent_simps]:
  "transparent Select" "transparent SelectGroup" "transparent SelectValue" "transparent SelectTrigger"
  "transparent SelectContent" "transparent SelectLabel" "transparent SelectItem" "transparent SelectSeparator"
  by (simp_all add: transparent_def Select_def SelectGroup_def SelectValue_def SelectTrigger_def SelectContent_def
      SelectScrollUpButton_def SelectScrollDownButton_def SelectLabel_def SelectItem_def
      SelectSeparator_def)

lemma input_group_transparent [transparent_simps]:
  "transparent InputGroup" "transparent InputGroupAddon" "transparent InputGroupButton" "transparent InputGroupText"
  "transparent InputGroupInput" "transparent InputGroupTextarea"
  by (simp_all add: transparent_def Button_def Input_def Textarea_def InputGroup_def InputGroupAddon_def InputGroupButton_def
      InputGroupText_def InputGroupInput_def InputGroupTextarea_def)

lemma combobox_transparent [transparent_simps]:
  "transparent ComboboxValue" "transparent ComboboxTrigger" "transparent ComboboxContent" "transparent ComboboxList"
  "transparent ComboboxItem" "transparent ComboboxGroup" "transparent ComboboxLabel" "transparent ComboboxCollection"
  "transparent ComboboxEmpty" "transparent ComboboxSeparator" "transparent ComboboxChips" "transparent ComboboxChip"
  "transparent ComboboxChipsInput"
  by (simp_all add: transparent_def ComboboxValue_def ComboboxTrigger_def ComboboxContent_def ComboboxList_def ComboboxItem_def
      ComboboxGroup_def ComboboxLabel_def ComboboxCollection_def ComboboxEmpty_def ComboboxSeparator_def
      ComboboxChips_def ComboboxChip_def ComboboxChipsInput_def)

lemma sidebar_transparent [transparent_simps]:
  "transparent SidebarInset" "transparent SidebarInput" "transparent SidebarHeader" "transparent SidebarFooter"
  "transparent SidebarSeparator" "transparent SidebarContent" "transparent SidebarGroup" "transparent SidebarGroupContent"
  "transparent SidebarMenu" "transparent SidebarMenuItem" "transparent SidebarMenuBadge" "transparent SidebarMenuSub"
  "transparent SidebarMenuSubItem" "transparent SidebarGroupLabel" "transparent SidebarGroupAction" "transparent SidebarMenuAction"
  "transparent SidebarMenuSubButton"
  by (simp_all add: transparent_def Input_def Separator_def
      SidebarInset_def SidebarInput_def SidebarHeader_def SidebarFooter_def SidebarSeparator_def
      SidebarContent_def SidebarGroup_def SidebarGroupContent_def SidebarMenu_def SidebarMenuItem_def
      SidebarMenuBadge_def SidebarMenuSub_def SidebarMenuSubItem_def SidebarGroupLabel_def
      SidebarGroupAction_def SidebarMenuAction_def SidebarMenuSubButton_def)

subsection \<open>Rendering a view\<close>

definition ui_table :: "(string \<times> 'e primitive) list" where
  "ui_table =
    [(''Button'', Button), (''Input'', Input), (''Label'', Label), (''Textarea'', Textarea), (''Separator'', Separator),
     (''Skeleton'', Skeleton), (''Card'', Card), (''CardHeader'', CardHeader), (''CardTitle'', CardTitle),
     (''CardDescription'', CardDescription), (''CardAction'', CardAction), (''CardContent'', CardContent),
     (''CardFooter'', CardFooter), (''Alert'', Alert), (''AlertTitle'', AlertTitle),
     (''AlertDescription'', AlertDescription), (''AlertAction'', AlertAction), (''Badge'', Badge),
     (''Breadcrumb'', Breadcrumb), (''BreadcrumbList'', BreadcrumbList), (''BreadcrumbItem'', BreadcrumbItem),
     (''BreadcrumbLink'', BreadcrumbLink), (''BreadcrumbPage'', BreadcrumbPage),
     (''BreadcrumbSeparator'', BreadcrumbSeparator), (''Collapsible'', Collapsible),
     (''CollapsibleTrigger'', CollapsibleTrigger), (''CollapsibleContent'', CollapsibleContent),
     (''RadioGroup'', RadioGroup), (''Progress'', Progress), (''ProgressTrack'', ProgressTrack),
     (''ProgressIndicator'', ProgressIndicator), (''ProgressLabel'', ProgressLabel), (''ProgressValue'', ProgressValue),
     (''Table'', Table), (''TableHeader'', TableHeader), (''TableBody'', TableBody), (''TableFooter'', TableFooter),
     (''TableRow'', TableRow), (''TableHead'', TableHead), (''TableCell'', TableCell), (''TableCaption'', TableCaption),
     (''Tabs'', Tabs), (''TabsList'', TabsList), (''TabsTrigger'', TabsTrigger), (''TabsContent'', TabsContent),
     (''TooltipProvider'', TooltipProvider), (''Tooltip'', Tooltip), (''TooltipTrigger'', TooltipTrigger),
     (''TooltipContent'', TooltipContent), (''Dialog'', Dialog), (''DialogTrigger'', DialogTrigger),
     (''DialogPortal'', DialogPortal), (''DialogClose'', DialogClose), (''DialogOverlay'', DialogOverlay),
     (''DialogContent'', DialogContent), (''DialogHeader'', DialogHeader), (''DialogFooter'', DialogFooter),
     (''DialogTitle'', DialogTitle), (''DialogDescription'', DialogDescription), (''AlertDialog'', AlertDialog),
     (''AlertDialogTrigger'', AlertDialogTrigger), (''AlertDialogPortal'', AlertDialogPortal),
     (''AlertDialogOverlay'', AlertDialogOverlay), (''AlertDialogContent'', AlertDialogContent),
     (''AlertDialogHeader'', AlertDialogHeader), (''AlertDialogFooter'', AlertDialogFooter),
     (''AlertDialogMedia'', AlertDialogMedia), (''AlertDialogTitle'', AlertDialogTitle),
     (''AlertDialogDescription'', AlertDialogDescription), (''AlertDialogAction'', AlertDialogAction),
     (''AlertDialogCancel'', AlertDialogCancel), (''Sheet'', Sheet), (''SheetTrigger'', SheetTrigger),
     (''SheetClose'', SheetClose), (''SheetPortal'', SheetPortal), (''SheetOverlay'', SheetOverlay),
     (''SheetContent'', SheetContent), (''SheetHeader'', SheetHeader), (''SheetFooter'', SheetFooter),
     (''SheetTitle'', SheetTitle), (''SheetDescription'', SheetDescription), (''DropdownMenu'', DropdownMenu),
     (''DropdownMenuPortal'', DropdownMenuPortal), (''DropdownMenuTrigger'', DropdownMenuTrigger),
     (''DropdownMenuContent'', DropdownMenuContent), (''DropdownMenuGroup'', DropdownMenuGroup),
     (''DropdownMenuLabel'', DropdownMenuLabel), (''DropdownMenuItem'', DropdownMenuItem),
     (''DropdownMenuSub'', DropdownMenuSub), (''DropdownMenuSubTrigger'', DropdownMenuSubTrigger),
     (''DropdownMenuSubContent'', DropdownMenuSubContent), (''DropdownMenuCheckboxItem'', DropdownMenuCheckboxItem),
     (''DropdownMenuRadioGroup'', DropdownMenuRadioGroup), (''DropdownMenuRadioItem'', DropdownMenuRadioItem),
     (''DropdownMenuSeparator'', DropdownMenuSeparator), (''DropdownMenuShortcut'', DropdownMenuShortcut),
     (''Select'', Select), (''SelectGroup'', SelectGroup), (''SelectValue'', SelectValue),
     (''SelectTrigger'', SelectTrigger), (''SelectContent'', SelectContent), (''SelectLabel'', SelectLabel),
     (''SelectItem'', SelectItem), (''SelectSeparator'', SelectSeparator), (''InputGroup'', InputGroup),
     (''InputGroupAddon'', InputGroupAddon), (''InputGroupButton'', InputGroupButton),
     (''InputGroupText'', InputGroupText), (''InputGroupInput'', InputGroupInput),
     (''InputGroupTextarea'', InputGroupTextarea), (''ComboboxValue'', ComboboxValue),
     (''ComboboxTrigger'', ComboboxTrigger), (''ComboboxContent'', ComboboxContent), (''ComboboxList'', ComboboxList),
     (''ComboboxItem'', ComboboxItem), (''ComboboxGroup'', ComboboxGroup), (''ComboboxLabel'', ComboboxLabel),
     (''ComboboxCollection'', ComboboxCollection), (''ComboboxEmpty'', ComboboxEmpty),
     (''ComboboxSeparator'', ComboboxSeparator), (''ComboboxChips'', ComboboxChips), (''ComboboxChip'', ComboboxChip),
     (''ComboboxChipsInput'', ComboboxChipsInput), (''SidebarInset'', SidebarInset),
     (''SidebarInput'', SidebarInput), (''SidebarHeader'', SidebarHeader), (''SidebarFooter'', SidebarFooter),
     (''SidebarSeparator'', SidebarSeparator), (''SidebarContent'', SidebarContent), (''SidebarGroup'', SidebarGroup),
     (''SidebarGroupContent'', SidebarGroupContent), (''SidebarMenu'', SidebarMenu),
     (''SidebarMenuItem'', SidebarMenuItem), (''SidebarMenuBadge'', SidebarMenuBadge),
     (''SidebarMenuSub'', SidebarMenuSub), (''SidebarMenuSubItem'', SidebarMenuSubItem),
     (''SidebarGroupLabel'', SidebarGroupLabel), (''SidebarGroupAction'', SidebarGroupAction),
     (''SidebarMenuAction'', SidebarMenuAction), (''SidebarMenuSubButton'', SidebarMenuSubButton)]"

text \<open>Primitives that render children of their own in place of the ones they are given.\<close>

definition void_table :: "(string \<times> 'e primitive) list" where
  "void_table = [(''Checkbox'', Checkbox), (''Switch'', Switch), (''RadioGroupItem'', RadioGroupItem)]"

fun render_ui :: "'e node \<Rightarrow> 'e node" where
  "render_ui (Txt s) = Txt s"
| "render_ui (Throw e) = Throw e"
| "render_ui (Frag ks) = Frag (map render_ui ks)"
| "render_ui (El n as ks) =
     (case map_of ui_table n of
        Some f \<Rightarrow> f as (map render_ui ks)
      | None \<Rightarrow> (case map_of void_table n of Some f \<Rightarrow> f as (map render_ui ks) | None \<Rightarrow> El n as (map render_ui ks)))"

definition void_names :: "string list" where
  "void_names = [''Checkbox'', ''Switch'', ''RadioGroupItem'']"

text \<open>A view uses the primitives well when it gives no children to those that would drop them.\<close>

fun well_used :: "'e node \<Rightarrow> bool" where
  "well_used (Txt s) = True"
| "well_used (Throw e) = True"
| "well_used (Frag ks) = list_all well_used ks"
| "well_used (El n as ks) = ((n \<in> set void_names \<longrightarrow> ks = []) \<and> list_all well_used ks)"

lemma ui_table_transparent: "map_of ui_table n = Some f \<Longrightarrow> transparent f"
proof -
  assume "map_of ui_table n = Some f"
  then have "(n, f) \<in> set ui_table" by (rule map_of_SomeD)
  moreover have "list_all (\<lambda>(n, f). transparent f) ui_table" by (simp add: ui_table_def transparent_simps)
  ultimately show ?thesis by (auto simp: list_all_iff)
qed

lemma void_drops:
  assumes "map_of void_table n = Some f"
  shows "acts P (f as ks) = acts P (El [] as [])" "offers e (f as ks) = offers e (El [] as [])"
    "\<not> throws (f as ks)" "node_text (f as ks) = []"
proof -
  have "f = Checkbox \<or> f = Switch \<or> f = RadioGroupItem"
    using map_of_SomeD [OF assms] by (auto simp: void_table_def)
  then show "acts P (f as ks) = acts P (El [] as [])" "offers e (f as ks) = offers e (El [] as [])"
      "\<not> throws (f as ks)" "node_text (f as ks) = []"
    by (elim disjE; simp add: Checkbox_def Switch_def RadioGroupItem_def)+
qed

lemma void_name: "map_of void_table n = Some f \<Longrightarrow> n \<in> set void_names"
  using map_of_SomeD [of void_table n f] by (auto simp: void_table_def void_names_def)

lemma transparent_rules:
  assumes "transparent f"
  shows "acts P (f as ks) \<longleftrightarrow> acts P (El [] as ks)" "offers e (f as ks) \<longleftrightarrow> offers e (El [] as ks)"
    "throws (f as ks) \<longleftrightarrow> throws (El [] as ks)" "subseq (concat (map node_text ks)) (node_text (f as ks))"
  using assms by (simp_all add: transparent_def)

lemma subseq_concat: "(\<And>k. k \<in> set ks \<Longrightarrow> subseq (f k) (g k)) \<Longrightarrow> subseq (concat (map f ks)) (concat (map g ks))"
  by (induction ks) (auto intro: list_emb_append_mono)

lemma render_El:
  fixes ks :: "'e node list"
  obtains f where "map_of ui_table n = Some f" "render_ui (El n as ks) = f as (map render_ui ks)"
  | f where "map_of void_table n = Some f" "render_ui (El n as ks) = f as (map render_ui ks)"
  | "render_ui (El n as ks) = El n as (map render_ui ks)"
  by (cases "map_of ui_table n :: 'e primitive option"; cases "map_of void_table n :: 'e primitive option") simp_all

lemma render_acts: "acts P v \<Longrightarrow> acts P (render_ui v)"
proof (induction v)
  case (El n as ks)
  have e: "acts P (El [] as (map render_ui ks))" using El by (auto simp: list_all_iff)
  show ?case
  proof (rule render_El [of n as ks])
    fix f assume "map_of ui_table n = Some f" "render_ui (El n as ks) = f as (map render_ui ks)"
    then show ?thesis using e transparent_rules(1) [OF ui_table_transparent] by metis
  next
    fix f assume "map_of void_table n = Some f" "render_ui (El n as ks) = f as (map render_ui ks)"
    then show ?thesis using e by (simp add: void_drops)
  next
    assume "render_ui (El n as ks) = El n as (map render_ui ks)"
    then show ?thesis using e by simp
  qed
qed (auto simp: list_all_iff)

lemma render_offers: "offers e (render_ui v) \<Longrightarrow> offers e v"
proof (induction v)
  case (El n as ks)
  have e: "offers e (El n as ks)" if "offers e (El [] as (map render_ui ks))"
    using that El.IH by (auto simp: list_ex_iff)
  show ?case
  proof (rule render_El [of n as ks])
    fix f assume "map_of ui_table n = Some f" "render_ui (El n as ks) = f as (map render_ui ks)"
    then show ?thesis using e El.prems transparent_rules(2) [OF ui_table_transparent] by metis
  next
    fix f assume "map_of void_table n = Some f" "render_ui (El n as ks) = f as (map render_ui ks)"
    then show ?thesis using El.prems by (simp add: void_drops)
  next
    assume "render_ui (El n as ks) = El n as (map render_ui ks)"
    then show ?thesis using e El.prems by simp
  qed
qed (auto simp: list_ex_iff)

text \<open>For a view that uses the primitives well, rendering keeps everything.\<close>

definition same_use :: "'e node \<Rightarrow> 'e node \<Rightarrow> bool" where
  "same_use v w \<longleftrightarrow> (\<forall>P. acts P v \<longleftrightarrow> acts P w) \<and> (\<forall>e. offers e v \<longleftrightarrow> offers e w) \<and> (throws v \<longleftrightarrow> throws w)
     \<and> subseq (node_text w) (node_text v)"

lemma render_well_used: "well_used v \<Longrightarrow> same_use (render_ui v) v"
proof (induction v)
  case (El n as ks)
  have ks: "same_use (render_ui k) k" if "k \<in> set ks" for k using El that by (simp add: list_all_iff)
  let ?r = "El [] as (map render_ui ks)"
  have shown: "subseq (node_text (El n as ks)) (node_text ?r)"
    using ks by (auto simp: same_use_def comp_def intro!: subseq_concat)
  have r: "acts P ?r \<longleftrightarrow> acts P (El n as ks)" "offers e ?r \<longleftrightarrow> offers e (El n as ks)" "throws ?r \<longleftrightarrow> throws (El n as ks)" for P e
    using ks by (auto simp: same_use_def list_all_iff list_ex_iff)
  show ?case
  proof (rule render_El [of n as ks])
    fix f assume f: "map_of ui_table n = Some f" "render_ui (El n as ks) = f as (map render_ui ks)"
    have "subseq (node_text ?r) (node_text (f as (map render_ui ks)))"
      using transparent_rules(4) [OF ui_table_transparent [OF f(1)], of "map render_ui ks" as] by (simp only: node_text.simps)
    with shown r show ?thesis
      unfolding same_use_def f(2) transparent_rules(1-3) [OF ui_table_transparent [OF f(1)]]
      by (blast intro: subseq_order.order_trans)
  next
    fix f assume f: "map_of void_table n = Some f" "render_ui (El n as ks) = f as (map render_ui ks)"
    have "ks = []" using El.prems void_name [OF f(1)] by simp
    then show ?thesis unfolding same_use_def f(2) using void_drops [OF f(1)] by simp
  next
    assume "render_ui (El n as ks) = El n as (map render_ui ks)"
    then show ?thesis using shown r by (simp add: same_use_def)
  qed
qed (auto simp: same_use_def list_all_iff list_ex_iff comp_def intro!: subseq_concat)

text \<open>Which primitives close the dialog they stand in: the cancel button of an alert and the cross of a
  dialog or sheet do, the action button of an alert does not.\<close>

fun has_close :: "'e node \<Rightarrow> bool" where
  "has_close (Txt s) = False"
| "has_close (Throw e) = False"
| "has_close (Frag ks) = list_ex has_close ks"
| "has_close (El n as ks) =
     (n \<in> {''AlertDialogPrimitive.Close'', ''DialogPrimitive.Close'', ''SheetPrimitive.Close''} \<or> list_ex has_close ks)"

lemma closers:
  "\<not> has_close (AlertDialogAction as [Txt s])" "has_close (AlertDialogCancel as ks)"
  "has_close (DialogContent [] ks)" "has_close (SheetContent [] ks)" "\<not> has_close (AlertDialogContent as [Txt s])"
  by (simp_all add: AlertDialogAction_def Button_def AlertDialogCancel_def DialogContent_def DialogPortal_def SheetContent_def
      SheetPortal_def AlertDialogContent_def AlertDialogPortal_def AlertDialogOverlay_def show_if_def)



end
