(* ===== verification/Ui_Boundaries.thy ===== *)
theory Ui_Boundaries
  imports Prelude
begin

text \<open>
  The architecture check of the console (\<open>web/scripts/check-ui-boundaries.mjs\<close>), which the build runs:
  it reads every source file below \<open>src\<close> and the two configuration files and reports what breaks the rules
  of the component library. The file system is a tree of named entries, the configuration files are parsed
  JSON, and \<open>exists_file\<close> is the answer of the file system for a path.
\<close>

datatype entry = File jsstr jsstr | Directory jsstr "entry list"

fun entry_name :: "entry \<Rightarrow> jsstr" where
  "entry_name (File n c) = n"
| "entry_name (Directory n es) = n"

abbreviation slash :: nat where "slash \<equiv> 47"

subsection \<open>Strings\<close>

fun str_includes :: "jsstr \<Rightarrow> jsstr \<Rightarrow> bool" where
  "str_includes [] t = (t = [])"
| "str_includes (u # s) t = (starts_with (u # s) t \<or> str_includes s t)"

definition ends_with :: "jsstr \<Rightarrow> jsstr \<Rightarrow> bool" where
  "ends_with s t \<longleftrightarrow> starts_with (rev s) (rev t)"

text \<open>The extension test and the test for a raw interactive element: a tag opened by one of the names,
  followed by white space or by the end of the tag.\<close>

definition is_source :: "jsstr \<Rightarrow> bool" where
  "is_source name \<longleftrightarrow> ends_with name (lit ''.ts'') \<or> ends_with name (lit ''.tsx'')"

definition tag_at :: "jsstr \<Rightarrow> jsstr \<Rightarrow> bool" where
  "tag_at name s \<longleftrightarrow> starts_with s (60 # name)
     \<and> (case drop (Suc (length name)) s of [] \<Rightarrow> False | u # _ \<Rightarrow> is_ws u \<or> u = 62)"

fun has_raw_element :: "jsstr \<Rightarrow> bool" where
  "has_raw_element [] = False"
| "has_raw_element (u # s) =
     (list_ex (\<lambda>n. tag_at n (u # s)) [lit ''button'', lit ''select'', lit ''textarea''] \<or> has_raw_element s)"

subsection \<open>The files\<close>

fun walk :: "jsstr \<Rightarrow> entry \<Rightarrow> (jsstr \<times> jsstr) list" where
  "walk directory (Directory name es) = concat (map (walk (directory @ slash # name)) es)"
| "walk directory (File name content) = (if is_source name then [(directory @ slash # name, content)] else [])"

definition srcRoot :: "jsstr \<Rightarrow> jsstr" where
  "srcRoot proj = proj @ lit ''/src''"

definition uiRoot :: "jsstr \<Rightarrow> jsstr" where
  "uiRoot proj = srcRoot proj @ lit ''/components/ui''"

definition relative :: "jsstr \<Rightarrow> jsstr \<Rightarrow> jsstr" where
  "relative proj file = drop (Suc (length proj)) file"

text \<open>The messages of one file, in the order of the code.\<close>

definition file_errors :: "jsstr \<Rightarrow> jsstr \<times> jsstr \<Rightarrow> jsstr list" where
  "file_errors proj fc =
     (let (file, content) = fc; rel = relative proj file; ui = starts_with file (uiRoot proj @ [slash]) in
      (if str_includes content (lit ''@radix-ui/'')
       then [rel @ lit '': Radix primitive imports are not allowed after the Rhea/Base UI migration.''] else [])
      @ (if \<not> ui \<and> str_includes content (lit ''@base-ui/react'')
         then [rel @ lit '': business and shared code must import project UI wrappers instead of @base-ui/react.''] else [])
      @ (if \<not> ui \<and> has_raw_element content
         then [rel @ lit '': use project UI components instead of raw interactive HTML elements.''] else [])
      @ (if starts_with rel (lit ''src/features/'') \<and> str_includes content (lit ''@/components/ui/sheet'')
         then [rel @ lit '': business workflows must use centered Dialog; Sheet is reserved for complementary UI such as the mobile Sidebar.'']
         else []))"

subsection \<open>The configuration\<close>

fun json_truthy :: "json option \<Rightarrow> bool" where
  "json_truthy None = False"
| "json_truthy (Some JNull) = False"
| "json_truthy (Some (JBool b)) = b"
| "json_truthy (Some (JNum x)) = (x \<noteq> 0)"
| "json_truthy (Some (JStr s)) = (s \<noteq> [])"
| "json_truthy (Some _) = True"

text \<open>The members of an object, written over those collected so far; a missing member adds none.\<close>

definition spread_members :: "json option \<Rightarrow> (jsstr, json) jsmap \<Rightarrow> (jsstr, json) jsmap" where
  "spread_members v m = (case v of Some (JObj kvs) \<Rightarrow> fold (\<lambda>(k, x). map_set k x) kvs m | _ \<Rightarrow> m)"

definition dependencies :: "json \<Rightarrow> (jsstr, json) jsmap" where
  "dependencies pkg = spread_members (json_member ''devDependencies'' (Some pkg))
     (spread_members (json_member ''dependencies'' (Some pkg)) [])"

definition package_errors :: "json \<Rightarrow> jsstr list" where
  "package_errors pkg =
     (let deps = dependencies pkg in
      concat (map (\<lambda>(name, _). if starts_with name (lit ''@radix-ui/'')
          then [lit ''package.json: remove legacy dependency '' @ name @ lit ''.''] else []) deps)
      @ (if \<not> json_truthy (map_get deps (lit ''@base-ui/react''))
         then [lit ''package.json: @base-ui/react is required as the default primitive library.''] else [])
      @ (if \<not> starts_with (json_nullish (map_get deps (lit ''tailwindcss'')) [] json_text) (lit ''^4'')
         then [lit ''package.json: Tailwind CSS 4 is required.''] else []))"

definition config_errors :: "json \<Rightarrow> jsstr list" where
  "config_errors config =
     (let style = json_member ''style'' (Some config) in
      (if style \<noteq> Some (JStr (lit ''base-rhea''))
       then [lit ''components.json: expected style \"base-rhea\", received \"''
               @ (case style of None \<Rightarrow> lit ''undefined'' | Some j \<Rightarrow> json_text j) @ lit ''\".''] else [])
      @ (if json_truthy (json_member ''config'' (json_member ''tailwind'' (Some config)))
         then [lit ''components.json: Tailwind 4 projects must not reference a legacy tailwind.config file.''] else []))"

definition legacy_errors :: "(jsstr \<Rightarrow> bool) \<Rightarrow> jsstr \<Rightarrow> jsstr list" where
  "legacy_errors exists_file proj = concat (map (\<lambda>legacy.
     if exists_file (proj @ slash # legacy)
     then [legacy @ lit '': legacy Tailwind 3 configuration must remain removed.''] else [])
     [lit ''tailwind.config.js'', lit ''postcss.config.js''])"

text \<open>The run of the script: the printed text, with failure as the left value.\<close>

definition check_ui_boundaries :: "jsstr \<Rightarrow> entry list \<Rightarrow> json \<Rightarrow> json \<Rightarrow> (jsstr \<Rightarrow> bool) \<Rightarrow> jsstr + jsstr" where
  "check_ui_boundaries proj entries pkg config exists_file =
     (let errors = concat (map (file_errors proj) (concat (map (walk (srcRoot proj)) entries)))
            @ package_errors pkg @ config_errors config @ legacy_errors exists_file proj
      in if errors \<noteq> [] then Inl (js_join [10] errors) else Inr (lit ''UI boundaries: Rhea + Base UI + Tailwind 4''))"

subsection \<open>What the check guarantees\<close>

text \<open>The files of a tree by their path below it, and the names a file system allows.\<close>

inductive file_at :: "entry list \<Rightarrow> jsstr list \<Rightarrow> jsstr \<Rightarrow> bool" where
  here: "File name content \<in> set es \<Longrightarrow> file_at es [name] content"
| below: "Directory name sub \<in> set es \<Longrightarrow> file_at sub path content \<Longrightarrow> file_at es (name # path) content"

fun well_named :: "entry \<Rightarrow> bool" where
  "well_named (File n c) = (slash \<notin> set n)"
| "well_named (Directory n es) = (slash \<notin> set n \<and> list_all well_named es)"

definition joined :: "jsstr list \<Rightarrow> jsstr" where
  "joined path = concat (map (\<lambda>n. slash # n) path)"

lemma joined_simps [simp]: "joined [] = []" "joined (n # p) = slash # n @ joined p" "joined (p @ q) = joined p @ joined q"
  by (simp_all add: joined_def)

lemma file_at_nonempty: "file_at es path content \<Longrightarrow> path \<noteq> []"
  by (induction rule: file_at.induct) simp_all

lemma file_at_named:
  "file_at es path content \<Longrightarrow> list_all well_named es \<Longrightarrow> list_all (\<lambda>n. slash \<notin> set n) path"
  by (induction rule: file_at.induct) (auto simp: list_all_iff dest!: bspec)

lemma walk_complete:
  "file_at es path content \<Longrightarrow> is_source (last path) \<Longrightarrow> (d @ joined path, content) \<in> set (concat (map (walk d) es))"
proof (induction arbitrary: d rule: file_at.induct)
  case (here name content es)
  then show ?case by force
next
  case (below name sub es path content)
  have "(d @ slash # name) @ joined path = d @ joined (name # path)" by simp
  moreover have "is_source (last path)" using below.prems file_at_nonempty [OF below.hyps(2)] by simp
  ultimately have "(d @ joined (name # path), content) \<in> set (walk d (Directory name sub))"
    using below.IH [of "d @ slash # name"] by simp
  with below.hyps(1) show ?case by (simp del: walk.simps joined_simps) blast
qed

lemma walk_sound:
  "(file, content) \<in> set (walk d e) \<Longrightarrow> \<exists>path. file_at [e] path content \<and> is_source (last path) \<and> file = d @ joined path"
proof (induction d e rule: walk.induct)
  case (1 d name es)
  then obtain e where e: "e \<in> set es" "(file, content) \<in> set (walk (d @ slash # name) e)" by auto
  from "1.IH" [OF e] obtain p where p: "file_at [e] p content" "is_source (last p)" "file = (d @ slash # name) @ joined p" by blast
  have "file_at es p content" using p(1) e(1) by (cases rule: file_at.cases) (auto intro: file_at.intros)
  then have "file_at [Directory name es] (name # p) content" by (auto intro: below)
  moreover have "last (name # p) = last p" using file_at_nonempty [OF p(1)] by simp
  ultimately show ?case using p(2,3) by (intro exI [of _ "name # p"]) simp
next
  case (2 d name c)
  then show ?case by (intro exI [of _ "[name]"]) (auto intro: here split: if_splits)
qed

lemma set_walk:
  "set (concat (map (walk d) es)) = {(d @ joined p, c) | p c. file_at es p c \<and> is_source (last p)}"
proof (intro set_eqI iffI)
  fix x assume "x \<in> set (concat (map (walk d) es))"
  then obtain e where e: "e \<in> set es" "x \<in> set (walk d e)" by auto
  then obtain p where p: "file_at [e] p (snd x)" "is_source (last p)" "fst x = d @ joined p"
    using walk_sound [of "fst x" "snd x" d e] by auto
  have "file_at es p (snd x)" using p(1) e(1) by (cases rule: file_at.cases) (auto intro: file_at.intros)
  then show "x \<in> {(d @ joined p, c) | p c. file_at es p c \<and> is_source (last p)}"
    using p(2,3) by (cases x) auto
qed (use walk_complete in blast)

text \<open>Between names without a separator, a prefix of the joined path is a prefix of the path.\<close>

lemma starts_with_append: "starts_with (a @ s) (a @ t) \<longleftrightarrow> starts_with s t"
  by (simp add: starts_with_def)

lemma joined_head: "slash \<notin> set a \<Longrightarrow> slash \<notin> set b \<Longrightarrow> starts_with (a @ joined p) (b @ slash # r) \<longleftrightarrow>
    a = b \<and> starts_with (joined p) (slash # r)"
proof (induction a arbitrary: b)
  case Nil
  then show ?case by (cases b; cases p) (auto simp: starts_with_def)
next
  case (Cons u a)
  then show ?case by (cases b) (auto simp: starts_with_def)
qed

lemma below_directory:
  assumes "list_all (\<lambda>n. slash \<notin> set n) p" "list_all (\<lambda>n. slash \<notin> set n) q"
  shows "starts_with (joined p) (joined q @ [slash]) \<longleftrightarrow> take (length q) p = q \<and> length q < length p"
  using assms
proof (induction q arbitrary: p)
  case Nil
  then show ?case by (cases p) (auto simp: starts_with_def)
next
  case (Cons b q)
  show ?case
  proof (cases p)
    case Nil
    then show ?thesis by (simp add: starts_with_def)
  next
    case (Cons a p')
    obtain r where r: "joined q @ [slash] = slash # r" by (cases q) auto
    have "starts_with (joined p) (joined (b # q) @ [slash]) \<longleftrightarrow> starts_with (a @ joined p') (b @ slash # r)"
      using Cons r by (simp add: starts_with_def)
    also have "\<dots> \<longleftrightarrow> a = b \<and> starts_with (joined p') (joined q @ [slash])"
      using Cons.prems Cons r by (subst joined_head) auto
    finally show ?thesis using Cons.IH [of p'] Cons.prems Cons by auto
  qed
qed

definition occurs :: "jsstr \<Rightarrow> jsstr \<Rightarrow> bool" where
  "occurs t s \<longleftrightarrow> (\<exists>a b. s = a @ t @ b)"

definition raw_tag :: "jsstr \<Rightarrow> bool" where
  "raw_tag s \<longleftrightarrow> (\<exists>a n u b. s = a @ 60 # n @ u # b \<and> n \<in> {lit ''button'', lit ''select'', lit ''textarea''} \<and> (is_ws u \<or> u = 62))"

lemma str_includes_iff: "str_includes s t \<longleftrightarrow> occurs t s"
proof (induction s)
  case (Cons u s)
  have "(\<exists>a b. u # s = a @ t @ b) \<longleftrightarrow> (\<exists>b. u # s = t @ b) \<or> (\<exists>a b. s = a @ t @ b)"
    by (metis append_Cons append_Nil list.inject neq_Nil_conv)
  then show ?case using Cons by (simp add: occurs_def starts_with_iff)
qed (auto simp: occurs_def)

lemma tag_at_iff: "tag_at n s \<longleftrightarrow> (\<exists>u b. s = 60 # n @ u # b \<and> (is_ws u \<or> u = 62))"
  by (auto simp: tag_at_def starts_with_iff split: list.splits)

lemma has_raw_element_iff: "has_raw_element s \<longleftrightarrow> raw_tag s"
proof (induction s)
  case (Cons u s)
  let ?N = "{lit ''button'', lit ''select'', lit ''textarea''}"
  have "raw_tag (u # s) \<longleftrightarrow> (\<exists>n\<in>?N. tag_at n (u # s)) \<or> raw_tag s" (is "?l \<longleftrightarrow> ?r")
  proof
    assume ?l
    then obtain a n w b where h: "u # s = a @ 60 # n @ w # b" "n \<in> ?N" "is_ws w \<or> w = 62" unfolding raw_tag_def by blast
    show ?r
    proof (cases a)
      case Nil
      then have "tag_at n (u # s)" using h unfolding tag_at_iff by auto
      then show ?thesis using h(2) by blast
    next
      case (Cons x a')
      then show ?thesis using h unfolding raw_tag_def by auto
    qed
  next
    assume ?r
    then show ?l
    proof
      assume "\<exists>n\<in>?N. tag_at n (u # s)"
      then obtain n w b where "n \<in> ?N" "u # s = [] @ 60 # n @ w # b" "is_ws w \<or> w = 62" unfolding tag_at_iff by auto
      then show ?l unfolding raw_tag_def by blast
    next
      assume "raw_tag s"
      then obtain a n w b where "s = a @ 60 # n @ w # b" "n \<in> ?N" "is_ws w \<or> w = 62" unfolding raw_tag_def by blast
      then have "u # s = (u # a) @ 60 # n @ w # b" "n \<in> ?N" "is_ws w \<or> w = 62" by simp_all
      then show ?l unfolding raw_tag_def by blast
    qed
  qed
  then show ?case using Cons by simp
qed (simp add: raw_tag_def)

text \<open>The rules, by the path of a file below \<open>src\<close>.\<close>

definition obeys :: "jsstr list \<Rightarrow> jsstr \<Rightarrow> bool" where
  "obeys path content \<longleftrightarrow>
     \<not> occurs (lit ''@radix-ui/'') content
     \<and> (take 2 path = [lit ''components'', lit ''ui''] \<and> 2 < length path
        \<or> \<not> occurs (lit ''@base-ui/react'') content \<and> \<not> raw_tag content)
     \<and> (take 1 path = [lit ''features''] \<and> 1 < length path \<longrightarrow> \<not> occurs (lit ''@/components/ui/sheet'') content)"

lemma file_errors_iff:
  assumes "list_all (\<lambda>n. slash \<notin> set n) path"
  shows "file_errors proj (srcRoot proj @ joined path, content) = [] \<longleftrightarrow> obeys path content"
proof -
  have names: "list_all (\<lambda>n. slash \<notin> set n) [lit ''components'', lit ''ui'']" "list_all (\<lambda>n. slash \<notin> set n) [lit ''features'']"
    by (simp_all add: lit_Cons)
  have two: "length [x, y] = 2" "length [x] = 1" for x y :: jsstr by simp_all
  have ui: "uiRoot proj @ [slash] = srcRoot proj @ joined [lit ''components'', lit ''ui''] @ [slash]"
    by (simp add: uiRoot_def lit_Cons)
  have "starts_with (srcRoot proj @ joined path) (uiRoot proj @ [slash])
      \<longleftrightarrow> starts_with (joined path) (joined [lit ''components'', lit ''ui''] @ [slash])"
    unfolding ui by (simp only: starts_with_append)
  also have "\<dots> \<longleftrightarrow> take 2 path = [lit ''components'', lit ''ui''] \<and> 2 < length path"
    using below_directory [OF assms, of "[lit ''components'', lit ''ui'']"] unfolding two by (simp only: names simp_thms)
  finally have u: "starts_with (srcRoot proj @ joined path) (uiRoot proj @ [slash])
      \<longleftrightarrow> take 2 path = [lit ''components'', lit ''ui''] \<and> 2 < length path" .
  have "relative proj (srcRoot proj @ joined path) = lit ''src'' @ joined path"
    by (simp add: relative_def srcRoot_def lit_Cons)
  moreover have "starts_with (lit ''src'' @ joined path) (lit ''src/features/'') \<longleftrightarrow> take 1 path = [lit ''features''] \<and> 1 < length path"
  proof -
    have "lit ''src/features/'' = lit ''src'' @ joined [lit ''features''] @ [slash]" by (simp add: lit_Cons)
    then have "starts_with (lit ''src'' @ joined path) (lit ''src/features/'') \<longleftrightarrow> starts_with (joined path) (joined [lit ''features''] @ [slash])"
      by (simp only: starts_with_append)
    then show ?thesis using below_directory [OF assms, of "[lit ''features'']"] unfolding two by (simp only: names simp_thms)
  qed
  ultimately show ?thesis
    using u unfolding file_errors_def Let_def prod.case str_includes_iff has_raw_element_iff obeys_def by auto
qed

fun member_names :: "json option \<Rightarrow> jsstr set" where
  "member_names (Some (JObj kvs)) = fst ` set kvs"
| "member_names _ = {}"

lemma spread_names: "fst ` set (spread_members v m) = fst ` set m \<union> member_names v"
proof -
  have "fst ` set (fold (\<lambda>(k, x). map_set k x) kvs m) = fst ` set m \<union> fst ` set kvs" for kvs :: "(jsstr \<times> json) list"
    by (induction kvs arbitrary: m) (simp_all add: split_beta)
  then show ?thesis unfolding spread_members_def by (cases v rule: member_names.cases) simp_all
qed

lemma package_errors_iff:
  "package_errors pkg = [] \<longleftrightarrow>
     (\<forall>name \<in> member_names (json_member ''dependencies'' (Some pkg)) \<union> member_names (json_member ''devDependencies'' (Some pkg)).
        \<not> starts_with name (lit ''@radix-ui/''))
     \<and> json_truthy (map_get (dependencies pkg) (lit ''@base-ui/react''))
     \<and> starts_with (json_nullish (map_get (dependencies pkg) (lit ''tailwindcss'')) [] json_text) (lit ''^4'')"
proof -
  have "fst ` set (dependencies pkg) = member_names (json_member ''dependencies'' (Some pkg)) \<union> member_names (json_member ''devDependencies'' (Some pkg))"
    by (simp add: dependencies_def spread_names)
  moreover have "concat (map (\<lambda>(name, _). if starts_with name (lit ''@radix-ui/'')
        then [lit ''package.json: remove legacy dependency '' @ name @ lit ''.''] else []) (dependencies pkg)) = []
      \<longleftrightarrow> (\<forall>name \<in> fst ` set (dependencies pkg). \<not> starts_with name (lit ''@radix-ui/''))"
    by (auto split: if_splits)
  ultimately show ?thesis by (simp add: package_errors_def Let_def)
qed

lemma concat_map_Nil: "concat (map f xs) = [] \<longleftrightarrow> (\<forall>x \<in> set xs. f x = [])"
  by simp

text \<open>The architecture check of the build is exact: with names without separators it reports success exactly when every TypeScript file at any depth obeys the rules (no Radix import anywhere; Base UI imports and raw button, select or textarea tags only below components/ui; no sheet in features), no dependency is a Radix package, Base UI and version 4 of Tailwind are present, the style is the expected one and no legacy configuration remains.\<close>

theorem ui_boundaries_exact:
  assumes "list_all well_named entries"
  shows "check_ui_boundaries proj entries pkg config exists_file = Inr (lit ''UI boundaries: Rhea + Base UI + Tailwind 4'') \<longleftrightarrow>
    (\<forall>path content. file_at entries path content \<and> is_source (last path) \<longrightarrow> obeys path content)
    \<and> (\<forall>name \<in> member_names (json_member ''dependencies'' (Some pkg)) \<union> member_names (json_member ''devDependencies'' (Some pkg)).
        \<not> starts_with name (lit ''@radix-ui/''))
    \<and> json_truthy (map_get (dependencies pkg) (lit ''@base-ui/react''))
    \<and> starts_with (json_nullish (map_get (dependencies pkg) (lit ''tailwindcss'')) [] json_text) (lit ''^4'')
    \<and> json_member ''style'' (Some config) = Some (JStr (lit ''base-rhea''))
    \<and> \<not> json_truthy (json_member ''config'' (json_member ''tailwind'' (Some config)))
    \<and> \<not> exists_file (proj @ lit ''/tailwind.config.js'') \<and> \<not> exists_file (proj @ lit ''/postcss.config.js'')"
proof -
  have files: "concat (map (file_errors proj) (concat (map (walk (srcRoot proj)) entries))) = []
      \<longleftrightarrow> (\<forall>path content. file_at entries path content \<and> is_source (last path) \<longrightarrow> obeys path content)"
  proof -
    have "concat (map (file_errors proj) (concat (map (walk (srcRoot proj)) entries))) = []
        \<longleftrightarrow> (\<forall>x \<in> set (concat (map (walk (srcRoot proj)) entries)). file_errors proj x = [])" by (rule concat_map_Nil)
    also have "\<dots> \<longleftrightarrow> (\<forall>path content. file_at entries path content \<and> is_source (last path)
        \<longrightarrow> file_errors proj (srcRoot proj @ joined path, content) = [])" unfolding set_walk by blast
    finally show ?thesis using file_errors_iff file_at_named assms by blast
  qed
  have config: "config_errors config = [] \<longleftrightarrow> json_member ''style'' (Some config) = Some (JStr (lit ''base-rhea''))
      \<and> \<not> json_truthy (json_member ''config'' (json_member ''tailwind'' (Some config)))"
    by (simp add: config_errors_def Let_def)
  have legacy: "legacy_errors exists_file proj = [] \<longleftrightarrow>
      \<not> exists_file (proj @ lit ''/tailwind.config.js'') \<and> \<not> exists_file (proj @ lit ''/postcss.config.js'')"
    by (simp add: legacy_errors_def lit_Cons)
  have all: "check_ui_boundaries proj entries pkg config exists_file = Inr (lit ''UI boundaries: Rhea + Base UI + Tailwind 4'') \<longleftrightarrow>
      concat (map (file_errors proj) (concat (map (walk (srcRoot proj)) entries))) = [] \<and> package_errors pkg = []
      \<and> config_errors config = [] \<and> legacy_errors exists_file proj = []"
    unfolding check_ui_boundaries_def Let_def by (simp only: append_is_Nil_conv sum.inject if_splits) auto
  show ?thesis unfolding all files package_errors_iff config legacy by (simp only: conj_assoc)
qed

definition sample_tree :: "entry list" where
  "sample_tree = [Directory (lit ''components'') [Directory (lit ''ui'') [File (lit ''input.tsx'') (lit ''from @base-ui/react <select >'')]],
     File (lit ''App.tsx'') (lit ''<Button />'')]"

theorem ui_boundaries_exact_witness:
  "obeys [lit ''App.tsx''] (lit ''<Button />'')"
proof -
  let ?pkg = "JObj [(lit ''dependencies'', JObj [(lit ''@base-ui/react'', JStr (lit ''1''))]),
    (lit ''devDependencies'', JObj [(lit ''tailwindcss'', JStr (lit ''^4.1''))])]"
  let ?config = "JObj [(lit ''style'', JStr (lit ''base-rhea''))]"
  have "list_all well_named sample_tree" by (simp add: sample_tree_def lit_def)
  moreover have "check_ui_boundaries [slash] sample_tree ?pkg ?config (\<lambda>_. False) = Inr (lit ''UI boundaries: Rhea + Base UI + Tailwind 4'')"
    by code_simp
  moreover have "file_at sample_tree [lit ''App.tsx''] (lit ''<Button />'')" by (rule here) (simp add: sample_tree_def)
  moreover have "is_source (last [lit ''App.tsx''])" by code_simp
  ultimately show ?thesis using ui_boundaries_exact by blast
qed

end
