(* ===== verification/Table_State.thy ===== *)
theory Table_State
  imports Shared
begin

text \<open>
  The state of the data table (\<open>components/shared/data-table/data-table.tsx\<close>) and what it hands to the
  table library: its own sorting, filters and column visibility, the sorting and the page of the server where
  the page keeps them, and which of the library's row models run. The library reports a change of a part of
  the state as a value or as a function of the current value.
\<close>

type_synonym visibility = "string \<Rightarrow> bool"

record 'f table_state =
  ts_sorting :: sorting
  ts_filters :: "(string \<times> 'f) list"
  ts_visibility :: visibility

definition all_visible :: visibility where
  "all_visible = (\<lambda>_. True)"

definition table_init :: "visibility option \<Rightarrow> 'f table_state" where
  "table_init initialColumnVisibility = \<lparr>ts_sorting = [], ts_filters = [], ts_visibility = nullish initialColumnVisibility all_visible\<rparr>"

text \<open>What the component passes in: the state in effect, which models are left to the server, and which
  models the library computes.\<close>

definition effective_sorting :: "sorting option \<Rightarrow> 'f table_state \<Rightarrow> sorting" where
  "effective_sorting serverSorting s = nullish serverSorting (ts_sorting s)"

definition effective_pagination :: "server_pagination option \<Rightarrow> (int \<times> int) option" where
  "effective_pagination serverPagination = map_option (\<lambda>p. (sp_pageIndex p, sp_pageSize p)) serverPagination"

record 'f table_options =
  to_sorting :: sorting
  to_filters :: "(string \<times> 'f) list"
  to_visibility :: visibility
  to_pagination :: "(int \<times> int) option"
  to_manualPagination :: bool
  to_pageCount :: "int option"
  to_manualSorting :: bool
  to_sortedModel :: bool
  to_paginationModel :: bool
  to_initialPageSize :: int

definition table_options :: "int \<Rightarrow> server_pagination option \<Rightarrow> sorting option \<Rightarrow> 'f table_state \<Rightarrow> 'f table_options" where
  "table_options initialPageSize sp ss s =
     \<lparr>to_sorting = effective_sorting ss s, to_filters = ts_filters s, to_visibility = ts_visibility s,
      to_pagination = effective_pagination sp, to_manualPagination = (sp \<noteq> None), to_pageCount = map_option sp_pageCount sp,
      to_manualSorting = (ss \<noteq> None), to_sortedModel = (ss = None), to_paginationModel = (sp = None),
      to_initialPageSize = initialPageSize\<rparr>"

datatype 'f table_event =
    SortingChange "sorting updater" | FiltersChange "(string \<times> 'f) list updater" | VisibilityChange "visibility updater"
  | PaginationChange "(int \<times> int) updater"

datatype table_report = ReportSorting sorting | ReportPagination "int \<times> int"

fun table_step ::
  "server_pagination option \<Rightarrow> sorting option \<Rightarrow> 'f table_event \<Rightarrow> 'f table_state \<Rightarrow> 'f table_state \<times> table_report list" where
  "table_step sp ss (SortingChange u) s =
     (case updateSorting ss (ts_sorting s) u of
        (Some reported, local) \<Rightarrow> (s\<lparr>ts_sorting := local\<rparr>, [ReportSorting reported])
      | (None, local) \<Rightarrow> (s\<lparr>ts_sorting := local\<rparr>, []))"
| "table_step sp ss (FiltersChange u) s = (s\<lparr>ts_filters := apply_updater u (ts_filters s)\<rparr>, [])"
| "table_step sp ss (VisibilityChange u) s = (s\<lparr>ts_visibility := apply_updater u (ts_visibility s)\<rparr>, [])"
| "table_step sp ss (PaginationChange u) s = (s, case updatePagination sp u of None \<Rightarrow> [] | Some p \<Rightarrow> [ReportPagination p])"

fun table_run ::
  "server_pagination option \<Rightarrow> sorting option \<Rightarrow> 'f table_event list \<Rightarrow> 'f table_state \<Rightarrow> 'f table_state \<times> table_report list" where
  "table_run sp ss [] s = (s, [])"
| "table_run sp ss (e # es) s =
     (let (s', rs) = table_step sp ss e s; (s'', rs') = table_run sp ss es s' in (s'', rs @ rs'))"

text \<open>Exactly one side sorts and exactly one side pages.\<close>

lemma one_side_sorts:
  "to_sortedModel (table_options n sp ss s) \<noteq> to_manualSorting (table_options n sp ss s)"
  "to_paginationModel (table_options n sp ss s) \<noteq> to_manualPagination (table_options n sp ss s)"
  by (simp_all add: table_options_def)

text \<open>A table sorted and paged by the server keeps no sorting and no page of its own: whatever the library
  reports, the options show what the page passed in, and every change of the sorting or the page is reported
  to the page, computed from the values the page passed in.\<close>

lemma table_controlled:
  "table_run (Some p) (Some srt) es s = (s', rs) \<Longrightarrow>
     ts_sorting s' = ts_sorting s
     \<and> to_sorting (table_options n (Some p) (Some srt) s') = srt
     \<and> to_pagination (table_options n (Some p) (Some srt) s') = Some (sp_pageIndex p, sp_pageSize p)
     \<and> length rs = length (filter (\<lambda>e. case e of SortingChange _ \<Rightarrow> True | PaginationChange _ \<Rightarrow> True | _ \<Rightarrow> False) es)"
proof (induction es arbitrary: s rs)
  case (Cons e es)
  obtain s1 r1 where one: "table_step (Some p) (Some srt) e s = (s1, r1)" by (cases "table_step (Some p) (Some srt) e s") auto
  obtain r2 where two: "table_run (Some p) (Some srt) es s1 = (s', r2)" "rs = r1 @ r2"
    using Cons.prems one by (auto simp: Let_def split: prod.splits)
  have "ts_sorting s1 = ts_sorting s"
    "length r1 = (case e of SortingChange _ \<Rightarrow> 1 | PaginationChange _ \<Rightarrow> 1 | _ \<Rightarrow> 0)"
    using one by (cases e; auto simp: updateSorting_def updatePagination_def Let_def)+
  then show ?case using Cons.IH [OF two(1)] two(2) by (cases e) auto
qed (simp add: table_options_def effective_sorting_def effective_pagination_def)

text \<open>A local table never reports, and its sorting is what the library last set.\<close>

lemma table_local: "snd (table_run None None es s) = []"
proof (induction es arbitrary: s)
  case (Cons e es)
  have "snd (table_step None None e s) = []" by (cases e) (simp_all add: updateSorting_def updatePagination_def Let_def)
  then show ?case using Cons by (simp add: Let_def split_beta)
qed simp

end
