(* ===== verification/App_Root.thy ===== *)
theory App_Root
  imports Layout Ui_Sidebar
begin

text \<open>
  The root of the application (\<open>main.tsx\<close>, \<open>app/providers.tsx\<close>, \<open>components/ui/sonner.tsx\<close>): the providers
  around the routed pages, the defaults of the query client, and the toaster. Several hooks throw, or read
  nothing, outside their provider; the theory states which components need which provider and shows that
  the tree the application mounts gives every one of them its own.
\<close>

subsection \<open>The query client\<close>

record client_options =
  co_query_retry :: nat
  co_staleTime :: int
  co_refetchOnWindowFocus :: bool
  co_mutation_retry :: nat

definition queryClient_options :: client_options where
  "queryClient_options = \<lparr>co_query_retry = 1, co_staleTime = 5000, co_refetchOnWindowFocus = False, co_mutation_retry = 0\<rparr>"

text \<open>The library asks, after the given number of failures, whether to try again under a retry count; how it
  answers is a parameter. The attempts of one request end with the first success or the first refusal.\<close>

fun attempts :: "(nat \<Rightarrow> nat \<Rightarrow> bool) \<Rightarrow> nat \<Rightarrow> nat \<Rightarrow> bool list \<Rightarrow> bool list" where
  "attempts again limit n [] = []"
| "attempts again limit n (ok # oks) =
     ok # (if \<not> ok \<and> again n limit then attempts again limit (Suc n) oks else [])"

text \<open>With the documented answer, fewer failures than the count, a mutation is sent once and a query at most
  twice.\<close>

lemma attempts_bound:
  assumes "\<And>n limit. again n limit \<longleftrightarrow> n < limit"
  shows "n \<le> limit \<Longrightarrow> length (attempts again limit n oks) \<le> Suc limit - n"
proof (induction oks arbitrary: n)
  case (Cons ok oks)
  then show ?case using assms Cons.IH [of "Suc n"] by (cases "n < limit") auto
qed simp

lemma mutation_sent_once:
  assumes "\<And>n limit. again n limit \<longleftrightarrow> n < limit"
  shows "length (attempts again (co_mutation_retry queryClient_options) 0 oks) \<le> 1"
    and "length (attempts again (co_query_retry queryClient_options) 0 oks) \<le> 2"
  using attempts_bound [OF assms, of 0 0 oks] attempts_bound [OF assms, of 0 1 oks] by (simp_all add: queryClient_options_def)

subsection \<open>The toaster\<close>

text \<open>The theme of the toaster is the selected one; its own props come last and win.\<close>

definition Toaster :: "jsstr option \<Rightarrow> 'e attr list \<Rightarrow> 'e node" where
  "Toaster theme props = El ''Sonner''
     (spread [Attr ''theme'' (nullish theme (lit ''system'')),
        Attr ''icon-success'' (lit ''CircleCheckIcon''), Attr ''icon-info'' (lit ''InfoIcon''),
        Attr ''icon-warning'' (lit ''TriangleAlertIcon''), Attr ''icon-error'' (lit ''OctagonXIcon''),
        Attr ''icon-loading'' (lit ''Loader2Icon'')] props) []"

subsection \<open>The tree\<close>

definition AppProviders :: "jsstr option \<Rightarrow> 'e node \<Rightarrow> 'e node" where
  "AppProviders theme children =
     El ''ThemeProvider'' [Attr ''attribute'' (lit ''class''), Attr ''defaultTheme'' (lit ''system''), Flag ''enableSystem'' True,
        Flag ''disableTransitionOnChange'' True]
      [el ''QueryClientProvider''
        [el ''AuthProvider''
          [El ''TooltipProvider'' [Attr ''delay'' (lit ''350''), Attr ''closeDelay'' (lit ''0''), Attr ''timeout'' (lit ''0'')]
            [children,
             el ''Toaster'' [Toaster theme [Flag ''richColors'' True, Flag ''closeButton'' True, Attr ''position'' (lit ''top-right'')]]]]]]"

definition app_root :: "jsstr option \<Rightarrow> layout_action node \<Rightarrow> layout_action node" where
  "app_root theme app = el ''StrictMode'' [AppErrorBoundary (AppProviders theme (el ''BrowserRouter'' [el ''App'' [app]]))]"

subsection \<open>Every component below its provider\<close>

datatype provider = Theme | Query | Session | Tooltips | Routing | Sidebars

definition provides :: "string \<Rightarrow> provider option" where
  "provides name = map_of [(''ThemeProvider'', Theme), (''QueryClientProvider'', Query), (''AuthProvider'', Session),
     (''TooltipProvider'', Tooltips), (''BrowserRouter'', Routing), (''SidebarProvider'', Sidebars)] name"

text \<open>What the hooks of a component read: the session provider reads the query client, the toaster the theme,
  the routed application the theme, the client, the session and the router (its navigation, guards and pages do),
  and the parts of the sidebar call \<open>useSidebar\<close>, which throws outside its provider.\<close>

definition reads :: "string \<Rightarrow> provider list" where
  "reads name = nullish (map_of [(''AuthProvider'', [Query]), (''Toaster'', [Theme]), (''App'', [Theme, Query, Session, Tooltips, Routing]),
     (''Sidebar'', [Sidebars]), (''SidebarTrigger'', [Sidebars]), (''SidebarRail'', [Sidebars]), (''SidebarMenuButton'', [Sidebars])] name) []"

fun scoped :: "provider list \<Rightarrow> 'e node \<Rightarrow> bool" where
  "scoped G (Txt s) = True"
| "scoped G (Throw e) = True"
| "scoped G (Frag ks) = list_all (scoped G) ks"
| "scoped G (El name as ks) =
     (list_all (\<lambda>p. p \<in> set G) (reads name)
      \<and> list_all (scoped (case provides name of None \<Rightarrow> G | Some p \<Rightarrow> p # G)) ks)"

lemma scoped_mono: "scoped G v \<Longrightarrow> set G \<subseteq> set H \<Longrightarrow> scoped H v"
proof (induction v arbitrary: G H)
  case (El name as ks)
  have "set (case provides name of None \<Rightarrow> G | Some p \<Rightarrow> p # G) \<subseteq> set (case provides name of None \<Rightarrow> H | Some p \<Rightarrow> p # H)"
    using El.prems(2) by (auto split: option.split)
  with El show ?case by (auto simp: list_all_iff)
qed (auto simp: list_all_iff)

lemma scoped_simps [simp]:
  "scoped G (el name ks) = scoped G (El name [] ks)" "scoped G (show_if b v) \<longleftrightarrow> (b \<longrightarrow> scoped G v)"
  "scoped G (button d e ks) = scoped G (El ''Button'' [] ks)" "scoped G (text_or_throw t)"
  by (simp_all add: el_def show_if_def button_def) (cases t; simp)

lemmas scope_tables = reads_def provides_def

lemma boundary_fallback_scoped: "throws v \<Longrightarrow> scoped G (AppErrorBoundary v)"
  using first_throw_None [of v] by (auto simp: AppErrorBoundary_def scope_tables split: option.split)

lemma sidebar_scoped: "scoped [Sidebars, Routing, Tooltips, Session, Query, Theme] (AppSidebar auth pathname)"
  by (simp add: AppSidebar_def scope_tables list_all_iff split: prod.split)

lemma header_scoped: "scoped [Sidebars, Routing, Tooltips, Session, Query, Theme] (SiteHeader pathname theme)"
  by (simp add: SiteHeader_def ThemeToggle_def scope_tables list_all_iff split: prod.split)

lemma providers_throw: "throws (AppProviders theme v) \<longleftrightarrow> throws v"
  by (simp add: AppProviders_def Toaster_def el_def)

lemma app_root_throws_not: "\<not> throws (app_root theme v)"
  using boundary_catches [of "AppProviders theme (el ''BrowserRouter'' [el ''App'' [v]])"]
  by (simp add: app_root_def el_def)

lemma boundary_keeps: "\<not> throws v \<Longrightarrow> AppErrorBoundary v = v"
  using boundary_catches [of v] by simp

lemma shell_scoped:
  "scoped [Routing, Tooltips, Session, Query, Theme] (AppShell auth pathname theme outlet)
     \<longleftrightarrow> scoped [Sidebars, Routing, Tooltips, Session, Query, Theme] outlet"
  by (simp add: AppShell_def scope_tables sidebar_scoped header_scoped)

lemma root_scoped:
  "\<not> throws app \<Longrightarrow> scoped [] (app_root theme app) \<longleftrightarrow> scoped [Routing, Tooltips, Session, Query, Theme] app"
  by (simp add: app_root_def boundary_keeps providers_throw AppProviders_def Toaster_def scope_tables)



end
