(* ===== verification/Smoke_Test.thy ===== *)
theory Smoke_Test
  imports Permissions Ui_Boundaries
begin

text \<open>
  The logic of the browser smoke test (\<open>web/scripts/smoke-ui.mjs\<close>): the routes it visits with the headings
  it waits for, the in-memory enrollment API it can put in front of the server, and its verdict. Driving the
  browser and measuring the layout are not modelled; what they yield is the report the verdict reads.
\<close>

subsection \<open>Routes and headings\<close>

definition smoke_routes :: "(jsstr \<times> jsstr) list" where
  "smoke_routes =
     [(lit ''/'', t_nav_overview), (lit ''/jobs'', t_nav_jobs), (lit ''/results'', t_nav_results),
      (lit ''/league'', t_league_title), (lit ''/sources'', t_sources_title), (lit ''/blacklist'', t_blacklist_title),
      (lit ''/agents'', t_agents_title), (lit ''/settings'', t_nav_settings), (lit ''/users'', t_nav_users)]"

text \<open>A heading of the first level with the given text.\<close>

fun shows_heading :: "jsstr \<Rightarrow> 'e node \<Rightarrow> bool" where
  "shows_heading h (El name as ks) = (name = ''h1'' \<and> concat (map node_text ks) = h \<or> list_ex (shows_heading h) ks)"
| "shows_heading h (Frag ks) = list_ex (shows_heading h) ks"
| "shows_heading h _ = False"

lemma heading_el [simp]: "shows_heading h (el name ks) = (name = ''h1'' \<and> concat (map node_text ks) = h \<or> list_ex (shows_heading h) ks)"
  by (simp add: el_def)

lemma heading_PageHeader [simp]: "shows_heading h (PageHeader eyebrow h sub actions)"
  by (simp add: PageHeader_def)

text \<open>Once its data are there, every page shows the heading the test waits for on its route, and the routes of
  the test are exactly the links of an administrator's sidebar.\<close>

lemma smoke_routes_complete: "set (map fst smoke_routes) = set (map ni_to (sidebar_links True))"
  by (simp only: sidebar_links_eval) (auto simp: smoke_routes_def)

lemma headings_shown:
  "shows_heading t_nav_overview (DashboardPage (QData d) results resultData jobs jobData agentData)"
  "jobs' \<noteq> QPending \<Longrightarrow> shows_heading t_nav_jobs (ScansPage auth jobs' dialog table)"
  "shows_heading t_nav_results (ResultsPage I rs (QData r) (QData a) (QData f) (QData j) viewOptions tv)"
  "shows_heading t_league_title (LeaguePage_view I ls (QData as) (QData ld))"
  "\<not> q_pending (so_official s) \<Longrightarrow> \<not> q_pending (so_asns s) \<Longrightarrow> shows_heading t_sources_title (SourcesPage I canManage s create asn)"
  "\<not> q_pending bl \<Longrightarrow> shows_heading t_blacklist_title (BlacklistPage canManage bs bl btable)"
  "shows_heading t_agents_title (AgentsPage I c canManage (QData ags) (QData ens) orig config add fl atv)"
  "shows_heading t_nav_settings (SettingsPage I auth st q theme planName plans n runName runs)"
  "shows_heading t_nav_users (UsersPage (QData us) utable)"
          apply (simp add: DashboardPage_def t_dashboard_title_def t_nav_overview_def)
         apply (simp add: ScansPage_def)
        apply (simp add: ResultsPage_def)
       apply (simp add: LeaguePage_view_def Let_def)
      apply (simp add: SourcesPage_def Let_def split_beta)
     apply (simp add: BlacklistPage_def)
    apply (simp add: AgentsPage_def q_pending_def Let_def)
   apply (simp add: SettingsPage_def Let_def)
  apply (simp add: UsersPage_def)
  done

subsection \<open>The reset buttons\<close>

text \<open>The check of one toolbar: the button starts disabled, typing a search no row matches enables it, and
  pressing it empties the field and disables the button again.\<close>

definition verifyPersistentReset :: "('f \<Rightarrow> 'a node) \<Rightarrow> ('a \<Rightarrow> 'f \<Rightarrow> 'f) \<Rightarrow> 'a \<Rightarrow> (jsstr \<Rightarrow> 'a) \<Rightarrow> 'f \<Rightarrow> bool" where
  "verifyPersistentReset toolbar step reset search start =
     (let initiallyDisabled = (\<not> offers reset (toolbar start));
          filled = step (search (lit ''cfscan-no-match'')) start;
          enabledAfterFilter = offers reset (toolbar filled);
          after = step reset filled
      in initiallyDisabled \<and> enabledAfterFilter \<and> input_value (toolbar after) = Some [] \<and> \<not> offers reset (toolbar after))"

lemma resettable_verified: "resettable toolbar step reset search start \<Longrightarrow> verifyPersistentReset toolbar step reset search start"
proof -
  assume r: "resettable toolbar step reset search start"
  have e: "offers reset (toolbar (step (search s) (fold step as start)))" if "s \<noteq> []" for as s
    using r that by (simp add: resettable_def)
  have c: "step reset (fold step as start) = step reset start" for as using r by (simp add: resettable_def)
  from e [of "lit ''cfscan-no-match''" "[]"] have "offers reset (toolbar (step (search (lit ''cfscan-no-match'')) start))" by simp
  moreover from c [of "[search (lit ''cfscan-no-match'')]"]
  have "step reset (step (search (lit ''cfscan-no-match'')) start) = step reset start" by simp
  ultimately show ?thesis using r by (simp add: verifyPersistentReset_def resettable_def Let_def)
qed

text \<open>The reset buttons of the seven local tables keep their promise over every history of the table: the button starts disabled, a search after any run of actions enables it, and pressing it after any run, whatever filters were set, leads to one and the same state, with an empty search field and the button disabled; in particular the check of the smoke test succeeds on each of them.\<close>

theorem reset_buttons_persist:
  "resettable UsersToolbar users_filter_step UsResetFilters UsSearch \<lparr>uf_search = None, uf_role = None\<rparr>
   \<and> resettable JobToolbar jobs_filter_step JbResetFilters JbSearch \<lparr>jb_name = None, jb_status = None\<rparr>
   \<and> resettable ASNToolbar asn_filter_step AsResetFilters AsSearch \<lparr>nf_search = None, nf_enabled = None\<rparr>
   \<and> resettable AgentsToolbar agents_filter_step AgResetFilters AgSearch \<lparr>af_search = None, af_status = None\<rparr>
   \<and> resettable BlacklistToolbar blacklist_filter_step BlResetFilters BlSearch \<lparr>bf_ip = None, bf_reason = None\<rparr>
   \<and> resettable SchedulesToolbar plan_filter_step ScResetFilters ScSearch None
   \<and> resettable AutomationRunsToolbar runs_filter_step ArResetFilters ArSearch None
   \<and> verifyPersistentReset UsersToolbar users_filter_step UsResetFilters UsSearch \<lparr>uf_search = None, uf_role = None\<rparr>
   \<and> verifyPersistentReset SchedulesToolbar plan_filter_step ScResetFilters ScSearch None"
proof -
  have u: "resettable UsersToolbar users_filter_step UsResetFilters UsSearch \<lparr>uf_search = None, uf_role = None\<rparr>"
    by (rule users_toolbar.toolbar_resettable) (simp add: truthy_def opt_str_def)
  have s: "resettable SchedulesToolbar plan_filter_step ScResetFilters ScSearch None"
    by (rule plans_toolbar.toolbar_resettable) (simp add: truthy_def opt_str_def)
  show ?thesis
    by (intro conjI u s resettable_verified jobs_toolbar.toolbar_resettable asn_toolbar.toolbar_resettable
        agents_toolbar.toolbar_resettable blacklist_toolbar.toolbar_resettable runs_toolbar.toolbar_resettable)
       (simp_all add: truthy_def opt_str_def)
qed

subsection \<open>The enrollment API of the test\<close>

text \<open>The constants drawn at the start, and the one variable: the status of the enrollment.\<close>

record mock =
  mk_baseURL :: jsstr
  mk_token :: jsstr
  mk_id :: jsstr
  mk_status :: AgentEnrollmentStatus

text \<open>\<open>isoDate\<close> writes an instant in milliseconds, \<open>fresh\<close> is a new random identifier.\<close>

definition mockEnrollment :: "(int \<Rightarrow> jsstr) \<Rightarrow> jsstr \<Rightarrow> int \<Rightarrow> mock \<Rightarrow> AgentEnrollment" where
  "mockEnrollment isoDate fresh now m =
     \<lparr>en_id = mk_id m, en_mode = DeviceMode, en_status = mk_status m, en_requested_name = lit ''smoke-agent'',
      en_os = lit ''linux'', en_architecture = lit ''amd64'', en_version = lit ''v2.1.1-smoke'', en_requested_concurrency = 32,
      en_name = Some (if mk_status m = EnrollPending then [] else lit ''smoke-agent''),
      en_region = Some (if mk_status m = EnrollPending then [] else lit ''Smoke Region''),
      en_continent = Some (if mk_status m = EnrollPending then [] else lit ''Asia''),
      en_concurrency = Some 32, en_agent_id = Some (if mk_status m = EnrollClaimed then fresh else []),
      en_expires_at = isoDate (now + 10 * 60000),
      en_approved_at = (if mk_status m = EnrollApproved then Some (isoDate now) else None), en_claimed_at = None,
      en_created_at = isoDate (now - 30000), en_updated_at = isoDate now\<rparr>"

datatype mock_body =
    MockConfig AgentEnrollmentConfig | MockItems "AgentEnrollment list" | MockOne AgentEnrollment
  | MockCreated CreatePreauthorizedEnrollmentResponse

datatype mock_reply = Fulfill int mock_body | Fallback

definition whole :: "jsnum \<Rightarrow> int option" where
  "whole x = (case x of Fin r \<Rightarrow> Some \<lfloor>r\<rfloor> | _ \<Rightarrow> None)"

definition mock_created :: "(int \<Rightarrow> jsstr) \<Rightarrow> jsstr \<Rightarrow> int \<Rightarrow> CreatePreauthorizedEnrollmentInput \<Rightarrow> mock \<Rightarrow> mock_reply" where
  "mock_created isoDate fresh now input m = Fulfill 201 (MockCreated
     \<lparr>cr_enrollment = (mockEnrollment isoDate fresh now m)\<lparr>en_id := fresh, en_mode := PreauthorizedMode, en_status := EnrollApproved,
        en_requested_name := ap_name input, en_name := Some (ap_name input), en_region := Some (ap_region input),
        en_continent := Some (ap_continent input), en_concurrency := whole (ap_concurrency input)\<rparr>,
      cr_pairing_token = fresh,
      cr_expires_in = (case whole (ap_ttl_minutes input) of Some t \<Rightarrow> (if t = 0 then 30 else t) | None \<Rightarrow> 30) * 60\<rparr>)"

definition mock_route ::
  "(int \<Rightarrow> jsstr) \<Rightarrow> jsstr \<Rightarrow> int \<Rightarrow> jsstr \<Rightarrow> jsstr \<Rightarrow> CreatePreauthorizedEnrollmentInput \<Rightarrow> mock \<Rightarrow> mock \<times> mock_reply" where
  "mock_route isoDate fresh now meth path input m =
     (if meth = lit ''GET'' \<and> path = lit ''/api/v1/agent-enrollments/config'' then
        (m, Fulfill 200 (MockConfig \<lparr>ec_public_url = mk_baseURL m, ec_agent_image = lit ''ghcr.io/3011/cfscan-agent:v2.1.1'',
           ec_agent_version = lit ''v2.1.1'', ec_ttl_seconds = 600, ec_poll_interval = 3\<rparr>))
      else if meth = lit ''GET'' \<and> path = lit ''/api/v1/agent-enrollments'' then
        (m, Fulfill 200 (MockItems (if mk_status m \<in> {EnrollPending, EnrollApproved} then [mockEnrollment isoDate fresh now m] else [])))
      else if meth = lit ''POST'' \<and> path = lit ''/api/v1/agent-enrollments/preauthorized'' then (m, mock_created isoDate fresh now input m)
      else if meth = lit ''POST'' \<and> ends_with path (lit ''/approve'') then
        (let m' = m\<lparr>mk_status := EnrollApproved\<rparr> in (m', Fulfill 200 (MockOne (mockEnrollment isoDate fresh now m'))))
      else if meth = lit ''POST'' \<and> ends_with path (lit ''/reject'') then
        (let m' = m\<lparr>mk_status := EnrollRejected\<rparr> in (m', Fulfill 200 (MockOne (mockEnrollment isoDate fresh now m'))))
      else if meth = lit ''GET'' \<and> (str_includes path (lit ''/agent-enrollments/'' @ mk_token m)
          \<or> str_includes path (lit ''/agent-enrollments/id/'' @ mk_id m)) then (m, Fulfill 200 (MockOne (mockEnrollment isoDate fresh now m)))
      else (m, Fallback))"

text \<open>The calls of the console against it: the link of the pairing page is answered with the enrollment,
  approving it through the console's path approves it, and the page then shows the notice the test waits for.\<close>

lemma mock_reads:
  assumes "encodeURIComponent (mk_token m) = Inr (mk_token m)" "mk_token m \<noteq> []" "mk_token m \<noteq> lit ''config''"
    and "getAgentEnrollment (LocToken (mk_token m)) = Inr g"
  shows "mock_route isoDate fresh now (ri_method (ac_init g)) (ac_path g) input m = (m, Fulfill 200 (MockOne (mockEnrollment isoDate fresh now m)))"
proof -
  let ?p = "lit ''/api/v1/agent-enrollments/'' @ mk_token m"
  have g: "ac_path g = ?p" "ri_method (ac_init g) = lit ''GET''"
    using assms(1,4) by (auto simp: getAgentEnrollment_def enrollmentPath_def get_def GET_def)
  have "?p \<noteq> lit ''/api/v1/agent-enrollments/config''" "?p \<noteq> lit ''/api/v1/agent-enrollments''"
    using assms(2,3) by (simp_all add: lit_Cons)
  moreover have "str_includes ?p (lit ''/agent-enrollments/'' @ mk_token m)"
    unfolding str_includes_iff occurs_def by (intro exI [of _ "lit ''/api/v1''"] exI [of _ "[]"]) (simp add: lit_Cons)
  ultimately show ?thesis unfolding mock_route_def g by simp
qed

lemma mock_approves:
  assumes "approveAgentEnrollment (LocToken (mk_token m)) values = Inr a"
  shows "mock_route isoDate fresh now (ri_method (ac_init a)) (ac_path a) input m
       = (m\<lparr>mk_status := EnrollApproved\<rparr>, Fulfill 200 (MockOne (mockEnrollment isoDate fresh now (m\<lparr>mk_status := EnrollApproved\<rparr>))))
    \<and> approval_content I c canManage s (mockEnrollment isoDate fresh now (m\<lparr>mk_status := EnrollApproved\<rparr>))
       = notice t_approved_waiting [el ''p'' [Txt t_keep_running]]"
proof -
  obtain e where a: "ac_path a = e @ lit ''/approve''" "ri_method (ac_init a) = lit ''POST''"
    using assms by (auto simp: approveAgentEnrollment_def enrollmentPath_def call_def send_def map_sum_def split: sum.splits)
  have "last (e @ lit ''/approve'') \<noteq> last (lit ''/api/v1/agent-enrollments/preauthorized'')" by (simp add: lit_Cons)
  then have "e @ lit ''/approve'' \<noteq> lit ''/api/v1/agent-enrollments/preauthorized''" by metis
  moreover have "ends_with (e @ lit ''/approve'') (lit ''/approve'')" by (auto simp: ends_with_def starts_with_iff)
  ultimately have "mock_route isoDate fresh now (ri_method (ac_init a)) (ac_path a) input m
      = (m\<lparr>mk_status := EnrollApproved\<rparr>, Fulfill 200 (MockOne (mockEnrollment isoDate fresh now (m\<lparr>mk_status := EnrollApproved\<rparr>))))"
    unfolding mock_route_def a Let_def by simp
  then show ?thesis by (simp add: approval_content_def mockEnrollment_def)
qed

subsection \<open>The verdict\<close>

text \<open>A visited page by its overflow and whether the error boundary showed; an interaction is a condition or
  an object of measurements.\<close>

record visit =
  vi_overflow :: int
  vi_errorBoundary :: bool

datatype interaction = Check bool | Measured "(jsstr \<times> json) list"

record smoke_report =
  sm_desktop :: "visit list"
  sm_interactions :: "(jsstr \<times> interaction) list"
  sm_mobile :: "visit list"
  sm_errors :: "jsstr list"

definition smoke_failed :: "smoke_report \<Rightarrow> bool" where
  "smoke_failed r =
     (let failedRoutes = filter (\<lambda>v. vi_overflow v \<noteq> 0 \<or> vi_errorBoundary v) (sm_desktop r @ sm_mobile r);
          failedInteractions = filter (\<lambda>(_, v). v = Check False) (sm_interactions r)
      in failedRoutes \<noteq> [] \<or> failedInteractions \<noteq> [] \<or> sm_errors r \<noteq> [])"

text \<open>Interactions recorded as objects (the collapsed sidebar, the mobile sidebar) never fail the run, whatever
  they measured.\<close>

lemma measured_never_fails:
  "smoke_failed (r\<lparr>sm_interactions := (name, Measured sizes) # sm_interactions r\<rparr>) = smoke_failed r"
  by (simp add: smoke_failed_def)

end
