(* ===== verification/Test_Suite.thy ===== *)
theory Test_Suite
  imports Geo Schemas Format Server_Clock
begin

text \<open>
  The test suite of the repository (\<open>*.test.ts\<close>) on the model: every expectation of the tests, stated on the
  definitions of this development. The model is thereby checked against the same examples as the code.
\<close>

subsection \<open>Literals\<close>

definition t_test_asia :: jsstr where
  "t_test_asia = [0x4E9A, 0x6D32, 0x5E38, 0x89C4, 0x626B, 0x63CF]"

definition t_test_invalid :: jsstr where
  "t_test_invalid = [0x65E0, 0x6548, 0x4EFB, 0x52A1]"

definition t_test_prefixes :: jsstr where
  "t_test_prefixes = [0x5168, 0x524D, 0x7F00, 0x626B, 0x63CF]"

definition t_test_league :: jsstr where
  "t_test_league = [0x6700, 0x4F73, 0x20, 0x49, 0x50, 0x20, 0x8054, 0x8D5B]"

definition t_test_budget :: jsstr where
  "t_test_budget = [0x65E0, 0x6548, 0x8054, 0x8D5B, 0x9884, 0x7B97]"


abbreviation passes :: "'e + 'a \<Rightarrow> bool" where
  "passes r \<equiv> (\<exists>v. r = Inr v)"

subsection \<open>\<^verbatim>\<open>features/scans/schema.test.ts\<close>\<close>

lemmas scan_schema_eval = createScanJobSchema_def scanJobErrors_def scanJobTrim_def defaultScanJobValues_def
  js_trim_def lit_def is_ws_def z_defs bad_host_char_def starts_with_def

lemma default_profile_accepted:
  "passes (createScanJobSchema (defaultScanJobValues\<lparr>cj_name := t_test_asia\<rparr>))"
  by (simp add: scan_schema_eval t_test_asia_def)

lemma unsafe_settings_rejected:
  "\<not> passes (createScanJobSchema (defaultScanJobValues\<lparr>cj_name := t_test_invalid,
      cj_hostname := lit ''https://example.com/path'', cj_path := lit ''cdn-cgi/trace'', cj_max_packet_loss := Fin 120\<rparr>))"
  by (simp add: scan_schema_eval t_test_invalid_def field_def z_result_def)

lemma per_prefix_accepted:
  "passes (createScanJobSchema (defaultScanJobValues\<lparr>cj_name := t_test_prefixes, cj_sampling_mode := OnePerPrefix\<rparr>))"
  by (simp add: scan_schema_eval t_test_prefixes_def)

text \<open>The test's title says that this mode does not depend on the number of samples; the schema checks it all
  the same: with a number outside the range the form is rejected although the mode does not use it.\<close>

lemma per_prefix_checks_count:
  "\<not> passes (createScanJobSchema (defaultScanJobValues\<lparr>cj_name := t_test_prefixes, cj_sampling_mode := OnePerPrefix, cj_target_count := Fin 0\<rparr>))"
  by (simp add: scan_schema_eval t_test_prefixes_def field_def z_result_def)

lemma league_budget_required:
  "passes (createScanJobSchema (defaultScanJobValues\<lparr>cj_name := t_test_league, cj_sampling_mode := League, cj_target_count := Fin 256\<rparr>))"
  "\<not> passes (createScanJobSchema (defaultScanJobValues\<lparr>cj_name := t_test_budget, cj_sampling_mode := League, cj_target_count := Fin 0\<rparr>))"
  by (simp_all add: scan_schema_eval t_test_league_def t_test_budget_def field_def z_result_def)

subsection \<open>\<^verbatim>\<open>features/settings/schema.test.ts\<close>\<close>

lemmas schedule_schema_eval = scanScheduleSchema_def defaultScanScheduleValues_def CreateScanJob.defs UpsertScanSchedule.defs
  cronErrors_def cron_ok_def Let_def t_default_schedule_name_def

lemma cron_and_descriptors_accepted:
  "passes (scanScheduleSchema defaultScanScheduleValues)"
  "passes (scanScheduleSchema (defaultScanScheduleValues\<lparr>us_cron_expression := lit ''@daily''\<rparr>))"
  by (simp_all add: schedule_schema_eval scan_schema_eval)

lemma malformed_cron_rejected:
  "\<not> passes (scanScheduleSchema (defaultScanScheduleValues\<lparr>us_cron_expression := lit ''* * *''\<rparr>))"
  by (simp add: schedule_schema_eval scan_schema_eval field_def z_result_def)

definition test_recheck :: "jsnum \<Rightarrow> UpdateBlacklistRecheckSettings" where
  "test_recheck fraction = \<lparr>br_enabled = True, br_cron_expression = lit ''*/15 * * * *'', br_timezone = lit ''Asia/Shanghai'',
     br_due_only = True, br_fraction = fraction, br_max_targets = Fin 500, br_skip_if_running = True, br_attempts = Fin 3,
     br_timeout_ms = Fin 5000, br_max_latency_ms = Fin 1000, br_max_packet_loss = Fin 50, br_retry_minutes = Fin 120\<rparr>"

lemmas recheck_schema_eval = blacklistRecheckSchema_def test_recheck_def cronErrors_def cron_ok_def
  js_trim_def lit_def is_ws_def z_defs starts_with_def Let_def

lemma recovery_policy_accepted: "passes (blacklistRecheckSchema (test_recheck (Fin (1 / 2))))"
  by (simp add: recheck_schema_eval)

lemma recheck_ratio_rejected: "\<not> passes (blacklistRecheckSchema (test_recheck (Fin (3 / 2))))"
  by (simp add: recheck_schema_eval field_def z_result_def)

lemma startup_sync_accepted:
  "passes (sourceSyncSchema \<lparr>uy_enabled = True, uy_cron_expression = lit ''0 */6 * * *'', uy_timezone = lit ''Asia/Shanghai'', uy_run_on_startup = True\<rparr>)"
  by (simp add: sourceSyncSchema_def recheck_schema_eval)

subsection \<open>\<^verbatim>\<open>features/sources/schema.test.ts\<close>\<close>

lemma asn_source_accepted:
  "passes (createASNSourceSchema \<lparr>av_asn = Fin 13335, av_name = lit ''CLOUDFLARENET'', av_organization = lit ''Cloudflare, Inc.'', av_enabled = True\<rparr>)"
  by (simp add: createASNSourceSchema_def js_trim_def lit_def is_ws_def z_defs Let_def)

lemma asn_range_rejected:
  "\<not> passes (createASNSourceSchema \<lparr>av_asn = Fin 4294967296, av_name = lit ''Invalid ASN'', av_organization = lit ''Cloudflare, Inc.'', av_enabled = True\<rparr>)"
  by (simp add: createASNSourceSchema_def js_trim_def lit_def is_ws_def z_defs Let_def field_def z_result_def)

subsection \<open>\<^verbatim>\<open>features/users/schema.test.ts\<close>\<close>

lemmas user_schema_eval = createUserSchema_def updateUserSchema_def resetPasswordSchema_def displayNameErrors_def passwordErrors_def
  username_char_def js_trim_def lit_def is_ws_def z_defs Let_def

lemma accounts_accepted:
  "passes (createUserSchema \<lparr>cu_username = lit ''viewer-01'', cu_display_name = lit ''Viewer'', cu_password = lit ''password123'', cu_role = Viewer\<rparr>)"
  "passes (updateUserSchema \<lparr>uu_display_name = lit ''Administrator'', uu_role = Admin, uu_enabled = True\<rparr>)"
  by (simp_all add: user_schema_eval)

lemma bad_account_rejected:
  "\<not> passes (createUserSchema \<lparr>cu_username = lit ''Bad User'', cu_display_name = lit ''Bad'', cu_password = lit ''short'', cu_role = Viewer\<rparr>)"
  by (simp add: user_schema_eval field_def z_result_def)

lemma reset_must_match:
  "\<not> passes (resetPasswordSchema \<lparr>rp_password = lit ''password123'', rp_confirm_password = lit ''password124''\<rparr>)"
  by (simp add: user_schema_eval field_def z_result_def)

subsection \<open>\<^verbatim>\<open>features/results/geo-facets.test.ts\<close>\<close>

definition test_facets :: "ResultColoFacet list" where
  "test_facets =
     [\<lparr>cf_code = lit ''HKG'', cf_city = lit ''Hong Kong'', cf_country = lit ''Hong Kong'', cf_continent = lit ''Asia'', cf_count = 8\<rparr>,
      \<lparr>cf_code = lit ''SIN'', cf_city = lit ''Singapore'', cf_country = lit ''Singapore'', cf_continent = lit ''Asia'', cf_count = 5\<rparr>,
      \<lparr>cf_code = lit ''LAX'', cf_city = lit ''Los Angeles'', cf_country = lit ''United States'', cf_continent = lit ''North America'', cf_count = 3\<rparr>]"

text \<open>Any collation that orders these names alphabetically.\<close>

definition alphabetic :: "(jsstr \<Rightarrow> jsstr \<Rightarrow> rat) \<Rightarrow> bool" where
  "alphabetic cmp \<longleftrightarrow> cmp (lit ''Asia'') (lit ''North America'') < 0 \<and> cmp (lit ''Hong Kong'') (lit ''Singapore'') < 0
     \<and> cmp (lit ''HKG'') (lit ''SIN'') < 0"

lemmas geo_eval = buildGeoFacetOptions_def test_facets_def aggregate_def map_set_def map_get_def alphabetic_def colo_option_def

lemma continents_of_rows:
  assumes "alphabetic cmp"
  shows "opt_continents (buildGeoFacetOptions cmp test_facets \<lparr>gs_continent = [], gs_country = [], gs_city = [], gs_colo = []\<rparr>)
    = [\<lparr>go_value = lit ''Asia'', go_label = lit ''Asia'', go_count = 13\<rparr>, \<lparr>go_value = lit ''North America'', go_label = lit ''North America'', go_count = 3\<rparr>]"
  using assms by (simp add: geo_eval)

lemma choices_cascade:
  assumes "alphabetic cmp"
  shows "let result = buildGeoFacetOptions cmp test_facets \<lparr>gs_continent = lit ''Asia'', gs_country = [], gs_city = [], gs_colo = []\<rparr>
    in map go_value (opt_countries result) = [lit ''Hong Kong'', lit ''Singapore'']
       \<and> \<not> list_ex (\<lambda>i. go_value i = lit ''United States'') (opt_countries result)
       \<and> map go_value (opt_colos result) = [lit ''HKG'', lit ''SIN'']"
  using assms by (simp add: geo_eval)

lemma unbacked_dropped:
  "normalizeGeoSelection test_facets \<lparr>gs_continent = lit ''Asia'', gs_country = lit ''United States'', gs_city = lit ''Los Angeles'', gs_colo = lit ''LAX''\<rparr>
     = \<lparr>gs_continent = lit ''Asia'', gs_country = [], gs_city = [], gs_colo = []\<rparr>"
  "normalizeGeoSelection test_facets \<lparr>gs_continent = lit ''Europe'', gs_country = lit ''United States'', gs_city = lit ''Los Angeles'', gs_colo = lit ''LAX''\<rparr>
     = \<lparr>gs_continent = [], gs_country = [], gs_city = [], gs_colo = []\<rparr>"
  by (simp_all add: normalizeGeoSelection_def test_facets_def)

subsection \<open>\<^verbatim>\<open>lib/format.test.ts\<close> and \<^verbatim>\<open>lib/server-clock.test.ts\<close>\<close>

lemma rounded: "math_round (421 / 5) = 84" "math_round (469 / 2) = 235" "math_round (62 / 5) = 12"
  by (simp_all add: math_round_def floor_eq_iff)

lemma durations_formatted:
  "formatMS (Some (842 / 100)) = lit ''8.4'' @ t_ms_unit" "formatMS (Some (2345 / 10)) = lit ''235'' @ t_ms_unit" "formatMS (Some 0) = t_dash"
  by (simp_all add: formatMS_def to_fixed_def rounded pad_zeros_def dec_digits.simps lit_def Let_def)

lemma numbers_formatted: "formatNumber (Some 6171) = lit ''6,171''" "formatPercent (Some (124 / 10)) 0 = lit ''12%''"
  by (simp_all add: formatNumber_def group_digits_def formatPercent_def to_fixed_def rounded dec_digits.simps lit_def Let_def)

lemma relative_times:
  assumes "date_ms I (opt_str (Some v)) = Fin (base - of_nat n * 1000)" "v \<noteq> []" "n < 60"
  shows "formatRelativeTime I (Some v) base = Inr (show_int (int n) @ t_seconds_ago)"
  using assms math_round_of_int [of "int n"] by (simp add: formatRelativeTime_def truthy_def Let_def)

lemma clock_midpoint:
  "calculateServerOffset dp (Some (lit ''1700000010000'')) (Fin 1700000000000) (Fin 1700000000200) = Some 9900"
  "dp date = Some 1700000010000 \<Longrightarrow> js_number date = NaN \<Longrightarrow>
     calculateServerOffset dp (Some date) (Fin 1700000000000) (Fin 1700000000000) = Some 10000"
  "dp (lit ''not-a-time'') = None \<Longrightarrow> calculateServerOffset dp (Some (lit ''not-a-time'')) (Fin 1) (Fin 2) = None"
proof -
  have p: "parseServerTime dp (Some (lit ''1700000010000'')) = Some 1700000010000"
    by (simp add: parseServerTime_def js_number_digits lit_def is_digit_def digits_value_def)
  then show "calculateServerOffset dp (Some (lit ''1700000010000'')) (Fin 1700000000000) (Fin 1700000000200) = Some 9900"
    by (simp add: calculateServerOffset_def)
  assume d: "dp date = Some 1700000010000" "js_number date = NaN"
  have "date \<noteq> []" using d(2) by (auto simp: js_number_def js_trim_def)
  then show "calculateServerOffset dp (Some date) (Fin 1700000000000) (Fin 1700000000000) = Some 10000"
    using d by (simp add: calculateServerOffset_def parseServerTime_def)
next
  assume n: "dp (lit ''not-a-time'') = None"
  have "js_number (lit ''not-a-time'') = NaN"
    by (simp add: js_number_def lit_def js_trim_def is_ws_def unsigned_number_def decimal_literal_def is_digit_def)
  then show "calculateServerOffset dp (Some (lit ''not-a-time'')) (Fin 1) (Fin 2) = None"
    using n by (simp add: calculateServerOffset_def parseServerTime_def)
qed

end
