(* ===== verification/Targets.thy ===== *)
theory Targets
  imports Prelude "HOL-Library.Word" "HOL-Library.List_Lexorder" "HOL-Library.Product_Lexorder"
begin

text \<open>
  The choice of scan targets on the server (\<open>internal/targets/sample.go\<close>): addresses drawn from address
  prefixes by a hash, without repetition. An address is a word of 32 or 128 bits and the arithmetic of
  \<open>addressFor\<close> is that of the source. Two things of Go's library stay parameters: the texts of \<open>net/netip\<close>
  (parsing and printing) and the hash \<open>SHA-256\<close>, of which nothing is used but that it is a function.
\<close>

subsection \<open>Addresses and prefixes\<close>

datatype addr = V4 "32 word" | V6 "128 word"

fun is4 :: "addr \<Rightarrow> bool" where
  "is4 (V4 _) = True"
| "is4 (V6 _) = False"

fun addr_width :: "addr \<Rightarrow> nat" where
  "addr_width (V4 _) = 32"
| "addr_width (V6 _) = 128"

fun addr_val :: "addr \<Rightarrow> nat" where
  "addr_val (V4 a) = unat a"
| "addr_val (V6 a) = unat a"

fun addr_of :: "bool \<Rightarrow> nat \<Rightarrow> addr" where
  "addr_of True v = V4 (of_nat v)"
| "addr_of False v = V6 (of_nat v)"

record prefix =
  pf_addr :: addr
  pf_bits :: nat

definition host_bits :: "prefix \<Rightarrow> nat" where
  "host_bits p = addr_width (pf_addr p) - pf_bits p"

text \<open>Clearing the host bits of an address; a prefix contains the addresses of its family that agree with it
  on the rest.\<close>

fun clear_host :: "nat \<Rightarrow> addr \<Rightarrow> addr" where
  "clear_host h (V4 a) = V4 (push_bit h (drop_bit h a))"
| "clear_host h (V6 a) = V6 (push_bit h (drop_bit h a))"

definition Masked :: "prefix \<Rightarrow> prefix" where
  "Masked p = p\<lparr>pf_addr := clear_host (host_bits p) (pf_addr p)\<rparr>"

definition Contains :: "prefix \<Rightarrow> addr \<Rightarrow> bool" where
  "Contains p a \<longleftrightarrow> is4 a = is4 (pf_addr p) \<and> clear_host (host_bits p) a = clear_host (host_bits p) (pf_addr p)"

definition valid_prefix :: "prefix \<Rightarrow> bool" where
  "valid_prefix p \<longleftrightarrow> pf_bits p \<le> addr_width (pf_addr p)"

text \<open>The texts of addresses and prefixes, and what is documented of them: printing an address and parsing it
  gives it back, and so does printing a parsed prefix once its host bits are cleared.\<close>

record netip =
  ParsePrefix :: "jsstr \<Rightarrow> prefix option"
  ParseAddr :: "jsstr \<Rightarrow> addr option"
  prefix_String :: "prefix \<Rightarrow> jsstr"
  addr_String :: "addr \<Rightarrow> jsstr"

definition netip_texts :: "netip \<Rightarrow> bool" where
  "netip_texts N \<longleftrightarrow> (\<forall>a. ParseAddr N (addr_String N a) = Some a)
     \<and> (\<forall>s p. ParsePrefix N s = Some p \<longrightarrow> valid_prefix p \<and> ParsePrefix N (prefix_String N (Masked p)) = Some (Masked p))"

lemma unat_bound: "unat w < 2 ^ LENGTH('a)" for w :: "'a::len word"
  by (rule unsigned_less)

lemma addr_val_less: "addr_val a < 2 ^ addr_width a"
proof (cases a)
  case (V4 w)
  then show ?thesis using unat_bound [of w] by simp
next
  case (V6 w)
  then show ?thesis using unat_bound [of w] by simp
qed

lemma unat_clear: "unat (push_bit h (drop_bit h w)) = unat w div 2 ^ h * 2 ^ h" for w :: "'a::len word"
proof -
  have "unat w div 2 ^ h * 2 ^ h \<le> unat w" by simp
  then have "unat w div 2 ^ h * 2 ^ h < 2 ^ LENGTH('a)" using unat_bound [of w] by linarith
  moreover have "unat (push_bit h (drop_bit h w)) = take_bit LENGTH('a) (push_bit h (drop_bit h (unat w)))"
    by (simp only: unsigned_push_bit_eq unsigned_drop_bit_eq take_bit_nat_eq_self [OF unat_bound])
  ultimately show ?thesis by (simp add: push_bit_eq_mult drop_bit_eq_div take_bit_nat_eq_self)
qed

lemma clear_host_val [simp]: "addr_val (clear_host h a) = addr_val a div 2 ^ h * 2 ^ h" "is4 (clear_host h a) = is4 a"
  "addr_width (clear_host h a) = addr_width a"
  by (cases a; simp add: unat_clear)+

lemma addr_eqI: "is4 a = is4 b \<Longrightarrow> addr_val a = addr_val b \<Longrightarrow> a = b"
  by (cases a; cases b) (simp_all add: word_unat_eq_iff)

lemma addr_of_val: "v < 2 ^ (if b then 32 else 128) \<Longrightarrow> addr_val (addr_of b v) = v" "is4 (addr_of b v) = b"
  by (cases b; simp add: unsigned_of_nat take_bit_nat_eq_self)+

lemma Contains_iff: "Contains p a \<longleftrightarrow> is4 a = is4 (pf_addr p) \<and> addr_val a div 2 ^ host_bits p = addr_val (pf_addr p) div 2 ^ host_bits p"
proof -
  have "clear_host h a = clear_host h b \<longleftrightarrow> addr_val a div 2 ^ h = addr_val b div 2 ^ h" if "is4 a = is4 b" for h b
  proof
    assume "clear_host h a = clear_host h b"
    then have "addr_val (clear_host h a) = addr_val (clear_host h b)" by simp
    then show "addr_val a div 2 ^ h = addr_val b div 2 ^ h" by simp
  next
    assume "addr_val a div 2 ^ h = addr_val b div 2 ^ h"
    then show "clear_host h a = clear_host h b" using that by (intro addr_eqI) simp_all
  qed
  then show ?thesis unfolding Contains_def by blast
qed

lemma Masked_simps [simp]: "pf_bits (Masked p) = pf_bits p" "host_bits (Masked p) = host_bits p" "is4 (pf_addr (Masked p)) = is4 (pf_addr p)"
  "valid_prefix (Masked p) = valid_prefix p" "addr_width (pf_addr (Masked p)) = addr_width (pf_addr p)"
  by (simp_all add: Masked_def host_bits_def valid_prefix_def)

lemma Masked_idem [simp]: "Masked (Masked p) = Masked p"
proof -
  have "clear_host h (clear_host h a) = clear_host h a" for h a by (rule addr_eqI) simp_all
  then show ?thesis by (simp add: Masked_def host_bits_def)
qed

text \<open>A masked prefix starts at a multiple of its size and ends within the address space.\<close>

lemma masked_room:
  assumes "valid_prefix p" "Masked p = p"
  shows "2 ^ host_bits p dvd addr_val (pf_addr p)" "addr_val (pf_addr p) + 2 ^ host_bits p \<le> 2 ^ addr_width (pf_addr p)"
proof -
  let ?h = "host_bits p" and ?v = "addr_val (pf_addr p)" and ?w = "addr_width (pf_addr p)"
  have "pf_addr (Masked p) = pf_addr p" using assms(2) by simp
  then have "addr_val (clear_host ?h (pf_addr p)) = ?v" by (simp add: Masked_def)
  then have v: "?v = ?v div 2 ^ ?h * 2 ^ ?h" by simp
  then show "2 ^ ?h dvd ?v" by (metis dvd_triv_right)
  have w: "(2::nat) ^ ?w = 2 ^ pf_bits p * 2 ^ ?h"
    using assms(1) by (simp add: valid_prefix_def host_bits_def flip: power_add)
  have "?v div 2 ^ ?h < 2 ^ pf_bits p" using addr_val_less [of "pf_addr p"] v w by (metis mult_less_cancel2)
  then have "(?v div 2 ^ ?h + 1) * 2 ^ ?h \<le> 2 ^ pf_bits p * 2 ^ ?h" by (intro mult_right_mono) simp_all
  then show "?v + 2 ^ ?h \<le> 2 ^ ?w" using v w by simp
qed

subsection \<open>One address of a prefix\<close>

text \<open>The hash decides the offset; in an IPv4 prefix of more than two addresses the first and the last one are left
  out. \<open>FillBytes\<close> panics on a number that does not fit the address: \<open>None\<close>.\<close>

definition addressFor :: "(jsstr \<Rightarrow> 256 word) \<Rightarrow> netip \<Rightarrow> prefix \<Rightarrow> jsstr \<Rightarrow> nat \<Rightarrow> addr option" where
  "addressFor sha N prefix seed rnd =
     (let bits = (if is4 (pf_addr prefix) then 32 else 128);
          hostBits = bits - pf_bits prefix;
          base = addr_val (pf_addr prefix);
          count = 2 ^ hostBits;
          hash = sha (prefix_String N prefix @ lit ''|'' @ seed @ lit ''|'' @ show_int (int rnd));
          offset = unat hash mod count;
          offset' = (if bits = 32 \<and> hostBits > 1 then offset mod (count - 2) + 1 else offset);
          value = base + offset'
      in if value < 2 ^ bits then Some (addr_of (bits = 32) value) else None)"

text \<open>The addresses a scan may use: not the first and not the last one of an IPv4 prefix of more than two.\<close>

definition usable_host :: "prefix \<Rightarrow> addr \<Rightarrow> bool" where
  "usable_host p a \<longleftrightarrow> Contains p a \<and> (is4 a \<and> host_bits p > 1 \<longrightarrow>
     addr_val a \<noteq> addr_val (pf_addr (Masked p)) \<and> addr_val a \<noteq> addr_val (pf_addr (Masked p)) + 2 ^ host_bits p - 1)"

lemma addr_width_is4: "addr_width a = (if is4 a then 32 else 128)"
  by (cases a) simp_all

lemma addressFor_usable:
  assumes "valid_prefix p" "Masked p = p"
  obtains a where "addressFor sha N p seed rnd = Some a" "usable_host p a"
proof -
  let ?h = "host_bits p" and ?b = "addr_val (pf_addr p)" and ?w = "addr_width (pf_addr p)"
  let ?o = "unat (sha (prefix_String N p @ lit ''|'' @ seed @ lit ''|'' @ show_int (int rnd))) mod 2 ^ ?h"
  define off where "off = (if is4 (pf_addr p) \<and> ?h > 1 then ?o mod (2 ^ ?h - 2) + 1 else ?o)"
  note room = masked_room [OF assms]
  have off: "off < 2 ^ ?h" "is4 (pf_addr p) \<and> ?h > 1 \<longrightarrow> 0 < off \<and> off < 2 ^ ?h - 1"
  proof -
    show "is4 (pf_addr p) \<and> ?h > 1 \<longrightarrow> 0 < off \<and> off < 2 ^ ?h - 1"
    proof
      assume h: "is4 (pf_addr p) \<and> ?h > 1"
      then have "(4::nat) \<le> 2 ^ ?h" using power_increasing [of 2 ?h "2::nat"] by simp
      moreover from this have "?o mod (2 ^ ?h - 2) < 2 ^ ?h - 2" by (intro mod_less_divisor) linarith
      ultimately have "?o mod (2 ^ ?h - 2) + 1 < 2 ^ ?h - 1" by linarith
      then show "0 < off \<and> off < 2 ^ ?h - 1" using h by (simp add: off_def)
    qed
    then show "off < 2 ^ ?h" by (cases "is4 (pf_addr p) \<and> ?h > 1") (auto simp: off_def)
  qed
  have fits: "?b + off < 2 ^ ?w" using room(2) off(1) by linarith
  define a where "a = addr_of (is4 (pf_addr p)) (?b + off)"
  have val: "addr_val a = ?b + off" "is4 a = is4 (pf_addr p)"
    using fits by (simp_all add: a_def addr_of_val addr_width_is4)
  have "(?b + off) div 2 ^ ?h = ?b div 2 ^ ?h" using room(1) off(1) by (auto elim!: dvdE)
  then have "usable_host p a"
    unfolding usable_host_def Contains_iff val assms(2) using off(2) room by auto
  moreover have "addressFor sha N p seed rnd = Some a"
  proof (cases "is4 (pf_addr p)")
    case True
    then have "?h = 32 - pf_bits p" by (simp add: host_bits_def addr_width_is4)
    then show ?thesis using fits True by (simp add: addressFor_def Let_def a_def off_def addr_width_is4 split: if_splits)
  next
    case False
    then have "?h = 128 - pf_bits p" by (simp add: host_bits_def addr_width_is4)
    then show ?thesis using fits False by (simp add: addressFor_def Let_def a_def off_def addr_width_is4)
  qed
  ultimately show thesis by (rule that [rotated])
qed

subsection \<open>Several addresses of a prefix\<close>

datatype target_error =
    LimitRange | Unparsed jsstr | NoActivePrefixes | NothingSampled | NotUnique jsstr | AddressPanic

record go_prefix =
  mp_CIDR :: jsstr
  mp_IPVersion :: int
  mp_Active :: bool

record scan_target =
  st_TargetIP :: jsstr
  st_PrefixCIDR :: jsstr

definition MaxSampleTargets :: int where
  "MaxSampleTargets = 10000"

text \<open>The loop of \<open>FromPrefix\<close>: the first argument counts the rounds that are left of 4096. The map of the
  addresses seen is shared with the caller, so the new one is part of the result.\<close>

fun from_rounds :: "(jsstr \<Rightarrow> 256 word) \<Rightarrow> netip \<Rightarrow> prefix \<Rightarrow> jsstr \<Rightarrow> nat \<Rightarrow> nat \<Rightarrow> nat \<Rightarrow> scan_target list \<Rightarrow> jsstr list
    \<Rightarrow> target_error + scan_target list \<times> jsstr list" where
  "from_rounds sha N prefix seed count 0 rnd items seen = Inr (items, seen)"
| "from_rounds sha N prefix seed count (Suc left) rnd items seen =
     (if length items < count then
        (case addressFor sha N prefix seed rnd of
           None \<Rightarrow> Inl AddressPanic
         | Some addr \<Rightarrow>
             (let value = addr_String N addr in
              if value \<in> set seen then from_rounds sha N prefix seed count left (Suc rnd) items seen
              else from_rounds sha N prefix seed count left (Suc rnd)
                (items @ [\<lparr>st_TargetIP = value, st_PrefixCIDR = prefix_String N prefix\<rparr>]) (value # seen)))
      else Inr (items, seen))"

definition FromPrefix :: "(jsstr \<Rightarrow> 256 word) \<Rightarrow> netip \<Rightarrow> jsstr \<Rightarrow> int \<Rightarrow> jsstr \<Rightarrow> jsstr list
    \<Rightarrow> target_error + scan_target list \<times> jsstr list" where
  "FromPrefix sha N cidr count seed seen =
     (if count \<le> 0 then Inr ([], seen)
      else case ParsePrefix N cidr of
        None \<Rightarrow> Inl (Unparsed cidr)
      | Some prefix \<Rightarrow> from_rounds sha N (Masked prefix) seed (nat count) 4096 0 [] seen)"

text \<open>A target that was drawn from a prefix: it carries the text of the prefix and of a usable address of it.\<close>

definition drawn :: "netip \<Rightarrow> prefix \<Rightarrow> scan_target \<Rightarrow> bool" where
  "drawn N p t \<longleftrightarrow> st_PrefixCIDR t = prefix_String N p \<and> (\<exists>a. st_TargetIP t = addr_String N a \<and> usable_host p a)"

text \<open>What a draw adds: distinct new addresses, all marked as seen.\<close>

definition draws :: "netip \<Rightarrow> prefix set \<Rightarrow> scan_target list \<Rightarrow> jsstr list \<Rightarrow> jsstr list \<Rightarrow> bool" where
  "draws N ps items seen seen' \<longleftrightarrow> (\<forall>t \<in> set items. \<exists>p \<in> ps. drawn N p t) \<and> distinct (map st_TargetIP items)
     \<and> st_TargetIP ` set items \<inter> set seen = {} \<and> set seen' = set seen \<union> st_TargetIP ` set items"

lemma draws_Nil [simp]: "draws N ps [] seen seen"
  by (simp add: draws_def)

lemma draws_append: "draws N ps xs s0 s1 \<Longrightarrow> draws N ps ys s1 s2 \<Longrightarrow> draws N ps (xs @ ys) s0 s2"
  unfolding draws_def by auto

lemma draws_one: "drawn N p t \<Longrightarrow> p \<in> ps \<Longrightarrow> st_TargetIP t \<notin> set seen \<Longrightarrow> draws N ps [t] seen (st_TargetIP t # seen)"
  unfolding draws_def by auto

lemma draws_mono: "draws N ps xs s0 s1 \<Longrightarrow> ps \<subseteq> qs \<Longrightarrow> draws N qs xs s0 s1"
  unfolding draws_def by blast

lemma from_rounds_draws:
  assumes "valid_prefix p" "Masked p = p" "draws N {p} items seen0 seen" "length items \<le> count"
  shows "\<exists>items' seen'. from_rounds sha N p seed count left rnd items seen = Inr (items', seen')
    \<and> draws N {p} items' seen0 seen' \<and> length items' \<le> count \<and> length items \<le> length items'"
  using assms(3,4)
proof (induction left arbitrary: rnd items seen)
  case (Suc left)
  obtain a where a: "addressFor sha N p seed rnd = Some a" "usable_host p a"
    using addressFor_usable [OF assms(1,2)] .
  let ?t = "\<lparr>st_TargetIP = addr_String N a, st_PrefixCIDR = prefix_String N p\<rparr>"
  consider "count \<le> length items" | "length items < count" "addr_String N a \<in> set seen" | "length items < count" "addr_String N a \<notin> set seen"
    by linarith
  then show ?case
  proof cases
    case 1
    then show ?thesis using Suc.prems by auto
  next
    case 2
    then show ?thesis using Suc.IH [OF Suc.prems] a(1) by simp
  next
    case 3
    have d: "draws N {p} (items @ [?t]) seen0 (addr_String N a # seen)"
      using draws_append [OF Suc.prems(1) draws_one [of N p ?t "{p}" seen]] a(2) 3(2) by (auto simp: drawn_def)
    have "length (items @ [?t]) \<le> count" using 3(1) by simp
    from Suc.IH [OF d this, of "Suc rnd"] obtain r s where
      "from_rounds sha N p seed count left (Suc rnd) (items @ [?t]) (addr_String N a # seen) = Inr (r, s)"
      "draws N {p} r seen0 s" "length r \<le> count" "length (items @ [?t]) \<le> length r" by blast
    then show ?thesis using 3 a(1) by (intro exI [of _ r] exI [of _ s]) (simp add: Let_def)
  qed
qed auto

lemma FromPrefix_draws:
  assumes "netip_texts N" "ParsePrefix N cidr = Some p"
  shows "\<exists>items seen'. FromPrefix sha N cidr count seed seen = Inr (items, seen')
    \<and> draws N {Masked p} items seen seen' \<and> length items \<le> nat count"
proof -
  have "valid_prefix (Masked p)" using assms by (simp add: netip_texts_def)
  from from_rounds_draws [OF this Masked_idem draws_Nil, where count = "nat count" and left = 4096 and rnd = 0]
  show ?thesis using assms(2) by (auto simp: FromPrefix_def)
qed

text \<open>Where nothing was seen yet, a positive count is answered.\<close>

lemma FromPrefix_first:
  assumes "valid_prefix p" "Masked p = p" "ParsePrefix N cidr = Some p" "0 < count" "FromPrefix sha N cidr count seed [] = Inr (items, seen')"
  shows "items \<noteq> []"
proof -
  obtain a where a: "addressFor sha N p seed 0 = Some a" "usable_host p a" using addressFor_usable [OF assms(1,2)] .
  let ?t = "\<lparr>st_TargetIP = addr_String N a, st_PrefixCIDR = prefix_String N p\<rparr>"
  have "drawn N p ?t" using a(2) by (auto simp: drawn_def)
  then have d: "draws N {p} [?t] [] [addr_String N a]" using draws_one [of N p ?t "{p}" "[]"] by simp
  have "from_rounds sha N p seed (nat count) 4096 0 [] [] = from_rounds sha N p seed (nat count) 4095 1 [?t] [addr_String N a]"
    using a(1) assms(4) by (simp add: Let_def numeral_eq_Suc)
  moreover have "length [?t] \<le> nat count" using assms(4) by simp
  ultimately show ?thesis
    using from_rounds_draws [OF assms(1,2) d, of "nat count" sha seed 4095 1] assms(2-5) by (auto simp: FromPrefix_def)
qed

subsection \<open>The prefixes of a scan\<close>

fun usable_from :: "netip \<Rightarrow> bool \<Rightarrow> go_prefix list \<Rightarrow> jsstr list \<Rightarrow> prefix list \<Rightarrow> target_error + prefix list" where
  "usable_from N includeIPv6 [] seen usable = Inr usable"
| "usable_from N includeIPv6 (item # items) seen usable =
     (if \<not> mp_Active item \<or> (\<not> includeIPv6 \<and> mp_IPVersion item = 6) then usable_from N includeIPv6 items seen usable
      else case ParsePrefix N (mp_CIDR item) of
        None \<Rightarrow> Inl (Unparsed (mp_CIDR item))
      | Some p \<Rightarrow>
          (let prefix = Masked p; key = prefix_String N prefix in
           if key \<in> set seen then usable_from N includeIPv6 items seen usable
           else usable_from N includeIPv6 items (key # seen) (usable @ [prefix])))"

definition usablePrefixes :: "netip \<Rightarrow> go_prefix list \<Rightarrow> bool \<Rightarrow> target_error + prefix list" where
  "usablePrefixes N prefixes includeIPv6 =
     (case usable_from N includeIPv6 prefixes [] [] of
        Inl e \<Rightarrow> Inl e
      | Inr usable \<Rightarrow> if usable = [] then Inl NoActivePrefixes else Inr usable)"

text \<open>The prefixes a scan is about: the active ones of the families it includes, with the host bits cleared.\<close>

definition chosen :: "bool \<Rightarrow> go_prefix \<Rightarrow> bool" where
  "chosen includeIPv6 item \<longleftrightarrow> mp_Active item \<and> (includeIPv6 \<or> mp_IPVersion item \<noteq> 6)"

definition selected :: "netip \<Rightarrow> bool \<Rightarrow> go_prefix list \<Rightarrow> prefix set" where
  "selected N includeIPv6 items = {Masked p |item p. item \<in> set items \<and> chosen includeIPv6 item \<and> ParsePrefix N (mp_CIDR item) = Some p}"

lemma usable_chosen [simp]:
  "usable_from N v6 (item # items) seen usable =
     (if \<not> chosen v6 item then usable_from N v6 items seen usable
      else case ParsePrefix N (mp_CIDR item) of
        None \<Rightarrow> Inl (Unparsed (mp_CIDR item))
      | Some p \<Rightarrow> if prefix_String N (Masked p) \<in> set seen then usable_from N v6 items seen usable
          else usable_from N v6 items (prefix_String N (Masked p) # seen) (usable @ [Masked p]))"
  by (cases "ParsePrefix N (mp_CIDR item)") (simp_all add: chosen_def Let_def)

declare usable_from.simps(2) [simp del]

text \<open>A prefix as the code has it after \<open>Masked\<close>: its text stands for it.\<close>

definition named :: "netip \<Rightarrow> prefix \<Rightarrow> bool" where
  "named N p \<longleftrightarrow> valid_prefix p \<and> Masked p = p \<and> ParsePrefix N (prefix_String N p) = Some p"

lemma named_Masked: "netip_texts N \<Longrightarrow> ParsePrefix N s = Some p \<Longrightarrow> named N (Masked p)"
  unfolding named_def netip_texts_def by auto

lemma named_inject: "named N p \<Longrightarrow> named N q \<Longrightarrow> prefix_String N p = prefix_String N q \<longleftrightarrow> p = q"
  unfolding named_def by (metis option.inject)

lemma namedD: "named N p \<Longrightarrow> valid_prefix p" "named N p \<Longrightarrow> Masked p = p" "named N p \<Longrightarrow> ParsePrefix N (prefix_String N p) = Some p"
  by (simp_all add: named_def)

lemma usable_from_sound:
  assumes "netip_texts N" "usable_from N v6 items seen usable = Inr us"
    and "set seen = prefix_String N ` set usable" "distinct usable" "\<forall>p \<in> set usable. named N p"
  shows "distinct us \<and> (\<forall>p \<in> set us. named N p) \<and> set us = set usable \<union> selected N v6 items"
  using assms(2-)
proof (induction items arbitrary: seen usable)
  case Nil
  then show ?case by (simp add: selected_def)
next
  case (Cons item items)
  show ?case
  proof (cases "chosen v6 item")
    case False
    then have "selected N v6 (item # items) = selected N v6 items" by (auto simp: selected_def)
    then show ?thesis using Cons.IH [of seen usable] Cons.prems False by simp
  next
    case True
    then obtain p where p: "ParsePrefix N (mp_CIDR item) = Some p"
      using Cons.prems(1) by (cases "ParsePrefix N (mp_CIDR item)") simp_all
    have sel: "selected N v6 (item # items) = insert (Masked p) (selected N v6 items)" using True p by (auto simp: selected_def)
    have named: "named N (Masked p)" using assms(1) p by (rule named_Masked)
    then have key: "prefix_String N (Masked p) \<in> set seen \<longleftrightarrow> Masked p \<in> set usable"
      using Cons.prems(2,4) named_inject by auto
    show ?thesis
    proof (cases "Masked p \<in> set usable")
      case inside: True
      then have "usable_from N v6 items seen usable = Inr us" using Cons.prems(1) True p key by simp
      then show ?thesis using Cons.IH [OF _ Cons.prems(2-4)] sel inside by auto
    next
      case outside: False
      then have "usable_from N v6 items (prefix_String N (Masked p) # seen) (usable @ [Masked p]) = Inr us"
        using Cons.prems(1) True p key by simp
      from Cons.IH [OF this] show ?thesis using Cons.prems(2-4) named outside sel by auto
    qed
  qed
qed

lemma usable_from_total:
  assumes "\<forall>item \<in> set items. chosen v6 item \<longrightarrow> ParsePrefix N (mp_CIDR item) \<noteq> None"
  shows "\<exists>us. usable_from N v6 items seen usable = Inr us"
  using assms by (induction items arbitrary: seen usable) auto

lemma usablePrefixes_sound:
  assumes "netip_texts N" "usablePrefixes N items v6 = Inr us"
  shows "us \<noteq> []" "distinct us" "\<And>p. p \<in> set us \<Longrightarrow> named N p" "set us = selected N v6 items"
proof -
  have u: "usable_from N v6 items [] [] = Inr us" "us \<noteq> []"
    using assms(2) by (auto simp: usablePrefixes_def split: sum.splits if_splits)
  from usable_from_sound [OF assms(1) u(1)] u(2)
  show "us \<noteq> []" "distinct us" "\<And>p. p \<in> set us \<Longrightarrow> named N p" "set us = selected N v6 items" by auto
qed

lemma usablePrefixes_total:
  assumes "netip_texts N" "\<forall>item \<in> set items. chosen v6 item \<longrightarrow> ParsePrefix N (mp_CIDR item) \<noteq> None"
  shows "selected N v6 items = {} \<Longrightarrow> usablePrefixes N items v6 = Inl NoActivePrefixes"
    and "selected N v6 items \<noteq> {} \<Longrightarrow> \<exists>us. usablePrefixes N items v6 = Inr us"
proof -
  obtain us where us: "usable_from N v6 items [] [] = Inr us" using usable_from_total [OF assms(2)] by blast
  have "set us = selected N v6 items" using usable_from_sound [OF assms(1) us] by simp
  then show "selected N v6 items = {} \<Longrightarrow> usablePrefixes N items v6 = Inl NoActivePrefixes"
    and "selected N v6 items \<noteq> {} \<Longrightarrow> \<exists>us. usablePrefixes N items v6 = Inr us"
    using us by (auto simp: usablePrefixes_def)
qed

subsection \<open>One address per prefix\<close>

fun one_each :: "(jsstr \<Rightarrow> 256 word) \<Rightarrow> netip \<Rightarrow> jsstr \<Rightarrow> prefix list \<Rightarrow> scan_target list \<Rightarrow> jsstr list \<Rightarrow> target_error + scan_target list" where
  "one_each sha N seed [] result seen = Inr result"
| "one_each sha N seed (prefix # prefixes) result seen =
     (case FromPrefix sha N (prefix_String N prefix) 1 seed seen of
        Inl e \<Rightarrow> Inl e
      | Inr (items, seen') \<Rightarrow>
          if length items \<noteq> 1 then Inl (NotUnique (prefix_String N prefix))
          else one_each sha N seed prefixes (result @ [hd items]) seen')"

text \<open>The order: the more specific prefixes first, then by the text.\<close>

definition OnePerPrefix :: "(jsstr \<Rightarrow> 256 word) \<Rightarrow> netip \<Rightarrow> go_prefix list \<Rightarrow> bool \<Rightarrow> jsstr \<Rightarrow> target_error + scan_target list" where
  "OnePerPrefix sha N prefixes includeIPv6 seed =
     (case usablePrefixes N prefixes includeIPv6 of
        Inl e \<Rightarrow> Inl e
      | Inr usable \<Rightarrow> one_each sha N seed (sort_key (\<lambda>p. (- int (pf_bits p), prefix_String N p)) usable) [] [])"

lemma FromPrefix_named:
  assumes "netip_texts N" "named N p"
  shows "\<exists>items seen'. FromPrefix sha N (prefix_String N p) count seed seen = Inr (items, seen')
    \<and> draws N {p} items seen seen' \<and> length items \<le> nat count"
  using FromPrefix_draws [OF assms(1) namedD(3) [OF assms(2)]] unfolding namedD(2) [OF assms(2)] .

lemma one_each_sound:
  assumes "netip_texts N" "\<forall>p \<in> set ps. named N p" "one_each sha N seed ps result seen = Inr items"
  shows "\<exists>new seen'. items = result @ new \<and> list_all2 (drawn N) ps new \<and> draws N (set ps) new seen seen'"
  using assms(2,3)
proof (induction ps arbitrary: result seen)
  case (Cons p ps)
  obtain xs s where x: "FromPrefix sha N (prefix_String N p) 1 seed seen = Inr (xs, s)" "draws N {p} xs seen s"
    using FromPrefix_named [OF assms(1), of p] Cons.prems(1) by (metis list.set_intros(1))
  then have "length xs = 1" "one_each sha N seed ps (result @ [hd xs]) s = Inr items"
    using Cons.prems(2) by (auto split: if_splits)
  then obtain t where t: "xs = [t]" "one_each sha N seed ps (result @ [t]) s = Inr items" by (cases xs) auto
  obtain new seen' where n: "items = (result @ [t]) @ new" "list_all2 (drawn N) ps new" "draws N (set ps) new s seen'"
    using Cons.IH [OF _ t(2)] Cons.prems(1) by auto
  have "drawn N p t" using x(2) t(1) by (simp add: draws_def)
  moreover have "draws N (set (p # ps)) ([t] @ new) seen seen'"
  proof (rule draws_append)
    show "draws N (set (p # ps)) [t] seen s" using x(2) unfolding t(1) by (rule draws_mono) simp
    show "draws N (set (p # ps)) new s seen'" using n(3) by (rule draws_mono) auto
  qed
  ultimately show ?case using n(1,2) by (intro exI [of _ "t # new"]) auto
qed (auto intro: draws_Nil)

text \<open>It cannot fail on prefixes that share no address.\<close>

lemma one_each_total:
  assumes "netip_texts N" "\<forall>p \<in> set ps. named N p" "distinct ps"
    and "\<forall>p \<in> set ps. \<forall>q \<in> set ps. p \<noteq> q \<longrightarrow> (\<forall>a. \<not> (Contains p a \<and> Contains q a))"
    and "\<forall>v \<in> set seen. \<forall>a. v = addr_String N a \<longrightarrow> (\<forall>p \<in> set ps. \<not> Contains p a)"
  shows "\<exists>items. one_each sha N seed ps result seen = Inr items"
  using assms(2-)
proof (induction ps arbitrary: result seen)
  case (Cons p ps)
  have v: "valid_prefix p" "Masked p = p" and pp: "ParsePrefix N (prefix_String N p) = Some p"
    using Cons.prems(1) by (simp_all add: named_def)
  obtain a where a: "addressFor sha N p seed 0 = Some a" "usable_host p a" using addressFor_usable [OF v] .
  let ?t = "\<lparr>st_TargetIP = addr_String N a, st_PrefixCIDR = prefix_String N p\<rparr>"
  have c: "Contains p a" using a(2) by (simp add: usable_host_def)
  then have "addr_String N a \<notin> set seen" using Cons.prems(4) by auto
  moreover have "from_rounds sha N p seed 1 4095 1 [t] s = Inr ([t], s)" for t s
    by (simp add: numeral_eq_Suc)
  ultimately have f: "FromPrefix sha N (prefix_String N p) 1 seed seen = Inr ([?t], addr_String N a # seen)"
    using a(1) v pp by (simp add: FromPrefix_def numeral_eq_Suc Let_def)
  have inj: "addr_String N b = addr_String N c \<longleftrightarrow> b = c" for b c
    using assms(1) unfolding netip_texts_def by (metis option.inject)
  have "\<exists>items. one_each sha N seed ps (result @ [?t]) (addr_String N a # seen) = Inr items"
  proof (rule Cons.IH)
    show "\<forall>v \<in> set (addr_String N a # seen). \<forall>b. v = addr_String N b \<longrightarrow> (\<forall>q \<in> set ps. \<not> Contains q b)"
      using Cons.prems(2-4) c inj by auto
  qed (use Cons.prems in auto)
  then show ?case using f by simp
qed simp

text \<open>The order of \<open>OnePerPrefix\<close>.\<close>

lemma specific_first:
  "sorted_wrt (\<lambda>p q. pf_bits q \<le> pf_bits p) (sort_key (\<lambda>p. (- int (pf_bits p), prefix_String N p)) ps)"
  (is "sorted_wrt _ ?s")
proof -
  have "sorted (map (\<lambda>p. (- int (pf_bits p), prefix_String N p)) ?s)" by (rule sorted_sort_key)
  then have "sorted_wrt (\<lambda>p q. (- int (pf_bits p), prefix_String N p) \<le> (- int (pf_bits q), prefix_String N q)) ?s"
    by (simp add: sorted_map)
  then show ?thesis by (rule sorted_wrt_mono_rel [rotated]) (auto simp: less_eq_prod_def)
qed

lemma OnePerPrefix_sound:
  assumes "netip_texts N" "OnePerPrefix sha N items v6 seed = Inr plan"
  shows "\<exists>ps. set ps = selected N v6 items \<and> distinct ps \<and> ps \<noteq> [] \<and> sorted_wrt (\<lambda>p q. pf_bits q \<le> pf_bits p) ps
        \<and> list_all2 (\<lambda>p t. st_PrefixCIDR t = prefix_String N p
            \<and> (\<exists>a. ParseAddr N (st_TargetIP t) = Some a \<and> usable_host p a)) ps plan
        \<and> distinct (map st_TargetIP plan)"
proof -
  let ?k = "\<lambda>p. (- int (pf_bits p), prefix_String N p)"
  from assms(2) obtain us where us: "usablePrefixes N items v6 = Inr us" "one_each sha N seed (sort_key ?k us) [] [] = Inr plan"
    by (auto simp: OnePerPrefix_def split: sum.splits)
  note u = usablePrefixes_sound [OF assms(1) us(1)]
  obtain seen where o: "list_all2 (drawn N) (sort_key ?k us) plan" "draws N (set us) plan [] seen"
    using one_each_sound [OF assms(1) _ us(2)] u(3) by auto
  have "ParseAddr N (addr_String N a) = Some a" for a using assms(1) by (simp add: netip_texts_def)
  then have "list_all2 (\<lambda>p t. st_PrefixCIDR t = prefix_String N p
      \<and> (\<exists>a. ParseAddr N (st_TargetIP t) = Some a \<and> usable_host p a)) (sort_key ?k us) plan"
    by (intro list_all2_mono [OF o(1)]) (auto simp: drawn_def)
  moreover have "distinct (map st_TargetIP plan)" using o(2) by (simp add: draws_def)
  ultimately show "\<exists>ps. set ps = selected N v6 items \<and> distinct ps \<and> ps \<noteq> [] \<and> sorted_wrt (\<lambda>p q. pf_bits q \<le> pf_bits p) ps
        \<and> list_all2 (\<lambda>p t. st_PrefixCIDR t = prefix_String N p
            \<and> (\<exists>a. ParseAddr N (st_TargetIP t) = Some a \<and> usable_host p a)) ps plan
        \<and> distinct (map st_TargetIP plan)"
    using u specific_first by (intro exI [of _ "sort_key ?k us"]) (auto simp flip: set_empty)
qed

lemma OnePerPrefix_total:
  assumes "netip_texts N" "\<forall>item \<in> set items. chosen v6 item \<longrightarrow> ParsePrefix N (mp_CIDR item) \<noteq> None" "selected N v6 items \<noteq> {}"
    "\<forall>p \<in> selected N v6 items. \<forall>q \<in> selected N v6 items. p \<noteq> q \<longrightarrow> (\<forall>a. \<not> (Contains p a \<and> Contains q a))"
  shows "\<exists>plan. OnePerPrefix sha N items v6 seed = Inr plan"
proof -
  let ?k = "\<lambda>p. (- int (pf_bits p), prefix_String N p)"
  obtain us where us: "usablePrefixes N items v6 = Inr us" using usablePrefixes_total(2) [OF assms(1-3)] by blast
  note u = usablePrefixes_sound [OF assms(1) us]
  have "\<exists>plan. one_each sha N seed (sort_key ?k us) [] [] = Inr plan"
    using assms(4) u by (intro one_each_total [OF assms(1)]) simp_all
  then show "\<exists>plan. OnePerPrefix sha N items v6 seed = Inr plan" using us by (simp add: OnePerPrefix_def)
qed

text \<open>C19. The scan of one address per prefix: a successful plan has, for every active prefix of the included families, more specific prefixes first, exactly one target; it lies in that very prefix, is not the first or last address of an IPv4 prefix of more than two addresses, and no address is planned twice, however the prefixes overlap. When the texts of the chosen prefixes parse and the prefixes share no address the plan succeeds, and an address never overflows its width.\<close>

theorem one_per_prefix_complete:
  assumes "netip_texts N"
  shows "(OnePerPrefix sha N items v6 seed = Inr plan \<longrightarrow>
      (\<exists>ps. set ps = selected N v6 items \<and> distinct ps \<and> ps \<noteq> [] \<and> sorted_wrt (\<lambda>p q. pf_bits q \<le> pf_bits p) ps
        \<and> list_all2 (\<lambda>p t. st_PrefixCIDR t = prefix_String N p
            \<and> (\<exists>a. ParseAddr N (st_TargetIP t) = Some a \<and> usable_host p a)) ps plan
        \<and> distinct (map st_TargetIP plan)))
    \<and> ((\<forall>item \<in> set items. chosen v6 item \<longrightarrow> ParsePrefix N (mp_CIDR item) \<noteq> None) \<and> selected N v6 items \<noteq> {}
        \<and> (\<forall>p \<in> selected N v6 items. \<forall>q \<in> selected N v6 items. p \<noteq> q \<longrightarrow> (\<forall>a. \<not> (Contains p a \<and> Contains q a)))
        \<longrightarrow> (\<exists>plan. OnePerPrefix sha N items v6 seed = Inr plan))"
  using OnePerPrefix_sound [OF assms] OnePerPrefix_total [OF assms] by blast

subsection \<open>Sampling\<close>

text \<open>One round over the prefixes, and the rounds; the first argument of \<open>sample_rounds\<close> counts those that are left.\<close>

fun sample_round :: "(jsstr \<Rightarrow> 256 word) \<Rightarrow> netip \<Rightarrow> nat \<Rightarrow> jsstr \<Rightarrow> nat \<Rightarrow> prefix list \<Rightarrow> scan_target list \<Rightarrow> jsstr list
    \<Rightarrow> target_error + scan_target list \<times> jsstr list" where
  "sample_round sha N limit seed rnd [] result seen = Inr (result, seen)"
| "sample_round sha N limit seed rnd (prefix # prefixes) result seen =
     (if limit \<le> length result then Inr (result, seen)
      else case addressFor sha N prefix seed rnd of
        None \<Rightarrow> Inl AddressPanic
      | Some addr \<Rightarrow>
          (let value = addr_String N addr in
           if value \<in> set seen then sample_round sha N limit seed rnd prefixes result seen
           else sample_round sha N limit seed rnd prefixes
             (result @ [\<lparr>st_TargetIP = value, st_PrefixCIDR = prefix_String N prefix\<rparr>]) (value # seen)))"

fun sample_rounds :: "(jsstr \<Rightarrow> 256 word) \<Rightarrow> netip \<Rightarrow> nat \<Rightarrow> jsstr \<Rightarrow> prefix list \<Rightarrow> nat \<Rightarrow> nat \<Rightarrow> scan_target list \<Rightarrow> jsstr list
    \<Rightarrow> target_error + scan_target list" where
  "sample_rounds sha N limit seed usable 0 rnd result seen = Inr result"
| "sample_rounds sha N limit seed usable (Suc left) rnd result seen =
     (if length result < limit then
        (case sample_round sha N limit seed rnd usable result seen of
           Inl e \<Rightarrow> Inl e
         | Inr (result', seen') \<Rightarrow> sample_rounds sha N limit seed usable left (Suc rnd) result' seen')
      else Inr result)"

definition Sample :: "(jsstr \<Rightarrow> 256 word) \<Rightarrow> netip \<Rightarrow> go_prefix list \<Rightarrow> int \<Rightarrow> bool \<Rightarrow> jsstr \<Rightarrow> target_error + scan_target list" where
  "Sample sha N prefixes limit includeIPv6 seed =
     (if limit \<le> 0 \<or> MaxSampleTargets < limit then Inl LimitRange
      else case usablePrefixes N prefixes includeIPv6 of
        Inl e \<Rightarrow> Inl e
      | Inr usable \<Rightarrow>
          (case sample_rounds sha N (nat limit) seed (sort_key (prefix_String N) usable) (nat (limit * 4)) 0 [] [] of
             Inl e \<Rightarrow> Inl e
           | Inr result \<Rightarrow> if result = [] then Inl NothingSampled else Inr result))"

lemma sample_round_draws:
  assumes "\<forall>p \<in> set ps. named N p" "length result \<le> limit" "draws N qs result [] seen" "set ps \<subseteq> qs"
  shows "\<exists>result' seen'. sample_round sha N limit seed rnd ps result seen = Inr (result', seen')
    \<and> draws N qs result' [] seen' \<and> length result' \<le> limit \<and> length result \<le> length result'
    \<and> (result = [] \<and> seen = [] \<and> ps \<noteq> [] \<and> 0 < limit \<longrightarrow> result' \<noteq> [])"
  using assms
proof (induction ps arbitrary: result seen)
  case (Cons p ps)
  obtain a where a: "addressFor sha N p seed rnd = Some a" "usable_host p a"
    using addressFor_usable namedD Cons.prems(1) by (metis list.set_intros(1))
  let ?t = "\<lparr>st_TargetIP = addr_String N a, st_PrefixCIDR = prefix_String N p\<rparr>"
  have q: "set ps \<subseteq> qs" "\<forall>p \<in> set ps. named N p" using Cons.prems by auto
  have t: "drawn N p ?t" "p \<in> qs" using a(2) Cons.prems(4) by (auto simp: drawn_def)
  show ?case
  proof (cases "limit \<le> length result \<or> addr_String N a \<in> set seen")
    case True
    show ?thesis
    proof (cases "limit \<le> length result")
      case True
      then show ?thesis using Cons.prems by (intro exI [of _ result] exI [of _ seen]) auto
    next
      case False
      then have "sample_round sha N limit seed rnd (p # ps) result seen = sample_round sha N limit seed rnd ps result seen"
        using True a(1) by simp
      moreover have "seen \<noteq> []" using False True by auto
      ultimately show ?thesis using Cons.IH [OF q(2) Cons.prems(2,3) q(1)] by auto
    qed
  next
    case False
    then have s: "sample_round sha N limit seed rnd (p # ps) result seen
        = sample_round sha N limit seed rnd ps (result @ [?t]) (addr_String N a # seen)"
      using a(1) by (simp add: Let_def)
    have d: "draws N qs (result @ [?t]) [] (addr_String N a # seen)"
      using draws_append [OF Cons.prems(3) draws_one [OF t]] False by simp
    have "length (result @ [?t]) \<le> limit" using False by simp
    from Cons.IH [OF q(2) this d q(1)] obtain r s' where "sample_round sha N limit seed rnd ps (result @ [?t]) (addr_String N a # seen) = Inr (r, s')"
        "draws N qs r [] s'" "length r \<le> limit" "length (result @ [?t]) \<le> length r"
      by blast
    then show ?thesis using s by (intro exI [of _ r] exI [of _ s']) auto
  qed
qed simp

lemma sample_rounds_draws:
  assumes "\<forall>p \<in> set ps. named N p" "length result \<le> limit" "draws N (set ps) result [] seen"
  shows "\<exists>result' seen'. sample_rounds sha N limit seed ps left rnd result seen = Inr result'
    \<and> draws N (set ps) result' [] seen' \<and> length result' \<le> limit \<and> length result \<le> length result'
    \<and> (result = [] \<and> seen = [] \<and> ps \<noteq> [] \<and> 0 < limit \<and> 0 < left \<longrightarrow> result' \<noteq> [])"
  using assms(2,3)
proof (induction left arbitrary: rnd result seen)
  case (Suc left)
  show ?case
  proof (cases "length result < limit")
    case True
    obtain r s where r: "sample_round sha N limit seed rnd ps result seen = Inr (r, s)" "draws N (set ps) r [] s"
        "length r \<le> limit" "length result \<le> length r" "result = [] \<and> seen = [] \<and> ps \<noteq> [] \<and> 0 < limit \<longrightarrow> r \<noteq> []"
      using sample_round_draws [OF assms(1) Suc.prems(1,2) subset_refl] by blast
    obtain r' s' where "sample_rounds sha N limit seed ps left (Suc rnd) r s = Inr r'" "draws N (set ps) r' [] s'"
        "length r' \<le> limit" "length r \<le> length r'"
      using Suc.IH [OF r(3,2)] by blast
    then show ?thesis using r True by (intro exI [of _ r'] exI [of _ s']) auto
  qed (use Suc.prems in auto)
qed auto

lemma Sample_in_range:
  assumes "netip_texts N" "limit \<in> {1..10000}" "\<forall>item \<in> set items. chosen v6 item \<longrightarrow> ParsePrefix N (mp_CIDR item) \<noteq> None"
  shows "if selected N v6 items = {} then Sample sha N items limit v6 seed = Inl NoActivePrefixes
         else \<exists>plan. Sample sha N items limit v6 seed = Inr plan \<and> plan \<noteq> [] \<and> int (length plan) \<le> limit
           \<and> distinct (map st_TargetIP plan)
           \<and> (\<forall>t \<in> set plan. \<exists>p \<in> selected N v6 items. st_PrefixCIDR t = prefix_String N p
                \<and> (\<exists>a. ParseAddr N (st_TargetIP t) = Some a \<and> usable_host p a))"
proof (cases "selected N v6 items = {}")
  case True
  then have "usablePrefixes N items v6 = Inl NoActivePrefixes" using usablePrefixes_total(1) [OF assms(1)] assms(3) by blast
  then show ?thesis using True assms(2) by (simp add: Sample_def MaxSampleTargets_def)
next
  case False
  then obtain us where us: "usablePrefixes N items v6 = Inr us" using usablePrefixes_total(2) [OF assms(1)] assms(3) by blast
  note u = usablePrefixes_sound [OF assms(1) us]
  let ?s = "sort_key (prefix_String N) us"
  obtain r seen where r: "sample_rounds sha N (nat limit) seed ?s (nat (limit * 4)) 0 [] [] = Inr r"
      "draws N (set ?s) r [] seen" "length r \<le> nat limit" "r \<noteq> []"
  proof -
    have n: "\<forall>p \<in> set ?s. named N p" using u(3) by simp
    have "?s \<noteq> []" using u(1) by (metis set_empty set_sort)
    then have "?s \<noteq> [] \<and> 0 < nat limit \<and> 0 < nat (limit * 4)" using assms(2) by simp
    then show thesis
      using sample_rounds_draws [OF n, where result = "[]" and limit = "nat limit" and seen = "[]" and sha = sha
          and seed = seed and left = "nat (limit * 4)" and rnd = 0] by (auto intro: that)
  qed
  have "ParseAddr N (addr_String N a) = Some a" for a using assms(1) by (simp add: netip_texts_def)
  then have "\<forall>t \<in> set r. \<exists>p \<in> selected N v6 items. st_PrefixCIDR t = prefix_String N p
      \<and> (\<exists>a. ParseAddr N (st_TargetIP t) = Some a \<and> usable_host p a)"
    using r(2) u(4) by (fastforce simp: draws_def drawn_def)
  moreover have "distinct (map st_TargetIP r)" "int (length r) \<le> limit" using r(2,3) assms(2) by (auto simp: draws_def)
  ultimately show ?thesis using False r assms(2) us by (simp add: Sample_def MaxSampleTargets_def)
qed

text \<open>C20. The sample of a counted scan: outside 1 to 10000 the limit is refused; otherwise, when the texts of the chosen active prefixes parse and there is one, the sample succeeds with at least one and at most the asked number of targets; every target lies in the active prefix it names, is never the network or broadcast address of an IPv4 prefix of more than two addresses, and no address is sampled twice. The bound of four rounds per target ends the search.\<close>

theorem sample_sound:
  assumes "netip_texts N"
  shows "(limit \<notin> {1..10000} \<longrightarrow> Sample sha N items limit v6 seed = Inl LimitRange)
    \<and> (limit \<in> {1..10000} \<and> (\<forall>item \<in> set items. chosen v6 item \<longrightarrow> ParsePrefix N (mp_CIDR item) \<noteq> None) \<longrightarrow>
        (if selected N v6 items = {} then Sample sha N items limit v6 seed = Inl NoActivePrefixes
         else \<exists>plan. Sample sha N items limit v6 seed = Inr plan \<and> plan \<noteq> [] \<and> int (length plan) \<le> limit
           \<and> distinct (map st_TargetIP plan)
           \<and> (\<forall>t \<in> set plan. \<exists>p \<in> selected N v6 items. st_PrefixCIDR t = prefix_String N p
                \<and> (\<exists>a. ParseAddr N (st_TargetIP t) = Some a \<and> usable_host p a))))"
proof (intro conjI impI)
  assume "limit \<notin> {1..10000}"
  then show "Sample sha N items limit v6 seed = Inl LimitRange" by (auto simp: Sample_def MaxSampleTargets_def)
qed (rule Sample_in_range [OF assms], blast+)

subsection \<open>A notation that satisfies the laws\<close>

text \<open>Addresses in decimal after a digit for the family, prefixes with a slash.\<close>

fun decimal_addr :: "addr \<Rightarrow> jsstr" where
  "decimal_addr (V4 w) = 52 # dec_digits (unat w)"
| "decimal_addr (V6 w) = 54 # dec_digits (unat w)"

fun parse_decimal :: "jsstr \<Rightarrow> addr option" where
  "parse_decimal (f # ds) = (if f = 52 then Some (V4 (of_nat (digits_value ds)))
     else if f = 54 then Some (V6 (of_nat (digits_value ds))) else None)"
| "parse_decimal [] = None"

definition decimal_prefix :: "prefix \<Rightarrow> jsstr" where
  "decimal_prefix p = decimal_addr (pf_addr p) @ 47 # dec_digits (pf_bits p)"

definition parse_decimal_prefix :: "jsstr \<Rightarrow> prefix option" where
  "parse_decimal_prefix s = (case split_on 47 s of
      [a, b] \<Rightarrow> (case parse_decimal a of None \<Rightarrow> None
        | Some d \<Rightarrow> let p = \<lparr>pf_addr = d, pf_bits = digits_value b\<rparr> in if valid_prefix p then Some p else None)
    | _ \<Rightarrow> None)"

definition decimal_netip :: netip where
  "decimal_netip = \<lparr>ParsePrefix = parse_decimal_prefix, ParseAddr = parse_decimal, prefix_String = decimal_prefix,
     addr_String = decimal_addr\<rparr>"

lemma parse_decimal_addr: "parse_decimal (decimal_addr a) = Some a"
  by (cases a) (simp_all add: digits_value_dec_digits)

lemma parse_decimal_prefix: "valid_prefix p \<Longrightarrow> parse_decimal_prefix (decimal_prefix p) = Some p"
proof -
  assume v: "valid_prefix p"
  have d: "47 \<notin> set (dec_digits n)" for n using dec_digits_range by fastforce
  then have "47 \<notin> set (decimal_addr (pf_addr p))" by (cases "pf_addr p") simp_all
  then have "split_on 47 (decimal_prefix p) = [decimal_addr (pf_addr p), dec_digits (pf_bits p)]"
    using d by (simp add: decimal_prefix_def split_on_append split_on_none)
  then show ?thesis using v by (cases p) (simp add: parse_decimal_prefix_def parse_decimal_addr digits_value_dec_digits Let_def)
qed

lemma decimal_texts: "netip_texts decimal_netip"
proof -
  have "valid_prefix p" if "parse_decimal_prefix s = Some p" for s p
    using that by (auto simp: parse_decimal_prefix_def Let_def split: list.splits option.splits if_splits)
  then show ?thesis by (auto simp: netip_texts_def decimal_netip_def parse_decimal_addr parse_decimal_prefix)
qed

definition sample_prefix :: prefix where
  "sample_prefix = \<lparr>pf_addr = V4 0, pf_bits = 24\<rparr>"

definition sample_prefixes :: "go_prefix list" where
  "sample_prefixes = [\<lparr>mp_CIDR = decimal_prefix sample_prefix, mp_IPVersion = 4, mp_Active = True\<rparr>]"

lemma sample_selected: "selected decimal_netip v6 sample_prefixes = {sample_prefix}"
  "\<forall>item \<in> set sample_prefixes. chosen v6 item \<longrightarrow> ParsePrefix decimal_netip (mp_CIDR item) \<noteq> None"
proof -
  have p: "parse_decimal_prefix (decimal_prefix sample_prefix) = Some sample_prefix"
    by (rule parse_decimal_prefix) (simp add: valid_prefix_def sample_prefix_def)
  have m: "Masked sample_prefix = sample_prefix" by (simp add: Masked_def sample_prefix_def host_bits_def)
  show "selected decimal_netip v6 sample_prefixes = {sample_prefix}"
    "\<forall>item \<in> set sample_prefixes. chosen v6 item \<longrightarrow> ParsePrefix decimal_netip (mp_CIDR item) \<noteq> None"
    using p m by (auto simp: selected_def sample_prefixes_def decimal_netip_def chosen_def)
qed

theorem one_per_prefix_complete_witness:
  "\<exists>plan. OnePerPrefix (\<lambda>_. 7) decimal_netip sample_prefixes False (lit ''seed'') = Inr plan \<and> plan \<noteq> [] \<and> distinct (map st_TargetIP plan)"
proof -
  note t = one_per_prefix_complete [OF decimal_texts, of "\<lambda>_. 7" sample_prefixes False "lit ''seed''"]
  obtain plan where p: "OnePerPrefix (\<lambda>_. 7) decimal_netip sample_prefixes False (lit ''seed'') = Inr plan"
    using conjunct2 [OF t] sample_selected by auto
  from mp [OF conjunct1 [OF t] this] obtain ps where "ps \<noteq> []" "distinct (map st_TargetIP plan)"
    and l: "list_all2 (\<lambda>p t. st_PrefixCIDR t = prefix_String decimal_netip p
      \<and> (\<exists>a. ParseAddr decimal_netip (st_TargetIP t) = Some a \<and> usable_host p a)) ps plan"
    by (elim exE conjE)
  moreover have "length ps = length plan" using l by (rule list_all2_lengthD)
  ultimately show ?thesis using p by (intro exI [of _ plan]) auto
qed

theorem sample_sound_witness:
  "\<exists>plan. Sample (\<lambda>_. 7) decimal_netip sample_prefixes 5 False (lit ''seed'') = Inr plan \<and> plan \<noteq> [] \<and> int (length plan) \<le> 5"
  using conjunct2 [OF sample_sound [OF decimal_texts, of 5 "\<lambda>_. 7" sample_prefixes False "lit ''seed''"]] sample_selected by auto

end
