(* ===== verification/Prefix_League.thy ===== *)
theory Prefix_League
  imports Targets "HOL-Library.Multiset"
begin

text \<open>
  The prefix league of the server (\<open>internal/league/league.go\<close>): how a prefix moves between the three tiers with
  the evidence of its scans, when a prefix is due again, and how the budget of a scan is shared between the tiers.
\<close>

subsection \<open>Entries\<close>

text \<open>Times are instants in nanoseconds, rates and latencies are rational numbers.\<close>

record league_entry =
  le_AgentID :: jsstr
  le_PrefixCIDR :: jsstr
  le_Tier :: jsstr
  le_Active :: bool
  le_SampleCount :: int
  le_DistinctIPCount :: int
  le_AvailabilityRate :: rat
  le_LatencyP95MS :: rat
  le_PacketLossAvg :: rat
  le_RecentSampleCount :: int
  le_RecentAvailabilityRate :: rat
  le_RecentLatencyP95MS :: rat
  le_RecentPacketLossAvg :: rat
  le_BadStreak :: int
  le_LastResultAt :: "int option"
  le_LastScheduledAt :: "int option"
  le_LastEvaluatedAt :: "int option"

record thresholds =
  th_MaxLatencyMS :: rat
  th_MaxPacketLoss :: rat

definition Observation :: jsstr where
  "Observation = lit ''observation''"

definition Challenger :: jsstr where
  "Challenger = lit ''challenger''"

definition Champion :: jsstr where
  "Champion = lit ''champion''"

lemma tiers_distinct [simp]: "Observation \<noteq> Challenger" "Challenger \<noteq> Observation" "Observation \<noteq> Champion" "Champion \<noteq> Observation"
  "Challenger \<noteq> Champion" "Champion \<noteq> Challenger" "Observation \<noteq> []" "Challenger \<noteq> []" "Champion \<noteq> []"
  by (simp_all add: Observation_def Challenger_def Champion_def)

definition normalizedTier :: "jsstr \<Rightarrow> jsstr" where
  "normalizedTier tier = (if tier = Champion \<or> tier = Challenger then tier else Observation)"

lemma normalizedTier_cases: "normalizedTier tier \<in> {Champion, Challenger, Observation}"
  by (simp add: normalizedTier_def)

definition positiveWithin :: "rat \<Rightarrow> rat \<Rightarrow> bool" where
  "positiveWithin value maximum \<longleftrightarrow> value > 0 \<and> maximum > 0 \<and> value \<le> maximum"

subsection \<open>Evaluation\<close>

definition good_prefix :: "league_entry \<Rightarrow> thresholds \<Rightarrow> bool" where
  "good_prefix e th \<longleftrightarrow> le_SampleCount e \<ge> 3 \<and> le_DistinctIPCount e \<ge> 3 \<and> le_AvailabilityRate e \<ge> 90
     \<and> positiveWithin (le_LatencyP95MS e) (th_MaxLatencyMS th) \<and> le_PacketLossAvg e \<le> th_MaxPacketLoss th"

definition championReady :: "league_entry \<Rightarrow> thresholds \<Rightarrow> bool" where
  "championReady e th \<longleftrightarrow> le_SampleCount e \<ge> 8 \<and> le_DistinctIPCount e \<ge> 6 \<and> le_AvailabilityRate e \<ge> 95
     \<and> positiveWithin (le_LatencyP95MS e) (th_MaxLatencyMS th) \<and> le_PacketLossAvg e \<le> th_MaxPacketLoss th"

definition bad_window :: "league_entry \<Rightarrow> thresholds \<Rightarrow> bool" where
  "bad_window e th \<longleftrightarrow>
     (let boundary = th_MaxPacketLoss th * (15 / 10) + 5; lossBoundary = (if boundary > 100 then 100 else boundary) in
      le_RecentSampleCount e \<ge> 3 \<and> (le_RecentAvailabilityRate e < 80
        \<or> (le_RecentLatencyP95MS e > 0 \<and> le_RecentLatencyP95MS e > th_MaxLatencyMS th * (15 / 10))
        \<or> le_RecentPacketLossAvg e > lossBoundary))"

definition severe_window :: "league_entry \<Rightarrow> bool" where
  "severe_window e \<longleftrightarrow> le_RecentSampleCount e \<ge> 3 \<and> le_RecentAvailabilityRate e = 0"

text \<open>Whether there is a result the entry was not yet evaluated with.\<close>

definition new_result :: "league_entry \<Rightarrow> bool" where
  "new_result e \<longleftrightarrow> (case le_LastResultAt e of None \<Rightarrow> False
     | Some result \<Rightarrow> (case le_LastEvaluatedAt e of None \<Rightarrow> True | Some evaluated \<Rightarrow> result > evaluated))"

definition Evaluate :: "league_entry \<Rightarrow> thresholds \<Rightarrow> league_entry" where
  "Evaluate entry0 th =
     (let entry = (if le_Tier entry0 = [] then entry0\<lparr>le_Tier := Observation\<rparr> else entry0) in
      if \<not> new_result entry then entry
      else
        let good = good_prefix entry th; ready = championReady entry th; bad = bad_window entry th; severe = severe_window entry;
            streak = (if bad then le_BadStreak entry + 1 else 0);
            moved =
              (if le_Tier entry = Champion then
                 (if severe then entry\<lparr>le_Tier := Observation, le_BadStreak := 0\<rparr>
                  else if streak \<ge> 2 then entry\<lparr>le_Tier := Challenger, le_BadStreak := 0\<rparr>
                  else entry\<lparr>le_BadStreak := streak\<rparr>)
               else if le_Tier entry = Challenger then
                 (if severe then entry\<lparr>le_Tier := Observation, le_BadStreak := 0\<rparr>
                  else if ready then entry\<lparr>le_Tier := Champion, le_BadStreak := 0\<rparr>
                  else if streak \<ge> 2 then entry\<lparr>le_Tier := Observation, le_BadStreak := 0\<rparr>
                  else entry\<lparr>le_BadStreak := streak\<rparr>)
               else
                 (if good then entry\<lparr>le_Tier := Challenger, le_BadStreak := 0\<rparr>
                  else entry\<lparr>le_Tier := Observation, le_BadStreak := streak\<rparr>))
        in moved\<lparr>le_LastEvaluatedAt := le_LastResultAt entry\<rparr>)"

text \<open>The tiers in their order.\<close>

definition tier_rank :: "jsstr \<Rightarrow> nat" where
  "tier_rank tier = (if tier = Champion then 2 else if tier = Challenger then 1 else 0)"

text \<open>The entries the store keeps: one of the three tiers, and above the lowest at most one bad window in a row.\<close>

definition league_inv :: "league_entry \<Rightarrow> bool" where
  "league_inv e \<longleftrightarrow> le_Tier e \<in> {Observation, Challenger, Champion} \<and> le_BadStreak e \<ge> 0
     \<and> (le_Tier e \<noteq> Observation \<longrightarrow> le_BadStreak e \<le> 1)"

lemma severe_bad: "severe_window e \<Longrightarrow> bad_window e th"
  by (simp add: severe_window_def bad_window_def Let_def)

lemma Evaluate_simps:
  "le_Tier e \<noteq> [] \<Longrightarrow> \<not> new_result e \<Longrightarrow> Evaluate e th = e"
  "new_result e \<Longrightarrow> le_Tier e = Champion \<Longrightarrow> Evaluate e th =
     (if severe_window e then e\<lparr>le_Tier := Observation, le_BadStreak := 0, le_LastEvaluatedAt := le_LastResultAt e\<rparr>
      else if bad_window e th \<and> le_BadStreak e \<ge> 1
        then e\<lparr>le_Tier := Challenger, le_BadStreak := 0, le_LastEvaluatedAt := le_LastResultAt e\<rparr>
      else e\<lparr>le_BadStreak := if bad_window e th then le_BadStreak e + 1 else 0, le_LastEvaluatedAt := le_LastResultAt e\<rparr>)"
  "new_result e \<Longrightarrow> le_Tier e = Challenger \<Longrightarrow> Evaluate e th =
     (if severe_window e then e\<lparr>le_Tier := Observation, le_BadStreak := 0, le_LastEvaluatedAt := le_LastResultAt e\<rparr>
      else if championReady e th then e\<lparr>le_Tier := Champion, le_BadStreak := 0, le_LastEvaluatedAt := le_LastResultAt e\<rparr>
      else if bad_window e th \<and> le_BadStreak e \<ge> 1
        then e\<lparr>le_Tier := Observation, le_BadStreak := 0, le_LastEvaluatedAt := le_LastResultAt e\<rparr>
      else e\<lparr>le_BadStreak := if bad_window e th then le_BadStreak e + 1 else 0, le_LastEvaluatedAt := le_LastResultAt e\<rparr>)"
  "new_result e \<Longrightarrow> le_Tier e = Observation \<Longrightarrow> Evaluate e th =
     (if good_prefix e th then e\<lparr>le_Tier := Challenger, le_BadStreak := 0, le_LastEvaluatedAt := le_LastResultAt e\<rparr>
      else e\<lparr>le_Tier := Observation, le_BadStreak := if bad_window e th then le_BadStreak e + 1 else 0,
        le_LastEvaluatedAt := le_LastResultAt e\<rparr>)"
  by (simp_all add: Evaluate_def Let_def)

lemma new_result_evaluated: "le_LastEvaluatedAt e = le_LastResultAt e \<Longrightarrow> \<not> new_result e"
  by (simp add: new_result_def split: option.splits)

lemma tier_cases:
  assumes "league_inv e"
  obtains "le_Tier e = Observation" | "le_Tier e = Challenger" | "le_Tier e = Champion"
  using assms by (auto simp: league_inv_def)

lemma Evaluate_inv: "league_inv e \<Longrightarrow> league_inv (Evaluate e th)"
  by (rule tier_cases [of e]; cases "new_result e") (auto simp: Evaluate_simps league_inv_def)

lemma Evaluate_again: "league_inv e \<Longrightarrow> Evaluate (Evaluate e th) th' = Evaluate e th"
proof -
  assume i: "league_inv e"
  have "le_Tier (Evaluate e th) \<noteq> []" using Evaluate_inv [OF i, of th] by (auto simp: league_inv_def)
  moreover have "\<not> new_result (Evaluate e th)"
    using i by (rule tier_cases; cases "new_result e") (auto simp: Evaluate_simps intro!: new_result_evaluated)
  ultimately show ?thesis by (rule Evaluate_simps(1))
qed

lemma Evaluate_promotes:
  assumes "league_inv e" "tier_rank (le_Tier e) < tier_rank (le_Tier (Evaluate e th))"
  shows "tier_rank (le_Tier (Evaluate e th)) = tier_rank (le_Tier e) + 1 \<and> new_result e \<and> good_prefix e th
    \<and> (le_Tier (Evaluate e th) = Champion \<longrightarrow> championReady e th)"
  using assms(1)
proof (rule tier_cases; cases "new_result e")
qed (use assms(2) in \<open>auto simp: Evaluate_simps tier_rank_def good_prefix_def championReady_def split: if_splits\<close>)

lemma Evaluate_demotes:
  assumes "league_inv e" "tier_rank (le_Tier (Evaluate e th)) < tier_rank (le_Tier e)"
  shows "new_result e \<and> (severe_window e \<and> le_Tier (Evaluate e th) = Observation
    \<or> bad_window e th \<and> le_BadStreak e = 1 \<and> tier_rank (le_Tier e) = tier_rank (le_Tier (Evaluate e th)) + 1)"
  using assms(1)
proof (rule tier_cases; cases "new_result e")
qed (use assms in \<open>auto simp: Evaluate_simps tier_rank_def league_inv_def split: if_splits\<close>)

text \<open>A streak that is not zero was left by a bad window that moved nothing.\<close>

lemma Evaluate_streak:
  assumes "league_inv e" "new_result e" "le_BadStreak (Evaluate e th) > 0"
  shows "bad_window e th \<and> le_Tier (Evaluate e th) = le_Tier e"
  using assms(1)
proof (rule tier_cases)
qed (use assms in \<open>auto simp: Evaluate_simps split: if_splits\<close>)

text \<open>The next evaluation of an entry reads fresh statistics into it; tier, streak and the time of the last evaluation
  are what the store kept.\<close>

definition same_standing :: "league_entry \<Rightarrow> league_entry \<Rightarrow> bool" where
  "same_standing e f \<longleftrightarrow> le_Tier f = le_Tier e \<and> le_BadStreak f = le_BadStreak e \<and> le_LastEvaluatedAt f = le_LastEvaluatedAt e"

lemma same_standing_inv: "same_standing e f \<Longrightarrow> league_inv e \<Longrightarrow> league_inv f"
  by (simp add: same_standing_def league_inv_def)


text \<open>A prefix of the lowest tier that stays bad counts on without bound, while the league page writes the streak as
  a fraction of two.\<close>

lemma observation_streak_grows:
  "new_result e \<Longrightarrow> le_Tier e = Observation \<Longrightarrow> bad_window e th \<Longrightarrow> \<not> good_prefix e th \<Longrightarrow>
     le_BadStreak (Evaluate e th) = le_BadStreak e + 1 \<and> le_Tier (Evaluate e th) = Observation"
  by (simp add: Evaluate_simps)

text \<open>A challenger whose second bad window in a row would send it down is promoted instead when its statistics of seven
  days still meet the bounds of the top tier.\<close>

lemma promoted_in_bad_streak:
  "new_result e \<Longrightarrow> le_Tier e = Challenger \<Longrightarrow> bad_window e th \<Longrightarrow> le_BadStreak e = 1 \<Longrightarrow> championReady e th \<Longrightarrow> \<not> severe_window e \<Longrightarrow>
     le_Tier (Evaluate e th) = Champion"
  by (simp add: Evaluate_simps)

definition sample_entry :: league_entry where
  "sample_entry = \<lparr>le_AgentID = lit ''a1'', le_PrefixCIDR = decimal_prefix sample_prefix, le_Tier = Champion, le_Active = True,
     le_SampleCount = 20, le_DistinctIPCount = 10, le_AvailabilityRate = 95, le_LatencyP95MS = 80, le_PacketLossAvg = 0,
     le_RecentSampleCount = 4, le_RecentAvailabilityRate = 50, le_RecentLatencyP95MS = 200, le_RecentPacketLossAvg = 0,
     le_BadStreak = 0, le_LastResultAt = Some 10, le_LastScheduledAt = None, le_LastEvaluatedAt = None\<rparr>"

definition sample_thresholds :: thresholds where
  "sample_thresholds = \<lparr>th_MaxLatencyMS = 100, th_MaxPacketLoss = 5\<rparr>"


subsection \<open>What is due\<close>

definition intervalForTier :: "jsstr \<Rightarrow> int" where
  "intervalForTier tier = (let hour = 3600 * 10 ^ 9; t = normalizedTier tier in
     if t = Champion then hour else if t = Challenger then 6 * hour else 24 * hour)"

definition samplesForTier :: "jsstr \<Rightarrow> nat" where
  "samplesForTier tier = (let t = normalizedTier tier in if t = Champion then 6 else if t = Challenger then 3 else 1)"

definition anchorsForTier :: "jsstr \<Rightarrow> nat" where
  "anchorsForTier tier = (let t = normalizedTier tier in if t = Champion then 2 else if t = Challenger then 1 else 0)"

definition Due :: "league_entry \<Rightarrow> int \<Rightarrow> bool \<Rightarrow> bool" where
  "Due entry now force =
     (if \<not> le_Active entry then False
      else if force then True
      else case le_LastScheduledAt entry of None \<Rightarrow> True
        | Some scheduled \<Rightarrow> \<not> (scheduled + intervalForTier (le_Tier entry) > now))"

definition stableScore :: "(jsstr \<Rightarrow> 256 word) \<Rightarrow> jsstr list \<Rightarrow> nat" where
  "stableScore sha parts = unat (drop_bit 192 (sha (concat (map (\<lambda>part. part @ [0]) parts))))"

text \<open>\<open>sort.Slice\<close> with its comparison. The order of entries that compare equal is not specified; here it is kept.\<close>

definition sort_slice :: "('a \<Rightarrow> 'a \<Rightarrow> bool) \<Rightarrow> 'a list \<Rightarrow> 'a list" where
  "sort_slice before = js_sort (\<lambda>x y. if before x y then - 1 else if before y x then 1 else 0)"

lemma sort_slice_props [simp]: "set (sort_slice before xs) = set xs" "length (sort_slice before xs) = length xs"
  "distinct (sort_slice before xs) = distinct xs"
  by (simp_all add: sort_slice_def)

lemma mset_sort_slice [simp]: "mset (sort_slice before xs) = mset xs"
  unfolding sort_slice_def by (rule multiset_eqI) (metis count_js_sort count_mset)

definition due_before :: "(jsstr \<Rightarrow> 256 word) \<Rightarrow> netip \<Rightarrow> jsstr \<Rightarrow> league_entry \<Rightarrow> league_entry \<Rightarrow> bool" where
  "due_before sha N seed x y =
     (case (ParsePrefix N (le_PrefixCIDR x), ParsePrefix N (le_PrefixCIDR y)) of
        (Some left, Some right) \<Rightarrow>
          if pf_bits left \<noteq> pf_bits right then pf_bits left > pf_bits right
          else stableScore sha [seed, le_AgentID x, le_PrefixCIDR x] < stableScore sha [seed, le_AgentID y, le_PrefixCIDR y]
      | _ \<Rightarrow> stableScore sha [seed, le_AgentID x, le_PrefixCIDR x] < stableScore sha [seed, le_AgentID y, le_PrefixCIDR y])"

subsection \<open>The queues\<close>

text \<open>The candidates that are scanned again come first: at most \<open>limit\<close> of those that lie in the prefix and were not
  seen yet.\<close>

fun pick_anchors :: "netip \<Rightarrow> prefix \<Rightarrow> nat \<Rightarrow> jsstr list \<Rightarrow> scan_target list \<Rightarrow> jsstr list \<Rightarrow> scan_target list \<times> jsstr list" where
  "pick_anchors N prefix limit [] items seen = (items, seen)"
| "pick_anchors N prefix limit (ip # ips) items seen =
     (if limit \<le> length items then (items, seen)
      else case ParseAddr N ip of
        None \<Rightarrow> pick_anchors N prefix limit ips items seen
      | Some addr \<Rightarrow>
          if \<not> Contains prefix addr \<or> ip \<in> set seen then pick_anchors N prefix limit ips items seen
          else pick_anchors N prefix limit ips
            (items @ [\<lparr>st_TargetIP = ip, st_PrefixCIDR = prefix_String N prefix\<rparr>]) (ip # seen))"

text \<open>A queue: its tier, its prefix and its targets. The three queues of queues are one list here, each entry with its
  tier. \<open>candidates\<close> gives the addresses of the candidates of a prefix, best first.\<close>

record prefix_queue =
  pq_tier :: jsstr
  pq_prefix :: jsstr
  pq_items :: "scan_target list"

definition plan_entry :: "(jsstr \<Rightarrow> 256 word) \<Rightarrow> netip \<Rightarrow> jsstr \<Rightarrow> (jsstr \<Rightarrow> jsstr list) \<Rightarrow> league_entry
    \<Rightarrow> prefix_queue list \<times> jsstr list \<Rightarrow> prefix_queue list \<times> jsstr list" where
  "plan_entry sha N seed candidates entry = (\<lambda>(queues, seen).
     (case ParsePrefix N (le_PrefixCIDR entry) of
        None \<Rightarrow> (queues, seen)
      | Some p \<Rightarrow>
          (let tier = normalizedTier (le_Tier entry);
               desired = samplesForTier tier;
               prefix = Masked p;
               text = prefix_String N prefix;
               (items, seen1) = pick_anchors N prefix (anchorsForTier tier) (candidates (le_PrefixCIDR entry)) [] seen;
               (items', seen') =
                 (case FromPrefix sha N text (int desired - int (length items))
                    (seed @ lit ''|'' @ le_AgentID entry @ lit ''|'' @ text) seen1 of
                    Inl _ \<Rightarrow> (items, seen1)
                  | Inr (generated, s) \<Rightarrow> (items @ generated, s))
           in (if items' \<noteq> [] then queues @ [\<lparr>pq_tier = tier, pq_prefix = text, pq_items = items'\<rparr>] else queues, seen'))))"

record plan_options =
  po_Now :: int
  po_Seed :: jsstr
  po_Budget :: int
  po_Force :: bool

definition plan_queues :: "(jsstr \<Rightarrow> 256 word) \<Rightarrow> netip \<Rightarrow> league_entry list \<Rightarrow> (jsstr \<Rightarrow> jsstr list) \<Rightarrow> plan_options \<Rightarrow> prefix_queue list" where
  "plan_queues sha N entries candidates options =
     (let due = sort_slice (due_before sha N (po_Seed options)) (filter (\<lambda>e. Due e (po_Now options) (po_Force options)) entries)
      in fst (fold (plan_entry sha N (po_Seed options) candidates) due ([], [])))"

text \<open>What the queues hold: every target lies in the prefix of an entry that is due, and no address is queued twice.\<close>

definition due_target :: "netip \<Rightarrow> league_entry set \<Rightarrow> scan_target \<Rightarrow> bool" where
  "due_target N due t \<longleftrightarrow> (\<exists>e \<in> due. \<exists>p. ParsePrefix N (le_PrefixCIDR e) = Some p \<and> st_PrefixCIDR t = prefix_String N (Masked p)
     \<and> (\<exists>a. ParseAddr N (st_TargetIP t) = Some a \<and> Contains (Masked p) a))"

definition queued :: "prefix_queue list \<Rightarrow> scan_target list" where
  "queued qs = concat (map pq_items qs)"

definition fresh :: "(scan_target \<Rightarrow> bool) \<Rightarrow> scan_target list \<Rightarrow> jsstr list \<Rightarrow> jsstr list \<Rightarrow> bool" where
  "fresh Q items seen seen' \<longleftrightarrow> (\<forall>t \<in> set items. Q t) \<and> distinct (map st_TargetIP items)
     \<and> st_TargetIP ` set items \<inter> set seen = {} \<and> set seen' = set seen \<union> st_TargetIP ` set items"

lemma fresh_Nil [simp]: "fresh Q [] seen seen"
  by (simp add: fresh_def)

lemma fresh_append: "fresh Q xs s0 s1 \<Longrightarrow> fresh Q ys s1 s2 \<Longrightarrow> fresh Q (xs @ ys) s0 s2"
  unfolding fresh_def by auto

lemma fresh_one: "Q t \<Longrightarrow> st_TargetIP t \<notin> set seen \<Longrightarrow> fresh Q [t] seen (st_TargetIP t # seen)"
  unfolding fresh_def by auto

lemma draws_fresh:
  assumes "draws N {p} xs s0 s1" "\<And>t. drawn N p t \<Longrightarrow> Q t"
  shows "fresh Q xs s0 s1"
  using assms unfolding draws_def fresh_def by auto

lemma pick_anchors_fresh:
  assumes "fresh Q items seen0 seen" "length items \<le> limit"
    and "\<And>ip a. ParseAddr N ip = Some a \<Longrightarrow> Contains p a \<Longrightarrow> Q \<lparr>st_TargetIP = ip, st_PrefixCIDR = prefix_String N p\<rparr>"
  shows "fresh Q (fst (pick_anchors N p limit ips items seen)) seen0 (snd (pick_anchors N p limit ips items seen))
    \<and> length (fst (pick_anchors N p limit ips items seen)) \<le> limit"
  using assms(1,2)
proof (induction ips arbitrary: items seen)
  case (Cons ip ips)
  let ?t = "\<lparr>st_TargetIP = ip, st_PrefixCIDR = prefix_String N p\<rparr>"
  show ?case
  proof (cases "limit \<le> length items \<or> (\<forall>a. ParseAddr N ip = Some a \<longrightarrow> \<not> Contains p a) \<or> ip \<in> set seen")
    case True
    then have "pick_anchors N p limit (ip # ips) items seen = (items, seen)
        \<or> pick_anchors N p limit (ip # ips) items seen = pick_anchors N p limit ips items seen"
      by (auto split: option.splits)
    then show ?thesis using Cons by (metis fst_conv snd_conv)
  next
    case False
    then obtain a where a: "ParseAddr N ip = Some a" "Contains p a" by blast
    then have "pick_anchors N p limit (ip # ips) items seen = pick_anchors N p limit ips (items @ [?t]) (ip # seen)"
      using False by simp
    moreover have "fresh Q (items @ [?t]) seen0 (ip # seen)"
      using fresh_append [OF Cons.prems(1) fresh_one [of Q ?t]] assms(3) [OF a] False by simp
    ultimately show ?thesis using Cons.IH [of "items @ [?t]" "ip # seen"] False by simp
  qed
qed simp

lemma plan_entry_fresh:
  assumes "netip_texts N" "fresh (due_target N due) (queued qs) [] seen" "e \<in> due"
  shows "case plan_entry sha N seed candidates e (qs, seen) of (qs', seen') \<Rightarrow> fresh (due_target N due) (queued qs') [] seen'
    \<and> (\<exists>new. qs' = qs @ new \<and> set (map pq_tier new) \<subseteq> {normalizedTier (le_Tier e)})"
proof (cases "ParsePrefix N (le_PrefixCIDR e)")
  case (Some p)
  let ?Q = "due_target N due" and ?tier = "normalizedTier (le_Tier e)" and ?text = "prefix_String N (Masked p)"
  obtain items seen1 where anchors: "pick_anchors N (Masked p) (anchorsForTier ?tier) (candidates (le_PrefixCIDR e)) [] seen = (items, seen1)"
    by (cases "pick_anchors N (Masked p) (anchorsForTier ?tier) (candidates (le_PrefixCIDR e)) [] seen")
  have f1: "fresh ?Q items seen seen1"
    using pick_anchors_fresh [of ?Q "[]" seen seen "anchorsForTier ?tier" N "Masked p" "candidates (le_PrefixCIDR e)"] anchors assms(3) Some
    by (auto simp: due_target_def)
  have named: "named N (Masked p)" using assms(1) Some by (rule named_Masked)
  obtain g s where g: "FromPrefix sha N ?text (int (samplesForTier ?tier) - int (length items))
      (seed @ lit ''|'' @ le_AgentID e @ lit ''|'' @ ?text) seen1 = Inr (g, s)" "draws N {Masked p} g seen1 s"
    using FromPrefix_named [OF assms(1) named] by blast
  have parse: "ParseAddr N (addr_String N a) = Some a" for a using assms(1) by (simp add: netip_texts_def)
  have "?Q t" if "drawn N (Masked p) t" for t
    unfolding due_target_def
  proof (intro bexI [of _ e] exI [of _ p] conjI)
    show "\<exists>a. ParseAddr N (st_TargetIP t) = Some a \<and> Contains (Masked p) a"
      using that parse by (auto simp: drawn_def usable_host_def)
  qed (use that assms(3) Some in \<open>auto simp: drawn_def\<close>)
  then have "fresh ?Q g seen1 s" using draws_fresh [OF g(2)] by blast
  then have f2: "fresh ?Q (items @ g) seen s" by (rule fresh_append [OF f1])
  have r: "plan_entry sha N seed candidates e (qs, seen) = (if items @ g \<noteq> []
      then qs @ [\<lparr>pq_tier = ?tier, pq_prefix = ?text, pq_items = items @ g\<rparr>] else qs, s)"
    using Some anchors g(1) by (simp add: plan_entry_def Let_def)
  show ?thesis unfolding r using fresh_append [OF assms(2) f2] by (auto simp: queued_def)
qed (use assms in \<open>simp add: plan_entry_def\<close>)

lemma plan_queues_fresh:
  assumes "netip_texts N"
  shows "\<exists>seen. fresh (due_target N {e \<in> set entries. Due e (po_Now opt) (po_Force opt)})
      (queued (plan_queues sha N entries candidates opt)) [] seen"
    and "q \<in> set (plan_queues sha N entries candidates opt) \<Longrightarrow> pq_tier q \<in> {Champion, Challenger, Observation}"
proof -
  let ?due = "{e \<in> set entries. Due e (po_Now opt) (po_Force opt)}"
  have fold: "\<exists>qs' seen'. fold (plan_entry sha N (po_Seed opt) candidates) es (qs, seen) = (qs', seen')
      \<and> fresh (due_target N ?due) (queued qs') [] seen' \<and> pq_tier ` set qs' \<subseteq> {Champion, Challenger, Observation}"
    if "set es \<subseteq> ?due" "fresh (due_target N ?due) (queued qs) [] seen" "pq_tier ` set qs \<subseteq> {Champion, Challenger, Observation}"
    for es qs seen
    using that
  proof (induction es arbitrary: qs seen)
    case (Cons e es)
    obtain qs1 s1 where p: "plan_entry sha N (po_Seed opt) candidates e (qs, seen) = (qs1, s1)"
      by (cases "plan_entry sha N (po_Seed opt) candidates e (qs, seen)")
    have e: "e \<in> ?due" using Cons.prems(1) by auto
    from plan_entry_fresh [OF assms Cons.prems(2) e, of sha "po_Seed opt" candidates] p
    obtain new where n: "fresh (due_target N ?due) (queued qs1) [] s1" "qs1 = qs @ new"
      "set (map pq_tier new) \<subseteq> {normalizedTier (le_Tier e)}" by auto
    have "pq_tier ` set qs1 \<subseteq> {Champion, Challenger, Observation}"
      using n(2,3) Cons.prems(3) normalizedTier_cases [of "le_Tier e"] by (auto simp: image_subset_iff)
    then show ?case using Cons.IH [of qs1 s1] Cons.prems(1) n(1) p by simp
  qed simp
  have "queued [] = []" by (simp add: queued_def)
  then have start: "fresh (due_target N ?due) (queued []) [] []" by simp
  have "\<exists>qs' seen'. fold (plan_entry sha N (po_Seed opt) candidates)
      (sort_slice (due_before sha N (po_Seed opt)) (filter (\<lambda>e. Due e (po_Now opt) (po_Force opt)) entries)) ([], []) = (qs', seen')
      \<and> fresh (due_target N ?due) (queued qs') [] seen' \<and> pq_tier ` set qs' \<subseteq> {Champion, Challenger, Observation}"
    by (rule fold [OF _ start]) auto
  then show "\<exists>seen. fresh (due_target N ?due) (queued (plan_queues sha N entries candidates opt)) [] seen"
    and "q \<in> set (plan_queues sha N entries candidates opt) \<Longrightarrow> pq_tier q \<in> {Champion, Challenger, Observation}"
    by (auto simp: plan_queues_def Let_def image_subset_iff)
qed

subsection \<open>Sharing the budget\<close>

text \<open>A tier's targets in rounds: the first of every prefix, then the second of every prefix, and so on.\<close>

function flat_from :: "nat \<Rightarrow> 'a list list \<Rightarrow> 'a list" where
  "flat_from rnd groups =
     (let row = map (\<lambda>items. items ! rnd) (filter (\<lambda>items. rnd < length items) groups)
      in if row = [] then [] else row @ flat_from (Suc rnd) groups)"
  by pat_completeness auto
termination
proof (relation "measure (\<lambda>(rnd, groups). sum_list (map length groups) - rnd)")
  fix rnd :: nat and groups :: "'a list list" and row
  assume "row = map (\<lambda>items. items ! rnd) (filter (\<lambda>items. rnd < length items) groups)" "row \<noteq> []"
  then obtain items where i: "items \<in> set groups" "rnd < length items" by (auto simp: filter_empty_conv)
  have "length items \<le> sum_list (map length groups)" using i(1) by (simp add: member_le_sum_list)
  then show "((Suc rnd, groups), rnd, groups) \<in> measure (\<lambda>(rnd, groups). sum_list (map length groups) - rnd)"
    using i(2) by simp
qed simp

declare flat_from.simps [simp del]

definition flatten :: "(jsstr \<Rightarrow> 256 word) \<Rightarrow> jsstr \<Rightarrow> prefix_queue list \<Rightarrow> scan_target list" where
  "flatten sha seed groups =
     flat_from 0 (map pq_items (sort_slice (\<lambda>x y. stableScore sha [seed, pq_prefix x] < stableScore sha [seed, pq_prefix y]) groups))"

lemma row_mset:
  "mset (map (\<lambda>items. items ! r) (filter (\<lambda>items. r < length items) groups)) + mset (concat (map (drop (Suc r)) groups))
     = mset (concat (map (drop r) groups))"
proof (induction groups)
  case (Cons g groups)
  show ?case
  proof (cases "r < length g")
    case True
    then have "drop r g = g ! r # drop (Suc r) g" by (simp add: Cons_nth_drop_Suc)
    then show ?thesis using Cons True by simp
  qed (use Cons in simp)
qed simp

lemma flat_from_mset: "mset (flat_from r groups) = mset (concat (map (drop r) groups))"
proof (induction r groups rule: flat_from.induct)
  case (1 r groups)
  let ?row = "map (\<lambda>items. items ! r) (filter (\<lambda>items. r < length items) groups)"
  show ?case
  proof (cases "?row = []")
    case True
    then have "\<forall>g \<in> set groups. drop r g = []" by (auto simp: filter_empty_conv)
    then have "concat (map (drop r) groups) = []" by simp
    then show ?thesis using True by (simp add: flat_from.simps [of r])
  next
    case False
    then have "flat_from r groups = ?row @ flat_from (Suc r) groups" by (simp add: flat_from.simps [of r] Let_def)
    then show ?thesis using 1 [OF refl False] row_mset [of r groups] by simp
  qed
qed

lemma flatten_mset: "mset (flatten sha seed groups) = mset (queued groups)"
proof -
  let ?s = "sort_slice (\<lambda>x y. stableScore sha [seed, pq_prefix x] < stableScore sha [seed, pq_prefix y]) groups"
  have q: "mset (queued xs) = sum_mset (image_mset (\<lambda>x. mset (pq_items x)) (mset xs))" for xs
    by (induction xs) (simp_all add: queued_def)
  have "mset (flatten sha seed groups) = mset (queued ?s)"
    by (simp add: flatten_def flat_from_mset queued_def comp_def)
  then show ?thesis by (simp add: q)
qed

text \<open>One pass over the pattern of tiers: each takes its next target if it has one left, until the budget is reached.
  The result is the positions, the targets so far and whether any was added.\<close>

fun serve :: "(jsstr \<Rightarrow> 'a list) \<Rightarrow> nat \<Rightarrow> jsstr list \<Rightarrow> (jsstr \<Rightarrow> nat) \<Rightarrow> 'a list \<Rightarrow> bool \<Rightarrow> (jsstr \<Rightarrow> nat) \<times> 'a list \<times> bool" where
  "serve flat budget [] pos result added = (pos, result, added)"
| "serve flat budget (tier # tiers) pos result added =
     (if length (flat tier) \<le> pos tier then serve flat budget tiers pos result added
      else let result' = result @ [flat tier ! pos tier]; pos' = pos(tier := pos tier + 1) in
        if budget \<le> length result' then (pos', result', True) else serve flat budget tiers pos' result' True)"

definition pattern :: "jsstr list" where
  "pattern = [Champion, Champion, Champion, Challenger, Challenger, Observation]"

text \<open>What a pass does: it only appends; without an addition it changed nothing, as the tiers are exhausted.\<close>

lemma serve_grows:
  "serve flat budget tiers pos result added = (pos', result', added') \<Longrightarrow>
     length result \<le> length result' \<and> (added' \<longrightarrow> added \<or> length result < length result') \<and> (\<forall>t. pos t \<le> pos' t)
     \<and> (\<not> added' \<longrightarrow> \<not> added \<and> pos' = pos \<and> result' = result \<and> (\<forall>t \<in> set tiers. length (flat t) \<le> pos t))"
proof (induction tiers arbitrary: pos result added)
  case (Cons tier tiers)
  let ?r = "result @ [flat tier ! pos tier]" and ?p = "pos(tier := pos tier + 1)"
  show ?case
  proof (cases "length (flat tier) \<le> pos tier")
    case True
    then have "serve flat budget tiers pos result added = (pos', result', added')" using Cons.prems by simp
    from Cons.IH [OF this] show ?thesis using True by simp
  next
    case False
    then consider "pos' = ?p" "result' = ?r" "added'" | "serve flat budget tiers ?p ?r True = (pos', result', added')"
      using Cons.prems by (auto simp: Let_def split: if_splits)
    then show ?thesis
    proof cases
      case 2
      from Cons.IH [OF this] have "length ?r \<le> length result'" "added'" "\<forall>t. ?p t \<le> pos' t" by auto
      moreover have "pos t \<le> ?p t" for t by simp
      ultimately show ?thesis by (auto intro: le_trans simp del: fun_upd_apply)
    qed simp
  qed
qed simp

function serve_all :: "(jsstr \<Rightarrow> 'a list) \<Rightarrow> nat \<Rightarrow> (jsstr \<Rightarrow> nat) \<Rightarrow> 'a list \<Rightarrow> (jsstr \<Rightarrow> nat) \<times> 'a list" where
  "serve_all flat budget pos result =
     (if length result < budget then
        (case serve flat budget pattern pos result False of
           (pos', result', added) \<Rightarrow> if added then serve_all flat budget pos' result' else (pos', result'))
      else (pos, result))"
  by pat_completeness auto
termination
  by (relation "measure (\<lambda>(flat, budget, pos, result). budget - length result)") (auto dest!: serve_grows [OF sym])

declare serve_all.simps [simp del]

definition tier_targets :: "(jsstr \<Rightarrow> 256 word) \<Rightarrow> jsstr \<Rightarrow> prefix_queue list \<Rightarrow> jsstr \<Rightarrow> scan_target list" where
  "tier_targets sha seed queues tier = flatten sha seed (filter (\<lambda>q. pq_tier q = tier) queues)"

definition plan_budget :: "int \<Rightarrow> nat" where
  "plan_budget b = nat (if b \<le> 0 \<or> b > MaxSampleTargets then MaxSampleTargets else b)"

definition PlanAgent :: "(jsstr \<Rightarrow> 256 word) \<Rightarrow> netip \<Rightarrow> league_entry list \<Rightarrow> (jsstr \<Rightarrow> jsstr list) \<Rightarrow> plan_options \<Rightarrow> scan_target list" where
  "PlanAgent sha N entries candidates options =
     (let queues = plan_queues sha N entries candidates options
      in snd (serve_all (tier_targets sha (po_Seed options) queues) (plan_budget (po_Budget options)) (\<lambda>_. 0) []))"

subsection \<open>What a plan is\<close>

text \<open>After any number of passes the result holds, of every tier, the targets up to its position.\<close>

abbreviation tiers :: "jsstr list" where
  "tiers \<equiv> [Champion, Challenger, Observation]"

definition served :: "(jsstr \<Rightarrow> 'a list) \<Rightarrow> (jsstr \<Rightarrow> nat) \<Rightarrow> 'a list \<Rightarrow> bool" where
  "served flat pos result \<longleftrightarrow> (\<forall>t. pos t \<le> length (flat t) \<or> t \<notin> set tiers)
     \<and> mset result = mset (take (pos Champion) (flat Champion)) + mset (take (pos Challenger) (flat Challenger))
         + mset (take (pos Observation) (flat Observation))"

lemma served_step:
  assumes "served flat pos result" "tier \<in> set tiers" "pos tier < length (flat tier)"
  shows "served flat (pos(tier := pos tier + 1)) (result @ [flat tier ! pos tier])"
proof -
  have "mset (take (pos tier + 1) (flat tier)) = add_mset (flat tier ! pos tier) (mset (take (pos tier) (flat tier)))"
    using assms(3) by (simp add: take_Suc_conv_app_nth)
  then show ?thesis using assms by (auto simp: served_def)
qed

text \<open>A pass never overshoots the budget; one that was not cut short took from every tier as often as the pattern names
  it, or all it had.\<close>

lemma serve_serves:
  assumes "served flat pos result" "length result < budget" "set ts \<subseteq> set tiers"
    "serve flat budget ts pos result added = (pos', result', added')"
  shows "served flat pos' result' \<and> length result' \<le> budget \<and> length result' \<le> length result + length ts
    \<and> (length result' < budget \<longrightarrow> (\<forall>t \<in> set tiers. pos' t = length (flat t) \<or> pos t + count_list ts t \<le> pos' t))"
  using assms
proof (induction ts arbitrary: pos result added)
  case (Cons tier ts)
  let ?r = "result @ [flat tier ! pos tier]" and ?p = "pos(tier := pos tier + 1)"
  have ts: "set ts \<subseteq> set tiers" and tier: "tier \<in> set tiers" using Cons.prems(3) by auto
  show ?case
  proof (cases "length (flat tier) \<le> pos tier")
    case True
    then have s: "serve flat budget ts pos result added = (pos', result', added')" using Cons.prems(4) by simp
    have "pos' tier = length (flat tier)" if "served flat pos' result'"
      using that tier serve_grows [OF s] True by (auto simp: served_def intro: antisym le_trans)
    then show ?thesis using Cons.IH [OF Cons.prems(1,2) ts s] by auto
  next
    case False
    then have step: "served flat ?p ?r" using Cons.prems(1) tier by (intro served_step) simp_all
    show ?thesis
    proof (cases "budget \<le> length ?r")
      case True
      then have "pos' = ?p" "result' = ?r" using Cons.prems(4) False by (simp_all add: Let_def)
      then show ?thesis using step True Cons.prems(2) by (simp del: fun_upd_apply)
    next
      case more: False
      then have s: "serve flat budget ts ?p ?r True = (pos', result', added')" using Cons.prems(4) False by (simp add: Let_def)
      have "length ?r < budget" using more by simp
      from Cons.IH [OF step this ts s] show ?thesis by auto
    qed
  qed
qed auto

definition share :: "jsstr \<Rightarrow> nat" where
  "share tier = count_list pattern tier"

lemma share_values: "share Champion = 3" "share Challenger = 2" "share Observation = 1"
  by (simp_all add: share_def pattern_def)

lemma serve_all_shares:
  assumes "served flat pos result" "length result \<le> budget" "length result \<le> 6 * k"
    "\<forall>t \<in> set tiers. pos t = length (flat t) \<or> share t * k \<le> pos t" "serve_all flat budget pos result = (pos', result')"
  shows "served flat pos' result' \<and> length result' \<le> budget
    \<and> (length result' = budget \<or> (\<forall>t \<in> set tiers. pos' t = length (flat t)))
    \<and> (\<forall>t \<in> set tiers. pos' t = length (flat t) \<or> share t * ((budget - 1) div 6) \<le> pos' t)"
  using assms
proof (induction flat budget pos result arbitrary: k rule: serve_all.induct)
  case (1 flat budget pos result)
  have fair: "\<forall>t \<in> set tiers. p t = length (flat t) \<or> share t * ((budget - 1) div 6) \<le> p t"
    if "\<forall>t \<in> set tiers. p t = length (flat t) \<or> share t * j \<le> p t" "budget \<le> 6 * j + 6" for p j
  proof
    fix t assume t: "t \<in> set tiers"
    have "(budget - 1) div 6 \<le> j" using that(2) by linarith
    then have "share t * ((budget - 1) div 6) \<le> share t * j" by simp
    then show "p t = length (flat t) \<or> share t * ((budget - 1) div 6) \<le> p t" using that(1) t le_trans by blast
  qed
  show ?case
  proof (cases "length result < budget")
    case False
    then have "pos' = pos" "result' = result" "length result = budget"
      using "1.prems" by (simp_all add: serve_all.simps [of flat budget pos result])
    then show ?thesis using "1.prems" fair [of pos k] by simp
  next
    case True
    obtain p r a where s: "serve flat budget pattern pos result False = (p, r, a)" by (metis prod_cases3)
    have pat: "set pattern \<subseteq> set tiers" "length pattern = 6" "set tiers \<subseteq> set pattern" by (auto simp: pattern_def)
    note g = serve_grows [OF s]
    note v = serve_serves [OF "1.prems"(1) True pat(1) s]
    have eq: "serve_all flat budget pos result = (if a then serve_all flat budget p r else (p, r))"
      using True s by (simp add: serve_all.simps [of flat budget pos result])
    show ?thesis
    proof (cases a)
      case False
      then have e: "pos' = pos" "result' = result" using eq g "1.prems"(5) by auto
      have "\<forall>t \<in> set tiers. length (flat t) \<le> pos t" using False g pat(3) by blast
      then have "\<forall>t \<in> set tiers. pos t = length (flat t)" using "1.prems"(1) by (auto simp: served_def intro: antisym)
      then show ?thesis using e "1.prems"(1,2) by simp
    next
      case added: True
      have len: "length r \<le> 6 * Suc k" using v pat(2) "1.prems"(3) by simp
      show ?thesis
      proof (cases "length r < budget")
        case less: True
        have "\<forall>t \<in> set tiers. p t = length (flat t) \<or> share t * Suc k \<le> p t"
        proof
          fix t assume t: "t \<in> set tiers"
          then have "p t = length (flat t) \<or> pos t + share t \<le> p t" using v less unfolding share_def by blast
          moreover have "p t = length (flat t)" if "pos t = length (flat t)"
            using that v g t unfolding served_def by (metis antisym)
          moreover have "pos t = length (flat t) \<or> share t * k \<le> pos t" using "1.prems"(4) t by blast
          ultimately show "p t = length (flat t) \<or> share t * Suc k \<le> p t" by (auto simp: algebra_simps)
        qed
        then show ?thesis using "1.IH" [OF True s [symmetric] refl added, of "Suc k"] v len "1.prems"(5) eq added by simp
      next
        case False
        then have e: "pos' = p" "result' = r" "length r = budget"
          using eq added "1.prems"(5) v by (simp_all add: serve_all.simps [of flat budget p r])
        have "\<forall>t \<in> set tiers. p t = length (flat t) \<or> share t * k \<le> p t"
        proof
          fix t assume t: "t \<in> set tiers"
          have "p t \<le> length (flat t)" "pos t \<le> p t" using v g t unfolding served_def by blast+
          moreover have "pos t = length (flat t) \<or> share t * k \<le> pos t" using "1.prems"(4) t by blast
          ultimately show "p t = length (flat t) \<or> share t * k \<le> p t" by auto
        qed
        then show ?thesis using fair [of p k] len v e by simp
      qed
    qed
  qed
qed

lemma queued_tiers:
  assumes "pq_tier ` set qs \<subseteq> set tiers"
  shows "mset (queued qs) = mset (tier_targets sha seed qs Champion) + mset (tier_targets sha seed qs Challenger)
    + mset (tier_targets sha seed qs Observation)"
proof -
  have "mset (queued qs) = mset (queued (filter (\<lambda>q. pq_tier q = Champion) qs)) + mset (queued (filter (\<lambda>q. pq_tier q = Challenger) qs))
      + mset (queued (filter (\<lambda>q. pq_tier q = Observation) qs))"
    using assms by (induction qs) (auto simp: queued_def)
  then show ?thesis by (simp add: tier_targets_def flatten_mset)
qed

text \<open>There is something to scan as soon as an entry is due whose prefix parses.\<close>

lemma plan_entry_nonempty:
  assumes "netip_texts N" "ParsePrefix N (le_PrefixCIDR e) \<noteq> None"
  shows "queued (fst (plan_entry sha N seed candidates e ([], []))) \<noteq> []"
proof -
  obtain p where p: "ParsePrefix N (le_PrefixCIDR e) = Some p" using assms(2) by blast
  let ?tier = "normalizedTier (le_Tier e)" and ?text = "prefix_String N (Masked p)"
  obtain items seen1 where anchors: "pick_anchors N (Masked p) (anchorsForTier ?tier) (candidates (le_PrefixCIDR e)) [] [] = (items, seen1)"
    by (cases "pick_anchors N (Masked p) (anchorsForTier ?tier) (candidates (le_PrefixCIDR e)) [] []")
  have f: "fresh (\<lambda>_. True) items [] seen1"
    using pick_anchors_fresh [of "\<lambda>_. True" "[]" "[]" "[]" "anchorsForTier ?tier" N "Masked p" "candidates (le_PrefixCIDR e)"] anchors by simp
  have n: "named N (Masked p)" using assms(1) p by (rule named_Masked)
  let ?count = "int (samplesForTier ?tier) - int (length items)" and ?seed = "seed @ lit ''|'' @ le_AgentID e @ lit ''|'' @ ?text"
  obtain g s where g: "FromPrefix sha N ?text ?count ?seed seen1 = Inr (g, s)"
    using FromPrefix_named [OF assms(1) n] by blast
  have "items @ g \<noteq> []"
  proof (cases "items = []")
    case True
    then have "seen1 = []" using f by (simp add: fresh_def)
    moreover have "0 < ?count" using True by (simp add: samplesForTier_def Let_def)
    ultimately have "g \<noteq> []" using FromPrefix_first [of "Masked p" N ?text ?count sha ?seed g s] g n by (auto simp: named_def)
    then show ?thesis by simp
  qed simp
  then show ?thesis using p anchors g by (simp add: plan_entry_def Let_def queued_def)
qed

lemma plan_entries_nonempty:
  assumes "netip_texts N" "\<exists>e \<in> set es. ParsePrefix N (le_PrefixCIDR e) \<noteq> None"
  shows "queued (fst (fold (plan_entry sha N seed candidates) es ([], []))) \<noteq> []"
  using assms(2)
proof (induction es)
  case (Cons e es)
  show ?case
  proof (cases "ParsePrefix N (le_PrefixCIDR e)")
    case None
    then have "plan_entry sha N seed candidates e ([], []) = ([], [])" by (simp add: plan_entry_def)
    then show ?thesis using Cons None by simp
  next
    case (Some p)
    have grow: "\<exists>new. fst (fold (plan_entry sha N seed candidates) xs (qs, seen)) = qs @ new" for xs qs seen
    proof (induction xs arbitrary: qs seen)
      case (Cons x xs)
      have "\<exists>new s. plan_entry sha N seed candidates x (qs, seen) = (qs @ new, s)"
        by (auto simp: plan_entry_def Let_def split: option.split prod.split)
      then obtain new s where "plan_entry sha N seed candidates x (qs, seen) = (qs @ new, s)" by blast
      then show ?case using Cons.IH [of "qs @ new" s] by auto
    qed simp
    obtain qs s where q: "plan_entry sha N seed candidates e ([], []) = (qs, s)" by fastforce
    then have "queued qs \<noteq> []" using plan_entry_nonempty [OF assms(1), of e sha seed candidates] Some by simp
    moreover obtain new where "fst (fold (plan_entry sha N seed candidates) es (qs, s)) = qs @ new" using grow by blast
    ultimately show ?thesis using q by (simp add: queued_def)
  qed
qed simp

lemma distinct_submset:
  assumes "mset xs \<subseteq># mset ys" "distinct ys"
  shows "distinct xs"
proof -
  obtain rest where "mset ys = mset xs + rest" using assms(1) by (auto simp: subset_mset.le_iff_add)
  moreover obtain zs where "mset zs = rest" using ex_mset by blast
  ultimately have "mset ys = mset (xs @ zs)" by simp
  then have "distinct (xs @ zs)" using assms(2) mset_eq_imp_distinct_iff by blast
  then show ?thesis by simp
qed

text \<open>C22. The scan plan of an agent: every target lies in the prefix of an entry that is due, no address is planned twice, and the number of targets is exactly the budget, or everything the due prefixes offer when that is less; it is empty exactly when no entry with a readable prefix is due. The tiers share the budget: unless all its targets are planned, a tier gets at least three (champions), two (challengers) or one (observation) targets of every full six, so no tier starves another.\<close>

theorem league_plan_sound:
  assumes "netip_texts N" "plan = PlanAgent sha N entries candidates opt" "offered = queued (plan_queues sha N entries candidates opt)"
  shows "(\<forall>t \<in> set plan. due_target N {e \<in> set entries. Due e (po_Now opt) (po_Force opt)} t)
    \<and> distinct (map st_TargetIP plan)
    \<and> length plan = min (plan_budget (po_Budget opt)) (length offered)
    \<and> (plan = [] \<longleftrightarrow> (\<forall>e \<in> set entries. Due e (po_Now opt) (po_Force opt) \<longrightarrow> ParsePrefix N (le_PrefixCIDR e) = None))
    \<and> (\<exists>taken. served (tier_targets sha (po_Seed opt) (plan_queues sha N entries candidates opt)) taken plan
        \<and> (\<forall>tier \<in> set tiers.
            taken tier = length (tier_targets sha (po_Seed opt) (plan_queues sha N entries candidates opt) tier)
            \<or> share tier * ((plan_budget (po_Budget opt) - 1) div 6) \<le> taken tier))"
proof -
  let ?qs = "plan_queues sha N entries candidates opt" and ?b = "plan_budget (po_Budget opt)"
  let ?flat = "tier_targets sha (po_Seed opt) ?qs" and ?due = "{e \<in> set entries. Due e (po_Now opt) (po_Force opt)}"
  obtain seen where f: "fresh (due_target N ?due) offered [] seen" using plan_queues_fresh(1) [OF assms(1)] assms(3) by blast
  have "pq_tier q \<in> set tiers" if "q \<in> set ?qs" for q using plan_queues_fresh(2) [OF assms(1) that] by simp
  then have ts: "pq_tier ` set ?qs \<subseteq> set tiers" by blast
  note all = queued_tiers [OF ts, of sha "po_Seed opt", folded assms(3)]
  have start: "served ?flat (\<lambda>_. 0) []" by (simp add: served_def)
  obtain pos where pos: "serve_all ?flat ?b (\<lambda>_. 0) [] = (pos, plan)"
    using assms(2) by (metis PlanAgent_def prod.collapse)
  have "\<forall>t \<in> set tiers. (0::nat) = length (?flat t) \<or> share t * 0 \<le> 0" by simp
  from serve_all_shares [OF start _ _ this pos]
  have s: "served ?flat pos plan" "length plan \<le> ?b" "length plan = ?b \<or> (\<forall>t \<in> set tiers. pos t = length (?flat t))"
    "\<forall>t \<in> set tiers. pos t = length (?flat t) \<or> share t * ((?b - 1) div 6) \<le> pos t" by simp_all
  have part: "mset (take n xs) \<subseteq># mset xs" for n and xs :: "scan_target list"
    by (metis append_take_drop_id mset_append mset_subset_eq_add_left)
  have sub: "mset plan \<subseteq># mset offered"
    using s(1) unfolding all served_def by (auto intro!: subset_mset.add_mono part)
  have "set plan \<subseteq> set offered" using set_mset_mono [OF sub] by simp
  then have within: "\<forall>t \<in> set plan. due_target N ?due t" using f by (auto simp: fresh_def)
  have once: "distinct (map st_TargetIP plan)"
  proof -
    have "mset (map st_TargetIP plan) \<subseteq># mset (map st_TargetIP offered)" using image_mset_subseteq_mono [OF sub] by simp
    moreover have "distinct (map st_TargetIP offered)" using f by (simp add: fresh_def)
    ultimately show ?thesis by (rule distinct_submset)
  qed
  have size: "length plan = min ?b (length offered)"
  proof -
    have "length plan \<le> length offered" using size_mset_mono [OF sub] by simp
    moreover have "length plan = length offered" if "\<forall>t \<in> set tiers. pos t = length (?flat t)"
    proof -
      have "mset plan = mset offered" using s(1) that unfolding all served_def by simp
      then show ?thesis by (metis size_mset)
    qed
    ultimately show ?thesis using s(2,3) by auto
  qed
  have none: "offered = [] \<longleftrightarrow> (\<forall>e \<in> set entries. Due e (po_Now opt) (po_Force opt) \<longrightarrow> ParsePrefix N (le_PrefixCIDR e) = None)"
  proof
    let ?es = "sort_slice (due_before sha N (po_Seed opt)) (filter (\<lambda>e. Due e (po_Now opt) (po_Force opt)) entries)"
    assume empty: "offered = []"
    have "\<not> (\<exists>e \<in> set ?es. ParsePrefix N (le_PrefixCIDR e) \<noteq> None)"
    proof
      assume "\<exists>e \<in> set ?es. ParsePrefix N (le_PrefixCIDR e) \<noteq> None"
      from plan_entries_nonempty [OF assms(1) this, of sha "po_Seed opt" candidates] empty show False
        by (simp add: assms(3) plan_queues_def Let_def)
    qed
    then show "\<forall>e \<in> set entries. Due e (po_Now opt) (po_Force opt) \<longrightarrow> ParsePrefix N (le_PrefixCIDR e) = None" by auto
  next
    assume "\<forall>e \<in> set entries. Due e (po_Now opt) (po_Force opt) \<longrightarrow> ParsePrefix N (le_PrefixCIDR e) = None"
    then have "\<not> due_target N ?due t" for t unfolding due_target_def by fastforce
    then show "offered = []" using f unfolding fresh_def by (metis list.set_intros(1) neq_Nil_conv)
  qed
  have "0 < ?b" by (simp add: plan_budget_def MaxSampleTargets_def)
  then have "length plan = 0 \<longleftrightarrow> length offered = 0" unfolding size by linarith
  then have empty: "plan = [] \<longleftrightarrow> offered = []" by simp
  show ?thesis using within once size none [folded empty] s(1,4) by blast
qed

definition sample_options :: plan_options where
  "sample_options = \<lparr>po_Now = 100, po_Seed = lit ''plan'', po_Budget = 4, po_Force = True\<rparr>"

theorem league_plan_sound_witness:
  "PlanAgent (\<lambda>_. 7) decimal_netip [sample_entry] (\<lambda>_. []) sample_options \<noteq> []
    \<and> length (PlanAgent (\<lambda>_. 7) decimal_netip [sample_entry] (\<lambda>_. []) sample_options) \<le> 4"
proof -
  note t = league_plan_sound [OF decimal_texts refl refl, of "\<lambda>_. 7" "[sample_entry]" "\<lambda>_. []" sample_options]
  have "parse_decimal_prefix (decimal_prefix sample_prefix) = Some sample_prefix"
    by (rule parse_decimal_prefix) (simp add: valid_prefix_def sample_prefix_def)
  then have "ParsePrefix decimal_netip (le_PrefixCIDR sample_entry) \<noteq> None" "Due sample_entry (po_Now sample_options) (po_Force sample_options)"
    by (simp_all add: decimal_netip_def sample_entry_def Due_def sample_options_def)
  then have "PlanAgent (\<lambda>_. 7) decimal_netip [sample_entry] (\<lambda>_. []) sample_options \<noteq> []"
    using conjunct1 [OF conjunct2 [OF conjunct2 [OF conjunct2 [OF t]]]] by simp
  moreover have "plan_budget (po_Budget sample_options) = 4" by (simp add: plan_budget_def sample_options_def MaxSampleTargets_def)
  ultimately show ?thesis using conjunct1 [OF conjunct2 [OF conjunct2 [OF t]]] by simp
qed

end
