(* ===== verification/Limiters.thy ===== *)
theory Limiters
  imports Prelude
begin

text \<open>
  The two rate limiters of the server: failed logins (\<open>internal/auth/limiter.go\<close> with the handler of
  \<open>internal/api/auth.go\<close>) and pairing requests (\<open>internal/enrollment/limiter.go\<close>). Both count in windows that a
  first request opens; the bound this gives on any span of a window's length is proved once, in a locale. A mutex
  makes every operation one step; instants and durations are numbers of nanoseconds, and the zero time, which no
  clock reads, is 0.
\<close>

subsection \<open>Counting in windows\<close>

text \<open>A request at a time is let through or not. \<open>start\<close> and \<open>used\<close> read the window and its count off the state.\<close>

locale fixed_window =
  fixes limit :: nat and window :: int
    and start :: "'s \<Rightarrow> int option" and used :: "'s \<Rightarrow> nat" and inv :: "'s \<Rightarrow> bool"
    and step :: "int \<Rightarrow> 's \<Rightarrow> 's \<times> bool"
  assumes keeps: "inv s \<Longrightarrow> 0 < t \<Longrightarrow> (\<And>w. start s = Some w \<Longrightarrow> w \<le> t) \<Longrightarrow> step t s = (s', ok) \<Longrightarrow> inv s'"
    and bounded: "inv s \<Longrightarrow> start s \<noteq> None \<Longrightarrow> used s \<le> limit"
    and opens: "inv s \<Longrightarrow> 0 < t \<Longrightarrow> step t s = (s', True) \<Longrightarrow> (\<And>w. start s = Some w \<Longrightarrow> window \<le> t - w) \<Longrightarrow>
      start s' = Some t \<and> used s' = 1"
    and counts: "inv s \<Longrightarrow> 0 < t \<Longrightarrow> step t s = (s', True) \<Longrightarrow> start s = Some w \<Longrightarrow> t - w < window \<Longrightarrow>
      start s' = Some w \<and> used s' = used s + 1"
    and refuses: "inv s \<Longrightarrow> 0 < t \<Longrightarrow> step t s = (s', False) \<Longrightarrow> start s' = start s \<and> used s' = used s"
begin

fun grants :: "int list \<Rightarrow> 's \<Rightarrow> nat" where
  "grants [] s = 0"
| "grants (t # ts) s = (case step t s of (s', ok) \<Rightarrow> (if ok then 1 else 0) + grants ts s')"

text \<open>Within the running window no more is granted than is left of it.\<close>

lemma grants_running:
  assumes "inv s" "start s = Some w" "\<forall>t \<in> set ts. 0 < t \<and> w \<le> t \<and> t - w < window"
  shows "grants ts s + used s \<le> limit"
  using assms
proof (induction ts arbitrary: s)
  case Nil
  then show ?case using bounded by simp
next
  case (Cons t ts)
  obtain s' ok where st: "step t s = (s', ok)" by fastforce
  have t: "0 < t" "t - w < window" "w \<le> t" using Cons.prems(3) by auto
  have inv: "inv s'" using keeps [OF Cons.prems(1) t(1) _ st] t(3) Cons.prems(2) by simp
  show ?case
  proof (cases ok)
    case True
    then have "step t s = (s', True)" using st by simp
    from counts [OF Cons.prems(1) t(1) this Cons.prems(2) t(2)] have "start s' = Some w" "used s' = used s + 1" by simp_all
    then show ?thesis using Cons.IH [OF inv] Cons.prems(3) st True by simp
  next
    case False
    then have "step t s = (s', False)" using st by simp
    from refuses [OF Cons.prems(1) t(1) this] have "start s' = Some w" "used s' = used s" using Cons.prems(2) by simp_all
    then show ?thesis using Cons.IH [OF inv] Cons.prems(3) st False by simp
  qed
qed

text \<open>A span of the length of a window meets at most two of them.\<close>

lemma grants_bound:
  assumes "inv s" "sorted ts" "\<forall>t \<in> set ts. 0 < t \<and> a \<le> t \<and> t < a + window" "\<And>w. start s = Some w \<Longrightarrow> w \<le> a"
  shows "grants ts s \<le> 2 * limit"
proof -
  have "grants ts s + (if start s = None then limit else used s) \<le> 2 * limit"
    using assms
  proof (induction ts arbitrary: s)
    case Nil
    then show ?case using bounded [OF Nil(1)] by (cases "start s") auto
  next
    case (Cons t ts)
    obtain s' ok where st: "step t s = (s', ok)" by fastforce
    have t: "0 < t" "a \<le> t" "t < a + window" using Cons.prems(3) by auto
    have inv: "inv s'" using keeps [OF Cons.prems(1) t(1) _ st] Cons.prems(4) t(2) by force
    have rest: "\<forall>u \<in> set ts. 0 < u \<and> a \<le> u \<and> u < a + window" "sorted ts" "\<forall>u \<in> set ts. t \<le> u" using Cons.prems(2,3) by auto
    show ?case
    proof (cases ok)
      case False
      then have "step t s = (s', False)" using st by simp
      from refuses [OF Cons.prems(1) t(1) this] have "start s' = start s" "used s' = used s" by simp_all
      then show ?thesis using Cons.IH [OF inv rest(2,1)] Cons.prems(4) st False by (auto split: if_splits)
    next
      case True
      show ?thesis
      proof (cases "\<exists>w. start s = Some w \<and> t - w < window")
        case True
        then obtain w where w: "start s = Some w" "t - w < window" by blast
        have "step t s = (s', True)" using st \<open>ok\<close> by simp
        from counts [OF Cons.prems(1) t(1) this w] have "start s' = Some w" "used s' = used s + 1" by simp_all
        then show ?thesis using Cons.IH [OF inv rest(2,1)] Cons.prems(4) st \<open>ok\<close> w by (auto split: if_splits)
      next
        case False
        then have "window \<le> t - w" if "start s = Some w" for w using that by force
        moreover have "step t s = (s', True)" using st \<open>ok\<close> by simp
        ultimately have n: "start s' = Some t" "used s' = 1" using opens [OF Cons.prems(1) t(1)] by blast+
        have "\<forall>u \<in> set ts. 0 < u \<and> t \<le> u \<and> u - t < window" using rest(1,3) t by auto
        from grants_running [OF inv n(1) this] n(2) have g: "grants ts s' + 1 \<le> limit" by simp
        have "(if start s = None then limit else used s) \<le> limit" using bounded [OF Cons.prems(1)] by simp
        then show ?thesis using g st \<open>ok\<close> by simp
      qed
    qed
  qed
  then show ?thesis by linarith
qed

end

subsection \<open>Pairing requests\<close>

record rate_state =
  rt_count :: int
  rt_windowStart :: int

record rate_limiter =
  rl_states :: "jsstr \<Rightarrow> rate_state option"
  rl_limit :: int
  rl_window :: int

definition NewRateLimiter :: "int \<Rightarrow> int \<Rightarrow> rate_limiter" where
  "NewRateLimiter limit window = \<lparr>rl_states = Map.empty, rl_limit = limit, rl_window = window\<rparr>"

definition second :: int where
  "second = 10 ^ 9"

definition enrollmentLimiter :: rate_limiter where
  "enrollmentLimiter = NewRateLimiter 12 (60 * second)"

text \<open>The answer is whether the request may pass and how long to wait if not.\<close>

definition RateAllow :: "jsstr \<Rightarrow> int \<Rightarrow> rate_limiter \<Rightarrow> rate_limiter \<times> bool \<times> int" where
  "RateAllow key now l =
     (case rl_states l key of
        None \<Rightarrow> (l\<lparr>rl_states := (rl_states l)(key \<mapsto> \<lparr>rt_count = 1, rt_windowStart = now\<rparr>)\<rparr>, True, 0)
      | Some state \<Rightarrow>
          if now - rt_windowStart state \<ge> rl_window l then
            (l\<lparr>rl_states := (rl_states l)(key \<mapsto> \<lparr>rt_count = 1, rt_windowStart = now\<rparr>)\<rparr>, True, 0)
          else if rt_count state \<ge> rl_limit l then (l, False, max (rl_window l - (now - rt_windowStart state)) second)
          else (l\<lparr>rl_states := (rl_states l)(key \<mapsto> state\<lparr>rt_count := rt_count state + 1\<rparr>)\<rparr>, True, 0))"

text \<open>The requests of one client, as a window counter.\<close>

definition rate_step :: "jsstr \<Rightarrow> int \<Rightarrow> rate_limiter \<Rightarrow> rate_limiter \<times> bool" where
  "rate_step key now l = (case RateAllow key now l of (l', ok, _) \<Rightarrow> (l', ok))"

definition rate_inv :: "int \<Rightarrow> int \<Rightarrow> jsstr \<Rightarrow> rate_limiter \<Rightarrow> bool" where
  "rate_inv limit window key l \<longleftrightarrow> rl_limit l = limit \<and> rl_window l = window
     \<and> (\<forall>state. rl_states l key = Some state \<longrightarrow> 1 \<le> rt_count state \<and> rt_count state \<le> limit)"

lemma rate_window:
  assumes "1 \<le> limit" "0 < window"
  shows "fixed_window (nat limit) window (\<lambda>l. map_option rt_windowStart (rl_states l key))
    (\<lambda>l. case rl_states l key of None \<Rightarrow> 0 | Some state \<Rightarrow> nat (rt_count state)) (rate_inv limit window key) (rate_step key)"
  by unfold_locales
    (use assms in \<open>auto simp: rate_step_def RateAllow_def rate_inv_def nat_add_distrib split: option.splits if_splits\<close>)

interpretation pairing: fixed_window 12 "60 * second" "\<lambda>l. map_option rt_windowStart (rl_states l key)"
    "\<lambda>l. case rl_states l key of None \<Rightarrow> 0 | Some state \<Rightarrow> nat (rt_count state)" "rate_inv 12 (60 * second) key" "rate_step key" for key
  using rate_window [of 12 "60 * second" key] by (simp add: second_def)

text \<open>The requests of all clients in the order they come; the answers to one of them depend on its own requests only.\<close>

fun allowed_to :: "jsstr \<Rightarrow> (jsstr \<times> int) list \<Rightarrow> rate_limiter \<Rightarrow> nat" where
  "allowed_to key [] l = 0"
| "allowed_to key ((k, t) # requests) l =
     (case RateAllow k t l of (l', ok, _) \<Rightarrow> (if k = key \<and> ok then 1 else 0) + allowed_to key requests l')"

lemma RateAllow_frame:
  "RateAllow k t l = (l', ok, wait) \<Longrightarrow> rl_limit l' = rl_limit l \<and> rl_window l' = rl_window l \<and> (k \<noteq> key \<longrightarrow> rl_states l' key = rl_states l key)"
  by (auto simp: RateAllow_def split: option.splits if_splits)

lemma RateAllow_local:
  assumes "rl_states l key = rl_states m key" "rl_limit l = rl_limit m" "rl_window l = rl_window m"
    "RateAllow key t l = (l', ok, wait)" "RateAllow key t m = (m', ok', wait')"
  shows "ok = ok' \<and> rl_states l' key = rl_states m' key"
  using assms by (auto simp: RateAllow_def split: option.splits if_splits)

lemma allowed_to_grants:
  assumes "rl_states l key = rl_states m key" "rl_limit l = rl_limit m" "rl_window l = rl_window m"
  shows "allowed_to key requests l = pairing.grants key (map snd (filter (\<lambda>(k, t). k = key) requests)) m"
  using assms
proof (induction requests arbitrary: l m)
  case (Cons r requests)
  obtain k t where r: "r = (k, t)" by fastforce
  obtain l' ok wait where l: "RateAllow k t l = (l', ok, wait)" by (metis prod_cases3)
  show ?case
  proof (cases "k = key")
    case True
    obtain m' ok' wait' where m: "RateAllow k t m = (m', ok', wait')" by (metis prod_cases3)
    have step: "rate_step key t m = (m', ok')" using m True by (simp add: rate_step_def)
    have "ok = ok'" "rl_states l' key = rl_states m' key" using RateAllow_local [OF Cons.prems] l m True by auto
    moreover have "rl_limit l' = rl_limit m'" "rl_window l' = rl_window m'"
      using RateAllow_frame [OF l] RateAllow_frame [OF m] Cons.prems by auto
    ultimately show ?thesis using Cons.IH [of l' m'] l m r True step by simp
  next
    case False
    then show ?thesis using Cons.IH [of l' m] RateAllow_frame [OF l, of key] Cons.prems l r by simp
  qed
qed simp

fun rate_run :: "(jsstr \<times> int) list \<Rightarrow> rate_limiter \<Rightarrow> rate_limiter" where
  "rate_run [] l = l"
| "rate_run ((k, t) # requests) l = rate_run requests (fst (RateAllow k t l))"

definition started_by :: "int \<Rightarrow> jsstr \<Rightarrow> rate_limiter \<Rightarrow> bool" where
  "started_by a key l \<longleftrightarrow> (\<forall>state. rl_states l key = Some state \<longrightarrow> rt_windowStart state \<le> a)"

lemma RateAllow_inv:
  assumes "rate_inv limit window key l" "started_by a key l" "t \<le> a" "1 \<le> limit" "RateAllow k t l = (l', ok, wait)"
  shows "rate_inv limit window key l' \<and> started_by a key l'"
proof (cases "k = key")
  case False
  then show ?thesis using RateAllow_frame [OF assms(5), of key] assms(1,2) by (simp add: rate_inv_def started_by_def)
next
  case True
  then show ?thesis using assms by (cases "rl_states l key") (auto simp: RateAllow_def rate_inv_def started_by_def split: if_splits)
qed

lemma rate_run_inv:
  assumes "rate_inv limit window key l" "started_by a key l" "\<forall>(k, t) \<in> set requests. t \<le> a" "1 \<le> limit"
  shows "rate_inv limit window key (rate_run requests l) \<and> started_by a key (rate_run requests l)"
  using assms
proof (induction requests arbitrary: l)
  case (Cons r requests)
  obtain k t where r: "r = (k, t)" by fastforce
  obtain l' ok wait where l: "RateAllow k t l = (l', ok, wait)" by (metis prod_cases3)
  have "t \<le> a" using Cons.prems(3) r by simp
  from RateAllow_inv [OF Cons.prems(1,2) this Cons.prems(4) l] show ?case using Cons.IH [of l'] Cons.prems(3,4) l r by simp
qed simp

text \<open>C31. The pairing limit: whatever came before and whatever other clients send, at most 24 pairing requests of a client are let through in any span of less than a minute (12 per window, and a span meets at most two windows), from the start of the server on.\<close>

theorem pairing_bounded:
  assumes "\<forall>(k, t) \<in> set before. t \<le> a" "sorted (map snd during)" "\<forall>(k, t) \<in> set during. 0 < t \<and> a \<le> t \<and> t < a + 60 * second"
  shows "allowed_to key during (rate_run before enrollmentLimiter) \<le> 24"
proof -
  let ?l = "rate_run before enrollmentLimiter" and ?own = "filter (\<lambda>(k, t). k = key) during"
  have "rate_inv 12 (60 * second) key enrollmentLimiter" "started_by a key enrollmentLimiter"
    by (simp_all add: started_by_def rate_inv_def enrollmentLimiter_def NewRateLimiter_def)
  note inv = rate_run_inv [OF this assms(1)]
  have "pairing.grants key (map snd ?own) ?l \<le> 2 * 12"
  proof (rule pairing.grants_bound [where a = a])
    show "sorted (map snd ?own)" by (rule sorted_filter) (rule assms(2))
    show "\<forall>t \<in> set (map snd ?own). 0 < t \<and> a \<le> t \<and> t < a + 60 * second" using assms(3) by fastforce
  qed (use inv in \<open>auto simp: started_by_def\<close>)
  then show ?thesis using allowed_to_grants [OF refl refl refl, of key during ?l] by simp
qed

corollary pairing_bounded_witness:
  "allowed_to (lit ''198.51.100.7'') [((lit ''198.51.100.7''), 70 * second), ((lit ''203.0.113.9''), 71 * second)]
     (rate_run [((lit ''198.51.100.7''), second)] enrollmentLimiter) \<le> 24"
  by (rule pairing_bounded [where a = "60 * second"]) (auto simp: second_def)

subsection \<open>Failed logins\<close>

record attempt_state =
  at_failures :: int
  at_windowStart :: int
  at_blockedUntil :: int

record login_limiter =
  ll_attempts :: "jsstr \<Rightarrow> attempt_state option"
  ll_maxFailures :: int
  ll_window :: int
  ll_block :: int

definition NewLoginLimiter :: login_limiter where
  "NewLoginLimiter = \<lparr>ll_attempts = Map.empty, ll_maxFailures = 8, ll_window = 300 * second, ll_block = 600 * second\<rparr>"

definition LoginAllow :: "jsstr \<Rightarrow> int \<Rightarrow> login_limiter \<Rightarrow> login_limiter \<times> bool \<times> int" where
  "LoginAllow key now l =
     (case ll_attempts l key of
        None \<Rightarrow> (l, True, 0)
      | Some state \<Rightarrow>
          if now < at_blockedUntil state then (l, False, at_blockedUntil state - now)
          else (if now - at_windowStart state \<ge> ll_window l then l\<lparr>ll_attempts := (ll_attempts l)(key := None)\<rparr> else l, True, 0))"

definition Failure :: "jsstr \<Rightarrow> int \<Rightarrow> login_limiter \<Rightarrow> login_limiter" where
  "Failure key now l =
     (let fresh = \<lparr>at_failures = 0, at_windowStart = now, at_blockedUntil = 0\<rparr>;
          state = (case ll_attempts l key of
              None \<Rightarrow> fresh
            | Some state \<Rightarrow> if now - at_windowStart state \<ge> ll_window l then fresh else state);
          state = state\<lparr>at_failures := at_failures state + 1\<rparr>;
          state = (if at_failures state \<ge> ll_maxFailures l then state\<lparr>at_blockedUntil := now + ll_block l\<rparr> else state)
      in l\<lparr>ll_attempts := (ll_attempts l)(key \<mapsto> state)\<rparr>)"

definition Success :: "jsstr \<Rightarrow> login_limiter \<Rightarrow> login_limiter" where
  "Success key l = l\<lparr>ll_attempts := (ll_attempts l)(key := None)\<rparr>"

text \<open>
  The handler reads the clock once to ask and, after the password has been checked, once more to record a failure.
  What the account store answers is a parameter: no account (\<open>ErrInvalidCredentials\<close>), another error, or a session.
\<close>

datatype login_answer = Invalid_Credentials | Login_Error | Logged_In

datatype login_reply = Too_Many int | Bad_Request | Unauthorized | Internal_Error | Session

definition login_handler :: "jsstr \<Rightarrow> int \<Rightarrow> int \<Rightarrow> bool \<Rightarrow> login_answer \<Rightarrow> login_limiter \<Rightarrow> login_limiter \<times> login_reply" where
  "login_handler clientKey now later decodes answer l =
     (case LoginAllow clientKey now l of (l, allowed, retry) \<Rightarrow>
        if \<not> allowed then (l, Too_Many (max (retry div second) 1))
        else if \<not> decodes then (l, Bad_Request)
        else case answer of
          Invalid_Credentials \<Rightarrow> (Failure clientKey later l, Unauthorized)
        | Login_Error \<Rightarrow> (l, Internal_Error)
        | Logged_In \<Rightarrow> (Success clientKey l, Session))"

text \<open>
  Requests are served at the same time, so what the limiter sees is an interleaving of the steps of many handlers:
  each step is under the mutex.
\<close>

datatype login_event = Ask jsstr int | Failed jsstr int | Succeeded jsstr int

fun event_time :: "login_event \<Rightarrow> int" where
  "event_time (Ask k t) = t"
| "event_time (Failed k t) = t"
| "event_time (Succeeded k t) = t"

fun login_event_step :: "login_event \<Rightarrow> login_limiter \<Rightarrow> login_limiter" where
  "login_event_step (Ask k t) l = fst (LoginAllow k t l)"
| "login_event_step (Failed k t) l = Failure k t l"
| "login_event_step (Succeeded k t) l = Success k l"

definition login_run :: "login_event list \<Rightarrow> login_limiter" where
  "login_run events = fold login_event_step events NewLoginLimiter"

text \<open>The handler is such steps.\<close>

lemma login_handler_events:
  "login_handler k now later decodes answer l = (l', reply) \<Longrightarrow>
     l' = fold login_event_step (Ask k now # (case reply of Unauthorized \<Rightarrow> [Failed k later] | Session \<Rightarrow> [Succeeded k later] | _ \<Rightarrow> [])) l"
  by (auto simp: login_handler_def split: prod.splits if_splits login_answer.splits)

text \<open>The failures of a client since its last success, oldest first.\<close>

definition failures_since :: "jsstr \<Rightarrow> login_event list \<Rightarrow> int list" where
  "failures_since key events = fold (\<lambda>e fs. case e of
       Ask k t \<Rightarrow> fs
     | Failed k t \<Rightarrow> if k = key then fs @ [t] else fs
     | Succeeded k t \<Rightarrow> if k = key then [] else fs) events []"

text \<open>The limiter's entry for a client: its latest failures, those of one window, and the block after the eighth.\<close>

definition entry_explained :: "int list \<Rightarrow> attempt_state \<Rightarrow> bool" where
  "entry_explained fs state \<longleftrightarrow> (\<exists>pre cur. fs = pre @ at_windowStart state # cur
     \<and> at_failures state = int (length cur) + 1
     \<and> (\<forall>t \<in> set cur. at_windowStart state \<le> t \<and> t - at_windowStart state < 300 * second)
     \<and> at_blockedUntil state = (if 8 \<le> at_failures state then last fs + 600 * second else 0))"

lemma failures_since_snoc:
  "failures_since key (events @ [e]) = (case e of
       Ask k t \<Rightarrow> failures_since key events
     | Failed k t \<Rightarrow> if k = key then failures_since key events @ [t] else failures_since key events
     | Succeeded k t \<Rightarrow> if k = key then [] else failures_since key events)"
  by (simp add: failures_since_def split: login_event.split)

lemma failures_since_times: "set (failures_since key events) \<subseteq> event_time ` set events"
  by (induction events rule: rev_induct) (auto simp: failures_since_snoc failures_since_def split: login_event.splits if_splits)

lemma failures_since_sorted: "sorted (map event_time events) \<Longrightarrow> sorted (failures_since key events)"
proof (induction events rule: rev_induct)
  case (snoc e events)
  have "\<forall>t \<in> set (failures_since key events). t \<le> event_time e"
    using snoc.prems failures_since_times [of key events] by (force simp: sorted_append)
  then show ?case using snoc by (auto simp: failures_since_snoc sorted_append split: login_event.splits)
qed (simp add: failures_since_def)

definition login_inv :: "jsstr \<Rightarrow> login_event list \<Rightarrow> login_limiter \<Rightarrow> bool" where
  "login_inv key events l \<longleftrightarrow> ll_maxFailures l = 8 \<and> ll_window l = 300 * second \<and> ll_block l = 600 * second
     \<and> (\<forall>state. ll_attempts l key = Some state \<longrightarrow> entry_explained (failures_since key events) state)"

lemma entry_fresh: "entry_explained (fs @ [t]) \<lparr>at_failures = 1, at_windowStart = t, at_blockedUntil = 0\<rparr>"
  by (auto simp: entry_explained_def)

lemma entry_more:
  assumes "entry_explained fs state" "t - at_windowStart state < 300 * second" "\<forall>u \<in> set fs. u \<le> t"
  shows "entry_explained (fs @ [t]) (let state = state\<lparr>at_failures := at_failures state + 1\<rparr>
    in if at_failures state \<ge> 8 then state\<lparr>at_blockedUntil := t + 600 * second\<rparr> else state)"
proof -
  obtain pre cur where c: "fs = pre @ at_windowStart state # cur" "at_failures state = int (length cur) + 1"
    "\<forall>t \<in> set cur. at_windowStart state \<le> t \<and> t - at_windowStart state < 300 * second"
    "at_blockedUntil state = (if 8 \<le> at_failures state then last fs + 600 * second else 0)"
    using assms(1) by (auto simp: entry_explained_def)
  have "at_windowStart state \<le> t" using assms(3) c(1) by simp
  then show ?thesis unfolding entry_explained_def Let_def
    using c assms(2) by (intro exI [of _ pre] exI [of _ "cur @ [t]"]) auto
qed

lemma login_inv_step:
  assumes "login_inv key events l" "\<forall>e' \<in> set events. event_time e' \<le> event_time e"
  shows "login_inv key (events @ [e]) (login_event_step e l)"
proof (cases e)
  case (Ask k t)
  then show ?thesis using assms(1)
    by (auto simp: login_inv_def LoginAllow_def failures_since_snoc split: option.splits if_splits)
next
  case (Succeeded k t)
  then show ?thesis using assms(1) by (auto simp: login_inv_def Success_def failures_since_snoc)
next
  case (Failed k t)
  have before: "\<forall>u \<in> set (failures_since key events). u \<le> t"
    using assms(2) failures_since_times [of key events] Failed by force
  show ?thesis
  proof (cases "k = key")
    case False
    then show ?thesis using assms(1) Failed by (auto simp: login_inv_def Failure_def Let_def failures_since_snoc)
  next
    case True
    have cfg: "ll_maxFailures l = 8" "ll_window l = 300 * second" "ll_block l = 600 * second"
      using assms(1) by (simp_all add: login_inv_def)
    show ?thesis
    proof (cases "\<exists>state. ll_attempts l key = Some state \<and> t - at_windowStart state < 300 * second")
      case True
      then obtain state where st: "ll_attempts l key = Some state" "t - at_windowStart state < 300 * second" by blast
      have "entry_explained (failures_since key events) state" using assms(1) st(1) by (simp add: login_inv_def)
      from entry_more [OF this st(2) before] show ?thesis
        using Failed \<open>k = key\<close> st cfg by (auto simp: login_inv_def Failure_def Let_def failures_since_snoc)
    next
      case False
      then have "ll_attempts (Failure key t l) key = Some \<lparr>at_failures = 1, at_windowStart = t, at_blockedUntil = 0\<rparr>"
        using cfg by (auto simp: Failure_def Let_def split: option.splits)
      then show ?thesis using Failed \<open>k = key\<close> cfg entry_fresh
        by (simp add: login_inv_def failures_since_snoc) (simp add: Failure_def Let_def)
    qed
  qed
qed

lemma login_run_inv: "sorted (map event_time events) \<Longrightarrow> login_inv key events (login_run events)"
proof (induction events rule: rev_induct)
  case Nil
  then show ?case by (simp add: login_run_def login_inv_def NewLoginLimiter_def)
next
  case (snoc e events)
  then have "login_inv key (events @ [e]) (login_event_step e (login_run events))"
    by (intro login_inv_step) (auto simp: sorted_append)
  then show ?case by (simp add: login_run_def)
qed

lemma entry_block:
  assumes "entry_explained fs state" "sorted fs" "0 \<le> now" "now < at_blockedUntil state"
  shows "fs \<noteq> [] \<and> at_blockedUntil state = last fs + 600 * second
    \<and> 8 \<le> length (filter (\<lambda>t. last fs - 300 * second < t \<and> t \<le> last fs) fs)"
proof -
  obtain pre cur where c: "fs = pre @ at_windowStart state # cur" "at_failures state = int (length cur) + 1"
    "\<forall>t \<in> set cur. at_windowStart state \<le> t \<and> t - at_windowStart state < 300 * second"
    "at_blockedUntil state = (if 8 \<le> at_failures state then last fs + 600 * second else 0)"
    using assms(1) by (auto simp: entry_explained_def)
  have b: "at_blockedUntil state = last fs + 600 * second" "8 \<le> at_failures state" using c(4) assms(3,4) by (auto split: if_splits)
  let ?w = "at_windowStart state # cur" and ?P = "\<lambda>t. last fs - 300 * second < t \<and> t \<le> last fs"
  have l: "last fs = last ?w" using c(1) by simp
  have "last ?w \<in> set ?w" by (rule last_in_set) simp
  then have near: "last fs - at_windowStart state < 300 * second" using l c(3) by (auto simp: second_def)
  have "sorted ?w" using assms(2) c(1) by (simp add: sorted_append)
  moreover have "?w = butlast ?w @ [last ?w]" by (rule append_butlast_last_id [symmetric]) simp
  ultimately have "t \<le> last fs" if "t \<in> set ?w" for t
    using that l by (metis Un_iff append_Nil list.set_intros(1) order_refl set_append set_ConsD sorted_append empty_iff empty_set)
  then have "\<forall>t \<in> set ?w. ?P t" using near c(3) by (auto simp: second_def)
  then have "filter ?P ?w = ?w" by (rule filter_True)
  then have "length ?w \<le> length (filter ?P fs)" using c(1) by (metis filter_append le_add2 length_append)
  then show ?thesis using b c by simp
qed

text \<open>C29. The lock on logins: however the steps of concurrent logins interleave, a client is answered 429 only when at least 8 of its logins failed, with no success between, within the five minutes up to its latest failure, and less than ten minutes after that failure; Retry-After names the rest of the ten minutes, at least a second. What other clients do never locks it.\<close>

theorem login_lockout:
  assumes "sorted (map event_time events @ [now])" "0 \<le> now"
    and "login_handler key now later decodes answer (login_run events) = (l', Too_Many seconds)"
  shows "failures_since key events \<noteq> []
    \<and> now < last (failures_since key events) + 600 * second
    \<and> seconds = max ((last (failures_since key events) + 600 * second - now) div second) 1
    \<and> 8 \<le> length (filter (\<lambda>t. last (failures_since key events) - 300 * second < t \<and> t \<le> last (failures_since key events))
          (failures_since key events))"
proof -
  have ord: "sorted (map event_time events)" using assms(1) by (simp add: sorted_append)
  from assms(3) obtain state where st: "ll_attempts (login_run events) key = Some state" "now < at_blockedUntil state"
    "seconds = max ((at_blockedUntil state - now) div second) 1"
    by (auto simp: login_handler_def LoginAllow_def split: option.splits if_splits login_answer.splits)
  have "entry_explained (failures_since key events) state" using login_run_inv [OF ord, of key] st(1) by (simp add: login_inv_def)
  from entry_block [OF this failures_since_sorted [OF ord] assms(2) st(2)] show ?thesis using st by simp
qed

corollary login_lockout_witness:
  "let events = map (\<lambda>i. Failed (lit ''198.51.100.7'') (int i * second)) [1..<9];
       fs = failures_since (lit ''198.51.100.7'') events
   in (\<exists>seconds. snd (login_handler (lit ''198.51.100.7'') (9 * second) (9 * second) True Logged_In (login_run events)) = Too_Many seconds)
     \<and> fs \<noteq> [] \<and> 9 * second < last fs + 600 * second"
proof -
  let ?events = "map (\<lambda>i. Failed (lit ''198.51.100.7'') (int i * second)) [1..<9]"
  let ?r = "login_handler (lit ''198.51.100.7'') (9 * second) (9 * second) True Logged_In (login_run ?events)"
  have r: "snd ?r = Too_Many 599" by code_simp
  then have h: "?r = (fst ?r, Too_Many 599)" by (simp add: prod_eq_iff)
  have "sorted (map event_time ?events @ [9 * second])" "0 \<le> 9 * second" by code_simp+
  from login_lockout [OF this h] show ?thesis using r by (simp add: Let_def)
qed

subsection \<open>How many wrong guesses\<close>

text \<open>A client that guesses one password after another, each check taking the time \<open>d\<close>, is a window counter as well.\<close>

definition guess_step :: "nat \<Rightarrow> jsstr \<Rightarrow> int \<Rightarrow> login_limiter \<Rightarrow> login_limiter \<times> bool" where
  "guess_step d key t l = (case login_handler key t (t + int d) True Invalid_Credentials l of (l', reply) \<Rightarrow> (l', reply = Unauthorized))"

definition guess_inv :: "nat \<Rightarrow> jsstr \<Rightarrow> login_limiter \<Rightarrow> bool" where
  "guess_inv d key l \<longleftrightarrow> ll_maxFailures l = 8 \<and> ll_window l = 300 * second \<and> ll_block l = 600 * second
     \<and> (\<forall>state. ll_attempts l key = Some state \<longrightarrow> 1 \<le> at_failures state \<and> at_failures state \<le> 8
        \<and> (at_failures state = 8 \<longrightarrow> at_windowStart state + 600 * second \<le> at_blockedUntil state))"

lemma guess_step_cases:
  assumes "guess_step d key t l = (l', ok)" "ll_maxFailures l = 8" "ll_window l = 300 * second" "ll_block l = 600 * second"
  shows "case ll_attempts l key of
      None \<Rightarrow> ok \<and> ll_attempts l' key = Some \<lparr>at_failures = 1, at_windowStart = t + int d, at_blockedUntil = 0\<rparr>
    | Some state \<Rightarrow>
        if t < at_blockedUntil state then \<not> ok \<and> l' = l
        else ok \<and> (if 300 * second \<le> t + int d - at_windowStart state
          then ll_attempts l' key = Some \<lparr>at_failures = 1, at_windowStart = t + int d, at_blockedUntil = 0\<rparr>
          else ll_attempts l' key = Some (state\<lparr>at_failures := at_failures state + 1,
            at_blockedUntil := if 8 \<le> at_failures state + 1 then t + int d + 600 * second else at_blockedUntil state\<rparr>))"
    "ll_maxFailures l' = 8 \<and> ll_window l' = 300 * second \<and> ll_block l' = 600 * second"
  using assms
  by (auto simp: guess_step_def login_handler_def LoginAllow_def Failure_def Let_def split: option.splits if_splits)

lemma guess_window:
  "fixed_window 8 (300 * second) (\<lambda>l. map_option (\<lambda>state. at_windowStart state - int d) (ll_attempts l key))
    (\<lambda>l. case ll_attempts l key of None \<Rightarrow> 0 | Some state \<Rightarrow> nat (at_failures state)) (guess_inv d key) (guess_step d key)"
proof
  fix s t s' ok
  assume s: "guess_inv d key s" "0 < t" "\<And>w. map_option (\<lambda>state. at_windowStart state - int d) (ll_attempts s key) = Some w \<Longrightarrow> w \<le> t"
    and st: "guess_step d key t s = (s', ok)"
  have cfg: "ll_maxFailures s = 8" "ll_window s = 300 * second" "ll_block s = 600 * second" using s(1) by (simp_all add: guess_inv_def)
  note c = guess_step_cases [OF st cfg]
  show "guess_inv d key s'"
  proof (cases "ll_attempts s key")
    case None
    then show ?thesis using c by (simp add: guess_inv_def)
  next
    case (Some state)
    have "at_windowStart state \<le> t + int d" using s(3) Some by simp
    moreover have "at_failures state = 8 \<Longrightarrow> at_windowStart state + 600 * second \<le> at_blockedUntil state"
      "1 \<le> at_failures state" "at_failures state \<le> 8" using s(1) Some by (simp_all add: guess_inv_def)
    ultimately consider "at_failures state \<le> 7" "1 \<le> at_failures state" "at_windowStart state \<le> t + int d"
      | "300 * second \<le> t + int d - at_windowStart state" | "t < at_blockedUntil state"
      by (force simp: second_def)
    then show ?thesis using c Some s(1) by cases (auto simp: guess_inv_def second_def split: if_splits)
  qed
next
  fix s
  assume "guess_inv d key s"
  then show "(case ll_attempts s key of None \<Rightarrow> 0 | Some state \<Rightarrow> nat (at_failures state)) \<le> 8"
    by (auto simp: guess_inv_def split: option.split)
next
  fix s t s'
  assume s: "guess_inv d key s" "guess_step d key t s = (s', True)"
    and w: "\<And>w. map_option (\<lambda>state. at_windowStart state - int d) (ll_attempts s key) = Some w \<Longrightarrow> 300 * second \<le> t - w"
  have cfg: "ll_maxFailures s = 8" "ll_window s = 300 * second" "ll_block s = 600 * second" using s(1) by (simp_all add: guess_inv_def)
  show "map_option (\<lambda>state. at_windowStart state - int d) (ll_attempts s' key) = Some t
      \<and> (case ll_attempts s' key of None \<Rightarrow> 0 | Some state \<Rightarrow> nat (at_failures state)) = 1"
    using guess_step_cases(1) [OF s(2) cfg] w by (auto split: option.splits if_splits)
next
  fix s t s' w
  assume s: "guess_inv d key s" "guess_step d key t s = (s', True)"
    and w: "map_option (\<lambda>state. at_windowStart state - int d) (ll_attempts s key) = Some w" "t - w < 300 * second"
  have cfg: "ll_maxFailures s = 8" "ll_window s = 300 * second" "ll_block s = 600 * second" using s(1) by (simp_all add: guess_inv_def)
  obtain state where st: "ll_attempts s key = Some state" "w = at_windowStart state - int d" using w(1) by auto
  have "1 \<le> at_failures state" using s(1) st(1) by (simp add: guess_inv_def)
  then show "map_option (\<lambda>state. at_windowStart state - int d) (ll_attempts s' key) = Some w
      \<and> (case ll_attempts s' key of None \<Rightarrow> 0 | Some state \<Rightarrow> nat (at_failures state))
        = (case ll_attempts s key of None \<Rightarrow> 0 | Some state \<Rightarrow> nat (at_failures state)) + 1"
    using guess_step_cases(1) [OF s(2) cfg] w(2) st by (auto simp: nat_add_distrib split: if_splits)
next
  fix s t s'
  assume s: "guess_inv d key s" "guess_step d key t s = (s', False)"
  have cfg: "ll_maxFailures s = 8" "ll_window s = 300 * second" "ll_block s = 600 * second" using s(1) by (simp_all add: guess_inv_def)
  have "s' = s" using guess_step_cases(1) [OF s(2) cfg] by (auto split: option.splits if_splits)
  then show "map_option (\<lambda>state. at_windowStart state - int d) (ll_attempts s' key) = map_option (\<lambda>state. at_windowStart state - int d) (ll_attempts s key)
      \<and> (case ll_attempts s' key of None \<Rightarrow> 0 | Some state \<Rightarrow> nat (at_failures state))
        = (case ll_attempts s key of None \<Rightarrow> 0 | Some state \<Rightarrow> nat (at_failures state))"
    by simp
qed

interpretation guesses: fixed_window 8 "300 * second" "\<lambda>l. map_option (\<lambda>state. at_windowStart state - int d) (ll_attempts l key)"
    "\<lambda>l. case ll_attempts l key of None \<Rightarrow> 0 | Some state \<Rightarrow> nat (at_failures state)" "guess_inv d key" "guess_step d key" for d key
  by (rule guess_window)

text \<open>At most 16 passwords of a client that guesses one after another are checked in five minutes.\<close>

theorem guesses_bounded:
  "sorted ts \<Longrightarrow> \<forall>t \<in> set ts. 0 < t \<and> a \<le> t \<and> t < a + 300 * second \<Longrightarrow> guesses.grants d key ts NewLoginLimiter \<le> 16"
  using guesses.grants_bound [of d key NewLoginLimiter ts a] by (simp add: guess_inv_def NewLoginLimiter_def)

text \<open>
  Two ways around the count: a client address that also logs in to an account of its own starts from zero after each
  success, whichever account the guesses were for; and logins sent together are all let through before the first
  failure is recorded.
\<close>

lemma success_resets: "ll_attempts (Success key l) key = None \<and> fst (snd (LoginAllow key now (Success key l)))"
  by (simp add: Success_def LoginAllow_def)

lemma guesses_sent_together:
  "fold login_event_step (replicate n (Ask key t)) NewLoginLimiter = NewLoginLimiter \<and> fst (snd (LoginAllow key t NewLoginLimiter))"
  by (induction n) (simp_all add: LoginAllow_def NewLoginLimiter_def)

end
