(* ===== verification/Source_Sync.thy ===== *)
theory Source_Sync
  imports Targets Server_Contract
begin

text \<open>
  The synchronisation of prefix sources and of the geography of data centres (\<open>internal/cloudflare/sync.go\<close>). What
  the network answers, how JSON decodes and what the store does with the result are parameters; everything between
  is the code's. A body is the list of its bytes.
\<close>

subsection \<open>Published prefixes\<close>

text \<open>A response: transport failed, or a status with the bytes of the body and whether reading them broke off.\<close>

record http_body =
  hb_status :: int
  hb_bytes :: jsstr
  hb_broken :: bool

datatype sync_error =
    Transport jsstr | Bad_Status int | Bad_Prefix jsstr | Wrong_Version jsstr | Read_Failed | No_Prefixes int
  | Bad_ASN int | Undecoded | Source_Status jsstr | No_Locations

record synced_prefix = go_prefix +
  mp_Source :: jsstr

text \<open>\<open>io.LimitReader\<close>, and \<open>bufio.Scanner\<close>: the lines without their ends, up to the first that does not fit its buffer of 64 KiB.\<close>

definition LimitReader :: "jsstr \<Rightarrow> int \<Rightarrow> jsstr" where
  "LimitReader s n = (if int (length s) \<le> n then s else take (nat n) s)"

definition drop_cr :: "jsstr \<Rightarrow> jsstr" where
  "drop_cr s = (if s \<noteq> [] \<and> last s = 13 then butlast s else s)"

definition scan_lines :: "jsstr \<Rightarrow> jsstr list \<times> bool" where
  "scan_lines s =
     (let parts = split_on 10 s;
          parts = (if last parts = [] then butlast parts else parts)
      in (map drop_cr (takeWhile (\<lambda>line. int (length line) < 65536) parts), list_ex (\<lambda>line. 65536 \<le> int (length line)) parts))"

definition parsePrefix :: "netip \<Rightarrow> jsstr \<Rightarrow> synced_prefix option" where
  "parsePrefix N value =
     (case ParsePrefix N (TrimSpace value) of
        None \<Rightarrow> None
      | Some prefix \<Rightarrow> Some \<lparr>mp_CIDR = prefix_String N (Masked prefix), mp_IPVersion = (if is4 (pf_addr prefix) then 4 else 6),
          mp_Active = True, mp_Source = []\<rparr>)"

definition SourceOfficial :: jsstr where
  "SourceOfficial = lit ''cloudflare_official''"

fun official_items :: "netip \<Rightarrow> int \<Rightarrow> jsstr list \<Rightarrow> synced_prefix list \<Rightarrow> sync_error + synced_prefix list" where
  "official_items N version [] items = Inr items"
| "official_items N version (line # lines) items =
     (let value = TrimSpace line in
      if value = [] then official_items N version lines items
      else case parsePrefix N value of
        None \<Rightarrow> Inl (Bad_Prefix value)
      | Some prefix \<Rightarrow>
          if mp_IPVersion prefix \<noteq> version then Inl (Wrong_Version value)
          else official_items N version lines (items @ [prefix\<lparr>mp_Source := SourceOfficial\<rparr>]))"

definition fetchOfficial :: "netip \<Rightarrow> jsstr + http_body \<Rightarrow> int \<Rightarrow> sync_error + synced_prefix list" where
  "fetchOfficial N resp version =
     (case resp of
        Inl e \<Rightarrow> Inl (Transport e)
      | Inr body \<Rightarrow>
          if hb_status body \<noteq> 200 then Inl (Bad_Status (hb_status body))
          else case scan_lines (LimitReader (hb_bytes body) 1048576) of (lines, long) \<Rightarrow>
            (case official_items N version lines [] of
               Inl e \<Rightarrow> Inl e
             | Inr items \<Rightarrow>
                 if long \<or> hb_broken body then Inl Read_Failed
                 else if items = [] then Inl (No_Prefixes version)
                 else Inr items))"

text \<open>
  \<open>Inl\<close> is what \<open>RecordSourceError\<close> is called with, \<open>Inr\<close> what \<open>ReplaceCloudflarePrefixes\<close> is. The second list is
  only asked for when the first one is good.
\<close>

definition Sync :: "netip \<Rightarrow> jsstr + http_body \<Rightarrow> jsstr + http_body \<Rightarrow> sync_error + synced_prefix list" where
  "Sync N v4 v6 =
     (case fetchOfficial N v4 4 of
        Inl e \<Rightarrow> Inl e
      | Inr a \<Rightarrow> (case fetchOfficial N v6 6 of Inl e \<Rightarrow> Inl e | Inr b \<Rightarrow> Inr (a @ b)))"

subsection \<open>Announced prefixes\<close>

fun asn_items :: "netip \<Rightarrow> jsstr \<Rightarrow> jsstr list \<Rightarrow> jsstr list \<Rightarrow> synced_prefix list \<Rightarrow> sync_error + synced_prefix list" where
  "asn_items N source [] seen items = Inr items"
| "asn_items N source (raw # raws) seen items =
     (case parsePrefix N raw of
        None \<Rightarrow> Inl (Bad_Prefix raw)
      | Some prefix \<Rightarrow>
          if mp_CIDR prefix \<in> set seen then asn_items N source raws seen items
          else asn_items N source raws (mp_CIDR prefix # seen) (items @ [prefix\<lparr>mp_Source := source\<rparr>]))"

definition fetchASN :: "netip \<Rightarrow> (jsstr \<Rightarrow> (jsstr \<times> jsstr list) option) \<Rightarrow> jsstr + http_body \<Rightarrow> int \<Rightarrow> sync_error + synced_prefix list" where
  "fetchASN N decode resp asn =
     (if asn \<le> 0 \<or> asn > 4294967295 then Inl (Bad_ASN asn)
      else case resp of
        Inl e \<Rightarrow> Inl (Transport e)
      | Inr body \<Rightarrow>
          if hb_status body \<noteq> 200 then Inl (Bad_Status (hb_status body))
          else case decode (LimitReader (hb_bytes body) 33554432) of
            None \<Rightarrow> Inl Undecoded
          | Some (status, raws) \<Rightarrow>
              if status \<noteq> lit ''ok'' then Inl (Source_Status status)
              else asn_items N (lit ''asn:'' @ show_int asn) raws [] [])"

text \<open>The sources one after another; \<open>cancelled\<close> tells whether the context is done before a given one.\<close>

record asn_source =
  as_ASN :: int
  as_Status :: jsstr
  as_LastError :: jsstr

record asn_summary =
  ay_Items :: "asn_source list"
  ay_Synced :: int
  ay_Failed :: int

text \<open>\<open>SyncASN\<close> gives the source as the store returns it, or the text of the error it recorded.\<close>

fun sync_asns :: "(int \<Rightarrow> jsstr + asn_source) \<Rightarrow> (asn_source \<Rightarrow> bool) \<Rightarrow> asn_source list \<Rightarrow> asn_summary \<Rightarrow> asn_summary \<times> bool" where
  "sync_asns SyncASN cancelled [] summary = (summary, True)"
| "sync_asns SyncASN cancelled (source # sources) summary =
     (if cancelled source then (summary, False)
      else case SyncASN (as_ASN source) of
        Inl e \<Rightarrow> sync_asns SyncASN cancelled sources
          (summary\<lparr>ay_Items := ay_Items summary @ [source\<lparr>as_Status := lit ''error'', as_LastError := e\<rparr>], ay_Failed := ay_Failed summary + 1\<rparr>)
      | Inr item \<Rightarrow> sync_asns SyncASN cancelled sources
          (summary\<lparr>ay_Items := ay_Items summary @ [item], ay_Synced := ay_Synced summary + 1\<rparr>))"

definition SyncEnabledASNs :: "jsstr + asn_source list \<Rightarrow> (int \<Rightarrow> jsstr + asn_source) \<Rightarrow> (asn_source \<Rightarrow> bool) \<Rightarrow> jsstr + asn_summary \<times> bool" where
  "SyncEnabledASNs listed SyncASN cancelled =
     (case listed of
        Inl e \<Rightarrow> Inl e
      | Inr sources \<Rightarrow> Inr (sync_asns SyncASN cancelled sources \<lparr>ay_Items = [], ay_Synced = 0, ay_Failed = 0\<rparr>))"

subsection \<open>What a synchronisation stores can be scanned\<close>

text \<open>A stored prefix is one with its host bits cleared, under its canonical text.\<close>

definition stored_as :: "netip \<Rightarrow> jsstr \<Rightarrow> synced_prefix \<Rightarrow> prefix \<Rightarrow> bool" where
  "stored_as N source item p \<longleftrightarrow> named N p \<and> mp_CIDR item = prefix_String N p \<and> mp_Active item
     \<and> mp_IPVersion item = (if is4 (pf_addr p) then 4 else 6) \<and> mp_Source item = source"

lemma is4_Masked [simp]: "is4 (pf_addr (Masked p)) = is4 (pf_addr p)"
  by (cases "pf_addr p") (simp_all add: Masked_def)

lemma parsePrefix_stored:
  assumes "netip_texts N" "parsePrefix N value = Some item"
  shows "\<exists>p. stored_as N source (item\<lparr>mp_Source := source\<rparr>) p"
proof -
  from assms(2) obtain q where q: "ParsePrefix N (TrimSpace value) = Some q" "mp_CIDR item = prefix_String N (Masked q)"
    "mp_IPVersion item = (if is4 (pf_addr q) then 4 else 6)" "mp_Active item"
    by (auto simp: parsePrefix_def split: option.splits)
  have "stored_as N source (item\<lparr>mp_Source := source\<rparr>) (Masked q)"
    using q named_Masked [OF assms(1) q(1)] by (simp add: stored_as_def)
  then show ?thesis ..
qed

lemma official_items_stored:
  assumes "netip_texts N" "official_items N version lines items = Inr items'"
    and "\<forall>item \<in> set items. mp_IPVersion item = version \<and> (\<exists>p. stored_as N SourceOfficial item p)"
  shows "\<forall>item \<in> set items'. mp_IPVersion item = version \<and> (\<exists>p. stored_as N SourceOfficial item p)"
  using assms(2,3)
proof (induction lines arbitrary: items)
  case (Cons line lines)
  show ?case
  proof (cases "TrimSpace line = []")
    case True
    then have "official_items N version lines items = Inr items'" using Cons.prems(1) by (simp add: Let_def)
    then show ?thesis by (rule Cons.IH [OF _ Cons.prems(2)])
  next
    case False
    then obtain item where item: "parsePrefix N (TrimSpace line) = Some item" "mp_IPVersion item = version"
      "official_items N version lines (items @ [item\<lparr>mp_Source := SourceOfficial\<rparr>]) = Inr items'"
      using Cons.prems(1) by (auto simp: Let_def split: option.splits if_splits)
    have "\<exists>p. stored_as N SourceOfficial (item\<lparr>mp_Source := SourceOfficial\<rparr>) p"
      using parsePrefix_stored [OF assms(1) item(1)] .
    then have "\<forall>i \<in> set (items @ [item\<lparr>mp_Source := SourceOfficial\<rparr>]). mp_IPVersion i = version \<and> (\<exists>p. stored_as N SourceOfficial i p)"
      using Cons.prems(2) item(2) by auto
    then show ?thesis by (rule Cons.IH [OF item(3)])
  qed
qed simp

lemma fetchOfficial_stored:
  assumes "netip_texts N" "fetchOfficial N resp version = Inr items"
  shows "items \<noteq> []" "\<forall>item \<in> set items. mp_IPVersion item = version \<and> (\<exists>p. stored_as N SourceOfficial item p)"
proof -
  obtain body where body: "resp = Inr body" using assms(2) by (cases resp) (simp_all add: fetchOfficial_def)
  obtain lines long where sc: "scan_lines (LimitReader (hb_bytes body) 1048576) = (lines, long)" by fastforce
  have "official_items N version lines [] = Inr items \<and> items \<noteq> []"
    using assms(2) sc unfolding fetchOfficial_def body
    by (cases "official_items N version lines []") (simp_all split: if_splits)
  then show "items \<noteq> []" "\<forall>item \<in> set items. mp_IPVersion item = version \<and> (\<exists>p. stored_as N SourceOfficial item p)"
    using official_items_stored [OF assms(1), of version lines "[]" items] by (blast, force)
qed

lemma asn_items_stored:
  assumes "netip_texts N" "asn_items N source raws seen items = Inr items'"
    and "\<forall>item \<in> set items. \<exists>p. stored_as N source item p" "distinct (map mp_CIDR items)" "set (map mp_CIDR items) = set seen"
  shows "(\<forall>item \<in> set items'. \<exists>p. stored_as N source item p) \<and> distinct (map mp_CIDR items')
    \<and> (\<forall>item \<in> set items. item \<in> set items') \<and> (\<forall>raw \<in> set raws. \<exists>item. parsePrefix N raw = Some item \<and> mp_CIDR item \<in> mp_CIDR ` set items')"
  using assms(2-)
proof (induction raws arbitrary: seen items)
  case (Cons raw raws)
  then obtain item where item: "parsePrefix N raw = Some item" by (auto split: option.splits)
  show ?case
  proof (cases "mp_CIDR item \<in> set seen")
    case True
    then have "asn_items N source raws seen items = Inr items'" using Cons.prems(1) item by simp
    note r = Cons.IH [OF this Cons.prems(2-)]
    have "mp_CIDR ` set items \<subseteq> mp_CIDR ` set items'" using conjunct1 [OF conjunct2 [OF conjunct2 [OF r]]] by blast
    then have "mp_CIDR item \<in> mp_CIDR ` set items'" using True Cons.prems(4) by auto
    then show ?thesis using r item by auto
  next
    case False
    let ?items = "items @ [item\<lparr>mp_Source := source\<rparr>]"
    have run: "asn_items N source raws (mp_CIDR item # seen) ?items = Inr items'" using Cons.prems(1) item False by simp
    have st: "\<forall>item \<in> set ?items. \<exists>p. stored_as N source item p"
      using Cons.prems(2) parsePrefix_stored [OF assms(1) item, of source] by auto
    have ds: "distinct (map mp_CIDR ?items)" "set (map mp_CIDR ?items) = set (mp_CIDR item # seen)"
      using False Cons.prems(3,4) by auto
    note r = Cons.IH [OF run st ds]
    have "item\<lparr>mp_Source := source\<rparr> \<in> set items'" using conjunct1 [OF conjunct2 [OF conjunct2 [OF r]]] by simp
    then have "mp_CIDR item \<in> mp_CIDR ` set items'" by (intro image_eqI [of _ _ "item\<lparr>mp_Source := source\<rparr>"]) simp_all
    then show ?thesis using r item by auto
  qed
qed simp

text \<open>What a scan reads of the stored rows; nothing of a synchronisation makes a later scan fail.\<close>

definition listed :: "synced_prefix list \<Rightarrow> go_prefix list" where
  "listed items = map go_prefix.truncate items"

lemma stored_selected:
  assumes "\<forall>item \<in> set items. \<exists>p. stored_as N source item p"
  shows "\<forall>item \<in> set (listed items). chosen v6 item \<longrightarrow> ParsePrefix N (mp_CIDR item) \<noteq> None"
    and "\<exists>item \<in> set items. v6 \<or> mp_IPVersion item = 4 \<Longrightarrow> selected N v6 (listed items) \<noteq> {}"
proof -
  have p: "ParsePrefix N (mp_CIDR item) \<noteq> None \<and> mp_Active item" if "item \<in> set items" for item
    using assms that by (fastforce simp: stored_as_def named_def)
  then show "\<forall>item \<in> set (listed items). chosen v6 item \<longrightarrow> ParsePrefix N (mp_CIDR item) \<noteq> None"
    by (auto simp: listed_def go_prefix.truncate_def)
  assume "\<exists>item \<in> set items. v6 \<or> mp_IPVersion item = 4"
  then obtain item where i: "item \<in> set items" "v6 \<or> mp_IPVersion item = 4" by blast
  then obtain p where "ParsePrefix N (mp_CIDR item) = Some p" using p by blast
  then have "Masked p \<in> selected N v6 (listed items)" unfolding selected_def
    using i p [OF i(1)] by (auto simp: listed_def go_prefix.truncate_def chosen_def intro!: exI [of _ "go_prefix.truncate item"] exI [of _ p])
  then show "selected N v6 (listed items) \<noteq> {}" by blast
qed

lemma stored_sample:
  assumes "netip_texts N" "\<forall>item \<in> set items. \<exists>p. stored_as N source item p"
    "\<exists>item \<in> set items. v6 \<or> mp_IPVersion item = 4" "limit \<in> {1..10000}"
  shows "\<exists>plan. Sample sha N (listed items) limit v6 seed = Inr plan \<and> plan \<noteq> []"
proof -
  note p = stored_selected(1) [OF assms(2), of v6] and n = stored_selected(2) [OF assms(2,3)]
  show ?thesis using Sample_in_range [OF assms(1,4) p, of sha seed] n by (simp only: if_False) blast
qed


lemma scan_one_line:
  assumes "10 \<notin> set s" "last s \<noteq> 13" "int (length s) < 65536" "s \<noteq> []"
  shows "scan_lines (LimitReader (s @ [10]) 1048576) = ([s], False)"
proof -
  have "LimitReader (s @ [10]) 1048576 = s @ [10]" using assms(3) by (simp add: LimitReader_def)
  moreover have "split_on 10 (s @ [10]) = [s, []]" using assms(1) by (simp add: split_on_append)
  ultimately show ?thesis using assms by (simp add: scan_lines_def drop_cr_def)
qed

definition sample_body :: "string \<Rightarrow> jsstr + http_body" where
  "sample_body s = Inr \<lparr>hb_status = 200, hb_bytes = lit s @ [10], hb_broken = False\<rparr>"


subsection \<open>Data centres\<close>

record status_component =
  sc_ID :: jsstr
  sc_Name :: jsstr
  sc_Status :: jsstr
  sc_GroupID :: jsstr
  sc_Group :: bool

record colo_location =
  co_Code :: jsstr
  co_City :: jsstr
  co_Country :: jsstr
  co_Continent :: jsstr
  co_Status :: jsstr

text \<open>
  The pattern of a component's name, read from its end: a code of three capitals or digits in parentheses after a dash
  between white space. The white space of a regular expression is that of ASCII.
\<close>

definition re_space :: "nat \<Rightarrow> bool" where
  "re_space u \<longleftrightarrow> u \<in> {9, 10, 12, 13, 32}"

definition code_char :: "nat \<Rightarrow> bool" where
  "code_char u \<longleftrightarrow> 65 \<le> u \<and> u \<le> 90 \<or> 48 \<le> u \<and> u \<le> 57"

definition colo_suffix :: "jsstr \<Rightarrow> (jsstr \<times> jsstr) option" where
  "colo_suffix name =
     (case rev name of
        rparen # c # b # a # lparen # r \<Rightarrow>
          if rparen = 41 \<and> lparen = 40 \<and> code_char a \<and> code_char b \<and> code_char c then
            (case dropWhile re_space r of
               dash # r' \<Rightarrow>
                 if dash = 45 \<and> r \<noteq> dash # r' \<and> dropWhile re_space r' \<noteq> r'
                 then Some ([a, b, c], rev (dropWhile re_space r')) else None
             | [] \<Rightarrow> None)
          else None
      | _ \<Rightarrow> None)"

definition continents_allowed :: "jsstr set" where
  "continents_allowed = lit ` {''Africa'', ''Asia'', ''Europe'', ''Latin America & the Caribbean'', ''Middle East'', ''North America'', ''Oceania''}"

definition continents_of :: "status_component list \<Rightarrow> jsstr \<Rightarrow> jsstr option" where
  "continents_of components = map_of (rev (map (\<lambda>c. (sc_ID c, sc_Name c)) (filter (\<lambda>c. sc_Group c \<and> sc_Name c \<in> continents_allowed) components)))"

definition colo_of :: "(jsstr \<Rightarrow> jsstr option) \<Rightarrow> status_component \<Rightarrow> colo_location option" where
  "colo_of continents c =
     (case (continents (sc_GroupID c), colo_suffix (sc_Name c)) of
        (Some continent, Some (code, rest)) \<Rightarrow>
          (let parts = split_on 44 (TrimSpace rest);
               city = TrimSpace (hd parts);
               country = (if length parts \<ge> 2 then TrimSpace (last parts) else city)
           in if city = [] \<or> country = [] then None
              else Some \<lparr>co_Code = code, co_City = city, co_Country = country, co_Continent = continent, co_Status = sc_Status c\<rparr>)
      | _ \<Rightarrow> None)"

fun colo_locations :: "(jsstr \<Rightarrow> jsstr option) \<Rightarrow> status_component list \<Rightarrow> jsstr list \<Rightarrow> colo_location list \<Rightarrow> colo_location list" where
  "colo_locations continents [] seen locations = locations"
| "colo_locations continents (c # cs) seen locations =
     (case colo_of continents c of
        None \<Rightarrow> colo_locations continents cs seen locations
      | Some location \<Rightarrow>
          if co_Code location \<in> set seen then colo_locations continents cs seen locations
          else colo_locations continents cs (co_Code location # seen) (locations @ [location]))"

text \<open>\<open>Inr\<close> is what \<open>ReplaceColoLocations\<close> is called with.\<close>

definition SyncColos :: "(jsstr \<Rightarrow> status_component list option) \<Rightarrow> jsstr + http_body \<Rightarrow> sync_error + colo_location list" where
  "SyncColos decode resp =
     (case resp of
        Inl e \<Rightarrow> Inl (Transport e)
      | Inr body \<Rightarrow>
          if hb_status body \<noteq> 200 then Inl (Bad_Status (hb_status body))
          else case decode (LimitReader (hb_bytes body) 8388608) of
            None \<Rightarrow> Inl Undecoded
          | Some components \<Rightarrow>
              (let locations = colo_locations (continents_of components) components [] []
               in if locations = [] then Inl No_Locations else Inr locations))"

definition good_location :: "colo_location \<Rightarrow> bool" where
  "good_location l \<longleftrightarrow> length (co_Code l) = 3 \<and> list_all code_char (co_Code l) \<and> co_City l \<noteq> [] \<and> co_Country l \<noteq> []
     \<and> co_Continent l \<in> continents_allowed"

lemma continents_of_allowed: "continents_of components g = Some name \<Longrightarrow> name \<in> continents_allowed"
  by (auto simp: continents_of_def dest!: map_of_SomeD)

lemma colo_suffix_code: "colo_suffix name = Some (code, rest) \<Longrightarrow> length code = 3 \<and> list_all code_char code"
  by (auto simp: colo_suffix_def split: list.splits if_splits)

lemma colo_of_good:
  assumes "colo_of (continents_of components) c = Some l"
  shows "good_location l"
  using assms continents_of_allowed [of components] colo_suffix_code [of "sc_Name c"]
  by (auto simp: colo_of_def good_location_def Let_def split: option.splits if_splits)

lemma colo_locations_inv:
  assumes "\<forall>l \<in> set ls. good_location l" "distinct (map co_Code ls)" "set seen = co_Code ` set ls"
  shows "(\<forall>l \<in> set (colo_locations (continents_of components) cs seen ls). good_location l)
    \<and> distinct (map co_Code (colo_locations (continents_of components) cs seen ls))
    \<and> co_Code ` set (colo_locations (continents_of components) cs seen ls)
      = set seen \<union> {co_Code l |l c. c \<in> set cs \<and> colo_of (continents_of components) c = Some l}"
  using assms
proof (induction cs arbitrary: seen ls)
  case (Cons c cs)
  show ?case
  proof (cases "colo_of (continents_of components) c")
    case None
    then have "{co_Code l |l c'. c' \<in> set (c # cs) \<and> colo_of (continents_of components) c' = Some l}
      = {co_Code l |l c'. c' \<in> set cs \<and> colo_of (continents_of components) c' = Some l}" by auto
    then show ?thesis using Cons.IH [OF Cons.prems] None by simp
  next
    case (Some l)
    then have s: "{co_Code l |l c'. c' \<in> set (c # cs) \<and> colo_of (continents_of components) c' = Some l}
      = insert (co_Code l) {co_Code l |l c'. c' \<in> set cs \<and> colo_of (continents_of components) c' = Some l}" by auto
    show ?thesis
    proof (cases "co_Code l \<in> set seen")
      case True
      then show ?thesis unfolding s using Cons.IH [OF Cons.prems] Some by auto
    next
      case False
      have "\<forall>l \<in> set (ls @ [l]). good_location l" "distinct (map co_Code (ls @ [l]))" "set (co_Code l # seen) = co_Code ` set (ls @ [l])"
        using Cons.prems False colo_of_good [OF Some] by auto
      from Cons.IH [OF this] show ?thesis unfolding s using Some False by simp
    qed
  qed
qed simp

text \<open>The geography behind the console's maps and filters: a successful synchronisation of the data centres hands over at least one location, each code once, every code of three capitals or digits with a city, a country and one of the seven continents; and it hands over exactly the codes that the listed components carry.\<close>

theorem colo_locations_sound:
  assumes "SyncColos decode resp = Inr locations"
  shows "locations \<noteq> [] \<and> distinct (map co_Code locations) \<and> (\<forall>l \<in> set locations. good_location l)
    \<and> (\<exists>components. decode (LimitReader (hb_bytes (projr resp)) 8388608) = Some components
        \<and> co_Code ` set locations = {co_Code l |l c. c \<in> set components \<and> colo_of (continents_of components) c = Some l})"
proof -
  obtain components where c: "decode (LimitReader (hb_bytes (projr resp)) 8388608) = Some components"
    "locations = colo_locations (continents_of components) components [] []" "locations \<noteq> []"
    using assms by (cases resp) (auto simp: SyncColos_def Let_def split: if_splits option.splits)
  show ?thesis using colo_locations_inv [of "[]" "[]" components components] c by simp
qed

definition sample_components :: "status_component list" where
  "sample_components =
     [\<lparr>sc_ID = lit ''g'', sc_Name = lit ''Asia'', sc_Status = lit ''operational'', sc_GroupID = [], sc_Group = True\<rparr>,
      \<lparr>sc_ID = lit ''c'', sc_Name = lit ''Tokyo, Japan - (NRT)'', sc_Status = lit ''operational'', sc_GroupID = lit ''g'', sc_Group = False\<rparr>]"

theorem colo_locations_sound_witness:
  "\<exists>locations. SyncColos (\<lambda>_. Some sample_components) (sample_body ''{}'') = Inr locations \<and> map co_Code locations = [lit ''NRT'']
     \<and> (\<forall>l \<in> set locations. good_location l)"
proof -
  obtain l where l: "colo_locations (continents_of sample_components) sample_components [] [] = [l]" "co_Code l = lit ''NRT''"
    by (simp add: sample_components_def continents_of_def continents_allowed_def colo_of_def colo_suffix_def lit_def
        re_space_def code_char_def TrimSpace_def is_go_space_def is_ws_def Let_def)
  then have s: "SyncColos (\<lambda>_. Some sample_components) (sample_body ''{}'') = Inr [l]"
    by (simp add: SyncColos_def sample_body_def)
  show ?thesis using colo_locations_sound [OF s] s l(2) by (intro exI [of _ "[l]"]) auto
qed

end
