(* ===== verification/Scan_Service.thy ===== *)
theory Scan_Service
  imports Prefix_League Server_Contract
begin

text \<open>
  How the server turns a request into a scan job (\<open>internal/scans/service.go\<close>): defaults, validation, the prefixes,
  the agents, the targets of the sampling mode, and the job. The interfaces \<open>Store\<close> and \<open>PrefixSyncer\<close> are
  parameters that act on a state of any type; their errors are texts. The clock gives the texts of the current time.
\<close>

subsection \<open>Requests and the store\<close>

text \<open>The fields of a request that are neither defaulted nor validated.\<close>

record scan_options =
  so_ForceLeague :: bool
  so_AgentIDs :: "jsstr list"
  so_IncludeIPv6 :: bool
  so_IncludeBlocked :: bool

record agent_targets =
  ag_AgentID :: jsstr
  ag_Targets :: "scan_target list"

record scan_job =
  sj_ID :: jsstr
  sj_TotalTargets :: int

record 'w scan_store =
  ListActivePrefixes :: "bool \<Rightarrow> 'w \<Rightarrow> (jsstr + go_prefix list) \<times> 'w"
  ResolveScanAgentIDs :: "jsstr list \<Rightarrow> 'w \<Rightarrow> (jsstr + jsstr list) \<times> 'w"
  PlanLeagueTargets :: "go_scan_request \<Rightarrow> scan_options \<Rightarrow> go_prefix list \<Rightarrow> jsstr list \<Rightarrow> jsstr \<Rightarrow> bool \<Rightarrow> 'w \<Rightarrow> (jsstr + agent_targets list) \<times> 'w"
  CreateScanJob :: "go_scan_request \<Rightarrow> scan_options \<Rightarrow> jsstr \<Rightarrow> agent_targets list \<Rightarrow> 'w \<Rightarrow> (jsstr + scan_job) \<times> 'w"
  SyncOfficial :: "'w \<Rightarrow> jsstr option \<times> 'w"
  SyncASNs :: "'w \<Rightarrow> jsstr option \<times> 'w"

datatype create_error =
    Rejected string | Store_Error jsstr | Sources_Failed jsstr jsstr | Targets_Error target_error | ErrNoLeagueTargetsDue

subsection \<open>Creating a job\<close>

text \<open>When the store has no prefix both sources are asked first; one of them is enough.\<close>

definition active_prefixes :: "'w scan_store \<Rightarrow> bool \<Rightarrow> 'w \<Rightarrow> (create_error + go_prefix list) \<times> 'w" where
  "active_prefixes st v6 w =
     (case ListActivePrefixes st v6 w of
        (Inl e, w) \<Rightarrow> (Inl (Store_Error e), w)
      | (Inr prefixes, w) \<Rightarrow>
          if prefixes \<noteq> [] then (Inr prefixes, w)
          else case SyncOfficial st w of (officialErr, w) \<Rightarrow>
            (case SyncASNs st w of (asnErr, w) \<Rightarrow>
              (case (officialErr, asnErr) of
                 (Some a, Some b) \<Rightarrow> (Inl (Sources_Failed a b), w)
               | _ \<Rightarrow> (case ListActivePrefixes st v6 w of
                   (Inl e, w) \<Rightarrow> (Inl (Store_Error e), w)
                 | (Inr prefixes, w) \<Rightarrow> (Inr prefixes, w)))))"

definition job_targets :: "(jsstr \<Rightarrow> 256 word) \<Rightarrow> netip \<Rightarrow> 'w scan_store \<Rightarrow> go_scan_request \<Rightarrow> scan_options \<Rightarrow> jsstr \<Rightarrow> jsstr
    \<Rightarrow> go_prefix list \<Rightarrow> jsstr list \<Rightarrow> 'w \<Rightarrow> (create_error + agent_targets list) \<times> 'w" where
  "job_targets sha N st input opt kind seed prefixes agentIDs w =
     (if gs_sampling_mode input = lit ''league'' then
        (case PlanLeagueTargets st input opt prefixes agentIDs seed (so_ForceLeague opt \<or> kind \<noteq> lit ''scheduled'') w of
           (Inl e, w) \<Rightarrow> (Inl (Store_Error e), w)
         | (Inr agentTargets, w) \<Rightarrow>
             if sum_list (map (length \<circ> ag_Targets) agentTargets) = 0 then (Inl ErrNoLeagueTargetsDue, w)
             else (Inr agentTargets, w))
      else
        (case (if gs_sampling_mode input = lit ''one_per_prefix'' then Targets.OnePerPrefix sha N prefixes (so_IncludeIPv6 opt) seed
               else Sample sha N prefixes (gs_target_count input) (so_IncludeIPv6 opt) seed) of
           Inl e \<Rightarrow> (Inl (Targets_Error e), w)
         | Inr sampled \<Rightarrow> (Inr (map (\<lambda>agentID. \<lparr>ag_AgentID = agentID, ag_Targets = sampled\<rparr>) agentIDs), w)))"

definition Create :: "(jsstr \<Rightarrow> 256 word) \<Rightarrow> netip \<Rightarrow> jsstr \<Rightarrow> jsstr \<Rightarrow> 'w scan_store \<Rightarrow> go_scan_request \<Rightarrow> scan_options \<Rightarrow> jsstr
    \<Rightarrow> 'w \<Rightarrow> (create_error + scan_job) \<times> 'w" where
  "Create sha N stamp nanos st input opt kind w =
     (let input = ApplyDefaults stamp input in
      case Validate input of
        Some e \<Rightarrow> (Inl (Rejected e), w)
      | None \<Rightarrow>
          (let kind = (if kind = [] then lit ''normal'' else kind) in
           case active_prefixes st (so_IncludeIPv6 opt) w of
             (Inl e, w) \<Rightarrow> (Inl e, w)
           | (Inr prefixes, w) \<Rightarrow>
               (case ResolveScanAgentIDs st (so_AgentIDs opt) w of
                  (Inl e, w) \<Rightarrow> (Inl (Store_Error e), w)
                | (Inr agentIDs, w) \<Rightarrow>
                    (let seed = kind @ lit ''|'' @ gs_name input @ lit ''|'' @ nanos in
                     case job_targets sha N st input opt kind seed prefixes agentIDs w of
                       (Inl e, w) \<Rightarrow> (Inl e, w)
                     | (Inr agentTargets, w) \<Rightarrow>
                         (case CreateScanJob st input opt kind agentTargets w of
                            (Inl e, w) \<Rightarrow> (Inl (Store_Error e), w)
                          | (Inr job, w) \<Rightarrow> (Inr job, w))))))"

subsection \<open>What a job scans\<close>

text \<open>A list of targets a scan may probe: not empty, no address twice, each usable and in the prefix it names.\<close>

definition sound_targets :: "netip \<Rightarrow> bool \<Rightarrow> go_prefix list \<Rightarrow> scan_target list \<Rightarrow> bool" where
  "sound_targets N v6 prefixes ts \<longleftrightarrow> ts \<noteq> [] \<and> distinct (map st_TargetIP ts)
     \<and> (\<forall>t \<in> set ts. \<exists>p \<in> selected N v6 prefixes. st_PrefixCIDR t = prefix_String N p
          \<and> (\<exists>a. ParseAddr N (st_TargetIP t) = Some a \<and> usable_host p a))"

lemma usable_from_parsed:
  "usable_from N v6 items seen usable = Inr us \<Longrightarrow> \<forall>item \<in> set items. chosen v6 item \<longrightarrow> ParsePrefix N (mp_CIDR item) \<noteq> None"
proof (induction items arbitrary: seen usable)
  case (Cons item items)
  show ?case
  proof (cases "chosen v6 item")
    case False
    then show ?thesis using Cons by simp
  next
    case True
    then obtain p where "ParsePrefix N (mp_CIDR item) = Some p" using Cons.prems by (cases "ParsePrefix N (mp_CIDR item)") simp_all
    then show ?thesis using Cons.IH Cons.prems True by (auto split: if_splits)
  qed
qed simp

lemma Sample_sound_targets:
  assumes "netip_texts N" "Sample sha N items limit v6 seed = Inr ts"
  shows "sound_targets N v6 items ts \<and> int (length ts) \<le> limit"
proof -
  have l: "limit \<in> {1..10000}" using assms(2) by (auto simp: Sample_def MaxSampleTargets_def split: if_splits)
  obtain us where "usablePrefixes N items v6 = Inr us" using assms(2) by (auto simp: Sample_def split: if_splits sum.splits)
  then have "usable_from N v6 items [] [] = Inr us" by (auto simp: usablePrefixes_def split: sum.splits if_splits)
  from Sample_in_range [OF assms(1) l usable_from_parsed [OF this], of sha seed] assms(2)
  have "selected N v6 items \<noteq> {}" by auto
  with Sample_in_range [OF assms(1) l usable_from_parsed [OF \<open>usable_from N v6 items [] [] = Inr us\<close>], of sha seed] assms(2)
  show ?thesis unfolding sound_targets_def by auto
qed

lemma OnePerPrefix_sound_targets:
  assumes "netip_texts N" "Targets.OnePerPrefix sha N items v6 seed = Inr ts"
  shows "sound_targets N v6 items ts"
proof -
  obtain ps where ps: "set ps = selected N v6 items" "ps \<noteq> []" "distinct (map st_TargetIP ts)"
    and l: "list_all2 (\<lambda>p t. st_PrefixCIDR t = prefix_String N p \<and> (\<exists>a. ParseAddr N (st_TargetIP t) = Some a \<and> usable_host p a)) ps ts"
    using OnePerPrefix_sound [OF assms] by blast
  have "ts \<noteq> []" using l ps(2) by auto
  moreover have "\<exists>p \<in> set ps. st_PrefixCIDR t = prefix_String N p \<and> (\<exists>a. ParseAddr N (st_TargetIP t) = Some a \<and> usable_host p a)"
    if t: "t \<in> set ts" for t
  proof -
    obtain i where "i < length ts" "t = ts ! i" using t by (metis in_set_conv_nth)
    then show ?thesis using l by (intro bexI [of _ "ps ! i"]) (simp_all add: list_all2_conv_all_nth)
  qed
  ultimately show ?thesis using ps by (simp add: sound_targets_def)
qed

lemma job_targets_sound:
  assumes "netip_texts N" "job_targets sha N st input opt kind seed prefixes agentIDs w = (Inr plan, w')"
  shows "if gs_sampling_mode input = lit ''league'' then
      (\<exists>force. PlanLeagueTargets st input opt prefixes agentIDs seed force w = (Inr plan, w')) \<and> (\<exists>a \<in> set plan. ag_Targets a \<noteq> [])
    else w' = w \<and> (\<exists>ts. plan = map (\<lambda>a. \<lparr>ag_AgentID = a, ag_Targets = ts\<rparr>) agentIDs \<and> sound_targets N (so_IncludeIPv6 opt) prefixes ts
      \<and> (gs_sampling_mode input \<noteq> lit ''one_per_prefix'' \<longrightarrow> int (length ts) \<le> gs_target_count input))"
proof (cases "gs_sampling_mode input = lit ''league''")
  case True
  then show ?thesis using assms(2) by (auto simp: job_targets_def split: prod.splits sum.splits if_splits)
next
  case False
  then show ?thesis
    using assms(2) OnePerPrefix_sound_targets [OF assms(1)] Sample_sound_targets [OF assms(1)]
    by (auto simp: job_targets_def split: sum.splits if_splits)
qed

lemma active_prefixes_listed:
  "active_prefixes st v6 w = (Inr prefixes, w') \<Longrightarrow> \<exists>w0. ListActivePrefixes st v6 w0 = (Inr prefixes, w')"
  by (auto simp: active_prefixes_def split: prod.splits sum.splits if_splits option.splits)

lemma Create_cases:
  assumes "Create sha N stamp nanos st input opt kind w = (Inr job, w')"
  obtains prefixes agentIDs plan k seed w1 w2 w3 where
    "Validate (ApplyDefaults stamp input) = None" "active_prefixes st (so_IncludeIPv6 opt) w = (Inr prefixes, w1)"
    "ResolveScanAgentIDs st (so_AgentIDs opt) w1 = (Inr agentIDs, w2)"
    "job_targets sha N st (ApplyDefaults stamp input) opt k seed prefixes agentIDs w2 = (Inr plan, w3)"
    "CreateScanJob st (ApplyDefaults stamp input) opt k plan w3 = (Inr job, w')"
proof -
  let ?in = "ApplyDefaults stamp input" and ?k = "if kind = [] then lit ''normal'' else kind"
  let ?seed = "?k @ lit ''|'' @ gs_name ?in @ lit ''|'' @ nanos"
  have v: "Validate ?in = None" using assms by (cases "Validate ?in") (simp_all add: Create_def Let_def)
  obtain p w1 where p: "active_prefixes st (so_IncludeIPv6 opt) w = (p, w1)" by fastforce
  then obtain prefixes where "p = Inr prefixes" using assms v by (cases p) (simp_all add: Create_def Let_def)
  with p have p: "active_prefixes st (so_IncludeIPv6 opt) w = (Inr prefixes, w1)" by simp
  obtain a w2 where a: "ResolveScanAgentIDs st (so_AgentIDs opt) w1 = (a, w2)" by fastforce
  then obtain agentIDs where "a = Inr agentIDs" using assms v p by (cases a) (simp_all add: Create_def Let_def)
  with a have a: "ResolveScanAgentIDs st (so_AgentIDs opt) w1 = (Inr agentIDs, w2)" by simp
  obtain t w3 where t: "job_targets sha N st ?in opt ?k ?seed prefixes agentIDs w2 = (t, w3)" by fastforce
  then obtain plan where "t = Inr plan" using assms v p a by (cases t) (simp_all add: Create_def Let_def)
  with t have t: "job_targets sha N st ?in opt ?k ?seed prefixes agentIDs w2 = (Inr plan, w3)" by simp
  obtain j w4 where j: "CreateScanJob st ?in opt ?k plan w3 = (j, w4)" by fastforce
  then have "j = Inr job \<and> w4 = w'" using assms v p a t by (cases j) (simp_all add: Create_def Let_def)
  with j have "CreateScanJob st ?in opt ?k plan w3 = (Inr job, w')" by simp
  from that [OF v p a t this] show thesis .
qed

text \<open>A job the server creates is one it may run: the stored request passed the validation; a job that is not of the league gives every resolved agent, in their order, the same non-empty list of distinct addresses, each usable and inside the active prefix it names, and for a counted scan not more than asked for; a league job has at least one target.\<close>

theorem scan_created_sound:
  assumes "netip_texts N" "Create sha N stamp nanos st input opt kind w = (Inr job, w')"
  shows "\<exists>r k plan w3. CreateScanJob st r opt k plan w3 = (Inr job, w') \<and> r = ApplyDefaults stamp input \<and> Validate r = None
    \<and> (if gs_sampling_mode r = lit ''league'' then \<exists>a \<in> set plan. ag_Targets a \<noteq> []
       else \<exists>prefixes agentIDs ts. (\<exists>w0 w1. ListActivePrefixes st (so_IncludeIPv6 opt) w0 = (Inr prefixes, w1))
         \<and> (\<exists>w1 w2. ResolveScanAgentIDs st (so_AgentIDs opt) w1 = (Inr agentIDs, w2))
         \<and> plan = map (\<lambda>a. \<lparr>ag_AgentID = a, ag_Targets = ts\<rparr>) agentIDs \<and> sound_targets N (so_IncludeIPv6 opt) prefixes ts
         \<and> (gs_sampling_mode r = lit ''count'' \<longrightarrow> int (length ts) \<le> gs_target_count r))"
proof -
  obtain prefixes agentIDs plan k seed w1 w2 w3 where c: "Validate (ApplyDefaults stamp input) = None"
    "active_prefixes st (so_IncludeIPv6 opt) w = (Inr prefixes, w1)" "ResolveScanAgentIDs st (so_AgentIDs opt) w1 = (Inr agentIDs, w2)"
    "job_targets sha N st (ApplyDefaults stamp input) opt k seed prefixes agentIDs w2 = (Inr plan, w3)"
    "CreateScanJob st (ApplyDefaults stamp input) opt k plan w3 = (Inr job, w')"
    by (rule Create_cases [OF assms(2)])
  note t = job_targets_sound [OF assms(1) c(4)] and p = active_prefixes_listed [OF c(2)]
  have fin: "if gs_sampling_mode (ApplyDefaults stamp input) = lit ''league'' then \<exists>a \<in> set plan. ag_Targets a \<noteq> []
       else \<exists>prefixes agentIDs ts. (\<exists>w0 w1. ListActivePrefixes st (so_IncludeIPv6 opt) w0 = (Inr prefixes, w1))
         \<and> (\<exists>w1 w2. ResolveScanAgentIDs st (so_AgentIDs opt) w1 = (Inr agentIDs, w2))
         \<and> plan = map (\<lambda>a. \<lparr>ag_AgentID = a, ag_Targets = ts\<rparr>) agentIDs \<and> sound_targets N (so_IncludeIPv6 opt) prefixes ts
         \<and> (gs_sampling_mode (ApplyDefaults stamp input) = lit ''count'' \<longrightarrow> int (length ts) \<le> gs_target_count (ApplyDefaults stamp input))"
  proof (cases "gs_sampling_mode (ApplyDefaults stamp input) = lit ''league''")
    case True
    then show ?thesis using t by simp
  next
    case False
    then obtain ts where ts: "plan = map (\<lambda>a. \<lparr>ag_AgentID = a, ag_Targets = ts\<rparr>) agentIDs" "sound_targets N (so_IncludeIPv6 opt) prefixes ts"
      "gs_sampling_mode (ApplyDefaults stamp input) \<noteq> lit ''one_per_prefix'' \<longrightarrow> int (length ts) \<le> gs_target_count (ApplyDefaults stamp input)"
      using t unfolding if_not_P [OF False] by blast
    obtain w0 where "ListActivePrefixes st (so_IncludeIPv6 opt) w0 = (Inr prefixes, w1)" using p by blast
    then show ?thesis using ts c(3) unfolding if_not_P [OF False]
      by (intro exI [of _ prefixes] exI [of _ agentIDs] exI [of _ ts] exI [of _ w0] exI [of _ w1] exI [of _ w2] conjI impI) simp_all
  qed
  show ?thesis
    by (intro exI [of _ "ApplyDefaults stamp input"] exI [of _ k] exI [of _ plan] exI [of _ w3] conjI refl c) (rule fin)
qed

subsection \<open>From the form to the job\<close>

definition decode_options :: "'a CreateScanJob_scheme \<Rightarrow> scan_options" where
  "decode_options v = \<lparr>so_ForceLeague = False, so_AgentIDs = cj_agent_ids v, so_IncludeIPv6 = cj_include_ipv6 v,
     so_IncludeBlocked = cj_include_blocked v\<rparr>"

text \<open>A store that has prefixes to scan, resolves the agents and accepts jobs.\<close>

definition ready :: "netip \<Rightarrow> 'w scan_store \<Rightarrow> bool \<Rightarrow> jsstr list \<Rightarrow> bool" where
  "ready N st v6 ids \<longleftrightarrow>
     (\<exists>prefixes agentIDs. (\<forall>w. \<exists>w'. ListActivePrefixes st v6 w = (Inr prefixes, w')) \<and> selected N v6 prefixes \<noteq> {}
        \<and> (\<forall>item \<in> set prefixes. chosen v6 item \<longrightarrow> ParsePrefix N (mp_CIDR item) \<noteq> None)
        \<and> agentIDs \<noteq> [] \<and> (\<forall>w. \<exists>w'. ResolveScanAgentIDs st ids w = (Inr agentIDs, w')))
     \<and> (\<forall>r opt k plan w. \<exists>job w'. CreateScanJob st r opt k plan w = (Inr job, w'))"

lemma selected_nonempty: "selected N v6 prefixes \<noteq> {} \<Longrightarrow> prefixes \<noteq> []"
  by (auto simp: selected_def)

lemma Create_counted:
  assumes "netip_texts N" "Validate (ApplyDefaults stamp r) = None" "gs_sampling_mode (ApplyDefaults stamp r) = lit ''count''"
    and "ready N st (so_IncludeIPv6 opt) (so_AgentIDs opt)"
  obtains job agentIDs ts w2 w' where "Create sha N stamp nanos st r opt (lit ''normal'') w = (Inr job, w')"
    "CreateScanJob st (ApplyDefaults stamp r) opt (lit ''normal'') (map (\<lambda>a. \<lparr>ag_AgentID = a, ag_Targets = ts\<rparr>) agentIDs) w2 = (Inr job, w')"
    "agentIDs \<noteq> []" "ts \<noteq> []" "int (length ts) \<le> gs_target_count (ApplyDefaults stamp r)"
proof -
  let ?v6 = "so_IncludeIPv6 opt" and ?in = "ApplyDefaults stamp r"
  have count: "gs_target_count ?in \<in> {1..10000}" using assms(2,3) by (auto simp: Validate_def Let_def split: if_splits)
  obtain prefixes agentIDs where p: "\<And>w. \<exists>w'. ListActivePrefixes st ?v6 w = (Inr prefixes, w')" "selected N ?v6 prefixes \<noteq> {}"
      "\<forall>item \<in> set prefixes. chosen ?v6 item \<longrightarrow> ParsePrefix N (mp_CIDR item) \<noteq> None"
    and a: "agentIDs \<noteq> []" "\<And>w. \<exists>w'. ResolveScanAgentIDs st (so_AgentIDs opt) w = (Inr agentIDs, w')"
    and j: "\<And>r opt k plan w. \<exists>job w'. CreateScanJob st r opt k plan w = (Inr job, w')"
    using assms(4) unfolding ready_def by blast
  obtain w1 where w1: "ListActivePrefixes st ?v6 w = (Inr prefixes, w1)" using p(1) by blast
  then have ap: "active_prefixes st ?v6 w = (Inr prefixes, w1)" using selected_nonempty [OF p(2)] by (simp add: active_prefixes_def)
  obtain w2 where w2: "ResolveScanAgentIDs st (so_AgentIDs opt) w1 = (Inr agentIDs, w2)" using a(2) by blast
  let ?seed = "lit ''normal'' @ lit ''|'' @ gs_name ?in @ lit ''|'' @ nanos"
  obtain ts where ts: "Sample sha N prefixes (gs_target_count ?in) ?v6 ?seed = Inr ts" "ts \<noteq> []" "int (length ts) \<le> gs_target_count ?in"
    using Sample_in_range [OF assms(1) count p(3), of sha ?seed] p(2) by auto
  let ?plan = "map (\<lambda>a. \<lparr>ag_AgentID = a, ag_Targets = ts\<rparr>) agentIDs"
  have jt: "job_targets sha N st ?in opt (lit ''normal'') ?seed prefixes agentIDs w2 = (Inr ?plan, w2)"
    using ts(1) assms(3) by (simp add: job_targets_def)
  obtain job w' where job: "CreateScanJob st ?in opt (lit ''normal'') ?plan w2 = (Inr job, w')" using j by blast
  have c: "Create sha N stamp nanos st r opt (lit ''normal'') w = (Inr job, w')"
    using assms(2) ap w2 jt job by (simp add: Create_def Let_def)
  show thesis by (rule that [OF c job a(1) ts(2,3)])
qed

text \<open>C18. From the console to the job: a counted scan the console's form accepts ends as a stored job whenever the store has prefixes, resolves the agents and accepts jobs. The request is decoded as the form shows it and never refused by the validation, every agent gets between one target and the number in the form, and no other outcome is possible.\<close>

theorem console_scan_created:
  assumes "netip_texts N" "createScanJobSchema v = Inr form" "cj_sampling_mode form = ByCount"
    and "ready N st (cj_include_ipv6 form) (cj_agent_ids form)"
  shows "\<exists>r job plan agentIDs ts w3 w'. decode_scan_request form = Some r
    \<and> Create sha N stamp nanos st r (decode_options form) (lit ''normal'') w = (Inr job, w')
    \<and> CreateScanJob st (ApplyDefaults stamp r) (decode_options form) (lit ''normal'') plan w3 = (Inr job, w')
    \<and> agentIDs \<noteq> [] \<and> plan = map (\<lambda>a. \<lparr>ag_AgentID = a, ag_Targets = ts\<rparr>) agentIDs
    \<and> ts \<noteq> [] \<and> (\<exists>n. cj_target_count form = Fin (of_int n) \<and> int (length ts) \<le> n)"
proof -
  let ?v6 = "cj_include_ipv6 form" and ?opt = "decode_options form"
  have e: "scanJobErrors v = []" "form = scanJobTrim v" using assms(2) by (auto simp: createScanJobSchema_def)
  obtain r where r: "decode_scan_request form = Some r" "Validate (ApplyDefaults stamp r) = None"
    "gs_target_count (ApplyDefaults stamp r) = gs_target_count r"
    using scan_request_valid [OF e(1), of stamp] e(2) by blast
  have f: "gs_sampling_mode r = lit ''count''" "cj_target_count form = Fin (of_int (gs_target_count r))"
    using r(1) e(1) assms(3) unfolding scanJobErrors_nil e(2) by (auto simp: decode_scan_request_def scanJobTrim_def)
  let ?in = "ApplyDefaults stamp r"
  have mode: "gs_sampling_mode ?in = lit ''count''" using f(1) by (simp add: ApplyDefaults_def Let_def)
  have "ready N st (so_IncludeIPv6 ?opt) (so_AgentIDs ?opt)" using assms(4) by (simp add: decode_options_def)
  from Create_counted [OF assms(1) r(2) mode this, of sha nanos w] obtain job agentIDs ts w2 w' where
    c: "Create sha N stamp nanos st r ?opt (lit ''normal'') w = (Inr job, w')"
    "CreateScanJob st ?in ?opt (lit ''normal'') (map (\<lambda>a. \<lparr>ag_AgentID = a, ag_Targets = ts\<rparr>) agentIDs) w2 = (Inr job, w')"
    "agentIDs \<noteq> []" "ts \<noteq> []" "int (length ts) \<le> gs_target_count ?in" .
  let ?plan = "map (\<lambda>a. \<lparr>ag_AgentID = a, ag_Targets = ts\<rparr>) agentIDs"
  show ?thesis
    by (intro exI [of _ r] exI [of _ job] exI [of _ ?plan] exI [of _ agentIDs] exI [of _ ts] exI [of _ w2] exI [of _ w']
        exI [of _ "gs_target_count r"] conjI refl r(1) c(1-4) f(2)) (use c(5) r(3) in simp)
qed

text \<open>A store in memory.\<close>

definition sample_store :: "agent_targets list list scan_store" where
  "sample_store =
     \<lparr>ListActivePrefixes = (\<lambda>v6 w. (Inr sample_prefixes, w)), ResolveScanAgentIDs = (\<lambda>ids w. (Inr [lit ''agent-1''], w)),
      PlanLeagueTargets = (\<lambda>r opt prefixes ids seed force w. (Inr [], w)),
      CreateScanJob = (\<lambda>r opt k plan w. (Inr \<lparr>sj_ID = lit ''job-1'', sj_TotalTargets = int (sum_list (map (length \<circ> ag_Targets) plan))\<rparr>, plan # w)),
      SyncOfficial = (\<lambda>w. (None, w)), SyncASNs = (\<lambda>w. (None, w))\<rparr>"

lemma sample_ready: "ready decimal_netip sample_store v6 ids"
  unfolding ready_def using sample_selected by (auto simp: sample_store_def intro!: exI [of _ sample_prefixes])

definition sample_form :: CreateScanJob where
  "sample_form = scanJobTrim (defaultScanJobValues\<lparr>cj_name := lit ''nightly''\<rparr>)"

theorem console_scan_created_witness:
  "\<exists>r job w'. decode_scan_request sample_form = Some r
     \<and> Create (\<lambda>_. 7) decimal_netip [] [] sample_store r (decode_options sample_form) (lit ''normal'') [] = (Inr job, w')"
proof -
  have "createScanJobSchema (defaultScanJobValues\<lparr>cj_name := lit ''nightly''\<rparr>) = Inr sample_form"
    using default_job_accepted by (auto simp: sample_form_def createScanJobSchema_def)
  moreover have "cj_sampling_mode sample_form = ByCount" by (simp add: sample_form_def scanJobTrim_def defaultScanJobValues_def)
  ultimately show ?thesis using console_scan_created [OF decimal_texts _ _ sample_ready, of _ sample_form "\<lambda>_. 7" "[]" "[]" "[]"] by blast
qed

theorem scan_created_sound_witness:
  "\<exists>r job w' k plan w3. Create (\<lambda>_. 7) decimal_netip [] [] sample_store r (decode_options sample_form) (lit ''normal'') [] = (Inr job, w')
     \<and> CreateScanJob sample_store (ApplyDefaults [] r) (decode_options sample_form) k plan w3 = (Inr job, w')"
proof -
  have "scanJobErrors (defaultScanJobValues\<lparr>cj_name := lit ''nightly''\<rparr>) = []"
    using default_job_accepted by (auto simp: createScanJobSchema_def)
  from scan_request_valid [OF this, of "[]"] obtain r where r: "decode_scan_request sample_form = Some r" "Validate (ApplyDefaults [] r) = None"
    unfolding sample_form_def by blast
  have "gs_sampling_mode (ApplyDefaults [] r) = lit ''count''"
    using r(1) by (auto simp: decode_scan_request_def sample_form_def scanJobTrim_def defaultScanJobValues_def ApplyDefaults_def Let_def
        split: option.splits)
  from Create_counted [OF decimal_texts r(2) this sample_ready, of "\<lambda>_. 7" "[]" "decode_options sample_form" "[]"]
  obtain job w' where c: "Create (\<lambda>_. 7) decimal_netip [] [] sample_store r (decode_options sample_form) (lit ''normal'') [] = (Inr job, w')" .
  from scan_created_sound [OF decimal_texts c] c show ?thesis by blast
qed

end
