(* ===== verification/Server_Runs.thy ===== *)
theory Server_Runs
  imports Scan_Service
begin

text \<open>
  The runs of the server's automations and their record: due scan schedules (\<open>internal/scheduling/runner.go\<close>, the
  manual run of \<open>internal/api/api.go\<close>), blacklist rechecks and source synchronisations
  (\<open>internal/automation/service.go\<close>). The store's rows of runs and schedules are the calls the code makes, in their
  order; what the store, the cron library and the job itself answer are parameters over a state of any type.
\<close>

subsection \<open>Calls of the store\<close>

datatype run_call =
    Started jsstr jsstr jsstr
  | Finished jsstr jsstr "jsstr option"
  | Recorded jsstr "int option" "jsstr option" "jsstr option"

text \<open>A started run carries its identifier, the type and the key of the automation; a recorded one the key, the next
  instant, the job and the error. What the row of a finished run says:\<close>

definition run_status :: "jsstr \<Rightarrow> jsstr option \<Rightarrow> jsstr" where
  "run_status status runErr =
     (let status = (if status = [] then lit ''completed'' else status) in if runErr \<noteq> None then lit ''failed'' else status)"

subsection \<open>The next instant\<close>

text \<open>The time zones and the expressions are those of Go's and the cron library: \<open>LoadLocation\<close> and \<open>Parse\<close>, which
  gives for a zone and an instant the next one.\<close>

datatype next_error = Expression_Missing | Bad_Timezone jsstr | Bad_Expression jsstr

definition Next :: "(jsstr \<Rightarrow> 'zone option) \<Rightarrow> (jsstr \<Rightarrow> ('zone \<Rightarrow> int \<Rightarrow> int) option) \<Rightarrow> jsstr \<Rightarrow> jsstr \<Rightarrow> int \<Rightarrow> next_error + int" where
  "Next LoadLocation Parse expression timezone after =
     (let expression = TrimSpace expression;
          timezone = (if timezone = [] then lit ''Asia/Shanghai'' else timezone)
      in if expression = [] then Inl Expression_Missing
         else case LoadLocation timezone of
           None \<Rightarrow> Inl (Bad_Timezone timezone)
         | Some location \<Rightarrow>
             (case Parse expression of
                None \<Rightarrow> Inl (Bad_Expression expression)
              | Some schedule \<Rightarrow> Inr (schedule location after)))"

text \<open>An expression in spaces runs as the trimmed one, and without a zone as in the zone of the server.\<close>

lemma TrimSpace_idem: "TrimSpace (TrimSpace s) = TrimSpace s"
proof -
  let ?a = "dropWhile is_go_space s"
  let ?b = "rev (dropWhile is_go_space (rev ?a))"
  have d: "dropWhile is_go_space (dropWhile is_go_space x) = dropWhile is_go_space x" for x by (induction x) simp_all
  have "dropWhile is_go_space ?b = ?b"
  proof (cases "?b = []")
    case False
    have "?a = ?b @ rev (takeWhile is_go_space (rev ?a))" by (metis rev_append rev_rev_ident takeWhile_dropWhile_id)
    then have "hd ?b = hd ?a" "?a \<noteq> []" using False by (metis hd_append2, metis append_is_Nil_conv)
    then have "\<not> is_go_space (hd ?b)" using hd_dropWhile by metis
    then show ?thesis using False by (cases ?b) simp_all
  qed (metis dropWhile.simps(1))
  then show ?thesis by (simp add: TrimSpace_def d)
qed

lemma Next_trims: "Next LoadLocation Parse (TrimSpace e) z t = Next LoadLocation Parse e z t"
  by (simp add: Next_def TrimSpace_idem)

lemma Next_default: "Next LoadLocation Parse e [] t = Next LoadLocation Parse e (lit ''Asia/Shanghai'') t"
  by (simp add: Next_def)

subsection \<open>Scan schedules\<close>

record schedule =
  sd_ID :: jsstr
  sd_CronExpression :: jsstr
  sd_Timezone :: jsstr
  sd_Request :: go_scan_request
  sd_AgentIDs :: "jsstr list"
  sd_IncludeIPv6 :: bool
  sd_IncludeBlocked :: bool

definition JobRequest :: "schedule \<Rightarrow> go_scan_request \<times> scan_options" where
  "JobRequest s = (sd_Request s, \<lparr>so_ForceLeague = False, so_AgentIDs = sd_AgentIDs s, so_IncludeIPv6 = sd_IncludeIPv6 s,
     so_IncludeBlocked = sd_IncludeBlocked s\<rparr>)"

text \<open>\<open>NextRun\<close> is \<open>Next\<close> with its error as a text.\<close>

record 'w runner =
  StartAutomationRun :: "jsstr \<Rightarrow> jsstr \<Rightarrow> 'w \<Rightarrow> (jsstr + jsstr) \<times> 'w"
  NextRun :: "jsstr \<Rightarrow> jsstr \<Rightarrow> int \<Rightarrow> jsstr + int"
  creator :: "go_scan_request \<Rightarrow> scan_options \<Rightarrow> jsstr \<Rightarrow> 'w \<Rightarrow> (create_error + scan_job) \<times> 'w"
  error_text :: "create_error \<Rightarrow> jsstr"

definition run_schedule :: "'w runner \<Rightarrow> int \<Rightarrow> schedule \<Rightarrow> 'w \<Rightarrow> run_call list \<times> 'w" where
  "run_schedule r now item w =
     (case StartAutomationRun r (lit ''scan_schedule'') (sd_ID item) w of
        (Inl startErr, w) \<Rightarrow> ([], w)
      | (Inr run, w) \<Rightarrow>
          (case NextRun r (sd_CronExpression item) (sd_Timezone item) now of
             Inl nextErr \<Rightarrow> ([Started run (lit ''scan_schedule'') (sd_ID item), Recorded (sd_ID item) None None (Some nextErr),
                 Finished run (lit ''failed'') (Some nextErr)], w)
           | Inr nextRun \<Rightarrow>
               (case creator r (fst (JobRequest item)) (snd (JobRequest item)) (lit ''scheduled'') w of (result, w) \<Rightarrow>
                 (let (status, jobID, recordErr) =
                       (case result of
                          Inr job \<Rightarrow> (lit ''completed'', Some (sj_ID job), None)
                        | Inl e \<Rightarrow> if e = ErrNoLeagueTargetsDue then (lit ''skipped'', None, None)
                            else (lit ''failed'', None, Some (error_text r e)))
                  in ([Started run (lit ''scan_schedule'') (sd_ID item), Finished run status recordErr,
                       Recorded (sd_ID item) (Some nextRun) jobID recordErr], w)))))"

fun run_schedules :: "'w runner \<Rightarrow> int \<Rightarrow> schedule list \<Rightarrow> 'w \<Rightarrow> run_call list \<times> 'w" where
  "run_schedules r now [] w = ([], w)"
| "run_schedules r now (item # items) w =
     (case run_schedule r now item w of (calls, w) \<Rightarrow>
       (case run_schedules r now items w of (calls', w) \<Rightarrow> (calls @ calls', w)))"

text \<open>\<open>claimed\<close> is what \<open>ClaimDueScanSchedules\<close> answers: at most 20 due schedules, moved five minutes on.\<close>

definition RunDueSchedules :: "'w runner \<Rightarrow> int \<Rightarrow> jsstr + schedule list \<Rightarrow> 'w \<Rightarrow> (jsstr + int) \<times> run_call list \<times> 'w" where
  "RunDueSchedules r now claimed w =
     (case claimed of
        Inl e \<Rightarrow> (Inl e, [], w)
      | Inr items \<Rightarrow> (case run_schedules r now items w of (calls, w) \<Rightarrow> (Inr (int (length items)), calls, w)))"

text \<open>The run the console starts: the league is planned whether due or not, and the next instant stays.\<close>

definition runScheduleNow :: "'w runner \<Rightarrow> schedule \<Rightarrow> 'w \<Rightarrow> (jsstr + scan_job) \<times> run_call list \<times> 'w" where
  "runScheduleNow r item w =
     (case StartAutomationRun r (lit ''scan_schedule'') (sd_ID item) w of
        (Inl startErr, w) \<Rightarrow> (Inl startErr, [], w)
      | (Inr run, w) \<Rightarrow>
          (case creator r (fst (JobRequest item)) ((snd (JobRequest item))\<lparr>so_ForceLeague := True\<rparr>) (lit ''scheduled'') w of (result, w) \<Rightarrow>
            (let jobID = (case result of Inr job \<Rightarrow> Some (sj_ID job) | Inl e \<Rightarrow> None);
                 runErr = (case result of Inr job \<Rightarrow> None | Inl e \<Rightarrow> Some (error_text r e))
             in (case result of Inr job \<Rightarrow> Inr job | Inl e \<Rightarrow> Inl (error_text r e),
                 [Started run (lit ''scan_schedule'') (sd_ID item), Finished run (lit ''completed'') runErr,
                  Recorded (sd_ID item) None jobID runErr], w))))"

subsection \<open>Rechecks and synchronisations\<close>

record source_schedule =
  ss_Source :: jsstr
  ss_Enabled :: bool
  ss_CronExpression :: jsstr
  ss_Timezone :: jsstr
  ss_RunOnStartup :: bool

record 'w automation =
  au_Start :: "jsstr \<Rightarrow> jsstr \<Rightarrow> 'w \<Rightarrow> (jsstr + jsstr) \<times> 'w"
  au_Finish :: "jsstr \<Rightarrow> jsstr \<Rightarrow> jsstr option \<Rightarrow> 'w \<Rightarrow> jsstr option \<times> 'w"
  au_Next :: "jsstr \<Rightarrow> jsstr \<Rightarrow> int \<Rightarrow> jsstr + int"
  au_Recheck :: "'w \<Rightarrow> (jsstr option \<times> bool) \<times> 'w"
  au_Sync :: "jsstr \<Rightarrow> 'w \<Rightarrow> jsstr option \<times> 'w"
  au_unsupported :: "jsstr \<Rightarrow> jsstr"

text \<open>\<open>au_unsupported\<close> is the text of the error for a source of no known kind.\<close>

text \<open>The part the two kinds of runs share: the work gives its error and the status of the row. The error of a run is
  that of the work or else that of closing the row.\<close>

definition audited_run :: "'w automation \<Rightarrow> jsstr \<Rightarrow> jsstr \<Rightarrow> ('w \<Rightarrow> (jsstr option \<times> jsstr) \<times> 'w) \<Rightarrow> 'w
    \<Rightarrow> jsstr option \<times> run_call list \<times> 'w" where
  "audited_run a kind key work w =
     (case au_Start a kind key w of
        (Inl e, w) \<Rightarrow> (Some e, [], w)
      | (Inr run, w) \<Rightarrow>
          (case work w of ((runErr, status), w) \<Rightarrow>
            (case au_Finish a run status runErr w of (finishErr, w) \<Rightarrow>
              (if finishErr \<noteq> None \<and> runErr = None then finishErr else runErr,
               [Started run kind key, Finished run status runErr], w))))"

definition runBlacklist :: "'w automation \<Rightarrow> 'w \<Rightarrow> jsstr option \<times> run_call list \<times> 'w" where
  "runBlacklist a w = audited_run a (lit ''blacklist_recheck'') (lit ''default'')
     (\<lambda>w. case au_Recheck a w of ((runErr, skipped), w) \<Rightarrow>
        ((runErr, if skipped then lit ''skipped'' else lit ''completed''), w)) w"

definition runSource :: "'w automation \<Rightarrow> source_schedule \<Rightarrow> 'w \<Rightarrow> jsstr option \<times> run_call list \<times> 'w" where
  "runSource a item w = audited_run a (lit ''source_sync'') (ss_Source item)
     (\<lambda>w. if ss_Source item \<in> lit ` {''official'', ''asn'', ''colo''}
        then (case au_Sync a (ss_Source item) w of (runErr, w) \<Rightarrow> ((runErr, lit ''completed''), w))
        else ((Some (au_unsupported a (ss_Source item)), lit ''completed''), w)) w"

text \<open>A due source: an expression without a next instant is recorded as an error and nothing runs.\<close>

definition run_source_due :: "'w automation \<Rightarrow> int \<Rightarrow> source_schedule \<Rightarrow> 'w \<Rightarrow> run_call list \<times> 'w" where
  "run_source_due a now item w =
     (case au_Next a (ss_CronExpression item) (ss_Timezone item) now of
        Inl nextErr \<Rightarrow> ([Recorded (ss_Source item) None None (Some nextErr)], w)
      | Inr next \<Rightarrow> (case runSource a item w of (runErr, calls, w) \<Rightarrow>
          (calls @ [Recorded (ss_Source item) (Some next) None runErr], w)))"

fun run_sources :: "'w automation \<Rightarrow> int \<Rightarrow> source_schedule list \<Rightarrow> 'w \<Rightarrow> run_call list \<times> 'w" where
  "run_sources a now [] w = ([], w)"
| "run_sources a now (item # items) w =
     (case run_source_due a now item w of (calls, w) \<Rightarrow>
       (case run_sources a now items w of (calls', w) \<Rightarrow> (calls @ calls', w)))"

text \<open>What is claimed: perhaps the recheck, given by its expression and zone, and the due sources.\<close>

definition RunDueAutomations :: "'w automation \<Rightarrow> int \<Rightarrow> jsstr + (jsstr \<times> jsstr) option \<Rightarrow> jsstr + source_schedule list \<Rightarrow> 'w
    \<Rightarrow> (int \<times> jsstr option) \<times> run_call list \<times> 'w" where
  "RunDueAutomations a now blacklist sources w =
     (case blacklist of
        Inl e \<Rightarrow> ((0, Some e), [], w)
      | Inr due \<Rightarrow>
          (case (case due of
                   None \<Rightarrow> ([], w)
                 | Some (cron, zone) \<Rightarrow>
                     (case au_Next a cron zone now of
                        Inl nextErr \<Rightarrow> ([Recorded (lit ''default'') None None (Some nextErr)], w)
                      | Inr next \<Rightarrow> (case runBlacklist a w of (runErr, calls, w) \<Rightarrow>
                          (calls @ [Recorded (lit ''default'') (Some next) None runErr], w)))) of (calls, w) \<Rightarrow>
            (let count = (if due = None then 0 else 1) in
             case sources of
               Inl e \<Rightarrow> ((count, Some e), calls, w)
             | Inr items \<Rightarrow> (case run_sources a now items w of (calls', w) \<Rightarrow>
                 ((count + int (length items), None), calls @ calls', w)))))"

definition RunStartup :: "'w automation \<Rightarrow> int \<Rightarrow> jsstr + source_schedule list \<Rightarrow> 'w \<Rightarrow> (jsstr + int) \<times> run_call list \<times> 'w" where
  "RunStartup a now listed w =
     (case listed of
        Inl e \<Rightarrow> (Inl e, [], w)
      | Inr items \<Rightarrow>
          (let items = filter (\<lambda>item. ss_Enabled item \<and> ss_RunOnStartup item) items in
           case run_sources a now items w of (calls, w) \<Rightarrow> (Inr (int (length items)), calls, w)))"

text \<open>The settings and the source of a manual run are read first; reading them may fail.\<close>

definition RunBlacklistNow :: "'w automation \<Rightarrow> jsstr option \<Rightarrow> 'w \<Rightarrow> jsstr option \<times> run_call list \<times> 'w" where
  "RunBlacklistNow a readErr w =
     (if readErr \<noteq> None then (readErr, [], w)
      else case runBlacklist a w of (runErr, calls, w) \<Rightarrow> (runErr, calls @ [Recorded (lit ''default'') None None runErr], w))"

definition RunSourceNow :: "'w automation \<Rightarrow> jsstr + source_schedule \<Rightarrow> 'w \<Rightarrow> jsstr option \<times> run_call list \<times> 'w" where
  "RunSourceNow a read w =
     (case read of
        Inl e \<Rightarrow> (Some e, [], w)
      | Inr item \<Rightarrow> (case runSource a item w of (runErr, calls, w) \<Rightarrow>
          (runErr, calls @ [Recorded (ss_Source item) None None runErr], w)))"

subsection \<open>Every run is closed\<close>

text \<open>Of the calls: a run that was started is finished before the next one starts, and none is left open.\<close>

fun bracketed :: "jsstr option \<Rightarrow> run_call list \<Rightarrow> bool" where
  "bracketed current [] \<longleftrightarrow> current = None"
| "bracketed current (Started run kind key # calls) \<longleftrightarrow> current = None \<and> bracketed (Some run) calls"
| "bracketed current (Finished run status e # calls) \<longleftrightarrow> current = Some run \<and> bracketed None calls"
| "bracketed current (Recorded key nxt job e # calls) \<longleftrightarrow> bracketed current calls"

lemma bracketed_append: "bracketed current xs \<Longrightarrow> bracketed current (xs @ ys) \<longleftrightarrow> bracketed None ys"
  by (induction current xs rule: bracketed.induct) simp_all

lemma bracketed_concat: "\<forall>cs \<in> set css. bracketed None cs \<Longrightarrow> bracketed None (concat css)"
  by (induction css) (simp_all add: bracketed_append)

text \<open>What the calls for one schedule say.\<close>

definition schedule_record :: "'w runner \<Rightarrow> int \<Rightarrow> schedule \<Rightarrow> run_call list \<Rightarrow> bool" where
  "schedule_record r now item cs \<longleftrightarrow> cs = [] \<or>
     (\<exists>run status e nxt job. mset cs = {#Started run (lit ''scan_schedule'') (sd_ID item), Finished run status e, Recorded (sd_ID item) nxt job e#}
        \<and> bracketed None cs
        \<and> nxt = (case NextRun r (sd_CronExpression item) (sd_Timezone item) now of Inl _ \<Rightarrow> None | Inr n \<Rightarrow> Some n)
        \<and> (nxt = None \<longrightarrow> e \<noteq> None) \<and> (job \<noteq> None \<longrightarrow> e = None)
        \<and> run_status status e = (if job \<noteq> None then lit ''completed'' else if e \<noteq> None then lit ''failed'' else lit ''skipped''))"

lemma run_schedule_record:
  assumes "run_schedule r now item w = (cs, w')"
  shows "schedule_record r now item cs"
    and "cs = [] \<longleftrightarrow> isl (fst (StartAutomationRun r (lit ''scan_schedule'') (sd_ID item) w))"
proof -
  let ?kind = "lit ''scan_schedule''" and ?nxt = "NextRun r (sd_CronExpression item) (sd_Timezone item) now"
  obtain start w1 where st: "StartAutomationRun r ?kind (sd_ID item) w = (start, w1)" by fastforce
  have idle: "cs = [] \<and> schedule_record r now item cs" if "start = Inl e" for e
    using assms st that by (simp add: run_schedule_def schedule_record_def)
  have busy: "cs \<noteq> [] \<and> schedule_record r now item cs" if start: "start = Inr run" for run
  proof (cases ?nxt)
    case (Inl e)
    then have "cs = [Started run ?kind (sd_ID item), Recorded (sd_ID item) None None (Some e), Finished run (lit ''failed'') (Some e)]"
      using assms st start by (simp add: run_schedule_def)
    then show ?thesis using Inl unfolding schedule_record_def
      by (intro conjI disjI2 exI [of _ run] exI [of _ "lit ''failed''"] exI [of _ "Some e"] exI [of _ None]) (simp_all add: run_status_def)
  next
    case (Inr n)
    obtain result w2 where cr: "creator r (fst (JobRequest item)) (snd (JobRequest item)) (lit ''scheduled'') w1 = (result, w2)" by fastforce
    obtain status job e where res: "(case result of
        Inr job \<Rightarrow> (lit ''completed'', Some (sj_ID job), None)
      | Inl e \<Rightarrow> if e = ErrNoLeagueTargetsDue then (lit ''skipped'', None, None) else (lit ''failed'', None, Some (error_text r e)))
        = (status, job, e)" by (rule prod_cases3)
    have cs: "cs = [Started run ?kind (sd_ID item), Finished run status e, Recorded (sd_ID item) (Some n) job e]"
      using assms st start Inr cr res by (simp add: run_schedule_def)
    have "(job \<noteq> None \<longrightarrow> e = None)
        \<and> run_status status e = (if job \<noteq> None then lit ''completed'' else if e \<noteq> None then lit ''failed'' else lit ''skipped'')"
      using res by (cases result) (auto simp: run_status_def split: if_splits)
    then show ?thesis using cs Inr unfolding schedule_record_def
      by (intro conjI disjI2 exI [of _ run] exI [of _ status] exI [of _ e] exI [of _ "Some n"] exI [of _ job]) simp_all
  qed
  have "schedule_record r now item cs \<and> (cs = [] \<longleftrightarrow> isl start)"
    using idle busy by (cases start) (simp_all only: isl_def sum.distinct sum.inject, blast+)
  then show "schedule_record r now item cs" "cs = [] \<longleftrightarrow> isl (fst (StartAutomationRun r ?kind (sd_ID item) w))"
    unfolding st by simp_all
qed

lemma run_schedules_record:
  "run_schedules r now items w = (calls, w') \<Longrightarrow> \<exists>css. calls = concat css \<and> list_all2 (schedule_record r now) items css
    \<and> ((\<forall>kind key w. \<not> isl (fst (StartAutomationRun r kind key w))) \<longrightarrow> [] \<notin> set css)"
proof (induction items arbitrary: w calls w')
  case (Cons item items)
  obtain cs w1 where c: "run_schedule r now item w = (cs, w1)" by fastforce
  obtain cs' w2 where c': "run_schedules r now items w1 = (cs', w2)" by fastforce
  from Cons.IH [OF c'] obtain css where css: "cs' = concat css" "list_all2 (schedule_record r now) items css"
    "(\<forall>kind key w. \<not> isl (fst (StartAutomationRun r kind key w))) \<longrightarrow> [] \<notin> set css" by blast
  have "(\<forall>kind key w. \<not> isl (fst (StartAutomationRun r kind key w))) \<longrightarrow> [] \<notin> set (cs # css)"
    using css(3) run_schedule_record(2) [OF c] by auto
  then show ?case using Cons.prems c c' css(1,2) run_schedule_record(1) [OF c]
    by (intro exI [of _ "cs # css"] conjI) simp_all
qed simp

lemma list_all2_right: "list_all2 P xs ys \<Longrightarrow> y \<in> set ys \<Longrightarrow> \<exists>x. P x y"
  by (induction rule: list_all2_induct) auto


text \<open>A runner over a store in memory: the next run is an hour later, the third job finds the league idle.\<close>

definition sample_runner :: "int runner" where
  "sample_runner =
     \<lparr>StartAutomationRun = (\<lambda>kind key w. (Inr (show_int w), w + 1)), NextRun = (\<lambda>cron zone now. Inr (now + 3600)),
      creator = (\<lambda>req opt kind w. (if w = 3 then Inl ErrNoLeagueTargetsDue else Inr \<lparr>sj_ID = show_int w, sj_TotalTargets = 1\<rparr>, w)),
      error_text = (\<lambda>_. lit ''failed'')\<rparr>"

definition sample_schedule :: schedule where
  "sample_schedule = \<lparr>sd_ID = lit ''hourly'', sd_CronExpression = lit ''0 * * * *'', sd_Timezone = lit ''UTC'',
     sd_Request = \<lparr>gs_name = lit ''hourly'', gs_sampling_mode = lit ''league'', gs_target_count = 128, gs_scheme = lit ''https'',
       gs_hostname = lit ''cloudflare.com'', gs_path = lit ''/'', gs_port = 443, gs_attempts = 3, gs_timeout_ms = 5000,
       gs_max_latency_ms = 1000, gs_max_packet_loss = 50, gs_blacklist_minutes = 60\<rparr>,
     sd_AgentIDs = [], sd_IncludeIPv6 = False, sd_IncludeBlocked = False\<rparr>"


text \<open>
  A run the console starts says failed where the scheduler's says skipped: it hands every error on, the league with
  nothing to scan included.
\<close>

lemma manual_run_failed:
  assumes "StartAutomationRun r (lit ''scan_schedule'') (sd_ID item) w = (Inr run, w1)"
    and "creator r (sd_Request item) ((snd (JobRequest item))\<lparr>so_ForceLeague := True\<rparr>) (lit ''scheduled'') w1 = (Inl ErrNoLeagueTargetsDue, w2)"
  shows "fst (snd (runScheduleNow r item w)) = [Started run (lit ''scan_schedule'') (sd_ID item),
      Finished run (lit ''completed'') (Some (error_text r ErrNoLeagueTargetsDue)),
      Recorded (sd_ID item) None None (Some (error_text r ErrNoLeagueTargetsDue))]
    \<and> run_status (lit ''completed'') (Some (error_text r ErrNoLeagueTargetsDue)) = lit ''failed''"
  using assms by (simp add: runScheduleNow_def JobRequest_def run_status_def Let_def)

subsection \<open>Rechecks and synchronisations keep their record\<close>

text \<open>The keys the calls record, and whether each is recorded with the error its run was closed with.\<close>

fun recorded_keys :: "run_call list \<Rightarrow> jsstr list" where
  "recorded_keys [] = []"
| "recorded_keys (Recorded key nxt job e # calls) = key # recorded_keys calls"
| "recorded_keys (Started run kind key # calls) = recorded_keys calls"
| "recorded_keys (Finished run status e # calls) = recorded_keys calls"

fun honest :: "jsstr option \<Rightarrow> run_call list \<Rightarrow> bool" where
  "honest e [] \<longleftrightarrow> e = None"
| "honest e (Started run kind key # calls) \<longleftrightarrow> honest None calls"
| "honest e (Finished run status e' # calls) \<longleftrightarrow> honest e' calls"
| "honest e (Recorded key nxt job e' # calls) \<longleftrightarrow> (e \<noteq> None \<longrightarrow> e' = e) \<and> honest None calls"

lemma recorded_keys_append [simp]: "recorded_keys (xs @ ys) = recorded_keys xs @ recorded_keys ys"
  by (induction xs rule: recorded_keys.induct) simp_all

lemma honest_append: "honest e xs \<Longrightarrow> honest e (xs @ ys) \<longleftrightarrow> honest None ys"
  by (induction e xs rule: honest.induct) simp_all

definition kept :: "jsstr list \<Rightarrow> run_call list \<Rightarrow> bool" where
  "kept keys calls \<longleftrightarrow> recorded_keys calls = keys \<and> bracketed None calls \<and> honest None calls"

lemma kept_Nil [simp]: "kept [] []" and kept_one [simp]: "kept [key] [Recorded key nxt job e]"
  by (simp_all add: kept_def)

lemma kept_append: "kept ks xs \<Longrightarrow> kept ls ys \<Longrightarrow> kept (ks @ ls) (xs @ ys)"
  by (simp add: kept_def bracketed_append honest_append)

text \<open>A run, closed or never opened, and then the record of its error.\<close>

lemma audited_run_kept:
  "audited_run a kind key work w = (runErr, calls, w') \<Longrightarrow> kept [k] (calls @ [Recorded k nxt job runErr])"
  by (auto simp: audited_run_def kept_def split: prod.splits sum.splits if_splits)

lemma run_source_due_kept: "run_source_due a now item w = (calls, w') \<Longrightarrow> kept [ss_Source item] calls"
  by (auto simp: run_source_due_def runSource_def split: sum.splits prod.splits dest: audited_run_kept)

lemma run_sources_kept: "run_sources a now items w = (calls, w') \<Longrightarrow> kept (map ss_Source items) calls"
proof (induction items arbitrary: w calls w')
  case (Cons item items)
  obtain cs w1 where c: "run_source_due a now item w = (cs, w1)" by fastforce
  obtain cs' w2 where c': "run_sources a now items w1 = (cs', w2)" by fastforce
  have "kept ([ss_Source item] @ map ss_Source items) (cs @ cs')"
    by (rule kept_append [OF run_source_due_kept [OF c] Cons.IH [OF c']])
  then show ?case using Cons.prems c c' by simp
qed simp

lemma recheck_due_kept:
  assumes "(case au_Next a cron zone now of
      Inl nextErr \<Rightarrow> ([Recorded (lit ''default'') None None (Some nextErr)], w)
    | Inr next \<Rightarrow> (case runBlacklist a w of (runErr, calls, w) \<Rightarrow> (calls @ [Recorded (lit ''default'') (Some next) None runErr], w))) = (calls, w')"
  shows "kept [lit ''default''] calls"
  using assms by (auto simp: runBlacklist_def split: sum.splits prod.splits dest: audited_run_kept)

text \<open>The record of rechecks and synchronisations, scheduled, at start-up or by hand: every run that is opened is closed before the next call for another one, each due automation is recorded exactly once and in order, at start-up only the enabled ones that ask for it, and an error that closed a run is the error recorded with its schedule.\<close>

theorem automation_runs_audited:
  "(RunDueAutomations a now (Inr due) (Inr items) w = (answer, calls, w') \<longrightarrow>
      kept ((if due = None then [] else [lit ''default'']) @ map ss_Source items) calls
      \<and> answer = (int (length (recorded_keys calls)), None))
   \<and> (RunStartup a now (Inr items) w = (started, calls, w') \<longrightarrow>
      kept (map ss_Source (filter (\<lambda>item. ss_Enabled item \<and> ss_RunOnStartup item) items)) calls)
   \<and> (RunBlacklistNow a None w = (runErr, calls, w') \<longrightarrow> kept [lit ''default''] calls)
   \<and> (RunSourceNow a (Inr item) w = (runErr, calls, w') \<longrightarrow> kept [ss_Source item] calls)"
proof (intro conjI impI)
  assume r: "RunDueAutomations a now (Inr due) (Inr items) w = (answer, calls, w')"
  obtain cs w1 where c: "(case due of None \<Rightarrow> ([], w)
      | Some (cron, zone) \<Rightarrow> (case au_Next a cron zone now of
          Inl nextErr \<Rightarrow> ([Recorded (lit ''default'') None None (Some nextErr)], w)
        | Inr next \<Rightarrow> (case runBlacklist a w of (runErr, calls, w) \<Rightarrow>
            (calls @ [Recorded (lit ''default'') (Some next) None runErr], w)))) = (cs, w1)" by fastforce
  obtain cs' w2 where c': "run_sources a now items w1 = (cs', w2)" by fastforce
  have ans: "answer = ((if due = None then 0 else 1) + int (length items), None)" "calls = cs @ cs'"
    using r c c' by (simp_all add: RunDueAutomations_def Let_def)
  have "kept (if due = None then [] else [lit ''default'']) cs"
  proof (cases due)
    case (Some d)
    then show ?thesis using c recheck_due_kept [where a = a and cron = "fst d" and zone = "snd d" and now = now and w = w and calls = cs and w' = w1] by (simp add: case_prod_beta)
  qed (use c in simp)
  from kept_append [OF this run_sources_kept [OF c']]
  show k: "kept ((if due = None then [] else [lit ''default'']) @ map ss_Source items) calls" using ans(2) by simp
  then show "answer = (int (length (recorded_keys calls)), None)" using ans(1) by (simp add: kept_def)
next
  assume "RunStartup a now (Inr items) w = (started, calls, w')"
  then show "kept (map ss_Source (filter (\<lambda>item. ss_Enabled item \<and> ss_RunOnStartup item) items)) calls"
    by (auto simp: RunStartup_def Let_def split: prod.splits dest: run_sources_kept)
next
  assume "RunBlacklistNow a None w = (runErr, calls, w')"
  then show "kept [lit ''default''] calls"
    by (auto simp: RunBlacklistNow_def runBlacklist_def split: prod.splits dest: audited_run_kept)
next
  assume "RunSourceNow a (Inr item) w = (runErr, calls, w')"
  then show "kept [ss_Source item] calls"
    by (auto simp: RunSourceNow_def runSource_def split: prod.splits dest: audited_run_kept)
qed

definition sample_automation :: "int automation" where
  "sample_automation =
     \<lparr>au_Start = (\<lambda>kind key w. (Inr (show_int w), w + 1)), au_Finish = (\<lambda>run status e w. (None, w)),
      au_Next = (\<lambda>cron zone now. Inr (now + 3600)), au_Recheck = (\<lambda>w. ((None, True), w)),
      au_Sync = (\<lambda>source w. (if source = lit ''asn'' then Some (lit ''timeout'') else None, w)),
      au_unsupported = (\<lambda>source. source)\<rparr>"

theorem automation_runs_audited_witness:
  "\<exists>calls. snd (RunDueAutomations sample_automation 0 (Inr (Some ([], [])))
       (Inr [\<lparr>ss_Source = lit ''asn'', ss_Enabled = True, ss_CronExpression = [], ss_Timezone = [], ss_RunOnStartup = False\<rparr>]) 0) = (calls, 2)
     \<and> kept [lit ''default'', lit ''asn''] calls"
proof -
  let ?items = "[\<lparr>ss_Source = lit ''asn'', ss_Enabled = True, ss_CronExpression = [], ss_Timezone = [], ss_RunOnStartup = False\<rparr>]"
  obtain answer calls w' where r: "RunDueAutomations sample_automation 0 (Inr (Some ([], []))) (Inr ?items) 0 = (answer, calls, w')"
    by (rule prod_cases3)
  have "w' = 2" using r
    by (auto simp: RunDueAutomations_def sample_automation_def runBlacklist_def runSource_def audited_run_def run_source_due_def Let_def)
  with automation_runs_audited [of sample_automation 0 "Some ([], [])" ?items 0 answer calls w'] r
  show ?thesis by (intro exI [of _ calls]) simp
qed

end
