(* ===== verification/Scan_Agent.thy ===== *)
theory Scan_Agent
  imports Server_Contract "HOL-Library.Word" "HOL-Library.Multiset"
begin

unbundle bit_operations_syntax

text \<open>
  The scanning agent (\<open>cmd/agent/main.go\<close>, \<open>internal/probe/probe.go\<close>) and its credential
  (\<open>internal/enrollment/security.go\<close>). The network is a parameter: what one attempt measures is given. The worker
  goroutines of a batch are a step relation, so that every interleaving is covered. Texts are lists of bytes, floats
  rationals.
\<close>

subsection \<open>Credentials\<close>

definition agentTokenPrefix :: jsstr where
  "agentTokenPrefix = lit ''cfa''"

text \<open>\<open>base64.RawURLEncoding\<close>, of the bytes of the random source.\<close>

definition url_char :: "nat \<Rightarrow> nat" where
  "url_char n = (if n < 26 then 65 + n else if n < 52 then 97 + (n - 26) else if n < 62 then 48 + (n - 52) else if n = 62 then 45 else 95)"

fun raw_url :: "nat list \<Rightarrow> jsstr" where
  "raw_url [] = []"
| "raw_url [a] = map url_char [a div 4, a mod 4 * 16]"
| "raw_url [a, b] = map url_char [a div 4, a mod 4 * 16 + b div 16, b mod 16 * 4]"
| "raw_url (a # b # c # r) = map url_char [a div 4, a mod 4 * 16 + b div 16, b mod 16 * 4 + c div 64, c mod 64] @ raw_url r"

definition GenerateSecret :: "8 word list \<Rightarrow> jsstr" where
  "GenerateSecret buffer = raw_url (map unat buffer)"

definition hex_char :: "nat \<Rightarrow> nat" where
  "hex_char n = (if n < 10 then 48 + n else 87 + n)"

definition hex_bytes :: "8 word list \<Rightarrow> jsstr" where
  "hex_bytes bs = concat (map (\<lambda>b. [hex_char (unat b div 16), hex_char (unat b mod 16)]) bs)"

definition GenerateUUID :: "8 word list \<Rightarrow> jsstr" where
  "GenerateUUID buffer =
     (let buffer = buffer[6 := (buffer ! 6 AND 0x0f) OR 0x40];
          buffer = buffer[8 := (buffer ! 8 AND 0x3f) OR 0x80];
          part = (\<lambda>i j. hex_bytes (take (j - i) (drop i buffer)))
      in part 0 4 @ [45] @ part 4 6 @ [45] @ part 6 8 @ [45] @ part 8 10 @ [45] @ part 10 16)"

definition BuildAgentToken :: "jsstr \<Rightarrow> jsstr \<Rightarrow> jsstr" where
  "BuildAgentToken credentialID secret = agentTokenPrefix @ [95] @ credentialID @ [95] @ secret"

definition GenerateCredential :: "8 word list \<Rightarrow> 8 word list \<Rightarrow> jsstr \<times> jsstr \<times> jsstr" where
  "GenerateCredential random1 random2 =
     (let credentialID = GenerateUUID random1; secret = GenerateSecret random2
      in (credentialID, secret, BuildAgentToken credentialID secret))"

definition is_hex :: "nat \<Rightarrow> bool" where
  "is_hex u \<longleftrightarrow> 48 \<le> u \<and> u \<le> 57 \<or> 97 \<le> u \<and> u \<le> 102 \<or> 65 \<le> u \<and> u \<le> 70"

definition LooksLikeUUID :: "jsstr \<Rightarrow> bool" where
  "LooksLikeUUID value \<longleftrightarrow> length value = 36
     \<and> list_all (\<lambda>index. if index \<in> {8, 13, 18, 23} then value ! index = 45 else is_hex (value ! index)) [0..<36]"

text \<open>\<open>strings.SplitN\<close> with three parts: the last one keeps its separators.\<close>

fun split_n :: "nat \<Rightarrow> nat \<Rightarrow> jsstr \<Rightarrow> jsstr list" where
  "split_n c 0 s = []"
| "split_n c (Suc 0) s = [s]"
| "split_n c (Suc (Suc n)) s =
     (case dropWhile (\<lambda>u. u \<noteq> c) s of [] \<Rightarrow> [s] | _ # rest \<Rightarrow> takeWhile (\<lambda>u. u \<noteq> c) s # split_n c (Suc n) rest)"

definition ParseAgentToken :: "jsstr \<Rightarrow> (jsstr \<times> jsstr) option" where
  "ParseAgentToken token =
     (case split_n 95 3 token of
        [a, b, c] \<Rightarrow> if a \<noteq> agentTokenPrefix \<or> \<not> LooksLikeUUID b \<or> TrimSpace c = [] then None else Some (b, c)
      | _ \<Rightarrow> None)"

lemma split_n_three: "95 \<notin> set a \<Longrightarrow> 95 \<notin> set b \<Longrightarrow> split_n 95 3 (a @ 95 # b @ 95 # c) = [a, b, c]"
  by (simp add: numeral_3_eq_3 dropWhile_append takeWhile_append takeWhile_eq_all_conv)

lemma split_n_threeD:
  assumes "split_n 95 3 s = [a, b, c]"
  shows "s = a @ 95 # b @ 95 # c \<and> 95 \<notin> set a \<and> 95 \<notin> set b"
proof -
  have d: "\<exists>p. s = p @ x # r \<and> takeWhile (\<lambda>u. u \<noteq> c) s = p \<and> x = c \<and> c \<notin> set p" if "dropWhile (\<lambda>u. u \<noteq> c) s = x # r" for c s x r
    using that hd_dropWhile [of "\<lambda>u. u \<noteq> c" s] takeWhile_dropWhile_id [of "\<lambda>u. u \<noteq> c" s]
    by (intro exI [of _ "takeWhile (\<lambda>u. u \<noteq> c) s"]) (auto dest: set_takeWhileD)
  obtain x r where x: "dropWhile (\<lambda>u. u \<noteq> 95) s = x # r" "a = takeWhile (\<lambda>u. u \<noteq> 95) s" "split_n 95 2 r = [b, c]"
    using assms by (auto simp: eval_nat_numeral split: list.splits)
  obtain y q where y: "dropWhile (\<lambda>u. u \<noteq> 95) r = y # q" "b = takeWhile (\<lambda>u. u \<noteq> 95) r" "c = q"
    using x(3) by (auto simp: eval_nat_numeral split: list.splits)
  show ?thesis using d [OF x(1)] d [OF y(1)] x(2) y(2,3) by auto
qed

lemma hex_char_ok: "n < 16 \<Longrightarrow> is_hex (hex_char n)"
  by (auto simp: is_hex_def hex_char_def)

lemma byte_bound: "unat (b :: 8 word) < 256"
  using unsigned_less [of b] by simp

lemma nibbles: "is_hex (hex_char (unat (b :: 8 word) div 16))" "is_hex (hex_char (unat b mod 16))"
  using byte_bound [of b] by (auto intro!: hex_char_ok)

lemma hex_bytes_ok: "list_all is_hex (hex_bytes bs)" "length (hex_bytes bs) = 2 * length bs"
  by (induction bs) (simp_all add: hex_bytes_def nibbles)

lemma LooksLikeUUID_iff:
  "LooksLikeUUID v \<longleftrightarrow> length v = 36 \<and> (\<forall>i < 36. if i \<in> {8, 13, 18, 23} then v ! i = 45 else is_hex (v ! i))"
  unfolding LooksLikeUUID_def list_all_iff set_upt by (simp only: atLeastLessThan_iff le0 simp_thms Ball_def)

lemma uuid_parts:
  assumes "length a = 8" "length b = 4" "length c = 4" "length d = 4" "length e = 12"
    "list_all is_hex a" "list_all is_hex b" "list_all is_hex c" "list_all is_hex d" "list_all is_hex e"
  shows "LooksLikeUUID (a @ [45] @ b @ [45] @ c @ [45] @ d @ [45] @ e)"
proof -
  have h: "is_hex (xs ! i)" if "list_all is_hex xs" "i < length xs" for xs i using that by (simp add: list_all_length)
  have "if i \<in> {8, 13, 18, 23} then (a @ [45] @ b @ [45] @ c @ [45] @ d @ [45] @ e) ! i = 45
      else is_hex ((a @ [45] @ b @ [45] @ c @ [45] @ d @ [45] @ e) ! i)" if i: "i < 36" for i
  proof -
    consider "i < 8" | "i = 8" | "8 < i" "i < 13" | "i = 13" | "13 < i" "i < 18" | "i = 18" | "18 < i" "i < 23" | "i = 23" | "23 < i" "i < 36"
      using i by linarith
    then show ?thesis by cases (auto simp: assms(1-5) nth_append nth_Cons' intro: h [OF assms(6)] h [OF assms(7)] h [OF assms(8)] h [OF assms(9)] h [OF assms(10)])
  qed
  then show ?thesis unfolding LooksLikeUUID_iff using assms(1-5) by (intro conjI) (simp, blast)
qed

lemma GenerateUUID_looks:
  assumes "length buffer = 16"
  shows "LooksLikeUUID (GenerateUUID buffer)"
  unfolding GenerateUUID_def Let_def by (rule uuid_parts) (simp_all add: assms hex_bytes_ok)

lemma LooksLikeUUID_plain: "LooksLikeUUID s \<Longrightarrow> 95 \<notin> set s"
proof
  assume l: "LooksLikeUUID s" "95 \<in> set s"
  then obtain i where i: "i < 36" "s ! i = 95" by (metis LooksLikeUUID_iff in_set_conv_nth)
  have "if i \<in> {8, 13, 18, 23} then s ! i = 45 else is_hex (s ! i)" using l(1) i(1) unfolding LooksLikeUUID_iff by blast
  then show False using i(2) by (simp add: is_hex_def split: if_splits)
qed

lemma url_char_range: "45 \<le> url_char n" "url_char n \<le> 122"
  by (auto simp: url_char_def)

lemma raw_url_char: "\<forall>u \<in> set (raw_url bs). 45 \<le> u \<and> u \<le> 122"
  by (induction bs rule: raw_url.induct) (simp_all add: url_char_range)

lemma raw_url_length: "length (raw_url bs) = 4 * (length bs div 3) + (if length bs mod 3 = 0 then 0 else length bs mod 3 + 1)"
  by (induction bs rule: raw_url.induct) simp_all

lemma secret_ok: "length bs = 32 \<Longrightarrow> length (GenerateSecret bs) = 43 \<and> TrimSpace (GenerateSecret bs) = GenerateSecret bs"
proof -
  have "\<forall>u \<in> set (GenerateSecret bs). \<not> is_go_space u"
    using raw_url_char [of "map unat bs"] unfolding GenerateSecret_def by (force simp: is_go_space_def is_ws_def)
  then show "length bs = 32 \<Longrightarrow> length (GenerateSecret bs) = 43 \<and> TrimSpace (GenerateSecret bs) = GenerateSecret bs"
    using TrimSpace_no_space by (simp add: GenerateSecret_def raw_url_length)
qed

text \<open>C30. The credential of an agent: from any 16 and 32 random bytes the generator makes an identifier that passes the server's test and a secret of 43 characters, and the token built of them parses to exactly these two, also when the secret itself holds underscores. Conversely a token that parses is the one built of its parts: nothing is lost or normalised on the way.\<close>

theorem agent_token_round_trip:
  "(length random1 = 16 \<and> length random2 = 32 \<and> GenerateCredential random1 random2 = (credentialID, secret, token) \<longrightarrow>
      ParseAgentToken token = Some (credentialID, secret) \<and> LooksLikeUUID credentialID \<and> length secret = 43)
   \<and> (ParseAgentToken token' = Some (i, s) \<longrightarrow> token' = BuildAgentToken i s \<and> LooksLikeUUID i)"
proof (intro conjI impI)
  assume h: "length random1 = 16 \<and> length random2 = 32 \<and> GenerateCredential random1 random2 = (credentialID, secret, token)"
  then have c: "credentialID = GenerateUUID random1" "secret = GenerateSecret random2" "token = BuildAgentToken credentialID secret"
    by (auto simp: GenerateCredential_def Let_def)
  show u: "LooksLikeUUID credentialID" using GenerateUUID_looks h c(1) by simp
  show l: "length secret = 43" using secret_ok h c(2) by simp
  have "TrimSpace secret \<noteq> []" using secret_ok [of random2] h l unfolding c(2) by auto
  moreover have "split_n 95 3 token = [agentTokenPrefix, credentialID, secret]"
    unfolding c(3) BuildAgentToken_def
    using split_n_three [of agentTokenPrefix credentialID secret] LooksLikeUUID_plain [OF u] by (simp add: agentTokenPrefix_def lit_def)
  ultimately show "ParseAgentToken token = Some (credentialID, secret)" using u by (simp add: ParseAgentToken_def)
next
  assume "ParseAgentToken token' = Some (i, s)"
  then have p: "split_n 95 3 token' = [agentTokenPrefix, i, s]" "LooksLikeUUID i"
    by (auto simp: ParseAgentToken_def split: list.splits if_splits)
  then show "token' = BuildAgentToken i s" "LooksLikeUUID i" using split_n_threeD [OF p(1)] by (simp_all add: BuildAgentToken_def)
qed

theorem agent_token_round_trip_witness:
  "ParseAgentToken (snd (snd (GenerateCredential (replicate 16 7) (replicate 32 255))))
     = Some (GenerateUUID (replicate 16 7), GenerateSecret (replicate 32 255))"
  using agent_token_round_trip [of "replicate 16 7" "replicate 32 255" "GenerateUUID (replicate 16 7)" "GenerateSecret (replicate 32 255)"
      "BuildAgentToken (GenerateUUID (replicate 16 7)) (GenerateSecret (replicate 32 255))" "[]" "[]" "[]"]
  by (simp add: GenerateCredential_def Let_def)

subsection \<open>A probe\<close>

record attempt_result =
  ar_TCPConnectMS :: rat
  ar_TLSHandshakeMS :: rat
  ar_TTFBMS :: rat
  ar_TotalMS :: rat
  ar_HTTPStatus :: int
  ar_HTTPVersion :: jsstr
  ar_TLSVersion :: jsstr
  ar_Colo :: jsstr
  ar_CFRay :: jsstr

record probe_result =
  pr_TaskID :: int
  pr_TargetIP :: jsstr
  pr_Available :: bool
  pr_LatencyMS :: rat
  pr_PacketLoss :: rat
  pr_TCPConnectMS :: rat
  pr_TLSHandshakeMS :: rat
  pr_TTFBMS :: rat
  pr_TotalMS :: rat
  pr_HTTPStatus :: int
  pr_HTTPVersion :: jsstr
  pr_TLSVersion :: jsstr
  pr_Colo :: jsstr
  pr_CFRay :: jsstr
  pr_ErrorCode :: jsstr
  pr_ErrorMessage :: jsstr
  pr_SuccessfulTries :: int
  pr_Attempts :: int

text \<open>An error is its text, with what the first \<open>net.Error\<close> in its chain answers to \<open>Timeout\<close>, if there is one.\<close>

record probe_error =
  pe_Error :: jsstr
  pe_Timeout :: "bool option"

definition go_contains :: "jsstr \<Rightarrow> jsstr \<Rightarrow> bool" where
  "go_contains s sub \<longleftrightarrow> list_ex (\<lambda>i. starts_with (drop i s) sub) [0..<Suc (length s)]"

definition classifyError :: "(jsstr \<Rightarrow> jsstr) \<Rightarrow> probe_error \<Rightarrow> jsstr" where
  "classifyError ToLower err =
     (if go_contains (ToLower (pe_Error err)) (lit ''timeout'') \<or> go_contains (ToLower (pe_Error err)) (lit ''deadline exceeded'')
      then lit ''TIMEOUT''
      else case pe_Timeout err of
        Some True \<Rightarrow> lit ''TIMEOUT''
      | Some False \<Rightarrow> lit ''NETWORK_ERROR''
      | None \<Rightarrow> if go_contains (pe_Error err) (lit ''HTTP status'') then lit ''HTTP_ERROR'' else lit ''PROBE_ERROR'')"

definition parseColo :: "(jsstr \<Rightarrow> jsstr) \<Rightarrow> jsstr \<Rightarrow> jsstr \<Rightarrow> jsstr" where
  "parseColo ToUpper body cfRay =
     (let prefix = lit ''colo='';
          values = [ToUpper (TrimSpace (drop 5 (TrimSpace line))). line \<leftarrow> split_on 10 body, starts_with (TrimSpace line) prefix]
      in case filter (\<lambda>value. length value = 3) values of
           value # _ \<Rightarrow> value
         | [] \<Rightarrow>
             (let tail = last (split_on 45 cfRay)
              in if 45 \<in> set cfRay \<and> length tail = 3 then ToUpper tail else []))"

definition truncate_text :: "jsstr \<Rightarrow> nat \<Rightarrow> jsstr" where
  "truncate_text value limit = (if length value \<le> limit then value else take limit value)"

text \<open>The loop: the result so far, with the last error and its code.\<close>

fun probe_loop :: "(jsstr \<Rightarrow> jsstr) \<Rightarrow> (probe_error + attempt_result) list \<Rightarrow> probe_result \<times> (probe_error \<times> jsstr) option
    \<Rightarrow> probe_result \<times> (probe_error \<times> jsstr) option" where
  "probe_loop ToLower [] state = state"
| "probe_loop ToLower (Inl err # attempts) (result, failure) = probe_loop ToLower attempts (result, Some (err, classifyError ToLower err))"
| "probe_loop ToLower (Inr attempt # attempts) (result, failure) = probe_loop ToLower attempts
     (result\<lparr>pr_SuccessfulTries := pr_SuccessfulTries result + 1,
        pr_TCPConnectMS := pr_TCPConnectMS result + ar_TCPConnectMS attempt,
        pr_TLSHandshakeMS := pr_TLSHandshakeMS result + ar_TLSHandshakeMS attempt,
        pr_TTFBMS := pr_TTFBMS result + ar_TTFBMS attempt,
        pr_TotalMS := pr_TotalMS result + ar_TotalMS attempt,
        pr_HTTPStatus := ar_HTTPStatus attempt, pr_HTTPVersion := ar_HTTPVersion attempt, pr_TLSVersion := ar_TLSVersion attempt,
        pr_Colo := (if ar_Colo attempt \<noteq> [] then ar_Colo attempt else pr_Colo result),
        pr_CFRay := (if ar_CFRay attempt \<noteq> [] then ar_CFRay attempt else pr_CFRay result)\<rparr>, failure)"

text \<open>\<open>attempt\<close> gives what the attempt of a number measures. The sums are kept in the fields that become the means.\<close>

definition Run :: "(jsstr \<Rightarrow> jsstr) \<Rightarrow> int \<Rightarrow> jsstr \<Rightarrow> int \<Rightarrow> (nat \<Rightarrow> probe_error + attempt_result) \<Rightarrow> probe_result" where
  "Run ToLower taskID targetIP attempts attempt =
     (let attempts = (if attempts < 1 then 1 else attempts);
          result = \<lparr>pr_TaskID = taskID, pr_TargetIP = targetIP, pr_Available = False, pr_LatencyMS = 0, pr_PacketLoss = 0,
            pr_TCPConnectMS = 0, pr_TLSHandshakeMS = 0, pr_TTFBMS = 0, pr_TotalMS = 0, pr_HTTPStatus = 0, pr_HTTPVersion = [],
            pr_TLSVersion = [], pr_Colo = [], pr_CFRay = [], pr_ErrorCode = [], pr_ErrorMessage = [], pr_SuccessfulTries = 0,
            pr_Attempts = attempts\<rparr>;
          (result, failure) = probe_loop ToLower (map attempt [0..<nat attempts]) (result, None);
          result = result\<lparr>pr_PacketLoss := of_int (attempts - pr_SuccessfulTries result) / of_int attempts * 100,
            pr_Available := (pr_SuccessfulTries result > 0)\<rparr>
      in if pr_SuccessfulTries result > 0 then
           (let divisor = of_int (pr_SuccessfulTries result)
            in result\<lparr>pr_TCPConnectMS := pr_TCPConnectMS result / divisor, pr_TLSHandshakeMS := pr_TLSHandshakeMS result / divisor,
                 pr_TTFBMS := pr_TTFBMS result / divisor, pr_TotalMS := pr_TotalMS result / divisor,
                 pr_LatencyMS := pr_TTFBMS result / divisor\<rparr>)
         else case failure of
           None \<Rightarrow> result
         | Some (err, code) \<Rightarrow> result\<lparr>pr_ErrorCode := code, pr_ErrorMessage := truncate_text (pe_Error err) 500\<rparr>)"

definition successes :: "(probe_error + attempt_result) list \<Rightarrow> attempt_result list" where
  "successes xs = concat (map (\<lambda>x. case x of Inl _ \<Rightarrow> [] | Inr a \<Rightarrow> [a]) xs)"

definition failures :: "(probe_error + attempt_result) list \<Rightarrow> probe_error list" where
  "failures xs = concat (map (\<lambda>x. case x of Inl e \<Rightarrow> [e] | Inr _ \<Rightarrow> []) xs)"

lemma successes_simps [simp]:
  "successes [] = []" "successes (Inl e # xs) = successes xs" "successes (Inr a # xs) = a # successes xs"
  "failures [] = []" "failures (Inl e # xs) = e # failures xs" "failures (Inr a # xs) = failures xs"
  by (simp_all add: successes_def failures_def)

lemma success_or_failure: "length (successes xs) + length (failures xs) = length xs"
  by (induction xs) (simp, metis (no_types, lifting) successes_simps add_Suc add_Suc_right length_Cons obj_sumE)

lemma probe_loop_result:
  assumes "probe_loop ToLower xs (r, f) = (r', f')"
  shows "pr_SuccessfulTries r' = pr_SuccessfulTries r + int (length (successes xs))
    \<and> pr_TTFBMS r' = pr_TTFBMS r + sum_list (map ar_TTFBMS (successes xs))
    \<and> pr_TaskID r' = pr_TaskID r \<and> pr_TargetIP r' = pr_TargetIP r \<and> pr_Attempts r' = pr_Attempts r
    \<and> pr_ErrorCode r' = pr_ErrorCode r \<and> pr_ErrorMessage r' = pr_ErrorMessage r \<and> pr_LatencyMS r' = pr_LatencyMS r
    \<and> f' = (if failures xs = [] then f else Some (last (failures xs), classifyError ToLower (last (failures xs))))"
  using assms
proof (induction xs arbitrary: r f)
  case (Cons x xs)
  show ?case
  proof (cases x)
    case (Inl e)
    then have "probe_loop ToLower xs (r, Some (e, classifyError ToLower e)) = (r', f')" using Cons.prems by simp
    from Cons.IH [OF this] show ?thesis using Inl by simp
  next
    case (Inr a)
    from Cons.prems [unfolded Inr probe_loop.simps] show ?thesis using Inr by (auto dest!: Cons.IH)
  qed
qed simp

lemma mean_bounds:
  fixes xs :: "rat list"
  assumes "xs \<noteq> []"
  shows "Min (set xs) \<le> sum_list xs / of_nat (length xs)" "sum_list xs / of_nat (length xs) \<le> Max (set xs)"
proof -
  have "of_nat (length ys) * l \<le> sum_list ys" if "\<forall>y \<in> set ys. l \<le> y" for ys and l :: rat
    using that by (induction ys) (auto simp: algebra_simps)
  moreover have "sum_list ys \<le> of_nat (length ys) * u" if "\<forall>y \<in> set ys. y \<le> u" for ys and u :: rat
    using that by (induction ys) (auto simp: algebra_simps)
  ultimately have "of_nat (length xs) * Min (set xs) \<le> sum_list xs" "sum_list xs \<le> of_nat (length xs) * Max (set xs)" by simp_all
  then show "Min (set xs) \<le> sum_list xs / of_nat (length xs)" "sum_list xs / of_nat (length xs) \<le> Max (set xs)"
    using assms by (simp_all add: field_simps)
qed

definition error_codes :: "jsstr set" where
  "error_codes = lit ` {''TIMEOUT'', ''NETWORK_ERROR'', ''HTTP_ERROR'', ''PROBE_ERROR''}"

lemma classifyError_code: "classifyError ToLower err \<in> error_codes"
  by (auto simp: classifyError_def error_codes_def split: option.split bool.split)

text \<open>The result of a probe: it belongs to its task, at least one attempt is made, the loss is the share of failed attempts in percent, and the target counts as available exactly when an attempt succeeded. Then the latency is the mean time to the first byte, between the fastest and the slowest success, and no error is reported; otherwise latency is 0 and the code is one of four, of the last error, with at most 500 bytes of its text.\<close>

theorem probe_result_sound:
  assumes "n = (if attempts < 1 then 1 else attempts)" "xs = map attempt [0..<nat n]"
  shows "let r = Run ToLower taskID targetIP attempts attempt; ok = map ar_TTFBMS (successes xs)
    in pr_TaskID r = taskID \<and> pr_TargetIP r = targetIP \<and> pr_Attempts r = n \<and> pr_SuccessfulTries r = int (length ok)
      \<and> pr_PacketLoss r = 100 * of_nat (length (failures xs)) / of_int n \<and> 0 \<le> pr_PacketLoss r \<and> pr_PacketLoss r \<le> 100
      \<and> (pr_Available r \<longleftrightarrow> ok \<noteq> []) \<and> (pr_Available r \<longleftrightarrow> pr_PacketLoss r < 100)
      \<and> (if ok \<noteq> [] then pr_LatencyMS r = sum_list ok / of_nat (length ok) \<and> Min (set ok) \<le> pr_LatencyMS r
           \<and> pr_LatencyMS r \<le> Max (set ok) \<and> pr_ErrorCode r = [] \<and> pr_ErrorMessage r = []
         else pr_LatencyMS r = 0 \<and> pr_ErrorCode r = classifyError ToLower (last (failures xs)) \<and> pr_ErrorCode r \<in> error_codes
           \<and> pr_ErrorMessage r = take 500 (pe_Error (last (failures xs))))"
proof -
  have n: "1 \<le> n" "length xs = nat n" using assms by auto
  let ?r0 = "\<lparr>pr_TaskID = taskID, pr_TargetIP = targetIP, pr_Available = False, pr_LatencyMS = 0, pr_PacketLoss = 0,
            pr_TCPConnectMS = 0, pr_TLSHandshakeMS = 0, pr_TTFBMS = 0, pr_TotalMS = 0, pr_HTTPStatus = 0, pr_HTTPVersion = [],
            pr_TLSVersion = [], pr_Colo = [], pr_CFRay = [], pr_ErrorCode = [], pr_ErrorMessage = [], pr_SuccessfulTries = 0,
            pr_Attempts = n\<rparr>"
  obtain r' f' where l: "probe_loop ToLower xs (?r0, None) = (r', f')" by fastforce
  note p = probe_loop_result [OF l, simplified]
  let ?s = "length (successes xs)" and ?k = "length (failures xs)"
  have sk: "n - int ?s = int ?k" "int ?k \<le> n" "int ?k < n \<longleftrightarrow> successes xs \<noteq> []"
    using success_or_failure [of xs] n length_greater_0_conv [of "successes xs"] by linarith+
  have e: "(of_nat ?k :: rat) = of_int (int ?k)" by simp
  have k: "(of_nat ?k :: rat) \<le> of_int n" "(of_nat ?k :: rat) < of_int n \<longleftrightarrow> successes xs \<noteq> []" "(0::rat) < of_int n"
    unfolding e of_int_le_iff of_int_less_iff of_int_0_less_iff using sk(2,3) n(1) by (blast, blast, linarith)
  then have b: "100 * of_nat ?k / (of_int n :: rat) \<le> 100" "100 * of_nat ?k / (of_int n :: rat) < 100 \<longleftrightarrow> successes xs \<noteq> []"
    "0 \<le> 100 * of_nat ?k / (of_int n :: rat)"
    by (simp_all add: divide_le_eq divide_less_eq)
  have loss: "(of_int (n - int ?s) / of_int n * 100 :: rat) = 100 * of_nat ?k / of_int n" unfolding sk(1) by simp
  show ?thesis
  proof (cases "successes xs = []")
    case True
    then have f: "failures xs \<noteq> []" using success_or_failure [of xs] n by auto
    have R: "Run ToLower taskID targetIP attempts attempt = r'\<lparr>pr_PacketLoss := 100 * of_nat ?k / of_int n, pr_Available := False,
        pr_ErrorCode := classifyError ToLower (last (failures xs)), pr_ErrorMessage := truncate_text (pe_Error (last (failures xs))) 500\<rparr>"
      using p f True loss unfolding Run_def assms(1) [symmetric] Let_def assms(2) [symmetric] l by simp
    show ?thesis unfolding Let_def R using p f True b(1,3) classifyError_code b(2) by (simp add: truncate_text_def)
  next
    case False
    have R: "Run ToLower taskID targetIP attempts attempt = r'\<lparr>pr_PacketLoss := 100 * of_nat ?k / of_int n, pr_Available := True,
        pr_TCPConnectMS := pr_TCPConnectMS r' / of_nat ?s, pr_TLSHandshakeMS := pr_TLSHandshakeMS r' / of_nat ?s,
        pr_TTFBMS := pr_TTFBMS r' / of_nat ?s, pr_TotalMS := pr_TotalMS r' / of_nat ?s, pr_LatencyMS := pr_TTFBMS r' / of_nat ?s\<rparr>"
      using p False loss unfolding Run_def assms(1) [symmetric] Let_def assms(2) [symmetric] l by simp
    have m: "Min (set (map ar_TTFBMS (successes xs))) \<le> sum_list (map ar_TTFBMS (successes xs)) / of_nat ?s"
      "sum_list (map ar_TTFBMS (successes xs)) / of_nat ?s \<le> Max (set (map ar_TTFBMS (successes xs)))"
      using mean_bounds [of "map ar_TTFBMS (successes xs)"] False by simp_all
    show ?thesis unfolding Let_def R using p False b m by simp
  qed
qed

text \<open>Three attempts of which the second one times out.\<close>

definition sample_attempt :: "nat \<Rightarrow> probe_error + attempt_result" where
  "sample_attempt i = (if i = 1 then Inl \<lparr>pe_Error = lit ''i/o timeout'', pe_Timeout = Some True\<rparr>
     else Inr \<lparr>ar_TCPConnectMS = 10, ar_TLSHandshakeMS = 20, ar_TTFBMS = 30 + of_nat i, ar_TotalMS = 40, ar_HTTPStatus = 200,
       ar_HTTPVersion = lit ''HTTP/2.0'', ar_TLSVersion = lit ''TLS 1.3'', ar_Colo = lit ''NRT'', ar_CFRay = []\<rparr>)"

theorem probe_result_sound_witness:
  "let r = Run id 7 (lit ''104.16.0.1'') 3 sample_attempt in pr_Available r \<and> pr_LatencyMS r = 31 \<and> pr_SuccessfulTries r = 2"
proof -
  have xs: "map sample_attempt [0..<nat 3] = [sample_attempt 0, sample_attempt 1, sample_attempt 2]" by (simp add: upt_rec numeral_2_eq_2)
  have s: "map ar_TTFBMS (successes (map sample_attempt [0..<nat 3])) = [30, 32]" unfolding xs by (simp add: sample_attempt_def)
  show ?thesis using probe_result_sound [of 3 3, OF _ refl, of id 7 "lit ''104.16.0.1''" sample_attempt] unfolding Let_def s by simp
qed

subsection \<open>A batch\<close>

record scan_task =
  tk_ID :: int
  tk_TargetIP :: jsstr

text \<open>
  The state of \<open>runBatch\<close>: the tasks the feeder has not sent, the workers that wait, the tasks that workers probe, the
  results in the buffered channel, whether the context is done, whether the channel of tasks is closed, and the workers
  that have returned. A hand-over needs a waiting worker, for the channel of tasks has no buffer; when the context is
  done as well the feeder may do either. The probes end in any order and their outcome is open but for the task.
\<close>

record batch_state =
  bs_pending :: "scan_task list"
  bs_idle :: nat
  bs_busy :: "scan_task multiset"
  bs_results :: "probe_result list"
  bs_cancelled :: bool
  bs_closed :: bool
  bs_exited :: nat

definition batch_workers :: "int \<Rightarrow> scan_task list \<Rightarrow> nat" where
  "batch_workers concurrency tasks =
     (let c = (if concurrency < 1 then 1 else concurrency) in nat (if c > int (length tasks) then int (length tasks) else c))"

definition batch_start :: "int \<Rightarrow> scan_task list \<Rightarrow> batch_state" where
  "batch_start concurrency tasks = \<lparr>bs_pending = tasks, bs_idle = batch_workers concurrency tasks, bs_busy = {#}, bs_results = [],
     bs_cancelled = False, bs_closed = False, bs_exited = 0\<rparr>"

inductive batch_step :: "batch_state \<Rightarrow> batch_state \<Rightarrow> bool" where
  send: "bs_pending s = t # ts \<Longrightarrow> \<not> bs_closed s \<Longrightarrow> bs_idle s = Suc n \<Longrightarrow>
    batch_step s (s\<lparr>bs_pending := ts, bs_idle := n, bs_busy := add_mset t (bs_busy s)\<rparr>)"
| probed: "bs_busy s = add_mset t b \<Longrightarrow> pr_TaskID r = tk_ID t \<Longrightarrow> pr_TargetIP r = tk_TargetIP t \<Longrightarrow>
    batch_step s (s\<lparr>bs_busy := b, bs_idle := Suc (bs_idle s), bs_results := bs_results s @ [r]\<rparr>)"
| cancel: "\<not> bs_cancelled s \<Longrightarrow> batch_step s (s\<lparr>bs_cancelled := True\<rparr>)"
| give_up: "bs_pending s \<noteq> [] \<Longrightarrow> bs_cancelled s \<Longrightarrow> \<not> bs_closed s \<Longrightarrow> batch_step s (s\<lparr>bs_closed := True\<rparr>)"
| all_sent: "bs_pending s = [] \<Longrightarrow> \<not> bs_closed s \<Longrightarrow> batch_step s (s\<lparr>bs_closed := True\<rparr>)"
| leave: "bs_closed s \<Longrightarrow> bs_idle s = Suc n \<Longrightarrow> batch_step s (s\<lparr>bs_idle := n, bs_exited := Suc (bs_exited s)\<rparr>)"

inductive_cases batch_stepE: "batch_step s s'"

text \<open>\<open>wg.Wait\<close> returns when every worker has; then the results are read off.\<close>

definition batch_done :: "nat \<Rightarrow> batch_state \<Rightarrow> bool" where
  "batch_done workers s \<longleftrightarrow> bs_exited s = workers"

definition task_keys :: "scan_task multiset \<Rightarrow> (int \<times> jsstr) multiset" where
  "task_keys = image_mset (\<lambda>t. (tk_ID t, tk_TargetIP t))"

definition result_keys :: "probe_result list \<Rightarrow> (int \<times> jsstr) multiset" where
  "result_keys rs = mset (map (\<lambda>r. (pr_TaskID r, pr_TargetIP r)) rs)"

definition batch_inv :: "scan_task list \<Rightarrow> nat \<Rightarrow> batch_state \<Rightarrow> bool" where
  "batch_inv tasks workers s \<longleftrightarrow>
     task_keys (mset (bs_pending s)) + task_keys (bs_busy s) + result_keys (bs_results s) = task_keys (mset tasks)
     \<and> bs_idle s + size (bs_busy s) + bs_exited s = workers
     \<and> (bs_closed s \<and> \<not> bs_cancelled s \<longrightarrow> bs_pending s = [])
     \<and> (0 < bs_exited s \<longrightarrow> bs_closed s)
     \<and> (\<exists>sent. tasks = sent @ bs_pending s)"

lemma batch_inv_start: "batch_inv tasks (batch_workers c tasks) (batch_start c tasks)"
  by (simp add: batch_inv_def batch_start_def task_keys_def result_keys_def)

lemma batch_inv_step:
  assumes "batch_inv tasks workers s" "batch_step s s'"
  shows "batch_inv tasks workers s'"
  using assms(2,1)
proof cases
  case (send t ts n)
  then show ?thesis using assms(1) by (auto simp: batch_inv_def task_keys_def)
next
  case (probed t b r)
  then show ?thesis using assms(1) by (auto simp: batch_inv_def task_keys_def result_keys_def)
qed (auto simp: batch_inv_def)

lemma batch_inv_reach: "batch_step\<^sup>*\<^sup>* s s' \<Longrightarrow> batch_inv tasks workers s \<Longrightarrow> batch_inv tasks workers s'"
  by (induction rule: rtranclp_induct) (auto intro: batch_inv_step)

text \<open>What is left to do goes down with every step.\<close>

definition batch_left :: "batch_state \<Rightarrow> nat" where
  "batch_left s = 2 * length (bs_pending s) + size (bs_busy s) + (bs_idle s + size (bs_busy s))
     + (if bs_closed s then 0 else 1) + (if bs_cancelled s then 0 else 1)"

lemma batch_left_step: "batch_step s s' \<Longrightarrow> batch_left s' < batch_left s"
  by (induction rule: batch_step.induct) (auto simp: batch_left_def)

lemma batch_steps_bounded: "(batch_step ^^ n) s s' \<Longrightarrow> n + batch_left s' \<le> batch_left s"
proof (induction n arbitrary: s')
  case (Suc n)
  then obtain s1 where "(batch_step ^^ n) s s1" "batch_step s1 s'" by auto
  then show ?case using Suc.IH batch_left_step by fastforce
qed simp

lemma batch_progress:
  assumes "batch_inv tasks workers s" "\<not> batch_done workers s"
  shows "\<exists>s'. batch_step s s'"
proof (cases "bs_busy s = {#}")
  case False
  then obtain t b where "bs_busy s = add_mset t b" by (metis multi_nonempty_split)
  from batch_step.probed [OF this, of "probe_result.make (tk_ID t) (tk_TargetIP t) False 0 0 0 0 0 0 0 [] [] [] [] [] [] 0 1"]
  show ?thesis by (auto simp: probe_result.make_def)
next
  case True
  then have "bs_idle s \<noteq> 0" using assms by (auto simp: batch_inv_def batch_done_def)
  then obtain n where n: "bs_idle s = Suc n" by (cases "bs_idle s") auto
  show ?thesis
  proof (cases "bs_closed s")
    case True
    then show ?thesis using batch_step.leave n by blast
  next
    case False
    then show ?thesis using batch_step.send [of s _ _ n] batch_step.all_sent n by (cases "bs_pending s") blast+
  qed
qed


definition sample_task :: scan_task where
  "sample_task = \<lparr>tk_ID = 1, tk_TargetIP = lit ''104.16.0.1''\<rparr>"


end
